(* ===== verification/EventSystem.thy ===== *)
theory EventSystem
  imports Main
begin

text \<open>
  State machines: the states reachable by a step relation, invariants, and the simulation of
  a detailed machine by an abstract one. The money and stock theories interpret the locales
  on the transactions of the mall.
\<close>

inductive reachable :: "('s \<Rightarrow> bool) \<Rightarrow> ('s \<Rightarrow> 's \<Rightarrow> bool) \<Rightarrow> 's \<Rightarrow> bool"
  for init :: "'s \<Rightarrow> bool" and step :: "'s \<Rightarrow> 's \<Rightarrow> bool" where
  reachable_init: "init s \<Longrightarrow> reachable init step s"
| reachable_step: "reachable init step s \<Longrightarrow> step s s' \<Longrightarrow> reachable init step s'"

lemma reachable_star:
  assumes "rtranclp step s s'" and "reachable init step s"
  shows "reachable init step s'"
  using assms by (induction rule: rtranclp_induct) (auto intro: reachable_step)

text \<open>A relation between the states before and after that is reflexive and transitive holds
  along every run when it holds of every step.\<close>

lemma star_rel:
  assumes "rtranclp step s s'" and "\<And>s. R s s" and "\<And>s t u. R s t \<Longrightarrow> R t u \<Longrightarrow> R s u"
    and "\<And>s t. step s t \<Longrightarrow> R s t"
  shows "R s s'"
  using assms(1) by (induction rule: rtranclp_induct) (use assms(2-) in blast)+

locale invariant_system =
  fixes init :: "'s \<Rightarrow> bool"
    and step :: "'s \<Rightarrow> 's \<Rightarrow> bool"
    and inv :: "'s \<Rightarrow> bool"
  assumes inv_init: "init s \<Longrightarrow> inv s"
    and inv_step: "inv s \<Longrightarrow> step s s' \<Longrightarrow> inv s'"
begin

lemma inv_reachable: "reachable init step s \<Longrightarrow> inv s"
  by (induction rule: reachable.induct) (auto intro: inv_init inv_step)

lemma inv_star: "rtranclp step s s' \<Longrightarrow> inv s \<Longrightarrow> inv s'"
  by (induction rule: rtranclp_induct) (auto intro: inv_step)

end

text \<open>
  A detailed machine with its own invariant \<open>cinv\<close> whose every step is a run of the abstract
  machine. The simulation may use both invariants.
\<close>

locale simulation = invariant_system init step inv
  for init :: "'a \<Rightarrow> bool" and step :: "'a \<Rightarrow> 'a \<Rightarrow> bool" and inv :: "'a \<Rightarrow> bool" +
  fixes cinit :: "'c \<Rightarrow> bool"
    and cstep :: "'c \<Rightarrow> 'c \<Rightarrow> bool"
    and cinv :: "'c \<Rightarrow> bool"
    and absf :: "'c \<Rightarrow> 'a"
  assumes cinv_init: "cinit c \<Longrightarrow> cinv c"
    and abs_init: "cinit c \<Longrightarrow> init (absf c)"
    and cinv_step: "cinv c \<Longrightarrow> inv (absf c) \<Longrightarrow> cstep c c' \<Longrightarrow> cinv c'"
    and sim_step: "cinv c \<Longrightarrow> inv (absf c) \<Longrightarrow> cstep c c' \<Longrightarrow> rtranclp step (absf c) (absf c')"
begin

lemma sim_invariants: "reachable cinit cstep c \<Longrightarrow> cinv c \<and> inv (absf c)"
proof (induction rule: reachable.induct)
  case (reachable_init s)
  then show ?case by (simp add: cinv_init abs_init inv_init)
next
  case (reachable_step s s')
  then have "rtranclp step (absf s) (absf s')" using sim_step by blast
  then have "inv (absf s')" using reachable_step.IH inv_star by blast
  moreover have "cinv s'" using reachable_step cinv_step by blast
  ultimately show ?case by simp
qed

lemma sim_reachable: "reachable cinit cstep c \<Longrightarrow> reachable init step (absf c)"
proof (induction rule: reachable.induct)
  case (reachable_init s)
  then show ?case by (simp add: abs_init reachable.reachable_init)
next
  case (reachable_step s s')
  have "cinv s" "inv (absf s)" using sim_invariants reachable_step.hyps(1) by auto
  then have "rtranclp step (absf s) (absf s')" using sim_step reachable_step.hyps(2) by blast
  then show ?case using reachable_step.IH by (rule reachable_star)
qed

lemma sim_star:
  assumes "rtranclp cstep c c'" and "reachable cinit cstep c"
  shows "rtranclp step (absf c) (absf c') \<and> reachable cinit cstep c'"
  using assms
proof (induction rule: rtranclp_induct)
  case base
  then show ?case by simp
next
  case (step d e)
  then have r: "rtranclp step (absf c) (absf d)" "reachable cinit cstep d" by auto
  have "cinv d" "inv (absf d)" using sim_invariants r(2) by auto
  then have "rtranclp step (absf d) (absf e)" using sim_step step.hyps(2) by blast
  then show ?case using rtranclp_trans [OF r(1)] reachable.reachable_step [OF r(2) step.hyps(2)] by simp
qed

end

end
