(* ===== verification/Prelude.thy ===== *)
theory Prelude
  imports Main "HOL-Library.Product_Lexorder"
begin

text \<open>
  The prelude of the development: Go's fixed-width integers, the error values of the
  services, the transaction combinators, and keyed tables.

  A repository method of the mall runs inside a PostgreSQL transaction
  (\<^verbatim>\<open>TxManager.InTx\<close>, app/mall/internal/data/transaction.go): it either commits with a
  result or returns an error and leaves the database as it was. A transaction body is
  therefore a function from the state to \<open>error + (result \<times> state)\<close>; \<open>Inl\<close> carries no
  state because the rollback discards it. The query \<^verbatim>\<open>pgx.ErrNoRows\<close> is an ordinary error
  value that does not abort the transaction, so the bodies can catch it and go on.
\<close>

named_theorems tx_simps \<open>unfolding rules of the transaction combinators\<close>
named_theorems sql_defs \<open>definitions of the SQL statements\<close>

section \<open>Fixed-width integers\<close>

definition MaxInt32 :: int where
  "MaxInt32 = 2147483647"

definition MaxInt64 :: int where
  "MaxInt64 = 9223372036854775807"

definition wrap64 :: "int \<Rightarrow> int" where
  "wrap64 x = (x + 2 ^ 63) mod 2 ^ 64 - 2 ^ 63"

definition wrap32 :: "int \<Rightarrow> int" where
  "wrap32 x = (x + 2 ^ 31) mod 2 ^ 32 - 2 ^ 31"

definition int64_range :: "int \<Rightarrow> bool" where
  "int64_range x \<longleftrightarrow> - (2 ^ 63) \<le> x \<and> x < 2 ^ 63"

definition int32_range :: "int \<Rightarrow> bool" where
  "int32_range x \<longleftrightarrow> - (2 ^ 31) \<le> x \<and> x < 2 ^ 31"

lemma wrap64_id: "int64_range x \<Longrightarrow> wrap64 x = x"
  by (simp add: wrap64_def int64_range_def)

lemma wrap32_id: "int32_range x \<Longrightarrow> wrap32 x = x"
  by (simp add: wrap32_def int32_range_def)

lemma wrap64_range: "int64_range (wrap64 x)"
  unfolding wrap64_def int64_range_def
  using pos_mod_bound [of "2 ^ 64" "x + 2 ^ 63"] pos_mod_sign [of "2 ^ 64" "x + 2 ^ 63"]
  by simp

text \<open>Go's integer division truncates towards zero; on non-negative operands it is \<open>div\<close>.\<close>

definition go_div :: "int \<Rightarrow> int \<Rightarrow> int" where
  "go_div a b = sgn a * sgn b * (\<bar>a\<bar> div \<bar>b\<bar>)"

lemma go_div_nonneg: "0 \<le> a \<Longrightarrow> 0 < b \<Longrightarrow> go_div a b = a div b"
  by (cases "a = 0") (simp_all add: go_div_def sgn_if)

section \<open>Errors\<close>

text \<open>
  The errors of the services: \<^verbatim>\<open>pgx.ErrNoRows\<close>, the PostgreSQL errors the code looks at
  (a unique violation with its constraint, a check violation, an integer out of range), the
  named errors of the biz layer, and the unnamed ones with their kratos reason.
\<close>

datatype error =
    ErrNoRows
  | UniqueViolation string
  | CheckViolation string
  | ForeignKeyViolation string
  | NumericOutOfRange
  | ErrPaymentConflict
  | ErrPaymentNotFound
  | ErrPaymentStateConflict
  | ErrPaymentNotificationBinding
  | ErrPaymentProviderUnavailable
  | ErrPaymentPrepayInProgress
  | ErrPaymentReconciliationRequired
  | ErrOrderExpired
  | ErrProviderTradeStateConflict
  | ErrProviderOrderNotExist
  | ErrPaymentDescriptionTooLong
  | ErrOrderNotFound
  | ErrAddressNotFound
  | ErrProductNotFound
  | ErrInsufficientStock
  | ErrOrderCannotCancel
  | ErrOrderHasActivePayment
  | ErrOrderAlreadyPaid
  | ErrOrderNoCollision
  | ErrOrderInputInvalid
  | ErrOrderTooManyItems
  | ErrOrderQuantityInvalid
  | ErrOrderAmountInvalid
  | ErrOrderNotExpired
  | ErrIdempotencyKeyRequired
  | ErrIdempotencyKeyInvalid
  | ErrIdempotencyKeyConflict
  | ErrIdempotencyKeyReused
  | ErrOrderFulfillmentConflict
  | ErrReconciliationConflict
  | BadRequest string
  | Unauthorized string
  | Forbidden string
  | NotFound string
  | Conflict string
  | InternalServer string
  | ServiceUnavailable string
  | ErrUserLoginLocked int
  | StatusError nat string
  | Errorf string

section \<open>Transactions\<close>

type_synonym ('s, 'a) tx = "'s \<Rightarrow> error + ('a \<times> 's)"

definition tx_return :: "'a \<Rightarrow> ('s, 'a) tx" where
  "tx_return x = (\<lambda>s. Inr (x, s))"

definition tx_throw :: "error \<Rightarrow> ('s, 'a) tx" where
  "tx_throw e = (\<lambda>s. Inl e)"

definition tx_bind :: "('s, 'a) tx \<Rightarrow> ('a \<Rightarrow> ('s, 'b) tx) \<Rightarrow> ('s, 'b) tx" where
  "tx_bind m f = (\<lambda>s. case m s of Inl e \<Rightarrow> Inl e | Inr (x, s') \<Rightarrow> f x s')"

definition tx_seq :: "('s, 'a) tx \<Rightarrow> ('s, 'b) tx \<Rightarrow> ('s, 'b) tx" where
  "tx_seq m k = tx_bind m (\<lambda>_. k)"

definition tx_read :: "('s \<Rightarrow> 'a) \<Rightarrow> ('s, 'a) tx" where
  "tx_read f = (\<lambda>s. Inr (f s, s))"

definition tx_when :: "bool \<Rightarrow> ('s, unit) tx \<Rightarrow> ('s, unit) tx" where
  "tx_when b m = (if b then m else tx_return ())"

text \<open>\<open>if b then return e\<close>: the early return of an error.\<close>

definition tx_fail_if :: "bool \<Rightarrow> error \<Rightarrow> ('s, unit) tx" where
  "tx_fail_if b e = (if b then tx_throw e else tx_return ())"

text \<open>An error value of a pure computation, returned at once.\<close>

definition tx_lift :: "error + 'a \<Rightarrow> ('s, 'a) tx" where
  "tx_lift r = (\<lambda>s. case r of Inl e \<Rightarrow> Inl e | Inr x \<Rightarrow> Inr (x, s))"

text \<open>\<open>errors.Is(err, pgx.ErrNoRows)\<close>, with what the code does then.\<close>

definition tx_on_no_rows :: "('s, 'a) tx \<Rightarrow> ('s, 'a) tx \<Rightarrow> ('s, 'a) tx" where
  "tx_on_no_rows m h = (\<lambda>s. case m s of
      Inl e \<Rightarrow> (if e = ErrNoRows then h s else Inl e)
    | Inr r \<Rightarrow> Inr r)"

text \<open>A row that may be absent: \<open>None\<close> where the query returned \<open>ErrNoRows\<close>.\<close>

definition tx_optional :: "('s, 'a) tx \<Rightarrow> ('s, 'a option) tx" where
  "tx_optional m = (\<lambda>s. case m s of
      Inl e \<Rightarrow> (if e = ErrNoRows then Inr (None, s) else Inl e)
    | Inr (x, s') \<Rightarrow> Inr (Some x, s'))"

text \<open>\<open>InTx\<close>: the caller sees the error and the old state, or the result and the new state.\<close>

definition InTx :: "('s, 'a) tx \<Rightarrow> 's \<Rightarrow> (error + 'a) \<times> 's" where
  "InTx m s = (case m s of Inl e \<Rightarrow> (Inl e, s) | Inr (x, s') \<Rightarrow> (Inr x, s'))"

lemma tx_bind_Inr [tx_simps]:
  "tx_bind m f s = Inr r \<longleftrightarrow> (\<exists>x s'. m s = Inr (x, s') \<and> f x s' = Inr r)"
  by (auto simp: tx_bind_def split: sum.splits)

lemma tx_seq_Inr [tx_simps]:
  "tx_seq m k s = Inr r \<longleftrightarrow> (\<exists>x s'. m s = Inr (x, s') \<and> k s' = Inr r)"
  by (simp add: tx_seq_def tx_bind_Inr)

lemma tx_return_Inr [tx_simps]: "tx_return x s = Inr r \<longleftrightarrow> r = (x, s)"
  by (auto simp: tx_return_def)

lemma tx_throw_Inr [tx_simps]: "tx_throw e s = Inr r \<longleftrightarrow> False"
  by (simp add: tx_throw_def)

lemma tx_read_Inr [tx_simps]: "tx_read f s = Inr r \<longleftrightarrow> r = (f s, s)"
  by (auto simp: tx_read_def)

lemma tx_when_Inr [tx_simps]:
  "tx_when b m s = Inr r \<longleftrightarrow> (if b then m s = Inr r else r = ((), s))"
  by (simp add: tx_when_def tx_return_Inr)

lemma tx_fail_if_Inr [tx_simps]: "tx_fail_if b e s = Inr r \<longleftrightarrow> \<not> b \<and> r = ((), s)"
  by (simp add: tx_fail_if_def tx_return_Inr tx_throw_Inr)

lemma tx_lift_Inr [tx_simps]: "tx_lift v s = Inr r \<longleftrightarrow> (\<exists>x. v = Inr x \<and> r = (x, s))"
  by (auto simp: tx_lift_def split: sum.splits)

lemma tx_on_no_rows_Inr [tx_simps]:
  "tx_on_no_rows m h s = Inr r \<longleftrightarrow> m s = Inr r \<or> (m s = Inl ErrNoRows \<and> h s = Inr r)"
  by (auto simp: tx_on_no_rows_def split: sum.splits)

lemma tx_optional_Inr [tx_simps]:
  "tx_optional m s = Inr (x, s') \<longleftrightarrow>
     (case x of None \<Rightarrow> m s = Inl ErrNoRows \<and> s' = s | Some y \<Rightarrow> m s = Inr (y, s'))"
  by (auto simp: tx_optional_def split: sum.splits option.splits)

lemma InTx_error_keeps_state: "fst (InTx m s) = Inl e \<Longrightarrow> snd (InTx m s) = s"
  by (auto simp: InTx_def split: sum.splits)

lemma InTx_Inr: "InTx m s = (Inr x, s') \<longleftrightarrow> m s = Inr (x, s')"
  by (auto simp: InTx_def split: sum.splits)

text \<open>Evaluation rules, for running a body on a concrete state.\<close>

lemmas tx_eval = tx_bind_def tx_seq_def tx_return_def tx_throw_def tx_read_def tx_when_def
  tx_fail_if_def tx_lift_def tx_on_no_rows_def tx_optional_def InTx_def

section \<open>Keyed tables\<close>

text \<open>
  A table is the list of its rows. Its primary key is the row's \<open>id\<close>, so
  \<open>WHERE id = $1\<close> is the lookup \<open>find_row\<close>, and an \<open>UPDATE ... WHERE id = $1 AND guard\<close>
  changes that one row when its guard holds and returns \<open>ErrNoRows\<close> otherwise.
\<close>

definition find_row :: "('r \<Rightarrow> int) \<Rightarrow> int \<Rightarrow> 'r list \<Rightarrow> 'r option" where
  "find_row key i t = List.find (\<lambda>r. key r = i) t"

definition upd_row :: "('r \<Rightarrow> int) \<Rightarrow> int \<Rightarrow> ('r \<Rightarrow> 'r) \<Rightarrow> 'r list \<Rightarrow> 'r list" where
  "upd_row key i f t = map (\<lambda>r. if key r = i then f r else r) t"

definition sql_get :: "('s \<Rightarrow> 'r list) \<Rightarrow> ('r \<Rightarrow> int) \<Rightarrow> int \<Rightarrow> ('s, 'r) tx" where
  "sql_get rows key i = (\<lambda>s. case find_row key i (rows s) of
      None \<Rightarrow> Inl ErrNoRows | Some r \<Rightarrow> Inr (r, s))"

definition sql_find :: "('s \<Rightarrow> 'r list) \<Rightarrow> ('r \<Rightarrow> bool) \<Rightarrow> ('s, 'r) tx" where
  "sql_find rows P = (\<lambda>s. case List.find P (rows s) of
      None \<Rightarrow> Inl ErrNoRows | Some r \<Rightarrow> Inr (r, s))"

definition sql_update :: "('s \<Rightarrow> 'r list) \<Rightarrow> ('r list \<Rightarrow> 's \<Rightarrow> 's) \<Rightarrow> ('r \<Rightarrow> int) \<Rightarrow>
    int \<Rightarrow> ('r \<Rightarrow> bool) \<Rightarrow> ('r \<Rightarrow> 'r) \<Rightarrow> ('s, 'r) tx" where
  "sql_update rows put key i G f = (\<lambda>s. case find_row key i (rows s) of
      None \<Rightarrow> Inl ErrNoRows
    | Some r \<Rightarrow> (if G r then Inr (f r, put (upd_row key i f (rows s)) s) else Inl ErrNoRows))"

text \<open>\<open>:execrows\<close>: the same update, reporting the number of rows instead of an error.\<close>

definition sql_exec :: "('s \<Rightarrow> 'r list) \<Rightarrow> ('r list \<Rightarrow> 's \<Rightarrow> 's) \<Rightarrow> ('r \<Rightarrow> int) \<Rightarrow>
    int \<Rightarrow> ('r \<Rightarrow> bool) \<Rightarrow> ('r \<Rightarrow> 'r) \<Rightarrow> ('s, int) tx" where
  "sql_exec rows put key i G f = (\<lambda>s. case find_row key i (rows s) of
      None \<Rightarrow> Inr (0, s)
    | Some r \<Rightarrow> (if G r then Inr (1, put (upd_row key i f (rows s)) s) else Inr (0, s)))"

definition sql_insert :: "('s \<Rightarrow> 'r list) \<Rightarrow> ('r list \<Rightarrow> 's \<Rightarrow> 's) \<Rightarrow> 'r \<Rightarrow> ('s, 'r) tx" where
  "sql_insert rows put r = (\<lambda>s. Inr (r, put (rows s @ [r]) s))"

text \<open>\<open>GENERATED ALWAYS AS IDENTITY\<close>: the next identity value of a table.\<close>

definition next_id :: "('r \<Rightarrow> int) \<Rightarrow> 'r list \<Rightarrow> int" where
  "next_id key t = foldr (\<lambda>r m. max (key r) m) t 0 + 1"

text \<open>The primary key: positive and unique.\<close>

definition pk :: "('r \<Rightarrow> int) \<Rightarrow> 'r list \<Rightarrow> bool" where
  "pk key t \<longleftrightarrow> distinct (map key t) \<and> (\<forall>r \<in> set t. 0 < key r)"

lemma find_row_simps [simp]:
  "find_row key i [] = None"
  "find_row key i (r # t) = (if key r = i then Some r else find_row key i t)"
  by (simp_all add: find_row_def)

lemma upd_row_simps [simp]:
  "upd_row key i f [] = []"
  "upd_row key i f (r # t) = (if key r = i then f r else r) # upd_row key i f t"
  by (simp_all add: upd_row_def)

lemma find_row_key: "find_row key i t = Some r \<Longrightarrow> key r = i"
  by (induction t) (auto split: if_splits)

lemma find_row_in: "find_row key i t = Some r \<Longrightarrow> r \<in> set t"
  by (induction t) (auto split: if_splits)

lemma find_row_None: "find_row key i t = None \<longleftrightarrow> (\<forall>r \<in> set t. key r \<noteq> i)"
  by (induction t) auto

lemma find_row_append:
  "find_row key i (t @ u) = (case find_row key i t of None \<Rightarrow> find_row key i u | Some r \<Rightarrow> Some r)"
  by (induction t) auto

lemma find_row_map:
  assumes "\<And>r. key (f r) = key r"
  shows "find_row key i (map f t) = map_option f (find_row key i t)"
  using assms by (induction t) auto

lemma find_row_upd:
  assumes "\<And>r. key (f r) = key r"
  shows "find_row key j (upd_row key i f t)
    = (if j = i then map_option f (find_row key i t) else find_row key j t)"
  using assms by (induction t) auto

lemma find_row_mem:
  assumes "distinct (map key t)" and "r \<in> set t"
  shows "find_row key (key r) t = Some r"
  using assms by (induction t) (auto simp: rev_image_eqI)

lemma set_find_row: "distinct (map key t) \<Longrightarrow> r \<in> set t \<longleftrightarrow> find_row key (key r) t = Some r"
  by (metis find_row_in find_row_mem)

lemma map_key_upd_row: "(\<And>r. key (f r) = key r) \<Longrightarrow> map key (upd_row key i f t) = map key t"
  by (induction t) auto

lemma length_upd_row [simp]: "length (upd_row key i f t) = length t"
  by (simp add: upd_row_def)

lemma set_upd_row: "set (upd_row key i f t) = (\<lambda>r. if key r = i then f r else r) ` set t"
  by (simp add: upd_row_def)

lemma next_id_greater: "r \<in> set t \<Longrightarrow> key r < next_id key t"
  by (induction t) (auto simp: next_id_def)

lemma next_id_pos: "0 < next_id key t"
proof -
  have "0 \<le> foldr (\<lambda>r m. max (key r) m) t 0" by (induction t) auto
  then show ?thesis by (simp add: next_id_def)
qed

lemma find_row_next_id: "find_row key (next_id key t) t = None"
  using next_id_greater [of _ t key] by (fastforce simp: find_row_None)

lemma pk_upd_row: "(\<And>r. key (f r) = key r) \<Longrightarrow> pk key (upd_row key i f t) = pk key t"
proof -
  assume "\<And>r. key (f r) = key r"
  then have "map key (upd_row key i f t) = map key t" by (rule map_key_upd_row)
  moreover have "(\<forall>r \<in> set u. 0 < key r) = (\<forall>k \<in> set (map key u). 0 < k)" for u by simp
  ultimately show ?thesis unfolding pk_def by metis
qed

lemma pk_insert:
  assumes "pk key t" and "key r = next_id key t"
  shows "pk key (t @ [r])"
  using assms next_id_greater [of _ t key] next_id_pos [of key t]
  by (fastforce simp: pk_def)

lemma find_row_insert:
  assumes "key r = next_id key t"
  shows "find_row key j (t @ [r]) = (if j = key r then Some r else find_row key j t)"
  using assms find_row_next_id [of key t] by (auto simp: find_row_append split: option.splits)

section \<open>Relations a transaction keeps\<close>

text \<open>
  \<open>tx_rel R m\<close>: whenever the body \<open>m\<close> commits, the states before and after are related by
  \<open>R\<close>. For a reflexive and transitive \<open>R\<close> this is proved statement by statement: the rules
  follow the combinators. The money and the stock theories interpret the locale with their
  simulation relations.
\<close>

definition tx_rel :: "('s \<Rightarrow> 's \<Rightarrow> bool) \<Rightarrow> ('s, 'a) tx \<Rightarrow> bool" where
  "tx_rel R m \<longleftrightarrow> (\<forall>s r s'. m s = Inr (r, s') \<longrightarrow> R s s')"

lemma tx_relI: "(\<And>s r s'. m s = Inr (r, s') \<Longrightarrow> R s s') \<Longrightarrow> tx_rel R m"
  by (simp add: tx_rel_def)

lemma tx_relD: "tx_rel R m \<Longrightarrow> m s = Inr (r, s') \<Longrightarrow> R s s'"
  by (simp add: tx_rel_def)

locale tx_relation =
  fixes R :: "'s \<Rightarrow> 's \<Rightarrow> bool"
  assumes R_refl: "R s s"
    and R_trans: "R s t \<Longrightarrow> R t u \<Longrightarrow> R s u"
begin

lemma rel_readonly: "(\<And>s r s'. m s = Inr (r, s') \<Longrightarrow> s' = s) \<Longrightarrow> tx_rel R m"
  unfolding tx_rel_def using R_refl by metis

lemma rel_return: "tx_rel R (tx_return x)"
  by (rule rel_readonly) (simp add: tx_return_Inr)

lemma rel_throw: "tx_rel R (tx_throw e)"
  by (rule rel_readonly) (simp add: tx_throw_Inr)

lemma rel_read: "tx_rel R (tx_read f)"
  by (rule rel_readonly) (simp add: tx_read_Inr)

lemma rel_lift: "tx_rel R (tx_lift v)"
  by (rule rel_readonly) (auto simp: tx_lift_Inr)

lemma rel_fail_if: "tx_rel R (tx_fail_if b e)"
  by (rule rel_readonly) (simp add: tx_fail_if_Inr)

lemma rel_get: "tx_rel R (sql_get rows key i)"
  by (rule rel_readonly) (auto simp: sql_get_def split: option.splits)

lemma rel_find: "tx_rel R (sql_find rows P)"
  by (rule rel_readonly) (auto simp: sql_find_def split: option.splits)

lemma rel_bind: "tx_rel R m \<Longrightarrow> (\<And>x. tx_rel R (f x)) \<Longrightarrow> tx_rel R (tx_bind m f)"
  unfolding tx_rel_def tx_bind_Inr using R_trans by blast

lemma rel_seq: "tx_rel R m \<Longrightarrow> tx_rel R k \<Longrightarrow> tx_rel R (tx_seq m k)"
  unfolding tx_seq_def by (rule rel_bind)

lemma rel_when: "(b \<Longrightarrow> tx_rel R m) \<Longrightarrow> tx_rel R (tx_when b m)"
  by (simp add: tx_when_def rel_return)

lemma rel_on_no_rows: "tx_rel R m \<Longrightarrow> tx_rel R h \<Longrightarrow> tx_rel R (tx_on_no_rows m h)"
  unfolding tx_rel_def tx_on_no_rows_Inr by blast

lemma rel_optional: "tx_rel R m \<Longrightarrow> tx_rel R (tx_optional m)"
  unfolding tx_rel_def tx_optional_Inr using R_refl by (auto split: option.splits)

lemma rel_if: "(b \<Longrightarrow> tx_rel R m) \<Longrightarrow> (\<not> b \<Longrightarrow> tx_rel R k) \<Longrightarrow> tx_rel R (if b then m else k)"
  by simp

lemma rel_case_option:
  "(x = None \<Longrightarrow> tx_rel R m) \<Longrightarrow> (\<And>y. x = Some y \<Longrightarrow> tx_rel R (k y)) \<Longrightarrow>
   tx_rel R (case x of None \<Rightarrow> m | Some y \<Rightarrow> k y)"
  by (cases x) auto

lemma rel_case_prod: "(\<And>a b. x = (a, b) \<Longrightarrow> tx_rel R (k a b)) \<Longrightarrow> tx_rel R (case x of (a, b) \<Rightarrow> k a b)"
  by (cases x) auto

lemma rel_Let: "(\<And>y. y = x \<Longrightarrow> tx_rel R (k y)) \<Longrightarrow> tx_rel R (Let x k)"
  by simp

lemma rel_InTx:
  assumes "tx_rel R m"
  shows "R s (snd (InTx m s))"
proof (cases "m s")
  case (Inl e)
  then show ?thesis by (simp add: InTx_def R_refl)
next
  case (Inr q)
  then obtain r s' where q: "m s = Inr (r, s')" by (cases q) auto
  have "R s s'" by (rule tx_relD [OF assms q])
  then show ?thesis using q by (simp add: InTx_def)
qed

lemmas rel_intros = rel_return rel_throw rel_read rel_lift rel_fail_if rel_get rel_find rel_bind rel_seq
  rel_when rel_on_no_rows rel_optional rel_if rel_case_option rel_case_prod rel_Let

end

section \<open>Sums over tables\<close>

lemma sum_list_map_cong: "(\<And>x. x \<in> set xs \<Longrightarrow> f x = g x) \<Longrightarrow> sum_list (map f xs) = sum_list (map g xs)"
  by (induction xs) auto

lemma sum_list_map_nonneg: "(\<And>x. x \<in> set xs \<Longrightarrow> 0 \<le> f x) \<Longrightarrow> (0::int) \<le> sum_list (map f xs)"
  by (induction xs) auto

lemma sum_list_map_mono:
  "(\<And>x. x \<in> set xs \<Longrightarrow> f x \<le> g x) \<Longrightarrow> (sum_list (map f xs) :: int) \<le> sum_list (map g xs)"
  by (induction xs) (auto intro: add_mono)

section \<open>A store with one keyed table\<close>

text \<open>
  The interface between the repositories and one table of the database: \<open>rows\<close> reads the
  table, \<open>put\<close> replaces it, \<open>key\<close> is the primary key. The laws are those of a record
  field. The lemmas say what a statement did to the table, and every table of the schema
  interprets the locale.
\<close>

locale row_store =
  fixes rows :: "'s \<Rightarrow> 'r list"
    and put :: "'r list \<Rightarrow> 's \<Rightarrow> 's"
    and key :: "'r \<Rightarrow> int"
  assumes rows_put: "rows (put t s) = t"
    and put_put: "put t (put u s) = put t s"
    and put_rows: "put (rows s) s = s"
begin

lemma get_Inr: "sql_get rows key i s = Inr (r, s') \<longleftrightarrow> find_row key i (rows s) = Some r \<and> s' = s"
  by (auto simp: sql_get_def split: option.splits)

lemma get_no_rows: "sql_get rows key i s = Inl e \<longleftrightarrow> e = ErrNoRows \<and> find_row key i (rows s) = None"
  by (auto simp: sql_get_def split: option.splits)

lemma find_Inr: "sql_find rows P s = Inr (r, s') \<longleftrightarrow> List.find P (rows s) = Some r \<and> s' = s"
  by (auto simp: sql_find_def split: option.splits)

lemma find_no_rows: "sql_find rows P s = Inl e \<longleftrightarrow> e = ErrNoRows \<and> List.find P (rows s) = None"
  by (auto simp: sql_find_def split: option.splits)

lemma update_Inr:
  "sql_update rows put key i G f s = Inr (r', s') \<longleftrightarrow>
     (\<exists>r. find_row key i (rows s) = Some r \<and> G r \<and> r' = f r \<and>
          s' = put (upd_row key i f (rows s)) s)"
  by (auto simp: sql_update_def split: option.splits)

lemma update_no_rows:
  "sql_update rows put key i G f s = Inl e \<longleftrightarrow>
     e = ErrNoRows \<and> (\<forall>r. find_row key i (rows s) = Some r \<longrightarrow> \<not> G r)"
  by (auto simp: sql_update_def split: option.splits)

lemma exec_Inr:
  "sql_exec rows put key i G f s = Inr (n, s') \<longleftrightarrow>
     (n = 1 \<and> (\<exists>r. find_row key i (rows s) = Some r \<and> G r) \<and>
        s' = put (upd_row key i f (rows s)) s) \<or>
     (n = 0 \<and> (\<forall>r. find_row key i (rows s) = Some r \<longrightarrow> \<not> G r) \<and> s' = s)"
  by (auto simp: sql_exec_def split: option.splits)

lemma exec_not_Inl: "sql_exec rows put key i G f s \<noteq> Inl e"
  by (auto simp: sql_exec_def split: option.splits)

lemma insert_Inr: "sql_insert rows put r s = Inr (r', s') \<longleftrightarrow> r' = r \<and> s' = put (rows s @ [r]) s"
  by (auto simp: sql_insert_def)

text \<open>What a later statement reads after an update: the new row under its own key, and
  every other row as before.\<close>

lemma get_after_update:
  assumes "\<And>r. key (f r) = key r" and "sql_update rows put key i G f s = Inr (r', s')"
  shows "find_row key j (rows s') = (if j = i then Some r' else find_row key j (rows s))"
  using assms by (auto simp: update_Inr rows_put find_row_upd)

text \<open>An update keeps the primary key, an insert under the next identity value too.\<close>

lemma pk_after_update:
  assumes "\<And>r. key (f r) = key r" and "sql_update rows put key i G f s = Inr (r', s')"
    and "pk key (rows s)"
  shows "pk key (rows s')"
  using assms by (auto simp: update_Inr rows_put pk_upd_row)

lemma pk_after_insert:
  assumes "sql_insert rows put r s = Inr (r', s')" and "key r = next_id key (rows s)"
    and "pk key (rows s)"
  shows "pk key (rows s')"
  using assms by (auto simp: insert_Inr rows_put pk_insert)

end

end
