(* ===== verification/Schema.thy ===== *)
theory Schema
  imports Prelude Complex_Main
begin

text \<open>
  The data of the mall: the status enumerations of the biz layer
  (app/mall/internal/biz/payment\_types.go, order.go), the rows of the tables
  (app/mall/internal/data/db/models.go, db/migrations/000001\_init\_schema.up.sql) and the
  database as one record with a list of rows per table.

  A status column holds one of the strings its CHECK constraint lists, so it is a datatype
  with the constants of the Go code as constructors. A nullable column (\<^verbatim>\<open>pgtype.Text\<close>,
  \<^verbatim>\<open>pgtype.Int8\<close>, \<^verbatim>\<open>pgtype.Timestamptz\<close>) is an option. Times are integers counted in
  nanoseconds from Go's zero time, so \<open>IsZero\<close> is \<open>t = 0\<close>. NUMERIC and decimal values are
  rationals.
\<close>

section \<open>Statuses\<close>

datatype order_status =
    OrderStatusPendingPayment
  | OrderStatusPaid
  | OrderStatusShipped
  | OrderStatusCompleted
  | OrderStatusCancelling
  | OrderStatusCancelled
  | OrderStatusRefunded

datatype payment_status =
    PaymentStatusCreating
  | PaymentStatusPending
  | PaymentStatusFailed
  | PaymentStatusSuccess
  | PaymentStatusRefunded
  | PaymentStatusClosePending
  | PaymentStatusClosed

datatype reconciliation_status =
    ReconciliationStatusNone
  | ReconciliationStatusRequired
  | ReconciliationStatusProcessing
  | ReconciliationStatusResolved

datatype refund_status =
    PaymentRefundStatusPending
  | PaymentRefundStatusSuccess
  | PaymentRefundStatusFailed

datatype RefundPurpose =
    RefundOrderCancel
  | RefundDuplicate
  | RefundLate

datatype notification_status =
    PaymentNotificationStatusReceived
  | PaymentNotificationStatusProcessing
  | PaymentNotificationStatusProcessed
  | PaymentNotificationStatusFailed

datatype media_status =
    MediaStatusPending
  | MediaStatusReady
  | MediaStatusDeleting
  | MediaStatusDeleted

text \<open>The status strings that are stored and sent.\<close>

fun order_status_string :: "order_status \<Rightarrow> string" where
  "order_status_string OrderStatusPendingPayment = ''pending_payment''"
| "order_status_string OrderStatusPaid = ''paid''"
| "order_status_string OrderStatusShipped = ''shipped''"
| "order_status_string OrderStatusCompleted = ''completed''"
| "order_status_string OrderStatusCancelling = ''cancelling''"
| "order_status_string OrderStatusCancelled = ''cancelled''"
| "order_status_string OrderStatusRefunded = ''refunded''"

fun payment_status_string :: "payment_status \<Rightarrow> string" where
  "payment_status_string PaymentStatusCreating = ''creating''"
| "payment_status_string PaymentStatusPending = ''pending''"
| "payment_status_string PaymentStatusFailed = ''failed''"
| "payment_status_string PaymentStatusSuccess = ''success''"
| "payment_status_string PaymentStatusRefunded = ''refunded''"
| "payment_status_string PaymentStatusClosePending = ''close_pending''"
| "payment_status_string PaymentStatusClosed = ''closed''"

text \<open>Comparing the constructors is comparing the strings.\<close>

lemma order_status_string_inject: "order_status_string a = order_status_string b \<longleftrightarrow> a = b"
  by (cases a; cases b) simp_all

lemma payment_status_string_inject: "payment_status_string a = payment_status_string b \<longleftrightarrow> a = b"
  by (cases a; cases b) simp_all

section \<open>Rows\<close>

record user =
  usr_ID :: int
  usr_Nickname :: string
  usr_RealName :: string
  usr_PhoneHash :: string
  usr_PhoneEncrypt :: string
  usr_PasswordHash :: string
  usr_AuthVersion :: int
  usr_Role :: string
  usr_CreatedAt :: int
  usr_UpdatedAt :: int

record shipping_address =
  adr_ID :: int
  adr_UserID :: int
  adr_ReceiverName :: string
  adr_ReceiverPhoneHash :: string
  adr_ReceiverPhoneEncrypt :: string
  adr_Province :: string
  adr_City :: string
  adr_District :: string
  adr_DetailAddress :: string
  adr_AddressTag :: "string option"
  adr_IsDefault :: bool
  adr_CreatedAt :: int
  adr_UpdatedAt :: int

text \<open>
  A media column (\<^verbatim>\<open>cover_image\<close>, JSONB) holds a list of media objects; the model keeps the
  decoded list, which is empty when the column does not hold one.
\<close>

record MediaInfo =
  med_OssURL :: string
  med_BucketName :: string
  med_ObjectKey :: string
  med_ContentType :: string
  med_Size :: int

record category =
  cat_ID :: int
  cat_ParentID :: "int option"
  cat_Name :: string
  cat_SortOrder :: int

record product =
  prd_ID :: int
  prd_CategoryID :: int
  prd_Name :: string
  prd_PriceMinor :: int
  prd_Discount :: rat
  prd_Stock :: int
  prd_Status :: int
  prd_CoverImage :: "MediaInfo list"
  prd_MediaAssets :: "MediaInfo list"
  prd_Description :: "string option"
  prd_DeletedAt :: "int option"

record order =
  ord_ID :: int
  ord_UserID :: int
  ord_AddressID :: int
  ord_ReceiverName :: string
  ord_ReceiverPhoneEncrypt :: string
  ord_ShippingProvince :: string
  ord_ShippingCity :: string
  ord_ShippingDistrict :: string
  ord_ShippingDetailAddress :: string
  ord_PaidPaymentID :: "int option"
  ord_TotalAmountMinor :: int
  ord_Currency :: string
  ord_Status :: order_status
  ord_IsCompleted :: bool
  ord_OutTradeNo :: string
  ord_IdempotencyKey :: string
  ord_RequestHash :: string
  ord_ExpiresAt :: int
  ord_CreatedAt :: int
  ord_UpdatedAt :: int

record order_item =
  itm_ID :: int
  itm_OrderID :: int
  itm_ProductID :: int
  itm_Quantity :: int
  itm_UnitPriceMinor :: int
  itm_ProductNameSnapshot :: string
  itm_CoverImageSnapshot :: "MediaInfo list"

record payment =
  pay_ID :: int
  pay_OrderID :: int
  pay_UserID :: int
  pay_MerchantID :: int
  pay_AmountMinor :: int
  pay_Currency :: string
  pay_Status :: payment_status
  pay_PayChannel :: string
  pay_ThirdPartyTxID :: "string option"
  pay_OutTradeNo :: string
  pay_ActionType :: "string option"
  pay_ActionPayload :: string
  pay_PaidAt :: "int option"
  pay_ReconciliationStatus :: reconciliation_status
  pay_ReconciliationVersion :: int
  pay_ReconciliationReason :: "string option"
  pay_ReconciliationDetail :: "string option"
  pay_PrepayLeaseToken :: "string option"
  pay_PrepayLeaseUntil :: "int option"
  pay_PrepayAttempts :: int
  pay_LastError :: "string option"
  pay_CreatedAt :: int
  pay_UpdatedAt :: int

record order_refund =
  rfd_ID :: int
  rfd_OrderID :: int
  rfd_UserID :: int
  rfd_PaymentID :: "int option"
  rfd_OutRefundNo :: string
  rfd_TotalAmountMinor :: int
  rfd_RefundAmountMinor :: int
  rfd_Currency :: string
  rfd_Reason :: string
  rfd_Purpose :: RefundPurpose
  rfd_Status :: refund_status
  rfd_LastError :: string
  rfd_UpdatedAt :: int

record payment_notification =
  ntf_ID :: int
  ntf_Provider :: string
  ntf_ProviderEventID :: "string option"
  ntf_OutTradeNo :: string
  ntf_PayloadHash :: string
  ntf_VerifiedAt :: int
  ntf_ProcessedAt :: "int option"
  ntf_Status :: notification_status
  ntf_LastError :: "string option"
  ntf_RiverJobID :: "int option"

record reconciliation_failure_row =
  rfl_ID :: int
  rfl_PaymentID :: int
  rfl_Provider :: string
  rfl_Reason :: string
  rfl_RiverJobID :: "int option"
  rfl_Attempt :: int
  rfl_LastError :: string
  rfl_ResolvedAt :: "int option"

record reconciliation_action_row =
  rac_ID :: int
  rac_PaymentID :: int
  rac_ActorID :: int
  rac_Action :: string
  rac_FromStatus :: reconciliation_status
  rac_ToStatus :: reconciliation_status
  rac_FromVersion :: int
  rac_ToVersion :: int
  rac_IdempotencyKey :: string
  rac_Reason :: string
  rac_Evidence :: string
  rac_RiverJobID :: "int option"

record stock_adjustment =
  adj_ID :: int
  adj_ProductID :: int
  adj_ActorID :: int
  adj_Delta :: int
  adj_Reason :: string
  adj_IdempotencyKey :: string
  adj_ResultingStock :: int

record fulfillment_action =
  ful_ID :: int
  ful_OrderID :: int
  ful_ActorID :: int
  ful_Action :: string
  ful_FromStatus :: order_status
  ful_ToStatus :: order_status
  ful_IdempotencyKey :: string
  ful_Reason :: string
  ful_Carrier :: string
  ful_TrackingNumber :: string

record event_row =
  evt_ID :: int
  evt_Name :: string
  evt_Status :: int
  evt_StartAt :: int
  evt_EndAt :: int
  evt_CoverImage :: "MediaInfo list"
  evt_MediaAssets :: "MediaInfo list"
  evt_Description :: "string option"
  evt_CreatedAt :: int
  evt_UpdatedAt :: int
  evt_DeletedAt :: "int option"

record browsing_history =
  his_UserID :: int
  his_ProductID :: int
  his_FirstViewedAt :: int
  his_LastViewedAt :: int

record post =
  pst_ID :: int
  pst_AuthorID :: "int option"
  pst_Title :: string
  pst_Content :: string
  pst_Version :: int
  pst_CreatedAt :: int
  pst_UpdatedAt :: int
  pst_DeletedAt :: "int option"

record media_asset =
  mas_ID :: int
  mas_OwnerID :: "int option"
  mas_Provider :: string
  mas_BucketName :: string
  mas_ObjectKey :: string
  mas_StagingKey :: string
  mas_StagingCleaned :: bool
  mas_StagingCleanupAt :: "int option"
  mas_ContentType :: string
  mas_SizeBytes :: int
  mas_Width :: int
  mas_Height :: int
  mas_Status :: media_status
  mas_ExpiresAt :: int
  mas_UploadExpiresAt :: int
  mas_CreatedAt :: int
  mas_UpdatedAt :: int

record post_image =
  img_PostID :: int
  img_MediaID :: int
  img_SortOrder :: int

record post_like =
  lik_PostID :: int
  lik_UserID :: int
  lik_CreatedAt :: int

record post_comment =
  cmt_ID :: int
  cmt_PostID :: int
  cmt_AuthorID :: "int option"
  cmt_RootCommentID :: "int option"
  cmt_ReplyToCommentID :: "int option"
  cmt_Content :: string
  cmt_CreatedAt :: int
  cmt_DeletedAt :: "int option"

section \<open>Jobs\<close>

text \<open>The arguments of the River jobs the repositories enqueue.\<close>

record CheckPayArgs =
  cpa_ConfirmUnissued :: bool
  cpa_ReconciliationVersion :: int
  cpa_PaymentID :: int
  cpa_Provider :: string
  cpa_NotificationID :: int
  cpa_Trigger :: string
  cpa_PollCount :: int
  cpa_MaxPolls :: int
  cpa_PollIntervalSeconds :: int
  cpa_OrderExpiresAt :: int

record ClosePayArgs =
  cla_ReconciliationVersion :: int
  cla_PaymentID :: int
  cla_Provider :: string
  cla_Reason :: string

record MediaDeleteArgs =
  mda_MediaID :: int
  mda_StagingOnly :: bool

datatype job_args =
    CheckPay CheckPayArgs
  | ClosePay ClosePayArgs
  | ExpireOrderJob int
  | MediaDelete MediaDeleteArgs

record mq_job =
  job_ID :: int
  job_Args :: job_args
  job_ScheduledAt :: int

section \<open>The database\<close>

text \<open>
  The clocks are part of the state a transaction reads: \<open>tb_current_timestamp\<close> is
  \<^verbatim>\<open>CURRENT_TIMESTAMP\<close> (the start of the transaction), \<open>tb_statement_timestamp\<close> is
  \<^verbatim>\<open>statement_timestamp()\<close>, \<open>tb_clock_timestamp\<close> is
  \<^verbatim>\<open>clock_timestamp()\<close>, \<open>tb_time_Now\<close> the application server's \<^verbatim>\<open>time.Now()\<close>. They are
  independent of each other, so nothing proved here depends on the clocks agreeing.
\<close>

record db =
  tb_users :: "user list"
  tb_addresses :: "shipping_address list"
  tb_categories :: "category list"
  tb_products :: "product list"
  tb_orders :: "order list"
  tb_items :: "order_item list"
  tb_payments :: "payment list"
  tb_refunds :: "order_refund list"
  tb_notifications :: "payment_notification list"
  tb_failures :: "reconciliation_failure_row list"
  tb_actions :: "reconciliation_action_row list"
  tb_adjustments :: "stock_adjustment list"
  tb_fulfillment :: "fulfillment_action list"
  tb_events :: "event_row list"
  tb_history :: "browsing_history list"
  tb_posts :: "post list"
  tb_media :: "media_asset list"
  tb_images :: "post_image list"
  tb_likes :: "post_like list"
  tb_comments :: "post_comment list"
  tb_jobs :: "mq_job list"
  tb_sequences :: "string \<Rightarrow> int"
  tb_current_timestamp :: int
  tb_statement_timestamp :: int
  tb_clock_timestamp :: int
  tb_time_Now :: int

abbreviation put_users :: "user list \<Rightarrow> db \<Rightarrow> db" where
  "put_users t s \<equiv> s\<lparr>tb_users := t\<rparr>"

abbreviation put_addresses :: "shipping_address list \<Rightarrow> db \<Rightarrow> db" where
  "put_addresses t s \<equiv> s\<lparr>tb_addresses := t\<rparr>"

abbreviation put_categories :: "category list \<Rightarrow> db \<Rightarrow> db" where
  "put_categories t s \<equiv> s\<lparr>tb_categories := t\<rparr>"

abbreviation put_products :: "product list \<Rightarrow> db \<Rightarrow> db" where
  "put_products t s \<equiv> s\<lparr>tb_products := t\<rparr>"

abbreviation put_orders :: "order list \<Rightarrow> db \<Rightarrow> db" where
  "put_orders t s \<equiv> s\<lparr>tb_orders := t\<rparr>"

abbreviation put_items :: "order_item list \<Rightarrow> db \<Rightarrow> db" where
  "put_items t s \<equiv> s\<lparr>tb_items := t\<rparr>"

abbreviation put_payments :: "payment list \<Rightarrow> db \<Rightarrow> db" where
  "put_payments t s \<equiv> s\<lparr>tb_payments := t\<rparr>"

abbreviation put_refunds :: "order_refund list \<Rightarrow> db \<Rightarrow> db" where
  "put_refunds t s \<equiv> s\<lparr>tb_refunds := t\<rparr>"

abbreviation put_notifications :: "payment_notification list \<Rightarrow> db \<Rightarrow> db" where
  "put_notifications t s \<equiv> s\<lparr>tb_notifications := t\<rparr>"

abbreviation put_failures :: "reconciliation_failure_row list \<Rightarrow> db \<Rightarrow> db" where
  "put_failures t s \<equiv> s\<lparr>tb_failures := t\<rparr>"

abbreviation put_actions :: "reconciliation_action_row list \<Rightarrow> db \<Rightarrow> db" where
  "put_actions t s \<equiv> s\<lparr>tb_actions := t\<rparr>"

abbreviation put_adjustments :: "stock_adjustment list \<Rightarrow> db \<Rightarrow> db" where
  "put_adjustments t s \<equiv> s\<lparr>tb_adjustments := t\<rparr>"

abbreviation put_fulfillment :: "fulfillment_action list \<Rightarrow> db \<Rightarrow> db" where
  "put_fulfillment t s \<equiv> s\<lparr>tb_fulfillment := t\<rparr>"

abbreviation put_events :: "event_row list \<Rightarrow> db \<Rightarrow> db" where
  "put_events t s \<equiv> s\<lparr>tb_events := t\<rparr>"

abbreviation put_posts :: "post list \<Rightarrow> db \<Rightarrow> db" where
  "put_posts t s \<equiv> s\<lparr>tb_posts := t\<rparr>"

abbreviation put_media :: "media_asset list \<Rightarrow> db \<Rightarrow> db" where
  "put_media t s \<equiv> s\<lparr>tb_media := t\<rparr>"

abbreviation put_images :: "post_image list \<Rightarrow> db \<Rightarrow> db" where
  "put_images t s \<equiv> s\<lparr>tb_images := t\<rparr>"

abbreviation put_comments :: "post_comment list \<Rightarrow> db \<Rightarrow> db" where
  "put_comments t s \<equiv> s\<lparr>tb_comments := t\<rparr>"

interpretation usr: row_store tb_users put_users usr_ID
  by unfold_locales simp_all

interpretation adr: row_store tb_addresses put_addresses adr_ID
  by unfold_locales simp_all

interpretation cat: row_store tb_categories put_categories cat_ID
  by unfold_locales simp_all

interpretation prd: row_store tb_products put_products prd_ID
  by unfold_locales simp_all

interpretation ord: row_store tb_orders put_orders ord_ID
  by unfold_locales simp_all

interpretation itm: row_store tb_items put_items itm_ID
  by unfold_locales simp_all

interpretation pay: row_store tb_payments put_payments pay_ID
  by unfold_locales simp_all

interpretation rfd: row_store tb_refunds put_refunds rfd_ID
  by unfold_locales simp_all

interpretation ntf: row_store tb_notifications put_notifications ntf_ID
  by unfold_locales simp_all

interpretation rfl: row_store tb_failures put_failures rfl_ID
  by unfold_locales simp_all

interpretation rac: row_store tb_actions put_actions rac_ID
  by unfold_locales simp_all

interpretation adj: row_store tb_adjustments put_adjustments adj_ID
  by unfold_locales simp_all

interpretation ful: row_store tb_fulfillment put_fulfillment ful_ID
  by unfold_locales simp_all

interpretation evt: row_store tb_events put_events evt_ID
  by unfold_locales simp_all

interpretation pst: row_store tb_posts put_posts pst_ID
  by unfold_locales simp_all

interpretation mas: row_store tb_media put_media mas_ID
  by unfold_locales simp_all

interpretation cmt: row_store tb_comments put_comments cmt_ID
  by unfold_locales simp_all

text \<open>
  The identity sequence of a table whose rows are deleted physically: a value is never handed
  out twice. Tables whose rows stay take the next value from \<open>next_id\<close>.
\<close>

definition nextval :: "string \<Rightarrow> (db, int) tx" where
  "nextval t = (\<lambda>s. let i = tb_sequences s t + 1 in Inr (i, s\<lparr>tb_sequences := (tb_sequences s)(t := i)\<rparr>))"

lemma nextval_Inr [tx_simps]:
  "nextval t s = Inr (i, s') \<longleftrightarrow>
     i = tb_sequences s t + 1 \<and> s' = s\<lparr>tb_sequences := (tb_sequences s)(t := i)\<rparr>"
  by (auto simp: nextval_def Let_def)

text \<open>The outcome of every statement on a table of the schema.\<close>

lemmas sql_Inr =
  usr.get_Inr cat.get_Inr prd.get_Inr ord.get_Inr pay.get_Inr rfd.get_Inr ntf.get_Inr
  adr.find_Inr prd.find_Inr ord.find_Inr itm.find_Inr pay.find_Inr rfd.find_Inr ntf.find_Inr
  rac.find_Inr adj.find_Inr ful.find_Inr
  cat.update_Inr prd.update_Inr ord.update_Inr pay.update_Inr rfd.update_Inr ntf.update_Inr
  pay.exec_Inr ntf.exec_Inr
  itm.insert_Inr ord.insert_Inr pay.insert_Inr rfd.insert_Inr ntf.insert_Inr rfl.insert_Inr
  rac.insert_Inr adj.insert_Inr ful.insert_Inr prd.insert_Inr cat.insert_Inr prd.exec_Inr
  usr.find_Inr usr.update_Inr usr.exec_Inr usr.insert_Inr adr.update_Inr adr.exec_Inr adr.insert_Inr
  evt.find_Inr evt.update_Inr evt.exec_Inr evt.insert_Inr
  pst.get_Inr pst.find_Inr pst.update_Inr pst.exec_Inr pst.insert_Inr
  mas.get_Inr mas.update_Inr mas.exec_Inr mas.insert_Inr
  cmt.find_Inr cmt.update_Inr cmt.exec_Inr cmt.insert_Inr

lemmas sql_no_rows =
  usr.get_no_rows cat.get_no_rows prd.get_no_rows ord.get_no_rows pay.get_no_rows rfd.get_no_rows ntf.get_no_rows
  adr.find_no_rows prd.find_no_rows ord.find_no_rows itm.find_no_rows pay.find_no_rows
  rfd.find_no_rows ntf.find_no_rows rac.find_no_rows adj.find_no_rows ful.find_no_rows
  cat.update_no_rows prd.update_no_rows ord.update_no_rows pay.update_no_rows rfd.update_no_rows ntf.update_no_rows
  usr.find_no_rows usr.update_no_rows adr.update_no_rows evt.find_no_rows evt.update_no_rows
  pst.get_no_rows pst.find_no_rows pst.update_no_rows mas.get_no_rows mas.update_no_rows
  cmt.find_no_rows cmt.update_no_rows

declare sql_Inr [tx_simps]
declare sql_no_rows [tx_simps]

end
