(* ===== verification/PaymentTypes.thy ===== *)
theory PaymentTypes
  imports Schema GoStrings
begin

text \<open>
  The domain types and pure decisions of the payment component
  (app/mall/internal/biz/payment\_types.go, payment\_transition.go, payment\_unissued.go,
  payment\_jobs.go and the decisions of payment\_reconciliation.go): payment methods and
  their textual form, provider trade states, the decision what a verified success does to its
  order, the purpose of a refund, when an unissued payment may be closed, and when an
  operator may resolve a reconciliation case.
\<close>

section \<open>Payment methods\<close>

record PaymentMethod =
  pm_Provider :: string
  pm_Product :: string

definition Normalize :: "PaymentMethod \<Rightarrow> PaymentMethod" where
  "Normalize m = \<lparr>pm_Provider = ToLower (TrimSpace (pm_Provider m)),
                  pm_Product = ToLower (TrimSpace (pm_Product m))\<rparr>"

definition PaymentMethod_String :: "PaymentMethod \<Rightarrow> string" where
  "PaymentMethod_String m0 = (let m = Normalize m0 in
     if pm_Provider m = '''' \<or> pm_Product m = '''' then ''''
     else pm_Provider m @ '':'' @ pm_Product m)"

definition ParsePaymentMethod :: "string \<Rightarrow> error + PaymentMethod" where
  "ParsePaymentMethod value =
     (case Split (ToLower (TrimSpace value)) (CHR '':'') of
        [p, q] \<Rightarrow> (if p = '''' \<or> q = '''' then Inl (BadRequest ''PAYMENT_METHOD_INVALID'')
                   else Inr \<lparr>pm_Provider = p, pm_Product = q\<rparr>)
      | _ \<Rightarrow> Inl (BadRequest ''PAYMENT_METHOD_INVALID''))"

record PaymentCapabilities =
  cap_SupportsNotify :: bool
  cap_RequiresPoll :: bool
  cap_SupportsClose :: bool
  cap_SupportsRefund :: bool

section \<open>Trade states\<close>

datatype TradeState =
    TradeStateUnspecified
  | TradeStateSuccess
  | TradeStateRefund
  | TradeStateNotPay
  | TradeStateClosed
  | TradeStateRevoked
  | TradeStateUserPaying
  | TradeStatePayError

fun TradeState_String :: "TradeState \<Rightarrow> string" where
  "TradeState_String TradeStateUnspecified = ''TRADE_STATE_UNSPECIFIED''"
| "TradeState_String TradeStateSuccess = ''SUCCESS''"
| "TradeState_String TradeStateRefund = ''REFUND''"
| "TradeState_String TradeStateNotPay = ''NOTPAY''"
| "TradeState_String TradeStateClosed = ''CLOSED''"
| "TradeState_String TradeStateRevoked = ''REVOKED''"
| "TradeState_String TradeStateUserPaying = ''USERPAYING''"
| "TradeState_String TradeStatePayError = ''PAYERROR''"

fun IsTerminal :: "TradeState \<Rightarrow> bool" where
  "IsTerminal TradeStateSuccess = True"
| "IsTerminal TradeStateRefund = True"
| "IsTerminal TradeStateClosed = True"
| "IsTerminal TradeStateRevoked = True"
| "IsTerminal TradeStatePayError = True"
| "IsTerminal _ = False"

fun IsPending :: "TradeState \<Rightarrow> bool" where
  "IsPending TradeStateNotPay = True"
| "IsPending TradeStateUserPaying = True"
| "IsPending TradeStateUnspecified = True"
| "IsPending _ = False"

definition ParseTradeState :: "string \<Rightarrow> TradeState" where
  "ParseTradeState state = (let s = ToUpper (TrimSpace state) in
     if s = TradeState_String TradeStateSuccess then TradeStateSuccess
     else if s = TradeState_String TradeStateRefund then TradeStateRefund
     else if s = TradeState_String TradeStateNotPay then TradeStateNotPay
     else if s = TradeState_String TradeStateClosed then TradeStateClosed
     else if s = TradeState_String TradeStateRevoked then TradeStateRevoked
     else if s = TradeState_String TradeStateUserPaying then TradeStateUserPaying
     else if s = TradeState_String TradeStatePayError then TradeStatePayError
     else TradeStateUnspecified)"

section \<open>Provider requests and results\<close>

record PaymentQueryRequest =
  qrq_ExpectedProviderAccount :: string
  qrq_Method :: PaymentMethod
  qrq_OutTradeNo :: string
  qrq_TransactionID :: string

record PaymentQueryResult =
  qrs_Method :: PaymentMethod
  qrs_OutTradeNo :: string
  qrs_TransactionID :: string
  qrs_TradeState :: TradeState
  qrs_TradeStateDesc :: string
  qrs_RawTradeState :: string
  qrs_Amount :: int
  qrs_Currency :: string

record PaymentCloseRequest =
  crq_Method :: PaymentMethod
  crq_OutTradeNo :: string
  crq_TransactionID :: string

record PaymentCloseResult =
  crs_Method :: PaymentMethod
  crs_OutTradeNo :: string
  crs_TransactionID :: string
  crs_Success :: bool

record PaymentRefundRequest =
  rrq_Method :: PaymentMethod
  rrq_OutTradeNo :: string
  rrq_TransactionID :: string
  rrq_OutRefundNo :: string
  rrq_Amount :: int
  rrq_Currency :: string
  rrq_Reason :: string

record PaymentRefundResult =
  rrs_Method :: PaymentMethod
  rrs_OutTradeNo :: string
  rrs_TransactionID :: string
  rrs_OutRefundNo :: string
  rrs_Amount :: int
  rrs_Currency :: string
  rrs_Success :: bool
  rrs_Rejection :: bool

section \<open>Domain objects\<close>

record PaymentAction =
  act_Type :: string
  act_Payload :: string

record PaymentDO =
  pdo_ID :: int
  pdo_OrderID :: int
  pdo_UserID :: int
  pdo_MerchantID :: int
  pdo_Amount :: int
  pdo_Currency :: string
  pdo_Status :: payment_status
  pdo_Method :: string
  pdo_OutTradeNo :: string
  pdo_ThirdPartyTxID :: string
  pdo_ReconciliationStatus :: reconciliation_status
  pdo_ReconciliationReason :: string
  pdo_ReconciliationDetail :: string
  pdo_PrepayLeaseToken :: string
  pdo_LastError :: string
  pdo_PrepayLeaseUntil :: "int option"
  pdo_PrepayAttempts :: int
  pdo_ReconciliationVersion :: int
  pdo_Action :: PaymentAction
  pdo_PaidAt :: "int option"
  pdo_CreatedAt :: int
  pdo_UpdatedAt :: int

record PaymentRefund =
  prf_ID :: int
  prf_PaymentID :: int
  prf_OrderID :: int
  prf_UserID :: int
  prf_OutRefundNo :: string
  prf_TotalAmount :: int
  prf_RefundAmount :: int
  prf_Currency :: string
  prf_Reason :: string
  prf_Purpose :: RefundPurpose
  prf_Status :: refund_status
  prf_LastError :: string
  prf_UpdatedAt :: int

text \<open>\<open>pgtype.Text.String\<close> and \<open>pgtype.Int8.Int64\<close> of an SQL NULL are the zero values.\<close>

definition text_String :: "string option \<Rightarrow> string" where
  "text_String v = (case v of None \<Rightarrow> '''' | Some s \<Rightarrow> s)"

definition int8_Int64 :: "int option \<Rightarrow> int" where
  "int8_Int64 v = (case v of None \<Rightarrow> 0 | Some n \<Rightarrow> n)"

text \<open>\<open>pgtype.Text{String: v, Valid: v != ""}\<close>\<close>

definition text_of :: "string \<Rightarrow> string option" where
  "text_of s = (if s = '''' then None else Some s)"

lemma text_String_simps [simp]: "text_String None = ''''" "text_String (Some s) = s"
  by (simp_all add: text_String_def)

lemma int8_Int64_simps [simp]: "int8_Int64 None = 0" "int8_Int64 (Some n) = n"
  by (simp_all add: int8_Int64_def)

definition toBizPayment :: "payment \<Rightarrow> PaymentDO" where
  "toBizPayment row = \<lparr>
     pdo_ID = pay_ID row, pdo_OrderID = pay_OrderID row, pdo_UserID = pay_UserID row,
     pdo_MerchantID = pay_MerchantID row, pdo_Amount = pay_AmountMinor row,
     pdo_Currency = pay_Currency row, pdo_Status = pay_Status row, pdo_Method = pay_PayChannel row,
     pdo_OutTradeNo = pay_OutTradeNo row, pdo_ThirdPartyTxID = text_String (pay_ThirdPartyTxID row),
     pdo_ReconciliationStatus = pay_ReconciliationStatus row,
     pdo_ReconciliationReason = text_String (pay_ReconciliationReason row),
     pdo_ReconciliationDetail = text_String (pay_ReconciliationDetail row),
     pdo_PrepayLeaseToken = text_String (pay_PrepayLeaseToken row),
     pdo_LastError = text_String (pay_LastError row),
     pdo_PrepayLeaseUntil = pay_PrepayLeaseUntil row,
     pdo_PrepayAttempts = pay_PrepayAttempts row,
     pdo_ReconciliationVersion = pay_ReconciliationVersion row,
     pdo_Action = (case pay_ActionType row of
         None \<Rightarrow> \<lparr>act_Type = '''', act_Payload = ''''\<rparr>
       | Some t \<Rightarrow> \<lparr>act_Type = t, act_Payload = pay_ActionPayload row\<rparr>),
     pdo_PaidAt = pay_PaidAt row,
     pdo_CreatedAt = pay_CreatedAt row, pdo_UpdatedAt = pay_UpdatedAt row\<rparr>"

definition toBizPaymentRefund :: "order_refund \<Rightarrow> PaymentRefund" where
  "toBizPaymentRefund row = \<lparr>
     prf_ID = rfd_ID row, prf_PaymentID = int8_Int64 (rfd_PaymentID row),
     prf_OrderID = rfd_OrderID row, prf_UserID = rfd_UserID row,
     prf_OutRefundNo = rfd_OutRefundNo row, prf_TotalAmount = rfd_TotalAmountMinor row,
     prf_RefundAmount = rfd_RefundAmountMinor row, prf_Currency = rfd_Currency row,
     prf_Reason = rfd_Reason row, prf_Purpose = rfd_Purpose row, prf_Status = rfd_Status row,
     prf_LastError = rfd_LastError row, prf_UpdatedAt = rfd_UpdatedAt row\<rparr>"

section \<open>What a verified success does\<close>

record PaymentSuccessDecision =
  dec_MarkOrderPaid :: bool
  dec_ReconciliationReason :: string
  dec_ReconciliationDetail :: string

definition DecidePaymentSuccess :: "order_status \<Rightarrow> bool \<Rightarrow> error + PaymentSuccessDecision" where
  "DecidePaymentSuccess orderStatus anotherPaymentSucceeded =
     (if anotherPaymentSucceeded then
        Inr \<lparr>dec_MarkOrderPaid = False, dec_ReconciliationReason = ''duplicate_success'',
             dec_ReconciliationDetail = ''another payment already completed this order''\<rparr>
      else (case orderStatus of
          OrderStatusPendingPayment \<Rightarrow>
            Inr \<lparr>dec_MarkOrderPaid = True, dec_ReconciliationReason = '''', dec_ReconciliationDetail = ''''\<rparr>
        | OrderStatusCancelling \<Rightarrow>
            Inr \<lparr>dec_MarkOrderPaid = False, dec_ReconciliationReason = ''late_success_after_cancel'',
                 dec_ReconciliationDetail = ''payment succeeded after order cancellation started''\<rparr>
        | OrderStatusCancelled \<Rightarrow>
            Inr \<lparr>dec_MarkOrderPaid = False, dec_ReconciliationReason = ''late_success_after_cancel'',
                 dec_ReconciliationDetail = ''payment succeeded after order cancellation started''\<rparr>
        | OrderStatusPaid \<Rightarrow>
            Inr \<lparr>dec_MarkOrderPaid = False, dec_ReconciliationReason = '''', dec_ReconciliationDetail = ''''\<rparr>
        | OrderStatusShipped \<Rightarrow>
            Inr \<lparr>dec_MarkOrderPaid = False, dec_ReconciliationReason = '''', dec_ReconciliationDetail = ''''\<rparr>
        | OrderStatusCompleted \<Rightarrow>
            Inr \<lparr>dec_MarkOrderPaid = False, dec_ReconciliationReason = '''', dec_ReconciliationDetail = ''''\<rparr>
        | _ \<Rightarrow> Inl ErrPaymentStateConflict))"

section \<open>The purpose of a refund\<close>

definition DecideRefundPurpose :: "order_status \<Rightarrow> int \<Rightarrow> int \<Rightarrow> error + RefundPurpose" where
  "DecideRefundPurpose orderStatus paidPaymentID paymentID =
     (if paymentID \<le> 0 then Inl ErrPaymentStateConflict
      else if paidPaymentID > 0 \<and> paidPaymentID \<noteq> paymentID \<and>
              orderStatus \<in> {OrderStatusPaid, OrderStatusShipped, OrderStatusCompleted, OrderStatusRefunded}
           then Inr RefundDuplicate
      else if paidPaymentID = paymentID \<and> orderStatus = OrderStatusPaid then Inr RefundOrderCancel
      else if paidPaymentID = 0 \<and> (orderStatus = OrderStatusCancelled \<or> orderStatus = OrderStatusCancelling)
           then Inr RefundLate
      else Inl ErrPaymentStateConflict)"

definition ValidateRefundSettlement ::
    "RefundPurpose \<Rightarrow> order_status \<Rightarrow> int \<Rightarrow> int \<Rightarrow> error + unit" where
  "ValidateRefundSettlement purpose orderStatus paidPaymentID paymentID =
     (case DecideRefundPurpose orderStatus paidPaymentID paymentID of
        Inl _ \<Rightarrow> Inl ErrPaymentStateConflict
      | Inr expected \<Rightarrow> (if expected \<noteq> purpose then Inl ErrPaymentStateConflict else Inr ()))"

section \<open>Reconciliation decisions\<close>

definition ReconciliationNeedsReview :: "reconciliation_status \<Rightarrow> bool" where
  "ReconciliationNeedsReview status \<longleftrightarrow>
     status = ReconciliationStatusRequired \<or> status = ReconciliationStatusProcessing"

definition ReconciliationJobCurrent :: "int \<Rightarrow> int \<Rightarrow> reconciliation_status \<Rightarrow> bool" where
  "ReconciliationJobCurrent jobVersion currentVersion status \<longleftrightarrow>
     jobVersion = 0 \<or> (jobVersion = currentVersion \<and> status = ReconciliationStatusProcessing)"

text \<open>\<open>after(t, now)\<close>: \<open>t.After(now)\<close> of a nullable lease deadline.\<close>

definition CanConfirmUnissuedPayment :: "PaymentDO \<Rightarrow> int \<Rightarrow> bool" where
  "CanConfirmUnissuedPayment p now =
     (if pdo_Status p \<noteq> PaymentStatusClosePending \<and> pdo_Status p \<noteq> PaymentStatusClosed then False
      else if act_Type (pdo_Action p) \<noteq> '''' \<or> act_Payload (pdo_Action p) \<noteq> '''' \<or>
              pdo_ThirdPartyTxID p \<noteq> '''' then False
      else if pdo_Method p = ''alipay:app'' \<or> pdo_Method p = ''alipay:wap'' then
        (case pdo_PrepayLeaseUntil p of None \<Rightarrow> True | Some t \<Rightarrow> \<not> now < t)
      else pdo_PrepayAttempts p = 0 \<and> pdo_PrepayLeaseUntil p = None \<and> pdo_PrepayLeaseToken p = '''')"

text \<open>
  The order facts \<open>CanResolveReconciliation\<close> reads. The Go function takes the whole
  \<^verbatim>\<open>biz.Order\<close> built by \<open>toBizOrder\<close>, where an absent paid payment is 0.
\<close>

definition CanResolveReconciliation :: "PaymentDO option \<Rightarrow> order \<Rightarrow> PaymentRefund option \<Rightarrow> bool" where
  "CanResolveReconciliation payment order refund =
     (case payment of None \<Rightarrow> False | Some p \<Rightarrow>
      (let paidID = int8_Int64 (ord_PaidPaymentID order);
           funded = ord_Status order \<in> {OrderStatusPaid, OrderStatusShipped, OrderStatusCompleted} in
       if pdo_OrderID p \<noteq> ord_ID order \<or> pdo_UserID p \<noteq> ord_UserID order \<or>
          pdo_Amount p \<noteq> ord_TotalAmountMinor order \<or> pdo_Currency p \<noteq> ord_Currency order then False
       else if pdo_ReconciliationReason p = ''provider_side_refund'' \<and>
               pdo_Status p \<noteq> PaymentStatusRefunded then False
       else if (case refund of None \<Rightarrow> False | Some r \<Rightarrow> prf_Status r = PaymentRefundStatusPending) then False
       else (case pdo_Status p of
           PaymentStatusSuccess \<Rightarrow> funded \<and> paidID = pdo_ID p \<and> pdo_ThirdPartyTxID p \<noteq> ''''
         | PaymentStatusRefunded \<Rightarrow>
             (case refund of None \<Rightarrow> False | Some r \<Rightarrow>
              if prf_PaymentID r \<noteq> pdo_ID p \<or> prf_OrderID r \<noteq> ord_ID order \<or>
                 prf_UserID r \<noteq> pdo_UserID p \<or> prf_Status r \<noteq> PaymentRefundStatusSuccess \<or>
                 prf_TotalAmount r \<noteq> pdo_Amount p \<or> prf_RefundAmount r \<noteq> pdo_Amount p \<or>
                 prf_Currency r \<noteq> pdo_Currency p then False
              else (case prf_Purpose r of
                  RefundOrderCancel \<Rightarrow> ord_Status order = OrderStatusRefunded \<and> paidID = pdo_ID p
                | RefundLate \<Rightarrow> ord_Status order = OrderStatusCancelled \<and> paidID = 0
                | RefundDuplicate \<Rightarrow> (funded \<or> ord_Status order = OrderStatusRefunded) \<and>
                                    paidID > 0 \<and> paidID \<noteq> pdo_ID p))
         | PaymentStatusClosed \<Rightarrow>
             (ord_Status order = OrderStatusCancelled \<and> paidID = 0) \<or>
             (ord_Status order = OrderStatusRefunded \<and> paidID > 0 \<and> paidID \<noteq> pdo_ID p) \<or>
             (funded \<and> paidID > 0 \<and> paidID \<noteq> pdo_ID p) \<or>
             (ord_Status order = OrderStatusPendingPayment \<and> paidID = 0)
         | PaymentStatusFailed \<Rightarrow>
             (ord_Status order = OrderStatusCancelled \<and> paidID = 0) \<or>
             (ord_Status order = OrderStatusRefunded \<and> paidID > 0 \<and> paidID \<noteq> pdo_ID p) \<or>
             (funded \<and> paidID > 0 \<and> paidID \<noteq> pdo_ID p) \<or>
             (ord_Status order = OrderStatusPendingPayment \<and> paidID = 0)
         | _ \<Rightarrow> False)))"

section \<open>Job arguments\<close>

definition NormalizeCheckPayArgs :: "CheckPayArgs \<Rightarrow> CheckPayArgs" where
  "NormalizeCheckPayArgs args = args\<lparr>
     cpa_Provider := ToLower (TrimSpace (cpa_Provider args)),
     cpa_MaxPolls := (if cpa_MaxPolls args \<le> 0 then 5 else cpa_MaxPolls args),
     cpa_PollIntervalSeconds := (if cpa_PollIntervalSeconds args \<le> 0 then 30 else cpa_PollIntervalSeconds args),
     cpa_Trigger := (if cpa_Trigger args = '''' then ''api'' else cpa_Trigger args)\<rparr>"

definition outTradeNo_char :: "char \<Rightarrow> bool" where
  "outTradeNo_char c = (let n = (of_char c :: nat) in
     (65 \<le> n \<and> n \<le> 90) \<or> (97 \<le> n \<and> n \<le> 122) \<or> (48 \<le> n \<and> n \<le> 57) \<or> c = CHR ''_'' \<or> c = CHR ''-'')"

definition validateOutTradeNo :: "string \<Rightarrow> error + unit" where
  "validateOutTradeNo value =
     (if value = '''' then Inl (BadRequest ''OUT_TRADE_NO_REQUIRED'')
      else if go_len value > 64 then Inl (BadRequest ''OUT_TRADE_NO_TOO_LONG'')
      else if \<forall>c \<in> set value. outTradeNo_char c then Inr ()
      else Inl (BadRequest ''OUT_TRADE_NO_INVALID''))"

section \<open>Properties\<close>

lemma Normalize_idem [simp]: "Normalize (Normalize m) = Normalize m"
  by (simp add: Normalize_def TrimSpace_ToLower)

lemma ParsePaymentMethod_Inr:
  "ParsePaymentMethod v = Inr m \<longleftrightarrow>
     Split (ToLower (TrimSpace v)) (CHR '':'') = [pm_Provider m, pm_Product m] \<and>
     pm_Provider m \<noteq> '''' \<and> pm_Product m \<noteq> ''''"
proof
  assume "ParsePaymentMethod v = Inr m"
  then show "Split (ToLower (TrimSpace v)) (CHR '':'') = [pm_Provider m, pm_Product m] \<and>
     pm_Provider m \<noteq> '''' \<and> pm_Product m \<noteq> ''''"
    by (auto simp: ParsePaymentMethod_def split: list.splits if_splits)
next
  assume "Split (ToLower (TrimSpace v)) (CHR '':'') = [pm_Provider m, pm_Product m] \<and>
     pm_Provider m \<noteq> '''' \<and> pm_Product m \<noteq> ''''"
  then show "ParsePaymentMethod v = Inr m" by (simp add: ParsePaymentMethod_def)
qed

lemma refund_decision_cases:
  "ValidateRefundSettlement p os paid pid = Inr () \<longleftrightarrow> DecideRefundPurpose os paid pid = Inr p"
  by (auto simp: ValidateRefundSettlement_def split: sum.splits)

lemma NeedsReview_simps [simp]:
  "ReconciliationNeedsReview ReconciliationStatusRequired"
  "ReconciliationNeedsReview ReconciliationStatusProcessing"
  "\<not> ReconciliationNeedsReview ReconciliationStatusNone"
  "\<not> ReconciliationNeedsReview ReconciliationStatusResolved"
  by (simp_all add: ReconciliationNeedsReview_def)

text \<open>Only the payment that funds its order can be resolved while it still holds money.\<close>

lemma CanResolve_success:
  assumes "CanResolveReconciliation (Some p) ord refund" and "pdo_Status p = PaymentStatusSuccess"
  shows "int8_Int64 (ord_PaidPaymentID ord) = pdo_ID p"
    and "ord_Status ord \<in> {OrderStatusPaid, OrderStatusShipped, OrderStatusCompleted}"
  using assms by (auto simp: CanResolveReconciliation_def Let_def split: if_splits)

end
