(* ===== verification/Ledger.thy ===== *)
theory Ledger
  imports EventSystem PaymentTypes
begin

text \<open>
  The abstract specification of the money: what an order, a payment and a refund are to the
  accounts, and the events that may happen to them. An order is funded by at most one
  payment; money that was captured and funds no order is under review; a refund gives the
  whole amount back once. The transactions of the repositories refine these events
  (theory Mall).
\<close>

section \<open>State\<close>

record aorder =
  ao_user :: int
  ao_total :: int
  ao_currency :: string
  ao_status :: order_status
  ao_paid :: "int option"
  ao_done :: bool

record apay =
  ap_order :: int
  ap_user :: int
  ap_amount :: int
  ap_currency :: string
  ap_status :: payment_status
  ap_review :: bool

record arefund =
  ar_order :: int
  ar_user :: int
  ar_total :: int
  ar_amount :: int
  ar_currency :: string
  ar_status :: refund_status

record ledger =
  lg_order :: "int \<Rightarrow> aorder option"
  lg_pay :: "int \<Rightarrow> apay option"
  lg_refund :: "int \<Rightarrow> arefund option"

definition money_taken :: "payment_status \<Rightarrow> bool" where
  "money_taken st \<longleftrightarrow> st = PaymentStatusSuccess \<or> st = PaymentStatusRefunded"

definition payment_open :: "payment_status \<Rightarrow> bool" where
  "payment_open st \<longleftrightarrow>
     st \<in> {PaymentStatusCreating, PaymentStatusPending, PaymentStatusClosePending}"

definition order_funded :: "order_status \<Rightarrow> bool" where
  "order_funded st \<longleftrightarrow> st \<in> {OrderStatusPaid, OrderStatusShipped, OrderStatusCompleted}"

definition order_final :: "order_status \<Rightarrow> bool" where
  "order_final st \<longleftrightarrow> st \<in> {OrderStatusCompleted, OrderStatusCancelled, OrderStatusRefunded}"

text \<open>The edges of the two life cycles.\<close>

definition order_edge :: "order_status \<Rightarrow> order_status \<Rightarrow> bool" where
  "order_edge a b \<longleftrightarrow> (a, b) \<in>
     {(OrderStatusPendingPayment, OrderStatusPaid), (OrderStatusPendingPayment, OrderStatusCancelled),
      (OrderStatusPaid, OrderStatusShipped), (OrderStatusPaid, OrderStatusRefunded),
      (OrderStatusShipped, OrderStatusCompleted)}"

definition payment_edge :: "payment_status \<Rightarrow> payment_status \<Rightarrow> bool" where
  "payment_edge a b \<longleftrightarrow>
     (payment_open a \<and> b \<in> {PaymentStatusClosed, PaymentStatusFailed}) \<or>
     (a, b) \<in> {(PaymentStatusCreating, PaymentStatusPending), (PaymentStatusCreating, PaymentStatusClosePending),
       (PaymentStatusPending, PaymentStatusClosePending), (PaymentStatusSuccess, PaymentStatusRefunded)} \<or>
     (\<not> money_taken a \<and> b = PaymentStatusSuccess)"

section \<open>Events\<close>

definition quiet :: "ledger \<Rightarrow> int \<Rightarrow> bool" where
  "quiet L oid \<longleftrightarrow> (\<forall>j q. lg_pay L j = Some q \<longrightarrow> ap_order q = oid \<longrightarrow>
     \<not> payment_open (ap_status q) \<and> \<not> money_taken (ap_status q))"

definition set_pay :: "int \<Rightarrow> apay \<Rightarrow> ledger \<Rightarrow> ledger" where
  "set_pay i p L = L\<lparr>lg_pay := (lg_pay L)(i \<mapsto> p)\<rparr>"

definition set_order :: "int \<Rightarrow> aorder \<Rightarrow> ledger \<Rightarrow> ledger" where
  "set_order i r L = L\<lparr>lg_order := (lg_order L)(i \<mapsto> r)\<rparr>"

definition set_refund :: "int \<Rightarrow> arefund \<Rightarrow> ledger \<Rightarrow> ledger" where
  "set_refund i r L = L\<lparr>lg_refund := (lg_refund L)(i \<mapsto> r)\<rparr>"

lemmas set_defs = set_pay_def set_order_def set_refund_def

inductive ledger_step :: "ledger \<Rightarrow> ledger \<Rightarrow> bool" where
  Place: "\<lbrakk>lg_order L i = None; 0 < ao_total r; ao_status r = OrderStatusPendingPayment;
      ao_paid r = None; \<not> ao_done r\<rbrakk> \<Longrightarrow> ledger_step L (set_order i r L)"
| Open: "\<lbrakk>lg_pay L i = None; 0 < i; lg_order L (ap_order p) = Some r; ao_status r = OrderStatusPendingPayment;
      ap_user p = ao_user r; ap_amount p = ao_total r; ap_currency p = ao_currency r;
      ap_status p = PaymentStatusCreating; \<not> ap_review p; quiet L (ap_order p)\<rbrakk>
      \<Longrightarrow> ledger_step L (set_pay i p L)"
| Move: "\<lbrakk>lg_pay L i = Some p; payment_edge (ap_status p) st; \<not> money_taken (ap_status p); \<not> money_taken st\<rbrakk>
      \<Longrightarrow> ledger_step L (set_pay i (p\<lparr>ap_status := st\<rparr>) L)"
| Review: "lg_pay L i = Some p \<Longrightarrow> ledger_step L (set_pay i (p\<lparr>ap_review := True\<rparr>) L)"
| Resolve: "\<lbrakk>lg_pay L i = Some p; lg_order L (ap_order p) = Some r;
      ap_status p = PaymentStatusSuccess \<longrightarrow> ao_paid r = Some i\<rbrakk>
      \<Longrightarrow> ledger_step L (set_pay i (p\<lparr>ap_review := False\<rparr>) L)"
| Capture: "\<lbrakk>lg_pay L i = Some p; \<not> money_taken (ap_status p); lg_order L (ap_order p) = Some r;
      ao_status r = OrderStatusPendingPayment\<rbrakk>
      \<Longrightarrow> ledger_step L (set_order (ap_order p) (r\<lparr>ao_status := OrderStatusPaid, ao_paid := Some i\<rparr>)
            (set_pay i (p\<lparr>ap_status := PaymentStatusSuccess\<rparr>) L))"
| CaptureLate: "\<lbrakk>lg_pay L i = Some p; \<not> money_taken (ap_status p); lg_order L (ap_order p) = Some r;
      ao_status r \<noteq> OrderStatusPendingPayment\<rbrakk>
      \<Longrightarrow> ledger_step L (set_pay i (p\<lparr>ap_status := PaymentStatusSuccess, ap_review := True\<rparr>) L)"
| Cancel: "\<lbrakk>lg_order L i = Some r; ao_status r = OrderStatusPendingPayment; quiet L i\<rbrakk>
      \<Longrightarrow> ledger_step L (set_order i (r\<lparr>ao_status := OrderStatusCancelled, ao_done := True\<rparr>) L)"
| RequestRefund: "\<lbrakk>lg_pay L i = Some p; ap_status p = PaymentStatusSuccess; lg_refund L i = None;
      ar_order f = ap_order p; ar_user f = ap_user p; ar_total f = ap_amount p; ar_amount f = ap_amount p;
      ar_currency f = ap_currency p; ar_status f = PaymentRefundStatusPending\<rbrakk>
      \<Longrightarrow> ledger_step L (set_refund i f L)"
| MoveRefund: "\<lbrakk>lg_refund L i = Some f; ar_status f \<noteq> PaymentRefundStatusSuccess; st \<noteq> PaymentRefundStatusSuccess\<rbrakk>
      \<Longrightarrow> ledger_step L (set_refund i (f\<lparr>ar_status := st\<rparr>) L)"
| RefundOrder: "\<lbrakk>lg_pay L i = Some p; ap_status p = PaymentStatusSuccess; lg_refund L i = Some f;
      lg_order L (ap_order p) = Some r; ao_status r = OrderStatusPaid; ao_paid r = Some i\<rbrakk>
      \<Longrightarrow> ledger_step L (set_order (ap_order p) (r\<lparr>ao_status := OrderStatusRefunded, ao_done := True\<rparr>)
            (set_refund i (f\<lparr>ar_status := PaymentRefundStatusSuccess\<rparr>)
            (set_pay i (p\<lparr>ap_status := PaymentStatusRefunded\<rparr>) L)))"
| RefundSurplus: "\<lbrakk>lg_pay L i = Some p; ap_status p = PaymentStatusSuccess; lg_refund L i = Some f;
      lg_order L (ap_order p) = Some r; ao_paid r \<noteq> Some i\<rbrakk>
      \<Longrightarrow> ledger_step L (set_refund i (f\<lparr>ar_status := PaymentRefundStatusSuccess\<rparr>)
            (set_pay i (p\<lparr>ap_status := PaymentStatusRefunded\<rparr>) L))"
| Ship: "\<lbrakk>lg_order L i = Some r; ao_status r = OrderStatusPaid\<rbrakk>
      \<Longrightarrow> ledger_step L (set_order i (r\<lparr>ao_status := OrderStatusShipped\<rparr>) L)"
| Complete: "\<lbrakk>lg_order L i = Some r; ao_status r = OrderStatusShipped\<rbrakk>
      \<Longrightarrow> ledger_step L (set_order i (r\<lparr>ao_status := OrderStatusCompleted, ao_done := True\<rparr>) L)"

definition ledger_init :: "ledger \<Rightarrow> bool" where
  "ledger_init L \<longleftrightarrow> lg_order L = Map.empty \<and> lg_pay L = Map.empty \<and> lg_refund L = Map.empty"

section \<open>Invariant\<close>

text \<open>What the status of an order says about the money.\<close>

definition order_ok :: "ledger \<Rightarrow> int \<Rightarrow> aorder \<Rightarrow> bool" where
  "order_ok L i r \<longleftrightarrow> 0 < ao_total r \<and> ao_status r \<noteq> OrderStatusCancelling \<and>
     (ao_done r \<longleftrightarrow> order_final (ao_status r)) \<and>
     (ao_paid r = None \<longleftrightarrow> ao_status r \<in> {OrderStatusPendingPayment, OrderStatusCancelled}) \<and>
     (ao_status r = OrderStatusPendingPayment \<longrightarrow>
        (\<forall>j q. lg_pay L j = Some q \<longrightarrow> ap_order q = i \<longrightarrow> \<not> money_taken (ap_status q))) \<and>
     (\<forall>j. ao_paid r = Some j \<longrightarrow> (\<exists>q. lg_pay L j = Some q \<and> ap_order q = i \<and>
        ap_status q = (if ao_status r = OrderStatusRefunded then PaymentStatusRefunded else PaymentStatusSuccess)))"

definition pay_ok :: "ledger \<Rightarrow> int \<Rightarrow> apay \<Rightarrow> bool" where
  "pay_ok L i p \<longleftrightarrow> 0 < i \<and>
     (\<exists>r. lg_order L (ap_order p) = Some r \<and> ap_user p = ao_user r \<and> ap_amount p = ao_total r \<and>
        ap_currency p = ao_currency r \<and>
        (ap_status p = PaymentStatusSuccess \<longrightarrow> ap_review p \<or> ao_paid r = Some i)) \<and>
     (ap_status p = PaymentStatusRefunded \<longleftrightarrow>
        (\<exists>f. lg_refund L i = Some f \<and> ar_status f = PaymentRefundStatusSuccess)) \<and>
     (\<forall>j q. lg_pay L j = Some q \<longrightarrow> ap_order q = ap_order p \<longrightarrow> payment_open (ap_status p) \<longrightarrow>
        payment_open (ap_status q) \<longrightarrow> j = i)"

definition refund_ok :: "ledger \<Rightarrow> int \<Rightarrow> arefund \<Rightarrow> bool" where
  "refund_ok L i f \<longleftrightarrow> (\<exists>p. lg_pay L i = Some p \<and> money_taken (ap_status p) \<and>
     ar_order f = ap_order p \<and> ar_user f = ap_user p \<and>
     ar_total f = ap_amount p \<and> ar_amount f = ap_amount p \<and> ar_currency f = ap_currency p)"

definition ledger_inv :: "ledger \<Rightarrow> bool" where
  "ledger_inv L \<longleftrightarrow>
     (\<forall>i r. lg_order L i = Some r \<longrightarrow> order_ok L i r) \<and>
     (\<forall>i p. lg_pay L i = Some p \<longrightarrow> pay_ok L i p) \<and>
     (\<forall>i f. lg_refund L i = Some f \<longrightarrow> refund_ok L i f)"

section \<open>The events keep the invariant\<close>


lemma payment_cases [simp]:
  "payment_open PaymentStatusCreating" "payment_open PaymentStatusPending" "payment_open PaymentStatusClosePending"
  "\<not> payment_open PaymentStatusSuccess" "\<not> payment_open PaymentStatusRefunded"
  "\<not> payment_open PaymentStatusClosed" "\<not> payment_open PaymentStatusFailed"
  "money_taken PaymentStatusSuccess" "money_taken PaymentStatusRefunded"
  "\<not> money_taken PaymentStatusCreating" "\<not> money_taken PaymentStatusPending"
  "\<not> money_taken PaymentStatusClosePending" "\<not> money_taken PaymentStatusClosed"
  "\<not> money_taken PaymentStatusFailed"
  by (simp_all add: payment_open_def money_taken_def)

lemma money_not_open: "money_taken st \<Longrightarrow> \<not> payment_open st"
  by (auto simp: money_taken_def)

lemma set_simps [simp]:
  "lg_pay (set_pay i p L) = (lg_pay L)(i \<mapsto> p)" "lg_order (set_pay i p L) = lg_order L"
  "lg_refund (set_pay i p L) = lg_refund L" "lg_pay (set_order i r L) = lg_pay L"
  "lg_order (set_order i r L) = (lg_order L)(i \<mapsto> r)" "lg_refund (set_order i r L) = lg_refund L"
  "lg_pay (set_refund i f L) = lg_pay L" "lg_order (set_refund i f L) = lg_order L"
  "lg_refund (set_refund i f L) = (lg_refund L)(i \<mapsto> f)"
  by (simp_all add: set_defs)

lemmas ok_defs = order_ok_def pay_ok_def refund_ok_def

lemma ledger_invI:
  assumes "\<And>i r. lg_order L i = Some r \<Longrightarrow> order_ok L i r"
    and "\<And>i p. lg_pay L i = Some p \<Longrightarrow> pay_ok L i p"
    and "\<And>i f. lg_refund L i = Some f \<Longrightarrow> refund_ok L i f"
  shows "ledger_inv L"
  using assms by (simp add: ledger_inv_def)

lemma ledger_invD:
  assumes "ledger_inv L"
  shows "lg_order L i = Some r \<Longrightarrow> order_ok L i r"
    and "lg_pay L i = Some p \<Longrightarrow> pay_ok L i p"
    and "lg_refund L i = Some f \<Longrightarrow> refund_ok L i f"
  using assms by (simp_all add: ledger_inv_def)

lemma inv_Place:
  assumes "ledger_inv L" "lg_order L i = None" "0 < ao_total r" "ao_status r = OrderStatusPendingPayment"
    "ao_paid r = None" "\<not> ao_done r"
  shows "ledger_inv (set_order i r L)"
  using assms unfolding ledger_inv_def ok_defs
  by (auto simp: order_final_def) (metis option.distinct(1))+


text \<open>An order keeps its promise when the payments change: none of its payments takes money while
  it is pending, and the payment that funds it stays as it is.\<close>

lemma order_ok_mono:
  assumes "order_ok L i r"
    and "\<And>j q. ao_status r = OrderStatusPendingPayment \<Longrightarrow> lg_pay L' j = Some q \<Longrightarrow> ap_order q = i \<Longrightarrow>
           money_taken (ap_status q) \<Longrightarrow> \<exists>q'. lg_pay L j = Some q' \<and> ap_order q' = i \<and> money_taken (ap_status q')"
    and "\<And>j q. ao_paid r = Some j \<Longrightarrow> lg_pay L j = Some q \<Longrightarrow> ap_order q = i \<Longrightarrow>
           \<exists>q'. lg_pay L' j = Some q' \<and> ap_order q' = i \<and> ap_status q' = ap_status q"
  shows "order_ok L' i r"
proof -
  from assms(1) have o: "0 < ao_total r" "ao_status r \<noteq> OrderStatusCancelling"
    "ao_done r \<longleftrightarrow> order_final (ao_status r)"
    "ao_paid r = None \<longleftrightarrow> ao_status r \<in> {OrderStatusPendingPayment, OrderStatusCancelled}"
    and pend: "\<And>j q. ao_status r = OrderStatusPendingPayment \<Longrightarrow> lg_pay L j = Some q \<Longrightarrow> ap_order q = i \<Longrightarrow>
      \<not> money_taken (ap_status q)"
    and paid: "\<And>j. ao_paid r = Some j \<Longrightarrow> \<exists>q. lg_pay L j = Some q \<and> ap_order q = i \<and>
        ap_status q = (if ao_status r = OrderStatusRefunded then PaymentStatusRefunded else PaymentStatusSuccess)"
    unfolding order_ok_def by blast+
  have "\<not> money_taken (ap_status q)"
    if "ao_status r = OrderStatusPendingPayment" "lg_pay L' j = Some q" "ap_order q = i" for j q
    using assms(2) [of j q] pend that by blast
  moreover have "\<exists>q. lg_pay L' j = Some q \<and> ap_order q = i \<and>
        ap_status q = (if ao_status r = OrderStatusRefunded then PaymentStatusRefunded else PaymentStatusSuccess)"
    if "ao_paid r = Some j" for j
    using paid [OF that] assms(3) [OF that] by metis
  ultimately show ?thesis using o unfolding order_ok_def by blast
qed

lemma pay_ok_mono:
  assumes "pay_ok L i p"
    and "\<And>r. lg_order L (ap_order p) = Some r \<Longrightarrow> \<exists>r'. lg_order L' (ap_order p) = Some r' \<and>
           ao_user r' = ao_user r \<and> ao_total r' = ao_total r \<and> ao_currency r' = ao_currency r \<and>
           (ao_paid r = Some i \<longrightarrow> ao_paid r' = Some i)"
    and "\<And>f. (lg_refund L i = Some f \<and> ar_status f = PaymentRefundStatusSuccess) \<longleftrightarrow>
           (lg_refund L' i = Some f \<and> ar_status f = PaymentRefundStatusSuccess)"
    and "\<And>j q. lg_pay L' j = Some q \<Longrightarrow> payment_open (ap_status q) \<Longrightarrow> ap_order q = ap_order p \<Longrightarrow>
           payment_open (ap_status p) \<Longrightarrow>
           j = i \<or> (\<exists>q'. lg_pay L j = Some q' \<and> ap_order q' = ap_order q \<and> payment_open (ap_status q'))"
  shows "pay_ok L' i p"
proof -
  from assms(1) obtain r where i: "0 < i" and r: "lg_order L (ap_order p) = Some r" "ap_user p = ao_user r"
      "ap_amount p = ao_total r" "ap_currency p = ao_currency r"
      "ap_status p = PaymentStatusSuccess \<longrightarrow> ap_review p \<or> ao_paid r = Some i"
    and ref: "ap_status p = PaymentStatusRefunded \<longleftrightarrow>
        (\<exists>f. lg_refund L i = Some f \<and> ar_status f = PaymentRefundStatusSuccess)"
    and one: "\<And>j q. lg_pay L j = Some q \<Longrightarrow> ap_order q = ap_order p \<Longrightarrow> payment_open (ap_status p) \<Longrightarrow>
        payment_open (ap_status q) \<Longrightarrow> j = i"
    unfolding pay_ok_def by blast
  have "\<exists>r. lg_order L' (ap_order p) = Some r \<and> ap_user p = ao_user r \<and> ap_amount p = ao_total r \<and>
        ap_currency p = ao_currency r \<and>
        (ap_status p = PaymentStatusSuccess \<longrightarrow> ap_review p \<or> ao_paid r = Some i)"
    using assms(2) [OF r(1)] r by metis
  moreover have "ap_status p = PaymentStatusRefunded \<longleftrightarrow>
        (\<exists>f. lg_refund L' i = Some f \<and> ar_status f = PaymentRefundStatusSuccess)"
    using ref assms(3) by blast
  moreover have "j = i" if "lg_pay L' j = Some q" "ap_order q = ap_order p" "payment_open (ap_status p)"
    "payment_open (ap_status q)" for j q
    using assms(4) [of j q] one that by metis
  ultimately show ?thesis using i unfolding pay_ok_def by blast
qed

lemma pay_okI:
  assumes "0 < i" "lg_order L (ap_order p) = Some r" "ap_user p = ao_user r" "ap_amount p = ao_total r"
    "ap_currency p = ao_currency r" "ap_status p = PaymentStatusSuccess \<Longrightarrow> ap_review p \<or> ao_paid r = Some i"
    "ap_status p = PaymentStatusRefunded \<longleftrightarrow>
        (\<exists>f. lg_refund L i = Some f \<and> ar_status f = PaymentRefundStatusSuccess)"
    "\<And>j q. lg_pay L j = Some q \<Longrightarrow> ap_order q = ap_order p \<Longrightarrow> payment_open (ap_status p) \<Longrightarrow>
        payment_open (ap_status q) \<Longrightarrow> j = i"
  shows "pay_ok L i p"
  unfolding pay_ok_def using assms by blast

lemma pay_okE:
  assumes "pay_ok L i p"
  obtains r where "0 < i" "lg_order L (ap_order p) = Some r" "ap_user p = ao_user r" "ap_amount p = ao_total r"
    "ap_currency p = ao_currency r" "ap_status p = PaymentStatusSuccess \<Longrightarrow> ap_review p \<or> ao_paid r = Some i"
    "ap_status p = PaymentStatusRefunded \<longleftrightarrow>
        (\<exists>f. lg_refund L i = Some f \<and> ar_status f = PaymentRefundStatusSuccess)"
    "\<And>j q. lg_pay L j = Some q \<Longrightarrow> ap_order q = ap_order p \<Longrightarrow> payment_open (ap_status p) \<Longrightarrow>
        payment_open (ap_status q) \<Longrightarrow> j = i"
  using assms unfolding pay_ok_def by blast

lemma refund_ok_mono:
  assumes "refund_ok L i f"
    and "\<And>p. lg_pay L i = Some p \<Longrightarrow> \<exists>p'. lg_pay L' i = Some p' \<and> ap_order p' = ap_order p \<and>
      ap_user p' = ap_user p \<and> ap_amount p' = ap_amount p \<and> ap_currency p' = ap_currency p \<and>
      (money_taken (ap_status p) \<longrightarrow> money_taken (ap_status p'))"
  shows "refund_ok L' i f"
  using assms unfolding refund_ok_def by metis


lemma inv_Open:
  assumes inv: "ledger_inv L" and new: "lg_pay L i = None" "0 < i" and r: "lg_order L (ap_order p) = Some r"
    "ao_status r = OrderStatusPendingPayment" "ap_user p = ao_user r" "ap_amount p = ao_total r"
    "ap_currency p = ao_currency r" and p: "ap_status p = PaymentStatusCreating" and q: "quiet L (ap_order p)"
  shows "ledger_inv (set_pay i p L)"
proof (rule ledger_invI)
  fix j r' assume "lg_order (set_pay i p L) j = Some r'"
  then have "order_ok L j r'" using inv by (simp add: ledger_invD)
  then show "order_ok (set_pay i p L) j r'"
    by (rule order_ok_mono) (use new p in \<open>auto split: if_splits\<close>)
next
  fix j p' assume a: "lg_pay (set_pay i p L) j = Some p'"
  show "pay_ok (set_pay i p L) j p'"
  proof (cases "j = i")
    case True
    have "lg_refund L i = None"
      using ledger_invD(3) [OF inv, of i] new by (cases "lg_refund L i") (auto simp: refund_ok_def)
    moreover have "\<And>j' q'. lg_pay L j' = Some q' \<Longrightarrow> ap_order q' = ap_order p \<Longrightarrow> \<not> payment_open (ap_status q')"
      using q by (simp add: quiet_def)
    ultimately show ?thesis using True a new r p by (auto simp: pay_ok_def)
  next
    case False
    then have ok: "pay_ok L j p'" and l: "lg_pay L j = Some p'" using a inv by (simp_all add: ledger_invD)
    from ok show ?thesis
      by (rule pay_ok_mono) (use l q in \<open>auto simp: quiet_def split: if_splits\<close>)
  qed
next
  fix j f assume "lg_refund (set_pay i p L) j = Some f"
  then have "refund_ok L j f" using inv by (simp add: ledger_invD)
  then show "refund_ok (set_pay i p L) j f" by (rule refund_ok_mono) (use new in auto)
qed

text \<open>A payment that stays what it was to the accounts, or moves among the states without money.\<close>

lemma inv_pay_update:
  assumes inv: "ledger_inv L" and p: "lg_pay L i = Some p"
    and same: "ap_order p' = ap_order p" "ap_user p' = ap_user p" "ap_amount p' = ap_amount p"
      "ap_currency p' = ap_currency p"
    and st: "ap_status p' = ap_status p \<or> (\<not> money_taken (ap_status p) \<and> \<not> money_taken (ap_status p') \<and>
      (payment_open (ap_status p') \<longrightarrow> payment_open (ap_status p)))"
    and rev: "ap_status p' = PaymentStatusSuccess \<Longrightarrow> ap_review p' \<or>
      (\<exists>r. lg_order L (ap_order p) = Some r \<and> ao_paid r = Some i)"
  shows "ledger_inv (set_pay i p' L)"
proof (rule ledger_invI)
  fix j r assume "lg_order (set_pay i p' L) j = Some r"
  then have ok: "order_ok L j r" using inv by (simp add: ledger_invD)
  then show "order_ok (set_pay i p' L) j r"
  proof (rule order_ok_mono)
    fix k q assume "lg_pay (set_pay i p' L) k = Some q" "ap_order q = j" "money_taken (ap_status q)"
    then show "\<exists>q'. lg_pay L k = Some q' \<and> ap_order q' = j \<and> money_taken (ap_status q')"
      using p same st by (auto split: if_splits)
  next
    fix k q assume a: "ao_paid r = Some k" "lg_pay L k = Some q" "ap_order q = j"
    then have "money_taken (ap_status q)" using ok by (auto simp: order_ok_def split: if_splits)
    then show "\<exists>q'. lg_pay (set_pay i p' L) k = Some q' \<and> ap_order q' = j \<and> ap_status q' = ap_status q"
      using a p same st by (cases "k = i") auto
  qed
next
  fix j q assume a: "lg_pay (set_pay i p' L) j = Some q"
  have okp: "pay_ok L i p" using inv p by (simp add: ledger_invD)
  show "pay_ok (set_pay i p' L) j q"
  proof (cases "j = i")
    case False
    then have "pay_ok L j q" using a inv by (simp add: ledger_invD)
    then show ?thesis
      by (rule pay_ok_mono) (use a p same st False in \<open>auto split: if_splits\<close>)
  next
    case True
    with a have q: "q = p'" by simp
    obtain r where r: "0 < i" "lg_order L (ap_order p) = Some r" "ap_user p = ao_user r" "ap_amount p = ao_total r"
      "ap_currency p = ao_currency r"
      and ref: "ap_status p = PaymentStatusRefunded \<longleftrightarrow>
        (\<exists>f. lg_refund L i = Some f \<and> ar_status f = PaymentRefundStatusSuccess)"
      and one: "\<And>j q. lg_pay L j = Some q \<Longrightarrow> ap_order q = ap_order p \<Longrightarrow> payment_open (ap_status p) \<Longrightarrow>
        payment_open (ap_status q) \<Longrightarrow> j = i"
      using okp by (rule pay_okE) blast
    have "pay_ok (set_pay i p' L) i p'"
    proof (rule pay_okI)
      show "ap_status p' = PaymentStatusRefunded \<longleftrightarrow>
        (\<exists>f. lg_refund (set_pay i p' L) i = Some f \<and> ar_status f = PaymentRefundStatusSuccess)"
        using ref st by auto
    next
      fix k q' assume "lg_pay (set_pay i p' L) k = Some q'" "ap_order q' = ap_order p'"
        "payment_open (ap_status p')" "payment_open (ap_status q')"
      then show "k = i" using one [of k q'] same st by (auto split: if_splits)
    qed (use r same rev in auto)
    then show ?thesis using True q by simp
  qed
next
  fix j f assume "lg_refund (set_pay i p' L) j = Some f"
  then have "refund_ok L j f" using inv by (simp add: ledger_invD)
  then show "refund_ok (set_pay i p' L) j f" by (rule refund_ok_mono) (use p same st in auto)
qed


lemma inv_order_update:
  assumes inv: "ledger_inv L" and r: "lg_order L i = Some r"
    and same: "ao_user r' = ao_user r" "ao_total r' = ao_total r" "ao_currency r' = ao_currency r"
      "\<And>j. ao_paid r = Some j \<Longrightarrow> ao_paid r' = Some j"
    and ok: "order_ok L i r'"
  shows "ledger_inv (set_order i r' L)"
proof (rule ledger_invI)
  fix j q assume "lg_order (set_order i r' L) j = Some q"
  then have "order_ok L j q" using inv ok by (auto simp: ledger_invD split: if_splits)
  then show "order_ok (set_order i r' L) j q" by (rule order_ok_mono) auto
next
  fix j p assume "lg_pay (set_order i r' L) j = Some p"
  then have "pay_ok L j p" using inv by (simp add: ledger_invD)
  then show "pay_ok (set_order i r' L) j p"
    by (rule pay_ok_mono) (use r same in \<open>auto split: if_splits\<close>)
next
  fix j f assume "lg_refund (set_order i r' L) j = Some f"
  then have "refund_ok L j f" using inv by (simp add: ledger_invD)
  then show "refund_ok (set_order i r' L) j f" by (rule refund_ok_mono) auto
qed

lemma inv_Cancel:
  assumes "ledger_inv L" "lg_order L i = Some r" "ao_status r = OrderStatusPendingPayment" "quiet L i"
  shows "ledger_inv (set_order i (r\<lparr>ao_status := OrderStatusCancelled, ao_done := True\<rparr>) L)"
  using assms ledger_invD(1) [OF assms(1,2)]
  by (intro inv_order_update [OF assms(1,2)]) (auto simp: order_ok_def order_final_def)

lemma inv_Ship:
  assumes "ledger_inv L" "lg_order L i = Some r" "ao_status r = OrderStatusPaid"
  shows "ledger_inv (set_order i (r\<lparr>ao_status := OrderStatusShipped\<rparr>) L)"
  using assms ledger_invD(1) [OF assms(1,2)]
  by (intro inv_order_update [OF assms(1,2)]) (auto simp: order_ok_def order_final_def)

lemma inv_Complete:
  assumes "ledger_inv L" "lg_order L i = Some r" "ao_status r = OrderStatusShipped"
  shows "ledger_inv (set_order i (r\<lparr>ao_status := OrderStatusCompleted, ao_done := True\<rparr>) L)"
  using assms ledger_invD(1) [OF assms(1,2)]
  by (intro inv_order_update [OF assms(1,2)]) (auto simp: order_ok_def order_final_def)

lemma pay_ok_taken:
  assumes ok: "pay_ok L i p" and r: "lg_order L (ap_order p) = Some r" "lg_order L' (ap_order p) = Some r'"
      "ao_user r' = ao_user r" "ao_total r' = ao_total r" "ao_currency r' = ao_currency r"
    and p': "ap_order p' = ap_order p" "ap_user p' = ap_user p" "ap_amount p' = ap_amount p"
      "ap_currency p' = ap_currency p" "money_taken (ap_status p')"
      "ap_status p' = PaymentStatusSuccess \<Longrightarrow> ap_review p' \<or> ao_paid r' = Some i"
    and ref: "ap_status p' = PaymentStatusRefunded \<longleftrightarrow>
        (\<exists>f. lg_refund L' i = Some f \<and> ar_status f = PaymentRefundStatusSuccess)"
  shows "pay_ok L' i p'"
proof (rule pay_okI)
  show "0 < i" using ok by (simp add: pay_ok_def)
  show "lg_order L' (ap_order p') = Some r'" using r p' by simp
  show "ap_user p' = ao_user r'" "ap_amount p' = ao_total r'" "ap_currency p' = ao_currency r'"
    using ok r p' by (auto simp: pay_ok_def)
qed (use p' ref money_not_open in auto)

lemma inv_Capture:
  assumes inv: "ledger_inv L" and p: "lg_pay L i = Some p" "\<not> money_taken (ap_status p)"
    and r: "lg_order L (ap_order p) = Some r" "ao_status r = OrderStatusPendingPayment"
  shows "ledger_inv (set_order (ap_order p) (r\<lparr>ao_status := OrderStatusPaid, ao_paid := Some i\<rparr>)
            (set_pay i (p\<lparr>ap_status := PaymentStatusSuccess\<rparr>) L))" (is "ledger_inv ?L")
proof (rule ledger_invI)
  have okr: "order_ok L (ap_order p) r" using inv r by (simp add: ledger_invD)
  then have none: "ao_paid r = None" using r by (simp add: order_ok_def)
  have okp: "pay_ok L i p" using inv p by (simp add: ledger_invD)
  have noref: "\<nexists>f. lg_refund L i = Some f \<and> ar_status f = PaymentRefundStatusSuccess"
    using okp p by (metis pay_ok_def money_taken_def)
  {
    fix j q assume q: "lg_order ?L j = Some q"
    show "order_ok ?L j q"
    proof (cases "j = ap_order p")
      case True
      then show ?thesis using q okr r by (auto simp: order_ok_def order_final_def)
    next
      case False
      then have "order_ok L j q" using q inv by (simp add: ledger_invD)
      then show ?thesis by (rule order_ok_mono) (use False p in \<open>auto split: if_splits\<close>)
    qed
  next
    fix j q assume q: "lg_pay ?L j = Some q"
    show "pay_ok ?L j q"
    proof (cases "j = i")
      case True
      show ?thesis unfolding True
        by (rule pay_ok_taken [OF okp r(1), where r' = "r\<lparr>ao_status := OrderStatusPaid, ao_paid := Some i\<rparr>"])
           (use True q p r noref in auto)
    next
      case False
      then have "pay_ok L j q" using q inv by (simp add: ledger_invD)
      then show ?thesis by (rule pay_ok_mono) (use False none p r in \<open>auto split: if_splits\<close>)
    qed
  next
    fix j f assume "lg_refund ?L j = Some f"
    then have "refund_ok L j f" using inv by (simp add: ledger_invD)
    then show "refund_ok ?L j f" by (rule refund_ok_mono) (use p in auto)
  }
qed

lemma inv_CaptureLate:
  assumes inv: "ledger_inv L" and p: "lg_pay L i = Some p" "\<not> money_taken (ap_status p)"
    and r: "lg_order L (ap_order p) = Some r" "ao_status r \<noteq> OrderStatusPendingPayment"
  shows "ledger_inv (set_pay i (p\<lparr>ap_status := PaymentStatusSuccess, ap_review := True\<rparr>) L)" (is "ledger_inv ?L")
proof (rule ledger_invI)
  have okp: "pay_ok L i p" using inv p by (simp add: ledger_invD)
  have noref: "\<nexists>f. lg_refund L i = Some f \<and> ar_status f = PaymentRefundStatusSuccess"
    using okp p by (metis pay_ok_def money_taken_def)
  {
    fix j q assume q: "lg_order ?L j = Some q"
    then have ok: "order_ok L j q" using inv by (simp add: ledger_invD)
    have "ao_paid q \<noteq> Some i"
      using ok p by (auto simp: order_ok_def split: if_splits)
    then show "order_ok ?L j q"
      by (intro order_ok_mono [OF ok]) (use q p r in \<open>auto split: if_splits\<close>)
  next
    fix j q assume q: "lg_pay ?L j = Some q"
    show "pay_ok ?L j q"
    proof (cases "j = i")
      case True
      show ?thesis unfolding True
        by (rule pay_ok_taken [OF okp r(1)]) (use True q p r noref in auto)
    next
      case False
      then have "pay_ok L j q" using q inv by (simp add: ledger_invD)
      then show ?thesis by (rule pay_ok_mono) (use False p r in \<open>auto split: if_splits\<close>)
    qed
  next
    fix j f assume "lg_refund ?L j = Some f"
    then have "refund_ok L j f" using inv by (simp add: ledger_invD)
    then show "refund_ok ?L j f" by (rule refund_ok_mono) (use p in auto)
  }
qed


lemma inv_RequestRefund:
  assumes inv: "ledger_inv L" and p: "lg_pay L i = Some p" "ap_status p = PaymentStatusSuccess"
    and none: "lg_refund L i = None" and f: "ar_order f = ap_order p" "ar_user f = ap_user p"
      "ar_total f = ap_amount p" "ar_amount f = ap_amount p" "ar_currency f = ap_currency p"
      "ar_status f = PaymentRefundStatusPending"
  shows "ledger_inv (set_refund i f L)"
proof (rule ledger_invI)
  fix j q assume "lg_order (set_refund i f L) j = Some q"
  then have "order_ok L j q" using inv by (simp add: ledger_invD)
  then show "order_ok (set_refund i f L) j q" by (rule order_ok_mono) auto
next
  fix j q assume "lg_pay (set_refund i f L) j = Some q"
  then have "pay_ok L j q" using inv by (simp add: ledger_invD)
  then show "pay_ok (set_refund i f L) j q"
    by (rule pay_ok_mono) (use none f in \<open>auto split: if_splits\<close>)
next
  fix j g assume g: "lg_refund (set_refund i f L) j = Some g"
  show "refund_ok (set_refund i f L) j g"
  proof (cases "j = i")
    case True
    then show ?thesis using g p f by (auto simp: refund_ok_def)
  next
    case False
    then have "refund_ok L j g" using g inv by (simp add: ledger_invD)
    then show ?thesis by (rule refund_ok_mono) auto
  qed
qed

lemma inv_MoveRefund:
  assumes inv: "ledger_inv L" and f: "lg_refund L i = Some f" "ar_status f \<noteq> PaymentRefundStatusSuccess"
    "st \<noteq> PaymentRefundStatusSuccess"
  shows "ledger_inv (set_refund i (f\<lparr>ar_status := st\<rparr>) L)" (is "ledger_inv ?L")
proof (rule ledger_invI)
  fix j q assume "lg_order ?L j = Some q"
  then have "order_ok L j q" using inv by (simp add: ledger_invD)
  then show "order_ok ?L j q" by (rule order_ok_mono) auto
next
  fix j q assume "lg_pay ?L j = Some q"
  then have "pay_ok L j q" using inv by (simp add: ledger_invD)
  then show "pay_ok ?L j q" by (rule pay_ok_mono) (use f in \<open>auto split: if_splits\<close>)
next
  fix j g assume g: "lg_refund ?L j = Some g"
  have "refund_ok L i f" using inv f by (simp add: ledger_invD)
  moreover have "j \<noteq> i \<Longrightarrow> refund_ok L j g" using g inv by (simp add: ledger_invD)
  ultimately show "refund_ok ?L j g" using g by (auto simp: refund_ok_def split: if_splits)
qed

text \<open>The two settlements of a refund: of the payment that funds a paid order, and of money that
  funds no order.\<close>

lemma inv_settle:
  assumes inv: "ledger_inv L" and p: "lg_pay L i = Some p" "ap_status p = PaymentStatusSuccess"
    and f: "lg_refund L i = Some f" and r: "lg_order L (ap_order p) = Some r"
    and r': "r' = r \<and> ao_paid r \<noteq> Some i \<or> ao_status r = OrderStatusPaid \<and> ao_paid r = Some i \<and>
       r' = r\<lparr>ao_status := OrderStatusRefunded, ao_done := True\<rparr>"
  shows "ledger_inv (set_order (ap_order p) r' (set_refund i (f\<lparr>ar_status := PaymentRefundStatusSuccess\<rparr>)
            (set_pay i (p\<lparr>ap_status := PaymentStatusRefunded\<rparr>) L)))" (is "ledger_inv ?L")
proof (rule ledger_invI)
  have okr: "order_ok L (ap_order p) r" using inv r by (simp add: ledger_invD)
  have okp: "pay_ok L i p" using inv p by (simp add: ledger_invD)
  have same: "ao_user r' = ao_user r" "ao_total r' = ao_total r" "ao_currency r' = ao_currency r"
    "ao_paid r' = ao_paid r" using r' by auto
  {
    fix j q assume q: "lg_order ?L j = Some q"
    show "order_ok ?L j q"
    proof (cases "j = ap_order p")
      case False
      then have "order_ok L j q" using q inv by (simp add: ledger_invD)
      then show ?thesis by (rule order_ok_mono) (use False p in \<open>auto split: if_splits\<close>)
    next
      case True
      show ?thesis
      proof (cases "ao_paid r = Some i")
        case True
        then show ?thesis using q okr r' p \<open>j = ap_order p\<close>
          by (auto simp: order_ok_def order_final_def)
      next
        case False
        then have "order_ok L j q" using q r' okr True by simp
        then show ?thesis by (rule order_ok_mono) (use p False r' q True in \<open>auto split: if_splits\<close>)
      qed
    qed
  next
    fix j q assume q: "lg_pay ?L j = Some q"
    show "pay_ok ?L j q"
    proof (cases "j = i")
      case True
      show ?thesis unfolding True
        by (rule pay_ok_taken [OF okp r(1), where r' = r']) (use True q p same in auto)
    next
      case False
      then have "pay_ok L j q" using q inv by (simp add: ledger_invD)
      then show ?thesis by (rule pay_ok_mono) (use False same p r in \<open>auto split: if_splits\<close>)
    qed
  next
    fix j g assume g: "lg_refund ?L j = Some g"
    have "refund_ok L i f" using inv f by (simp add: ledger_invD)
    moreover have "j \<noteq> i \<Longrightarrow> refund_ok L j g" using g inv by (simp add: ledger_invD)
    ultimately show "refund_ok ?L j g" using g p by (auto simp: refund_ok_def split: if_splits)
  }
qed


lemma ledger_inv_step:
  assumes "ledger_step L L'" and "ledger_inv L"
  shows "ledger_inv L'"
  using assms
proof (induction rule: ledger_step.induct)
  case (Move L i p st)
  then show ?case
    by (intro inv_pay_update [where p = p]) (auto simp: payment_edge_def)
next
  case (Review L i p)
  then show ?case by (intro inv_pay_update [where p = p]) auto
next
  case (Resolve L i p r)
  then show ?case by (intro inv_pay_update [where p = p]) auto
next
  case (RefundOrder L i p f r)
  then show ?case by (intro inv_settle) auto
next
  case (RefundSurplus L i p f r)
  then have "ledger_inv (set_order (ap_order p) r (set_refund i (f\<lparr>ar_status := PaymentRefundStatusSuccess\<rparr>)
            (set_pay i (p\<lparr>ap_status := PaymentStatusRefunded\<rparr>) L)))"
    by (intro inv_settle) auto
  moreover have "set_order (ap_order p) r (set_refund i (f\<lparr>ar_status := PaymentRefundStatusSuccess\<rparr>)
            (set_pay i (p\<lparr>ap_status := PaymentStatusRefunded\<rparr>) L))
      = set_refund i (f\<lparr>ar_status := PaymentRefundStatusSuccess\<rparr>)
            (set_pay i (p\<lparr>ap_status := PaymentStatusRefunded\<rparr>) L)"
    using RefundSurplus by (simp add: set_defs fun_upd_idem)
  ultimately show ?case by simp
qed (simp_all add: inv_Place inv_Open inv_Capture inv_CaptureLate inv_Cancel inv_RequestRefund
       inv_MoveRefund inv_Ship inv_Complete)

interpretation money: invariant_system ledger_init ledger_step ledger_inv
proof
  show "ledger_init L \<Longrightarrow> ledger_inv L" for L by (simp add: ledger_init_def ledger_inv_def)
  show "ledger_inv L \<Longrightarrow> ledger_step L L' \<Longrightarrow> ledger_inv L'" for L L' by (rule ledger_inv_step)
qed

section \<open>What the events do over time\<close>

text \<open>An order keeps its owner, its amount and its currency, and its status moves along the edges.\<close>

definition order_path :: "order_status \<Rightarrow> order_status \<Rightarrow> bool" where
  "order_path = rtranclp order_edge"

definition payment_path :: "payment_status \<Rightarrow> payment_status \<Rightarrow> bool" where
  "payment_path = rtranclp payment_edge"

definition order_moves :: "ledger \<Rightarrow> ledger \<Rightarrow> bool" where
  "order_moves L L' \<longleftrightarrow> (\<forall>i r. lg_order L i = Some r \<longrightarrow> (\<exists>r'. lg_order L' i = Some r' \<and>
     ao_user r' = ao_user r \<and> ao_total r' = ao_total r \<and> ao_currency r' = ao_currency r \<and>
     order_path (ao_status r) (ao_status r') \<and> (ao_paid r \<noteq> None \<longrightarrow> ao_paid r' = ao_paid r)))"

definition payment_moves :: "ledger \<Rightarrow> ledger \<Rightarrow> bool" where
  "payment_moves L L' \<longleftrightarrow> (\<forall>i p. lg_pay L i = Some p \<longrightarrow> (\<exists>p'. lg_pay L' i = Some p' \<and>
     ap_order p' = ap_order p \<and> ap_user p' = ap_user p \<and> ap_amount p' = ap_amount p \<and>
     ap_currency p' = ap_currency p \<and> payment_path (ap_status p) (ap_status p')))"

lemma order_path_refl [simp]: "order_path a a"
  by (simp add: order_path_def)

lemma payment_path_refl [simp]: "payment_path a a"
  by (simp add: payment_path_def)

lemma order_path_edge: "order_edge a b \<Longrightarrow> order_path a b"
  by (simp add: order_path_def)

lemma payment_path_edge: "payment_edge a b \<Longrightarrow> payment_path a b"
  by (simp add: payment_path_def)

lemma order_final_stays:
  assumes "order_path a b" "order_final a"
  shows "b = a"
proof -
  have "rtranclp order_edge a b" using assms(1) by (simp add: order_path_def)
  then show ?thesis
    by (induction rule: rtranclp_induct) (use assms(2) in \<open>auto simp: order_edge_def order_final_def\<close>)
qed

lemma order_moves_step:
  assumes "ledger_step L L'" and "ledger_inv L"
  shows "order_moves L L'"
  using assms
proof (induction rule: ledger_step.induct)
  case (Capture L i p r)
  then have "ao_paid r = None" using ledger_invD(1) [OF Capture.prems Capture.hyps(3)] by (simp add: order_ok_def)
  with Capture show ?case
    by (auto simp: order_moves_def order_edge_def intro!: order_path_edge)
qed (auto simp: order_moves_def order_edge_def intro!: order_path_edge)

lemma payment_moves_step: "ledger_step L L' \<Longrightarrow> payment_moves L L'"
  by (induction rule: ledger_step.induct)
     (auto simp: payment_moves_def intro!: payment_path_edge, auto simp: payment_edge_def)

lemma order_moves_trans:
  assumes "order_moves L M" "order_moves M N"
  shows "order_moves L N"
  unfolding order_moves_def
proof (intro allI impI)
  fix i r assume "lg_order L i = Some r"
  with assms(1) obtain r1 where 1: "lg_order M i = Some r1" "ao_user r1 = ao_user r" "ao_total r1 = ao_total r"
    "ao_currency r1 = ao_currency r" "order_path (ao_status r) (ao_status r1)" "ao_paid r \<noteq> None \<longrightarrow> ao_paid r1 = ao_paid r"
    unfolding order_moves_def by blast
  from assms(2) 1(1) obtain r2 where 2: "lg_order N i = Some r2" "ao_user r2 = ao_user r1" "ao_total r2 = ao_total r1"
    "ao_currency r2 = ao_currency r1" "order_path (ao_status r1) (ao_status r2)" "ao_paid r1 \<noteq> None \<longrightarrow> ao_paid r2 = ao_paid r1"
    unfolding order_moves_def by blast
  have "order_path (ao_status r) (ao_status r2)" using 1(5) 2(5) by (simp add: order_path_def)
  with 1 2 show "\<exists>r'. lg_order N i = Some r' \<and> ao_user r' = ao_user r \<and> ao_total r' = ao_total r \<and>
     ao_currency r' = ao_currency r \<and> order_path (ao_status r) (ao_status r') \<and> (ao_paid r \<noteq> None \<longrightarrow> ao_paid r' = ao_paid r)"
    by simp
qed

lemma payment_moves_trans:
  assumes "payment_moves L M" "payment_moves M N"
  shows "payment_moves L N"
  unfolding payment_moves_def
proof (intro allI impI)
  fix i p assume "lg_pay L i = Some p"
  with assms(1) obtain p1 where 1: "lg_pay M i = Some p1" "ap_order p1 = ap_order p" "ap_user p1 = ap_user p"
    "ap_amount p1 = ap_amount p" "ap_currency p1 = ap_currency p" "payment_path (ap_status p) (ap_status p1)"
    unfolding payment_moves_def by blast
  from assms(2) 1(1) obtain p2 where 2: "lg_pay N i = Some p2" "ap_order p2 = ap_order p1" "ap_user p2 = ap_user p1"
    "ap_amount p2 = ap_amount p1" "ap_currency p2 = ap_currency p1" "payment_path (ap_status p1) (ap_status p2)"
    unfolding payment_moves_def by blast
  have "payment_path (ap_status p) (ap_status p2)" using 1(6) 2(6) by (simp add: payment_path_def)
  with 1 2 show "\<exists>p'. lg_pay N i = Some p' \<and> ap_order p' = ap_order p \<and> ap_user p' = ap_user p \<and>
     ap_amount p' = ap_amount p \<and> ap_currency p' = ap_currency p \<and> payment_path (ap_status p) (ap_status p')"
    by simp
qed

lemma order_moves_star:
  assumes "rtranclp ledger_step L L'" and "ledger_inv L"
  shows "order_moves L L'"
  using assms
proof (induction rule: rtranclp_induct)
  case base
  then show ?case by (auto simp: order_moves_def)
next
  case (step M N)
  have "ledger_inv M" using money.inv_star step by blast
  then have "order_moves M N" using step.hyps(2) order_moves_step by blast
  moreover have "order_moves L M" using step by blast
  ultimately show ?case using order_moves_trans by blast
qed

lemma payment_moves_star: "rtranclp ledger_step L L' \<Longrightarrow> payment_moves L L'"
proof (induction rule: rtranclp_induct)
  case base
  then show ?case by (auto simp: payment_moves_def)
next
  case (step M N)
  then have "payment_moves M N" using payment_moves_step by blast
  with step.IH show ?case using payment_moves_trans by blast
qed

end
