(* ===== verification/Money.thy ===== *)
theory Money
  imports Schema GoStrings
begin

text \<open>
  Prices, order amounts and pagination (app/mall/internal/biz/mall.go, pagination.go,
  catalog\_status.go and \<open>multiplyMoney\<close> of app/mall/internal/data/order.go).

  Decimal values come from the shopspring/decimal package, which is not part of the
  repository: a decimal is the rational number it denotes, comparisons are those of the
  rationals, and the operations the code calls are the fields of a \<open>decimal_lib\<close> the
  definitions take as an argument. \<open>decimal_ok\<close> collects the documented behaviour the code
  relies on: exact shifting and multiplication, truncation, and rounding half away from zero.
\<close>

section \<open>Decimals\<close>

record decimal_lib =
  dec_Shift :: "rat \<Rightarrow> int \<Rightarrow> rat"
  dec_Truncate :: "rat \<Rightarrow> int \<Rightarrow> rat"
  dec_Round :: "rat \<Rightarrow> int \<Rightarrow> rat"
  dec_Mul :: "rat \<Rightarrow> rat \<Rightarrow> rat"
  dec_IntPart :: "rat \<Rightarrow> int"

definition decimal_ok :: "decimal_lib \<Rightarrow> bool" where
  "decimal_ok L \<longleftrightarrow>
     (\<forall>x. dec_Shift L x 2 = x * 100) \<and>
     (\<forall>x \<ge> 0. dec_Truncate L x 0 = of_int \<lfloor>x\<rfloor>) \<and>
     (\<forall>x \<ge> 0. dec_Round L x 0 = of_int \<lfloor>x + 1 / 2\<rfloor>) \<and>
     (\<forall>x \<ge> 0. dec_Round L x 2 = of_int \<lfloor>x * 100 + 1 / 2\<rfloor> / 100) \<and>
     (\<forall>x y. dec_Mul L x y = x * y) \<and>
     (\<forall>n. 0 \<le> n \<longrightarrow> n \<le> MaxInt64 \<longrightarrow> dec_IntPart L (of_int n) = n)"

section \<open>Prices\<close>

definition ProductPriceMinor :: "decimal_lib \<Rightarrow> rat \<Rightarrow> error + int" where
  "ProductPriceMinor L price = (let minor = dec_Shift L price 2 in
     if minor < 0 \<or> minor \<noteq> dec_Truncate L minor 0 \<or> minor > of_int MaxInt64
     then Inl (BadRequest ''PRODUCT_PRICE_INVALID'')
     else Inr (dec_IntPart L minor))"

definition ProductDiscount :: "decimal_lib \<Rightarrow> rat \<Rightarrow> error + unit" where
  "ProductDiscount L discount =
     (if \<not> discount > 0 \<or> discount > 1 \<or> discount \<noteq> dec_Round L discount 2
      then Inl (BadRequest ''PRODUCT_DISCOUNT_INVALID'') else Inr ())"

definition EffectivePriceMinor :: "decimal_lib \<Rightarrow> int \<Rightarrow> rat \<Rightarrow> error + int" where
  "EffectivePriceMinor L priceMinor discount =
     (if priceMinor < 0 then Inl (BadRequest ''PRODUCT_PRICE_INVALID'')
      else case ProductDiscount L discount of
        Inl e \<Rightarrow> Inl e
      | Inr _ \<Rightarrow> Inr (dec_IntPart L (dec_Round L (dec_Mul L (of_int priceMinor) discount) 0)))"

definition multiplyMoney :: "int \<Rightarrow> int \<Rightarrow> int \<times> bool" where
  "multiplyMoney amount quantity =
     (if amount < 0 \<or> quantity < 0 \<or> (quantity \<noteq> 0 \<and> amount > go_div MaxInt64 quantity)
      then (0, True) else (wrap64 (amount * quantity), False))"

section \<open>Catalogue status\<close>

definition ValidateProductStatus :: "int \<Rightarrow> error + unit" where
  "ValidateProductStatus status =
     (if status \<noteq> 0 \<and> status \<noteq> 1 then Inl (BadRequest ''PRODUCT_STATUS_INVALID'') else Inr ())"

definition ValidateEventStatus :: "int \<Rightarrow> error + unit" where
  "ValidateEventStatus status =
     (if status < 0 \<or> status > 2 then Inl (BadRequest ''EVENT_STATUS_INVALID'') else Inr ())"

section \<open>Pagination\<close>

record Pagination =
  pg_Limit :: int
  pg_Offset :: int

definition MaxPageSize :: int where
  "MaxPageSize = 100"

definition NewPage :: "int \<Rightarrow> int \<Rightarrow> error + Pagination" where
  "NewPage page0 size0 =
     (if page0 < 0 \<or> size0 < 0 \<or> size0 > MaxPageSize then Inl (BadRequest ''PAGINATION_INVALID'')
      else let page = (if page0 = 0 then 1 else page0);
               size = (if size0 = 0 then 20 else size0);
               offset = wrap64 (wrap32 (page - 1) * size) in
        if offset > MaxInt32 then Inl (BadRequest ''PAGINATION_INVALID'')
        else Inr \<lparr>pg_Limit = size, pg_Offset = wrap32 offset\<rparr>)"

definition NewOffsetPage :: "int \<Rightarrow> int \<Rightarrow> error + Pagination" where
  "NewOffsetPage limit offset =
     (if limit < 0 \<or> limit > MaxPageSize \<or> offset < 0 then Inl (BadRequest ''PAGINATION_INVALID'')
      else Inr \<lparr>pg_Limit = (if limit = 0 then 20 else limit), pg_Offset = offset\<rparr>)"

section \<open>Properties\<close>

lemma int_le_div_iff:
  fixes a b q :: int
  assumes "0 < q"
  shows "a \<le> b div q \<longleftrightarrow> a * q \<le> b"
proof
  have m: "b div q * q \<le> b" using pos_mod_sign [OF assms, of b] div_mult_mod_eq [of b q] by linarith
  assume "a \<le> b div q"
  then have "a * q \<le> b div q * q" using assms by (intro mult_right_mono) auto
  with m show "a * q \<le> b" by linarith
next
  assume "a * q \<le> b"
  then have "(a * q) div q \<le> b div q" using assms by (intro zdiv_mono1) auto
  then show "a \<le> b div q" using assms by simp
qed

lemma multiplyMoney_exact:
  "multiplyMoney a q = (r, False) \<longleftrightarrow> 0 \<le> a \<and> 0 \<le> q \<and> a * q \<le> MaxInt64 \<and> r = a * q"
proof (cases "a < 0 \<or> q < 0")
  case True
  then show ?thesis by (auto simp: multiplyMoney_def)
next
  case nn: False
  show ?thesis
  proof (cases "q = 0")
    case True
    with nn show ?thesis by (auto simp: multiplyMoney_def wrap64_def MaxInt64_def)
  next
    case False
    with nn have q: "0 < q" by simp
    have d: "go_div MaxInt64 q = MaxInt64 div q"
      using q by (simp add: go_div_nonneg MaxInt64_def)
    have "a \<le> MaxInt64 div q \<longleftrightarrow> a * q \<le> MaxInt64"
      using q by (rule int_le_div_iff)
    moreover have "0 \<le> a * q" using nn by simp
    then have "a * q \<le> MaxInt64 \<Longrightarrow> wrap64 (a * q) = a * q"
      by (intro wrap64_id) (simp add: int64_range_def MaxInt64_def)
    ultimately show ?thesis using nn False d by (auto simp: multiplyMoney_def)
  qed
qed

lemma ProductDiscount_range: "ProductDiscount L d = Inr u \<Longrightarrow> 0 < d \<and> d \<le> 1"
  by (auto simp: ProductDiscount_def split: if_splits)

lemma round_half_bounds:
  fixes x :: rat
  assumes "0 \<le> x" and "x \<le> of_int n"
  shows "0 \<le> \<lfloor>x + 1 / 2\<rfloor>" and "\<lfloor>x + 1 / 2\<rfloor> \<le> n"
    and "\<bar>of_int \<lfloor>x + 1 / 2\<rfloor> - x\<bar> \<le> 1 / 2"
proof -
  show "0 \<le> \<lfloor>x + 1 / 2\<rfloor>" using assms(1) by (simp add: le_floor_iff)
  have "x + 1 / 2 < of_int n + 1" using assms(2) by simp
  then have "\<lfloor>x + 1 / 2\<rfloor> < n + 1" by (metis floor_less_iff of_int_add of_int_1)
  then show "\<lfloor>x + 1 / 2\<rfloor> \<le> n" by simp
  show "\<bar>of_int \<lfloor>x + 1 / 2\<rfloor> - x\<bar> \<le> 1 / 2"
    using floor_correct [of "x + 1 / 2"] by linarith
qed

lemma EffectivePriceMinor_Inr:
  assumes ok: "decimal_ok L" and eff: "EffectivePriceMinor L p d = Inr r" and p: "p \<le> MaxInt64"
  shows "r = \<lfloor>of_int p * d + 1 / 2\<rfloor>" and "0 \<le> r" and "r \<le> p"
proof -
  from eff have p0: "0 \<le> p" and disc: "ProductDiscount L d = Inr ()"
    and r: "r = dec_IntPart L (dec_Round L (dec_Mul L (of_int p) d) 0)"
    by (auto simp: EffectivePriceMinor_def split: if_splits sum.splits)
  have d: "0 < d" "d \<le> 1" using ProductDiscount_range [OF disc] by auto
  have x0: "0 \<le> of_int p * d" using p0 d by simp
  have x1: "of_int p * d \<le> of_int p" using p0 d by (simp add: mult_left_le)
  note b = round_half_bounds [OF x0 x1]
  have "dec_Round L (dec_Mul L (of_int p) d) 0 = of_int \<lfloor>of_int p * d + 1 / 2\<rfloor>"
    using ok x0 by (simp add: decimal_ok_def)
  then show eq: "r = \<lfloor>of_int p * d + 1 / 2\<rfloor>"
    using ok r b p by (auto simp: decimal_ok_def)
  show "0 \<le> r" "r \<le> p" using b eq by auto
qed

text \<open>A decimal library that meets the documented behaviour.\<close>

definition exact_decimals :: decimal_lib where
  "exact_decimals = \<lparr>
     dec_Shift = (\<lambda>x n. if n \<ge> 0 then x * 10 ^ nat n else x / 10 ^ nat (- n)),
     dec_Truncate = (\<lambda>x n. of_int \<lfloor>x * 10 ^ nat n\<rfloor> / 10 ^ nat n),
     dec_Round = (\<lambda>x n. of_int \<lfloor>x * 10 ^ nat n + 1 / 2\<rfloor> / 10 ^ nat n),
     dec_Mul = (\<lambda>x y. x * y),
     dec_IntPart = (\<lambda>x. \<lfloor>x\<rfloor>)\<rparr>"

lemma exact_decimals_ok: "decimal_ok exact_decimals"
  by (simp add: decimal_ok_def exact_decimals_def)

end
