(* ===== verification/Queries.thy ===== *)
theory Queries
  imports PaymentTypes Money
begin

text \<open>
  The SQL statements of the order and payment tables
  (app/mall/internal/data/db/*.sql.go), one definition per \<^verbatim>\<open>Queries\<close> method, named after
  it with the prefix \<open>q_\<close>. A \<open>:one\<close> statement returns the row or \<open>ErrNoRows\<close>; an
  \<open>UPDATE ... WHERE id = $1 AND guard RETURNING\<close> is a compare-and-set on the row.
  Row locks (\<open>FOR UPDATE\<close>, \<open>FOR KEY SHARE\<close>) have no effect inside one transaction; they
  are what makes the transactions on one order run one after the other, which the system
  theory models by one step per transaction. The unique indexes, the CHECK constraints and
  the integer width of \<open>products.stock\<close> are checked where a statement can violate them.
\<close>

section \<open>Users, addresses, products\<close>

definition q_LockUserForReference :: "int \<Rightarrow> (db, int) tx" where
  "q_LockUserForReference i = tx_bind (sql_get tb_users usr_ID i) (\<lambda>u. tx_return (usr_ID u))"

definition q_GetShippingAddressForSnapshot :: "int \<Rightarrow> int \<Rightarrow> (db, shipping_address) tx" where
  "q_GetShippingAddressForSnapshot i uid =
     sql_find tb_addresses (\<lambda>a. adr_ID a = i \<and> adr_UserID a = uid)"

definition q_GetProductForOrder :: "int \<Rightarrow> (db, product) tx" where
  "q_GetProductForOrder i = (\<lambda>s. case find_row prd_ID i (tb_products s) of
      None \<Rightarrow> Inl ErrNoRows
    | Some p \<Rightarrow> (if prd_DeletedAt p = None then Inr (p, s) else Inl ErrNoRows))"

definition q_GetProduct :: "int \<Rightarrow> (db, product) tx" where
  "q_GetProduct i = q_GetProductForOrder i"

text \<open>
  \<open>SET stock = stock - $2\<close> and \<open>SET stock = stock + $2\<close>: the column is an INTEGER with
  \<open>CHECK (stock >= 0)\<close>, so a value outside the range aborts the transaction.
\<close>

definition check_stock :: "product \<Rightarrow> (db, unit) tx" where
  "check_stock p = tx_seq
     (tx_fail_if (\<not> int32_range (prd_Stock p)) NumericOutOfRange)
     (tx_fail_if (prd_Stock p < 0) (CheckViolation ''products_stock_check''))"

definition q_DecrProductStock :: "int \<Rightarrow> int \<Rightarrow> (db, int) tx" where
  "q_DecrProductStock i amount = tx_bind
     (sql_update tb_products put_products prd_ID i
        (\<lambda>p. prd_Stock p \<ge> amount \<and> prd_DeletedAt p = None)
        (\<lambda>p. p\<lparr>prd_Stock := prd_Stock p - amount\<rparr>))
     (\<lambda>p. tx_seq (check_stock p) (tx_return (prd_Stock p)))"

definition q_AdjustProductStock :: "int \<Rightarrow> int \<Rightarrow> (db, product) tx" where
  "q_AdjustProductStock i delta = tx_bind
     (sql_update tb_products put_products prd_ID i (\<lambda>p. prd_DeletedAt p = None)
        (\<lambda>p. p\<lparr>prd_Stock := prd_Stock p + delta\<rparr>))
     (\<lambda>p. tx_seq (check_stock p) (tx_return p))"

text \<open>
  \<open>UPDATE products p ... FROM order_items oi WHERE oi.order_id = $1 AND oi.product_id = p.id\<close>:
  each joined product row is updated once, from one of its joined items.
\<close>

definition item_of :: "int \<Rightarrow> int \<Rightarrow> order_item list \<Rightarrow> order_item option" where
  "item_of oid pid t = List.find (\<lambda>i. itm_OrderID i = oid \<and> itm_ProductID i = pid) t"

definition restore_product :: "order_item list \<Rightarrow> int \<Rightarrow> product \<Rightarrow> product" where
  "restore_product t oid p = (case item_of oid (prd_ID p) t of
      None \<Rightarrow> p | Some i \<Rightarrow> p\<lparr>prd_Stock := prd_Stock p + itm_Quantity i\<rparr>)"

definition q_RestoreOrderItemStock :: "int \<Rightarrow> (db, unit) tx" where
  "q_RestoreOrderItemStock oid = (\<lambda>s.
     let t = map (restore_product (tb_items s) oid) (tb_products s) in
     if \<exists>p \<in> set t. \<not> int32_range (prd_Stock p) then Inl NumericOutOfRange
     else if \<exists>p \<in> set t. prd_Stock p < 0 then Inl (CheckViolation ''products_stock_check'')
     else Inr ((), s\<lparr>tb_products := t\<rparr>))"

text \<open>The order states whose items can still come back to stock.\<close>

definition restorable :: "order_status \<Rightarrow> bool" where
  "restorable st \<longleftrightarrow> st \<in> {OrderStatusPendingPayment, OrderStatusCancelling, OrderStatusPaid}"

definition q_GetRestorableProductStock :: "int \<Rightarrow> (db, int) tx" where
  "q_GetRestorableProductStock pid = tx_read (\<lambda>s.
     (\<Sum>i \<leftarrow> tb_items s. if itm_ProductID i = pid \<and>
        (case find_row ord_ID (itm_OrderID i) (tb_orders s) of
           None \<Rightarrow> False | Some o' \<Rightarrow> restorable (ord_Status o')) then itm_Quantity i else 0))"

definition q_GetStockAdjustment :: "int \<Rightarrow> string \<Rightarrow> (db, stock_adjustment) tx" where
  "q_GetStockAdjustment pid k =
     sql_find tb_adjustments (\<lambda>a. adj_ProductID a = pid \<and> adj_IdempotencyKey a = k)"

definition q_CreateStockAdjustment ::
    "int \<Rightarrow> int \<Rightarrow> int \<Rightarrow> string \<Rightarrow> string \<Rightarrow> int \<Rightarrow> (db, stock_adjustment) tx" where
  "q_CreateStockAdjustment pid actor delta reason k resulting =
     tx_bind (tx_read (\<lambda>s. next_id adj_ID (tb_adjustments s))) (\<lambda>i.
       sql_insert tb_adjustments put_adjustments
         \<lparr>adj_ID = i, adj_ProductID = pid, adj_ActorID = actor, adj_Delta = delta,
          adj_Reason = reason, adj_IdempotencyKey = k, adj_ResultingStock = resulting\<rparr>)"

section \<open>Orders\<close>

definition q_GetOrder :: "int \<Rightarrow> (db, order) tx" where
  "q_GetOrder i = sql_get tb_orders ord_ID i"

definition q_GetOrderForUpdate :: "int \<Rightarrow> (db, order) tx" where
  "q_GetOrderForUpdate i = sql_get tb_orders ord_ID i"

definition q_GetOrderByUserForUpdate :: "int \<Rightarrow> int \<Rightarrow> (db, order) tx" where
  "q_GetOrderByUserForUpdate i uid = (\<lambda>s. case find_row ord_ID i (tb_orders s) of
      None \<Rightarrow> Inl ErrNoRows
    | Some r \<Rightarrow> (if ord_UserID r = uid then Inr (r, s) else Inl ErrNoRows))"

definition q_GetOrderByUserIdempotency :: "int \<Rightarrow> string \<Rightarrow> (db, order) tx" where
  "q_GetOrderByUserIdempotency uid k =
     sql_find tb_orders (\<lambda>r. ord_UserID r = uid \<and> ord_IdempotencyKey r = k)"

definition q_GetOrderByUser :: "int \<Rightarrow> int \<Rightarrow> (db, order) tx" where
  "q_GetOrderByUser i uid = sql_find tb_orders (\<lambda>r. ord_ID r = i \<and> ord_UserID r = uid)"

definition q_GetOrderByOrderNo :: "string \<Rightarrow> (db, order) tx" where
  "q_GetOrderByOrderNo no = sql_find tb_orders (\<lambda>r. ord_OutTradeNo r = no)"

text \<open>\<open>pg_advisory_xact_lock\<close>: held to the end of the transaction, no effect on the data.\<close>

definition q_LockOrderIdempotency :: "int \<Rightarrow> string \<Rightarrow> (db, unit) tx" where
  "q_LockOrderIdempotency uid k = tx_return ()"

definition q_HasOngoingOrders :: "int \<Rightarrow> (db, bool) tx" where
  "q_HasOngoingOrders uid = tx_read (\<lambda>s. \<exists>r \<in> set (tb_orders s). ord_UserID r = uid \<and> \<not> ord_IsCompleted r)"

definition q_CountOngoingOrdersByUser :: "int \<Rightarrow> (db, int) tx" where
  "q_CountOngoingOrdersByUser uid = tx_read (\<lambda>s.
     go_len (filter (\<lambda>r. ord_UserID r = uid \<and> \<not> ord_IsCompleted r) (tb_orders s)))"

definition q_CountOrdersByUser :: "int \<Rightarrow> (db, int) tx" where
  "q_CountOrdersByUser uid = tx_read (\<lambda>s. go_len (filter (\<lambda>r. ord_UserID r = uid) (tb_orders s)))"

text \<open>\<open>ORDER BY id DESC LIMIT l OFFSET o\<close>\<close>

definition sql_page :: "('r \<Rightarrow> int) \<Rightarrow> int \<Rightarrow> int \<Rightarrow> 'r list \<Rightarrow> 'r list" where
  "sql_page key lmt off t = take (nat lmt) (drop (nat off) (sort_key (\<lambda>r. - key r) t))"

definition q_ListOngoingOrdersByUser :: "int \<Rightarrow> int \<Rightarrow> int \<Rightarrow> (db, order list) tx" where
  "q_ListOngoingOrdersByUser uid lmt off = tx_read (\<lambda>s. sql_page ord_ID lmt off
     (filter (\<lambda>r. ord_UserID r = uid \<and> \<not> ord_IsCompleted r) (tb_orders s)))"

definition q_ListOrdersByUser :: "int \<Rightarrow> int \<Rightarrow> int \<Rightarrow> (db, order list) tx" where
  "q_ListOrdersByUser uid lmt off = tx_read (\<lambda>s.
     sql_page ord_ID lmt off (filter (\<lambda>r. ord_UserID r = uid) (tb_orders s)))"

definition q_ListOverduePendingOrders :: "int \<Rightarrow> int \<Rightarrow> int \<Rightarrow> (db, int list) tx" where
  "q_ListOverduePendingOrders afterID grace lmt = tx_read (\<lambda>s. take (nat lmt) (sort (map ord_ID
     (filter (\<lambda>r. ord_ID r > afterID \<and> ord_Status r = OrderStatusPendingPayment \<and>
                  ord_ExpiresAt r \<le> tb_current_timestamp s - grace) (tb_orders s)))))"

definition q_GetOrderForUpdateByPaymentID :: "int \<Rightarrow> (db, order) tx" where
  "q_GetOrderForUpdateByPaymentID pid = tx_bind (sql_get tb_payments pay_ID pid)
     (\<lambda>p. sql_get tb_orders ord_ID (pay_OrderID p))"

definition q_OrderIsExpired :: "int \<Rightarrow> (db, bool) tx" where
  "q_OrderIsExpired i = tx_bind (sql_get tb_orders ord_ID i) (\<lambda>r.
     tx_read (\<lambda>s. ord_ExpiresAt r \<le> tb_clock_timestamp s))"

definition q_MarkOrderCancelling :: "int \<Rightarrow> (db, order) tx" where
  "q_MarkOrderCancelling i = (\<lambda>s. sql_update tb_orders put_orders ord_ID i
     (\<lambda>r. ord_Status r = OrderStatusPendingPayment)
     (\<lambda>r. r\<lparr>ord_Status := OrderStatusCancelling, ord_UpdatedAt := tb_current_timestamp s\<rparr>) s)"

definition q_MarkOrderCancelled :: "int \<Rightarrow> (db, order) tx" where
  "q_MarkOrderCancelled i = (\<lambda>s. sql_update tb_orders put_orders ord_ID i
     (\<lambda>r. ord_Status r = OrderStatusCancelling)
     (\<lambda>r. r\<lparr>ord_IsCompleted := True, ord_Status := OrderStatusCancelled,
            ord_UpdatedAt := tb_current_timestamp s\<rparr>) s)"

definition q_MarkOrderPaid :: "int \<Rightarrow> int option \<Rightarrow> (db, order) tx" where
  "q_MarkOrderPaid i pid = (\<lambda>s. sql_update tb_orders put_orders ord_ID i
     (\<lambda>r. ord_Status r = OrderStatusPendingPayment)
     (\<lambda>r. r\<lparr>ord_Status := OrderStatusPaid, ord_PaidPaymentID := pid,
            ord_UpdatedAt := tb_current_timestamp s\<rparr>) s)"

definition q_MarkOrderRefunded :: "int \<Rightarrow> (db, order) tx" where
  "q_MarkOrderRefunded i = (\<lambda>s. sql_update tb_orders put_orders ord_ID i
     (\<lambda>r. ord_Status r = OrderStatusPaid)
     (\<lambda>r. r\<lparr>ord_IsCompleted := True, ord_Status := OrderStatusRefunded,
            ord_UpdatedAt := tb_current_timestamp s\<rparr>) s)"

definition q_MarkOrderShipped :: "int \<Rightarrow> (db, order) tx" where
  "q_MarkOrderShipped i = (\<lambda>s. sql_update tb_orders put_orders ord_ID i
     (\<lambda>r. ord_Status r = OrderStatusPaid \<and> ord_PaidPaymentID r \<noteq> None)
     (\<lambda>r. r\<lparr>ord_Status := OrderStatusShipped, ord_UpdatedAt := tb_clock_timestamp s\<rparr>) s)"

definition q_MarkOrderCompleted :: "int \<Rightarrow> (db, order) tx" where
  "q_MarkOrderCompleted i = (\<lambda>s. sql_update tb_orders put_orders ord_ID i
     (\<lambda>r. ord_Status r = OrderStatusShipped)
     (\<lambda>r. r\<lparr>ord_Status := OrderStatusCompleted, ord_IsCompleted := True,
            ord_UpdatedAt := tb_clock_timestamp s\<rparr>) s)"

record CreateOrderParams =
  cop_UserID :: int
  cop_AddressID :: int
  cop_TotalAmountMinor :: int
  cop_Currency :: string
  cop_OutTradeNo :: string
  cop_IdempotencyKey :: string
  cop_RequestHash :: string
  cop_PaymentTimeout :: int
  cop_Address :: shipping_address

text \<open>
  The INSERT of an order with its constraints: a positive amount, a complete shipping
  snapshot, a fresh \<open>out_trade_no\<close> and a fresh (user, idempotency key) pair.
\<close>

definition q_CreateOrder :: "CreateOrderParams \<Rightarrow> (db, order) tx" where
  "q_CreateOrder a = (\<lambda>s.
     let ad = cop_Address a;
         r = \<lparr>ord_ID = next_id ord_ID (tb_orders s), ord_UserID = cop_UserID a,
              ord_AddressID = cop_AddressID a, ord_ReceiverName = adr_ReceiverName ad,
              ord_ReceiverPhoneEncrypt = adr_ReceiverPhoneEncrypt ad,
              ord_ShippingProvince = adr_Province ad, ord_ShippingCity = adr_City ad,
              ord_ShippingDistrict = adr_District ad, ord_ShippingDetailAddress = adr_DetailAddress ad,
              ord_PaidPaymentID = None, ord_TotalAmountMinor = cop_TotalAmountMinor a,
              ord_Currency = cop_Currency a, ord_Status = OrderStatusPendingPayment,
              ord_IsCompleted = False, ord_OutTradeNo = cop_OutTradeNo a,
              ord_IdempotencyKey = cop_IdempotencyKey a, ord_RequestHash = cop_RequestHash a,
              ord_ExpiresAt = tb_clock_timestamp s + cop_PaymentTimeout a,
              ord_CreatedAt = tb_current_timestamp s, ord_UpdatedAt = tb_current_timestamp s\<rparr> in
     if cop_AddressID a \<le> 0 \<or> adr_ReceiverName ad = '''' \<or> adr_ReceiverPhoneEncrypt ad = '''' \<or>
        adr_DetailAddress ad = '''' then Inl (CheckViolation ''orders_shipping_snapshot_check'')
     else if cop_TotalAmountMinor a \<le> 0 then Inl (CheckViolation ''orders_amount_check'')
     else if \<exists>o' \<in> set (tb_orders s). ord_OutTradeNo o' = cop_OutTradeNo a
       then Inl (UniqueViolation ''idx_orders_out_trade_no'')
     else if \<exists>o' \<in> set (tb_orders s). ord_UserID o' = cop_UserID a \<and>
               ord_IdempotencyKey o' = cop_IdempotencyKey a
       then Inl (UniqueViolation ''idx_orders_user_idempotency'')
     else Inr (r, s\<lparr>tb_orders := tb_orders s @ [r]\<rparr>))"

definition q_CreateOrderItem ::
    "int \<Rightarrow> int \<Rightarrow> int \<Rightarrow> int \<Rightarrow> string \<Rightarrow> MediaInfo list \<Rightarrow> (db, order_item) tx" where
  "q_CreateOrderItem oid pid qty price name cover =
     tx_seq (tx_fail_if (qty \<le> 0) (CheckViolation ''order_items_quantity_check''))
     (tx_seq (tx_fail_if (price < 0) (CheckViolation ''order_items_price_check''))
     (tx_bind (tx_read (\<lambda>s. next_id itm_ID (tb_items s))) (\<lambda>i.
       sql_insert tb_items put_items
         \<lparr>itm_ID = i, itm_OrderID = oid, itm_ProductID = pid, itm_Quantity = qty,
          itm_UnitPriceMinor = price, itm_ProductNameSnapshot = name, itm_CoverImageSnapshot = cover\<rparr>)))"

definition q_ListOrderItems :: "int \<Rightarrow> (db, order_item list) tx" where
  "q_ListOrderItems oid = tx_read (\<lambda>s. filter (\<lambda>i. itm_OrderID i = oid) (tb_items s))"

definition q_ListOrderItemsByOrderIDs :: "int list \<Rightarrow> (db, order_item list) tx" where
  "q_ListOrderItemsByOrderIDs oids = tx_read (\<lambda>s.
     sort_key (\<lambda>i. (itm_OrderID i, itm_ID i)) (filter (\<lambda>i. itm_OrderID i \<in> set oids) (tb_items s)))"

definition q_ListOrderFulfillmentActions :: "int \<Rightarrow> (db, fulfillment_action list) tx" where
  "q_ListOrderFulfillmentActions oid = tx_read (\<lambda>s.
     take 2 (sort_key ful_ID (filter (\<lambda>a. ful_OrderID a = oid) (tb_fulfillment s))))"

definition q_GetOrderFulfillmentAction :: "int \<Rightarrow> string \<Rightarrow> (db, fulfillment_action) tx" where
  "q_GetOrderFulfillmentAction oid k =
     sql_find tb_fulfillment (\<lambda>a. ful_OrderID a = oid \<and> ful_IdempotencyKey a = k)"

definition q_CreateOrderFulfillmentAction :: "fulfillment_action \<Rightarrow> (db, fulfillment_action) tx" where
  "q_CreateOrderFulfillmentAction a = (\<lambda>s.
     if \<exists>b \<in> set (tb_fulfillment s). ful_OrderID b = ful_OrderID a \<and> ful_Action b = ful_Action a
       then Inl (UniqueViolation ''order_fulfillment_actions_order_id_action_key'')
     else if \<exists>b \<in> set (tb_fulfillment s). ful_OrderID b = ful_OrderID a \<and>
               ful_IdempotencyKey b = ful_IdempotencyKey a
       then Inl (UniqueViolation ''order_fulfillment_actions_order_id_idempotency_key_key'')
     else sql_insert tb_fulfillment put_fulfillment
            (a\<lparr>ful_ID := next_id ful_ID (tb_fulfillment s)\<rparr>) s)"

section \<open>Payments\<close>

definition active_payment :: "payment_status \<Rightarrow> bool" where
  "active_payment st \<longleftrightarrow>
     st \<in> {PaymentStatusCreating, PaymentStatusPending, PaymentStatusClosePending}"

definition q_GetPayment :: "int \<Rightarrow> (db, payment) tx" where
  "q_GetPayment i = sql_get tb_payments pay_ID i"

definition q_GetPaymentForUpdate :: "int \<Rightarrow> (db, payment) tx" where
  "q_GetPaymentForUpdate i = sql_get tb_payments pay_ID i"

definition q_GetPaymentByOutTradeNo :: "string \<Rightarrow> (db, payment) tx" where
  "q_GetPaymentByOutTradeNo no = sql_find tb_payments (\<lambda>p. pay_OutTradeNo p = no)"

text \<open>\<open>ORDER BY created_at DESC, id DESC\<close>\<close>

definition payments_newest_first :: "payment list \<Rightarrow> payment list" where
  "payments_newest_first t = sort_key (\<lambda>p. (- pay_CreatedAt p, - pay_ID p)) t"

definition q_ListPaymentsByOrderForUpdate :: "int \<Rightarrow> (db, payment list) tx" where
  "q_ListPaymentsByOrderForUpdate oid = tx_read (\<lambda>s.
     payments_newest_first (filter (\<lambda>p. pay_OrderID p = oid) (tb_payments s)))"

definition q_GetActivePaymentByOrder :: "int \<Rightarrow> (db, payment) tx" where
  "q_GetActivePaymentByOrder oid = (\<lambda>s.
     case payments_newest_first
            (filter (\<lambda>p. pay_OrderID p = oid \<and> active_payment (pay_Status p)) (tb_payments s)) of
       [] \<Rightarrow> Inl ErrNoRows | p # _ \<Rightarrow> Inr (p, s))"

definition q_GetLatestPaymentByOrder :: "int \<Rightarrow> (db, payment) tx" where
  "q_GetLatestPaymentByOrder oid = (\<lambda>s.
     case payments_newest_first (filter (\<lambda>p. pay_OrderID p = oid) (tb_payments s)) of
       [] \<Rightarrow> Inl ErrNoRows | p # _ \<Rightarrow> Inr (p, s))"

definition q_GetOrderExpiryByPaymentID :: "int \<Rightarrow> (db, int) tx" where
  "q_GetOrderExpiryByPaymentID pid = tx_bind (sql_get tb_payments pay_ID pid)
     (\<lambda>p. tx_bind (sql_get tb_orders ord_ID (pay_OrderID p)) (\<lambda>r. tx_return (ord_ExpiresAt r)))"

record CreatePaymentParams =
  cpp_OrderID :: int
  cpp_UserID :: int
  cpp_MerchantID :: int
  cpp_AmountMinor :: int
  cpp_Currency :: string
  cpp_Status :: payment_status
  cpp_PayChannel :: string
  cpp_OutTradeNo :: string

definition new_payment :: "int \<Rightarrow> CreatePaymentParams \<Rightarrow> int \<Rightarrow> payment" where
  "new_payment i a now = \<lparr>pay_ID = i, pay_OrderID = cpp_OrderID a, pay_UserID = cpp_UserID a,
     pay_MerchantID = cpp_MerchantID a, pay_AmountMinor = cpp_AmountMinor a,
     pay_Currency = cpp_Currency a, pay_Status = cpp_Status a, pay_PayChannel = cpp_PayChannel a,
     pay_ThirdPartyTxID = None, pay_OutTradeNo = cpp_OutTradeNo a, pay_ActionType = None,
     pay_ActionPayload = '''', pay_PaidAt = None, pay_ReconciliationStatus = ReconciliationStatusNone,
     pay_ReconciliationVersion = 0, pay_ReconciliationReason = None, pay_ReconciliationDetail = None,
     pay_PrepayLeaseToken = None, pay_PrepayLeaseUntil = None, pay_PrepayAttempts = 0,
     pay_LastError = None, pay_CreatedAt = now, pay_UpdatedAt = now\<rparr>"

definition q_CreatePaymentWithOutTradeNo :: "CreatePaymentParams \<Rightarrow> (db, payment) tx" where
  "q_CreatePaymentWithOutTradeNo a = (\<lambda>s.
     let r = new_payment (next_id pay_ID (tb_payments s)) a (tb_current_timestamp s) in
     if cpp_AmountMinor a \<le> 0 then Inl (CheckViolation ''payments_amount_check'')
     else if \<exists>p \<in> set (tb_payments s). pay_OutTradeNo p = cpp_OutTradeNo a
       then Inl (UniqueViolation ''idx_payments_out_trade_no'')
     else if active_payment (cpp_Status a) \<and>
             (\<exists>p \<in> set (tb_payments s). pay_OrderID p = cpp_OrderID a \<and> active_payment (pay_Status p))
       then Inl (UniqueViolation ''idx_payments_one_active_per_order'')
     else Inr (r, s\<lparr>tb_payments := tb_payments s @ [r]\<rparr>))"

definition q_ClaimPaymentPrepay :: "int \<Rightarrow> string option \<Rightarrow> int \<Rightarrow> (db, payment) tx" where
  "q_ClaimPaymentPrepay i token lease = (\<lambda>s. sql_update tb_payments put_payments pay_ID i
     (\<lambda>p. pay_Status p = PaymentStatusCreating \<and>
          (case pay_PrepayLeaseUntil p of None \<Rightarrow> True | Some t \<Rightarrow> t < tb_current_timestamp s))
     (\<lambda>p. p\<lparr>pay_PrepayLeaseToken := token,
            pay_PrepayLeaseUntil := Some (tb_current_timestamp s + lease),
            pay_PrepayAttempts := pay_PrepayAttempts p + 1, pay_LastError := None,
            pay_UpdatedAt := tb_current_timestamp s\<rparr>) s)"

text \<open>\<open>prepay_lease_token = $2\<close>: SQL equality, never true of a NULL.\<close>

definition token_matches :: "string option \<Rightarrow> string option \<Rightarrow> bool" where
  "token_matches a b \<longleftrightarrow> a \<noteq> None \<and> a = b"

definition q_FinalizePaymentPrepay ::
    "int \<Rightarrow> string option \<Rightarrow> string option \<Rightarrow> string \<Rightarrow> (db, payment) tx" where
  "q_FinalizePaymentPrepay i token atype payload = (\<lambda>s. sql_update tb_payments put_payments pay_ID i
     (\<lambda>p. pay_Status p = PaymentStatusCreating \<and> token_matches (pay_PrepayLeaseToken p) token)
     (\<lambda>p. p\<lparr>pay_Status := PaymentStatusPending, pay_ActionType := atype, pay_ActionPayload := payload,
            pay_PrepayLeaseToken := None, pay_PrepayLeaseUntil := None, pay_LastError := None,
            pay_UpdatedAt := tb_current_timestamp s\<rparr>) s)"

definition q_RecordPaymentPrepayError :: "int \<Rightarrow> string option \<Rightarrow> string option \<Rightarrow> (db, int) tx" where
  "q_RecordPaymentPrepayError i token err = (\<lambda>s. sql_exec tb_payments put_payments pay_ID i
     (\<lambda>p. (pay_Status p = PaymentStatusCreating \<or>
           (pay_Status p = PaymentStatusClosePending \<and> pay_PayChannel p \<in> {''alipay:app'', ''alipay:wap''})) \<and>
          token_matches (pay_PrepayLeaseToken p) token)
     (\<lambda>p. p\<lparr>pay_LastError := err, pay_PrepayLeaseToken := None, pay_PrepayLeaseUntil := None,
            pay_UpdatedAt := tb_current_timestamp s\<rparr>) s)"

definition q_MarkPaymentClosePending :: "int \<Rightarrow> (db, payment) tx" where
  "q_MarkPaymentClosePending i = (\<lambda>s. sql_update tb_payments put_payments pay_ID i
     (\<lambda>p. pay_Status p \<in> {PaymentStatusCreating, PaymentStatusPending})
     (\<lambda>p. p\<lparr>pay_Status := PaymentStatusClosePending, pay_UpdatedAt := tb_current_timestamp s\<rparr>) s)"

definition q_MarkPaymentClosed :: "int \<Rightarrow> (db, payment) tx" where
  "q_MarkPaymentClosed i = (\<lambda>s. sql_update tb_payments put_payments pay_ID i
     (\<lambda>p. active_payment (pay_Status p))
     (\<lambda>p. p\<lparr>pay_Status := PaymentStatusClosed, pay_PrepayLeaseToken := None,
            pay_PrepayLeaseUntil := None, pay_UpdatedAt := tb_current_timestamp s\<rparr>) s)"

definition q_MarkPaymentFailed :: "int \<Rightarrow> string option \<Rightarrow> (db, payment) tx" where
  "q_MarkPaymentFailed i err = (\<lambda>s. sql_update tb_payments put_payments pay_ID i
     (\<lambda>p. active_payment (pay_Status p))
     (\<lambda>p. p\<lparr>pay_Status := PaymentStatusFailed, pay_PrepayLeaseToken := None,
            pay_PrepayLeaseUntil := None, pay_LastError := err,
            pay_UpdatedAt := tb_current_timestamp s\<rparr>) s)"

text \<open>
  Recording a success sets \<open>third_party_tx_id\<close>, which is unique per channel
  (\<open>idx_payments_third_party_tx_id_channel\<close>).
\<close>

definition q_RecordPaymentSuccess :: "int \<Rightarrow> string option \<Rightarrow> (db, payment) tx" where
  "q_RecordPaymentSuccess i tid = tx_bind
     (\<lambda>s. sql_update tb_payments put_payments pay_ID i
       (\<lambda>p. pay_Status p \<notin> {PaymentStatusSuccess, PaymentStatusRefunded})
       (\<lambda>p. p\<lparr>pay_Status := PaymentStatusSuccess, pay_ThirdPartyTxID := tid,
              pay_PaidAt := (case pay_PaidAt p of None \<Rightarrow> Some (tb_current_timestamp s) | Some t \<Rightarrow> Some t),
              pay_PrepayLeaseToken := None, pay_PrepayLeaseUntil := None,
              pay_UpdatedAt := tb_current_timestamp s\<rparr>) s)
     (\<lambda>r. tx_bind (tx_read (\<lambda>s. \<exists>p \<in> set (tb_payments s). pay_ID p \<noteq> pay_ID r \<and> tid \<noteq> None \<and>
             pay_ThirdPartyTxID p = tid \<and> pay_PayChannel p = pay_PayChannel r))
       (\<lambda>dup. tx_seq (tx_fail_if dup (UniqueViolation ''idx_payments_third_party_tx_id_channel''))
                      (tx_return r)))"

definition q_ConfirmPaymentRefunded :: "int \<Rightarrow> (db, payment) tx" where
  "q_ConfirmPaymentRefunded i = (\<lambda>s. sql_update tb_payments put_payments pay_ID i
     (\<lambda>p. pay_Status p \<in> {PaymentStatusSuccess, PaymentStatusRefunded})
     (\<lambda>p. p\<lparr>pay_Status := PaymentStatusRefunded, pay_UpdatedAt := tb_current_timestamp s\<rparr>) s)"

definition q_RequirePaymentReconciliation :: "int \<Rightarrow> string option \<Rightarrow> string option \<Rightarrow> (db, payment) tx" where
  "q_RequirePaymentReconciliation i reason detail = (\<lambda>s. sql_update tb_payments put_payments pay_ID i
     (\<lambda>p. pay_ReconciliationStatus p \<noteq> ReconciliationStatusRequired \<or>
          pay_ReconciliationReason p \<noteq> reason \<or> pay_ReconciliationDetail p \<noteq> detail)
     (\<lambda>p. p\<lparr>pay_ReconciliationStatus := ReconciliationStatusRequired,
            pay_ReconciliationVersion := pay_ReconciliationVersion p + 1,
            pay_ReconciliationReason := reason, pay_ReconciliationDetail := detail,
            pay_UpdatedAt := tb_current_timestamp s\<rparr>) s)"

definition q_RetryPaymentReconciliation :: "int \<Rightarrow> int \<Rightarrow> (db, payment) tx" where
  "q_RetryPaymentReconciliation i version = (\<lambda>s. sql_update tb_payments put_payments pay_ID i
     (\<lambda>p. pay_ReconciliationVersion p = version \<and>
          pay_ReconciliationStatus p = ReconciliationStatusRequired)
     (\<lambda>p. p\<lparr>pay_ReconciliationStatus := ReconciliationStatusProcessing,
            pay_ReconciliationVersion := pay_ReconciliationVersion p + 1,
            pay_UpdatedAt := tb_clock_timestamp s\<rparr>) s)"

text \<open>Resolving a case also resolves its open failure records, in the same statement.\<close>

definition resolve_failures :: "int \<Rightarrow> int \<Rightarrow> reconciliation_failure_row list \<Rightarrow> reconciliation_failure_row list" where
  "resolve_failures pid now t = map (\<lambda>f. if rfl_PaymentID f = pid \<and> rfl_ResolvedAt f = None
     then f\<lparr>rfl_ResolvedAt := Some now\<rparr> else f) t"

definition q_ResolvePaymentReconciliation :: "int \<Rightarrow> int \<Rightarrow> (db, payment) tx" where
  "q_ResolvePaymentReconciliation i version = tx_bind
     (\<lambda>s. sql_update tb_payments put_payments pay_ID i
       (\<lambda>p. pay_ReconciliationVersion p = version \<and> ReconciliationNeedsReview (pay_ReconciliationStatus p))
       (\<lambda>p. p\<lparr>pay_ReconciliationStatus := ReconciliationStatusResolved,
              pay_ReconciliationVersion := pay_ReconciliationVersion p + 1,
              pay_UpdatedAt := tb_clock_timestamp s\<rparr>) s)
     (\<lambda>r s. Inr (r, s\<lparr>tb_failures := resolve_failures i (tb_clock_timestamp s) (tb_failures s)\<rparr>))"

section \<open>Refunds\<close>

definition q_GetOrderRefundByPaymentID :: "int \<Rightarrow> (db, order_refund) tx" where
  "q_GetOrderRefundByPaymentID pid = sql_find tb_refunds (\<lambda>r. rfd_PaymentID r = Some pid)"

definition new_refund :: "int \<Rightarrow> int \<Rightarrow> payment \<Rightarrow> string \<Rightarrow> RefundPurpose \<Rightarrow> order_refund" where
  "new_refund i now p no purpose = \<lparr>rfd_ID = i, rfd_OrderID = pay_OrderID p, rfd_UserID = pay_UserID p,
     rfd_PaymentID = Some (pay_ID p), rfd_OutRefundNo = no, rfd_TotalAmountMinor = pay_AmountMinor p,
     rfd_RefundAmountMinor = pay_AmountMinor p, rfd_Currency = pay_Currency p, rfd_Reason = '''',
     rfd_Purpose = purpose, rfd_Status = PaymentRefundStatusPending, rfd_LastError = '''',
     rfd_UpdatedAt = now\<rparr>"

definition q_CreateOrderRefund :: "payment \<Rightarrow> string \<Rightarrow> RefundPurpose \<Rightarrow> (db, order_refund) tx" where
  "q_CreateOrderRefund p no purpose = (\<lambda>s.
     if pay_AmountMinor p \<le> 0 then Inl (CheckViolation ''order_refunds_total_amount_check'')
     else if \<exists>r \<in> set (tb_refunds s). rfd_OutRefundNo r = no
       then Inl (UniqueViolation ''idx_order_refunds_out_refund_no'')
     else if \<exists>r \<in> set (tb_refunds s). rfd_PaymentID r = Some (pay_ID p)
       then Inl (UniqueViolation ''idx_order_refunds_payment_id'')
     else sql_insert tb_refunds put_refunds
            (new_refund (next_id rfd_ID (tb_refunds s)) (tb_current_timestamp s) p no purpose) s)"

definition q_MarkOrderRefundSuccess :: "int \<Rightarrow> int \<Rightarrow> (db, order_refund) tx" where
  "q_MarkOrderRefundSuccess i pid = (\<lambda>s. sql_update tb_refunds put_refunds rfd_ID i
     (\<lambda>r. rfd_PaymentID r = Some pid)
     (\<lambda>r. r\<lparr>rfd_Status := PaymentRefundStatusSuccess, rfd_LastError := '''',
            rfd_UpdatedAt := tb_current_timestamp s\<rparr>) s)"

definition q_RecordOrderRefundError :: "bool \<Rightarrow> string \<Rightarrow> int \<Rightarrow> (db, order_refund) tx" where
  "q_RecordOrderRefundError definitive err i = (\<lambda>s. sql_update tb_refunds put_refunds rfd_ID i
     (\<lambda>r. rfd_Status r = PaymentRefundStatusPending)
     (\<lambda>r. r\<lparr>rfd_Status := (if definitive then PaymentRefundStatusFailed else rfd_Status r),
            rfd_LastError := err, rfd_UpdatedAt := tb_current_timestamp s\<rparr>) s)"

definition q_RetryOrderRefund :: "int \<Rightarrow> (db, order_refund) tx" where
  "q_RetryOrderRefund i = (\<lambda>s. sql_update tb_refunds put_refunds rfd_ID i
     (\<lambda>r. rfd_Status r = PaymentRefundStatusFailed)
     (\<lambda>r. r\<lparr>rfd_Status := PaymentRefundStatusPending, rfd_LastError := '''',
            rfd_UpdatedAt := tb_current_timestamp s\<rparr>) s)"

text \<open>\<open>ORDER BY updated_at, id LIMIT n\<close>\<close>

definition q_ListStalePendingRefunds :: "int \<Rightarrow> int \<Rightarrow> (db, order_refund list) tx" where
  "q_ListStalePendingRefunds olderThan limit = tx_read (\<lambda>s.
     take (nat limit) (sort_key (\<lambda>r. (rfd_UpdatedAt r, rfd_ID r))
       (filter (\<lambda>r. rfd_Status r = PaymentRefundStatusPending \<and>
                    rfd_UpdatedAt r < tb_current_timestamp s - olderThan) (tb_refunds s))))"

section \<open>Notifications, reconciliation failures and actions\<close>

definition q_GetPaymentNotification :: "int \<Rightarrow> (db, payment_notification) tx" where
  "q_GetPaymentNotification i = sql_get tb_notifications ntf_ID i"

definition q_GetPaymentNotificationByEvent :: "string \<Rightarrow> string \<Rightarrow> (db, payment_notification) tx" where
  "q_GetPaymentNotificationByEvent provider ev =
     sql_find tb_notifications (\<lambda>n. ntf_Provider n = provider \<and> ntf_ProviderEventID n = Some ev)"

definition q_GetPaymentNotificationByPayload ::
    "string \<Rightarrow> string \<Rightarrow> string \<Rightarrow> (db, payment_notification) tx" where
  "q_GetPaymentNotificationByPayload provider no h = sql_find tb_notifications
     (\<lambda>n. ntf_Provider n = provider \<and> ntf_OutTradeNo n = no \<and> ntf_PayloadHash n = h)"

text \<open>\<open>ON CONFLICT DO NOTHING\<close>: a notification that collides on the event or on the payload
  is not stored, and the statement returns no row.\<close>

definition q_CreatePaymentNotification ::
    "string \<Rightarrow> string option \<Rightarrow> string \<Rightarrow> string \<Rightarrow> int \<Rightarrow> (db, payment_notification) tx" where
  "q_CreatePaymentNotification provider ev no h verified = (\<lambda>s.
     if \<exists>n \<in> set (tb_notifications s). ntf_Provider n = provider \<and>
          ((ev \<noteq> None \<and> ntf_ProviderEventID n = ev) \<or> (ntf_OutTradeNo n = no \<and> ntf_PayloadHash n = h))
     then Inl ErrNoRows
     else sql_insert tb_notifications put_notifications
       \<lparr>ntf_ID = next_id ntf_ID (tb_notifications s), ntf_Provider = provider, ntf_ProviderEventID = ev,
        ntf_OutTradeNo = no, ntf_PayloadHash = h, ntf_VerifiedAt = verified, ntf_ProcessedAt = None,
        ntf_Status = PaymentNotificationStatusReceived, ntf_LastError = None, ntf_RiverJobID = None\<rparr> s)"

definition q_BeginPaymentNotificationProcessing :: "int \<Rightarrow> (db, payment_notification) tx" where
  "q_BeginPaymentNotificationProcessing i = sql_update tb_notifications put_notifications ntf_ID i
     (\<lambda>n. ntf_Status n \<noteq> PaymentNotificationStatusProcessed)
     (\<lambda>n. n\<lparr>ntf_Status := PaymentNotificationStatusProcessing, ntf_LastError := None\<rparr>)"

definition q_MarkPaymentNotificationProcessed :: "int \<Rightarrow> (db, int) tx" where
  "q_MarkPaymentNotificationProcessed i = (\<lambda>s. sql_exec tb_notifications put_notifications ntf_ID i
     (\<lambda>n. ntf_Status n \<in> {PaymentNotificationStatusReceived, PaymentNotificationStatusProcessing})
     (\<lambda>n. n\<lparr>ntf_Status := PaymentNotificationStatusProcessed,
            ntf_ProcessedAt := Some (tb_current_timestamp s), ntf_LastError := None\<rparr>) s)"

definition q_MarkPaymentNotificationFailed :: "int \<Rightarrow> string option \<Rightarrow> (db, int) tx" where
  "q_MarkPaymentNotificationFailed i err = sql_exec tb_notifications put_notifications ntf_ID i
     (\<lambda>n. ntf_Status n \<noteq> PaymentNotificationStatusProcessed)
     (\<lambda>n. n\<lparr>ntf_Status := PaymentNotificationStatusFailed, ntf_LastError := err\<rparr>)"

definition q_RecordPaymentNotificationError :: "int \<Rightarrow> string option \<Rightarrow> (db, int) tx" where
  "q_RecordPaymentNotificationError i err = sql_exec tb_notifications put_notifications ntf_ID i
     (\<lambda>n. ntf_Status n = PaymentNotificationStatusProcessing)
     (\<lambda>n. n\<lparr>ntf_LastError := err\<rparr>)"

definition q_SetPaymentNotificationRiverJob :: "int \<Rightarrow> int option \<Rightarrow> (db, unit) tx" where
  "q_SetPaymentNotificationRiverJob i job = tx_bind
     (sql_exec tb_notifications put_notifications ntf_ID i
       (\<lambda>n. ntf_Status n \<noteq> PaymentNotificationStatusProcessed)
       (\<lambda>n. n\<lparr>ntf_RiverJobID := job\<rparr>)) (\<lambda>_. tx_return ())"

text \<open>
  \<open>INSERT ... ON CONFLICT (river_job_id) WHERE river_job_id IS NOT NULL DO UPDATE\<close>: a second
  failure of the same job overwrites the first record.
\<close>

definition q_CreatePaymentReconciliationFailure ::
    "int \<Rightarrow> string \<Rightarrow> string \<Rightarrow> int option \<Rightarrow> int \<Rightarrow> string \<Rightarrow> (db, unit) tx" where
  "q_CreatePaymentReconciliationFailure pid provider reason job attempt err = (\<lambda>s.
     if find_row pay_ID pid (tb_payments s) = None
       then Inl (ForeignKeyViolation ''payment_reconciliation_failures_payment_id_fkey'')
     else if attempt \<le> 0 then Inl (CheckViolation ''payment_reconciliation_failures_attempt_check'')
     else if job \<noteq> None \<and> (\<exists>f \<in> set (tb_failures s). rfl_RiverJobID f = job)
       then Inr ((), s\<lparr>tb_failures := map (\<lambda>f. if rfl_RiverJobID f = job
              then f\<lparr>rfl_Reason := reason, rfl_Attempt := attempt, rfl_LastError := err\<rparr> else f) (tb_failures s)\<rparr>)
     else Inr ((), s\<lparr>tb_failures := tb_failures s @
       [\<lparr>rfl_ID = next_id rfl_ID (tb_failures s), rfl_PaymentID = pid, rfl_Provider = provider,
         rfl_Reason = reason, rfl_RiverJobID = job, rfl_Attempt = attempt, rfl_LastError = err,
         rfl_ResolvedAt = None\<rparr>]\<rparr>))"

definition q_HasUnresolvedProviderRefund :: "int \<Rightarrow> (db, bool) tx" where
  "q_HasUnresolvedProviderRefund pid = tx_read (\<lambda>s.
     \<exists>f \<in> set (tb_failures s). rfl_PaymentID f = pid \<and> rfl_Reason f = ''provider_side_refund'' \<and>
        rfl_ResolvedAt f = None)"

definition q_GetReconciliationAction :: "int \<Rightarrow> string \<Rightarrow> (db, reconciliation_action_row) tx" where
  "q_GetReconciliationAction pid k =
     sql_find tb_actions (\<lambda>a. rac_PaymentID a = pid \<and> rac_IdempotencyKey a = k)"

definition q_CreateReconciliationAction :: "reconciliation_action_row \<Rightarrow> (db, reconciliation_action_row) tx" where
  "q_CreateReconciliationAction a = (\<lambda>s.
     if \<not> (ReconciliationNeedsReview (rac_FromStatus a) \<and> 0 < rac_FromVersion a \<and>
            rac_ToVersion a = rac_FromVersion a + 1)
       then Inl (CheckViolation ''payment_reconciliation_actions_check'')
     else if \<exists>b \<in> set (tb_actions s). rac_PaymentID b = rac_PaymentID a \<and>
               (rac_IdempotencyKey b = rac_IdempotencyKey a \<or> rac_ToVersion b = rac_ToVersion a)
       then Inl (UniqueViolation ''payment_reconciliation_actions_key'')
     else sql_insert tb_actions put_actions (a\<lparr>rac_ID := next_id rac_ID (tb_actions s)\<rparr>) s)"

section \<open>The job queue\<close>

text \<open>
  River is not part of the repository. Its insert is a parameter: from the jobs already
  queued, the new job's arguments and its schedule it returns an error, or the job's id and
  whether the insert was skipped as a duplicate (\<open>UniqueSkippedAsDuplicate\<close>). The insert runs
  in the transaction of the caller, so a job exists exactly when its transaction commits. A
  repository built without a queue (\<open>jobs == nil\<close>) has \<open>None\<close>.
\<close>

type_synonym river = "mq_job list \<Rightarrow> job_args \<Rightarrow> int \<Rightarrow> error + (int \<times> bool)"

definition river_insert :: "river \<Rightarrow> job_args \<Rightarrow> int \<Rightarrow> (db, int \<times> bool) tx" where
  "river_insert ins args sched = (\<lambda>s. case ins (tb_jobs s) args sched of
      Inl e \<Rightarrow> Inl e
    | Inr (i, dup) \<Rightarrow> Inr ((i, dup), if dup then s else
        s\<lparr>tb_jobs := tb_jobs s @ [\<lparr>job_ID = i, job_Args = args, job_ScheduledAt = sched\<rparr>]\<rparr>))"

text \<open>\<open>if r.jobs == nil { return fmt.Errorf(...) }\<close> followed by the enqueue.\<close>

definition enqueue_tx :: "river option \<Rightarrow> string \<Rightarrow> job_args \<Rightarrow> int \<Rightarrow> (db, int \<times> bool) tx" where
  "enqueue_tx jobs msg args sched =
     (case jobs of None \<Rightarrow> tx_throw (Errorf msg) | Some ins \<Rightarrow> river_insert ins args sched)"

lemmas query_defs =
  q_LockUserForReference_def q_GetShippingAddressForSnapshot_def
  q_GetStockAdjustment_def q_CreateStockAdjustment_def
  q_GetOrder_def q_GetOrderByUser_def q_GetOrderByOrderNo_def q_LockOrderIdempotency_def
  q_GetOrderForUpdate_def q_GetOrderByUserIdempotency_def
  q_GetOrderForUpdateByPaymentID_def q_OrderIsExpired_def q_MarkOrderCancelling_def
  q_MarkOrderCancelled_def q_MarkOrderPaid_def q_MarkOrderRefunded_def q_MarkOrderShipped_def
  q_MarkOrderCompleted_def q_CreateOrderItem_def q_ListOrderItems_def
  q_GetOrderFulfillmentAction_def q_GetPayment_def q_GetPaymentForUpdate_def
  q_GetPaymentByOutTradeNo_def q_ListPaymentsByOrderForUpdate_def q_GetOrderExpiryByPaymentID_def
  q_ClaimPaymentPrepay_def q_FinalizePaymentPrepay_def
  q_RecordPaymentPrepayError_def q_MarkPaymentClosePending_def q_MarkPaymentClosed_def
  q_MarkPaymentFailed_def q_ConfirmPaymentRefunded_def q_RequirePaymentReconciliation_def
  q_RetryPaymentReconciliation_def q_GetOrderRefundByPaymentID_def q_MarkOrderRefundSuccess_def
  q_RecordOrderRefundError_def q_RetryOrderRefund_def q_GetPaymentNotification_def
  q_GetPaymentNotificationByEvent_def q_GetPaymentNotificationByPayload_def
  q_BeginPaymentNotificationProcessing_def q_MarkPaymentNotificationProcessed_def
  q_MarkPaymentNotificationFailed_def q_RecordPaymentNotificationError_def
  q_SetPaymentNotificationRiverJob_def q_HasUnresolvedProviderRefund_def
  q_GetReconciliationAction_def q_GetRestorableProductStock_def

declare query_defs [sql_defs]

end
