(* ===== verification/Notification.thy ===== *)
theory Notification
  imports Queries
begin

text \<open>
  Provider notifications (app/mall/internal/data/notification\_repository.go): a verified
  callback is stored once per provider event and once per payload, a check job is queued for
  it in the same transaction, and its status moves received, processing, processed or failed.
  Also the failure records of reconciliation (\<open>createReconciliationFailure\<close> of
  payment\_repository.go), which the settlement and the workers share.
\<close>

record PaymentNotification =
  pn_Provider :: string
  pn_ProviderEventID :: string
  pn_OutTradeNo :: string
  pn_TransactionID :: string
  pn_Amount :: int
  pn_Currency :: string
  pn_PayloadHash :: string
  pn_VerifiedAt :: int

definition notificationStateAfterCAS :: "int \<Rightarrow> notification_status \<Rightarrow> (db, unit) tx" where
  "notificationStateAfterCAS i desired = tx_bind (q_GetPaymentNotification i) (\<lambda>current.
     if ntf_Status current = desired then tx_return ()
     else tx_throw (Conflict ''PAYMENT_NOTIFICATION_STATE_CONFLICT''))"

definition markNotificationProcessed :: "int \<Rightarrow> (db, unit) tx" where
  "markNotificationProcessed i =
     (if i \<le> 0 then tx_return ()
      else tx_bind (q_MarkPaymentNotificationProcessed i) (\<lambda>rows.
        if rows = 0 then notificationStateAfterCAS i PaymentNotificationStatusProcessed
        else tx_return ()))"

definition BeginPaymentNotificationProcessing :: "int \<Rightarrow> string \<Rightarrow> string \<Rightarrow> (db, bool) tx" where
  "BeginPaymentNotificationProcessing i provider outTradeNo =
     (if i \<le> 0 then tx_return True
      else tx_bind (q_GetPaymentNotification i) (\<lambda>n.
        if ntf_Provider n \<noteq> provider \<or> ntf_OutTradeNo n \<noteq> outTradeNo
          then tx_throw ErrPaymentNotificationBinding
        else if ntf_Status n = PaymentNotificationStatusProcessed then tx_return False
        else tx_seq (q_BeginPaymentNotificationProcessing i) (tx_return True)))"

definition RecordPaymentNotificationError :: "int \<Rightarrow> string \<Rightarrow> (db, unit) tx" where
  "RecordPaymentNotificationError i lastError =
     (if i \<le> 0 then tx_return ()
      else tx_seq (q_RecordPaymentNotificationError i (text_of lastError)) (tx_return ()))"

definition MarkPaymentNotificationFailed :: "int \<Rightarrow> string \<Rightarrow> (db, unit) tx" where
  "MarkPaymentNotificationFailed i lastError =
     (if i \<le> 0 then tx_return ()
      else tx_bind (q_MarkPaymentNotificationFailed i (text_of lastError)) (\<lambda>rows.
        if rows = 0 then notificationStateAfterCAS i PaymentNotificationStatusProcessed
        else tx_return ()))"

definition getExistingPaymentNotification :: "PaymentNotification \<Rightarrow> (db, payment_notification) tx" where
  "getExistingPaymentNotification n =
     (let byPayload = q_GetPaymentNotificationByPayload (pn_Provider n) (pn_OutTradeNo n) (pn_PayloadHash n) in
      if pn_ProviderEventID n \<noteq> '''' then
        tx_on_no_rows (q_GetPaymentNotificationByEvent (pn_Provider n) (pn_ProviderEventID n)) byPayload
      else byPayload)"

text \<open>The stored row must be the same fact; unless it was processed, a check job is queued for it.\<close>

definition enqueue_notification ::
    "river \<Rightarrow> PaymentNotification \<Rightarrow> CheckPayArgs \<Rightarrow> payment_notification \<Rightarrow> (db, unit) tx" where
  "enqueue_notification jobs n args row =
     (if ntf_Provider row \<noteq> pn_Provider n \<or> ntf_OutTradeNo row \<noteq> pn_OutTradeNo n \<or>
         ntf_PayloadHash row \<noteq> pn_PayloadHash n
       then tx_throw (Conflict ''PAYMENT_NOTIFICATION_IDENTITY_CONFLICT'')
      else if ntf_Status row = PaymentNotificationStatusProcessed then tx_return ()
      else tx_bind (river_insert jobs
             (CheckPay ((NormalizeCheckPayArgs args)\<lparr>cpa_NotificationID := ntf_ID row\<rparr>)) 0) (\<lambda>(job, _).
        tx_seq (tx_fail_if (job \<le> 0) (Errorf ''payment notification enqueue returned an empty job''))
        (q_SetPaymentNotificationRiverJob (ntf_ID row) (Some job))))"

text \<open>Returns whether the notification was already stored.\<close>

definition PersistAndEnqueueNotification ::
    "river \<Rightarrow> PaymentNotification \<Rightarrow> CheckPayArgs \<Rightarrow> (db, bool) tx" where
  "PersistAndEnqueueNotification jobs n args =
     tx_bind (tx_optional (q_CreatePaymentNotification (pn_Provider n) (text_of (pn_ProviderEventID n))
                (pn_OutTradeNo n) (pn_PayloadHash n) (pn_VerifiedAt n))) (\<lambda>created.
     tx_bind (case created of Some r \<Rightarrow> tx_return r | None \<Rightarrow> getExistingPaymentNotification n) (\<lambda>row.
     tx_seq (enqueue_notification jobs n args row) (tx_return (created = None))))"

section \<open>Failure records\<close>

record ReconciliationFailure =
  rf_PaymentID :: int
  rf_NotificationID :: int
  rf_Provider :: string
  rf_RiverJobID :: "int option"
  rf_Attempt :: int
  rf_Reason :: string
  rf_LastError :: string

definition createReconciliationFailure :: "ReconciliationFailure \<Rightarrow> (db, unit) tx" where
  "createReconciliationFailure f = q_CreatePaymentReconciliationFailure (rf_PaymentID f) (rf_Provider f)
     (if rf_Reason f = '''' then ''job_exhausted'' else rf_Reason f)
     (rf_RiverJobID f) (wrap32 (max 1 (rf_Attempt f))) (rf_LastError f)"

text \<open>An unresolved anomaly that is reported again changes nothing: the current row is returned.\<close>

definition requirePaymentReconciliation :: "int \<Rightarrow> string \<Rightarrow> string \<Rightarrow> (db, payment) tx" where
  "requirePaymentReconciliation pid reason detail = tx_on_no_rows
     (q_RequirePaymentReconciliation pid (text_of reason) (text_of detail)) (q_GetPayment pid)"

definition MarkReconciliationRequired :: "ReconciliationFailure \<Rightarrow> (db, unit) tx" where
  "MarkReconciliationRequired f = tx_seq
     (requirePaymentReconciliation (rf_PaymentID f)
        (if rf_Reason f = '''' then ''job_exhausted'' else rf_Reason f) (rf_LastError f))
     (tx_seq (createReconciliationFailure f) (markNotificationProcessed (rf_NotificationID f)))"

definition RecordReconciliationFailure :: "ReconciliationFailure \<Rightarrow> (db, unit) tx" where
  "RecordReconciliationFailure f = createReconciliationFailure f"

section \<open>What these transactions leave alone\<close>

text \<open>
  The tables the money and stock invariants read. A transaction that keeps them, or keeps
  all of them but the payments, is described by \<open>core_eq\<close>.
\<close>

definition core_eq :: "db \<Rightarrow> db \<Rightarrow> bool" where
  "core_eq s s' \<longleftrightarrow> tb_products s' = tb_products s \<and>
     tb_orders s' = tb_orders s \<and> tb_items s' = tb_items s \<and> tb_payments s' = tb_payments s \<and>
     tb_refunds s' = tb_refunds s \<and> tb_adjustments s' = tb_adjustments s"

lemma core_eq_refl [simp]: "core_eq s s"
  by (simp add: core_eq_def)

lemma core_eq_trans: "core_eq s t \<Longrightarrow> core_eq t u \<Longrightarrow> core_eq s u"
  by (simp add: core_eq_def)

lemma markNotificationProcessed_core:
  "markNotificationProcessed i s = Inr (r, s') \<Longrightarrow> core_eq s s'"
  by (auto simp: markNotificationProcessed_def notificationStateAfterCAS_def tx_simps sql_defs core_eq_def
      split: if_splits)

lemma createReconciliationFailure_core:
  "createReconciliationFailure f s = Inr (r, s') \<Longrightarrow> core_eq s s'"
  by (auto simp: createReconciliationFailure_def q_CreatePaymentReconciliationFailure_def core_eq_def
      split: if_splits)

lemma river_insert_core: "river_insert ins a t s = Inr (r, s') \<Longrightarrow> core_eq s s'"
  by (auto simp: river_insert_def core_eq_def split: sum.splits if_splits)

lemma enqueue_tx_core: "enqueue_tx jobs m a t s = Inr (r, s') \<Longrightarrow> core_eq s s'"
  by (auto simp: enqueue_tx_def tx_simps intro: river_insert_core split: option.splits)

lemma BeginPaymentNotificationProcessing_core:
  "BeginPaymentNotificationProcessing i p no s = Inr (r, s') \<Longrightarrow> core_eq s s'"
  by (auto simp: BeginPaymentNotificationProcessing_def tx_simps sql_defs core_eq_def split: if_splits)

lemma RecordPaymentNotificationError_core:
  "RecordPaymentNotificationError i e s = Inr (r, s') \<Longrightarrow> core_eq s s'"
  by (auto simp: RecordPaymentNotificationError_def tx_simps sql_defs core_eq_def split: if_splits)

lemma MarkPaymentNotificationFailed_core:
  "MarkPaymentNotificationFailed i e s = Inr (r, s') \<Longrightarrow> core_eq s s'"
  by (auto simp: MarkPaymentNotificationFailed_def notificationStateAfterCAS_def tx_simps sql_defs core_eq_def
      split: if_splits)

lemma getExisting_core: "getExistingPaymentNotification n s = Inr (r, s') \<Longrightarrow> s' = s"
  by (auto simp: getExistingPaymentNotification_def Let_def tx_simps sql_defs split: if_splits)

lemma q_CreatePaymentNotification_core:
  "q_CreatePaymentNotification p e no h v s = Inr (r, s') \<Longrightarrow> core_eq s s'"
  by (auto simp: q_CreatePaymentNotification_def tx_simps core_eq_def split: if_splits)

lemma q_SetPaymentNotificationRiverJob_core:
  "q_SetPaymentNotificationRiverJob i j s = Inr (r, s') \<Longrightarrow> core_eq s s'"
  by (auto simp: tx_simps sql_defs core_eq_def)

lemma enqueue_notification_core:
  "enqueue_notification jobs n args row s = Inr (r, s') \<Longrightarrow> core_eq s s'"
  unfolding enqueue_notification_def
  by (auto simp: tx_simps split: if_splits prod.splits intro: core_eq_trans
      dest!: river_insert_core q_SetPaymentNotificationRiverJob_core)

lemma PersistAndEnqueueNotification_core:
  assumes "PersistAndEnqueueNotification jobs n args s = Inr (r, s')"
  shows "core_eq s s'"
  using assms unfolding PersistAndEnqueueNotification_def
  by (auto simp: tx_simps split: option.splits intro: core_eq_trans
      dest!: q_CreatePaymentNotification_core enqueue_notification_core getExisting_core)

end
