(* ===== verification/Settlement.thy ===== *)
theory Settlement
  imports Notification
begin

text \<open>
  Settlement of provider facts (app/mall/internal/data/payment\_settlement.go and
  refund\_repository.go): \<open>ApplyPayQuery\<close> applies one trade state reported by the provider to
  the payment, its order, the stock and the refund record, in one transaction;
  \<open>settlePaymentRefund\<close> is the only place where a confirmed refund takes effect.
  Each \<open>case\<close> of the Go switch is a definition of its own.
\<close>

section \<open>Refund settlement\<close>

text \<open>Returns the changed payment and whether stock was restored.\<close>

definition settlePaymentRefund :: "order \<Rightarrow> payment \<Rightarrow> order_refund \<Rightarrow> (db, payment \<times> bool) tx" where
  "settlePaymentRefund order payment refund =
     (if int8_Int64 (rfd_PaymentID refund) \<noteq> pay_ID payment \<or> rfd_OrderID refund \<noteq> ord_ID order \<or>
         pay_OrderID payment \<noteq> ord_ID order \<or> rfd_UserID refund \<noteq> pay_UserID payment \<or>
         rfd_Currency refund \<noteq> pay_Currency payment \<or>
         rfd_TotalAmountMinor refund \<noteq> pay_AmountMinor payment \<or>
         rfd_RefundAmountMinor refund \<noteq> pay_AmountMinor payment
        then tx_throw ErrPaymentStateConflict
      else if pay_Status payment = PaymentStatusRefunded \<and> rfd_Status refund = PaymentRefundStatusSuccess
        then tx_return (payment, False)
      else if pay_Status payment \<noteq> PaymentStatusSuccess then tx_throw ErrPaymentStateConflict
      else tx_seq (tx_lift (ValidateRefundSettlement (rfd_Purpose refund) (ord_Status order)
                     (int8_Int64 (ord_PaidPaymentID order)) (pay_ID payment)))
        (let stockRestored = (rfd_Purpose refund = RefundOrderCancel) in
         tx_seq (tx_when stockRestored
                  (tx_seq (tx_on_no_rows (q_MarkOrderRefunded (ord_ID order)) (tx_throw ErrPaymentStateConflict))
                          (q_RestoreOrderItemStock (ord_ID order))))
        (tx_seq (q_MarkOrderRefundSuccess (rfd_ID refund) (pay_ID payment))
        (tx_bind (q_ConfirmPaymentRefunded (pay_ID payment)) (\<lambda>changed.
         tx_return (changed, stockRestored))))))"

definition ApplyPaymentRefund :: "int \<Rightarrow> int \<Rightarrow> (db, unit) tx" where
  "ApplyPaymentRefund paymentID refundID =
     tx_bind (tx_on_no_rows (q_GetOrderForUpdateByPaymentID paymentID) (tx_throw ErrPaymentNotFound)) (\<lambda>order.
     tx_bind (tx_on_no_rows (q_GetPaymentForUpdate paymentID) (tx_throw ErrPaymentNotFound)) (\<lambda>current.
     tx_bind (q_GetOrderRefundByPaymentID paymentID) (\<lambda>refund.
     if rfd_ID refund \<noteq> refundID then tx_throw ErrPaymentStateConflict
     else tx_seq (settlePaymentRefund order current refund) (tx_return ()))))"

text \<open>The receipt checks of an existing refund record.\<close>

definition refund_matches :: "order_refund \<Rightarrow> payment \<Rightarrow> bool" where
  "refund_matches refund payment \<longleftrightarrow>
     rfd_OrderID refund = pay_OrderID payment \<and> rfd_UserID refund = pay_UserID payment \<and>
     rfd_TotalAmountMinor refund = pay_AmountMinor payment \<and>
     rfd_RefundAmountMinor refund = pay_AmountMinor payment \<and> rfd_Currency refund = pay_Currency payment"

definition PreparePaymentRefund :: "int \<Rightarrow> string \<Rightarrow> (db, PaymentDO \<times> PaymentRefund) tx" where
  "PreparePaymentRefund paymentID outRefundNo =
     tx_bind (tx_on_no_rows (q_GetPayment paymentID) (tx_throw ErrPaymentNotFound)) (\<lambda>snapshot.
     tx_seq (tx_on_no_rows (q_LockUserForReference (pay_UserID snapshot)) (tx_throw ErrPaymentNotFound))
     (tx_bind (tx_on_no_rows (q_GetOrderForUpdateByPaymentID paymentID) (tx_throw ErrPaymentNotFound)) (\<lambda>order.
     tx_bind (tx_on_no_rows (q_GetPaymentForUpdate paymentID) (tx_throw ErrPaymentNotFound)) (\<lambda>payment.
     tx_seq (tx_fail_if (pay_UserID payment \<noteq> pay_UserID snapshot \<or> pay_OrderID payment \<noteq> ord_ID order)
               ErrPaymentStateConflict)
     (tx_bind (tx_optional (q_GetOrderRefundByPaymentID paymentID)) (\<lambda>found.
     tx_bind (case found of
        Some refund \<Rightarrow>
          if \<not> refund_matches refund payment then tx_throw ErrPaymentStateConflict
          else if pay_Status payment = PaymentStatusRefunded \<and> rfd_Status refund \<noteq> PaymentRefundStatusSuccess
            then tx_throw ErrPaymentStateConflict
          else if pay_Status payment \<noteq> PaymentStatusSuccess \<and> pay_Status payment \<noteq> PaymentStatusRefunded
            then tx_throw ErrPaymentStateConflict
          else tx_seq (tx_when (pay_Status payment \<noteq> PaymentStatusRefunded)
                 (tx_lift (ValidateRefundSettlement (rfd_Purpose refund) (ord_Status order)
                    (int8_Int64 (ord_PaidPaymentID order)) (pay_ID payment))))
               (if rfd_Status refund = PaymentRefundStatusFailed then q_RetryOrderRefund (rfd_ID refund)
                else tx_return refund)
      | None \<Rightarrow>
          if pay_Status payment \<noteq> PaymentStatusSuccess then tx_throw ErrPaymentStateConflict
          else tx_bind (tx_lift (DecideRefundPurpose (ord_Status order)
                 (int8_Int64 (ord_PaidPaymentID order)) (pay_ID payment))) (\<lambda>purpose.
               tx_seq (tx_fail_if (TrimSpace outRefundNo = '''') (BadRequest ''OUT_REFUND_NO_REQUIRED''))
                 (q_CreateOrderRefund payment outRefundNo purpose)))
     (\<lambda>refund. tx_return (toBizPayment payment, toBizPaymentRefund refund))))))))"

definition RecordPaymentRefundError :: "int \<Rightarrow> string \<Rightarrow> bool \<Rightarrow> (db, unit) tx" where
  "RecordPaymentRefundError refundID lastError definitive = tx_seq
     (tx_on_no_rows (q_RecordOrderRefundError definitive lastError refundID) (tx_throw ErrPaymentStateConflict))
     (tx_return ())"

definition ListStalePendingRefunds :: "int \<Rightarrow> int \<Rightarrow> (db, PaymentRefund list) tx" where
  "ListStalePendingRefunds olderThan limit = tx_bind
     (q_ListStalePendingRefunds (if olderThan \<le> 0 then 600 * 10 ^ 9 else olderThan)
        (if limit \<le> 0 then 100 else limit))
     (\<lambda>rows. tx_return (map toBizPaymentRefund rows))"

section \<open>Cancelling an unpaid order\<close>

text \<open>The three statements that cancel an order and give its stock back.\<close>

definition cancel_and_restore :: "int \<Rightarrow> (db, unit) tx" where
  "cancel_and_restore oid = tx_seq (q_MarkOrderCancelling oid)
     (tx_seq (q_RestoreOrderItemStock oid) (tx_seq (q_MarkOrderCancelled oid) (tx_return ())))"

text \<open>One pass over the sibling payments: the last unreviewed success, whether one is active,
  whether one needs review.\<close>

fun inactive_scan :: "int \<Rightarrow> payment list \<Rightarrow> int \<times> bool \<times> bool \<Rightarrow> int \<times> bool \<times> bool" where
  "inactive_scan cur [] acc = acc"
| "inactive_scan cur (c # cs) (succ, act, rec) =
     (if pay_ID c = cur then inactive_scan cur cs (succ, act, rec)
      else let rec' = (rec \<or> ReconciliationNeedsReview (pay_ReconciliationStatus c)) in
        (if pay_Status c = PaymentStatusSuccess then
           inactive_scan cur cs
             (if ReconciliationNeedsReview (pay_ReconciliationStatus c) then succ else pay_ID c, act, rec')
         else if active_payment (pay_Status c) then inactive_scan cur cs (succ, True, rec')
         else inactive_scan cur cs (succ, act, rec')))"

definition finalizeOrderAfterPaymentInactive ::
    "order \<Rightarrow> payment list \<Rightarrow> payment \<Rightarrow> (db, bool) tx" where
  "finalizeOrderAfterPaymentInactive order payments current =
     (case inactive_scan (pay_ID current) payments
             (0, False, ReconciliationNeedsReview (pay_ReconciliationStatus current)) of
        (successfulPaymentID, hasActive, hasReconciliation) \<Rightarrow>
        if successfulPaymentID > 0 then
          (if ord_Status order = OrderStatusPendingPayment
           then tx_seq (q_MarkOrderPaid (ord_ID order) (Some successfulPaymentID)) (tx_return False)
           else tx_return False)
        else if \<not> hasActive \<and> \<not> hasReconciliation \<and> ord_Status order = OrderStatusPendingPayment
          then tx_seq (cancel_and_restore (ord_ID order)) (tx_return True)
        else tx_return False)"

section \<open>Applying a provider result\<close>

definition reconciliationReasonForMismatch :: "string \<Rightarrow> string" where
  "reconciliationReasonForMismatch mismatch =
     (if mismatch = ''amount mismatch'' then ''amount_mismatch''
      else if mismatch = ''currency mismatch'' then ''currency_mismatch''
      else ''provider_mismatch'')"

definition validateProviderResult :: "payment \<Rightarrow> PaymentMethod \<Rightarrow> PaymentQueryResult option \<Rightarrow> string" where
  "validateProviderResult payment method result =
     (case result of None \<Rightarrow> ''empty provider result''
      | Some r \<Rightarrow>
        if qrs_OutTradeNo r \<noteq> pay_OutTradeNo payment then ''out_trade_no mismatch''
        else if PaymentMethod_String (Normalize (qrs_Method r)) \<noteq> PaymentMethod_String method
          then ''payment method mismatch''
        else if qrs_TradeState r = TradeStateSuccess \<or> qrs_TradeState r = TradeStateRefund then
          (if qrs_Amount r \<noteq> pay_AmountMinor payment then ''amount mismatch''
           else if ToUpper (qrs_Currency r) \<noteq> pay_Currency payment then ''currency mismatch''
           else '''')
        else '''')"

definition paymentStateAfterCAS :: "int \<Rightarrow> payment_status \<Rightarrow> (db, unit) tx" where
  "paymentStateAfterCAS i desired = tx_bind (q_GetPayment i) (\<lambda>current.
     if pay_Status current = desired then tx_return () else tx_throw ErrPaymentStateConflict)"

definition apply_failure :: "CheckPayArgs \<Rightarrow> payment \<Rightarrow> string \<Rightarrow> string \<Rightarrow> string \<Rightarrow> ReconciliationFailure" where
  "apply_failure args payment provider reason lastError =
     \<lparr>rf_PaymentID = pay_ID payment, rf_NotificationID = cpa_NotificationID args, rf_Provider = provider,
      rf_RiverJobID = None, rf_Attempt = max 1 (cpa_PollCount args), rf_Reason = reason, rf_LastError = lastError\<rparr>"

text \<open>The payment goes to review, the failure is recorded, the notification is done.\<close>

definition send_to_review :: "CheckPayArgs \<Rightarrow> payment \<Rightarrow> string \<Rightarrow> string \<Rightarrow> string \<Rightarrow> string \<Rightarrow> (db, unit) tx" where
  "send_to_review args payment provider reason detail lastError =
     tx_seq (requirePaymentReconciliation (pay_ID payment) reason detail)
     (tx_seq (createReconciliationFailure (apply_failure args payment provider reason lastError))
             (markNotificationProcessed (cpa_NotificationID args)))"

definition otherSuccess :: "payment list \<Rightarrow> int \<Rightarrow> bool" where
  "otherSuccess payments i \<longleftrightarrow> (\<exists>c \<in> set payments. pay_ID c \<noteq> i \<and>
     (pay_Status c = PaymentStatusSuccess \<or> pay_Status c = PaymentStatusRefunded))"

text \<open>What the decision does: the order is paid, or the payment goes to review.\<close>

definition apply_decision ::
    "CheckPayArgs \<Rightarrow> payment \<Rightarrow> string \<Rightarrow> PaymentSuccessDecision \<Rightarrow> (db, unit) tx" where
  "apply_decision args payment provider decision =
     tx_seq (if dec_MarkOrderPaid decision
             then tx_seq (q_MarkOrderPaid (pay_OrderID payment) (Some (pay_ID payment))) (tx_return ())
             else tx_return ())
     (if dec_ReconciliationReason decision \<noteq> ''''
      then send_to_review args payment provider (dec_ReconciliationReason decision)
             (dec_ReconciliationDetail decision) (dec_ReconciliationDetail decision)
      else markNotificationProcessed (cpa_NotificationID args))"

text \<open>\<open>case TradeStateSuccess\<close>\<close>

definition apply_success ::
    "CheckPayArgs \<Rightarrow> order \<Rightarrow> payment list \<Rightarrow> payment \<Rightarrow> string \<Rightarrow> PaymentQueryResult \<Rightarrow> (db, unit) tx" where
  "apply_success args order payments payment provider r =
     (if qrs_TransactionID r = '''' then tx_throw (BadRequest ''PAYMENT_TRANSACTION_ID_REQUIRED'')
      else if pay_Status payment = PaymentStatusSuccess \<and>
              text_String (pay_ThirdPartyTxID payment) = qrs_TransactionID r
        then markNotificationProcessed (cpa_NotificationID args)
      else if pay_Status payment = PaymentStatusSuccess
        then send_to_review args payment provider ''provider_mismatch''
               ''successful payment transaction id changed'' ''successful payment transaction id changed''
      else if pay_Status payment = PaymentStatusRefunded then tx_throw ErrPaymentStateConflict
      else tx_seq (q_RecordPaymentSuccess (pay_ID payment) (Some (qrs_TransactionID r)))
        (tx_bind (tx_lift (DecidePaymentSuccess (ord_Status order) (otherSuccess payments (pay_ID payment))))
          (apply_decision args payment provider)))"

text \<open>\<open>case TradeStateClosed, TradeStateRevoked\<close>\<close>

definition apply_closed ::
    "CheckPayArgs \<Rightarrow> order \<Rightarrow> payment list \<Rightarrow> payment \<Rightarrow> PaymentQueryResult \<Rightarrow> (db, unit) tx" where
  "apply_closed args order payments payment r =
     (if pay_Status payment = PaymentStatusRefunded then
        (if qrs_TransactionID r = '''' \<or> qrs_TransactionID r \<noteq> text_String (pay_ThirdPartyTxID payment)
           then tx_throw ErrPaymentStateConflict
         else tx_bind (q_GetOrderRefundByPaymentID (pay_ID payment)) (\<lambda>refund.
           if rfd_Status refund \<noteq> PaymentRefundStatusSuccess \<or> \<not> refund_matches refund payment
             then tx_throw ErrPaymentStateConflict
           else markNotificationProcessed (cpa_NotificationID args)))
      else if pay_Status payment = PaymentStatusClosed
        then markNotificationProcessed (cpa_NotificationID args)
      else tx_bind (tx_optional (q_MarkPaymentClosed (pay_ID payment))) (\<lambda>changed.
        case changed of
          None \<Rightarrow> paymentStateAfterCAS (pay_ID payment) PaymentStatusClosed
        | Some _ \<Rightarrow> tx_seq (finalizeOrderAfterPaymentInactive order payments payment)
                     (markNotificationProcessed (cpa_NotificationID args))))"

text \<open>\<open>case TradeStatePayError\<close>\<close>

definition apply_pay_error ::
    "CheckPayArgs \<Rightarrow> order \<Rightarrow> payment list \<Rightarrow> payment \<Rightarrow> PaymentQueryResult \<Rightarrow> (db, unit) tx" where
  "apply_pay_error args order payments payment r =
     tx_bind (tx_optional (q_MarkPaymentFailed (pay_ID payment) (text_of (qrs_TradeStateDesc r)))) (\<lambda>changed.
     tx_seq (tx_fail_if (changed = None \<and> pay_Status payment \<noteq> PaymentStatusFailed \<and>
                         pay_Status payment \<noteq> PaymentStatusClosed) ErrPaymentStateConflict)
     (tx_seq (if pay_Status payment = PaymentStatusClosePending \<or> cpa_Trigger args = ''close_pay''
              then tx_seq (finalizeOrderAfterPaymentInactive order payments payment) (tx_return ())
              else tx_return ())
             (markNotificationProcessed (cpa_NotificationID args))))"

text \<open>\<open>case TradeStateRefund\<close>\<close>

definition apply_refund ::
    "CheckPayArgs \<Rightarrow> order \<Rightarrow> payment \<Rightarrow> string \<Rightarrow> (db, unit) tx" where
  "apply_refund args order payment provider =
     (if pay_Status payment = PaymentStatusRefunded then markNotificationProcessed (cpa_NotificationID args)
      else if pay_Status payment \<noteq> PaymentStatusSuccess then tx_throw ErrPaymentStateConflict
      else tx_bind (tx_optional (q_GetOrderRefundByPaymentID (pay_ID payment))) (\<lambda>found.
        case found of
          None \<Rightarrow> send_to_review args payment provider ''provider_side_refund''
                    ''provider reported a refund that was never initiated locally''
                    ''provider reported a refund that was never initiated locally''
        | Some refund \<Rightarrow> tx_seq (settlePaymentRefund order payment refund)
                           (markNotificationProcessed (cpa_NotificationID args))))"

text \<open>The switch over the trade state, and the transaction body around it.\<close>

definition apply_trade_state ::
    "CheckPayArgs \<Rightarrow> order \<Rightarrow> payment list \<Rightarrow> payment \<Rightarrow> string \<Rightarrow> PaymentQueryResult \<Rightarrow> (db, unit) tx" where
  "apply_trade_state args order payments payment provider r =
     (case qrs_TradeState r of
        TradeStateSuccess \<Rightarrow> apply_success args order payments payment provider r
      | TradeStateClosed \<Rightarrow> apply_closed args order payments payment r
      | TradeStateRevoked \<Rightarrow> apply_closed args order payments payment r
      | TradeStatePayError \<Rightarrow> apply_pay_error args order payments payment r
      | TradeStateRefund \<Rightarrow> apply_refund args order payment provider
      | _ \<Rightarrow> send_to_review args payment provider ''unknown_provider_state'' (qrs_RawTradeState r)
               (''unsupported provider state '' @ qrs_RawTradeState r))"

text \<open>What runs with the order and its payments locked.\<close>

definition apply_locked ::
    "CheckPayArgs \<Rightarrow> PaymentQueryResult option \<Rightarrow> order \<Rightarrow> payment list \<Rightarrow> payment \<Rightarrow> int \<Rightarrow> (db, unit) tx" where
  "apply_locked args result order payments payment now =
     (if cpa_ConfirmUnissued args \<and> result = None then tx_throw (Errorf ''nil pointer dereference'')
      else if cpa_ConfirmUnissued args \<and>
         (qrs_TradeState (the result) \<noteq> TradeStateClosed \<or>
          \<not> CanConfirmUnissuedPayment (toBizPayment payment) now \<or>
          (cpa_ReconciliationVersion args = 0 \<and> ReconciliationNeedsReview (pay_ReconciliationStatus payment)) \<or>
          \<not> ReconciliationJobCurrent (cpa_ReconciliationVersion args)
               (pay_ReconciliationVersion payment) (pay_ReconciliationStatus payment))
        then tx_throw ErrPaymentStateConflict
      else tx_bind (tx_lift (ParsePaymentMethod (pay_PayChannel payment))) (\<lambda>method.
        let mismatch = validateProviderResult payment method result in
        if mismatch \<noteq> '''' then
          send_to_review args payment (pm_Provider method) (reconciliationReasonForMismatch mismatch) mismatch mismatch
        else (case result of
            None \<Rightarrow> tx_throw (Errorf ''nil pointer dereference'')
          | Some r \<Rightarrow> apply_trade_state args order payments payment (pm_Provider method) r)))"

definition ApplyPayQuery_body :: "CheckPayArgs \<Rightarrow> PaymentQueryResult option \<Rightarrow> (db, unit) tx" where
  "ApplyPayQuery_body args result =
     tx_bind (q_GetPayment (cpa_PaymentID args)) (\<lambda>snapshot.
     tx_bind (q_GetOrderForUpdate (pay_OrderID snapshot)) (\<lambda>order.
     tx_bind (q_ListPaymentsByOrderForUpdate (pay_OrderID snapshot)) (\<lambda>payments.
     case List.find (\<lambda>c. pay_ID c = cpa_PaymentID args) payments of
       None \<Rightarrow> tx_throw ErrPaymentNotFound
     | Some payment \<Rightarrow> tx_bind (tx_read tb_time_Now) (apply_locked args result order payments payment))))"

text \<open>
  A transaction id that is already recorded on another payment aborts the transaction; the
  payment is then sent to review in a fresh one. The provider is that of the payment.
\<close>

definition provider_of :: "db \<Rightarrow> int \<Rightarrow> string" where
  "provider_of s pid = (case find_row pay_ID pid (tb_payments s) of None \<Rightarrow> ''''
     | Some p \<Rightarrow> (case ParsePaymentMethod (pay_PayChannel p) of Inl _ \<Rightarrow> '''' | Inr m \<Rightarrow> pm_Provider m))"

definition ApplyPayQuery :: "CheckPayArgs \<Rightarrow> PaymentQueryResult option \<Rightarrow> db \<Rightarrow> (error + unit) \<times> db" where
  "ApplyPayQuery args result s =
     (case InTx (ApplyPayQuery_body args result) s of
        (Inl e, s') \<Rightarrow>
          (if e = UniqueViolation ''idx_payments_third_party_tx_id_channel'' then
             InTx (MarkReconciliationRequired
               \<lparr>rf_PaymentID = cpa_PaymentID args, rf_NotificationID = cpa_NotificationID args,
                rf_Provider = provider_of s (cpa_PaymentID args), rf_RiverJobID = None,
                rf_Attempt = max 1 (cpa_PollCount args), rf_Reason = ''duplicate_third_party_tx'',
                rf_LastError = ''third party transaction id is already recorded on another payment''\<rparr>) s'
           else (Inl e, s'))
      | (Inr x, s') \<Rightarrow> (Inr x, s'))"

end
