(* ===== verification/Orders.thy ===== *)
theory Orders
  imports Settlement
begin

text \<open>
  Orders (app/mall/internal/biz/order.go, order\_fulfillment.go, order\_shipping.go and
  app/mall/internal/data/order.go, order\_expiry.go, order\_fulfillment.go,
  payment\_undispatched.go): checkout with its idempotency key and stock reservation,
  cancellation by the user, expiry, the reaper that requeues lost expiry jobs, shipping and
  completion.

  The invalidation of Redis keys after the commit is left out: it changes no row. The hash
  of a request, the decryption of the receiver's phone, the order numbers and the decimal
  library are arguments.
\<close>

section \<open>Domain objects\<close>

record Actor =
  actor_ID :: int
  actor_Admin :: bool

definition Actor_Validate :: "Actor \<Rightarrow> error + unit" where
  "Actor_Validate a = (if actor_ID a \<le> 0 then Inl (Unauthorized ''UNAUTHORIZED'') else Inr ())"

definition Actor_Owns :: "Actor \<Rightarrow> int \<Rightarrow> bool \<Rightarrow> error + unit" where
  "Actor_Owns a i allowAdmin = (case Actor_Validate a of Inl e \<Rightarrow> Inl e | Inr _ \<Rightarrow>
     if actor_ID a \<noteq> i \<and> \<not> (allowAdmin \<and> actor_Admin a) then Inl (Forbidden ''FORBIDDEN'') else Inr ())"

record OrderShippingSnapshot =
  shp_ReceiverName :: string
  shp_ReceiverPhoneEncrypt :: string
  shp_ReceiverPhone :: string
  shp_Province :: string
  shp_City :: string
  shp_District :: string
  shp_DetailAddress :: string

record OrderItem =
  oit_ProductID :: int
  oit_CategoryID :: int
  oit_ProductName :: string
  oit_CoverImage :: string
  oit_Quantity :: int
  oit_UnitPrice :: int

record OrderItemInput =
  oii_ProductID :: int
  oii_Quantity :: int

record Order =
  odo_ID :: int
  odo_UserID :: int
  odo_AddressID :: int
  odo_PaidPaymentID :: int
  odo_Shipping :: "OrderShippingSnapshot option"
  odo_TotalAmount :: int
  odo_Currency :: string
  odo_Status :: order_status
  odo_IsCompleted :: bool
  odo_Items :: "OrderItem list"
  odo_CreatedAt :: int
  odo_UpdatedAt :: int
  odo_OutTradeNo :: string
  odo_IdempotencyKey :: string
  odo_RequestHash :: string
  odo_ExpiresAt :: int

record CreateOrderArgs =
  coa_UserID :: int
  coa_AddressID :: int
  coa_OutTradeNo :: string
  coa_Currency :: string
  coa_Items :: "OrderItemInput list"
  coa_IdempotencyKey :: string
  coa_RequestHash :: string
  coa_PaymentTimeout :: int

definition toBizOrder :: "order \<Rightarrow> Order" where
  "toBizOrder row = \<lparr>odo_ID = ord_ID row, odo_UserID = ord_UserID row, odo_AddressID = ord_AddressID row,
     odo_PaidPaymentID = int8_Int64 (ord_PaidPaymentID row),
     odo_Shipping = Some \<lparr>shp_ReceiverName = ord_ReceiverName row,
        shp_ReceiverPhoneEncrypt = ord_ReceiverPhoneEncrypt row, shp_ReceiverPhone = '''',
        shp_Province = ord_ShippingProvince row, shp_City = ord_ShippingCity row,
        shp_District = ord_ShippingDistrict row, shp_DetailAddress = ord_ShippingDetailAddress row\<rparr>,
     odo_TotalAmount = ord_TotalAmountMinor row, odo_Currency = ord_Currency row,
     odo_Status = ord_Status row, odo_IsCompleted = ord_IsCompleted row, odo_Items = [],
     odo_CreatedAt = ord_CreatedAt row, odo_UpdatedAt = ord_UpdatedAt row,
     odo_OutTradeNo = ord_OutTradeNo row, odo_IdempotencyKey = ord_IdempotencyKey row,
     odo_RequestHash = ord_RequestHash row, odo_ExpiresAt = ord_ExpiresAt row\<rparr>"

definition toBizOrderItem :: "int \<Rightarrow> int \<Rightarrow> int \<Rightarrow> int \<Rightarrow> string \<Rightarrow> MediaInfo list \<Rightarrow> OrderItem" where
  "toBizOrderItem productID categoryID quantity price name cover =
     \<lparr>oit_ProductID = productID, oit_CategoryID = categoryID, oit_ProductName = name,
      oit_CoverImage = (case cover of [] \<Rightarrow> '''' | m # _ \<Rightarrow> med_OssURL m),
      oit_Quantity = quantity, oit_UnitPrice = price\<rparr>"

definition loadItems :: "int \<Rightarrow> (db, OrderItem list) tx" where
  "loadItems orderID = tx_bind (q_ListOrderItems orderID) (\<lambda>rows.
     tx_return (map (\<lambda>r. toBizOrderItem (itm_ProductID r) 0 (itm_Quantity r) (itm_UnitPriceMinor r)
       (itm_ProductNameSnapshot r) (itm_CoverImageSnapshot r)) rows))"

section \<open>Checkout\<close>

record itemSnapshot =
  snp_input :: OrderItemInput
  snp_product :: product
  snp_unitPrice :: int

text \<open>The first loop: every product is read, its effective price taken, the total summed.\<close>

fun price_items :: "decimal_lib \<Rightarrow> OrderItemInput list \<Rightarrow> int \<Rightarrow> (db, itemSnapshot list \<times> int) tx" where
  "price_items L [] tot = tx_return ([], tot)"
| "price_items L (item # items) tot =
     tx_bind (tx_on_no_rows (q_GetProductForOrder (oii_ProductID item)) (tx_throw ErrProductNotFound)) (\<lambda>product.
     tx_seq (tx_fail_if (prd_Status product \<noteq> 1 \<or> prd_Stock product < oii_Quantity item) ErrInsufficientStock)
     (tx_bind (tx_lift (EffectivePriceMinor L (prd_PriceMinor product) (prd_Discount product))) (\<lambda>unitPrice.
     case multiplyMoney unitPrice (oii_Quantity item) of (lineTotal, overflow) \<Rightarrow>
     tx_seq (tx_fail_if (overflow \<or> tot > MaxInt64 - lineTotal) (Errorf ''order total overflow''))
     (tx_bind (price_items L items (wrap64 (tot + lineTotal))) (\<lambda>(snapshots, tot').
     tx_return (\<lparr>snp_input = item, snp_product = product, snp_unitPrice = unitPrice\<rparr> # snapshots, tot'))))))"

text \<open>The second loop: the stock is taken and the item row written.\<close>

fun reserve_items :: "int \<Rightarrow> itemSnapshot list \<Rightarrow> (db, OrderItem list) tx" where
  "reserve_items orderID [] = tx_return []"
| "reserve_items orderID (snapshot # snapshots) =
     (let item = snp_input snapshot; product = snp_product snapshot in
     tx_seq (tx_on_no_rows (q_DecrProductStock (oii_ProductID item) (oii_Quantity item)) (tx_throw ErrInsufficientStock))
     (tx_seq (q_CreateOrderItem orderID (oii_ProductID item) (oii_Quantity item) (snp_unitPrice snapshot)
                (prd_Name product) (prd_CoverImage product))
     (tx_bind (reserve_items orderID snapshots) (\<lambda>items.
     tx_return (toBizOrderItem (oii_ProductID item) (prd_CategoryID product) (oii_Quantity item)
        (snp_unitPrice snapshot) (prd_Name product) (prd_CoverImage product) # items)))))"

text \<open>A replayed idempotency key returns the order it created.\<close>

definition replay_order :: "CreateOrderArgs \<Rightarrow> order \<Rightarrow> (db, Order) tx" where
  "replay_order args existing =
     (if ord_RequestHash existing \<noteq> coa_RequestHash args then tx_throw ErrIdempotencyKeyConflict
      else if ord_Status existing = OrderStatusCancelled then tx_throw ErrIdempotencyKeyReused
      else tx_bind (loadItems (ord_ID existing)) (\<lambda>items.
        tx_return ((toBizOrder existing)\<lparr>odo_Items := items\<rparr>)))"

text \<open>A new order: address snapshot, prices, the row, the reservations, the expiry job.\<close>

definition order_params :: "CreateOrderArgs \<Rightarrow> shipping_address \<Rightarrow> int \<Rightarrow> CreateOrderParams" where
  "order_params args address tot = \<lparr>cop_UserID = coa_UserID args, cop_AddressID = coa_AddressID args,
     cop_TotalAmountMinor = tot, cop_Currency = coa_Currency args, cop_OutTradeNo = coa_OutTradeNo args,
     cop_IdempotencyKey = coa_IdempotencyKey args, cop_RequestHash = coa_RequestHash args,
     cop_PaymentTimeout = (if coa_PaymentTimeout args \<le> 0 then 30 * 60 * 10 ^ 9 else coa_PaymentTimeout args),
     cop_Address = address\<rparr>"

definition place_order :: "decimal_lib \<Rightarrow> river option \<Rightarrow> CreateOrderArgs \<Rightarrow> OrderItemInput list \<Rightarrow> (db, Order) tx" where
  "place_order L jobs args itemInputs =
     tx_seq (tx_on_no_rows (q_LockUserForReference (coa_UserID args)) (tx_throw ErrAddressNotFound))
     (tx_bind (tx_on_no_rows (q_GetShippingAddressForSnapshot (coa_AddressID args) (coa_UserID args))
                (tx_throw ErrAddressNotFound)) (\<lambda>address.
     tx_bind (price_items L itemInputs 0) (\<lambda>(snapshots, tot).
     tx_seq (tx_fail_if (tot \<le> 0) ErrOrderAmountInvalid)
     (tx_bind (q_CreateOrder (order_params args address tot)) (\<lambda>order.
     tx_bind (reserve_items (ord_ID order) snapshots) (\<lambda>items.
     tx_seq (enqueue_tx jobs ''order mq is not configured'' (ExpireOrderJob (ord_ID order)) (ord_ExpiresAt order))
     (tx_return ((toBizOrder order)\<lparr>odo_Items := items\<rparr>))))))))"

definition CreateOrder_body :: "decimal_lib \<Rightarrow> river option \<Rightarrow> CreateOrderArgs \<Rightarrow> (db, Order) tx" where
  "CreateOrder_body L jobs args =
     (let itemInputs = sort_key oii_ProductID (coa_Items args) in
      tx_seq (q_LockOrderIdempotency (coa_UserID args) (coa_IdempotencyKey args))
      (tx_bind (tx_optional (q_GetOrderByUserIdempotency (coa_UserID args) (coa_IdempotencyKey args))) (\<lambda>found.
       case found of
         Some existing \<Rightarrow> replay_order args existing
       | None \<Rightarrow> place_order L jobs args itemInputs)))"

definition repo_CreateOrder ::
    "decimal_lib \<Rightarrow> river option \<Rightarrow> CreateOrderArgs \<Rightarrow> db \<Rightarrow> (error + Order) \<times> db" where
  "repo_CreateOrder L jobs args s =
     (case InTx (CreateOrder_body L jobs args) s of
        (Inr result, s') \<Rightarrow> (Inr result, s')
      | (Inl e, s') \<Rightarrow>
          if e = UniqueViolation ''idx_orders_out_trade_no'' then (Inl ErrOrderNoCollision, s')
          else if e = UniqueViolation ''idx_orders_user_idempotency'' then
            InTx (tx_bind (tx_on_no_rows
                    (q_GetOrderByUserIdempotency (coa_UserID args) (coa_IdempotencyKey args))
                    (tx_throw ErrIdempotencyKeyConflict)) (replay_order args)) s'
          else (Inl e, s'))"

section \<open>The order use case\<close>

definition MaxOrderItems :: int where
  "MaxOrderItems = 50"

definition MaxOrderItemQuantity :: int where
  "MaxOrderItemQuantity = 999"

definition orderNoAttempts :: nat where
  "orderNoAttempts = 3"

definition DefaultCurrency :: string where
  "DefaultCurrency = ''CNY''"

record CreateOrderReq =
  cor_UserID :: int
  cor_AddressID :: int
  cor_Items :: "OrderItemInput list"
  cor_IdempotencyKey :: string

text \<open>The loop over the items, with the products seen so far.\<close>

fun check_items :: "int set \<Rightarrow> OrderItemInput list \<Rightarrow> error + unit" where
  "check_items seen [] = Inr ()"
| "check_items seen (item # items) =
     (if oii_ProductID item \<le> 0 then Inl ErrOrderInputInvalid
      else if oii_Quantity item \<le> 0 \<or> oii_Quantity item > MaxOrderItemQuantity then Inl ErrOrderQuantityInvalid
      else if oii_ProductID item \<in> seen then Inl (BadRequest ''DUPLICATE_ORDER_ITEM'')
      else check_items (insert (oii_ProductID item) seen) items)"

text \<open>\<open>strconv\<close>'s decimal form of an integer, and the JSON text of the normalised request.\<close>

fun nat_digits :: "nat \<Rightarrow> string" where
  "nat_digits n = (if n < 10 then [char_of (48 + n)] else nat_digits (n div 10) @ [char_of (48 + n mod 10)])"

declare nat_digits.simps [simp del]

definition FormatInt :: "int \<Rightarrow> string" where
  "FormatInt i = (if i < 0 then CHR ''-'' # nat_digits (nat (- i)) else nat_digits (nat i))"

definition json_item :: "OrderItemInput \<Rightarrow> string" where
  "json_item i = ''{\"product_id\":'' @ FormatInt (oii_ProductID i) @ '',\"quantity\":'' @
     FormatInt (oii_Quantity i) @ ''}''"

fun json_items :: "OrderItemInput list \<Rightarrow> string" where
  "json_items [] = ''''"
| "json_items [i] = json_item i"
| "json_items (i # is) = json_item i @ '','' @ json_items is"

definition order_request_json :: "int \<Rightarrow> int \<Rightarrow> OrderItemInput list \<Rightarrow> string" where
  "order_request_json userID addressID items =
     ''{\"user_id\":'' @ FormatInt userID @ '',\"address_id\":'' @ FormatInt addressID @ '',\"items\":['' @
      json_items items @ '']}''"

definition hashOrderRequest :: "(string \<Rightarrow> string) \<Rightarrow> int \<Rightarrow> int \<Rightarrow> OrderItemInput list \<Rightarrow> string" where
  "hashOrderRequest sha256hex userID addressID items = sha256hex (order_request_json userID addressID items)"

text \<open>
  The bounded retry: \<open>nos n\<close> is the \<open>n\<close>th number the generator returns, the first one was
  drawn before the loop.
\<close>

fun create_attempts ::
    "(CreateOrderArgs \<Rightarrow> db \<Rightarrow> (error + Order) \<times> db) \<Rightarrow> CreateOrderArgs \<Rightarrow> (nat \<Rightarrow> string) \<Rightarrow> nat \<Rightarrow> nat \<Rightarrow> db \<Rightarrow>
     (error + Order) \<times> db" where
  "create_attempts create args nos k 0 s = (Inl ErrOrderNoCollision, s)"
| "create_attempts create args nos k (Suc n) s =
     (case create (args\<lparr>coa_OutTradeNo := nos k\<rparr>) s of
        (Inr order, s') \<Rightarrow> (Inr order, s')
      | (Inl e, s') \<Rightarrow> (if e \<noteq> ErrOrderNoCollision then (Inl e, s')
                        else create_attempts create args nos (Suc k) n s'))"

definition decryptShipping :: "(string \<Rightarrow> error + string) \<Rightarrow> Order \<Rightarrow> error + Order" where
  "decryptShipping DecryptPhone order =
     (case odo_Shipping order of None \<Rightarrow> Inr order
      | Some sh \<Rightarrow> (case DecryptPhone (shp_ReceiverPhoneEncrypt sh) of
          Inl _ \<Rightarrow> Inl (InternalServer ''ORDER_SHIPPING_DECRYPT_FAILED'')
        | Inr phone \<Rightarrow> Inr (order\<lparr>odo_Shipping := Some (sh\<lparr>shp_ReceiverPhone := phone\<rparr>)\<rparr>)))"

record order_env =
  env_decimal :: decimal_lib
  env_jobs :: "river option"
  env_sha256hex :: "string \<Rightarrow> string"
  env_DecryptPhone :: "string \<Rightarrow> error + string"
  env_PaymentTimeout :: int

text \<open>The checks of \<open>CreateOrder\<close> before the transaction: the trimmed key and the sorted items.\<close>

definition check_order_req :: "CreateOrderReq option \<Rightarrow> error + (string \<times> OrderItemInput list)" where
  "check_order_req req0 =
     (case req0 of None \<Rightarrow> Inl ErrOrderInputInvalid | Some req \<Rightarrow>
      if cor_UserID req \<le> 0 \<or> cor_AddressID req \<le> 0 \<or> cor_Items req = [] then Inl ErrOrderInputInvalid
      else let key = TrimSpace (cor_IdempotencyKey req) in
        if key = '''' then Inl ErrIdempotencyKeyRequired
        else if go_len key < 8 \<or> go_len key > 64 then Inl ErrIdempotencyKeyInvalid
        else if go_len (cor_Items req) > MaxOrderItems then Inl ErrOrderTooManyItems
        else (case check_items {} (cor_Items req) of Inl e \<Rightarrow> Inl e
              | Inr _ \<Rightarrow> Inr (key, sort_key oii_ProductID (cor_Items req))))"

text \<open>The arguments of the repository call.\<close>

definition order_args :: "order_env \<Rightarrow> CreateOrderReq \<Rightarrow> string \<Rightarrow> OrderItemInput list \<Rightarrow> CreateOrderArgs" where
  "order_args env r key items = \<lparr>coa_UserID = cor_UserID r, coa_AddressID = cor_AddressID r, coa_OutTradeNo = '''',
     coa_Currency = DefaultCurrency, coa_Items = items, coa_IdempotencyKey = key,
     coa_RequestHash = hashOrderRequest (env_sha256hex env) (cor_UserID r) (cor_AddressID r) items,
     coa_PaymentTimeout = (if env_PaymentTimeout env \<le> 0 then 30 * 60 * 10 ^ 9 else env_PaymentTimeout env)\<rparr>"

text \<open>A missing generator (\<open>idGen == nil\<close>) is \<open>None\<close>.\<close>

definition uc_CreateOrder ::
    "order_env \<Rightarrow> (nat \<Rightarrow> string) option \<Rightarrow> CreateOrderReq option \<Rightarrow> db \<Rightarrow> (error + Order) \<times> db" where
  "uc_CreateOrder env idGen req s =
     (case check_order_req req of Inl e \<Rightarrow> (Inl e, s)
      | Inr (key, items) \<Rightarrow>
        (case idGen of None \<Rightarrow> (Inl (InternalServer ''ORDER_ID_GENERATOR_MISSING''), s)
         | Some nos \<Rightarrow>
           (let args = order_args env (the req) key items in
            case create_attempts (repo_CreateOrder (env_decimal env) (env_jobs env)) args nos 0 orderNoAttempts s of
              (Inl e, s') \<Rightarrow> (Inl e, s')
            | (Inr order, s') \<Rightarrow> (decryptShipping (env_DecryptPhone env) order, s'))))"

section \<open>What a checkout does\<close>

lemma price_items_Cons:
  assumes "price_items L (item # items) t s = Inr ((snaps, tot), s')"
  obtains p u line rest where "find_row prd_ID (oii_ProductID item) (tb_products s) = Some p"
    "prd_DeletedAt p = None" "prd_Status p = 1" "oii_Quantity item \<le> prd_Stock p"
    "EffectivePriceMinor L (prd_PriceMinor p) (prd_Discount p) = Inr u"
    "multiplyMoney u (oii_Quantity item) = (line, False)" "t \<le> MaxInt64 - line"
    "price_items L items (wrap64 (t + line)) s = Inr ((rest, tot), s')"
    "snaps = \<lparr>snp_input = item, snp_product = p, snp_unitPrice = u\<rparr> # rest"
proof -
  from assms obtain p u where p: "find_row prd_ID (oii_ProductID item) (tb_products s) = Some p"
    "prd_DeletedAt p = None" "prd_Status p = 1" "oii_Quantity item \<le> prd_Stock p"
    "EffectivePriceMinor L (prd_PriceMinor p) (prd_Discount p) = Inr u"
    and rest: "(case multiplyMoney u (oii_Quantity item) of (lineTotal, overflow) \<Rightarrow>
       tx_seq (tx_fail_if (overflow \<or> t > MaxInt64 - lineTotal) (Errorf ''order total overflow''))
       (tx_bind (price_items L items (wrap64 (t + lineTotal))) (\<lambda>(snapshots, tot').
       tx_return (\<lparr>snp_input = item, snp_product = p, snp_unitPrice = u\<rparr> # snapshots, tot')))) s = Inr ((snaps, tot), s')"
    by (auto simp: tx_simps q_GetProductForOrder_def not_less split: option.splits if_splits)
  obtain line ov where m: "multiplyMoney u (oii_Quantity item) = (line, ov)" by (cases "multiplyMoney u (oii_Quantity item)")
  from rest obtain r where "\<not> ov" "t \<le> MaxInt64 - line"
    "price_items L items (wrap64 (t + line)) s = Inr ((r, tot), s')"
    "snaps = \<lparr>snp_input = item, snp_product = p, snp_unitPrice = u\<rparr> # r"
    unfolding m by (auto simp: tx_simps not_less)
  with that [OF p] m show thesis by simp
qed

lemma price_items_inputs:
  assumes "price_items L items t s = Inr ((snaps, tot), s')"
  shows "map snp_input snaps = items \<and> s' = s"
  using assms
proof (induction items arbitrary: t snaps)
  case (Cons item items)
  from Cons.prems show ?case by (rule price_items_Cons) (use Cons.IH in auto)
qed (simp add: tx_simps)

lemma place_order_run:
  assumes "place_order L jobs args items s = Inr (x, s')"
  obtains a snaps tot r s1 its s2 y where "coa_UserID args \<in> usr_ID ` set (tb_users s)"
    "List.find (\<lambda>a. adr_ID a = coa_AddressID args \<and> adr_UserID a = coa_UserID args) (tb_addresses s) = Some a"
    "price_items L items 0 s = Inr ((snaps, tot), s)" "0 < tot"
    "q_CreateOrder (order_params args a tot) s = Inr (r, s1)" "reserve_items (ord_ID r) snaps s1 = Inr (its, s2)"
    "enqueue_tx jobs ''order mq is not configured'' (ExpireOrderJob (ord_ID r)) (ord_ExpiresAt r) s2 = Inr (y, s')"
    "x = (toBizOrder r)\<lparr>odo_Items := its\<rparr>"
proof -
  from assms obtain u a snaps tot s0 r s1 its s2 y where run: "find_row usr_ID (coa_UserID args) (tb_users s) = Some u"
    "List.find (\<lambda>a. adr_ID a = coa_AddressID args \<and> adr_UserID a = coa_UserID args) (tb_addresses s) = Some a"
    "price_items L items 0 s = Inr ((snaps, tot), s0)" "0 < tot"
    "q_CreateOrder (order_params args a tot) s0 = Inr (r, s1)" "reserve_items (ord_ID r) snaps s1 = Inr (its, s2)"
    "enqueue_tx jobs ''order mq is not configured'' (ExpireOrderJob (ord_ID r)) (ord_ExpiresAt r) s2 = Inr (y, s')"
    "x = (toBizOrder r)\<lparr>odo_Items := its\<rparr>"
    unfolding place_order_def
    by (auto simp: tx_simps q_LockUserForReference_def q_GetShippingAddressForSnapshot_def not_le)
  have "s0 = s" using price_items_inputs [OF run(3)] by simp
  moreover have "coa_UserID args \<in> usr_ID ` set (tb_users s)"
    using run(1) find_row_key find_row_in by (metis image_eqI)
  ultimately show thesis using that run by blast
qed

lemma create_order_effect:
  assumes "q_CreateOrder cop s = Inr (r, s')"
  shows "s' = s\<lparr>tb_orders := tb_orders s @ [r]\<rparr>" and "ord_ID r = next_id ord_ID (tb_orders s)"
    and "ord_Status r = OrderStatusPendingPayment" and "ord_TotalAmountMinor r = cop_TotalAmountMinor cop"
    and "ord_UserID r = cop_UserID cop" and "ord_IdempotencyKey r = cop_IdempotencyKey cop"
    and "ord_RequestHash r = cop_RequestHash cop"
    and "\<And>o'. o' \<in> set (tb_orders s) \<Longrightarrow> ord_UserID o' = cop_UserID cop \<Longrightarrow> ord_IdempotencyKey o' \<noteq> cop_IdempotencyKey cop"
  using assms by (auto simp: q_CreateOrder_def Let_def split: if_splits)

lemma decr_item_effect:
  assumes "q_DecrProductStock pid n s = Inr (x, s1)" and "q_CreateOrderItem oid pid n price name cover s1 = Inr (y, s2)"
  shows "\<exists>p. find_row prd_ID pid (tb_products s) = Some p \<and> n \<le> prd_Stock p \<and> 0 < n \<and>
    y = \<lparr>itm_ID = next_id itm_ID (tb_items s), itm_OrderID = oid, itm_ProductID = pid, itm_Quantity = n,
         itm_UnitPriceMinor = price, itm_ProductNameSnapshot = name, itm_CoverImageSnapshot = cover\<rparr> \<and>
    s2 = s\<lparr>tb_products := upd_row prd_ID pid (\<lambda>p. p\<lparr>prd_Stock := prd_Stock p - n\<rparr>) (tb_products s),
           tb_items := tb_items s @ [y]\<rparr>"
  using assms by (auto simp: q_DecrProductStock_def check_stock_def sql_defs tx_simps)

lemma reserve_items_Cons:
  assumes "reserve_items oid (sn # snaps) s = Inr (items, s')"
  obtains x s1 y s2 its where "q_DecrProductStock (oii_ProductID (snp_input sn)) (oii_Quantity (snp_input sn)) s = Inr (x, s1)"
    "q_CreateOrderItem oid (oii_ProductID (snp_input sn)) (oii_Quantity (snp_input sn)) (snp_unitPrice sn)
       (prd_Name (snp_product sn)) (prd_CoverImage (snp_product sn)) s1 = Inr (y, s2)"
    "reserve_items oid snaps s2 = Inr (its, s')"
    "items = toBizOrderItem (oii_ProductID (snp_input sn)) (prd_CategoryID (snp_product sn))
       (oii_Quantity (snp_input sn)) (snp_unitPrice sn) (prd_Name (snp_product sn)) (prd_CoverImage (snp_product sn)) # its"
  using assms by (auto simp: Let_def tx_simps)

end
