(* ===== verification/OrderLifecycle.thy ===== *)
theory OrderLifecycle
  imports Orders
begin

text \<open>
  What happens to an order after checkout: reading and listing (order.go), cancellation by
  its user, expiry and the reaper (order\_expiry.go), the recovery of payments that were
  never dispatched (payment\_undispatched.go), shipping and completion
  (order\_fulfillment.go).
\<close>

section \<open>Reading\<close>

definition with_items :: "(db, order) tx \<Rightarrow> (db, Order) tx" where
  "with_items load = tx_bind (tx_on_no_rows load (tx_throw ErrOrderNotFound)) (\<lambda>row.
     tx_bind (loadItems (ord_ID row)) (\<lambda>items. tx_return ((toBizOrder row)\<lparr>odo_Items := items\<rparr>)))"

definition repo_GetOrder :: "int \<Rightarrow> (db, Order) tx" where
  "repo_GetOrder i = with_items (q_GetOrder i)"

definition repo_GetOrderByOrderNo :: "string \<Rightarrow> (db, Order) tx" where
  "repo_GetOrderByOrderNo no = with_items (q_GetOrderByOrderNo no)"

definition repo_GetOrderByUser :: "int \<Rightarrow> int \<Rightarrow> (db, Order) tx" where
  "repo_GetOrderByUser i uid = with_items (q_GetOrderByUser i uid)"

definition uc_GetOrder :: "(string \<Rightarrow> error + string) \<Rightarrow> int \<Rightarrow> Actor \<Rightarrow> (db, Order) tx" where
  "uc_GetOrder DecryptPhone i actor = tx_seq (tx_lift (Actor_Validate actor))
     (tx_seq (tx_fail_if (i \<le> 0) ErrOrderNotFound)
     (tx_bind (if actor_Admin actor then repo_GetOrder i else repo_GetOrderByUser i (actor_ID actor))
       (\<lambda>order. tx_lift (decryptShipping DecryptPhone order))))"

text \<open>The list without its cache: the orders of the page with their items.\<close>

definition listOrders :: "(db, order list) tx \<Rightarrow> (db, Order list) tx" where
  "listOrders load = tx_bind load (\<lambda>rows.
     if rows = [] then tx_return []
     else tx_bind (q_ListOrderItemsByOrderIDs (map ord_ID rows)) (\<lambda>items.
       tx_return (map (\<lambda>row. (toBizOrder row)\<lparr>odo_Items :=
         map (\<lambda>r. toBizOrderItem (itm_ProductID r) 0 (itm_Quantity r) (itm_UnitPriceMinor r)
                   (itm_ProductNameSnapshot r) (itm_CoverImageSnapshot r))
             (filter (\<lambda>r. itm_OrderID r = ord_ID row) items)\<rparr>) rows)))"

definition repo_ListOrdersByUser :: "int \<Rightarrow> int \<Rightarrow> int \<Rightarrow> (db, Order list) tx" where
  "repo_ListOrdersByUser uid lmt off = tx_bind (tx_lift (NewOffsetPage lmt off)) (\<lambda>p.
     listOrders (q_ListOrdersByUser uid (pg_Limit p) (pg_Offset p)))"

definition repo_ListOngoingOrdersByUser :: "int \<Rightarrow> int \<Rightarrow> int \<Rightarrow> (db, Order list) tx" where
  "repo_ListOngoingOrdersByUser uid lmt off = tx_bind (tx_lift (NewOffsetPage lmt off)) (\<lambda>p.
     listOrders (q_ListOngoingOrdersByUser uid (pg_Limit p) (pg_Offset p)))"

fun decrypt_all :: "(string \<Rightarrow> error + string) \<Rightarrow> Order list \<Rightarrow> error + Order list" where
  "decrypt_all D [] = Inr []"
| "decrypt_all D (ord # orders) = (case decryptShipping D ord of Inl e \<Rightarrow> Inl e
     | Inr o' \<Rightarrow> (case decrypt_all D orders of Inl e \<Rightarrow> Inl e | Inr os \<Rightarrow> Inr (o' # os)))"

record ListOrdersReq =
  lor_UserID :: int
  lor_Ongoing :: bool
  lor_Limit :: int
  lor_Offset :: int

definition uc_ListOrders ::
    "(string \<Rightarrow> error + string) \<Rightarrow> Actor \<Rightarrow> ListOrdersReq option \<Rightarrow> (db, Order list \<times> int) tx" where
  "uc_ListOrders D actor req0 = tx_seq (tx_lift (Actor_Validate actor))
     (case req0 of None \<Rightarrow> tx_throw ErrOrderInputInvalid | Some req \<Rightarrow>
      if lor_UserID req \<le> 0 then tx_throw ErrOrderInputInvalid
      else if \<not> actor_Admin actor \<and> actor_ID actor \<noteq> lor_UserID req then tx_throw (Forbidden ''FORBIDDEN'')
      else tx_bind (tx_lift (NewOffsetPage (lor_Limit req) (lor_Offset req))) (\<lambda>p.
        tx_bind (if lor_Ongoing req
                 then repo_ListOngoingOrdersByUser (lor_UserID req) (pg_Limit p) (pg_Offset p)
                 else repo_ListOrdersByUser (lor_UserID req) (pg_Limit p) (pg_Offset p)) (\<lambda>orders.
        tx_bind (tx_lift (decrypt_all D orders)) (\<lambda>os.
        tx_bind (if lor_Ongoing req then q_CountOngoingOrdersByUser (lor_UserID req)
                 else q_CountOrdersByUser (lor_UserID req)) (\<lambda>tot. tx_return (os, tot))))))"

section \<open>Payments that were never dispatched\<close>

definition unsupportedPaymentNeverDispatched :: "payment \<Rightarrow> bool" where
  "unsupportedPaymentNeverDispatched p =
     (if (pay_Status p \<noteq> PaymentStatusCreating \<and> pay_Status p \<noteq> PaymentStatusClosePending) \<or>
         pay_PrepayAttempts p \<noteq> 0 \<or> pay_PrepayLeaseToken p \<noteq> None \<or> pay_PrepayLeaseUntil p \<noteq> None \<or>
         pay_ActionType p \<noteq> None \<or> (pay_ActionPayload p \<noteq> '''' \<and> pay_ActionPayload p \<noteq> ''null'') \<or>
         pay_ThirdPartyTxID p \<noteq> None \<or> pay_ReconciliationStatus p \<noteq> ReconciliationStatusNone
      then False
      else pay_PayChannel p \<notin> {''wechat:jsapi'', ''wechat:native'', ''wechat:app'', ''alipay:app'', ''alipay:wap''})"

fun recoverUnsupportedPayments :: "payment list \<Rightarrow> (db, payment list) tx" where
  "recoverUnsupportedPayments [] = tx_return []"
| "recoverUnsupportedPayments (p # ps) =
     tx_bind (if \<not> unsupportedPaymentNeverDispatched p then tx_return p
              else q_MarkPaymentFailed (pay_ID p) (Some ''unsupported payment method; prepay was never claimed''))
     (\<lambda>p'. tx_bind (recoverUnsupportedPayments ps) (\<lambda>ps'. tx_return (p' # ps')))"

section \<open>Cancellation\<close>

text \<open>The loop over the payments: an error for the first that forbids the cancellation, else
  whether one is active.\<close>

fun cancel_scan :: "payment list \<Rightarrow> bool \<Rightarrow> error + bool" where
  "cancel_scan [] hasActive = Inr hasActive"
| "cancel_scan (p # ps) hasActive =
     (if ReconciliationNeedsReview (pay_ReconciliationStatus p) then Inl ErrPaymentReconciliationRequired
      else case pay_Status p of
          PaymentStatusSuccess \<Rightarrow> Inl ErrOrderAlreadyPaid
        | PaymentStatusRefunded \<Rightarrow> Inl ErrOrderAlreadyPaid
        | PaymentStatusCreating \<Rightarrow> cancel_scan ps True
        | PaymentStatusPending \<Rightarrow> cancel_scan ps True
        | PaymentStatusClosePending \<Rightarrow> cancel_scan ps True
        | _ \<Rightarrow> cancel_scan ps hasActive)"

definition CancelOrderByUser :: "int \<Rightarrow> int \<Rightarrow> (db, unit) tx" where
  "CancelOrderByUser i uid =
     tx_bind (tx_on_no_rows (q_GetOrderByUserForUpdate i uid) (tx_throw ErrOrderNotFound)) (\<lambda>order.
     if ord_Status order = OrderStatusCancelled then tx_return ()
     else if ord_Status order \<noteq> OrderStatusPendingPayment then tx_throw ErrOrderCannotCancel
     else tx_bind (q_ListPaymentsByOrderForUpdate i) (\<lambda>payments.
       tx_bind (recoverUnsupportedPayments payments) (\<lambda>payments'.
       tx_bind (tx_lift (cancel_scan payments' False)) (\<lambda>hasActive.
       tx_seq (tx_fail_if hasActive ErrOrderHasActivePayment) (cancel_and_restore i)))))"

definition uc_CancelOrder :: "int \<Rightarrow> int \<Rightarrow> (db, unit) tx" where
  "uc_CancelOrder i uid =
     (if i \<le> 0 \<or> uid \<le> 0 then tx_throw ErrOrderNotFound else CancelOrderByUser i uid)"

section \<open>Expiry\<close>

text \<open>The first payment that already took money: it pays the order, or an anomaly is recorded.
  \<open>None\<close> when there is no such payment; \<open>Some b\<close> ends the transaction with
  \<open>needsReconciliation = b\<close>.\<close>

fun expire_settled :: "int \<Rightarrow> payment list \<Rightarrow> (db, bool option) tx" where
  "expire_settled oid [] = tx_return None"
| "expire_settled oid (p # ps) =
     (case pay_Status p of
        PaymentStatusSuccess \<Rightarrow> tx_seq (q_MarkOrderPaid oid (Some (pay_ID p))) (tx_return (Some False))
      | PaymentStatusRefunded \<Rightarrow>
          tx_seq (requirePaymentReconciliation (pay_ID p) ''refunded_on_pending_order''
                    ''refunded payment found on a pending order during expiry'')
          (tx_seq (createReconciliationFailure
             \<lparr>rf_PaymentID = pay_ID p, rf_NotificationID = 0,
              rf_Provider = (case ParsePaymentMethod (pay_PayChannel p) of
                               Inl _ \<Rightarrow> pay_PayChannel p | Inr m \<Rightarrow> pm_Provider m),
              rf_RiverJobID = None, rf_Attempt = 1, rf_Reason = ''refunded_on_pending_order'',
              rf_LastError = ''refunded payment found on a pending order during expiry''\<rparr>)
          (tx_return (Some True)))
      | _ \<Rightarrow> expire_settled oid ps)"

text \<open>Every active payment goes to \<open>close_pending\<close> and gets a close job.\<close>

fun expire_close :: "river option \<Rightarrow> payment list \<Rightarrow> bool \<Rightarrow> (db, bool) tx" where
  "expire_close jobs [] hasActive = tx_return hasActive"
| "expire_close jobs (p # ps) hasActive =
     (if \<not> active_payment (pay_Status p) then expire_close jobs ps hasActive
      else tx_bind (if pay_Status p = PaymentStatusClosePending then tx_return p
                    else q_MarkPaymentClosePending (pay_ID p)) (\<lambda>payment.
        tx_bind (tx_lift (ParsePaymentMethod (pay_PayChannel payment))) (\<lambda>method.
        tx_seq (enqueue_tx jobs ''payment mq is not configured''
                 (ClosePay \<lparr>cla_ReconciliationVersion = 0, cla_PaymentID = pay_ID payment,
                            cla_Provider = pm_Provider method, cla_Reason = ''order_expired''\<rparr>) 0)
               (expire_close jobs ps True))))"

definition ExpireOrder_body :: "river option \<Rightarrow> int \<Rightarrow> (db, bool) tx" where
  "ExpireOrder_body jobs oid =
     tx_bind (tx_on_no_rows (q_GetOrderForUpdate oid) (tx_throw ErrOrderNotFound)) (\<lambda>order.
     if ord_Status order \<noteq> OrderStatusPendingPayment then tx_return False
     else tx_bind (q_OrderIsExpired oid) (\<lambda>expired.
       tx_seq (tx_fail_if (\<not> expired) ErrOrderNotExpired)
       (tx_bind (q_ListPaymentsByOrderForUpdate oid) (\<lambda>payments0.
       tx_bind (recoverUnsupportedPayments payments0) (\<lambda>payments.
       tx_seq (tx_fail_if (\<exists>p \<in> set payments. ReconciliationNeedsReview (pay_ReconciliationStatus p))
                 ErrPaymentReconciliationRequired)
       (tx_bind (expire_settled oid payments) (\<lambda>settled.
        case settled of
          Some needsReconciliation \<Rightarrow> tx_return needsReconciliation
        | None \<Rightarrow> tx_bind (expire_close jobs payments False) (\<lambda>hasActive.
            if hasActive then tx_return False
            else tx_seq (cancel_and_restore oid) (tx_return False)))))))))"

definition ExpireOrder :: "river option \<Rightarrow> int \<Rightarrow> db \<Rightarrow> (error + unit) \<times> db" where
  "ExpireOrder jobs oid s =
     (if oid \<le> 0 then (Inl ErrOrderNotFound, s)
      else case InTx (ExpireOrder_body jobs oid) s of
          (Inl e, s') \<Rightarrow> (Inl e, s')
        | (Inr needsReconciliation, s') \<Rightarrow>
            (if needsReconciliation then Inl ErrPaymentReconciliationRequired else Inr (), s'))"

section \<open>The reaper\<close>

text \<open>One page: an id whose enqueue fails is logged and skipped, a duplicate is not counted.\<close>

fun reap_page :: "river \<Rightarrow> int list \<Rightarrow> int list \<Rightarrow> db \<Rightarrow> int list \<times> db" where
  "reap_page ins [] requeued s = (requeued, s)"
| "reap_page ins (i # is) requeued s =
     (case river_insert ins (ExpireOrderJob i) 0 s of
        Inl _ \<Rightarrow> reap_page ins is requeued s
      | Inr ((_, dup), s') \<Rightarrow> reap_page ins is (if dup then requeued else requeued @ [i]) s')"

definition overdue_ids :: "int \<Rightarrow> int \<Rightarrow> db \<Rightarrow> int list" where
  "overdue_ids afterID grace s = sort (map ord_ID
     (filter (\<lambda>r. ord_ID r > afterID \<and> ord_Status r = OrderStatusPendingPayment \<and>
                  ord_ExpiresAt r \<le> tb_current_timestamp s - grace) (tb_orders s)))"

lemma overdue_page:
  "q_ListOverduePendingOrders a g n s = Inr (take (nat n) (overdue_ids a g s), s)"
  by (simp add: q_ListOverduePendingOrders_def overdue_ids_def tx_read_def)

lemma river_insert_orders:
  "river_insert ins a t s = Inr (r, s') \<Longrightarrow>
     tb_orders s' = tb_orders s \<and> tb_current_timestamp s' = tb_current_timestamp s"
  by (auto simp: river_insert_def split: sum.splits if_splits)

lemma reap_page_orders:
  "tb_orders (snd (reap_page ins is rq s)) = tb_orders s \<and>
   tb_current_timestamp (snd (reap_page ins is rq s)) = tb_current_timestamp s"
  by (induction ins "is" rq s rule: reap_page.induct)
     (auto split: sum.splits prod.splits dest: river_insert_orders)

text \<open>The loop over the pages. The page size is positive, written \<open>Suc n\<close>; the next page
  starts after the last id of this one.\<close>

function reap_loop :: "river \<Rightarrow> int \<Rightarrow> nat \<Rightarrow> int \<Rightarrow> int list \<Rightarrow> db \<Rightarrow> int list \<times> db" where
  "reap_loop ins grace n afterID requeued s =
     (let ids = take (Suc n) (overdue_ids afterID grace s);
          r = reap_page ins ids requeued s in
      if length ids < Suc n then r
      else reap_loop ins grace n (last ids) (fst r) (snd r))"
  by pat_completeness auto

lemma reap_measure:
  assumes "\<not> length (take (Suc n) (overdue_ids afterID grace s)) < Suc n"
  shows "length (filter (\<lambda>r. ord_ID r > last (take (Suc n) (overdue_ids afterID grace s))) (tb_orders s))
       < length (filter (\<lambda>r. ord_ID r > afterID) (tb_orders s))"
proof -
  let ?l = "last (take (Suc n) (overdue_ids afterID grace s))"
  have ne: "take (Suc n) (overdue_ids afterID grace s) \<noteq> []" using assms by auto
  then have "?l \<in> set (overdue_ids afterID grace s)" by (meson in_set_takeD last_in_set)
  then obtain r where r: "r \<in> set (tb_orders s)" "ord_ID r = ?l" "ord_ID r > afterID"
    by (auto simp: overdue_ids_def)
  let ?A = "\<lambda>r. ord_ID r > afterID"
  let ?B = "\<lambda>r. ord_ID r > ?l"
  have "filter ?B (tb_orders s) = filter ?B (filter ?A (tb_orders s))"
    using r by (auto intro!: filter_cong)
  moreover have "length (filter ?B (filter ?A (tb_orders s))) < length (filter ?A (tb_orders s))"
    by (rule length_filter_less [where x = r]) (use r in auto)
  ultimately show ?thesis by simp
qed

termination reap_loop
proof (relation "measure (\<lambda>(ins, g, n, a, rq, s). length (filter (\<lambda>r. ord_ID r > a) (tb_orders s)))", goal_cases)
  case 1
  show ?case by simp
next
  case (2 ins g n a rq s ids r)
  have "tb_orders (snd r) = tb_orders s" using 2(2) reap_page_orders by simp
  then show ?case using 2 reap_measure [of n a g s] by (simp add: case_prod_beta)
qed

declare reap_loop.simps [simp del]

definition ReapOverdueOrders :: "river option \<Rightarrow> int \<Rightarrow> int \<Rightarrow> db \<Rightarrow> (error + int list) \<times> db" where
  "ReapOverdueOrders jobs grace0 limit0 s =
     (let grace = (if grace0 \<le> 0 then 300 * 10 ^ 9 else grace0);
          limit = (if limit0 \<le> 0 then 100 else limit0) in
      case jobs of None \<Rightarrow> (Inl (Errorf ''order mq is not configured''), s)
      | Some ins \<Rightarrow> (case reap_loop ins grace (nat limit - 1) 0 [] s of (requeued, s') \<Rightarrow> (Inr requeued, s')))"

section \<open>Shipping and completion\<close>

record OrderFulfillmentInput =
  ofi_OrderID :: int
  ofi_Action :: string
  ofi_IdempotencyKey :: string
  ofi_Reason :: string
  ofi_Carrier :: string
  ofi_TrackingNumber :: string

definition Fulfillment_Validate :: "OrderFulfillmentInput \<Rightarrow> Actor \<Rightarrow> error + unit" where
  "Fulfillment_Validate i a =
     (case Actor_Validate a of Inl e \<Rightarrow> Inl e | Inr _ \<Rightarrow>
      if ofi_Action i = ''ship'' \<and> \<not> actor_Admin a then Inl (Forbidden ''FORBIDDEN'')
      else if ofi_OrderID i \<le> 0 \<or> (ofi_Action i \<noteq> ''ship'' \<and> ofi_Action i \<noteq> ''complete'') \<or>
              go_len (ofi_IdempotencyKey i) < 8 \<or> go_len (ofi_IdempotencyKey i) > 64 \<or>
              TrimSpace (ofi_IdempotencyKey i) \<noteq> ofi_IdempotencyKey i \<or>
              TrimSpace (ofi_Reason i) = '''' \<or> RuneCountInString (ofi_Reason i) > 255
        then Inl (BadRequest ''ORDER_FULFILLMENT_INVALID'')
      else if ofi_Action i = ''ship'' then
        (if TrimSpace (ofi_Carrier i) = '''' \<or> RuneCountInString (ofi_Carrier i) > 64 \<or>
            TrimSpace (ofi_TrackingNumber i) = '''' \<or> RuneCountInString (ofi_TrackingNumber i) > 128
         then Inl (BadRequest ''ORDER_SHIPMENT_INVALID'') else Inr ())
      else if ofi_Carrier i \<noteq> '''' \<or> ofi_TrackingNumber i \<noteq> ''''
        then Inl (BadRequest ''ORDER_FULFILLMENT_INVALID'') else Inr ())"

definition ApplyFulfillment :: "Actor \<Rightarrow> OrderFulfillmentInput \<Rightarrow> (db, fulfillment_action) tx" where
  "ApplyFulfillment actor input =
     tx_seq (tx_lift (Fulfillment_Validate input actor))
     (tx_seq (tx_on_no_rows (q_LockUserForReference (actor_ID actor)) (tx_throw ErrOrderNotFound))
     (tx_bind (tx_on_no_rows (q_GetOrderForUpdate (ofi_OrderID input)) (tx_throw ErrOrderNotFound)) (\<lambda>order.
     tx_seq (tx_fail_if (\<not> actor_Admin actor \<and> actor_ID actor \<noteq> ord_UserID order) ErrOrderNotFound)
     (tx_bind (tx_optional (q_GetOrderFulfillmentAction (ord_ID order) (ofi_IdempotencyKey input))) (\<lambda>found.
      case found of
        Some result \<Rightarrow>
          if ful_ActorID result \<noteq> actor_ID actor \<or> ful_Action result \<noteq> ofi_Action input \<or>
             ful_Reason result \<noteq> ofi_Reason input \<or> ful_Carrier result \<noteq> ofi_Carrier input \<or>
             ful_TrackingNumber result \<noteq> ofi_TrackingNumber input
          then tx_throw ErrIdempotencyKeyConflict else tx_return result
      | None \<Rightarrow>
          if (ofi_Action input = ''ship'' \<and> ord_Status order \<noteq> OrderStatusPaid) \<or>
             (ofi_Action input = ''complete'' \<and> ord_Status order \<noteq> OrderStatusShipped) \<or>
             ord_PaidPaymentID order = None
          then tx_throw ErrOrderFulfillmentConflict
          else tx_bind (q_GetPaymentForUpdate (the (ord_PaidPaymentID order))) (\<lambda>payment.
            if pay_OrderID payment \<noteq> ord_ID order \<or> pay_UserID payment \<noteq> ord_UserID order \<or>
               pay_AmountMinor payment \<noteq> ord_TotalAmountMinor order \<or>
               pay_Currency payment \<noteq> ord_Currency order \<or> pay_Status payment \<noteq> PaymentStatusSuccess
            then tx_throw ErrOrderFulfillmentConflict
            else if pay_ReconciliationStatus payment \<noteq> ReconciliationStatusNone \<and>
                    pay_ReconciliationStatus payment \<noteq> ReconciliationStatusResolved
            then tx_throw ErrPaymentReconciliationRequired
            else tx_bind (tx_optional (q_GetOrderRefundByPaymentID (the (ord_PaidPaymentID order)))) (\<lambda>refund.
              tx_seq (tx_fail_if (case refund of None \<Rightarrow> False
                                  | Some r \<Rightarrow> rfd_Status r \<noteq> PaymentRefundStatusFailed) ErrOrderFulfillmentConflict)
              (tx_bind (tx_on_no_rows (if ofi_Action input = ''ship'' then q_MarkOrderShipped (ord_ID order)
                                       else q_MarkOrderCompleted (ord_ID order))
                         (tx_throw ErrOrderFulfillmentConflict)) (\<lambda>changed.
               q_CreateOrderFulfillmentAction \<lparr>ful_ID = 0, ful_OrderID = ord_ID order, ful_ActorID = actor_ID actor,
                 ful_Action = ofi_Action input, ful_FromStatus = ord_Status order, ful_ToStatus = ord_Status changed,
                 ful_IdempotencyKey = ofi_IdempotencyKey input, ful_Reason = ofi_Reason input,
                 ful_Carrier = ofi_Carrier input, ful_TrackingNumber = ofi_TrackingNumber input\<rparr>)))))))))"

definition uc_ApplyFulfillment :: "Actor \<Rightarrow> OrderFulfillmentInput \<Rightarrow> (db, fulfillment_action) tx" where
  "uc_ApplyFulfillment a i = tx_seq (tx_lift (Fulfillment_Validate i a)) (ApplyFulfillment a i)"

definition ListFulfillmentActions :: "Actor \<Rightarrow> int \<Rightarrow> (db, fulfillment_action list) tx" where
  "ListFulfillmentActions actor oid = tx_seq (tx_lift (Actor_Validate actor))
     (tx_bind (tx_on_no_rows (q_GetOrder oid) (tx_throw ErrOrderNotFound)) (\<lambda>order.
      tx_seq (tx_fail_if (\<not> actor_Admin actor \<and> actor_ID actor \<noteq> ord_UserID order) ErrOrderNotFound)
        (q_ListOrderFulfillmentActions oid)))"

definition uc_ListFulfillment :: "Actor \<Rightarrow> int \<Rightarrow> (db, fulfillment_action list) tx" where
  "uc_ListFulfillment a oid = tx_seq (tx_lift (Actor_Validate a))
     (tx_seq (tx_fail_if (oid \<le> 0) ErrOrderNotFound) (ListFulfillmentActions a oid))"

end
