(* ===== verification/PaymentRepo.thy ===== *)
theory PaymentRepo
  imports OrderLifecycle
begin

text \<open>
  The payment repository (app/mall/internal/data/payment\_repository.go): creating a payment
  for a pending order, the prepay lease (claim, finalize, record an error), the hand-over to
  closing, and reading. The readers go to the tables; the Redis cache in front of some of
  them is not modelled.
\<close>

record CreatePaymentArgs =
  cya_OrderID :: int
  cya_UserID :: int
  cya_MerchantID :: int
  cya_Amount :: int
  cya_Currency :: string
  cya_Method :: string
  cya_OutTradeNo :: string

text \<open>
  The loop over the existing payments: the first that needs review, took money, or is active
  decides. \<open>Some p\<close>: the active payment of the same method is reused.
\<close>

fun reuse_scan :: "string \<Rightarrow> payment list \<Rightarrow> error + payment option" where
  "reuse_scan method [] = Inr None"
| "reuse_scan method (p # ps) =
     (if ReconciliationNeedsReview (pay_ReconciliationStatus p) then Inl ErrPaymentReconciliationRequired
      else if pay_Status p = PaymentStatusSuccess \<or> pay_Status p = PaymentStatusRefunded then Inl ErrOrderAlreadyPaid
      else if active_payment (pay_Status p) then
        (if pay_PayChannel p = method then Inr (Some p) else Inl ErrOrderHasActivePayment)
      else reuse_scan method ps)"

definition CreatePayment_body :: "CreatePaymentArgs \<Rightarrow> (db, payment) tx" where
  "CreatePayment_body args =
     tx_bind (tx_on_no_rows (q_GetOrderForUpdate (cya_OrderID args)) (tx_throw ErrOrderNotFound)) (\<lambda>order.
     if ord_UserID order \<noteq> cya_UserID args \<or> ord_TotalAmountMinor order \<noteq> cya_Amount args \<or>
        ord_Currency order \<noteq> cya_Currency args then tx_throw ErrPaymentConflict
     else if ord_Status order \<in> {OrderStatusPaid, OrderStatusShipped, OrderStatusCompleted}
       then tx_throw ErrOrderAlreadyPaid
     else if ord_Status order \<noteq> OrderStatusPendingPayment then tx_throw ErrPaymentStateConflict
     else tx_bind (q_OrderIsExpired (ord_ID order)) (\<lambda>expired.
       tx_seq (tx_fail_if expired ErrOrderExpired)
       (tx_bind (q_ListPaymentsByOrderForUpdate (ord_ID order)) (\<lambda>payments0.
       tx_bind (recoverUnsupportedPayments payments0) (\<lambda>payments.
       tx_bind (tx_lift (reuse_scan (cya_Method args) payments)) (\<lambda>reuse.
       case reuse of
         Some p \<Rightarrow> tx_return p
       | None \<Rightarrow> q_CreatePaymentWithOutTradeNo
           \<lparr>cpp_OrderID = cya_OrderID args, cpp_UserID = cya_UserID args, cpp_MerchantID = cya_MerchantID args,
            cpp_AmountMinor = cya_Amount args, cpp_Currency = cya_Currency args,
            cpp_Status = PaymentStatusCreating, cpp_PayChannel = cya_Method args,
            cpp_OutTradeNo = cya_OutTradeNo args\<rparr>))))))"

definition getActivePaymentByOrder :: "int \<Rightarrow> (db, PaymentDO) tx" where
  "getActivePaymentByOrder oid = tx_bind
     (tx_on_no_rows (q_GetActivePaymentByOrder oid) (tx_throw ErrPaymentNotFound)) (\<lambda>row.
     tx_return (toBizPayment row))"

definition CreatePayment :: "CreatePaymentArgs \<Rightarrow> db \<Rightarrow> (error + PaymentDO) \<times> db" where
  "CreatePayment args s =
     (case InTx (CreatePayment_body args) s of
        (Inr row, s') \<Rightarrow> (Inr (toBizPayment row), s')
      | (Inl e, s') \<Rightarrow>
          if e = UniqueViolation ''idx_payments_one_active_per_order'' then
            (case getActivePaymentByOrder (cya_OrderID args) s' of
               Inr (existing, _) \<Rightarrow> (if pdo_Method existing = cya_Method args then Inr existing
                                    else Inl ErrOrderHasActivePayment, s')
             | Inl _ \<Rightarrow> (Inl ErrPaymentConflict, s'))
          else (Inl e, s'))"

section \<open>The prepay lease\<close>

definition ClaimPaymentPrepay :: "int \<Rightarrow> string \<Rightarrow> int \<Rightarrow> (db, PaymentDO) tx" where
  "ClaimPaymentPrepay i token leaseDuration =
     tx_bind (tx_optional (q_ClaimPaymentPrepay i (text_of token) leaseDuration)) (\<lambda>claimed.
     case claimed of
       Some row \<Rightarrow> tx_return (toBizPayment row)
     | None \<Rightarrow> tx_bind (q_GetPayment i) (\<lambda>currentRow. tx_bind (tx_read tb_time_Now) (\<lambda>now.
         let current = toBizPayment currentRow in
         if pdo_Status current = PaymentStatusPending \<and> act_Type (pdo_Action current) \<noteq> '''' then tx_return current
         else if pdo_Status current = PaymentStatusCreating \<and>
                 (case pdo_PrepayLeaseUntil current of None \<Rightarrow> False | Some t \<Rightarrow> now < t)
           then tx_throw ErrPaymentPrepayInProgress
         else tx_throw ErrPaymentStateConflict)))"

definition FinalizePaymentPrepay :: "int \<Rightarrow> string \<Rightarrow> PaymentAction \<Rightarrow> (db, PaymentDO) tx" where
  "FinalizePaymentPrepay i token action =
     tx_bind (tx_optional (q_FinalizePaymentPrepay i (text_of token) (text_of (act_Type action)) (act_Payload action)))
     (\<lambda>finalized. case finalized of
       Some row \<Rightarrow> tx_return (toBizPayment row)
     | None \<Rightarrow> tx_bind (q_GetPayment i) (\<lambda>currentRow.
         let current = toBizPayment currentRow in
         if pdo_Status current = PaymentStatusPending \<and> act_Type (pdo_Action current) \<noteq> '''' then tx_return current
         else tx_throw ErrPaymentStateConflict))"

definition RecordPaymentPrepayError :: "int \<Rightarrow> string \<Rightarrow> string \<Rightarrow> (db, unit) tx" where
  "RecordPaymentPrepayError i token lastError =
     tx_seq (q_RecordPaymentPrepayError i (text_of token) (text_of lastError)) (tx_return ())"

section \<open>Reading\<close>

definition load_payment :: "(db, payment) tx \<Rightarrow> (db, PaymentDO) tx" where
  "load_payment load = tx_bind (tx_on_no_rows load (tx_throw ErrPaymentNotFound)) (\<lambda>row.
     tx_return (toBizPayment row))"

definition repo_GetPayment :: "int \<Rightarrow> (db, PaymentDO) tx" where
  "repo_GetPayment i = load_payment (q_GetPayment i)"

definition GetPaymentForJob :: "int \<Rightarrow> (db, PaymentDO) tx" where
  "GetPaymentForJob i = load_payment (q_GetPayment i)"

definition repo_GetPaymentByUser :: "int \<Rightarrow> int \<Rightarrow> (db, PaymentDO) tx" where
  "repo_GetPaymentByUser i uid = tx_bind (repo_GetPayment i) (\<lambda>p.
     if pdo_UserID p \<noteq> uid then tx_throw ErrPaymentNotFound else tx_return p)"

definition repo_GetLatestPaymentByOrder :: "int \<Rightarrow> (db, PaymentDO) tx" where
  "repo_GetLatestPaymentByOrder oid = load_payment (q_GetLatestPaymentByOrder oid)"

definition repo_GetPaymentByOutTradeNo :: "string \<Rightarrow> (db, PaymentDO) tx" where
  "repo_GetPaymentByOutTradeNo no = load_payment (q_GetPaymentByOutTradeNo no)"

text \<open>The zero time where the payment or its order is missing.\<close>

definition GetOrderExpiry :: "int \<Rightarrow> (db, int) tx" where
  "GetOrderExpiry pid = tx_on_no_rows (q_GetOrderExpiryByPaymentID pid) (tx_return 0)"

section \<open>The hand-over to closing\<close>

text \<open>A job of an older reconciliation version does nothing.\<close>

definition close_fence :: "CheckPayArgs \<Rightarrow> (db, bool) tx" where
  "close_fence args =
     (if cpa_ReconciliationVersion args = 0 then tx_return True
      else tx_bind (q_GetPayment (cpa_PaymentID args)) (\<lambda>snapshot.
        tx_seq (q_GetOrderForUpdate (pay_OrderID snapshot))
        (tx_bind (q_ListPaymentsByOrderForUpdate (pay_OrderID snapshot)) (\<lambda>payments.
         tx_return (case List.find (\<lambda>p. pay_ID p = cpa_PaymentID args) payments of None \<Rightarrow> False
           | Some p \<Rightarrow> ReconciliationJobCurrent (cpa_ReconciliationVersion args)
                         (pay_ReconciliationVersion p) (pay_ReconciliationStatus p))))))"

definition MarkPayClosePending :: "river option \<Rightarrow> CheckPayArgs \<Rightarrow> (db, unit) tx" where
  "MarkPayClosePending jobs args = tx_bind (close_fence args) (\<lambda>current.
     if \<not> current then tx_return ()
     else tx_bind (tx_on_no_rows (q_MarkPaymentClosePending (cpa_PaymentID args))
            (tx_bind (q_GetPayment (cpa_PaymentID args)) (\<lambda>p.
               if pay_Status p \<noteq> PaymentStatusClosePending then tx_throw ErrPaymentStateConflict
               else tx_return p))) (\<lambda>row.
       tx_bind (tx_lift (ParsePaymentMethod (pay_PayChannel row))) (\<lambda>method.
       tx_seq (enqueue_tx jobs ''payment mq is not configured''
                (ClosePay \<lparr>cla_ReconciliationVersion = cpa_ReconciliationVersion args,
                           cla_PaymentID = pay_ID row, cla_Provider = pm_Provider method,
                           cla_Reason = cpa_Trigger args\<rparr>) 0)
              (markNotificationProcessed (cpa_NotificationID args)))))"

end
