(* ===== verification/Reconciliation.thy ===== *)
theory Reconciliation
  imports PaymentRepo
begin

text \<open>
  Manual reconciliation (app/mall/internal/biz/payment\_reconciliation.go and
  app/mall/internal/data/payment\_reconciliation.go): an administrator retries a case, which
  queues a job fenced by the new version, or resolves it once the recorded facts are settled.
\<close>

record ReconciliationInput =
  rin_PaymentID :: int
  rin_ExpectedVersion :: int
  rin_Action :: string
  rin_IdempotencyKey :: string
  rin_Reason :: string
  rin_Evidence :: string

definition requireReconciliationAdmin :: "Actor \<Rightarrow> error + unit" where
  "requireReconciliationAdmin actor = (case Actor_Validate actor of Inl e \<Rightarrow> Inl e | Inr _ \<Rightarrow>
     if \<not> actor_Admin actor then Inl (Forbidden ''FORBIDDEN'') else Inr ())"

definition Reconciliation_Validate :: "ReconciliationInput \<Rightarrow> Actor \<Rightarrow> error + unit" where
  "Reconciliation_Validate i actor = (case requireReconciliationAdmin actor of Inl e \<Rightarrow> Inl e | Inr _ \<Rightarrow>
     if rin_PaymentID i \<le> 0 \<or> rin_ExpectedVersion i \<le> 0 \<or>
        (rin_Action i \<noteq> ''retry'' \<and> rin_Action i \<noteq> ''resolve'') \<or>
        go_len (rin_IdempotencyKey i) < 8 \<or> go_len (rin_IdempotencyKey i) > 64 \<or>
        TrimSpace (rin_IdempotencyKey i) \<noteq> rin_IdempotencyKey i \<or>
        TrimSpace (rin_Reason i) = '''' \<or> RuneCountInString (rin_Reason i) > 255 \<or>
        RuneCountInString (rin_Evidence i) > 2000 \<or>
        (rin_Action i = ''resolve'' \<and> TrimSpace (rin_Evidence i) = '''')
     then Inl (BadRequest ''RECONCILIATION_INVALID'') else Inr ())"

definition canResolvePaymentReconciliation ::
    "payment \<Rightarrow> order \<Rightarrow> PaymentRefund option \<Rightarrow> (db, bool) tx" where
  "canResolvePaymentReconciliation payment order refund =
     (if \<not> CanResolveReconciliation (Some (toBizPayment payment)) order refund then tx_return False
      else if pay_Status payment = PaymentStatusRefunded then tx_return True
      else tx_bind (q_HasUnresolvedProviderRefund (pay_ID payment)) (\<lambda>unresolved. tx_return (\<not> unresolved)))"

definition load_refund :: "int \<Rightarrow> (db, PaymentRefund option) tx" where
  "load_refund pid = tx_bind (tx_optional (q_GetOrderRefundByPaymentID pid)) (\<lambda>row.
     tx_return (map_option toBizPaymentRefund row))"

text \<open>The retry branch: the case goes to processing and a job of the new version is queued.\<close>

definition retry_case ::
    "river option \<Rightarrow> order \<Rightarrow> payment \<Rightarrow> ReconciliationInput \<Rightarrow> (db, payment \<times> int option) tx" where
  "retry_case jobs order payment input =
     (if pay_ReconciliationStatus payment \<noteq> ReconciliationStatusRequired then tx_throw ErrReconciliationConflict
      else case jobs of None \<Rightarrow> tx_throw (Errorf ''reconciliation requires payment jobs'') | Some ins \<Rightarrow>
        tx_bind (tx_lift (ParsePaymentMethod (pay_PayChannel payment))) (\<lambda>method.
        tx_bind (q_RetryPaymentReconciliation (pay_ID payment) (rin_ExpectedVersion input)) (\<lambda>changed.
        tx_bind (river_insert ins
           (if pay_Status payment = PaymentStatusClosePending
            then ClosePay \<lparr>cla_ReconciliationVersion = pay_ReconciliationVersion changed,
                           cla_PaymentID = pay_ID payment, cla_Provider = pm_Provider method,
                           cla_Reason = ''manual_reconciliation''\<rparr>
            else CheckPay \<lparr>cpa_ConfirmUnissued = False,
                           cpa_ReconciliationVersion = pay_ReconciliationVersion changed,
                           cpa_PaymentID = pay_ID payment, cpa_Provider = pm_Provider method,
                           cpa_NotificationID = 0, cpa_Trigger = ''manual_reconciliation'', cpa_PollCount = 0,
                           cpa_MaxPolls = 5, cpa_PollIntervalSeconds = 30,
                           cpa_OrderExpiresAt = ord_ExpiresAt order\<rparr>) 0) (\<lambda>(job, _).
        tx_seq (tx_fail_if (job \<le> 0) (Errorf ''reconciliation enqueue returned no job''))
               (tx_return (changed, Some job))))))"

text \<open>The facts of a sibling that funded the order are checked the same way.\<close>

definition primary_settled :: "order \<Rightarrow> payment list \<Rightarrow> payment \<Rightarrow> (db, bool) tx" where
  "primary_settled order payments payment =
     (case ord_PaidPaymentID order of None \<Rightarrow> tx_return True
      | Some primary \<Rightarrow>
        if primary = pay_ID payment then tx_return True
        else (case List.find (\<lambda>c. pay_ID c = primary) payments of None \<Rightarrow> tx_return False
          | Some candidate \<Rightarrow> tx_bind (load_refund primary) (\<lambda>primaryRefund.
              canResolvePaymentReconciliation candidate order primaryRefund)))"

definition resolve_case ::
    "order \<Rightarrow> payment list \<Rightarrow> payment \<Rightarrow> ReconciliationInput \<Rightarrow> (db, payment \<times> int option) tx" where
  "resolve_case order payments payment input =
     tx_bind (load_refund (pay_ID payment)) (\<lambda>refund.
     tx_seq (tx_fail_if (case refund of None \<Rightarrow> False | Some r \<Rightarrow> prf_Status r = PaymentRefundStatusPending)
               ErrReconciliationConflict)
     (tx_bind (canResolvePaymentReconciliation payment order refund) (\<lambda>canResolve.
     tx_seq (tx_fail_if (\<not> canResolve) ErrReconciliationConflict)
     (tx_bind (primary_settled order payments payment) (\<lambda>validPrimary.
     tx_seq (tx_fail_if (\<not> validPrimary) ErrReconciliationConflict)
     (tx_bind (q_ResolvePaymentReconciliation (pay_ID payment) (rin_ExpectedVersion input)) (\<lambda>changed.
     tx_return (changed, None))))))))"

text \<open>What runs with the order and its payments locked: a replay, or the action and its record.\<close>

definition reconcile_locked ::
    "river option \<Rightarrow> Actor \<Rightarrow> ReconciliationInput \<Rightarrow> order \<Rightarrow> payment list \<Rightarrow> payment \<Rightarrow>
     (db, reconciliation_action_row) tx" where
  "reconcile_locked jobs actor input order payments payment =
     tx_bind (tx_optional (q_GetReconciliationAction (pay_ID payment) (rin_IdempotencyKey input))) (\<lambda>found.
     case found of
       Some action \<Rightarrow>
         if rac_ActorID action \<noteq> actor_ID actor \<or> rac_Action action \<noteq> rin_Action input \<or>
            rac_FromVersion action \<noteq> rin_ExpectedVersion input \<or> rac_Reason action \<noteq> rin_Reason input \<or>
            rac_Evidence action \<noteq> rin_Evidence input
         then tx_throw ErrIdempotencyKeyConflict else tx_return action
     | None \<Rightarrow>
         if pay_ReconciliationVersion payment \<noteq> rin_ExpectedVersion input then tx_throw ErrReconciliationConflict
         else tx_bind (if rin_Action input = ''retry'' then retry_case jobs order payment input
                       else resolve_case order payments payment input) (\<lambda>(changed, jobID).
           q_CreateReconciliationAction \<lparr>rac_ID = 0, rac_PaymentID = pay_ID payment,
             rac_ActorID = actor_ID actor, rac_Action = rin_Action input,
             rac_FromStatus = pay_ReconciliationStatus payment,
             rac_ToStatus = pay_ReconciliationStatus changed,
             rac_FromVersion = pay_ReconciliationVersion payment,
             rac_ToVersion = pay_ReconciliationVersion changed,
             rac_IdempotencyKey = rin_IdempotencyKey input, rac_Reason = rin_Reason input,
             rac_Evidence = rin_Evidence input, rac_RiverJobID = jobID\<rparr>))"

definition ApplyReconciliation_body ::
    "river option \<Rightarrow> Actor \<Rightarrow> ReconciliationInput \<Rightarrow> (db, reconciliation_action_row) tx" where
  "ApplyReconciliation_body jobs actor input =
     tx_seq (tx_on_no_rows (q_LockUserForReference (actor_ID actor)) (tx_throw ErrPaymentNotFound))
     (tx_bind (tx_on_no_rows (q_GetPayment (rin_PaymentID input)) (tx_throw ErrPaymentNotFound)) (\<lambda>snapshot.
     tx_bind (q_GetOrderForUpdate (pay_OrderID snapshot)) (\<lambda>order.
     tx_bind (q_ListPaymentsByOrderForUpdate (ord_ID order)) (\<lambda>payments.
     case List.find (\<lambda>p. pay_ID p = rin_PaymentID input) payments of
       None \<Rightarrow> tx_throw ErrPaymentNotFound
     | Some payment \<Rightarrow> reconcile_locked jobs actor input order payments payment))))"

definition ApplyReconciliation ::
    "river option \<Rightarrow> Actor \<Rightarrow> ReconciliationInput \<Rightarrow> (db, reconciliation_action_row) tx" where
  "ApplyReconciliation jobs actor input = tx_seq (tx_lift (Reconciliation_Validate input actor))
     (tx_on_no_rows (ApplyReconciliation_body jobs actor input) (tx_throw ErrReconciliationConflict))"

definition uc_ApplyReconciliation ::
    "river option \<Rightarrow> Actor \<Rightarrow> ReconciliationInput \<Rightarrow> (db, reconciliation_action_row) tx" where
  "uc_ApplyReconciliation jobs actor input = tx_seq (tx_lift (Reconciliation_Validate input actor))
     (ApplyReconciliation jobs actor input)"

section \<open>Listing\<close>

definition q_ListReconciliationCases :: "int \<Rightarrow> int \<Rightarrow> (db, payment list) tx" where
  "q_ListReconciliationCases afterID lmt = tx_read (\<lambda>s. take (nat lmt) (sort_key pay_ID
     (filter (\<lambda>p. pay_ID p > afterID \<and> ReconciliationNeedsReview (pay_ReconciliationStatus p)) (tb_payments s))))"

definition q_ListReconciliationActions :: "int \<Rightarrow> int \<Rightarrow> int \<Rightarrow> (db, reconciliation_action_row list) tx" where
  "q_ListReconciliationActions pid afterID lmt = tx_read (\<lambda>s. take (nat lmt) (sort_key rac_ID
     (filter (\<lambda>a. rac_PaymentID a = pid \<and> rac_ID a > afterID) (tb_actions s))))"

record ReconciliationCase =
  rcs_Payment :: PaymentDO
  rcs_Detail :: string

definition ListReconciliationCases :: "int \<Rightarrow> int \<Rightarrow> (db, ReconciliationCase list) tx" where
  "ListReconciliationCases afterID lmt = tx_bind (q_ListReconciliationCases afterID lmt) (\<lambda>rows.
     tx_return (map (\<lambda>row. \<lparr>rcs_Payment = toBizPayment row,
       rcs_Detail = text_String (pay_ReconciliationDetail row)\<rparr>) rows))"

definition ListReconciliationActions :: "int \<Rightarrow> int \<Rightarrow> int \<Rightarrow> (db, reconciliation_action_row list) tx" where
  "ListReconciliationActions pid afterID lmt =
     tx_seq (tx_on_no_rows (q_GetPayment pid) (tx_throw ErrPaymentNotFound))
            (q_ListReconciliationActions pid afterID lmt)"

definition uc_ListCases :: "Actor \<Rightarrow> int \<Rightarrow> int \<Rightarrow> (db, ReconciliationCase list) tx" where
  "uc_ListCases actor afterID lmt = tx_seq (tx_lift (requireReconciliationAdmin actor))
     (tx_seq (tx_fail_if (afterID < 0 \<or> lmt < 0 \<or> lmt > 100) (BadRequest ''RECONCILIATION_PAGE_INVALID''))
       (ListReconciliationCases afterID (if lmt = 0 then 20 else lmt)))"

definition uc_ListActions :: "Actor \<Rightarrow> int \<Rightarrow> int \<Rightarrow> int \<Rightarrow> (db, reconciliation_action_row list) tx" where
  "uc_ListActions actor pid afterID lmt = tx_seq (tx_lift (requireReconciliationAdmin actor))
     (tx_seq (tx_fail_if (pid \<le> 0 \<or> afterID < 0 \<or> lmt < 0 \<or> lmt > 100) (BadRequest ''RECONCILIATION_PAGE_INVALID''))
       (ListReconciliationActions pid afterID (if lmt = 0 then 20 else lmt)))"

end
