(* ===== verification/MoneyRefinement.thy ===== *)
theory MoneyRefinement
  imports Ledger Reconciliation
begin

text \<open>
  The transactions of the repositories refine the events of the ledger. The abstraction
  reads orders, payments and refunds as maps; \<open>sim s s'\<close> says that from a state whose keys
  are sound and whose ledger satisfies the invariant, the new ledger is reached by ledger
  events. A body is shown to keep \<open>sim\<close> statement by statement (\<open>sim_rules\<close>); where a
  statement is only safe in context (cancelling, capturing, settling a refund, resolving a
  case) the context is what the code read before under the order's lock.
\<close>


section \<open>Abstraction\<close>

definition abs_order :: "order \<Rightarrow> aorder" where
  "abs_order r = \<lparr>ao_user = ord_UserID r, ao_total = ord_TotalAmountMinor r, ao_currency = ord_Currency r,
     ao_status = ord_Status r, ao_paid = ord_PaidPaymentID r, ao_done = ord_IsCompleted r\<rparr>"

definition abs_pay :: "payment \<Rightarrow> apay" where
  "abs_pay p = \<lparr>ap_order = pay_OrderID p, ap_user = pay_UserID p, ap_amount = pay_AmountMinor p,
     ap_currency = pay_Currency p, ap_status = pay_Status p,
     ap_review = ReconciliationNeedsReview (pay_ReconciliationStatus p)\<rparr>"

definition abs_refund :: "order_refund \<Rightarrow> arefund" where
  "abs_refund f = \<lparr>ar_order = rfd_OrderID f, ar_user = rfd_UserID f, ar_total = rfd_TotalAmountMinor f,
     ar_amount = rfd_RefundAmountMinor f, ar_currency = rfd_Currency f, ar_status = rfd_Status f\<rparr>"

definition refund_of :: "int \<Rightarrow> order_refund list \<Rightarrow> order_refund option" where
  "refund_of pid t = List.find (\<lambda>r. rfd_PaymentID r = Some pid) t"

definition abs_db :: "db \<Rightarrow> ledger" where
  "abs_db s = \<lparr>lg_order = (\<lambda>i. map_option abs_order (find_row ord_ID i (tb_orders s))),
     lg_pay = (\<lambda>i. map_option abs_pay (find_row pay_ID i (tb_payments s))),
     lg_refund = (\<lambda>i. map_option abs_refund (refund_of i (tb_refunds s)))\<rparr>"

text \<open>The keys of the three tables; a payment has one refund at most.\<close>

definition db_ok :: "db \<Rightarrow> bool" where
  "db_ok s \<longleftrightarrow> pk ord_ID (tb_orders s) \<and> pk pay_ID (tb_payments s) \<and> pk rfd_ID (tb_refunds s) \<and>
     distinct (map rfd_PaymentID (tb_refunds s)) \<and> None \<notin> set (map rfd_PaymentID (tb_refunds s))"

lemma abs_simps [simp]:
  "ao_user (abs_order r) = ord_UserID r" "ao_total (abs_order r) = ord_TotalAmountMinor r"
  "ao_currency (abs_order r) = ord_Currency r" "ao_status (abs_order r) = ord_Status r"
  "ao_paid (abs_order r) = ord_PaidPaymentID r" "ao_done (abs_order r) = ord_IsCompleted r"
  "ap_order (abs_pay p) = pay_OrderID p" "ap_user (abs_pay p) = pay_UserID p"
  "ap_amount (abs_pay p) = pay_AmountMinor p" "ap_currency (abs_pay p) = pay_Currency p"
  "ap_status (abs_pay p) = pay_Status p"
  "ap_review (abs_pay p) = ReconciliationNeedsReview (pay_ReconciliationStatus p)"
  "ar_order (abs_refund f) = rfd_OrderID f" "ar_user (abs_refund f) = rfd_UserID f"
  "ar_total (abs_refund f) = rfd_TotalAmountMinor f" "ar_amount (abs_refund f) = rfd_RefundAmountMinor f"
  "ar_currency (abs_refund f) = rfd_Currency f" "ar_status (abs_refund f) = rfd_Status f"
  by (simp_all add: abs_order_def abs_pay_def abs_refund_def)

lemma lg_abs [simp]:
  "lg_order (abs_db s) i = map_option abs_order (find_row ord_ID i (tb_orders s))"
  "lg_pay (abs_db s) i = map_option abs_pay (find_row pay_ID i (tb_payments s))"
  "lg_refund (abs_db s) i = map_option abs_refund (refund_of i (tb_refunds s))"
  by (simp_all add: abs_db_def)

lemma abs_core: "core_eq s s' \<Longrightarrow> abs_db s' = abs_db s"
  by (simp add: abs_db_def core_eq_def)

lemma db_ok_core: "core_eq s s' \<Longrightarrow> db_ok s' = db_ok s"
  by (simp add: db_ok_def core_eq_def)

lemma abs_upd_payment:
  assumes "\<And>r. pay_ID (f r) = pay_ID r" and "find_row pay_ID i (tb_payments s) = Some p"
  shows "abs_db (s\<lparr>tb_payments := upd_row pay_ID i f (tb_payments s)\<rparr>) = set_pay i (abs_pay (f p)) (abs_db s)"
  using assms by (auto simp: abs_db_def set_pay_def find_row_upd)

lemma abs_upd_order:
  assumes "\<And>r. ord_ID (f r) = ord_ID r" and "find_row ord_ID i (tb_orders s) = Some r"
  shows "abs_db (s\<lparr>tb_orders := upd_row ord_ID i f (tb_orders s)\<rparr>) = set_order i (abs_order (f r)) (abs_db s)"
  using assms by (auto simp: abs_db_def set_order_def find_row_upd)

lemma abs_ins_payment:
  assumes "pay_ID p = next_id pay_ID (tb_payments s)"
  shows "abs_db (s\<lparr>tb_payments := tb_payments s @ [p]\<rparr>) = set_pay (pay_ID p) (abs_pay p) (abs_db s)"
  using assms by (auto simp: abs_db_def set_pay_def find_row_insert)

lemma abs_ins_order:
  assumes "ord_ID r = next_id ord_ID (tb_orders s)"
  shows "abs_db (s\<lparr>tb_orders := tb_orders s @ [r]\<rparr>) = set_order (ord_ID r) (abs_order r) (abs_db s)"
  using assms by (auto simp: abs_db_def set_order_def find_row_insert)

lemma refund_of_Some:
  "distinct (map rfd_PaymentID t) \<Longrightarrow> refund_of j t = Some r \<longleftrightarrow> r \<in> set t \<and> rfd_PaymentID r = Some j"
  unfolding refund_of_def by (induction t) (auto simp: rev_image_eqI)

lemma refund_of_None: "refund_of j t = None \<longleftrightarrow> (\<forall>r \<in> set t. rfd_PaymentID r \<noteq> Some j)"
  unfolding refund_of_def by (auto simp: find_None_iff)

lemma refund_of_upd:
  assumes f: "\<And>r. rfd_ID (f r) = rfd_ID r" "\<And>r. rfd_PaymentID (f r) = rfd_PaymentID r"
    and d: "distinct (map rfd_PaymentID t)" and r: "find_row rfd_ID i t = Some r" "rfd_PaymentID r = Some pid"
    and di: "distinct (map rfd_ID t)"
  shows "refund_of j (upd_row rfd_ID i f t) = (if j = pid then Some (f r) else refund_of j t)"
proof -
  have "map rfd_PaymentID (upd_row rfd_ID i f t) = map rfd_PaymentID t"
    using f(2) by (simp add: upd_row_def)
  then have d': "distinct (map rfd_PaymentID (upd_row rfd_ID i f t))" using d by simp
  have uniq: "y = r" if "y \<in> set t" "rfd_ID y = i" for y
    using find_row_mem [OF di that(1)] that r by simp
  have rt: "r \<in> set t" "rfd_ID r = i" using r find_row_in find_row_key by metis+
  show ?thesis
  proof (cases "j = pid")
    case True
    have "f r \<in> set (upd_row rfd_ID i f t)"
      unfolding set_upd_row by (rule image_eqI [where x = r]) (use rt in simp_all)
    then have "refund_of pid (upd_row rfd_ID i f t) = Some (f r)"
      unfolding refund_of_Some [OF d'] using r f by simp
    then show ?thesis using True by simp
  next
    case False
    have "x \<in> set (upd_row rfd_ID i f t) \<and> rfd_PaymentID x = Some j \<longleftrightarrow> x \<in> set t \<and> rfd_PaymentID x = Some j" for x
    proof
      assume x: "x \<in> set (upd_row rfd_ID i f t) \<and> rfd_PaymentID x = Some j"
      then obtain y where y: "y \<in> set t" "x = (if rfd_ID y = i then f y else y)" by (auto simp: set_upd_row)
      then show "x \<in> set t \<and> rfd_PaymentID x = Some j"
        using x False uniq [of y] r f by (auto split: if_splits)
    next
      assume x: "x \<in> set t \<and> rfd_PaymentID x = Some j"
      then have "rfd_ID x \<noteq> i" using uniq [of x] False r by auto
      then have "x \<in> set (upd_row rfd_ID i f t)"
        unfolding set_upd_row by (intro image_eqI [where x = x]) (use x in simp_all)
      then show "x \<in> set (upd_row rfd_ID i f t) \<and> rfd_PaymentID x = Some j" using x by simp
    qed
    then have "refund_of j (upd_row rfd_ID i f t) = Some x \<longleftrightarrow> refund_of j t = Some x" for x
      using refund_of_Some [OF d] refund_of_Some [OF d'] by blast
    then show ?thesis using False by (metis not_None_eq)
  qed
qed

lemma abs_upd_refund:
  assumes "db_ok s" and f: "\<And>r. rfd_ID (f r) = rfd_ID r" "\<And>r. rfd_PaymentID (f r) = rfd_PaymentID r"
    and "find_row rfd_ID i (tb_refunds s) = Some r" "rfd_PaymentID r = Some pid"
  shows "abs_db (s\<lparr>tb_refunds := upd_row rfd_ID i f (tb_refunds s)\<rparr>) = set_refund pid (abs_refund (f r)) (abs_db s)"
proof -
  have "refund_of j (upd_row rfd_ID i f (tb_refunds s)) = (if j = pid then Some (f r) else refund_of j (tb_refunds s))" for j
    using assms by (intro refund_of_upd) (auto simp: db_ok_def pk_def)
  then show ?thesis by (auto simp: abs_db_def set_refund_def)
qed

lemma abs_ins_refund:
  assumes "rfd_PaymentID f = Some pid" "refund_of pid (tb_refunds s) = None"
  shows "abs_db (s\<lparr>tb_refunds := tb_refunds s @ [f]\<rparr>) = set_refund pid (abs_refund f) (abs_db s)"
proof -
  have "refund_of j (t @ [f]) = (case refund_of j t of None \<Rightarrow> if j = pid then Some f else None | Some r \<Rightarrow> Some r)" for j t
    using assms(1) unfolding refund_of_def by (induction t) (auto)
  then show ?thesis using assms(2)
    by (auto simp: abs_db_def set_refund_def fun_eq_iff split: option.splits)
qed

section \<open>Keys\<close>

lemma db_ok_upd_payment:
  "(\<And>r. pay_ID (f r) = pay_ID r) \<Longrightarrow> db_ok (s\<lparr>tb_payments := upd_row pay_ID i f (tb_payments s)\<rparr>) = db_ok s"
  by (simp add: db_ok_def pk_upd_row)

lemma db_ok_upd_order:
  "(\<And>r. ord_ID (f r) = ord_ID r) \<Longrightarrow> db_ok (s\<lparr>tb_orders := upd_row ord_ID i f (tb_orders s)\<rparr>) = db_ok s"
  by (simp add: db_ok_def pk_upd_row)

lemma db_ok_upd_refund:
  assumes "\<And>r. rfd_ID (f r) = rfd_ID r" "\<And>r. rfd_PaymentID (f r) = rfd_PaymentID r"
  shows "db_ok (s\<lparr>tb_refunds := upd_row rfd_ID i f (tb_refunds s)\<rparr>) = db_ok s"
proof -
  have "map rfd_PaymentID (upd_row rfd_ID i f (tb_refunds s)) = map rfd_PaymentID (tb_refunds s)"
    using assms(2) by (simp add: upd_row_def)
  then show ?thesis using assms(1) by (simp add: db_ok_def pk_upd_row del: set_map)
qed

lemma db_ok_ins_payment:
  "db_ok s \<Longrightarrow> pay_ID p = next_id pay_ID (tb_payments s) \<Longrightarrow> db_ok (s\<lparr>tb_payments := tb_payments s @ [p]\<rparr>)"
  by (simp add: db_ok_def pk_insert)

lemma db_ok_ins_order:
  "db_ok s \<Longrightarrow> ord_ID r = next_id ord_ID (tb_orders s) \<Longrightarrow> db_ok (s\<lparr>tb_orders := tb_orders s @ [r]\<rparr>)"
  by (simp add: db_ok_def pk_insert)

lemma db_ok_ins_refund:
  "db_ok s \<Longrightarrow> rfd_ID r = next_id rfd_ID (tb_refunds s) \<Longrightarrow> rfd_PaymentID r = Some pid \<Longrightarrow>
   refund_of pid (tb_refunds s) = None \<Longrightarrow> db_ok (s\<lparr>tb_refunds := tb_refunds s @ [r]\<rparr>)"
  by (auto simp: db_ok_def pk_insert refund_of_None)

section \<open>The simulation relation\<close>

definition sim :: "db \<Rightarrow> db \<Rightarrow> bool" where
  "sim s s' \<longleftrightarrow> (db_ok s \<longrightarrow> ledger_inv (abs_db s) \<longrightarrow>
     db_ok s' \<and> rtranclp ledger_step (abs_db s) (abs_db s'))"

lemma simI:
  "(db_ok s \<Longrightarrow> ledger_inv (abs_db s) \<Longrightarrow> db_ok s') \<Longrightarrow>
   (db_ok s \<Longrightarrow> ledger_inv (abs_db s) \<Longrightarrow> rtranclp ledger_step (abs_db s) (abs_db s')) \<Longrightarrow> sim s s'"
  by (simp add: sim_def)

lemma sim_core: "core_eq s s' \<Longrightarrow> sim s s'"
  by (simp add: sim_def abs_core db_ok_core)

interpretation sim: tx_relation sim
proof
  show "sim s s" for s by (simp add: sim_def)
  show "sim s u" if "sim s t" "sim t u" for s t u
    using that money.inv_star unfolding sim_def by (meson rtranclp_trans)
qed

lemma sim_step1:
  assumes "db_ok s \<Longrightarrow> ledger_inv (abs_db s) \<Longrightarrow> db_ok s'"
    and "db_ok s \<Longrightarrow> ledger_inv (abs_db s) \<Longrightarrow> ledger_step (abs_db s) (abs_db s')"
  shows "sim s s'"
  using assms by (auto simp: sim_def)


section \<open>Statements on payments\<close>

lemma sim_pay_same:
  assumes "\<And>r. pay_ID (f r) = pay_ID r" "find_row pay_ID i (tb_payments s) = Some p" "abs_pay (f p) = abs_pay p"
  shows "sim s (s\<lparr>tb_payments := upd_row pay_ID i f (tb_payments s)\<rparr>)"
proof -
  have "set_pay i (abs_pay p) (abs_db s) = abs_db s"
    using assms by (auto simp: set_pay_def abs_db_def)
  then show ?thesis using assms by (simp add: sim_def db_ok_upd_payment abs_upd_payment)
qed

lemma sim_pay_move:
  assumes "\<And>r. pay_ID (f r) = pay_ID r" "find_row pay_ID i (tb_payments s) = Some p"
    and "abs_pay (f p) = (abs_pay p)\<lparr>ap_status := st\<rparr>" "payment_edge (pay_Status p) st"
    and "\<not> money_taken (pay_Status p)" "\<not> money_taken st"
  shows "sim s (s\<lparr>tb_payments := upd_row pay_ID i f (tb_payments s)\<rparr>)"
  using assms
  by (intro sim_step1) (auto simp: db_ok_upd_payment abs_upd_payment intro!: ledger_step.Move)

lemma sim_pay_review:
  assumes "\<And>r. pay_ID (f r) = pay_ID r" "find_row pay_ID i (tb_payments s) = Some p"
    and "abs_pay (f p) = (abs_pay p)\<lparr>ap_review := True\<rparr>"
  shows "sim s (s\<lparr>tb_payments := upd_row pay_ID i f (tb_payments s)\<rparr>)"
  using assms
  by (intro sim_step1) (auto simp: db_ok_upd_payment abs_upd_payment intro!: ledger_step.Review)

lemma active_open: "active_payment = payment_open"
  by (auto simp: fun_eq_iff active_payment_def payment_open_def)

lemma open_not_money: "payment_open st \<Longrightarrow> \<not> money_taken st"
  by (auto simp: payment_open_def)

named_theorems sim_rules \<open>statements and helpers that simulate the ledger\<close>

declare sim.rel_intros [sim_rules]

lemma sim_Claim [sim_rules]: "tx_rel sim (q_ClaimPaymentPrepay i token lease)"
  by (rule tx_relI) (auto simp: tx_simps sql_defs abs_pay_def intro!: sim_pay_same)

lemma sim_Finalize [sim_rules]: "tx_rel sim (q_FinalizePaymentPrepay i token a b)"
  by (rule tx_relI)
     (auto simp: tx_simps sql_defs abs_pay_def payment_edge_def intro!: sim_pay_move)

lemma sim_RecordPrepayError [sim_rules]: "tx_rel sim (q_RecordPaymentPrepayError i token e)"
  by (rule tx_relI) (auto simp: tx_simps sql_defs abs_pay_def sim.R_refl intro!: sim_pay_same)

lemma sim_ClosePending [sim_rules]: "tx_rel sim (q_MarkPaymentClosePending i)"
  by (rule tx_relI)
     (auto simp: tx_simps sql_defs abs_pay_def payment_edge_def intro!: sim_pay_move)

lemma sim_Closed [sim_rules]: "tx_rel sim (q_MarkPaymentClosed i)"
  by (rule tx_relI)
     (auto simp: tx_simps sql_defs abs_pay_def payment_edge_def active_open open_not_money intro!: sim_pay_move)

lemma sim_Failed [sim_rules]: "tx_rel sim (q_MarkPaymentFailed i e)"
  by (rule tx_relI)
     (auto simp: tx_simps sql_defs abs_pay_def payment_edge_def active_open open_not_money intro!: sim_pay_move)

lemma sim_Require [sim_rules]: "tx_rel sim (q_RequirePaymentReconciliation i a b)"
  by (rule tx_relI) (auto simp: tx_simps sql_defs abs_pay_def intro!: sim_pay_review)

lemma sim_Retry [sim_rules]: "tx_rel sim (q_RetryPaymentReconciliation i v)"
  by (rule tx_relI) (auto simp: tx_simps sql_defs abs_pay_def intro!: sim_pay_review)

lemma sim_core_tx: "(\<And>s r s'. m s = Inr (r, s') \<Longrightarrow> core_eq s s') \<Longrightarrow> tx_rel sim m"
  by (rule tx_relI) (auto intro: sim_core)

lemma sim_notified [sim_rules]: "tx_rel sim (markNotificationProcessed i)"
  by (rule sim_core_tx) (rule markNotificationProcessed_core)

lemma sim_failure [sim_rules]: "tx_rel sim (createReconciliationFailure f)"
  by (rule sim_core_tx) (rule createReconciliationFailure_core)

lemma sim_river [sim_rules]: "tx_rel sim (river_insert ins a t)"
  by (rule sim_core_tx) (rule river_insert_core)

lemma sim_enqueue [sim_rules]: "tx_rel sim (enqueue_tx jobs m a t)"
  by (rule sim_core_tx) (rule enqueue_tx_core)

text \<open>Statements that only read.\<close>

lemma sim_reads [sim_rules]:
  "tx_rel sim (q_GetPayment i)" "tx_rel sim (q_GetPaymentForUpdate i)" "tx_rel sim (q_GetOrder i)"
  "tx_rel sim (q_GetOrderForUpdate i)" "tx_rel sim (q_GetOrderByUserForUpdate i u)"
  "tx_rel sim (q_GetOrderForUpdateByPaymentID i)" "tx_rel sim (q_OrderIsExpired i)"
  "tx_rel sim (q_ListPaymentsByOrderForUpdate i)" "tx_rel sim (q_LockUserForReference i)"
  "tx_rel sim (q_GetOrderRefundByPaymentID i)" "tx_rel sim (q_GetOrderByUserIdempotency i k)"
  "tx_rel sim (q_GetReconciliationAction i k)" "tx_rel sim (q_HasUnresolvedProviderRefund i)"
  "tx_rel sim (q_GetOrderFulfillmentAction i k)"
  by (auto simp: tx_rel_def tx_simps sql_defs q_GetOrderByUserForUpdate_def sim.R_refl split: option.splits if_splits)

lemma sim_requireReconciliation [sim_rules]: "tx_rel sim (requirePaymentReconciliation i a b)"
  unfolding requirePaymentReconciliation_def by (intro sim_rules)

lemma sim_send_to_review [sim_rules]: "tx_rel sim (send_to_review args p a b c d)"
  unfolding send_to_review_def by (intro sim_rules)

lemma sim_MarkReconciliationRequired: "tx_rel sim (MarkReconciliationRequired f)"
  unfolding MarkReconciliationRequired_def by (intro sim_rules)

lemma sim_recover [sim_rules]: "tx_rel sim (recoverUnsupportedPayments ps)"
proof (induction ps)
  case Nil
  show ?case by (simp add: sim.rel_return)
next
  case (Cons p ps)
  then show ?case unfolding recoverUnsupportedPayments.simps by (intro sim_rules)
qed

lemma sim_stateAfterCAS [sim_rules]: "tx_rel sim (paymentStateAfterCAS i d)"
  unfolding paymentStateAfterCAS_def by (intro sim_rules)

lemma sim_ClaimPaymentPrepay: "tx_rel sim (ClaimPaymentPrepay i token d)"
  unfolding ClaimPaymentPrepay_def by (intro sim_rules)

lemma sim_FinalizePaymentPrepay: "tx_rel sim (FinalizePaymentPrepay i token a)"
  unfolding FinalizePaymentPrepay_def by (intro sim_rules)

lemma sim_RecordPaymentPrepayError: "tx_rel sim (RecordPaymentPrepayError i token e)"
  unfolding RecordPaymentPrepayError_def by (intro sim_rules)

lemma sim_MarkPayClosePending: "tx_rel sim (MarkPayClosePending jobs args)"
  unfolding MarkPayClosePending_def close_fence_def by (intro sim_rules)


section \<open>Cancelling\<close>

lemma set_order_set_order: "set_order i a (set_order i b L) = set_order i a L"
  by (simp add: set_order_def)

lemma restore_core:
  assumes "q_RestoreOrderItemStock i s = Inr (r, s')"
  shows "tb_orders s' = tb_orders s" "tb_payments s' = tb_payments s" "tb_refunds s' = tb_refunds s"
    "tb_items s' = tb_items s" "tb_current_timestamp s' = tb_current_timestamp s"
  using assms by (auto simp: q_RestoreOrderItemStock_def Let_def split: if_splits)

lemma abs_db_cong:
  "tb_orders s' = tb_orders s \<Longrightarrow> tb_payments s' = tb_payments s \<Longrightarrow> tb_refunds s' = tb_refunds s \<Longrightarrow>
   abs_db s' = abs_db s \<and> (db_ok s' \<longleftrightarrow> db_ok s)"
  by (simp add: abs_db_def db_ok_def)

lemma cancel_and_restore_effect:
  assumes "cancel_and_restore i s = Inr (u, s')"
  obtains r where "find_row ord_ID i (tb_orders s) = Some r" "ord_Status r = OrderStatusPendingPayment"
    "abs_db s' = set_order i ((abs_order r)\<lparr>ao_status := OrderStatusCancelled, ao_done := True\<rparr>) (abs_db s)"
    "db_ok s' \<longleftrightarrow> db_ok s" "tb_payments s' = tb_payments s"
proof -
  let ?f = "\<lambda>r. r\<lparr>ord_Status := OrderStatusCancelling, ord_UpdatedAt := tb_current_timestamp s\<rparr>"
  let ?g = "\<lambda>r. r\<lparr>ord_IsCompleted := True, ord_Status := OrderStatusCancelled, ord_UpdatedAt := tb_current_timestamp s\<rparr>"
  define s1 where "s1 = s\<lparr>tb_orders := upd_row ord_ID i ?f (tb_orders s)\<rparr>"
  from assms obtain r s2 where r: "find_row ord_ID i (tb_orders s) = Some r" "ord_Status r = OrderStatusPendingPayment"
    and s2: "q_RestoreOrderItemStock i s1 = Inr ((), s2)"
    and s': "s' = s2\<lparr>tb_orders := upd_row ord_ID i (\<lambda>r. r\<lparr>ord_IsCompleted := True, ord_Status := OrderStatusCancelled,
            ord_UpdatedAt := tb_current_timestamp s2\<rparr>) (tb_orders s2)\<rparr>"
    unfolding cancel_and_restore_def s1_def by (auto simp: tx_simps sql_defs)
  note c = restore_core [OF s2]
  have f1: "find_row ord_ID i (tb_orders s2) = Some (?f r)"
    using c r by (simp add: s1_def find_row_upd)
  have "abs_db s' = set_order i (abs_order (?g (?f r))) (abs_db s2)"
    unfolding s' using f1 c by (subst abs_upd_order [where r = "?f r"]) (auto simp: s1_def)
  moreover have "abs_db s2 = set_order i (abs_order (?f r)) (abs_db s)"
    using abs_db_cong [OF c(1-3)] abs_upd_order [of ?f i s r] r by (simp add: s1_def)
  ultimately have a: "abs_db s' = set_order i ((abs_order r)\<lparr>ao_status := OrderStatusCancelled, ao_done := True\<rparr>) (abs_db s)"
    by (simp add: set_order_set_order abs_order_def)
  have d: "db_ok s' \<longleftrightarrow> db_ok s"
    using abs_db_cong [OF c(1-3)] by (simp add: s' db_ok_upd_order s1_def)
  have "tb_payments s' = tb_payments s" using c by (simp add: s' s1_def)
  from that [OF r a d this] show thesis .
qed

lemma sim_cancel:
  assumes "cancel_and_restore i s = Inr (u, s')"
    and "db_ok s \<Longrightarrow> ledger_inv (abs_db s) \<Longrightarrow> quiet (abs_db s) i"
  shows "sim s s'"
  using assms(1)
proof (rule cancel_and_restore_effect)
  fix r assume "find_row ord_ID i (tb_orders s) = Some r" "ord_Status r = OrderStatusPendingPayment"
    "abs_db s' = set_order i ((abs_order r)\<lparr>ao_status := OrderStatusCancelled, ao_done := True\<rparr>) (abs_db s)"
    "db_ok s' \<longleftrightarrow> db_ok s"
  then show "sim s s'" using assms(2) by (intro sim_step1) (auto intro!: ledger_step.Cancel)
qed

section \<open>The payments of an order\<close>

text \<open>A list of payment rows that shows what the table holds for an order.\<close>

definition shows_order :: "db \<Rightarrow> int \<Rightarrow> payment list \<Rightarrow> bool" where
  "shows_order s oid ps \<longleftrightarrow>
     (\<forall>j q. find_row pay_ID j (tb_payments s) = Some q \<longrightarrow> pay_OrderID q = oid \<longrightarrow> q \<in> set ps)"

lemma list_shows_order:
  assumes "q_ListPaymentsByOrderForUpdate oid s = Inr (ps, s')"
  shows "s' = s" "shows_order s oid ps" "\<And>p. p \<in> set ps \<Longrightarrow> p \<in> set (tb_payments s) \<and> pay_OrderID p = oid"
    "pk pay_ID (tb_payments s) \<Longrightarrow> distinct (map pay_ID ps)"
proof -
  from assms have ps: "ps = payments_newest_first (filter (\<lambda>p. pay_OrderID p = oid) (tb_payments s))" and s: "s' = s"
    by (auto simp: tx_simps sql_defs)
  show "s' = s" by (rule s)
  show "shows_order s oid ps"
    by (auto simp: shows_order_def ps payments_newest_first_def dest: find_row_in)
  show "p \<in> set ps \<Longrightarrow> p \<in> set (tb_payments s) \<and> pay_OrderID p = oid" for p
    by (simp add: ps payments_newest_first_def)
  assume "pk pay_ID (tb_payments s)"
  then have "distinct (map pay_ID (filter (\<lambda>p. pay_OrderID p = oid) (tb_payments s)))"
    by (simp add: pk_def distinct_map_filter)
  then show "distinct (map pay_ID ps)"
    by (simp add: ps payments_newest_first_def distinct_map)
qed


text \<open>After the recovery, the returned rows are the rows of the table.\<close>

lemma recover_rows:
  assumes "recoverUnsupportedPayments ps s = Inr (ps', s')"
    and "\<And>p. p \<in> set ps \<Longrightarrow> find_row pay_ID (pay_ID p) (tb_payments s) = Some p"
    and "distinct (map pay_ID ps)"
  shows "map pay_ID ps' = map pay_ID ps \<and> map pay_OrderID ps' = map pay_OrderID ps \<and>
    (\<forall>p \<in> set ps'. find_row pay_ID (pay_ID p) (tb_payments s') = Some p) \<and>
    (\<forall>j. j \<notin> pay_ID ` set ps \<longrightarrow> find_row pay_ID j (tb_payments s') = find_row pay_ID j (tb_payments s)) \<and>
    tb_orders s' = tb_orders s"
  using assms
proof (induction ps arbitrary: ps' s)
  case Nil
  then show ?case by (simp add: tx_simps)
next
  case (Cons p ps)
  from Cons.prems(1) obtain p1 s1 ps1 where
    p1: "(if \<not> unsupportedPaymentNeverDispatched p then tx_return p
      else q_MarkPaymentFailed (pay_ID p) (Some ''unsupported payment method; prepay was never claimed'')) s = Inr (p1, s1)"
    and r: "recoverUnsupportedPayments ps s1 = Inr (ps1, s')" and ps': "ps' = p1 # ps1"
    by (auto simp: tx_simps)
  have fp: "find_row pay_ID (pay_ID p) (tb_payments s) = Some p" using Cons.prems(2) by simp
  have id1: "pay_ID p1 = pay_ID p" "pay_OrderID p1 = pay_OrderID p" and o1: "tb_orders s1 = tb_orders s"
    and f1: "\<And>j. find_row pay_ID j (tb_payments s1) =
      (if j = pay_ID p then Some p1 else find_row pay_ID j (tb_payments s))"
    using p1 fp by (auto simp: tx_simps sql_defs find_row_upd split: if_splits)
  have d: "distinct (map pay_ID ps)" "pay_ID p \<notin> pay_ID ` set ps" using Cons.prems(3) by auto
  have "find_row pay_ID (pay_ID q) (tb_payments s1) = Some q" if "q \<in> set ps" for q
    using that f1 d(2) Cons.prems(2) [of q] by (cases "pay_ID q = pay_ID p") (auto simp: rev_image_eqI)
  from Cons.IH [OF r this d(1)] have IH: "map pay_ID ps1 = map pay_ID ps" "map pay_OrderID ps1 = map pay_OrderID ps"
    "\<forall>p \<in> set ps1. find_row pay_ID (pay_ID p) (tb_payments s') = Some p"
    "\<forall>j. j \<notin> pay_ID ` set ps \<longrightarrow> find_row pay_ID j (tb_payments s') = find_row pay_ID j (tb_payments s1)"
    "tb_orders s' = tb_orders s1" by auto
  have "find_row pay_ID (pay_ID p1) (tb_payments s') = Some p1" using IH(4) d(2) id1 f1 by simp
  then show ?case using IH ps' id1 f1 o1 by auto
qed

lemma recover_shows_order:
  assumes "db_ok s" and l: "q_ListPaymentsByOrderForUpdate oid s = Inr (ps, s1)"
    and r: "recoverUnsupportedPayments ps s = Inr (ps', s')"
  shows "shows_order s' oid ps'" and "tb_orders s' = tb_orders s"
    and "\<And>p. p \<in> set ps' \<Longrightarrow> find_row pay_ID (pay_ID p) (tb_payments s') = Some p \<and> pay_OrderID p = oid"
proof -
  have k: "pk pay_ID (tb_payments s)" using assms(1) by (simp add: db_ok_def)
  have fp: "find_row pay_ID (pay_ID p) (tb_payments s) = Some p" if "p \<in> set ps" for p
    using list_shows_order(3) [OF l that] k find_row_mem by (auto simp: pk_def)
  note R = recover_rows [OF r fp list_shows_order(4) [OF l k]]
  show "shows_order s' oid ps'"
    unfolding shows_order_def
  proof (intro allI impI)
    fix j q assume q: "find_row pay_ID j (tb_payments s') = Some q" "pay_OrderID q = oid"
    show "q \<in> set ps'"
    proof (cases "j \<in> pay_ID ` set ps")
      case True
      then have "j \<in> set (map pay_ID ps')" using R by auto
      then obtain q' where "q' \<in> set ps'" "pay_ID q' = j" by auto
      then show ?thesis using R q by auto
    next
      case False
      then have "find_row pay_ID j (tb_payments s) = Some q" using R q by simp
      then have "q \<in> set ps" using list_shows_order(2) [OF l] q by (auto simp: shows_order_def)
      then show ?thesis using False q find_row_key by force
    qed
  qed
  show "tb_orders s' = tb_orders s" using R by simp
  fix p assume p: "p \<in> set ps'"
  have "pay_OrderID ` set ps' = pay_OrderID ` set ps" using R by (metis set_map)
  then have "pay_OrderID p \<in> pay_OrderID ` set ps" using p by auto
  then have "pay_OrderID p = oid" using list_shows_order(3) [OF l] by auto
  then show "find_row pay_ID (pay_ID p) (tb_payments s') = Some p \<and> pay_OrderID p = oid" using R p by simp
qed

lemma shows_order_quiet:
  assumes "shows_order s oid ps"
    and "\<And>p. p \<in> set ps \<Longrightarrow> \<not> payment_open (pay_Status p) \<and> \<not> money_taken (pay_Status p)"
  shows "quiet (abs_db s) oid"
  using assms by (auto simp: quiet_def shows_order_def)

lemma cancel_scan_Inr:
  "cancel_scan ps a = Inr False \<Longrightarrow> p \<in> set ps \<Longrightarrow>
     \<not> a \<and> \<not> payment_open (pay_Status p) \<and> \<not> money_taken (pay_Status p) \<and>
     \<not> ReconciliationNeedsReview (pay_ReconciliationStatus p)"
proof (induction ps a rule: cancel_scan.induct)
  case (2 q ps a)
  have no: "cancel_scan ps True \<noteq> Inr False" for ps
    by (induction ps) (auto split: payment_status.splits)
  from 2 show ?case using no by (cases "pay_Status q") (auto split: if_splits)
qed simp

lemma sim_CancelOrderByUser: "tx_rel sim (CancelOrderByUser i u)"
proof (rule tx_relI)
  fix s r s' assume a: "CancelOrderByUser i u s = Inr (r, s')"
  then consider "s' = s"
    | ps ps' s1 where "q_ListPaymentsByOrderForUpdate i s = Inr (ps, s)" "recoverUnsupportedPayments ps s = Inr (ps', s1)"
      "cancel_scan ps' False = Inr False" "cancel_and_restore i s1 = Inr ((), s')"
    unfolding CancelOrderByUser_def
    by (auto simp: tx_simps q_GetOrderByUserForUpdate_def dest: list_shows_order(1) split: if_splits option.splits)
       (metis list_shows_order(1))
  then show "sim s s'"
  proof cases
    case 1
    then show ?thesis by (simp add: sim.R_refl)
  next
    case 2
    have s1: "sim s s1" using tx_relD [OF sim_recover 2(2)] .
    have "quiet (abs_db s1) i" if "db_ok s"
      by (rule shows_order_quiet [OF recover_shows_order(1) [OF that 2(1,2)]]) (use cancel_scan_Inr [OF 2(3)] in auto)
    then have "sim s1 s'" if "db_ok s" using sim_cancel [OF 2(4)] that by blast
    then show ?thesis using s1 sim.R_trans by (metis sim_def)
  qed
qed


section \<open>Expiry\<close>

lemma pending_no_money:
  assumes "ledger_inv (abs_db s)" "find_row ord_ID i (tb_orders s) = Some r" "ord_Status r = OrderStatusPendingPayment"
    "find_row pay_ID j (tb_payments s) = Some q" "pay_OrderID q = i"
  shows "\<not> money_taken (pay_Status q)"
proof -
  have "order_ok (abs_db s) i (abs_order r)" using ledger_invD(1) [OF assms(1)] assms(2) by simp
  then show ?thesis using assms(3-) unfolding order_ok_def by (auto dest: spec [of _ j])
qed

lemma expire_settled_none:
  "(\<And>p. p \<in> set ps \<Longrightarrow> \<not> money_taken (pay_Status p)) \<Longrightarrow> expire_settled oid ps = tx_return None"
  by (induction oid ps rule: expire_settled.induct) (auto simp: money_taken_def split: payment_status.splits)

lemma sim_expire_close [sim_rules]: "tx_rel sim (expire_close jobs ps a)"
proof (induction jobs ps a rule: expire_close.induct)
  case (1 jobs a)
  show ?case by (simp add: sim.rel_return)
next
  case (2 jobs p ps a)
  show ?case unfolding expire_close.simps by (intro sim_rules 2) assumption+
qed

lemma expire_close_True: "expire_close jobs ps True s \<noteq> Inr (False, s')"
  by (induction jobs ps True arbitrary: s rule: expire_close.induct)
     (auto simp: tx_simps split: if_splits)

lemma expire_close_False:
  "expire_close jobs ps a s = Inr (False, s') \<Longrightarrow> s' = s \<and> (\<forall>p \<in> set ps. \<not> payment_open (pay_Status p))"
  by (induction jobs ps a rule: expire_close.induct)
     (auto simp: tx_simps expire_close_True active_open split: if_splits)

text \<open>What the order's row and its payments look like after the recovery.\<close>

lemma after_recover:
  assumes ok: "db_ok s" "ledger_inv (abs_db s)" and l: "q_ListPaymentsByOrderForUpdate oid s = Inr (ps, s)"
    and r: "recoverUnsupportedPayments ps s = Inr (ps', s1)"
    and o: "find_row ord_ID oid (tb_orders s) = Some r" "ord_Status r = OrderStatusPendingPayment"
  shows "db_ok s1" "ledger_inv (abs_db s1)" "find_row ord_ID oid (tb_orders s1) = Some r"
    "\<And>p. p \<in> set ps' \<Longrightarrow> \<not> money_taken (pay_Status p)"
proof -
  have "sim s s1" using tx_relD [OF sim_recover r] .
  then show 1: "db_ok s1" "ledger_inv (abs_db s1)" using ok money.inv_star unfolding sim_def by blast+
  note R = recover_shows_order [OF ok(1) l r]
  show 2: "find_row ord_ID oid (tb_orders s1) = Some r" using R(2) o by simp
  show "\<not> money_taken (pay_Status p)" if "p \<in> set ps'" for p
    using pending_no_money [OF 1(2) 2 o(2)] R(3) [OF that] by blast
qed

lemma sim_assume: "(db_ok s \<Longrightarrow> ledger_inv (abs_db s) \<Longrightarrow> sim s s') \<Longrightarrow> sim s s'"
  by (auto simp: sim_def)

text \<open>The end of the expiry: close what is active, or cancel.\<close>

lemma sim_expire_end:
  assumes c: "tx_bind (expire_close jobs ps False) (\<lambda>hasActive. if hasActive then tx_return False
      else tx_seq (cancel_and_restore oid) (tx_return False)) s = Inr (r, s')"
    and sh: "shows_order s oid ps" and no: "\<And>p. p \<in> set ps \<Longrightarrow> \<not> money_taken (pay_Status p)"
  shows "sim s s'"
proof -
  from c obtain h s2 where c: "expire_close jobs ps False s = Inr (h, s2)"
    and e: "(if h then tx_return False else tx_seq (cancel_and_restore oid) (tx_return False)) s2 = Inr (r, s')"
    by (auto simp: tx_simps)
  have s2: "sim s s2" using tx_relD [OF sim_expire_close c] .
  show ?thesis
  proof (cases h)
    case True
    then show ?thesis using e s2 by (auto simp: tx_simps)
  next
    case False
    then have "s2 = s" and op: "\<forall>p \<in> set ps. \<not> payment_open (pay_Status p)"
      using expire_close_False c by auto
    have "quiet (abs_db s) oid" by (rule shows_order_quiet [OF sh]) (use op no in auto)
    moreover have "cancel_and_restore oid s = Inr ((), s')"
      using e False \<open>s2 = s\<close> by (auto simp: tx_simps)
    ultimately show ?thesis using sim_cancel by blast
  qed
qed

lemma sim_ExpireOrder_body: "tx_rel sim (ExpireOrder_body jobs oid)"
proof (rule tx_relI, rule sim_assume)
  fix s r s' assume a: "ExpireOrder_body jobs oid s = Inr (r, s')" and ok: "db_ok s" "ledger_inv (abs_db s)"
  from a obtain ord where o: "find_row ord_ID oid (tb_orders s) = Some ord"
    by (auto simp: ExpireOrder_body_def tx_simps sql_defs)
  show "sim s s'"
  proof (cases "ord_Status ord = OrderStatusPendingPayment")
    case False
    then show ?thesis using a o by (auto simp: ExpireOrder_body_def tx_simps sql_defs sim.R_refl)
  next
    case True
    with a o obtain ps ps' s1 where l: "q_ListPaymentsByOrderForUpdate oid s = Inr (ps, s)"
      and rec: "recoverUnsupportedPayments ps s = Inr (ps', s1)"
      and k: "tx_bind (expire_settled oid ps') (\<lambda>settled.
        case settled of Some n \<Rightarrow> tx_return n
        | None \<Rightarrow> tx_bind (expire_close jobs ps' False) (\<lambda>hasActive.
            if hasActive then tx_return False
            else tx_seq (cancel_and_restore oid) (tx_return False))) s1 = Inr (r, s')"
      by (auto simp: ExpireOrder_body_def tx_simps q_OrderIsExpired_def q_GetOrderForUpdate_def
            q_ListPaymentsByOrderForUpdate_def)
    note R = after_recover [OF ok l rec o True]
    have "expire_settled oid ps' = tx_return None" using R(4) by (rule expire_settled_none)
    with k have "tx_bind (expire_close jobs ps' False) (\<lambda>hasActive. if hasActive then tx_return False
            else tx_seq (cancel_and_restore oid) (tx_return False)) s1 = Inr (r, s')"
      by (simp add: tx_bind_def tx_return_def)
    then have "sim s1 s'" using recover_shows_order(1) [OF ok(1) l rec] R(4) by (rule sim_expire_end)
    then show ?thesis using tx_relD [OF sim_recover rec] sim.R_trans by blast
  qed
qed

section \<open>Creating a payment\<close>

lemma reuse_scan_None:
  "reuse_scan m ps = Inr None \<Longrightarrow> p \<in> set ps \<Longrightarrow>
     \<not> payment_open (pay_Status p) \<and> \<not> money_taken (pay_Status p)"
  by (induction m ps rule: reuse_scan.induct) (auto simp: money_taken_def active_open split: if_splits)

lemma sim_open:
  assumes "q_CreatePaymentWithOutTradeNo a s = Inr (p, s')" and "cpp_Status a = PaymentStatusCreating"
    and "find_row ord_ID (cpp_OrderID a) (tb_orders s) = Some r" "ord_Status r = OrderStatusPendingPayment"
    and "cpp_UserID a = ord_UserID r" "cpp_AmountMinor a = ord_TotalAmountMinor r" "cpp_Currency a = ord_Currency r"
    and "quiet (abs_db s) (cpp_OrderID a)"
  shows "sim s s'"
proof -
  define q where "q = new_payment (next_id pay_ID (tb_payments s)) a (tb_current_timestamp s)"
  from assms(1) have s': "s' = s\<lparr>tb_payments := tb_payments s @ [q]\<rparr>"
    by (auto simp: q_CreatePaymentWithOutTradeNo_def Let_def q_def split: if_splits)
  have q: "pay_ID q = next_id pay_ID (tb_payments s)" "pay_OrderID q = cpp_OrderID a" "pay_UserID q = cpp_UserID a"
    "pay_AmountMinor q = cpp_AmountMinor a" "pay_Currency q = cpp_Currency a" "pay_Status q = cpp_Status a"
    "pay_ReconciliationStatus q = ReconciliationStatusNone" by (simp_all add: q_def new_payment_def)
  show ?thesis
  proof (rule sim_step1)
    show "db_ok s'" if "db_ok s" using that q by (simp add: s' db_ok_ins_payment)
    have "abs_db s' = set_pay (pay_ID q) (abs_pay q) (abs_db s)" using q by (simp add: s' abs_ins_payment)
    moreover have "ledger_step (abs_db s) (set_pay (pay_ID q) (abs_pay q) (abs_db s))"
      by (rule ledger_step.Open [where r = "abs_order r"])
         (use assms q find_row_next_id next_id_pos in auto)
    ultimately show "ledger_step (abs_db s) (abs_db s')" by simp
  qed
qed

lemma sim_CreatePayment_body: "tx_rel sim (CreatePayment_body args)"
proof (rule tx_relI, rule sim_assume)
  fix s r s' assume a: "CreatePayment_body args s = Inr (r, s')" and ok: "db_ok s" "ledger_inv (abs_db s)"
  let ?new = "\<lparr>cpp_OrderID = cya_OrderID args, cpp_UserID = cya_UserID args, cpp_MerchantID = cya_MerchantID args,
     cpp_AmountMinor = cya_Amount args, cpp_Currency = cya_Currency args, cpp_Status = PaymentStatusCreating,
     cpp_PayChannel = cya_Method args, cpp_OutTradeNo = cya_OutTradeNo args\<rparr>"
  from a obtain ord ps ps' s1 reuse where
    o: "find_row ord_ID (cya_OrderID args) (tb_orders s) = Some ord" "ord_Status ord = OrderStatusPendingPayment"
      "ord_UserID ord = cya_UserID args" "ord_TotalAmountMinor ord = cya_Amount args" "ord_Currency ord = cya_Currency args"
    and l: "q_ListPaymentsByOrderForUpdate (ord_ID ord) s = Inr (ps, s)"
    and rec: "recoverUnsupportedPayments ps s = Inr (ps', s1)"
    and sc: "reuse_scan (cya_Method args) ps' = Inr reuse"
    and e: "(case reuse of Some p \<Rightarrow> tx_return p | None \<Rightarrow> q_CreatePaymentWithOutTradeNo ?new) s1 = Inr (r, s')"
    by (auto simp: CreatePayment_body_def tx_simps q_OrderIsExpired_def q_GetOrderForUpdate_def
          q_ListPaymentsByOrderForUpdate_def split: if_splits)
  have id: "ord_ID ord = cya_OrderID args" using o(1) by (rule find_row_key)
  note l = l [unfolded id]
  note R = after_recover [OF ok l rec o(1,2)]
  have s1: "sim s s1" using tx_relD [OF sim_recover rec] .
  show "sim s s'"
  proof (cases reuse)
    case Some
    then show ?thesis using e s1 by (auto simp: tx_simps)
  next
    case None
    have "quiet (abs_db s1) (cya_OrderID args)"
      by (rule shows_order_quiet [OF recover_shows_order(1) [OF ok(1) l rec]]) (use reuse_scan_None sc None in auto)
    then have "sim s1 s'"
      by (intro sim_open [of ?new s1 r s' ord]) (use e None R(3) o in auto)
    then show ?thesis using s1 sim.R_trans by blast
  qed
qed


section \<open>Settlement\<close>

lemma inactive_scan_spec:
  assumes "inactive_scan cur ps (n, a, v) = (n', a', v')"
  shows "n' = n \<or> (\<exists>c \<in> set ps. pay_ID c \<noteq> cur \<and> pay_Status c = PaymentStatusSuccess)"
    and "\<not> a' \<Longrightarrow> \<not> a \<and> (\<forall>c \<in> set ps. pay_ID c \<noteq> cur \<longrightarrow> \<not> payment_open (pay_Status c))"
proof -
  have "(n' = n \<or> (\<exists>c \<in> set ps. pay_ID c \<noteq> cur \<and> pay_Status c = PaymentStatusSuccess)) \<and>
    (\<not> a' \<longrightarrow> \<not> a \<and> (\<forall>c \<in> set ps. pay_ID c \<noteq> cur \<longrightarrow> \<not> payment_open (pay_Status c)))"
    using assms
  proof (induction ps arbitrary: n a v)
    case (Cons c ps)
    have simps: "inactive_scan cur (c # ps) (n, a, v) = (if pay_ID c = cur then inactive_scan cur ps (n, a, v)
      else inactive_scan cur ps
        (if pay_Status c = PaymentStatusSuccess \<and> \<not> ReconciliationNeedsReview (pay_ReconciliationStatus c)
           then pay_ID c else n,
         a \<or> payment_open (pay_Status c), v \<or> ReconciliationNeedsReview (pay_ReconciliationStatus c)))"
      by (auto simp: Let_def active_open)
    show ?case
    proof (cases "pay_ID c = cur")
      case True
      then show ?thesis using Cons.prems Cons.IH [of n a v] unfolding simps by auto
    next
      case False
      then show ?thesis using Cons.prems unfolding simps by (auto split: if_splits dest!: Cons.IH)
    qed
  qed simp
  then show "n' = n \<or> (\<exists>c \<in> set ps. pay_ID c \<noteq> cur \<and> pay_Status c = PaymentStatusSuccess)"
    and "\<not> a' \<Longrightarrow> \<not> a \<and> (\<forall>c \<in> set ps. pay_ID c \<noteq> cur \<longrightarrow> \<not> payment_open (pay_Status c))" by auto
qed

text \<open>
  The order and its payments as a settlement sees them: the rows read at the beginning, in a
  state where at most the row of the current payment has changed since, to one that is not
  active.
\<close>

definition siblings :: "db \<Rightarrow> order \<Rightarrow> payment list \<Rightarrow> int \<Rightarrow> bool" where
  "siblings s ord ps cur \<longleftrightarrow> find_row ord_ID (ord_ID ord) (tb_orders s) = Some ord \<and>
     (\<forall>c \<in> set ps. pay_ID c \<noteq> cur \<longrightarrow> find_row pay_ID (pay_ID c) (tb_payments s) = Some c \<and> pay_OrderID c = ord_ID ord) \<and>
     (\<forall>j q. find_row pay_ID j (tb_payments s) = Some q \<longrightarrow> pay_OrderID q = ord_ID ord \<longrightarrow>
        j \<noteq> cur \<longrightarrow> q \<in> set ps)"

lemma sim_finalize:
  assumes f: "finalizeOrderAfterPaymentInactive ord ps cur s = Inr (b, s')"
    and sib: "siblings s ord ps (pay_ID cur)"
    and cur: "\<And>q. find_row pay_ID (pay_ID cur) (tb_payments s) = Some q \<Longrightarrow> \<not> payment_open (pay_Status q)"
  shows "sim s s'"
proof (rule sim_assume)
  assume ok: "db_ok s" "ledger_inv (abs_db s)"
  let ?scan = "inactive_scan (pay_ID cur) ps (0, False, ReconciliationNeedsReview (pay_ReconciliationStatus cur))"
  obtain n a v where sc: "?scan = (n, a, v)" by (cases ?scan) auto
  note S = inactive_scan_spec [OF sc]
  have o: "find_row ord_ID (ord_ID ord) (tb_orders s) = Some ord" using sib by (simp add: siblings_def)
  show ?thesis
  proof (cases "ord_Status ord = OrderStatusPendingPayment")
    case False
    then show ?thesis using f sc by (auto simp: finalizeOrderAfterPaymentInactive_def tx_simps sim.R_refl split: if_splits)
  next
    case True
    have nm: "\<not> money_taken (pay_Status q)"
      if "find_row pay_ID j (tb_payments s) = Some q" "pay_OrderID q = ord_ID ord" for j q
      using pending_no_money [OF ok(2) o True that] .
    have "n = 0"
    proof (rule ccontr)
      assume "n \<noteq> 0"
      then obtain c where c: "c \<in> set ps" "pay_ID c \<noteq> pay_ID cur" "pay_Status c = PaymentStatusSuccess"
        using S(1) by auto
      then have "find_row pay_ID (pay_ID c) (tb_payments s) = Some c" "pay_OrderID c = ord_ID ord"
        using sib by (auto simp: siblings_def)
      then have "\<not> money_taken (pay_Status c)" by (rule nm)
      then show False using c by simp
    qed
    then consider "s' = s" | "cancel_and_restore (ord_ID ord) s = Inr ((), s')" "\<not> a"
      using f sc True by (auto simp: finalizeOrderAfterPaymentInactive_def tx_simps split: if_splits)
    then show ?thesis
    proof cases
      case 1
      then show ?thesis by (simp add: sim.R_refl)
    next
      case 2
      have "quiet (abs_db s) (ord_ID ord)"
        unfolding quiet_def
      proof (intro allI impI)
        fix j q assume q: "lg_pay (abs_db s) j = Some q" "ap_order q = ord_ID ord"
        then obtain p where p: "find_row pay_ID j (tb_payments s) = Some p" "q = abs_pay p" "pay_OrderID p = ord_ID ord"
          by auto
        have "pay_ID p = j" using p(1) by (rule find_row_key)
        then have "\<not> payment_open (pay_Status p)"
          using p cur S(2) [OF 2(2)] sib by (cases "j = pay_ID cur") (auto simp: siblings_def)
        then show "\<not> payment_open (ap_status q) \<and> \<not> money_taken (ap_status q)" using p nm by simp
      qed
      then show ?thesis using sim_cancel [OF 2(1)] by blast
    qed
  qed
qed


lemma siblings_upd:
  assumes "\<And>r. pay_ID (f r) = pay_ID r" "siblings s ord ps cur"
  shows "siblings (s\<lparr>tb_payments := upd_row pay_ID cur f (tb_payments s)\<rparr>) ord ps cur"
  using assms by (auto simp: siblings_def find_row_upd)

text \<open>The context in which the switch over the trade state runs.\<close>

definition settling :: "db \<Rightarrow> order \<Rightarrow> payment list \<Rightarrow> payment \<Rightarrow> bool" where
  "settling s ord ps p \<longleftrightarrow> siblings s ord ps (pay_ID p) \<and>
     find_row pay_ID (pay_ID p) (tb_payments s) = Some p \<and> pay_OrderID p = ord_ID ord"

lemma sim_apply_closed:
  assumes "settling s ord ps p" and a: "apply_closed args ord ps p r s = Inr (u, s')"
  shows "sim s s'"
proof -
  have c: "siblings s ord ps (pay_ID p)" "find_row pay_ID (pay_ID p) (tb_payments s) = Some p"
    using assms(1) by (auto simp: settling_def)
  from a consider "core_eq s s'"
    | q s1 b s2 where "q_MarkPaymentClosed (pay_ID p) s = Inr (q, s1)"
      "finalizeOrderAfterPaymentInactive ord ps p s1 = Inr (b, s2)"
      "markNotificationProcessed (cpa_NotificationID args) s2 = Inr ((), s')"
    unfolding apply_closed_def
    by (auto simp: tx_simps q_GetOrderRefundByPaymentID_def paymentStateAfterCAS_def q_GetPayment_def
          dest: markNotificationProcessed_core split: if_splits option.splits)
  then show ?thesis
  proof cases
    case 1
    then show ?thesis by (rule sim_core)
  next
    case 2
    have "siblings s1 ord ps (pay_ID p)"
      using 2(1) c by (auto simp: tx_simps sql_defs intro!: siblings_upd)
    moreover have "\<And>q. find_row pay_ID (pay_ID p) (tb_payments s1) = Some q \<Longrightarrow> \<not> payment_open (pay_Status q)"
      using 2(1) c by (auto simp: tx_simps sql_defs find_row_upd)
    ultimately have "sim s1 s2" by (rule sim_finalize [OF 2(2)])
    then show ?thesis
      using tx_relD [OF sim_Closed 2(1)] tx_relD [OF sim_notified 2(3)] sim.R_trans by blast
  qed
qed

lemma sim_apply_pay_error:
  assumes "settling s ord ps p" and a: "apply_pay_error args ord ps p r s = Inr (u, s')"
  shows "sim s s'"
proof -
  let ?e = "text_of (qrs_TradeStateDesc r)"
  have c: "siblings s ord ps (pay_ID p)" "find_row pay_ID (pay_ID p) (tb_payments s) = Some p"
    using assms(1) by (auto simp: settling_def)
  from a obtain ch s1 s2 where ch: "tx_optional (q_MarkPaymentFailed (pay_ID p) ?e) s = Inr (ch, s1)"
    and f: "s2 = s1 \<or> (\<exists>b. finalizeOrderAfterPaymentInactive ord ps p s1 = Inr (b, s2))"
    and n: "markNotificationProcessed (cpa_NotificationID args) s2 = Inr ((), s')"
    unfolding apply_pay_error_def by (auto simp: tx_simps split: if_splits)
  have s1: "sim s s1" using tx_relD [OF sim.rel_optional [OF sim_Failed] ch] .
  have "siblings s1 ord ps (pay_ID p)"
    using ch c by (auto simp: tx_simps sql_defs intro!: siblings_upd split: option.splits)
  moreover have "\<And>q. find_row pay_ID (pay_ID p) (tb_payments s1) = Some q \<Longrightarrow> \<not> payment_open (pay_Status q)"
    using ch c by (auto simp: tx_simps sql_defs find_row_upd active_open split: option.splits)
  ultimately have "sim s1 s2" using f sim_finalize sim.R_refl by blast
  then show ?thesis using s1 tx_relD [OF sim_notified n] sim.R_trans by blast
qed

section \<open>A captured payment\<close>

lemma record_success_effect:
  assumes "q_RecordPaymentSuccess i tid s = Inr (q, s1)" and "find_row pay_ID i (tb_payments s) = Some p"
  shows "\<exists>f. \<not> money_taken (pay_Status p) \<and> s1 = s\<lparr>tb_payments := upd_row pay_ID i f (tb_payments s)\<rparr> \<and>
    (\<forall>r. pay_ID (f r) = pay_ID r) \<and> abs_pay (f p) = (abs_pay p)\<lparr>ap_status := PaymentStatusSuccess\<rparr>"
  using assms by (auto simp: q_RecordPaymentSuccess_def tx_simps abs_pay_def money_taken_def)

lemma require_effect:
  assumes "requirePaymentReconciliation i a b s = Inr (q, s')" and "find_row pay_ID i (tb_payments s) = Some p"
  shows "abs_db s' = set_pay i ((abs_pay p)\<lparr>ap_review := True\<rparr>) (abs_db s) \<and> (db_ok s' \<longleftrightarrow> db_ok s)"
proof -
  from assms consider g where "s' = s\<lparr>tb_payments := upd_row pay_ID i g (tb_payments s)\<rparr>"
      "\<And>r. pay_ID (g r) = pay_ID r" "abs_pay (g p) = (abs_pay p)\<lparr>ap_review := True\<rparr>"
    | "s' = s" "pay_ReconciliationStatus p = ReconciliationStatusRequired"
    by (auto simp: requirePaymentReconciliation_def tx_simps sql_defs abs_pay_def)
  then show ?thesis
  proof cases
    case 1
    then show ?thesis using abs_upd_payment [of g i s p] assms(2) by (simp add: db_ok_upd_payment)
  next
    case 2
    then have "(abs_pay p)\<lparr>ap_review := True\<rparr> = abs_pay p" by (simp add: abs_pay_def)
    then show ?thesis using 2 assms(2) by (auto simp: set_pay_def abs_db_def)
  qed
qed

lemma sim_capture:
  assumes "settling s ord ps p" and st: "ord_Status ord = OrderStatusPendingPayment"
    and r: "q_RecordPaymentSuccess (pay_ID p) tid s = Inr (q, s1)"
    and m: "q_MarkOrderPaid (pay_OrderID p) (Some (pay_ID p)) s1 = Inr (ord', s')"
  shows "sim s s'"
proof -
  have c: "find_row pay_ID (pay_ID p) (tb_payments s) = Some p" "pay_OrderID p = ord_ID ord"
    "find_row ord_ID (pay_OrderID p) (tb_orders s) = Some ord"
    using assms(1) by (auto simp: settling_def siblings_def)
  from record_success_effect [OF r c(1)] obtain f where nm: "\<not> money_taken (pay_Status p)"
    and s1: "s1 = s\<lparr>tb_payments := upd_row pay_ID (pay_ID p) f (tb_payments s)\<rparr>" and f: "\<And>r. pay_ID (f r) = pay_ID r"
      "abs_pay (f p) = (abs_pay p)\<lparr>ap_status := PaymentStatusSuccess\<rparr>"
    by blast
  have o1: "find_row ord_ID (pay_OrderID p) (tb_orders s1) = Some ord" using c s1 by simp
  define g where "g = (\<lambda>r :: order. r\<lparr>ord_Status := OrderStatusPaid, ord_PaidPaymentID := Some (pay_ID p),
            ord_UpdatedAt := tb_current_timestamp s1\<rparr>)"
  from m o1 have s': "s' = s1\<lparr>tb_orders := upd_row ord_ID (pay_OrderID p) g (tb_orders s1)\<rparr>"
    by (auto simp: tx_simps sql_defs g_def)
  have g: "\<And>r. ord_ID (g r) = ord_ID r"
    "abs_order (g ord) = (abs_order ord)\<lparr>ao_status := OrderStatusPaid, ao_paid := Some (pay_ID p)\<rparr>"
    by (simp_all add: g_def abs_order_def)
  have d: "db_ok s' \<longleftrightarrow> db_ok s"
    using db_ok_upd_order [of g "pay_OrderID p" s1, OF g(1)] db_ok_upd_payment [of f "pay_ID p" s, OF f(1)]
    by (simp add: s' s1)
  have "abs_db s' = set_order (pay_OrderID p) (abs_order (g ord))
      (set_pay (pay_ID p) (abs_pay (f p)) (abs_db s))"
    using abs_upd_order [of g "pay_OrderID p" s1 ord, OF g(1) o1] abs_upd_payment [of f "pay_ID p" s p, OF f(1) c(1)]
    by (simp add: s' s1)
  then show ?thesis
    using ledger_step.Capture [of "abs_db s" "pay_ID p" "abs_pay p" "abs_order ord"] c nm st f g d
    by (intro sim_step1) simp_all
qed

lemma sim_capture_late:
  assumes "settling s ord ps p" and st: "ord_Status ord \<noteq> OrderStatusPendingPayment"
    and r: "q_RecordPaymentSuccess (pay_ID p) tid s = Inr (q, s1)"
    and m: "requirePaymentReconciliation (pay_ID p) a b s1 = Inr (q', s')"
  shows "sim s s'"
proof -
  have c: "find_row pay_ID (pay_ID p) (tb_payments s) = Some p" "pay_OrderID p = ord_ID ord"
    "find_row ord_ID (pay_OrderID p) (tb_orders s) = Some ord"
    using assms(1) by (auto simp: settling_def siblings_def)
  from record_success_effect [OF r c(1)] obtain f where nm: "\<not> money_taken (pay_Status p)"
    and s1: "s1 = s\<lparr>tb_payments := upd_row pay_ID (pay_ID p) f (tb_payments s)\<rparr>" and f: "\<And>r. pay_ID (f r) = pay_ID r"
      "abs_pay (f p) = (abs_pay p)\<lparr>ap_status := PaymentStatusSuccess\<rparr>"
    by blast
  have p1: "find_row pay_ID (pay_ID p) (tb_payments s1) = Some (f p)" using c s1 f by (simp add: find_row_upd)
  have a1: "abs_db s1 = set_pay (pay_ID p) (abs_pay (f p)) (abs_db s)"
    using abs_upd_payment [of f "pay_ID p" s p, OF f(1) c(1)] by (simp add: s1)
  have "abs_db s' = set_pay (pay_ID p) ((abs_pay p)\<lparr>ap_status := PaymentStatusSuccess, ap_review := True\<rparr>) (abs_db s)"
    "db_ok s' \<longleftrightarrow> db_ok s"
    using require_effect [OF m p1] a1 f by (simp_all add: s1 set_pay_def db_ok_upd_payment)
  then show ?thesis
    using ledger_step.CaptureLate [of "abs_db s" "pay_ID p" "abs_pay p" "abs_order ord"] c nm st
    by (intro sim_step1) simp_all
qed

text \<open>A funded order has another payment that took the money.\<close>

lemma funded_otherSuccess:
  assumes "ledger_inv (abs_db s)" and se: "settling s ord ps p" and "order_funded (ord_Status ord)"
    and nm: "\<not> money_taken (pay_Status p)"
  shows "otherSuccess ps (pay_ID p)"
proof -
  have c: "find_row pay_ID (pay_ID p) (tb_payments s) = Some p" "pay_OrderID p = ord_ID ord"
    "find_row ord_ID (pay_OrderID p) (tb_orders s) = Some ord"
    using se by (auto simp: settling_def siblings_def)
  have "order_ok (abs_db s) (pay_OrderID p) (abs_order ord)" using ledger_invD(1) [OF assms(1)] c by simp
  then obtain j w where w: "ord_PaidPaymentID ord = Some j" "find_row pay_ID j (tb_payments s) = Some w"
    "pay_OrderID w = pay_OrderID p" "pay_Status w = PaymentStatusSuccess"
    using assms(3) unfolding order_ok_def order_funded_def by (cases "ord_PaidPaymentID ord") auto
  then have "j \<noteq> pay_ID p" "pay_ID w = j" using c nm find_row_key by (auto simp: money_taken_def)
  moreover have "w \<in> set ps" using w se c \<open>j \<noteq> pay_ID p\<close> by (auto simp: settling_def siblings_def)
  ultimately show ?thesis using w unfolding otherSuccess_def by blast
qed

lemma pending_no_otherSuccess:
  assumes "ledger_inv (abs_db s)" and se: "settling s ord ps p" and st: "ord_Status ord = OrderStatusPendingPayment"
  shows "\<not> otherSuccess ps (pay_ID p)"
proof
  assume "otherSuccess ps (pay_ID p)"
  then obtain x where x: "x \<in> set ps" "pay_ID x \<noteq> pay_ID p" "money_taken (pay_Status x)"
    by (auto simp: otherSuccess_def money_taken_def)
  then have "find_row pay_ID (pay_ID x) (tb_payments s) = Some x" "pay_OrderID x = ord_ID ord"
    and "find_row ord_ID (ord_ID ord) (tb_orders s) = Some ord"
    using se by (auto simp: settling_def siblings_def)
  then show False using pending_no_money [OF assms(1) _ st] x by blast
qed

text \<open>The decision, once the success is recorded: it pays a pending order, and everything else
  goes to review.\<close>

lemma decision_cases:
  assumes "ledger_inv (abs_db s)" "settling s ord ps p" "\<not> money_taken (pay_Status p)"
    and d: "DecidePaymentSuccess (ord_Status ord) (otherSuccess ps (pay_ID p)) = Inr dec"
  shows "ord_Status ord = OrderStatusPendingPayment \<and> dec_MarkOrderPaid dec \<and> dec_ReconciliationReason dec = '''' \<or>
    ord_Status ord \<noteq> OrderStatusPendingPayment \<and> \<not> dec_MarkOrderPaid dec \<and> dec_ReconciliationReason dec \<noteq> ''''"
proof (cases "otherSuccess ps (pay_ID p)")
  case True
  then show ?thesis using d pending_no_otherSuccess [OF assms(1,2)] by (auto simp: DecidePaymentSuccess_def)
next
  case False
  then have "\<not> order_funded (ord_Status ord)" using funded_otherSuccess assms by blast
  then show ?thesis using d False
    by (auto simp: DecidePaymentSuccess_def order_funded_def split: order_status.splits)
qed

lemma sim_apply_success:
  assumes se: "settling s ord ps p" and a: "apply_success args ord ps p prov r s = Inr (u, s')"
  shows "sim s s'"
proof (rule sim_assume)
  assume ok: "db_ok s" "ledger_inv (abs_db s)"
  have c: "find_row pay_ID (pay_ID p) (tb_payments s) = Some p" using se by (simp add: settling_def)
  show ?thesis
  proof (cases "qrs_TransactionID r = '''' \<or> money_taken (pay_Status p)")
    case True
    then have "tx_rel sim (apply_success args ord ps p prov r)"
      unfolding apply_success_def
      by (auto simp: money_taken_def sim.rel_throw sim_notified sim_send_to_review)
    from tx_relD [OF this a] show ?thesis .
  next
    case False
    with a obtain q s1 dec where 2: "q_RecordPaymentSuccess (pay_ID p) (Some (qrs_TransactionID r)) s = Inr (q, s1)"
      "DecidePaymentSuccess (ord_Status ord) (otherSuccess ps (pay_ID p)) = Inr dec"
      "apply_decision args p prov dec s1 = Inr (u, s')"
      by (auto simp: apply_success_def money_taken_def tx_simps)
    have "\<not> money_taken (pay_Status p)" using record_success_effect [OF 2(1) c] by blast
    from decision_cases [OF ok(2) se this 2(2)] show ?thesis
    proof
      assume d: "ord_Status ord = OrderStatusPendingPayment \<and> dec_MarkOrderPaid dec \<and> dec_ReconciliationReason dec = ''''"
      then obtain o1 s2 where m: "q_MarkOrderPaid (pay_OrderID p) (Some (pay_ID p)) s1 = Inr (o1, s2)"
        and n: "markNotificationProcessed (cpa_NotificationID args) s2 = Inr (u, s')"
        using 2(3) by (auto simp: tx_simps apply_decision_def)
      have "sim s s2" using sim_capture [OF se _ 2(1) m] d by simp
      then show ?thesis using tx_relD [OF sim_notified n] sim.R_trans by blast
    next
      assume d: "ord_Status ord \<noteq> OrderStatusPendingPayment \<and> \<not> dec_MarkOrderPaid dec \<and> dec_ReconciliationReason dec \<noteq> ''''"
      then obtain q' s2 s3 where m: "requirePaymentReconciliation (pay_ID p) (dec_ReconciliationReason dec) (dec_ReconciliationDetail dec) s1 = Inr (q', s2)"
        and f: "createReconciliationFailure (apply_failure args p prov (dec_ReconciliationReason dec) (dec_ReconciliationDetail dec)) s2 = Inr ((), s3)"
        and n: "markNotificationProcessed (cpa_NotificationID args) s3 = Inr (u, s')"
        using 2(3) by (auto simp: tx_simps apply_decision_def send_to_review_def)
      have "sim s s2" using sim_capture_late [OF se _ 2(1) m] d by simp
      then show ?thesis using tx_relD [OF sim_failure f] tx_relD [OF sim_notified n] sim.R_trans by blast
    qed
  qed
qed

section \<open>Refunds\<close>

lemma set_commute:
  "set_pay i p (set_order j r L) = set_order j r (set_pay i p L)"
  "set_refund i f (set_order j r L) = set_order j r (set_refund i f L)"
  "set_pay i p (set_refund j f L) = set_refund j f (set_pay i p L)"
  by (simp_all add: set_defs)

lemma refund_row:
  assumes "db_ok s" "refund_of i (tb_refunds s) = Some f"
  shows "find_row rfd_ID (rfd_ID f) (tb_refunds s) = Some f" "rfd_PaymentID f = Some i"
proof -
  have "f \<in> set (tb_refunds s)" "rfd_PaymentID f = Some i"
    using assms refund_of_Some by (auto simp: db_ok_def)
  then show "find_row rfd_ID (rfd_ID f) (tb_refunds s) = Some f" "rfd_PaymentID f = Some i"
    using assms(1) find_row_mem by (auto simp: db_ok_def pk_def)
qed

lemma sim_refund_move:
  assumes f: "\<And>r. rfd_ID (f r) = rfd_ID r" "\<And>r. rfd_PaymentID (f r) = rfd_PaymentID r"
    and r: "find_row rfd_ID i (tb_refunds s) = Some r" "rfd_Status r \<noteq> PaymentRefundStatusSuccess"
    and a: "abs_refund (f r) = (abs_refund r)\<lparr>ar_status := st\<rparr>" "st \<noteq> PaymentRefundStatusSuccess"
  shows "sim s (s\<lparr>tb_refunds := upd_row rfd_ID i f (tb_refunds s)\<rparr>)"
proof (rule sim_step1)
  show "db_ok (s\<lparr>tb_refunds := upd_row rfd_ID i f (tb_refunds s)\<rparr>)" if "db_ok s"
    using that f by (simp add: db_ok_upd_refund)
  assume ok: "db_ok s"
  have "r \<in> set (tb_refunds s)" using r(1) by (rule find_row_in)
  then obtain pid where pid: "rfd_PaymentID r = Some pid" using ok by (force simp: db_ok_def)
  have "refund_of pid (tb_refunds s) = Some r"
    using ok pid \<open>r \<in> set (tb_refunds s)\<close> refund_of_Some by (simp add: db_ok_def)
  then show "ledger_step (abs_db s) (abs_db (s\<lparr>tb_refunds := upd_row rfd_ID i f (tb_refunds s)\<rparr>))"
    using abs_upd_refund [of s f i r pid, OF ok f r(1) pid] a r
    by (auto intro!: ledger_step.MoveRefund)
qed

lemma sim_RetryRefund [sim_rules]: "tx_rel sim (q_RetryOrderRefund i)"
  by (rule tx_relI) (auto simp: tx_simps sql_defs abs_refund_def intro!: sim_refund_move)

lemma sim_RecordRefundError [sim_rules]: "tx_rel sim (q_RecordOrderRefundError d e i)"
  by (rule tx_relI) (cases d; auto simp: tx_simps sql_defs abs_refund_def intro!: sim_refund_move)

lemma sim_RecordPaymentRefundError: "tx_rel sim (RecordPaymentRefundError i e d)"
  unfolding RecordPaymentRefundError_def by (intro sim_rules)

text \<open>The last two statements of a settlement.\<close>

lemma refund_success_effect:
  assumes ok: "db_ok s" and p: "find_row pay_ID i (tb_payments s) = Some p" "pay_Status p = PaymentStatusSuccess"
    and f: "refund_of i (tb_refunds s) = Some f"
    and m: "q_MarkOrderRefundSuccess (rfd_ID f) i s = Inr (x, s1)" and c: "q_ConfirmPaymentRefunded i s1 = Inr (y, s')"
  shows "db_ok s'" "abs_db s' = set_refund i ((abs_refund f)\<lparr>ar_status := PaymentRefundStatusSuccess\<rparr>)
            (set_pay i ((abs_pay p)\<lparr>ap_status := PaymentStatusRefunded\<rparr>) (abs_db s))"
proof -
  note fr = refund_row [OF ok f]
  define h where "h = (\<lambda>r :: order_refund. r\<lparr>rfd_Status := PaymentRefundStatusSuccess, rfd_LastError := '''',
            rfd_UpdatedAt := tb_current_timestamp s\<rparr>)"
  define g where "g = (\<lambda>p :: payment. p\<lparr>pay_Status := PaymentStatusRefunded, pay_UpdatedAt := tb_current_timestamp s1\<rparr>)"
  have h: "\<And>r. rfd_ID (h r) = rfd_ID r" "\<And>r. rfd_PaymentID (h r) = rfd_PaymentID r"
    "abs_refund (h f) = (abs_refund f)\<lparr>ar_status := PaymentRefundStatusSuccess\<rparr>"
    by (simp_all add: h_def abs_refund_def)
  have g: "\<And>r. pay_ID (g r) = pay_ID r" "abs_pay (g p) = (abs_pay p)\<lparr>ap_status := PaymentStatusRefunded\<rparr>"
    by (simp_all add: g_def abs_pay_def)
  have s1: "s1 = s\<lparr>tb_refunds := upd_row rfd_ID (rfd_ID f) h (tb_refunds s)\<rparr>"
    using m fr by (auto simp: tx_simps sql_defs h_def)
  have p1: "find_row pay_ID i (tb_payments s1) = Some p" using p by (simp add: s1)
  have s': "s' = s1\<lparr>tb_payments := upd_row pay_ID i g (tb_payments s1)\<rparr>"
    using c p1 by (auto simp: tx_simps sql_defs g_def)
  have "db_ok s1" using ok db_ok_upd_refund [of h _ s, OF h(1,2)] by (simp add: s1)
  then show "db_ok s'" using db_ok_upd_payment [of g i s1, OF g(1)] by (simp add: s')
  have "abs_db s' = set_pay i (abs_pay (g p)) (abs_db s1)"
    using abs_upd_payment [of g i s1 p, OF g(1) p1] by (simp add: s')
  moreover have "abs_db s1 = set_refund i (abs_refund (h f)) (abs_db s)"
    using abs_upd_refund [of s h "rfd_ID f" f i, OF ok h(1,2) fr] by (simp add: s1)
  ultimately show "abs_db s' = set_refund i ((abs_refund f)\<lparr>ar_status := PaymentRefundStatusSuccess\<rparr>)
            (set_pay i ((abs_pay p)\<lparr>ap_status := PaymentStatusRefunded\<rparr>) (abs_db s))"
    using g h by (simp add: set_commute)
qed

lemma sim_settle:
  assumes o: "find_row ord_ID (ord_ID ord) (tb_orders s) = Some ord"
    and p: "find_row pay_ID (pay_ID p) (tb_payments s) = Some p" and f: "refund_of (pay_ID p) (tb_refunds s) = Some f"
    and a: "settlePaymentRefund ord p f s = Inr (u, s')"
  shows "sim s s'"
proof (rule sim_assume)
  assume ok: "db_ok s" "ledger_inv (abs_db s)"
  from a consider "s' = s"
    | s1 s2 x y where "pay_OrderID p = ord_ID ord" "pay_Status p = PaymentStatusSuccess"
      "DecideRefundPurpose (ord_Status ord) (int8_Int64 (ord_PaidPaymentID ord)) (pay_ID p) = Inr (rfd_Purpose f)"
      "if rfd_Purpose f = RefundOrderCancel
       then \<exists>z s0. q_MarkOrderRefunded (ord_ID ord) s = Inr (z, s0) \<and> q_RestoreOrderItemStock (ord_ID ord) s0 = Inr ((), s1)
       else s1 = s"
      "q_MarkOrderRefundSuccess (rfd_ID f) (pay_ID p) s1 = Inr (x, s2)" "q_ConfirmPaymentRefunded (pay_ID p) s2 = Inr (y, s')"
    unfolding settlePaymentRefund_def
    by (auto simp: tx_simps Let_def refund_decision_cases split: if_splits)
  then show ?thesis
  proof cases
    case 1
    then show ?thesis by (simp add: sim.R_refl)
  next
    case 2
    show ?thesis
    proof (cases "rfd_Purpose f = RefundOrderCancel")
      case False
      then have s1: "s1 = s" using 2(4) by simp
      have "int8_Int64 (ord_PaidPaymentID ord) \<noteq> pay_ID p"
        using 2(3) False by (auto simp: DecideRefundPurpose_def split: if_splits)
      then have "ord_PaidPaymentID ord \<noteq> Some (pay_ID p)" by auto
      then have "ledger_step (abs_db s) (set_refund (pay_ID p) ((abs_refund f)\<lparr>ar_status := PaymentRefundStatusSuccess\<rparr>)
          (set_pay (pay_ID p) ((abs_pay p)\<lparr>ap_status := PaymentStatusRefunded\<rparr>) (abs_db s)))"
        using 2(1,2) o p f by (intro ledger_step.RefundSurplus [where r = "abs_order ord"]) auto
      then show ?thesis
        using refund_success_effect [OF ok(1) p 2(2) f 2(5,6) [unfolded s1]] by (intro sim_step1) simp_all
    next
      case True
      then obtain z s0 where z: "q_MarkOrderRefunded (ord_ID ord) s = Inr (z, s0)"
        "q_RestoreOrderItemStock (ord_ID ord) s0 = Inr ((), s1)" using 2(4) by auto
      have paid: "ord_Status ord = OrderStatusPaid" "ord_PaidPaymentID ord = Some (pay_ID p)"
        using 2(3) True by (auto simp: DecideRefundPurpose_def int8_Int64_def split: if_splits option.splits)
      define g where "g = (\<lambda>r :: order. r\<lparr>ord_IsCompleted := True, ord_Status := OrderStatusRefunded,
            ord_UpdatedAt := tb_current_timestamp s\<rparr>)"
      have g: "\<And>r. ord_ID (g r) = ord_ID r"
        "abs_order (g ord) = (abs_order ord)\<lparr>ao_status := OrderStatusRefunded, ao_done := True\<rparr>"
        by (simp_all add: g_def abs_order_def)
      have s0: "s0 = s\<lparr>tb_orders := upd_row ord_ID (ord_ID ord) g (tb_orders s)\<rparr>"
        using z(1) o by (auto simp: tx_simps sql_defs g_def)
      note c = restore_core [OF z(2)]
      have a1: "abs_db s1 = set_order (ord_ID ord) (abs_order (g ord)) (abs_db s)" and ok1: "db_ok s1"
        using abs_db_cong [OF c(1-3)] abs_upd_order [of g "ord_ID ord" s ord, OF g(1) o]
          db_ok_upd_order [of g "ord_ID ord" s, OF g(1)] ok(1) by (simp_all add: s0)
      have p1: "find_row pay_ID (pay_ID p) (tb_payments s1) = Some p" "refund_of (pay_ID p) (tb_refunds s1) = Some f"
        using p f c by (simp_all add: s0)
      have "ledger_step (abs_db s) (set_order (ord_ID ord) (abs_order (g ord))
          (set_refund (pay_ID p) ((abs_refund f)\<lparr>ar_status := PaymentRefundStatusSuccess\<rparr>)
          (set_pay (pay_ID p) ((abs_pay p)\<lparr>ap_status := PaymentStatusRefunded\<rparr>) (abs_db s))))"
        using ledger_step.RefundOrder [of "abs_db s" "pay_ID p" "abs_pay p" "abs_refund f" "abs_order ord"]
          2(1,2) o p f paid g by simp
      then show ?thesis
        using refund_success_effect [OF ok1 p1(1) 2(2) p1(2) 2(5,6)] a1
        by (intro sim_step1) (simp_all add: set_commute)
    qed
  qed
qed

lemma get_order_of_payment:
  "q_GetOrderForUpdateByPaymentID pid s = Inr (ord, s') \<Longrightarrow> s' = s \<and>
     (\<exists>p. find_row pay_ID pid (tb_payments s) = Some p \<and> find_row ord_ID (pay_OrderID p) (tb_orders s) = Some ord \<and>
          ord_ID ord = pay_OrderID p)"
  by (auto simp: tx_simps sql_defs dest: find_row_key)

lemma get_refund: "q_GetOrderRefundByPaymentID pid s = Inr (f, s') \<longleftrightarrow> s' = s \<and> refund_of pid (tb_refunds s) = Some f"
  by (auto simp: tx_simps sql_defs refund_of_def)

lemma get_refund_none: "q_GetOrderRefundByPaymentID pid s = Inl ErrNoRows \<longleftrightarrow> refund_of pid (tb_refunds s) = None"
  by (auto simp: tx_simps sql_defs refund_of_def)

lemma sim_ApplyPaymentRefund: "tx_rel sim (ApplyPaymentRefund pid rid)"
proof (rule tx_relI)
  fix s u s' assume "ApplyPaymentRefund pid rid s = Inr (u, s')"
  then obtain ord p f x where "q_GetOrderForUpdateByPaymentID pid s = Inr (ord, s)"
    and p: "find_row pay_ID pid (tb_payments s) = Some p" and f: "refund_of pid (tb_refunds s) = Some f"
    and a: "settlePaymentRefund ord p f s = Inr (x, s')"
    by (auto simp: ApplyPaymentRefund_def tx_simps get_refund q_GetPaymentForUpdate_def
        dest: get_order_of_payment split: if_splits)
  moreover from this have "find_row ord_ID (ord_ID ord) (tb_orders s) = Some ord"
    using get_order_of_payment [of pid s ord s] by auto
  moreover have "pay_ID p = pid" using p by (rule find_row_key)
  ultimately show "sim s s'" using sim_settle [of ord s p f x s'] by simp
qed

lemma sim_request_refund:
  assumes p: "find_row pay_ID (pay_ID p) (tb_payments s) = Some p" "pay_Status p = PaymentStatusSuccess"
    and none: "refund_of (pay_ID p) (tb_refunds s) = None" and a: "q_CreateOrderRefund p no purpose s = Inr (f, s')"
  shows "sim s s'"
proof -
  define g where "g = new_refund (next_id rfd_ID (tb_refunds s)) (tb_current_timestamp s) p no purpose"
  have s': "s' = s\<lparr>tb_refunds := tb_refunds s @ [g]\<rparr>"
    using a by (auto simp: q_CreateOrderRefund_def tx_simps g_def split: if_splits)
  have g: "rfd_ID g = next_id rfd_ID (tb_refunds s)" "rfd_PaymentID g = Some (pay_ID p)"
    "rfd_OrderID g = pay_OrderID p" "rfd_UserID g = pay_UserID p" "rfd_TotalAmountMinor g = pay_AmountMinor p"
    "rfd_RefundAmountMinor g = pay_AmountMinor p" "rfd_Currency g = pay_Currency p"
    "rfd_Status g = PaymentRefundStatusPending" by (simp_all add: g_def new_refund_def)
  have "ledger_step (abs_db s) (set_refund (pay_ID p) (abs_refund g) (abs_db s))"
    using p none g by (intro ledger_step.RequestRefund [where p = "abs_pay p"]) auto
  then show ?thesis
    using abs_ins_refund [OF g(2) none] db_ok_ins_refund [OF _ g(1,2) none] by (intro sim_step1) (simp_all add: s')
qed

lemma sim_PreparePaymentRefund: "tx_rel sim (PreparePaymentRefund pid no)"
proof (rule tx_relI)
  fix s u s' assume a: "PreparePaymentRefund pid no s = Inr (u, s')"
  then obtain p where p: "find_row pay_ID pid (tb_payments s) = Some p"
    by (auto simp: PreparePaymentRefund_def tx_simps q_GetPayment_def)
  have id: "pay_ID p = pid" using p by (rule find_row_key)
  show "sim s s'"
  proof (cases "refund_of pid (tb_refunds s)")
    case None
    then obtain purpose f where "pay_Status p = PaymentStatusSuccess" "q_CreateOrderRefund p no purpose s = Inr (f, s')"
      using a p by (auto simp: PreparePaymentRefund_def tx_simps q_GetPayment_def q_GetPaymentForUpdate_def
          q_LockUserForReference_def get_refund get_refund_none dest!: get_order_of_payment split: option.splits if_splits)
    then show ?thesis using sim_request_refund [of p s no purpose f s'] p None id by simp
  next
    case (Some f)
    then have "s' = s \<or> (\<exists>x. q_RetryOrderRefund (rfd_ID f) s = Inr (x, s'))"
      using a p by (auto simp: PreparePaymentRefund_def tx_simps q_GetPayment_def q_GetPaymentForUpdate_def
          q_LockUserForReference_def get_refund get_refund_none dest!: get_order_of_payment split: option.splits if_splits)
    then show ?thesis using tx_relD [OF sim_RetryRefund] sim.R_refl by metis
  qed
qed

section \<open>Applying a provider result\<close>

lemma sim_apply_refund:
  assumes se: "settling s ord ps p" and a: "apply_refund args ord p prov s = Inr (u, s')"
  shows "sim s s'"
proof (cases "pay_Status p = PaymentStatusSuccess \<and> refund_of (pay_ID p) (tb_refunds s) \<noteq> None")
  case True
  then obtain f where f: "refund_of (pay_ID p) (tb_refunds s) = Some f" by auto
  with a True obtain x s1 where "settlePaymentRefund ord p f s = Inr (x, s1)"
    and n: "markNotificationProcessed (cpa_NotificationID args) s1 = Inr (u, s')"
    by (auto simp: apply_refund_def tx_simps get_refund get_refund_none split: option.splits)
  moreover have "find_row ord_ID (ord_ID ord) (tb_orders s) = Some ord" "find_row pay_ID (pay_ID p) (tb_payments s) = Some p"
    using se by (auto simp: settling_def siblings_def)
  ultimately have "sim s s1" using f by (intro sim_settle)
  then show ?thesis using tx_relD [OF sim_notified n] sim.R_trans by blast
next
  case False
  then consider "markNotificationProcessed (cpa_NotificationID args) s = Inr (u, s')"
    | a b c where "send_to_review args p prov a b c s = Inr (u, s')"
    using a by (auto simp: apply_refund_def tx_simps get_refund get_refund_none split: if_splits option.splits)
  then show ?thesis using tx_relD [OF sim_notified] tx_relD [OF sim_send_to_review] by cases blast+
qed

lemma sim_apply_trade_state:
  assumes "settling s ord ps p" and "apply_trade_state args ord ps p prov r s = Inr (u, s')"
  shows "sim s s'"
  using assms(2) sim_apply_success [OF assms(1)] sim_apply_closed [OF assms(1)] sim_apply_pay_error [OF assms(1)]
    sim_apply_refund [OF assms(1)] tx_relD [OF sim_send_to_review]
  unfolding apply_trade_state_def by (cases "qrs_TradeState r") auto

lemma listed_settling:
  assumes "db_ok s" "find_row ord_ID oid (tb_orders s) = Some ord"
    and l: "q_ListPaymentsByOrderForUpdate oid s = Inr (ps, s1)" and p: "p \<in> set ps"
  shows "settling s ord ps p"
proof -
  have id: "ord_ID ord = oid" using assms(2) by (rule find_row_key)
  have "find_row pay_ID (pay_ID q) (tb_payments s) = Some q \<and> pay_OrderID q = oid" if "q \<in> set ps" for q
    using list_shows_order(3) [OF l that] assms(1) find_row_mem by (auto simp: db_ok_def pk_def)
  then show ?thesis
    using assms(2) id p list_shows_order(2) [OF l] by (auto simp: settling_def siblings_def shows_order_def)
qed

lemma sim_apply_locked:
  assumes se: "settling s ord ps p" and a: "apply_locked args result ord ps p now s = Inr (u, s')"
  shows "sim s s'"
proof -
  from a obtain m where "send_to_review args p (pm_Provider m) (reconciliationReasonForMismatch (validateProviderResult p m result))
        (validateProviderResult p m result) (validateProviderResult p m result) s = Inr (u, s') \<or>
      (\<exists>r. apply_trade_state args ord ps p (pm_Provider m) r s = Inr (u, s'))"
    unfolding apply_locked_def by (auto simp: tx_simps Let_def split: if_splits option.splits)
  then show ?thesis using sim_apply_trade_state [OF se] tx_relD [OF sim_send_to_review] by metis
qed

lemma sim_ApplyPayQuery_body: "tx_rel sim (ApplyPayQuery_body args result)"
proof (rule tx_relI, rule sim_assume)
  fix s u s' assume a: "ApplyPayQuery_body args result s = Inr (u, s')" and ok: "db_ok s"
  from a obtain snap ord ps p where sn: "find_row pay_ID (cpa_PaymentID args) (tb_payments s) = Some snap"
    and o: "find_row ord_ID (pay_OrderID snap) (tb_orders s) = Some ord"
    and l: "q_ListPaymentsByOrderForUpdate (pay_OrderID snap) s = Inr (ps, s)"
    and p: "List.find (\<lambda>c. pay_ID c = cpa_PaymentID args) ps = Some p"
    and e: "apply_locked args result ord ps p (tb_time_Now s) s = Inr (u, s')"
    unfolding ApplyPayQuery_body_def
    by (auto simp: tx_simps q_GetPayment_def q_GetOrderForUpdate_def q_ListPaymentsByOrderForUpdate_def
        split: option.splits)
  have "p \<in> set ps" using p by (metis find_Some_iff nth_mem)
  then have "settling s ord ps p" using listed_settling [OF ok o l] by simp
  then show "sim s s'" using e by (rule sim_apply_locked)
qed

section \<open>Reconciliation\<close>

lemma sim_resolve:
  assumes a: "q_ResolvePaymentReconciliation (pay_ID p) v s = Inr (x, s')"
    and p: "find_row pay_ID (pay_ID p) (tb_payments s) = Some p" and o: "find_row ord_ID (pay_OrderID p) (tb_orders s) = Some ord"
    and c: "pay_Status p = PaymentStatusSuccess \<Longrightarrow> ord_PaidPaymentID ord = Some (pay_ID p)"
  shows "sim s s'"
proof -
  define f where "f = (\<lambda>p :: payment. p\<lparr>pay_ReconciliationStatus := ReconciliationStatusResolved,
      pay_ReconciliationVersion := pay_ReconciliationVersion p + 1, pay_UpdatedAt := tb_clock_timestamp s\<rparr>)"
  have f: "\<And>r. pay_ID (f r) = pay_ID r" "abs_pay (f p) = (abs_pay p)\<lparr>ap_review := False\<rparr>"
    by (simp_all add: f_def abs_pay_def)
  obtain t where s': "s' = s\<lparr>tb_payments := upd_row pay_ID (pay_ID p) f (tb_payments s)\<rparr>\<lparr>tb_failures := t\<rparr>"
    using a by (auto simp: q_ResolvePaymentReconciliation_def tx_simps f_def)
  have "abs_db s' = set_pay (pay_ID p) (abs_pay (f p)) (abs_db s) \<and> (db_ok s' \<longleftrightarrow> db_ok s)"
    using abs_upd_payment [of f "pay_ID p" s p, OF f(1) p] db_ok_upd_payment [of f "pay_ID p" s, OF f(1)]
    by (simp add: s' abs_db_def db_ok_def)
  then show ?thesis
    using ledger_step.Resolve [of "abs_db s" "pay_ID p" "abs_pay p" "abs_order ord"] p o c f
    by (intro sim_step1) simp_all
qed

lemma sim_resolve_case:
  assumes p: "find_row pay_ID (pay_ID p) (tb_payments s) = Some p" and o: "find_row ord_ID (pay_OrderID p) (tb_orders s) = Some ord"
    and ok: "db_ok s" and a: "resolve_case ord ps p input s = Inr (x, s')"
  shows "sim s s'"
proof -
  have ro: "canResolvePaymentReconciliation q ord' rf s1 = Inr (b, s2) \<Longrightarrow> s2 = s1" for q ord' rf s1 b s2
    by (auto simp: canResolvePaymentReconciliation_def tx_simps sql_defs split: if_splits)
  have lr: "load_refund pid s1 = Inr (b, s2) \<Longrightarrow> s2 = s1" for pid s1 b s2
    by (auto simp: load_refund_def tx_simps sql_defs split: option.splits)
  have pr: "primary_settled ord ps p s1 = Inr (b, s2) \<Longrightarrow> s2 = s1" for s1 b s2
    by (auto simp: primary_settled_def tx_simps split: option.splits if_splits dest!: lr ro)
  from a obtain rf s1 s2 s3 y where l: "load_refund (pay_ID p) s = Inr (rf, s1)"
    and c1: "canResolvePaymentReconciliation p ord rf s1 = Inr (True, s2)"
    and pr1: "primary_settled ord ps p s2 = Inr (True, s3)"
    and r1: "q_ResolvePaymentReconciliation (pay_ID p) (rin_ExpectedVersion input) s3 = Inr (y, s')"
    unfolding resolve_case_def by (auto simp: tx_simps)
  have eqs: "s1 = s" "s2 = s" "s3 = s" using lr [OF l] ro [OF c1] pr [OF pr1] by simp_all
  note c = c1 [unfolded eqs] and r = r1 [unfolded eqs]
  have "CanResolveReconciliation (Some (toBizPayment p)) ord rf"
    using c by (auto simp: canResolvePaymentReconciliation_def tx_simps split: if_splits)
  then have paid: "int8_Int64 (ord_PaidPaymentID ord) = pay_ID p" if "pay_Status p = PaymentStatusSuccess"
    using CanResolve_success(1) that by (force simp: toBizPayment_def)
  have "p \<in> set (tb_payments s)" using p by (rule find_row_in)
  then have "0 < pay_ID p" using ok by (auto simp: db_ok_def pk_def)
  then have "pay_Status p = PaymentStatusSuccess \<Longrightarrow> ord_PaidPaymentID ord = Some (pay_ID p)"
    using paid by (cases "ord_PaidPaymentID ord") auto
  then show ?thesis using sim_resolve [OF r p o] by blast
qed

lemma sim_retry_case: "tx_rel sim (retry_case jobs ord p input)"
  unfolding retry_case_def by (intro sim_rules)

lemma sim_reconcile_locked:
  assumes pr: "find_row pay_ID (pay_ID p) (tb_payments s) = Some p" "find_row ord_ID (pay_OrderID p) (tb_orders s) = Some ord"
    and ok: "db_ok s" and a: "reconcile_locked jobs actor input ord ps p s = Inr (u, s')"
  shows "sim s s'"
proof -
  have ins: "tx_rel sim (q_CreateReconciliationAction x)" for x
    by (rule sim_core_tx) (auto simp: q_CreateReconciliationAction_def tx_simps core_eq_def split: if_splits)
  have act: "tx_rel sim (\<lambda>s. (case x of (changed, jobID) \<Rightarrow> q_CreateReconciliationAction (k changed jobID)) s)" for x k
    using ins by (cases x) simp
  define m where "m = (if rin_Action input = ''retry'' then retry_case jobs ord p input else resolve_case ord ps p input)"
  from a consider "s' = s"
    | x s1 k where "m s = Inr (x, s1)"
      "(case x of (changed, jobID) \<Rightarrow> q_CreateReconciliationAction (k changed jobID)) s1 = Inr (u, s')"
    unfolding reconcile_locked_def q_GetReconciliationAction_def m_def [symmetric]
    by (auto simp: tx_simps split: option.splits if_splits)
  then show ?thesis
  proof cases
    case 1
    then show ?thesis by (simp add: sim.R_refl)
  next
    case 2
    have "sim s s1"
      using 2(1) tx_relD [OF sim_retry_case, of jobs ord p input s x s1] sim_resolve_case [OF pr ok, of ps input x s1]
      by (cases "rin_Action input = ''retry''") (simp_all add: m_def)
    then show ?thesis using tx_relD [OF act 2(2)] sim.R_trans by blast
  qed
qed

lemma sim_ApplyReconciliation_body: "tx_rel sim (ApplyReconciliation_body jobs actor input)"
proof (rule tx_relI, rule sim_assume)
  fix s u s' assume a: "ApplyReconciliation_body jobs actor input s = Inr (u, s')" and ok: "db_ok s"
  from a obtain snap ord ps p where sn: "find_row pay_ID (rin_PaymentID input) (tb_payments s) = Some snap"
    and o: "find_row ord_ID (pay_OrderID snap) (tb_orders s) = Some ord"
    and l: "q_ListPaymentsByOrderForUpdate (ord_ID ord) s = Inr (ps, s)"
    and p: "List.find (\<lambda>c. pay_ID c = rin_PaymentID input) ps = Some p"
    and e: "reconcile_locked jobs actor input ord ps p s = Inr (u, s')"
    unfolding ApplyReconciliation_body_def
    by (auto simp: tx_simps sql_defs split: option.splits)
  have oid: "ord_ID ord = pay_OrderID snap" using o by (rule find_row_key)
  have "p \<in> set ps" using p by (metis find_Some_iff nth_mem)
  then have "settling s ord ps p" using listed_settling [OF ok o] l oid by simp
  then show "sim s s'" using sim_reconcile_locked [OF _ _ ok e] by (auto simp: settling_def siblings_def)
qed

lemma sim_ApplyReconciliation: "tx_rel sim (ApplyReconciliation jobs actor input)"
  unfolding ApplyReconciliation_def by (intro sim_rules sim_ApplyReconciliation_body)

section \<open>Fulfilment\<close>

lemma sim_order_step:
  assumes "\<And>r. ord_ID (f r) = ord_ID r" "find_row ord_ID i (tb_orders s) = Some r"
    and "ledger_step (abs_db s) (set_order i (abs_order (f r)) (abs_db s))"
  shows "sim s (s\<lparr>tb_orders := upd_row ord_ID i f (tb_orders s)\<rparr>)"
  using assms by (intro sim_step1) (simp_all add: db_ok_upd_order abs_upd_order)

lemma sim_Shipped [sim_rules]: "tx_rel sim (q_MarkOrderShipped i)"
proof (rule tx_relI)
  fix s x s' assume a: "q_MarkOrderShipped i s = Inr (x, s')"
  let ?f = "\<lambda>r. r\<lparr>ord_Status := OrderStatusShipped, ord_UpdatedAt := tb_clock_timestamp s\<rparr>"
  from a obtain r where r: "find_row ord_ID i (tb_orders s) = Some r" "ord_Status r = OrderStatusPaid"
    and s': "s' = s\<lparr>tb_orders := upd_row ord_ID i ?f (tb_orders s)\<rparr>" by (auto simp: tx_simps sql_defs)
  have eq: "abs_order (?f r) = (abs_order r)\<lparr>ao_status := OrderStatusShipped\<rparr>" by (simp add: abs_order_def)
  have "ledger_step (abs_db s) (set_order i (abs_order (?f r)) (abs_db s))"
    unfolding eq using r by (intro ledger_step.Ship) auto
  then show "sim s s'" unfolding s' using r by (intro sim_order_step [where r = r]) auto
qed

lemma sim_Completed [sim_rules]: "tx_rel sim (q_MarkOrderCompleted i)"
proof (rule tx_relI)
  fix s x s' assume a: "q_MarkOrderCompleted i s = Inr (x, s')"
  let ?f = "\<lambda>r. r\<lparr>ord_Status := OrderStatusCompleted, ord_IsCompleted := True, ord_UpdatedAt := tb_clock_timestamp s\<rparr>"
  from a obtain r where r: "find_row ord_ID i (tb_orders s) = Some r" "ord_Status r = OrderStatusShipped"
    and s': "s' = s\<lparr>tb_orders := upd_row ord_ID i ?f (tb_orders s)\<rparr>" by (auto simp: tx_simps sql_defs)
  have eq: "abs_order (?f r) = (abs_order r)\<lparr>ao_status := OrderStatusCompleted, ao_done := True\<rparr>" by (simp add: abs_order_def)
  have "ledger_step (abs_db s) (set_order i (abs_order (?f r)) (abs_db s))"
    unfolding eq using r by (intro ledger_step.Complete) auto
  then show "sim s s'" unfolding s' using r by (intro sim_order_step [where r = r]) auto
qed

lemma sim_FulfillmentAction [sim_rules]: "tx_rel sim (q_CreateOrderFulfillmentAction a)"
  by (rule sim_core_tx) (auto simp: q_CreateOrderFulfillmentAction_def tx_simps core_eq_def split: if_splits)

lemma sim_ApplyFulfillment: "tx_rel sim (ApplyFulfillment actor input)"
  unfolding ApplyFulfillment_def by (intro sim_rules)

section \<open>Checkout\<close>

lemma sim_price_items [sim_rules]: "tx_rel sim (price_items L items t)"
proof (induction items arbitrary: t)
  case Nil
  show ?case by (simp add: sim.rel_return)
next
  case (Cons item items)
  have "tx_rel sim (q_GetProductForOrder i)" for i
    by (rule sim.rel_readonly) (auto simp: q_GetProductForOrder_def split: option.splits if_splits)
  then show ?case unfolding price_items.simps by (intro sim_rules Cons)
qed

lemma sim_products: "sim s (s\<lparr>tb_products := t\<rparr>)"
  by (simp add: sim_def abs_db_def db_ok_def)

lemma sim_Decr [sim_rules]: "tx_rel sim (q_DecrProductStock i n)"
  by (rule tx_relI) (auto simp: q_DecrProductStock_def check_stock_def tx_simps intro: sim_products)

lemma sim_CreateOrderItem [sim_rules]: "tx_rel sim (q_CreateOrderItem a b c d e f)"
  by (rule tx_relI) (auto simp: tx_simps sql_defs sim_def abs_db_def db_ok_def)

lemma sim_reserve_items [sim_rules]: "tx_rel sim (reserve_items oid snaps)"
proof (induction snaps)
  case Nil
  show ?case by (simp add: sim.rel_return)
next
  case (Cons a snaps)
  then show ?case unfolding reserve_items.simps by (intro sim_rules)
qed

lemma sim_CreateOrder [sim_rules]: "tx_rel sim (q_CreateOrder a)"
proof (rule tx_relI)
  fix s r s' assume a: "q_CreateOrder a s = Inr (r, s')"
  then have s': "s' = s\<lparr>tb_orders := tb_orders s @ [r]\<rparr>" and id: "ord_ID r = next_id ord_ID (tb_orders s)"
    and r: "0 < ord_TotalAmountMinor r" "ord_Status r = OrderStatusPendingPayment" "ord_PaidPaymentID r = None"
      "\<not> ord_IsCompleted r"
    by (auto simp: q_CreateOrder_def Let_def split: if_splits)
  have "ledger_step (abs_db s) (set_order (ord_ID r) (abs_order r) (abs_db s))"
    using r id find_row_next_id by (intro ledger_step.Place) auto
  then show "sim s s'"
    using abs_ins_order [OF id] db_ok_ins_order [OF _ id] by (intro sim_step1) (simp_all add: s')
qed

lemma sim_place_order: "tx_rel sim (place_order L jobs args items)"
  unfolding place_order_def q_GetShippingAddressForSnapshot_def by (intro sim_rules)

lemma sim_replay_order: "tx_rel sim (replay_order args ord)"
  unfolding replay_order_def loadItems_def q_ListOrderItems_def by (intro sim_rules)

lemma sim_CreateOrder_body: "tx_rel sim (CreateOrder_body L jobs args)"
  unfolding CreateOrder_body_def q_LockOrderIdempotency_def
  by (intro sim_rules sim_place_order sim_replay_order)

end
