(* ===== verification/Stock.thy ===== *)
theory Stock
  imports Notification
begin

text \<open>
  Stock adjustments (app/mall/internal/biz/stock.go and app/mall/internal/data/stock\_repository.go):
  an operator changes a product's stock by a signed amount under an idempotency key. Room is
  kept for every open order whose items may still come back.
\<close>

record StockAdjustmentInput =
  sai_ProductID :: int
  sai_ActorID :: int
  sai_Delta :: int
  sai_Reason :: string
  sai_IdempotencyKey :: string

definition StockAdjustment_Validate :: "StockAdjustmentInput \<Rightarrow> error + unit" where
  "StockAdjustment_Validate input =
     (if sai_ProductID input \<le> 0 \<or> sai_ActorID input \<le> 0 \<or> sai_Delta input = 0 \<or>
         TrimSpace (sai_Reason input) = '''' \<or> RuneCountInString (sai_Reason input) > 255 \<or>
         go_len (sai_IdempotencyKey input) < 8 \<or> go_len (sai_IdempotencyKey input) > 64 \<or>
         TrimSpace (sai_IdempotencyKey input) \<noteq> sai_IdempotencyKey input
      then Inl (BadRequest ''STOCK_ADJUSTMENT_INVALID'') else Inr ())"

text \<open>\<open>balance\<close> is an \<open>int64\<close> sum of two \<open>int32\<close> values, so it is exact.\<close>

definition repo_AdjustStock :: "StockAdjustmentInput \<Rightarrow> (db, stock_adjustment) tx" where
  "repo_AdjustStock input =
     tx_seq (tx_lift (StockAdjustment_Validate input))
     (tx_bind (tx_on_no_rows (q_GetProductForOrder (sai_ProductID input)) (tx_throw ErrProductNotFound)) (\<lambda>product.
      tx_bind (tx_optional (q_GetStockAdjustment (sai_ProductID input) (sai_IdempotencyKey input))) (\<lambda>found.
      case found of
        Some adjustment \<Rightarrow>
          if adj_ActorID adjustment \<noteq> sai_ActorID input \<or> adj_Delta adjustment \<noteq> sai_Delta input \<or>
             adj_Reason adjustment \<noteq> sai_Reason input
          then tx_throw ErrIdempotencyKeyConflict else tx_return adjustment
      | None \<Rightarrow>
          tx_bind (q_GetRestorableProductStock (sai_ProductID input)) (\<lambda>reserved.
          let balance = prd_Stock product + sai_Delta input in
          if balance < 0 \<or> reserved > MaxInt32 - balance then tx_throw (Conflict ''STOCK_ADJUSTMENT_CONFLICT'')
          else tx_bind (q_AdjustProductStock (sai_ProductID input) (sai_Delta input)) (\<lambda>updated.
            q_CreateStockAdjustment (sai_ProductID input) (sai_ActorID input) (sai_Delta input)
              (sai_Reason input) (sai_IdempotencyKey input) (prd_Stock updated))))))"

definition uc_AdjustStock :: "StockAdjustmentInput \<Rightarrow> (db, stock_adjustment) tx" where
  "uc_AdjustStock input = tx_seq (tx_lift (StockAdjustment_Validate input)) (repo_AdjustStock input)"

end
