(* ===== verification/Catalog.thy ===== *)
theory Catalog
  imports Stock
begin

text \<open>
  The catalogue (app/mall/internal/biz/mall.go, app/mall/internal/data/product.go and
  category.go): products and categories. A product's stock is set when it is created and
  changes afterwards only by checkout, restoration and stock adjustments; the update
  statements of this theory leave it alone. A category is deleted only when no product and no
  subcategory refers to it.

  \<open>NewFromString\<close> is the decimal package's parser, an argument like the rest of the package.
\<close>

section \<open>Statements\<close>

record CreateProductParams =
  cpr_CategoryID :: int
  cpr_Name :: string
  cpr_PriceMinor :: int
  cpr_Discount :: rat
  cpr_Stock :: int
  cpr_Status :: int
  cpr_CoverImage :: "MediaInfo list"
  cpr_MediaAssets :: "MediaInfo list"
  cpr_Description :: "string option"

text \<open>The CHECK constraints and the foreign key of the products table.\<close>

definition check_product :: "product \<Rightarrow> (db, unit) tx" where
  "check_product p = tx_seq (tx_fail_if (\<not> (0 < prd_Discount p \<and> prd_Discount p \<le> 1)) (CheckViolation ''products_discount_check''))
     (tx_seq (tx_fail_if (prd_Status p \<noteq> 0 \<and> prd_Status p \<noteq> 1) (CheckViolation ''products_status_check''))
     (tx_seq (tx_fail_if (prd_PriceMinor p < 0) (CheckViolation ''products_price_minor_check''))
     (tx_bind (tx_read (\<lambda>s. find_row cat_ID (prd_CategoryID p) (tb_categories s) = None)) (\<lambda>missing.
      tx_fail_if missing (ForeignKeyViolation ''fk_product_category'')))))"

definition q_CreateProduct :: "CreateProductParams \<Rightarrow> (db, product) tx" where
  "q_CreateProduct a = tx_bind (tx_read (\<lambda>s. next_id prd_ID (tb_products s))) (\<lambda>i.
     let p = \<lparr>prd_ID = i, prd_CategoryID = cpr_CategoryID a, prd_Name = cpr_Name a,
              prd_PriceMinor = cpr_PriceMinor a, prd_Discount = cpr_Discount a, prd_Stock = cpr_Stock a,
              prd_Status = cpr_Status a, prd_CoverImage = cpr_CoverImage a, prd_MediaAssets = cpr_MediaAssets a,
              prd_Description = cpr_Description a, prd_DeletedAt = None\<rparr> in
     tx_seq (check_stock p) (tx_seq (check_product p) (sql_insert tb_products put_products p)))"

definition q_UpdateProduct ::
    "int \<Rightarrow> int \<Rightarrow> string \<Rightarrow> int \<Rightarrow> rat \<Rightarrow> MediaInfo list \<Rightarrow> MediaInfo list \<Rightarrow> string option \<Rightarrow> (db, product) tx" where
  "q_UpdateProduct i categoryID name priceMinor discount cover media desc = tx_bind
     (sql_update tb_products put_products prd_ID i (\<lambda>p. prd_DeletedAt p = None)
       (\<lambda>p. p\<lparr>prd_CategoryID := categoryID, prd_Name := name, prd_PriceMinor := priceMinor,
              prd_Discount := discount, prd_CoverImage := cover, prd_MediaAssets := media,
              prd_Description := desc\<rparr>))
     (\<lambda>p. tx_seq (check_product p) (tx_return p))"

definition q_UpdateProductStatus :: "int \<Rightarrow> int \<Rightarrow> (db, product) tx" where
  "q_UpdateProductStatus i status = tx_bind
     (sql_update tb_products put_products prd_ID i (\<lambda>p. prd_DeletedAt p = None) (\<lambda>p. p\<lparr>prd_Status := status\<rparr>))
     (\<lambda>p. tx_seq (check_product p) (tx_return p))"

definition q_SoftDeleteProduct :: "int \<Rightarrow> (db, unit) tx" where
  "q_SoftDeleteProduct i = (\<lambda>s. tx_seq (sql_exec tb_products put_products prd_ID i (\<lambda>p. True)
     (\<lambda>p. p\<lparr>prd_DeletedAt := Some (tb_current_timestamp s)\<rparr>)) (tx_return ()) s)"

definition q_CountProducts :: "(db, int) tx" where
  "q_CountProducts = tx_read (\<lambda>s. go_len (filter (\<lambda>p. prd_DeletedAt p = None) (tb_products s)))"

definition q_CountProductsByCategory :: "int \<Rightarrow> (db, int) tx" where
  "q_CountProductsByCategory c = tx_read (\<lambda>s.
     go_len (filter (\<lambda>p. prd_CategoryID p = c \<and> prd_Status p = 1 \<and> prd_DeletedAt p = None) (tb_products s)))"

definition q_ListProducts :: "int \<Rightarrow> int \<Rightarrow> (db, product list) tx" where
  "q_ListProducts lmt off = tx_read (\<lambda>s.
     sql_page prd_ID lmt off (filter (\<lambda>p. prd_DeletedAt p = None) (tb_products s)))"

definition q_ListProductsByCategory :: "int \<Rightarrow> int \<Rightarrow> int \<Rightarrow> (db, product list) tx" where
  "q_ListProductsByCategory c lmt off = tx_read (\<lambda>s. sql_page prd_ID lmt off
     (filter (\<lambda>p. prd_CategoryID p = c \<and> prd_Status p = 1 \<and> prd_DeletedAt p = None) (tb_products s)))"

definition q_CreateCategory :: "int option \<Rightarrow> string \<Rightarrow> int \<Rightarrow> (db, category) tx" where
  "q_CreateCategory parent name sortOrder = (\<lambda>s.
     if (case parent of None \<Rightarrow> False | Some i \<Rightarrow> find_row cat_ID i (tb_categories s) = None)
       then Inl (ForeignKeyViolation ''fk_category_parent'')
     else tx_bind (nextval ''categories'') (\<lambda>i. sql_insert tb_categories put_categories
       \<lparr>cat_ID = i, cat_ParentID = parent, cat_Name = name, cat_SortOrder = sortOrder\<rparr>) s)"

definition q_GetCategory :: "int \<Rightarrow> (db, category) tx" where
  "q_GetCategory i = sql_get tb_categories cat_ID i"

definition q_UpdateCategory :: "int \<Rightarrow> string \<Rightarrow> int \<Rightarrow> (db, category) tx" where
  "q_UpdateCategory i name sortOrder = sql_update tb_categories put_categories cat_ID i (\<lambda>c. True)
     (\<lambda>c. c\<lparr>cat_Name := name, cat_SortOrder := sortOrder\<rparr>)"

definition q_CountCategoryProductReferences :: "int \<Rightarrow> (db, int) tx" where
  "q_CountCategoryProductReferences i = tx_read (\<lambda>s. go_len (filter (\<lambda>p. prd_CategoryID p = i) (tb_products s)))"

definition q_CountSubCategories :: "int option \<Rightarrow> (db, int) tx" where
  "q_CountSubCategories i = tx_read (\<lambda>s.
     go_len (filter (\<lambda>c. i \<noteq> None \<and> cat_ParentID c = i) (tb_categories s)))"

text \<open>\<open>DELETE ... WHERE id = $1 AND NOT EXISTS (child) AND NOT EXISTS (product)\<close>: the number of
  rows deleted.\<close>

definition q_DeleteCategoryIfUnused :: "int \<Rightarrow> (db, int) tx" where
  "q_DeleteCategoryIfUnused i = (\<lambda>s.
     if find_row cat_ID i (tb_categories s) \<noteq> None \<and>
        \<not> (\<exists>c \<in> set (tb_categories s). cat_ParentID c = Some i) \<and>
        \<not> (\<exists>p \<in> set (tb_products s). prd_CategoryID p = i)
     then Inr (1, s\<lparr>tb_categories := filter (\<lambda>c. cat_ID c \<noteq> i) (tb_categories s)\<rparr>)
     else Inr (0, s))"

definition page_asc :: "int \<Rightarrow> int \<Rightarrow> category list \<Rightarrow> category list" where
  "page_asc lmt off t = take (nat lmt) (drop (nat off) (sort_key (\<lambda>c. (cat_SortOrder c, cat_ID c)) t))"

definition q_ListSubCategories :: "int option \<Rightarrow> int \<Rightarrow> int \<Rightarrow> (db, category list) tx" where
  "q_ListSubCategories parent lmt off = tx_read (\<lambda>s.
     page_asc lmt off (filter (\<lambda>c. parent \<noteq> None \<and> cat_ParentID c = parent) (tb_categories s)))"

definition q_ListTopCategories :: "int \<Rightarrow> int \<Rightarrow> (db, category list) tx" where
  "q_ListTopCategories lmt off = tx_read (\<lambda>s.
     page_asc lmt off (filter (\<lambda>c. cat_ParentID c = None) (tb_categories s)))"

section \<open>Products\<close>

record Product =
  bpr_ID :: int
  bpr_CategoryID :: int
  bpr_Name :: string
  bpr_Price :: rat
  bpr_Discount :: rat
  bpr_Stock :: int
  bpr_Status :: int
  bpr_CoverImage :: "MediaInfo list"
  bpr_MediaAssets :: "MediaInfo list"
  bpr_Description :: string
  bpr_DeletedAt :: "int option"

definition toBizProduct :: "decimal_lib \<Rightarrow> product \<Rightarrow> Product" where
  "toBizProduct L p = \<lparr>bpr_ID = prd_ID p, bpr_CategoryID = prd_CategoryID p, bpr_Name = prd_Name p,
     bpr_Price = dec_Shift L (of_int (prd_PriceMinor p)) (- 2), bpr_Discount = prd_Discount p,
     bpr_Stock = prd_Stock p, bpr_Status = prd_Status p, bpr_CoverImage = prd_CoverImage p,
     bpr_MediaAssets = prd_MediaAssets p, bpr_Description = text_String (prd_Description p),
     bpr_DeletedAt = prd_DeletedAt p\<rparr>"

definition mediaFromCoverURL :: "string \<Rightarrow> MediaInfo list" where
  "mediaFromCoverURL url = (if url = '''' then []
     else [\<lparr>med_OssURL = url, med_BucketName = '''', med_ObjectKey = '''', med_ContentType = '''', med_Size = 0\<rparr>])"

definition repo_CreateProduct ::
    "decimal_lib \<Rightarrow> int \<Rightarrow> string \<Rightarrow> rat \<Rightarrow> rat \<Rightarrow> int \<Rightarrow> int \<Rightarrow> MediaInfo list \<Rightarrow> MediaInfo list \<Rightarrow> string \<Rightarrow>
     (db, Product) tx" where
  "repo_CreateProduct L categoryID name price discount stock status cover media desc =
     tx_seq (tx_lift (ProductDiscount L discount))
     (tx_seq (tx_lift (ValidateProductStatus status))
     (tx_bind (tx_lift (ProductPriceMinor L price)) (\<lambda>minor.
      tx_bind (q_CreateProduct \<lparr>cpr_CategoryID = categoryID, cpr_Name = name, cpr_PriceMinor = minor,
        cpr_Discount = discount, cpr_Stock = stock, cpr_Status = status, cpr_CoverImage = cover,
        cpr_MediaAssets = media, cpr_Description = text_of desc\<rparr>) (\<lambda>p. tx_return (toBizProduct L p)))))"

definition repo_UpdateProduct ::
    "decimal_lib \<Rightarrow> int \<Rightarrow> int \<Rightarrow> string \<Rightarrow> rat \<Rightarrow> rat \<Rightarrow> MediaInfo list \<Rightarrow> MediaInfo list \<Rightarrow> string \<Rightarrow>
     (db, Product) tx" where
  "repo_UpdateProduct L i categoryID name price discount cover media desc =
     tx_seq (tx_lift (ProductDiscount L discount))
     (tx_bind (tx_lift (ProductPriceMinor L price)) (\<lambda>minor.
      tx_seq (q_GetProduct i)
      (tx_bind (q_UpdateProduct i categoryID name minor discount cover media (text_of desc))
        (\<lambda>p. tx_return (toBizProduct L p)))))"

definition repo_UpdateProductStatus :: "int \<Rightarrow> int \<Rightarrow> (db, unit) tx" where
  "repo_UpdateProductStatus i status = tx_seq (tx_lift (ValidateProductStatus status))
     (tx_seq (tx_on_no_rows (q_GetProduct i) (tx_throw ErrProductNotFound))
     (tx_seq (tx_on_no_rows (q_UpdateProductStatus i status) (tx_throw ErrProductNotFound)) (tx_return ())))"

definition repo_SoftDeleteProduct :: "int \<Rightarrow> (db, unit) tx" where
  "repo_SoftDeleteProduct i = tx_seq (q_GetProduct i) (q_SoftDeleteProduct i)"

definition repo_DecrProductStock :: "int \<Rightarrow> int \<Rightarrow> (db, int) tx" where
  "repo_DecrProductStock i amount = tx_seq (q_GetProduct i) (q_DecrProductStock i amount)"

definition repo_GetProduct :: "decimal_lib \<Rightarrow> int \<Rightarrow> (db, Product option) tx" where
  "repo_GetProduct L i = tx_bind (tx_optional (q_GetProduct i)) (\<lambda>p. tx_return (map_option (toBizProduct L) p))"

definition repo_CountProducts :: "int \<Rightarrow> (db, int) tx" where
  "repo_CountProducts c = (if c > 0 then q_CountProductsByCategory c else q_CountProducts)"

definition uc_CreateProduct ::
    "decimal_lib \<Rightarrow> (string \<Rightarrow> error + rat) \<Rightarrow> int \<Rightarrow> string \<Rightarrow> string \<Rightarrow> string \<Rightarrow> int \<Rightarrow> int \<Rightarrow> string \<Rightarrow>
     MediaInfo list \<Rightarrow> string \<Rightarrow> (db, Product) tx" where
  "uc_CreateProduct L NewFromString categoryID name priceStr discountStr stock status cover media desc =
     tx_seq (tx_lift (ValidateProductStatus status))
     (tx_bind (tx_lift (NewFromString priceStr)) (\<lambda>price.
      tx_seq (tx_lift (ProductPriceMinor L price))
      (tx_bind (tx_lift (NewFromString discountStr)) (\<lambda>discount.
       tx_seq (tx_lift (ProductDiscount L discount))
       (repo_CreateProduct L categoryID name price discount stock status (mediaFromCoverURL cover) media desc)))))"

definition uc_UpdateProduct ::
    "decimal_lib \<Rightarrow> (string \<Rightarrow> error + rat) \<Rightarrow> int \<Rightarrow> int \<Rightarrow> string \<Rightarrow> string \<Rightarrow> string \<Rightarrow> string \<Rightarrow>
     MediaInfo list \<Rightarrow> string \<Rightarrow> (db, Product) tx" where
  "uc_UpdateProduct L NewFromString i categoryID name priceStr discountStr cover media desc =
     tx_bind (tx_lift (NewFromString priceStr)) (\<lambda>price.
      tx_seq (tx_lift (ProductPriceMinor L price))
      (tx_bind (tx_lift (NewFromString discountStr)) (\<lambda>discount.
       tx_seq (tx_lift (ProductDiscount L discount))
       (repo_UpdateProduct L i categoryID name price discount (mediaFromCoverURL cover) media desc))))"

definition uc_UpdateProductStatus :: "int \<Rightarrow> int \<Rightarrow> (db, unit) tx" where
  "uc_UpdateProductStatus i status =
     tx_seq (tx_lift (ValidateProductStatus status)) (repo_UpdateProductStatus i status)"

text \<open>The page and the total, which the code narrows to \<open>int32\<close>.\<close>

definition uc_ListProducts :: "decimal_lib \<Rightarrow> int \<Rightarrow> int \<Rightarrow> int \<Rightarrow> (db, Product list \<times> int) tx" where
  "uc_ListProducts L categoryID pageSize page =
     tx_bind (tx_lift (NewPage page pageSize)) (\<lambda>p.
     tx_bind (repo_CountProducts categoryID) (\<lambda>tot.
     tx_bind (if categoryID > 0 then q_ListProductsByCategory categoryID (pg_Limit p) (pg_Offset p)
              else q_ListProducts (pg_Limit p) (pg_Offset p)) (\<lambda>ps.
     tx_return (map (toBizProduct L) ps, wrap32 tot))))"

section \<open>Categories\<close>

definition toPgParentID :: "int \<Rightarrow> int option" where
  "toPgParentID parentID = (if parentID > 0 then Some parentID else None)"

definition repo_CreateCategory :: "int \<Rightarrow> string \<Rightarrow> int \<Rightarrow> (db, category) tx" where
  "repo_CreateCategory parentID name sortOrder = q_CreateCategory (toPgParentID parentID) name sortOrder"

definition categoryDeletionRefusal :: "int \<Rightarrow> (db, unit) tx" where
  "categoryDeletionRefusal i =
     tx_seq (tx_on_no_rows (q_GetCategory i) (tx_throw (NotFound ''CATEGORY_NOT_FOUND'')))
     (tx_bind (q_CountCategoryProductReferences i) (\<lambda>products.
      if products > 0 then tx_throw (Conflict ''CATEGORY_HAS_PRODUCTS'')
      else tx_bind (q_CountSubCategories (toPgParentID i)) (\<lambda>children.
        if children > 0 then tx_throw (Conflict ''CATEGORY_HAS_CHILDREN'')
        else tx_throw (NotFound ''CATEGORY_NOT_FOUND''))))"

text \<open>A foreign-key error of a concurrent insert cannot occur when transactions run one after
  the other, so its two translations have no branch here.\<close>

definition repo_DeleteCategory :: "int \<Rightarrow> (db, unit) tx" where
  "repo_DeleteCategory i = tx_bind (q_DeleteCategoryIfUnused i) (\<lambda>deleted.
     if deleted = 0 then categoryDeletionRefusal i else tx_return ())"

definition repo_UpdateCategory :: "int \<Rightarrow> string \<Rightarrow> int \<Rightarrow> (db, category option) tx" where
  "repo_UpdateCategory i name sortOrder = tx_optional (q_UpdateCategory i name sortOrder)"

definition repo_GetCategory :: "int \<Rightarrow> (db, category option) tx" where
  "repo_GetCategory i = tx_optional (q_GetCategory i)"

definition repo_ListSubCategories :: "int \<Rightarrow> int \<Rightarrow> int \<Rightarrow> (db, category list) tx" where
  "repo_ListSubCategories parentID lmt off = tx_bind (tx_lift (NewOffsetPage lmt off)) (\<lambda>p.
     q_ListSubCategories (toPgParentID parentID) (pg_Limit p) (pg_Offset p))"

definition repo_ListTopCategories :: "int \<Rightarrow> int \<Rightarrow> (db, category list) tx" where
  "repo_ListTopCategories lmt off = tx_bind (tx_lift (NewOffsetPage lmt off)) (\<lambda>p.
     q_ListTopCategories (pg_Limit p) (pg_Offset p))"

definition uc_ListCategories :: "int \<Rightarrow> int \<Rightarrow> int \<Rightarrow> (db, category list) tx" where
  "uc_ListCategories parentID page pageSize = tx_bind (tx_lift (NewPage page pageSize)) (\<lambda>p.
     if parentID > 0 then repo_ListSubCategories parentID (pg_Limit p) (pg_Offset p)
     else repo_ListTopCategories (pg_Limit p) (pg_Offset p))"

end
