(* ===== verification/Checkout.thy ===== *)
theory Checkout
  imports Orders "HOL-Library.Multiset"
begin

text \<open>
  What a checkout guarantees: the request is accepted exactly when it is well formed, the
  total is the exact sum of discounted price times quantity, the rows and the stock say what
  was sold, a repeated request returns the order it created and changes nothing, and the
  request hash distinguishes requests.
\<close>

section \<open>The request\<close>

lemma check_items_Inr:
  "check_items seen items = Inr () \<longleftrightarrow>
     (\<forall>i \<in> set items. 0 < oii_ProductID i \<and> 0 < oii_Quantity i \<and> oii_Quantity i \<le> MaxOrderItemQuantity \<and>
        oii_ProductID i \<notin> seen) \<and> distinct (map oii_ProductID items)"
proof (induction items arbitrary: seen)
  case (Cons a items)
  let ?ok = "0 < oii_ProductID a \<and> 0 < oii_Quantity a \<and> oii_Quantity a \<le> MaxOrderItemQuantity \<and>
    oii_ProductID a \<notin> seen"
  show ?case
  proof (cases ?ok)
    case True
    then have "check_items seen (a # items) = check_items (insert (oii_ProductID a) seen) items" by simp
    moreover have "distinct (map oii_ProductID (a # items)) \<longleftrightarrow>
        (\<forall>i \<in> set items. oii_ProductID i \<noteq> oii_ProductID a) \<and> distinct (map oii_ProductID items)"
      by (force simp: image_iff)
    ultimately show ?thesis using Cons.IH [of "insert (oii_ProductID a) seen"] True by simp blast
  next
    case False
    then show ?thesis by (simp only: check_items.simps set_simps ball_simps list.set) (auto split: if_splits)
  qed
qed simp

lemma distinct_sort_key:
  "distinct (map f (sort_key g xs)) = distinct (map f xs)"
  by (metis mset_map mset_sort mset_eq_imp_distinct_iff)

lemma check_order_req_Inr:
  assumes "check_order_req req = Inr (key, items)"
  shows "check_items {} items = Inr ()" and "items \<noteq> []"
proof -
  obtain q where q: "req = Some q" "check_items {} (cor_Items q) = Inr ()" "items = sort_key oii_ProductID (cor_Items q)"
    "cor_Items q \<noteq> []"
    using assms by (auto simp: check_order_req_def Let_def split: option.splits if_splits sum.splits)
  with distinct_sort_key [of oii_ProductID oii_ProductID "cor_Items q"] show "check_items {} items = Inr ()"
    by (simp add: check_items_Inr)
  from q show "items \<noteq> []" by (metis length_sort length_0_conv)
qed

text \<open>
  A checkout request passes the checks exactly when user and address are given, the
  trimmed idempotency key has 8 to 64 bytes, and there are 1 to 50 items of different products
  with quantities from 1 to 999.
\<close>
theorem checkout_request_accepted:
  "(\<exists>key items. check_order_req (Some req) = Inr (key, items)) \<longleftrightarrow>
     0 < cor_UserID req \<and> 0 < cor_AddressID req \<and>
     8 \<le> length (TrimSpace (cor_IdempotencyKey req)) \<and> length (TrimSpace (cor_IdempotencyKey req)) \<le> 64 \<and>
     cor_Items req \<noteq> [] \<and> length (cor_Items req) \<le> 50 \<and> distinct (map oii_ProductID (cor_Items req)) \<and>
     list_all (\<lambda>i. 0 < oii_ProductID i \<and> 0 < oii_Quantity i \<and> oii_Quantity i \<le> 999) (cor_Items req)"
proof -
  have "(\<exists>key items. check_order_req (Some req) = Inr (key, items)) \<longleftrightarrow>
     0 < cor_UserID req \<and> 0 < cor_AddressID req \<and> cor_Items req \<noteq> [] \<and>
     8 \<le> length (TrimSpace (cor_IdempotencyKey req)) \<and> length (TrimSpace (cor_IdempotencyKey req)) \<le> 64 \<and>
     length (cor_Items req) \<le> 50 \<and> check_items {} (cor_Items req) = Inr ()"
    by (auto simp: check_order_req_def Let_def go_len_def MaxOrderItems_def not_le not_less split: sum.splits if_splits)
  then show ?thesis unfolding list_all_iff check_items_Inr MaxOrderItemQuantity_def by auto
qed

section \<open>The amount\<close>

text \<open>What is charged for one unit of a product: the price the customer is quoted.\<close>

definition quoted :: "decimal_lib \<Rightarrow> db \<Rightarrow> int \<Rightarrow> error + int" where
  "quoted L s pid = (case find_row prd_ID pid (tb_products s) of None \<Rightarrow> Inl ErrProductNotFound
     | Some p \<Rightarrow> EffectivePriceMinor L (prd_PriceMinor p) (prd_Discount p))"

lemma price_items_total:
  assumes "price_items L items t s = Inr ((snaps, tot), s')" and "0 \<le> t" "t \<le> MaxInt64"
  shows "tot = t + (\<Sum>sn \<leftarrow> snaps. snp_unitPrice sn * oii_Quantity (snp_input sn)) \<and> t \<le> tot \<and> tot \<le> MaxInt64 \<and>
    map (\<lambda>sn. Inr (snp_unitPrice sn)) snaps = map (\<lambda>i. quoted L s (oii_ProductID i)) items"
  using assms
proof (induction items arbitrary: t snaps)
  case (Cons item items)
  from Cons.prems(1) show ?case
  proof (rule price_items_Cons)
    fix p u line rest
    assume p: "find_row prd_ID (oii_ProductID item) (tb_products s) = Some p"
      and u: "EffectivePriceMinor L (prd_PriceMinor p) (prd_Discount p) = Inr u"
      and m: "multiplyMoney u (oii_Quantity item) = (line, False)" and le: "t \<le> MaxInt64 - line"
      and rest: "price_items L items (wrap64 (t + line)) s = Inr ((rest, tot), s')"
      and snaps: "snaps = \<lparr>snp_input = item, snp_product = p, snp_unitPrice = u\<rparr> # rest"
    have line: "line = u * oii_Quantity item" "0 \<le> line" using m by (auto simp: multiplyMoney_exact)
    have w: "wrap64 (t + line) = t + line"
      using line Cons.prems le by (intro wrap64_id) (simp add: int64_range_def MaxInt64_def)
    show ?case using Cons.IH [OF rest] Cons.prems line le unfolding w by (simp add: snaps quoted_def p u)
  qed
qed (simp add: tx_simps)

lemma reserve_items_rows:
  assumes "reserve_items oid snaps s = Inr (items, s')"
  shows "\<exists>rows. tb_items s' = tb_items s @ rows \<and> tb_orders s' = tb_orders s \<and>
    map itm_OrderID rows = map (\<lambda>_. oid) snaps \<and>
    map itm_ProductID rows = map (oii_ProductID \<circ> snp_input) snaps \<and>
    map itm_Quantity rows = map (oii_Quantity \<circ> snp_input) snaps \<and>
    map itm_UnitPriceMinor rows = map snp_unitPrice snaps"
  using assms
proof (induction snaps arbitrary: s items)
  case Nil
  then show ?case by (simp add: tx_simps)
next
  case (Cons sn snaps)
  from Cons.prems show ?case
  proof (rule reserve_items_Cons)
    fix x s1 y s2 its
    assume a: "q_DecrProductStock (oii_ProductID (snp_input sn)) (oii_Quantity (snp_input sn)) s = Inr (x, s1)"
      "q_CreateOrderItem oid (oii_ProductID (snp_input sn)) (oii_Quantity (snp_input sn)) (snp_unitPrice sn)
       (prd_Name (snp_product sn)) (prd_CoverImage (snp_product sn)) s1 = Inr (y, s2)"
      and r: "reserve_items oid snaps s2 = Inr (its, s')"
    have s2: "tb_items s2 = tb_items s @ [y]" "tb_orders s2 = tb_orders s" "itm_OrderID y = oid"
      "itm_ProductID y = oii_ProductID (snp_input sn)" "itm_Quantity y = oii_Quantity (snp_input sn)"
      "itm_UnitPriceMinor y = snp_unitPrice sn"
      using decr_item_effect [OF a] by auto
    from Cons.IH [OF r] obtain rows where "tb_items s' = tb_items s2 @ rows" "tb_orders s' = tb_orders s2"
      "map itm_OrderID rows = map (\<lambda>_. oid) snaps"
      "map itm_ProductID rows = map (oii_ProductID \<circ> snp_input) snaps"
      "map itm_Quantity rows = map (oii_Quantity \<circ> snp_input) snaps"
      "map itm_UnitPriceMinor rows = map snp_unitPrice snaps" by blast
    with s2 show ?case by (intro exI [of _ "y # rows"]) simp
  qed
qed

lemma place_order_effect:
  assumes "place_order L jobs args items s = Inr (x, s')"
  obtains r rows its where "tb_orders s' = tb_orders s @ [r]" "tb_items s' = tb_items s @ rows"
    "x = (toBizOrder r)\<lparr>odo_Items := its\<rparr>"
    "ord_Status r = OrderStatusPendingPayment" "ord_UserID r = coa_UserID args"
    "ord_IdempotencyKey r = coa_IdempotencyKey args" "ord_RequestHash r = coa_RequestHash args"
    "\<And>o'. o' \<in> set (tb_orders s) \<Longrightarrow> ord_UserID o' = coa_UserID args \<Longrightarrow> ord_IdempotencyKey o' \<noteq> coa_IdempotencyKey args"
    "map itm_OrderID rows = map (\<lambda>_. ord_ID r) items" "map itm_ProductID rows = map oii_ProductID items"
    "map itm_Quantity rows = map oii_Quantity items"
    "map (\<lambda>i. Inr (itm_UnitPriceMinor i)) rows = map (\<lambda>i. quoted L s (oii_ProductID i)) items"
    "ord_TotalAmountMinor r = (\<Sum>i \<leftarrow> rows. itm_UnitPriceMinor i * itm_Quantity i)"
    "0 < ord_TotalAmountMinor r" "ord_TotalAmountMinor r \<le> MaxInt64"
  using assms
proof (rule place_order_run)
  fix a snaps tot r s1 its s2 y
  assume run: "price_items L items 0 s = Inr ((snaps, tot), s)" "0 < tot"
    "q_CreateOrder (order_params args a tot) s = Inr (r, s1)" "reserve_items (ord_ID r) snaps s1 = Inr (its, s2)"
    "enqueue_tx jobs ''order mq is not configured'' (ExpireOrderJob (ord_ID r)) (ord_ExpiresAt r) s2 = Inr (y, s')"
    and x: "x = (toBizOrder r)\<lparr>odo_Items := its\<rparr>"
  note c = create_order_effect [OF run(3)]
  have inp: "map snp_input snaps = items" using price_items_inputs [OF run(1)] by simp
  obtain rows where rows: "tb_items s2 = tb_items s1 @ rows" "tb_orders s2 = tb_orders s1"
    "map itm_OrderID rows = map (\<lambda>_. ord_ID r) snaps" "map itm_ProductID rows = map (oii_ProductID \<circ> snp_input) snaps"
    "map itm_Quantity rows = map (oii_Quantity \<circ> snp_input) snaps" "map itm_UnitPriceMinor rows = map snp_unitPrice snaps"
    using reserve_items_rows [OF run(4)] by blast
  have t: "tot = (\<Sum>sn \<leftarrow> snaps. snp_unitPrice sn * oii_Quantity (snp_input sn))" "tot \<le> MaxInt64"
    "map (\<lambda>sn. Inr (snp_unitPrice sn)) snaps = map (\<lambda>i. quoted L s (oii_ProductID i)) items"
    using price_items_total [OF run(1)] by (auto simp: MaxInt64_def)
  have zip: "map (\<lambda>i. itm_UnitPriceMinor i * itm_Quantity i) rows
      = map (\<lambda>sn. snp_unitPrice sn * oii_Quantity (snp_input sn)) snaps"
    using rows(5,6) by (auto simp: list_eq_iff_nth_eq map_equality_iff)
  have "map (\<lambda>_. ord_ID r) snaps = map (\<lambda>_. ord_ID r) items" unfolding inp [symmetric] by simp
  moreover have "map (oii_ProductID \<circ> snp_input) snaps = map oii_ProductID items"
    "map (oii_Quantity \<circ> snp_input) snaps = map oii_Quantity items" using inp by (metis map_map)+
  moreover have "map (\<lambda>i. Inr (itm_UnitPriceMinor i)) rows = (map (\<lambda>sn. Inr (snp_unitPrice sn)) snaps :: (error + int) list)"
    using rows(6) by (auto simp: map_equality_iff list_eq_iff_nth_eq)
  moreover have "tb_orders s' = tb_orders s @ [r]" "tb_items s' = tb_items s @ rows"
    using enqueue_tx_core [OF run(5)] rows c by (simp_all add: core_eq_def)
  moreover have "cop_UserID (order_params args a tot) = coa_UserID args"
    "cop_IdempotencyKey (order_params args a tot) = coa_IdempotencyKey args"
    "cop_RequestHash (order_params args a tot) = coa_RequestHash args"
    "cop_TotalAmountMinor (order_params args a tot) = tot" by (simp_all add: order_params_def)
  ultimately show thesis
    using that [of r rows its] c x rows t run(2) zip by simp
qed

abbreviation same_key :: "int \<Rightarrow> string \<Rightarrow> order \<Rightarrow> bool" where
  "same_key uid key r \<equiv> ord_UserID r = uid \<and> ord_IdempotencyKey r = key"

lemma CreateOrder_new:
  assumes "List.find (same_key (coa_UserID args) (coa_IdempotencyKey args)) (tb_orders s) = None"
  shows "CreateOrder_body L jobs args s = place_order L jobs args (sort_key oii_ProductID (coa_Items args)) s"
  using assms by (simp add: CreateOrder_body_def Let_def tx_eval sql_defs sql_find_def)

lemma CreateOrder_replay:
  assumes "List.find (same_key (coa_UserID args) (coa_IdempotencyKey args)) (tb_orders s) = Some r"
  shows "CreateOrder_body L jobs args s = replay_order args r s"
  using assms by (simp add: CreateOrder_body_def Let_def tx_eval sql_defs sql_find_def)

lemma repo_CreateOrder_new:
  assumes "repo_CreateOrder L jobs args s = (Inr x, s')"
    and none: "List.find (same_key (coa_UserID args) (coa_IdempotencyKey args)) (tb_orders s) = None"
  shows "place_order L jobs args (sort_key oii_ProductID (coa_Items args)) s = Inr (x, s')"
proof (cases "place_order L jobs args (sort_key oii_ProductID (coa_Items args)) s")
  case (Inl e)
  then show ?thesis
    using assms by (simp add: repo_CreateOrder_def InTx_def CreateOrder_new [OF none] tx_eval sql_defs sql_find_def
        split: if_splits)
next
  case (Inr q)
  then show ?thesis
    using assms by (auto simp: repo_CreateOrder_def InTx_def CreateOrder_new [OF none] split: prod.splits)
qed

text \<open>
  C13. A new order: the repository appends one pending order and one item row per requested
  product, in the requested quantities, at the discounted price of the product; the order's
  total is the exact sum of price times quantity, positive and within int64.
\<close>
theorem checkout_total_is_exact:
  assumes "repo_CreateOrder L jobs args s = (Inr x, s')"
    and "List.find (same_key (coa_UserID args) (coa_IdempotencyKey args)) (tb_orders s) = None"
  shows "\<exists>r rows. tb_orders s' = tb_orders s @ [r] \<and> tb_items s' = tb_items s @ rows \<and>
    ord_Status r = OrderStatusPendingPayment \<and> odo_ID x = ord_ID r \<and> odo_TotalAmount x = ord_TotalAmountMinor r \<and>
    map itm_OrderID rows = map (\<lambda>_. ord_ID r) (coa_Items args) \<and>
    map itm_ProductID rows = map oii_ProductID (sort_key oii_ProductID (coa_Items args)) \<and>
    map itm_Quantity rows = map oii_Quantity (sort_key oii_ProductID (coa_Items args)) \<and>
    map (\<lambda>i. Inr (itm_UnitPriceMinor i)) rows
      = map (\<lambda>i. quoted L s (oii_ProductID i)) (sort_key oii_ProductID (coa_Items args)) \<and>
    ord_TotalAmountMinor r = (\<Sum>i \<leftarrow> rows. itm_UnitPriceMinor i * itm_Quantity i) \<and>
    0 < ord_TotalAmountMinor r \<and> ord_TotalAmountMinor r \<le> MaxInt64"
proof -
  have c: "map (\<lambda>_. k) (sort_key oii_ProductID (coa_Items args)) = map (\<lambda>_. k) (coa_Items args)" for k :: int
    by (simp add: map_replicate_const)
  from repo_CreateOrder_new [OF assms] show ?thesis
    by (rule place_order_effect) (fastforce simp: c toBizOrder_def)
qed

text \<open>A request that finds its order: the order and its rows, and nothing written.\<close>

lemma repo_CreateOrder_replay:
  assumes "List.find (same_key (coa_UserID args) (coa_IdempotencyKey args)) (tb_orders s) = Some r"
    and "ord_RequestHash r = coa_RequestHash args" and "ord_Status r \<noteq> OrderStatusCancelled"
  shows "\<exists>its. repo_CreateOrder L jobs args s = (Inr ((toBizOrder r)\<lparr>odo_Items := its\<rparr>), s)"
  using assms
  by (simp add: repo_CreateOrder_def InTx_def CreateOrder_replay replay_order_def loadItems_def tx_eval sql_defs) blast

lemma repo_CreateOrder_found:
  assumes "repo_CreateOrder L jobs args s = (Inr x, s')"
  obtains r its where "List.find (same_key (coa_UserID args) (coa_IdempotencyKey args)) (tb_orders s') = Some r"
    "ord_RequestHash r = coa_RequestHash args" "ord_Status r \<noteq> OrderStatusCancelled"
    "x = (toBizOrder r)\<lparr>odo_Items := its\<rparr>"
proof (cases "List.find (same_key (coa_UserID args) (coa_IdempotencyKey args)) (tb_orders s)")
  case None
  from repo_CreateOrder_new [OF assms None] show thesis
  proof (rule place_order_effect)
    fix r rows its
    assume e: "tb_orders s' = tb_orders s @ [r]" "x = (toBizOrder r)\<lparr>odo_Items := its\<rparr>"
      "ord_Status r = OrderStatusPendingPayment" "ord_UserID r = coa_UserID args"
      "ord_IdempotencyKey r = coa_IdempotencyKey args" "ord_RequestHash r = coa_RequestHash args"
    have "List.find P (t @ [r]) = (case List.find P t of None \<Rightarrow> if P r then Some r else None | Some y \<Rightarrow> Some y)" for P t
      by (induction t) auto
    then have "List.find (same_key (coa_UserID args) (coa_IdempotencyKey args)) (tb_orders s') = Some r"
      using None e by simp
    then show thesis using that e by simp
  qed
next
  case (Some r)
  then show thesis
    using assms that by (auto simp: repo_CreateOrder_def InTx_def CreateOrder_replay replay_order_def loadItems_def
        tx_eval sql_defs split: if_splits)
qed

section \<open>Idempotence\<close>

lemma create_attempts_found:
  assumes "create_attempts (repo_CreateOrder L jobs) args nos k n s = (Inr x, s')"
  shows "\<exists>r its. List.find (same_key (coa_UserID args) (coa_IdempotencyKey args)) (tb_orders s') = Some r \<and>
    ord_RequestHash r = coa_RequestHash args \<and> ord_Status r \<noteq> OrderStatusCancelled \<and>
    x = (toBizOrder r)\<lparr>odo_Items := its\<rparr>"
  using assms
proof (induction n arbitrary: k s)
  case (Suc n)
  let ?args = "args\<lparr>coa_OutTradeNo := nos k\<rparr>"
  obtain v s1 where v: "repo_CreateOrder L jobs ?args s = (v, s1)" by fastforce
  show ?case
  proof (cases v)
    case (Inl e)
    then show ?thesis using Suc v by (auto split: if_splits)
  next
    case (Inr y)
    then have eq: "y = x" "s1 = s'" using Suc.prems v by auto
    then have "repo_CreateOrder L jobs ?args s = (Inr x, s')" using v Inr by simp
    then show ?thesis by (rule repo_CreateOrder_found) auto
  qed
qed simp

lemma create_attempts_replay:
  assumes "List.find (same_key (coa_UserID args) (coa_IdempotencyKey args)) (tb_orders s) = Some r"
    and "ord_RequestHash r = coa_RequestHash args" and "ord_Status r \<noteq> OrderStatusCancelled"
  shows "\<exists>its. create_attempts (repo_CreateOrder L jobs) args nos k (Suc n) s = (Inr ((toBizOrder r)\<lparr>odo_Items := its\<rparr>), s)"
proof -
  obtain its where "repo_CreateOrder L jobs (args\<lparr>coa_OutTradeNo := nos k\<rparr>) s = (Inr ((toBizOrder r)\<lparr>odo_Items := its\<rparr>), s)"
    using repo_CreateOrder_replay [of "args\<lparr>coa_OutTradeNo := nos k\<rparr>" s r L jobs] assms by auto
  then show ?thesis by auto
qed

lemma decrypt_items:
  assumes "decryptShipping D (ord\<lparr>odo_Items := its\<rparr>) = Inr x"
  shows "decryptShipping D (ord\<lparr>odo_Items := its'\<rparr>) = Inr (x\<lparr>odo_Items := its'\<rparr>)"
  using assms by (auto simp: decryptShipping_def split: option.splits sum.splits)

lemma uc_CreateOrder_attempts:
  assumes "check_order_req (Some req) = Inr (key, items)"
  shows "uc_CreateOrder env (Some nos) (Some req) s =
    (case create_attempts (repo_CreateOrder (env_decimal env) (env_jobs env)) (order_args env req key items) nos 0 3 s of
       (Inl e, s') \<Rightarrow> (Inl e, s')
     | (Inr order, s') \<Rightarrow> (decryptShipping (env_DecryptPhone env) order, s'))"
  using assms by (simp add: uc_CreateOrder_def Let_def order_args_def orderNoAttempts_def)

lemma uc_CreateOrder_Inr:
  assumes "uc_CreateOrder env (Some nos) (Some req) s = (Inr x, s')"
  obtains key items r its where "check_order_req (Some req) = Inr (key, items)"
    "List.find (same_key (cor_UserID req) key) (tb_orders s') = Some r"
    "ord_RequestHash r = hashOrderRequest (env_sha256hex env) (cor_UserID req) (cor_AddressID req) items"
    "ord_Status r \<noteq> OrderStatusCancelled"
    "decryptShipping (env_DecryptPhone env) ((toBizOrder r)\<lparr>odo_Items := its\<rparr>) = Inr x"
proof -
  obtain key items where ok: "check_order_req (Some req) = Inr (key, items)"
    using assms by (auto simp: uc_CreateOrder_def split: sum.splits)
  define args where "args = order_args env req key items"
  obtain y where run: "create_attempts (repo_CreateOrder (env_decimal env) (env_jobs env)) args nos 0 3 s = (Inr y, s')"
    and y: "decryptShipping (env_DecryptPhone env) y = Inr x"
    using assms unfolding uc_CreateOrder_attempts [OF ok] args_def [symmetric] by (auto split: prod.splits sum.splits)
  have a: "coa_UserID args = cor_UserID req" "coa_IdempotencyKey args = key"
    "coa_RequestHash args = hashOrderRequest (env_sha256hex env) (cor_UserID req) (cor_AddressID req) items"
    by (simp_all add: args_def order_args_def)
  from create_attempts_found [OF run] show thesis unfolding a using that [OF ok] y by blast
qed


section \<open>The request hash\<close>

definition num_char :: "char \<Rightarrow> bool" where
  "num_char c \<longleftrightarrow> c = CHR ''-'' \<or> (48 \<le> (of_char c :: nat) \<and> (of_char c :: nat) < 58)"

definition digits_value :: "string \<Rightarrow> nat" where
  "digits_value s = foldl (\<lambda>a c. a * 10 + ((of_char c :: nat) - 48)) 0 s"

lemma nat_digits_value: "digits_value (nat_digits n) = n"
proof (induction n rule: nat_digits.induct)
  case (1 n)
  show ?case
  proof (cases "n < 10")
    case True
    then show ?thesis by (simp add: nat_digits.simps [of n] digits_value_def)
  next
    case False
    have "digits_value (s @ [char_of (48 + k)]) = digits_value s * 10 + k" if "k < 10" for s and k :: nat
      using that by (simp add: digits_value_def)
    then show ?thesis using 1 [OF False] False by (simp add: nat_digits.simps [of n])
  qed
qed

lemma nat_digits_chars: "c \<in> set (nat_digits n) \<Longrightarrow> 48 \<le> (of_char c :: nat) \<and> (of_char c :: nat) < 58"
proof (induction n rule: nat_digits.induct)
  case (1 n)
  show ?case
  proof (cases "n < 10")
    case True
    then show ?thesis using 1(2) by (simp add: nat_digits.simps [of n])
  next
    case False
    then show ?thesis using 1 by (auto simp: nat_digits.simps [of n])
  qed
qed

lemma minus_code: "(of_char CHR ''-'' :: nat) = 45"
  by simp

lemma FormatInt_inject: "FormatInt i = FormatInt j \<longleftrightarrow> i = j"
proof
  have pos: "hd (nat_digits n) \<noteq> CHR ''-''" for n
  proof -
    have "nat_digits n \<noteq> []" by (subst nat_digits.simps) simp
    then have "hd (nat_digits n) \<in> set (nat_digits n)" by (rule hd_in_set)
    then have "48 \<le> (of_char (hd (nat_digits n)) :: nat)" using nat_digits_chars by blast
    then show ?thesis by (metis minus_code Suc_n_not_le_n eval_nat_numeral(2,3) le_trans le_refl not_less_eq_eq
          numeral_le_iff semiring_norm(69,71,72,77))
  qed
  assume e: "FormatInt i = FormatInt j"
  then have "i < 0 \<longleftrightarrow> j < 0" using pos unfolding FormatInt_def by (metis list.sel(1))
  moreover from this have "nat_digits (nat \<bar>i\<bar>) = nat_digits (nat \<bar>j\<bar>)"
    using e unfolding FormatInt_def by (auto split: if_splits)
  then have "nat \<bar>i\<bar> = nat \<bar>j\<bar>" using nat_digits_value by metis
  ultimately show "i = j" by linarith
qed simp

lemma FormatInt_num: "c \<in> set (FormatInt i) \<Longrightarrow> num_char c"
  using nat_digits_chars by (auto simp: FormatInt_def num_char_def split: if_splits)

text \<open>A number is followed by a character that cannot belong to it, so the text splits there.\<close>

lemma num_split:
  assumes "FormatInt i @ c # r = FormatInt j @ c # r'" and "\<not> num_char c"
  shows "i = j \<and> r = r'"
proof -
  have t: "takeWhile num_char (FormatInt k @ c # u) = FormatInt k" for k u
    using FormatInt_num assms(2) by (simp add: takeWhile_tail takeWhile_eq_all_conv)
  have "FormatInt i = FormatInt j" using assms(1) t by metis
  then show ?thesis using assms(1) FormatInt_inject by auto
qed

lemma json_item_split:
  assumes "json_item a @ r = json_item b @ r'"
  shows "a = b \<and> r = r'"
proof -
  have "FormatInt (oii_ProductID a) @ CHR '','' # ''\"quantity\":'' @ FormatInt (oii_Quantity a) @ CHR ''}'' # r
      = FormatInt (oii_ProductID b) @ CHR '','' # ''\"quantity\":'' @ FormatInt (oii_Quantity b) @ CHR ''}'' # r'"
    using assms by (simp add: json_item_def)
  from num_split [OF this] have 1: "oii_ProductID a = oii_ProductID b"
    "FormatInt (oii_Quantity a) @ CHR ''}'' # r = FormatInt (oii_Quantity b) @ CHR ''}'' # r'"
    by (simp_all add: num_char_def)
  from num_split [OF 1(2)] have "oii_Quantity a = oii_Quantity b" "r = r'" by (simp_all add: num_char_def)
  with 1(1) show ?thesis by simp
qed

lemma json_items_Cons:
  "json_items (i # is) = json_item i @ (if is = [] then [] else CHR '','' # json_items is)"
  by (cases "is") simp_all

lemma json_items_split:
  assumes "json_items xs @ '']}'' = json_items ys @ '']}''"
  shows "xs = ys"
  using assms
proof (induction xs arbitrary: ys)
  case Nil
  then show ?case by (cases ys) (simp_all add: json_items_Cons json_item_def)
next
  case (Cons x xs)
  show ?case
  proof (cases ys)
    case Nil
    then show ?thesis using Cons.prems by (simp add: json_items_Cons json_item_def)
  next
    case ys: (Cons y ys')
    have "json_item x @ (if xs = [] then [] else CHR '','' # json_items xs) @ '']}''
        = json_item y @ (if ys' = [] then [] else CHR '','' # json_items ys') @ '']}''"
      using Cons.prems by (simp add: json_items_Cons ys)
    from json_item_split [OF this] have "x = y"
      "(if xs = [] then [] else CHR '','' # json_items xs) @ '']}''
        = (if ys' = [] then [] else CHR '','' # json_items ys') @ '']}''" by auto
    then show ?thesis using Cons.IH [of ys'] ys by (cases "xs = []"; cases "ys' = []") simp_all
  qed
qed

text \<open>
  Two checkout requests have the same hashed text only if they are the same request: the
  canonical JSON of user, address and items determines all of them, so the stored request hash
  refuses a key that is reused for anything else, up to collisions of SHA-256.
\<close>
theorem request_hash_distinguishes_requests:
  "order_request_json u a items = order_request_json u' a' items' \<longleftrightarrow> u = u' \<and> a = a' \<and> items = items'"
proof
  assume "order_request_json u a items = order_request_json u' a' items'"
  then have "FormatInt u @ CHR '','' # ''\"address_id\":'' @ FormatInt a @ CHR '','' # ''\"items\":['' @ json_items items @ '']}''
      = FormatInt u' @ CHR '','' # ''\"address_id\":'' @ FormatInt a' @ CHR '','' # ''\"items\":['' @ json_items items' @ '']}''"
    by (simp add: order_request_json_def)
  from num_split [OF this] have 1: "u = u'" "FormatInt a @ CHR '','' # ''\"items\":['' @ json_items items @ '']}''
      = FormatInt a' @ CHR '','' # ''\"items\":['' @ json_items items' @ '']}''"
    by (simp_all add: num_char_def)
  from num_split [OF 1(2)] have "a = a'" "json_items items @ '']}'' = json_items items' @ '']}''"
    by (simp_all add: num_char_def)
  with 1(1) json_items_split show "u = u' \<and> a = a' \<and> items = items'" by blast
qed simp

end
