(* ===== verification/PaymentJobs.thy ===== *)
theory PaymentJobs
  imports PaymentRepo
begin

text \<open>
  The payment jobs: enqueueing them (\<open>paymentJobUsecase\<close> of
  app/mall/internal/biz/payment\_jobs.go), the transaction that activates a prepared payment
  and queues its first poll (app/mall/internal/biz/payment\_prepay.go), and what happens to a
  payment job whose attempts are exhausted (app/mall/internal/data/river\_error\_handler.go).
\<close>

section \<open>Enqueueing\<close>

text \<open>A positive delay schedules the job relative to the application's clock; the zero time
  leaves the schedule to the queue.\<close>

definition scheduled_at :: "int \<Rightarrow> (db, int) tx" where
  "scheduled_at delay = tx_read (\<lambda>s. if delay > 0 then tb_time_Now s + delay else 0)"

definition enqueue :: "river \<Rightarrow> CheckPayArgs \<Rightarrow> int \<Rightarrow> (db, int \<times> bool) tx" where
  "enqueue repo args0 delay =
     (let args = NormalizeCheckPayArgs args0 in
      if cpa_PaymentID args \<le> 0 then tx_throw (BadRequest ''PAYMENT_ID_REQUIRED'')
      else if cpa_Provider args = '''' then tx_throw (BadRequest ''PAYMENT_PROVIDER_REQUIRED'')
      else tx_bind (scheduled_at delay) (\<lambda>at_time. river_insert repo (CheckPay args) at_time))"

definition enqueueClose :: "river \<Rightarrow> ClosePayArgs \<Rightarrow> int \<Rightarrow> (db, int \<times> bool) tx" where
  "enqueueClose repo args0 delay =
     (let args = args0\<lparr>cla_Provider := ToLower (TrimSpace (cla_Provider args0))\<rparr> in
      if cla_PaymentID args \<le> 0 \<or> cla_Provider args = '''' then tx_throw (BadRequest ''PAYMENT_CLOSE_JOB_INVALID'')
      else tx_bind (scheduled_at delay) (\<lambda>at_time. river_insert repo (ClosePay args) at_time))"

section \<open>Activating a prepared payment\<close>

record PaymentPolicy =
  pol_PrepayLeaseDuration :: int
  pol_PollInitialDelay :: int
  pol_PollInterval :: int
  pol_PollMaxCount :: int

text \<open>The defaults of \<open>NewConfiguredPaymentUsecase\<close>: 30 s, 5 s, 10 s and 30 polls.\<close>

definition configured_policy :: "PaymentPolicy \<Rightarrow> PaymentPolicy" where
  "configured_policy p = \<lparr>
     pol_PrepayLeaseDuration = (if pol_PrepayLeaseDuration p \<le> 0 then 30 * 10 ^ 9 else pol_PrepayLeaseDuration p),
     pol_PollInitialDelay = (if pol_PollInitialDelay p \<le> 0 then 5 * 10 ^ 9 else pol_PollInitialDelay p),
     pol_PollInterval = (if pol_PollInterval p \<le> 0 then 10 * 10 ^ 9 else pol_PollInterval p),
     pol_PollMaxCount = (if pol_PollMaxCount p \<le> 0 then 30 else pol_PollMaxCount p)\<rparr>"

text \<open>\<open>int(d.Seconds())\<close>: the whole seconds of a duration, towards zero.\<close>

definition whole_seconds :: "int \<Rightarrow> int" where
  "whole_seconds d = go_div d (10 ^ 9)"

definition poll_args :: "PaymentPolicy \<Rightarrow> int \<Rightarrow> string \<Rightarrow> string \<Rightarrow> int \<Rightarrow> CheckPayArgs" where
  "poll_args policy pid provider trigger expiresAt = \<lparr>cpa_ConfirmUnissued = False,
     cpa_ReconciliationVersion = 0, cpa_PaymentID = pid, cpa_Provider = provider, cpa_NotificationID = 0,
     cpa_Trigger = trigger, cpa_PollCount = 0, cpa_MaxPolls = pol_PollMaxCount policy,
     cpa_PollIntervalSeconds = whole_seconds (pol_PollInterval policy), cpa_OrderExpiresAt = expiresAt\<rparr>"

text \<open>The second transaction of \<open>PrepayForOrder\<close>: the signed action is stored and, where the
  channel has to be polled, the first poll is queued with it.\<close>

definition activate_prepay ::
    "river option \<Rightarrow> PaymentPolicy \<Rightarrow> bool \<Rightarrow> string \<Rightarrow> int \<Rightarrow> int \<Rightarrow> string \<Rightarrow> PaymentAction \<Rightarrow> (db, PaymentDO) tx" where
  "activate_prepay jobs policy requiresPoll provider expiresAt pid token action =
     tx_bind (FinalizePaymentPrepay pid token action) (\<lambda>payment.
     case (if requiresPoll then jobs else None) of
       None \<Rightarrow> tx_return payment
     | Some repo \<Rightarrow> tx_seq (enqueue repo (poll_args policy (pdo_ID payment) provider ''prepay'' expiresAt)
                       (pol_PollInitialDelay policy)) (tx_return payment))"

section \<open>Exhausted jobs\<close>

text \<open>
  The transaction of \<open>HandleError\<close> for a check or close job that used its last attempt: the
  notification fails, and the payment goes to review unless the job belongs to an older
  reconciliation version. Returns whether the payment was sent to review. (\<open>db.New(tx)\<close>: the
  statements run in this transaction.)
\<close>

definition fail_notification :: "int \<Rightarrow> string \<Rightarrow> (db, unit) tx" where
  "fail_notification nid lastError =
     (if nid > 0 then tx_bind (q_MarkPaymentNotificationFailed nid (text_of lastError)) (\<lambda>rows.
        if rows = 0 then notificationStateAfterCAS nid PaymentNotificationStatusProcessed else tx_return ())
      else tx_return ())"

definition discard_job :: "int \<Rightarrow> int \<Rightarrow> int \<Rightarrow> int \<Rightarrow> string \<Rightarrow> int \<Rightarrow> string \<Rightarrow> (db, bool) tx" where
  "discard_job jobID attempt pid nid provider version lastError =
     tx_seq (fail_notification nid lastError)
     (tx_bind (tx_optional (q_GetPayment pid)) (\<lambda>found.
      case found of None \<Rightarrow> tx_return False
      | Some snapshot \<Rightarrow>
        tx_seq (q_GetOrderForUpdate (pay_OrderID snapshot))
        (tx_bind (q_ListPaymentsByOrderForUpdate (pay_OrderID snapshot)) (\<lambda>payments.
         case List.find (\<lambda>p. pay_ID p = pid) payments of None \<Rightarrow> tx_return False
         | Some payment \<Rightarrow>
           if pay_ID payment > 0 \<and> ReconciliationJobCurrent version (pay_ReconciliationVersion payment)
                (pay_ReconciliationStatus payment)
           then tx_seq (requirePaymentReconciliation pid ''job_exhausted'' lastError)
                (tx_seq (q_CreatePaymentReconciliationFailure pid provider ''job_exhausted''
                          (Some jobID) (wrap32 attempt) lastError)
                 (tx_return True))
           else tx_return False))))"

record river_job =
  rj_ID :: int
  rj_Attempt :: int
  rj_MaxAttempts :: int
  rj_Args :: job_args

text \<open>Only check and close jobs at their last attempt touch the database; the error of the
  transaction itself is logged.\<close>

definition HandleError :: "river_job \<Rightarrow> string \<Rightarrow> db \<Rightarrow> db" where
  "HandleError job lastError s =
     (if rj_Attempt job < rj_MaxAttempts job then s
      else (case rj_Args job of
          CheckPay a \<Rightarrow> (if cpa_PaymentID a \<le> 0 then s else
            snd (InTx (discard_job (rj_ID job) (rj_Attempt job) (cpa_PaymentID a) (cpa_NotificationID a)
              (cpa_Provider a) (cpa_ReconciliationVersion a) lastError) s))
        | ClosePay a \<Rightarrow> (if cla_PaymentID a \<le> 0 then s else
            snd (InTx (discard_job (rj_ID job) (rj_Attempt job) (cla_PaymentID a) 0
              (cla_Provider a) (cla_ReconciliationVersion a) lastError) s))
        | ExpireOrderJob _ \<Rightarrow> s
        | MediaDelete _ \<Rightarrow> s))"

section \<open>What these transactions leave alone\<close>

lemma enqueue_core: "enqueue repo args delay s = Inr (r, s') \<Longrightarrow> core_eq s s'"
  by (auto simp: enqueue_def scheduled_at_def Let_def tx_simps intro: river_insert_core split: if_splits)

lemma enqueueClose_core: "enqueueClose repo args delay s = Inr (r, s') \<Longrightarrow> core_eq s s'"
  by (auto simp: enqueueClose_def scheduled_at_def Let_def tx_simps intro: river_insert_core split: if_splits)

lemma fail_notification_core: "fail_notification nid e s = Inr (r, s') \<Longrightarrow> core_eq s s'"
  by (auto simp: fail_notification_def notificationStateAfterCAS_def tx_simps sql_defs core_eq_def split: if_splits)

lemma q_CreatePaymentReconciliationFailure_core:
  "q_CreatePaymentReconciliationFailure pid provider reason job attempt e s = Inr (r, s') \<Longrightarrow> core_eq s s'"
  by (auto simp: q_CreatePaymentReconciliationFailure_def core_eq_def split: if_splits)

end
