(* ===== verification/Mall.thy ===== *)
theory Mall
  imports MoneyRefinement Catalog Checkout PaymentJobs
begin

text \<open>
  The mall as one state machine: a step is one committed or refused operation of the order,
  payment, refund, notification, reconciliation, stock and catalogue components, on any
  arguments, or a change of what these components do not own (users, addresses, events, the
  community's tables, the job queue, the clocks). PostgreSQL's row and advisory locks make the transactions on one order
  run one after the other; a step is therefore a whole transaction.

  An operation that runs several transactions (the retries of a checkout, the review after a
  duplicate transaction id) changes the database in one of them only, so other steps between
  them are covered.
\<close>

inductive mall_step :: "db \<Rightarrow> db \<Rightarrow> bool" where
  Checkout: "uc_CreateOrder env idGen req s = (r, s') \<Longrightarrow> mall_step s s'"
| CancelOrder: "InTx (uc_CancelOrder i uid) s = (r, s') \<Longrightarrow> mall_step s s'"
| Expire: "ExpireOrder jobs i s = (r, s') \<Longrightarrow> mall_step s s'"
| Reap: "ReapOverdueOrders jobs grace lmt s = (r, s') \<Longrightarrow> mall_step s s'"
| Fulfil: "InTx (uc_ApplyFulfillment actor inp) s = (r, s') \<Longrightarrow> mall_step s s'"
| OpenPayment: "CreatePayment cya s = (r, s') \<Longrightarrow> mall_step s s'"
| ClaimPrepay: "InTx (ClaimPaymentPrepay i token lease) s = (r, s') \<Longrightarrow> mall_step s s'"
| ActivatePrepay: "InTx (activate_prepay jobs policy poll provider expiresAt i token act) s = (r, s') \<Longrightarrow> mall_step s s'"
| EnqueueCheck: "InTx (enqueue ins cpa delay) s = (r, s') \<Longrightarrow> mall_step s s'"
| JobDiscarded: "mall_step s (HandleError job err s)"
| PrepayError: "InTx (RecordPaymentPrepayError i token err) s = (r, s') \<Longrightarrow> mall_step s s'"
| ClosePending: "InTx (MarkPayClosePending jobs cpa) s = (r, s') \<Longrightarrow> mall_step s s'"
| ProviderResult: "ApplyPayQuery cpa result s = (r, s') \<Longrightarrow> mall_step s s'"
| ReviewPayment: "InTx (MarkReconciliationRequired f) s = (r, s') \<Longrightarrow> mall_step s s'"
| RecordFailure: "InTx (RecordReconciliationFailure f) s = (r, s') \<Longrightarrow> mall_step s s'"
| PrepareRefund: "InTx (PreparePaymentRefund i no) s = (r, s') \<Longrightarrow> mall_step s s'"
| ApplyRefund: "InTx (ApplyPaymentRefund i rid) s = (r, s') \<Longrightarrow> mall_step s s'"
| RefundError: "InTx (RecordPaymentRefundError i err definitive) s = (r, s') \<Longrightarrow> mall_step s s'"
| Reconcile: "InTx (uc_ApplyReconciliation jobs actor rin) s = (r, s') \<Longrightarrow> mall_step s s'"
| StoreNotification: "InTx (PersistAndEnqueueNotification ins n cpa) s = (r, s') \<Longrightarrow> mall_step s s'"
| BeginNotification: "InTx (BeginPaymentNotificationProcessing i provider no) s = (r, s') \<Longrightarrow> mall_step s s'"
| NotificationError: "InTx (RecordPaymentNotificationError i err) s = (r, s') \<Longrightarrow> mall_step s s'"
| NotificationFailed: "InTx (MarkPaymentNotificationFailed i err) s = (r, s') \<Longrightarrow> mall_step s s'"
| AdjustStock: "InTx (uc_AdjustStock sai) s = (r, s') \<Longrightarrow> mall_step s s'"
| CreateProduct: "InTx (uc_CreateProduct L parse cid name price discount stock status cover media desc) s = (r, s')
    \<Longrightarrow> mall_step s s'"
| UpdateProduct: "InTx (uc_UpdateProduct L parse i cid name price discount cover media desc) s = (r, s')
    \<Longrightarrow> mall_step s s'"
| ProductStatus: "InTx (uc_UpdateProductStatus i status) s = (r, s') \<Longrightarrow> mall_step s s'"
| DeleteProduct: "InTx (repo_SoftDeleteProduct i) s = (r, s') \<Longrightarrow> mall_step s s'"
| CreateCategory: "InTx (repo_CreateCategory parent name sortOrder) s = (r, s') \<Longrightarrow> mall_step s s'"
| UpdateCategory: "InTx (repo_UpdateCategory i name sortOrder) s = (r, s') \<Longrightarrow> mall_step s s'"
| DeleteCategory: "InTx (repo_DeleteCategory i) s = (r, s') \<Longrightarrow> mall_step s s'"
| Outside: "mall_step s (s\<lparr>tb_users := u, tb_addresses := a, tb_events := ev, tb_history := h, tb_posts := p,
    tb_media := m, tb_images := im, tb_likes := l, tb_comments := c, tb_jobs := j, tb_sequences := q,
    tb_current_timestamp := t1, tb_statement_timestamp := t4, tb_clock_timestamp := t2, tb_time_Now := t3\<rparr>)"

text \<open>The database after the migrations: the tables of the model are empty.\<close>

definition mall_init :: "db \<Rightarrow> bool" where
  "mall_init s \<longleftrightarrow> tb_categories s = [] \<and> tb_products s = [] \<and> tb_orders s = [] \<and> tb_items s = [] \<and>
     tb_payments s = [] \<and> tb_refunds s = [] \<and> tb_notifications s = [] \<and> tb_failures s = [] \<and>
     tb_actions s = [] \<and> tb_adjustments s = [] \<and> tb_fulfillment s = []"

abbreviation mall_reachable :: "db \<Rightarrow> bool" where
  "mall_reachable \<equiv> reachable mall_init mall_step"

section \<open>The contract of the operations\<close>

text \<open>
  A relation between the states before and after that the transactions of every component
  keep, and that does not look at the tables outside the core, holds of every step. The money
  and the stock interpret this locale.
\<close>

lemma reap_page_core: "core_eq s (snd (reap_page ins is rq s))"
proof (induction ins "is" rq s rule: reap_page.induct)
  case (2 ins i "is" requeued s)
  then show ?case
    by (auto split: sum.splits prod.splits dest: river_insert_core intro: core_eq_trans)
qed simp

lemma reap_loop_core: "core_eq s (snd (reap_loop ins grace n a rq s))"
proof (induction ins grace n a rq s rule: reap_loop.induct)
  case (1 ins grace n a rq s)
  let ?ids = "take (Suc n) (overdue_ids a grace s)"
  let ?r = "reap_page ins ?ids rq s"
  have page: "core_eq s (snd ?r)" by (rule reap_page_core)
  show ?case
  proof (cases "length ?ids < Suc n")
    case True
    then show ?thesis using page by (subst reap_loop.simps) (simp only: Let_def if_True)
  next
    case False
    then show ?thesis
      using core_eq_trans [OF page 1 [OF refl refl False]]
      by (subst reap_loop.simps) (simp only: Let_def if_False)
  qed
qed

lemma category_core:
  "repo_CreateCategory parent name sortOrder s = Inr (r1, s') \<Longrightarrow> core_eq s s'"
  "repo_UpdateCategory i name sortOrder s = Inr (r2, s') \<Longrightarrow> core_eq s s'"
  "repo_DeleteCategory i s = Inr (r3, s') \<Longrightarrow> core_eq s s'"
  unfolding repo_CreateCategory_def repo_UpdateCategory_def repo_DeleteCategory_def
  by (auto simp: q_CreateCategory_def q_UpdateCategory_def q_DeleteCategoryIfUnused_def q_GetCategory_def
      q_CountCategoryProductReferences_def q_CountSubCategories_def
      categoryDeletionRefusal_def tx_simps core_eq_def split: if_splits option.splits)

locale mall_relation = tx_relation R for R :: "db \<Rightarrow> db \<Rightarrow> bool" +
  assumes R_core: "core_eq s s' \<Longrightarrow> R s s'"
    and R_checkout: "check_items {} (coa_Items args) = Inr () \<Longrightarrow> tx_rel R (CreateOrder_body L jobs args)"
    and R_cancel: "tx_rel R (CancelOrderByUser i uid)"
    and R_expire: "tx_rel R (ExpireOrder_body jobs i)"
    and R_fulfil: "tx_rel R (ApplyFulfillment actor inp)"
    and R_open: "tx_rel R (CreatePayment_body cya)"
    and R_claim: "tx_rel R (ClaimPaymentPrepay i token lease)"
    and R_finalize: "tx_rel R (FinalizePaymentPrepay i token act)"
    and R_prepay_error: "tx_rel R (RecordPaymentPrepayError i token err)"
    and R_close_pending: "tx_rel R (MarkPayClosePending jobs cpa)"
    and R_apply: "tx_rel R (ApplyPayQuery_body cpa result)"
    and R_review: "tx_rel R (MarkReconciliationRequired f)"
    and R_require: "tx_rel R (requirePaymentReconciliation i reason detail)"
    and R_prepare: "tx_rel R (PreparePaymentRefund i no)"
    and R_refund: "tx_rel R (ApplyPaymentRefund i rid)"
    and R_refund_error: "tx_rel R (RecordPaymentRefundError i err definitive)"
    and R_reconcile: "tx_rel R (ApplyReconciliation jobs actor rin)"
    and R_adjust: "tx_rel R (repo_AdjustStock sai)"
    and R_create_product: "tx_rel R (q_CreateProduct cpr)"
    and R_update_product: "tx_rel R (q_UpdateProduct i cid name minor rate cover media text)"
    and R_product_status: "tx_rel R (q_UpdateProductStatus i status)"
    and R_delete_product: "tx_rel R (q_SoftDeleteProduct i)"
begin

lemma rel_seq_lift: "tx_rel R m \<Longrightarrow> tx_rel R (tx_seq (tx_lift v) m)"
  by (intro rel_seq rel_lift)

lemma rel_core_tx: "(\<And>s r s'. m s = Inr (r, s') \<Longrightarrow> core_eq s s') \<Longrightarrow> tx_rel R m"
  by (intro tx_relI R_core)

lemma R_readonly_snd: "(\<And>s r s'. m s = Inr (r, s') \<Longrightarrow> s' = s) \<Longrightarrow> R s (snd (InTx m s))"
  by (intro rel_InTx rel_readonly)

lemma R_get_product: "tx_rel R (q_GetProduct i)"
  by (rule rel_readonly) (auto simp: q_GetProduct_def q_GetProductForOrder_def split: option.splits if_splits)

lemma R_repo_CreateOrder:
  assumes "check_items {} (coa_Items args) = Inr ()"
  shows "R s (snd (repo_CreateOrder L jobs args s))"
proof -
  let ?q = "tx_bind (tx_on_no_rows (q_GetOrderByUserIdempotency (coa_UserID args) (coa_IdempotencyKey args))
              (tx_throw ErrIdempotencyKeyConflict)) (replay_order args)"
  let ?t = "InTx (CreateOrder_body L jobs args) s"
  have body: "R s (snd ?t)" by (intro rel_InTx R_checkout assms)
  have "tx_rel R ?q"
    by (rule rel_readonly) (auto simp: replay_order_def loadItems_def tx_simps sql_defs split: if_splits)
  then have again: "R (snd ?t) (snd (InTx ?q (snd ?t)))" by (rule rel_InTx)
  show ?thesis
    using body R_trans [OF body again] by (auto simp: repo_CreateOrder_def split: prod.splits sum.splits)
qed

lemma R_create_attempts:
  assumes "check_items {} (coa_Items args) = Inr ()"
  shows "R s (snd (create_attempts (repo_CreateOrder L jobs) args nos k n s))"
proof (induction n arbitrary: k s)
  case 0
  show ?case by (simp add: R_refl)
next
  case (Suc n)
  let ?args = "args\<lparr>coa_OutTradeNo := nos k\<rparr>"
  have one: "R s (snd (repo_CreateOrder L jobs ?args s))" by (rule R_repo_CreateOrder) (simp add: assms)
  show ?case
    using one R_trans [OF one Suc.IH] by (auto split: prod.splits sum.splits)
qed

lemma R_uc_CreateOrder: "R s (snd (uc_CreateOrder env idGen req s))"
proof (cases "check_order_req req")
  case (Inl e)
  then show ?thesis by (simp add: uc_CreateOrder_def R_refl)
next
  case (Inr q)
  then obtain key items where q: "check_order_req req = Inr (key, items)" by (cases q) auto
  have ok: "check_items {} items = Inr ()" using check_order_req_Inr(1) [OF q] .
  show ?thesis
  proof (cases idGen)
    case None
    then show ?thesis using q by (simp add: uc_CreateOrder_def R_refl)
  next
    case (Some nos)
    define args where "args = order_args env (the req) key items"
    define out where "out = create_attempts (repo_CreateOrder (env_decimal env) (env_jobs env)) args nos 0 orderNoAttempts s"
    have "check_items {} (coa_Items args) = Inr ()" using ok by (simp add: args_def order_args_def)
    then have "R s (snd out)" unfolding out_def by (rule R_create_attempts)
    moreover have "snd (uc_CreateOrder env idGen req s) = snd out"
      unfolding uc_CreateOrder_def q Some Let_def sum.case prod.case option.case
      by (simp add: args_def [symmetric] out_def [symmetric] split: prod.splits sum.splits)
    ultimately show ?thesis by simp
  qed
qed

lemma R_ExpireOrder: "R s (snd (ExpireOrder jobs i s))"
proof -
  have "R s (snd (InTx (ExpireOrder_body jobs i) s))" by (intro rel_InTx R_expire)
  then show ?thesis by (auto simp: ExpireOrder_def R_refl split: prod.splits sum.splits)
qed

lemma R_CreatePayment: "R s (snd (CreatePayment cya s))"
proof -
  have "R s (snd (InTx (CreatePayment_body cya) s))" by (intro rel_InTx R_open)
  then show ?thesis by (auto simp: CreatePayment_def split: prod.splits sum.splits)
qed

lemma R_ApplyPayQuery: "R s (snd (ApplyPayQuery cpa result s))"
proof -
  let ?t = "InTx (ApplyPayQuery_body cpa result) s"
  have one: "R s (snd ?t)" by (intro rel_InTx R_apply)
  have two: "R s (snd (InTx (MarkReconciliationRequired f) (snd ?t)))" for f
    by (rule R_trans [OF one]) (intro rel_InTx R_review)
  show ?thesis using one two by (auto simp: ApplyPayQuery_def split: prod.splits sum.splits)
qed

lemma R_ReapOverdueOrders: "R s (snd (ReapOverdueOrders jobs grace lmt s))"
proof (cases jobs)
  case None
  then show ?thesis by (simp add: ReapOverdueOrders_def Let_def R_refl)
next
  case (Some ins)
  have "core_eq s (snd (ReapOverdueOrders jobs grace lmt s))"
    unfolding ReapOverdueOrders_def Let_def Some option.case by (simp add: case_prod_beta reap_loop_core)
  then show ?thesis by (rule R_core)
qed

lemma R_products:
  "tx_rel R (uc_CreateProduct L parse cid name price discount stock status cover media desc)"
  "tx_rel R (uc_UpdateProduct L parse i cid name price discount cover media desc)"
  "tx_rel R (uc_UpdateProductStatus i status')"
  "tx_rel R (repo_SoftDeleteProduct i)"
  unfolding uc_CreateProduct_def repo_CreateProduct_def uc_UpdateProduct_def repo_UpdateProduct_def
    uc_UpdateProductStatus_def repo_UpdateProductStatus_def repo_SoftDeleteProduct_def
  by (intro rel_intros R_create_product R_update_product R_product_status R_delete_product R_get_product)+

lemma R_categories:
  "tx_rel R (repo_CreateCategory parent name sortOrder)"
  "tx_rel R (repo_UpdateCategory i name sortOrder)"
  "tx_rel R (repo_DeleteCategory i)"
  by (rule rel_core_tx, erule category_core)+

lemma R_notifications:
  "tx_rel R (PersistAndEnqueueNotification ins n cpa)"
  "tx_rel R (BeginPaymentNotificationProcessing i provider no)"
  "tx_rel R (RecordPaymentNotificationError i err)"
  "tx_rel R (MarkPaymentNotificationFailed i err)"
  "tx_rel R (RecordReconciliationFailure f)"
  unfolding RecordReconciliationFailure_def
  by (rule rel_core_tx, erule PersistAndEnqueueNotification_core BeginPaymentNotificationProcessing_core
      RecordPaymentNotificationError_core MarkPaymentNotificationFailed_core createReconciliationFailure_core)+

lemma R_use_cases:
  "tx_rel R (uc_CancelOrder i uid)"
  "tx_rel R (uc_ApplyFulfillment actor inp)"
  "tx_rel R (uc_ApplyReconciliation jobs actor rin)"
  "tx_rel R (uc_AdjustStock sai)"
  unfolding uc_CancelOrder_def uc_ApplyFulfillment_def uc_ApplyReconciliation_def uc_AdjustStock_def
  by (intro rel_intros R_cancel R_fulfil R_reconcile R_adjust)+

lemma R_enqueue: "tx_rel R (enqueue ins cpa delay)"
  by (rule rel_core_tx, erule enqueue_core)

lemma R_activate: "tx_rel R (activate_prepay jobs policy poll provider expiresAt i token act)"
  unfolding activate_prepay_def by (intro rel_intros R_finalize R_enqueue)

lemma R_discard: "tx_rel R (discard_job jid attempt pid nid provider version err)"
proof -
  have "tx_rel R (fail_notification nid err)"
    "tx_rel R (q_CreatePaymentReconciliationFailure pid provider why jid' n err)" for why jid' n
    by (rule rel_core_tx, erule fail_notification_core q_CreatePaymentReconciliationFailure_core)+
  moreover have "tx_rel R (q_GetPayment pid)" "tx_rel R (q_GetOrderForUpdate oid)"
    "tx_rel R (q_ListPaymentsByOrderForUpdate oid)" for oid
    unfolding q_GetPayment_def q_GetOrderForUpdate_def q_ListPaymentsByOrderForUpdate_def by (intro rel_intros)+
  ultimately show ?thesis unfolding discard_job_def by (intro rel_intros R_require)
qed

lemma R_HandleError: "R s (HandleError job err s)"
  unfolding HandleError_def by (auto intro: R_refl rel_InTx R_discard split: job_args.splits)

lemmas R_tx = R_enqueue R_activate R_use_cases R_notifications R_categories R_products R_claim R_finalize R_prepay_error
  R_close_pending R_review R_prepare R_refund R_refund_error

lemma R_InTx: "tx_rel R m \<Longrightarrow> InTx m s = (r, s') \<Longrightarrow> R s s'"
  using rel_InTx [of m s] by simp

lemma step_rel: "mall_step s s' \<Longrightarrow> R s s'"
proof (induction rule: mall_step.induct)
  case (Checkout env idGen req s r s')
  then show ?case using R_uc_CreateOrder [of s env idGen req] by simp
next
  case (Expire jobs i s r s')
  then show ?case using R_ExpireOrder [of s jobs i] by simp
next
  case (Reap jobs grace lmt s r s')
  then show ?case using R_ReapOverdueOrders [of s jobs grace lmt] by simp
next
  case (OpenPayment cya s r s')
  then show ?case using R_CreatePayment [of s cya] by simp
next
  case (ProviderResult cpa result s r s')
  then show ?case using R_ApplyPayQuery [of s cpa result] by simp
next
  case (JobDiscarded s job err)
  show ?case by (rule R_HandleError)
next
  case Outside
  show ?case by (rule R_core) (simp add: core_eq_def)
qed (erule R_InTx [rotated], rule R_tx)+

end

section \<open>The mall refines the ledger\<close>

lemma sim_AdjustStock: "tx_rel sim (repo_AdjustStock sai)"
proof -
  have "tx_rel sim (q_AdjustProductStock i d)" for i d
    unfolding q_AdjustProductStock_def
    by (rule tx_relI) (auto simp: tx_simps check_stock_def intro: sim_products)
  moreover have "tx_rel sim (q_CreateStockAdjustment a b c d e f)" for a b c d e f
    by (rule tx_relI) (auto simp: sql_defs tx_simps sim_def abs_db_def db_ok_def)
  moreover have "tx_rel sim (q_GetProductForOrder i)" for i
    by (rule sim.rel_readonly) (auto simp: q_GetProductForOrder_def split: option.splits if_splits)
  moreover have "tx_rel sim (q_GetRestorableProductStock i)" "tx_rel sim (q_GetStockAdjustment i k)" for i k
    by (auto simp: sql_defs intro: sim.rel_read sim.rel_find)
  ultimately show ?thesis unfolding repo_AdjustStock_def by (intro sim.rel_intros)
qed

lemma sim_catalog:
  "tx_rel sim (q_CreateProduct cpr)"
  "tx_rel sim (q_UpdateProduct i cid name minor rate cover media text)"
  "tx_rel sim (q_UpdateProductStatus i status)"
  "tx_rel sim (q_SoftDeleteProduct i)"
  unfolding q_CreateProduct_def q_UpdateProduct_def q_UpdateProductStatus_def q_SoftDeleteProduct_def
    check_stock_def check_product_def
  by (rule tx_relI, auto simp: tx_simps Let_def sim.R_refl intro: sim_products split: if_splits)+

interpretation money_steps: mall_relation sim
  by unfold_locales
     (rule sim_core sim_CreateOrder_body sim_CancelOrderByUser sim_ExpireOrder_body sim_ApplyFulfillment
       sim_CreatePayment_body sim_ClaimPaymentPrepay sim_FinalizePaymentPrepay sim_RecordPaymentPrepayError
       sim_MarkPayClosePending sim_ApplyPayQuery_body sim_MarkReconciliationRequired sim_requireReconciliation sim_PreparePaymentRefund
       sim_ApplyPaymentRefund sim_RecordPaymentRefundError sim_ApplyReconciliation sim_AdjustStock sim_catalog,
      assumption?)+

interpretation mall: simulation ledger_init ledger_step ledger_inv mall_init mall_step db_ok abs_db
proof
  show "db_ok c" "ledger_init (abs_db c)" if "mall_init c" for c
    using that by (simp_all add: mall_init_def db_ok_def pk_def ledger_init_def abs_db_def refund_of_def fun_eq_iff)
  show "db_ok c'" "rtranclp ledger_step (abs_db c) (abs_db c')"
    if "db_ok c" "ledger_inv (abs_db c)" "mall_step c c'" for c c'
    using money_steps.step_rel [OF that(3)] that(1,2) by (simp_all add: sim_def)
qed

text \<open>What holds of the rows of a reachable state.\<close>

lemma reach_inv:
  assumes "mall_reachable s"
  shows "db_ok s" and "ledger_inv (abs_db s)"
  using mall.sim_invariants [OF assms] by auto

lemma reach_order:
  assumes "mall_reachable s" and "find_row ord_ID i (tb_orders s) = Some r"
  shows "order_ok (abs_db s) i (abs_order r)"
  using reach_inv [OF assms(1)] assms(2) by (simp add: ledger_inv_def)

lemma reach_pay:
  assumes "mall_reachable s" and "find_row pay_ID i (tb_payments s) = Some p"
  shows "pay_ok (abs_db s) i (abs_pay p)"
  using reach_inv [OF assms(1)] assms(2) by (simp add: ledger_inv_def)

lemma reach_refund:
  assumes "mall_reachable s" and "refund_of i (tb_refunds s) = Some f"
  shows "refund_ok (abs_db s) i (abs_refund f)"
  using reach_inv [OF assms(1)] assms(2) by (simp add: ledger_inv_def)

end
