(* ===== verification/StockInvariant.thy ===== *)
theory StockInvariant
  imports Mall
begin

text \<open>
  The stock over the life of the mall. Every unit of a product is on the shelf, held by an
  order, or accounted for by an adjustment; what a cancellation or a refund may still give
  back always fits the INTEGER column. The relation \<open>stk\<close> is shown for every transaction
  and the contract of \<open>mall_relation\<close> carries it to every step.
\<close>

section \<open>Quantities\<close>

definition status_in :: "(order_status \<Rightarrow> bool) \<Rightarrow> order list \<Rightarrow> int \<Rightarrow> bool" where
  "status_in P os oid = (case find_row ord_ID oid os of None \<Rightarrow> False | Some r \<Rightarrow> P (ord_Status r))"

text \<open>The quantity of a product in the orders whose status satisfies \<open>P\<close>.\<close>

definition reserved :: "(order_status \<Rightarrow> bool) \<Rightarrow> order list \<Rightarrow> order_item list \<Rightarrow> int \<Rightarrow> int" where
  "reserved P os is pid =
     (\<Sum>i \<leftarrow> is. if itm_ProductID i = pid \<and> status_in P os (itm_OrderID i) then itm_Quantity i else 0)"

definition qty_of :: "order_item list \<Rightarrow> int \<Rightarrow> int \<Rightarrow> int" where
  "qty_of is oid pid = (\<Sum>i \<leftarrow> is. if itm_ProductID i = pid \<and> itm_OrderID i = oid then itm_Quantity i else 0)"

definition adjusted :: "stock_adjustment list \<Rightarrow> int \<Rightarrow> int" where
  "adjusted as pid = (\<Sum>a \<leftarrow> as. if adj_ProductID a = pid then adj_Delta a else 0)"

text \<open>An order holds its items until it is cancelled or refunded.\<close>

definition holds_stock :: "order_status \<Rightarrow> bool" where
  "holds_stock st \<longleftrightarrow> st \<noteq> OrderStatusCancelled \<and> st \<noteq> OrderStatusRefunded"

text \<open>The units a product started with: on the shelf and held, less the adjustments.\<close>

definition units :: "db \<Rightarrow> product \<Rightarrow> int" where
  "units s p = prd_Stock p + reserved holds_stock (tb_orders s) (tb_items s) (prd_ID p)
     - adjusted (tb_adjustments s) (prd_ID p)"

definition items_ok :: "order list \<Rightarrow> product list \<Rightarrow> order_item list \<Rightarrow> bool" where
  "items_ok os ps is \<longleftrightarrow>
     (\<forall>i \<in> set is. 0 < itm_Quantity i \<and> find_row ord_ID (itm_OrderID i) os \<noteq> None \<and>
        find_row prd_ID (itm_ProductID i) ps \<noteq> None) \<and>
     distinct (map (\<lambda>i. (itm_OrderID i, itm_ProductID i)) is)"

definition room_ok :: "order list \<Rightarrow> order_item list \<Rightarrow> product \<Rightarrow> bool" where
  "room_ok os is p \<longleftrightarrow> 0 \<le> prd_Stock p \<and> prd_Stock p + reserved restorable os is (prd_ID p) \<le> MaxInt32"

definition stock_ok :: "db \<Rightarrow> bool" where
  "stock_ok s \<longleftrightarrow> pk ord_ID (tb_orders s) \<and> pk prd_ID (tb_products s) \<and>
     items_ok (tb_orders s) (tb_products s) (tb_items s) \<and>
     (\<forall>p \<in> set (tb_products s). room_ok (tb_orders s) (tb_items s) p)"

text \<open>Every product stays, with the units it had.\<close>

definition units_kept :: "db \<Rightarrow> db \<Rightarrow> bool" where
  "units_kept s s' \<longleftrightarrow> (\<forall>i p. find_row prd_ID i (tb_products s) = Some p \<longrightarrow>
     (\<exists>p'. find_row prd_ID i (tb_products s') = Some p' \<and> units s' p' = units s p))"

definition stk :: "db \<Rightarrow> db \<Rightarrow> bool" where
  "stk s s' \<longleftrightarrow> (stock_ok s \<longrightarrow> stock_ok s' \<and> units_kept s s')"

lemma stkI: "(stock_ok s \<Longrightarrow> stock_ok s') \<Longrightarrow> (stock_ok s \<Longrightarrow> units_kept s s') \<Longrightarrow> stk s s'"
  by (simp add: stk_def)

lemma units_kept_trans: "units_kept s t \<Longrightarrow> units_kept t u \<Longrightarrow> units_kept s u"
  unfolding units_kept_def by metis

interpretation stk: tx_relation stk
proof
  show "stk s s" for s by (simp add: stk_def units_kept_def)
  show "stk s u" if "stk s t" "stk t u" for s t u
    using that units_kept_trans unfolding stk_def by blast
qed

text \<open>A statement that leaves the four tables alone keeps the relation.\<close>

definition stock_eq :: "db \<Rightarrow> db \<Rightarrow> bool" where
  "stock_eq s s' \<longleftrightarrow> tb_products s' = tb_products s \<and> tb_orders s' = tb_orders s \<and>
     tb_items s' = tb_items s \<and> tb_adjustments s' = tb_adjustments s"

lemma stk_same: "stock_eq s s' \<Longrightarrow> stk s s'"
  by (simp add: stk_def stock_ok_def units_kept_def units_def stock_eq_def)

section \<open>How the quantities change\<close>

lemma reserved_Cons [simp]:
  "reserved P os [] pid = 0"
  "reserved P os (i # is) pid =
     (if itm_ProductID i = pid \<and> status_in P os (itm_OrderID i) then itm_Quantity i else 0) + reserved P os is pid"
  by (simp_all add: reserved_def)

lemma reserved_snoc:
  "reserved P os (is @ [i]) pid =
     reserved P os is pid + (if itm_ProductID i = pid \<and> status_in P os (itm_OrderID i) then itm_Quantity i else 0)"
  by (simp add: reserved_def)

lemma adjusted_snoc:
  "adjusted (as @ [a]) pid = adjusted as pid + (if adj_ProductID a = pid then adj_Delta a else 0)"
  by (simp add: adjusted_def)

lemma qty_of_Cons [simp]:
  "qty_of [] oid pid = 0"
  "qty_of (i # is) oid pid =
     (if itm_ProductID i = pid \<and> itm_OrderID i = oid then itm_Quantity i else 0) + qty_of is oid pid"
  by (simp_all add: qty_of_def)

lemma qty_of_nonneg: "(\<And>i. i \<in> set is \<Longrightarrow> 0 < itm_Quantity i) \<Longrightarrow> 0 \<le> qty_of is oid pid"
  unfolding qty_of_def by (intro sum_list_map_nonneg) (auto simp: less_imp_le)

lemma qty_of_item_of:
  assumes "distinct (map (\<lambda>i. (itm_OrderID i, itm_ProductID i)) is)"
  shows "qty_of is oid pid = (case item_of oid pid is of None \<Rightarrow> 0 | Some i \<Rightarrow> itm_Quantity i)"
  using assms
proof (induction "is")
  case (Cons i "is")
  have none: "qty_of is oid pid = 0" if "(oid, pid) \<notin> (\<lambda>i. (itm_OrderID i, itm_ProductID i)) ` set is"
    using that by (induction "is") auto
  show ?case using Cons none by (auto simp: item_of_def)
qed (simp add: item_of_def)

lemma status_in_upd:
  assumes "\<And>r. ord_ID (f r) = ord_ID r" and "find_row ord_ID oid os = Some r"
  shows "status_in P (upd_row ord_ID oid f os) j = (if j = oid then P (ord_Status (f r)) else status_in P os j)"
  using assms by (simp add: status_in_def find_row_upd)

lemma reserved_upd:
  assumes f: "\<And>r. ord_ID (f r) = ord_ID r" and r: "find_row ord_ID oid os = Some r"
  shows "reserved P (upd_row ord_ID oid f os) is pid = reserved P os is pid
    + (of_bool (P (ord_Status (f r))) - of_bool (P (ord_Status r))) * qty_of is oid pid"
proof (induction "is")
  case (Cons i "is")
  have "status_in P os oid = P (ord_Status r)" using r by (simp add: status_in_def)
  then show ?case using Cons status_in_upd [OF f r, of P "itm_OrderID i"] by (auto simp: algebra_simps)
qed simp

lemma reserved_new_order:
  assumes "items_ok os ps is" and "ord_ID r = next_id ord_ID os"
  shows "reserved P (os @ [r]) is pid = reserved P os is pid"
proof -
  have "status_in P (os @ [r]) (itm_OrderID i) = status_in P os (itm_OrderID i)" if "i \<in> set is" for i
  proof -
    have "itm_OrderID i \<noteq> ord_ID r"
      using assms that find_row_next_id [of ord_ID os] by (auto simp: items_ok_def)
    then show ?thesis using assms(2) by (simp add: status_in_def find_row_insert)
  qed
  then show ?thesis unfolding reserved_def by (intro sum_list_map_cong) auto
qed

lemma reserved_no_items: "(\<And>i. i \<in> set is \<Longrightarrow> itm_ProductID i \<noteq> pid) \<Longrightarrow> reserved P os is pid = 0"
  by (induction "is") auto

section \<open>The changes the transactions make\<close>

text \<open>An order moves to a status that holds the same stock and can give back no more.\<close>

lemma stk_order:
  assumes f: "\<And>r. ord_ID (f r) = ord_ID r" and r: "find_row ord_ID oid (tb_orders s) = Some r"
    and st: "holds_stock (ord_Status (f r)) = holds_stock (ord_Status r)"
      "restorable (ord_Status (f r)) \<Longrightarrow> restorable (ord_Status r)"
  shows "stk s (s\<lparr>tb_orders := upd_row ord_ID oid f (tb_orders s)\<rparr>)" (is "stk s ?s")
proof (rule stkI)
  assume ok: "stock_ok s"
  let ?os = "upd_row ord_ID oid f (tb_orders s)"
  have item: "find_row ord_ID j ?os = None \<longleftrightarrow> find_row ord_ID j (tb_orders s) = None" for j
    using f r by (simp add: find_row_upd)
  have "0 \<le> qty_of (tb_items s) oid pid" for pid
    using ok by (intro qty_of_nonneg) (auto simp: stock_ok_def items_ok_def)
  then have "reserved restorable ?os (tb_items s) pid \<le> reserved restorable (tb_orders s) (tb_items s) pid" for pid
    unfolding reserved_upd [OF f r] using st(2) by (cases "restorable (ord_Status (f r))") auto
  then have "room_ok ?os (tb_items s) p" if "room_ok (tb_orders s) (tb_items s) p" for p
    using that unfolding room_ok_def by (smt (verit))
  then show "stock_ok ?s"
    using ok f by (auto simp: stock_ok_def items_ok_def pk_upd_row item)
  have "reserved holds_stock ?os (tb_items s) pid = reserved holds_stock (tb_orders s) (tb_items s) pid" for pid
    unfolding reserved_upd [OF f r] using st(1) by simp
  then show "units_kept s ?s" by (simp add: units_kept_def units_def)
qed

text \<open>An order releases its items: they go back to the shelf and the order no longer holds them.\<close>

lemma restore_product_eq:
  assumes "items_ok os ps is"
  shows "restore_product is oid p = p\<lparr>prd_Stock := prd_Stock p + qty_of is oid (prd_ID p)\<rparr>"
proof -
  have "distinct (map (\<lambda>i. (itm_OrderID i, itm_ProductID i)) is)" using assms by (simp add: items_ok_def)
  from qty_of_item_of [OF this] show ?thesis by (simp add: restore_product_def split: option.splits)
qed

lemma restore_id [simp]: "prd_ID (restore_product is oid p) = prd_ID p"
  by (simp add: restore_product_def split: option.splits)

lemma stk_release:
  assumes f: "\<And>r. ord_ID (f r) = ord_ID r" and r: "find_row ord_ID oid (tb_orders s) = Some r"
    and st: "restorable (ord_Status r)" "holds_stock (ord_Status r)"
      "\<not> holds_stock (ord_Status (f r))" "\<not> restorable (ord_Status (f r))"
    and s': "s' = s\<lparr>tb_products := map (restore_product (tb_items s) oid) (tb_products s),
      tb_orders := upd_row ord_ID oid f (tb_orders s)\<rparr>"
  shows "stk s s'"
proof (rule stkI)
  assume ok: "stock_ok s"
  then have items: "items_ok (tb_orders s) (tb_products s) (tb_items s)" by (simp add: stock_ok_def)
  let ?os = "upd_row ord_ID oid f (tb_orders s)"
  let ?g = "restore_product (tb_items s) oid"
  have g: "?g p = p\<lparr>prd_Stock := prd_Stock p + qty_of (tb_items s) oid (prd_ID p)\<rparr>" for p
    by (rule restore_product_eq [OF items])
  have item: "find_row ord_ID j ?os = None \<longleftrightarrow> find_row ord_ID j (tb_orders s) = None" for j
    using f r by (simp add: find_row_upd)
  have nn: "0 \<le> qty_of (tb_items s) oid pid" for pid
    using items by (intro qty_of_nonneg) (auto simp: items_ok_def)
  have res: "reserved restorable ?os (tb_items s) pid =
      reserved restorable (tb_orders s) (tb_items s) pid - qty_of (tb_items s) oid pid"
    "reserved holds_stock ?os (tb_items s) pid =
      reserved holds_stock (tb_orders s) (tb_items s) pid - qty_of (tb_items s) oid pid" for pid
    unfolding reserved_upd [OF f r] using st by simp_all
  have "room_ok ?os (tb_items s) (?g p)" if "room_ok (tb_orders s) (tb_items s) p" for p
    using that nn [of "prd_ID p"] unfolding room_ok_def g by (simp add: res)
  moreover have "pk prd_ID (map ?g (tb_products s)) = pk prd_ID (tb_products s)"
    by (simp add: pk_def comp_def)
  ultimately show "stock_ok s'"
    using ok f by (auto simp: s' stock_ok_def items_ok_def pk_upd_row item find_row_map)
  show "units_kept s s'"
    unfolding units_kept_def units_def s'
    by (auto simp: find_row_map g res)
qed

text \<open>What an order can give back always fits the column, so releasing it cannot fail.\<close>

lemma reserved_ge_qty:
  assumes "items_ok os ps is" and "find_row ord_ID oid os = Some r" and "restorable (ord_Status r)"
  shows "qty_of is oid pid \<le> reserved restorable os is pid"
proof -
  have "0 < itm_Quantity i" if "i \<in> set is" for i using assms(1) that by (simp add: items_ok_def)
  moreover have "status_in restorable os oid" using assms by (simp add: status_in_def)
  ultimately show ?thesis unfolding qty_of_def reserved_def
    by (intro sum_list_map_mono) (auto simp: less_imp_le)
qed

lemma restore_succeeds:
  assumes ok: "stock_ok s" and r: "find_row ord_ID oid (tb_orders s) = Some r" "restorable (ord_Status r)"
  shows "q_RestoreOrderItemStock oid s
    = Inr ((), s\<lparr>tb_products := map (restore_product (tb_items s) oid) (tb_products s)\<rparr>)"
proof -
  have items: "items_ok (tb_orders s) (tb_products s) (tb_items s)" using ok by (simp add: stock_ok_def)
  have "0 \<le> prd_Stock (restore_product (tb_items s) oid p) \<and>
        prd_Stock (restore_product (tb_items s) oid p) \<le> MaxInt32" if "p \<in> set (tb_products s)" for p
  proof -
    have "room_ok (tb_orders s) (tb_items s) p" using ok that by (simp add: stock_ok_def)
    moreover have "0 \<le> qty_of (tb_items s) oid (prd_ID p)"
      using items by (intro qty_of_nonneg) (auto simp: items_ok_def)
    ultimately show ?thesis
      using reserved_ge_qty [OF items r, of "prd_ID p"] unfolding restore_product_eq [OF items] room_ok_def by simp
  qed
  then have "\<not> (\<exists>p \<in> set (map (restore_product (tb_items s) oid) (tb_products s)). \<not> int32_range (prd_Stock p))"
    "\<not> (\<exists>p \<in> set (map (restore_product (tb_items s) oid) (tb_products s)). prd_Stock p < 0)"
    by (fastforce simp: int32_range_def MaxInt32_def)+
  then show ?thesis unfolding q_RestoreOrderItemStock_def Let_def by (simp only: if_False)
qed

text \<open>A reservation: the units leave the shelf and the item row holds them.\<close>

lemma stk_reserve:
  assumes r: "find_row ord_ID oid (tb_orders s) = Some r" "restorable (ord_Status r)" "holds_stock (ord_Status r)"
    and p: "find_row prd_ID pid (tb_products s) = Some p" "n \<le> prd_Stock p" "0 < n"
    and i: "itm_OrderID i = oid" "itm_ProductID i = pid" "itm_Quantity i = n"
    and fresh: "\<And>j. j \<in> set (tb_items s) \<Longrightarrow> itm_OrderID j = oid \<Longrightarrow> itm_ProductID j \<noteq> pid"
    and s': "s' = s\<lparr>tb_products := upd_row prd_ID pid (\<lambda>p. p\<lparr>prd_Stock := prd_Stock p - n\<rparr>) (tb_products s),
      tb_items := tb_items s @ [i]\<rparr>"
  shows "stk s s'"
proof (rule stkI)
  assume ok: "stock_ok s"
  let ?f = "\<lambda>p :: product. p\<lparr>prd_Stock := prd_Stock p - n\<rparr>"
  have st: "status_in restorable (tb_orders s) oid" "status_in holds_stock (tb_orders s) oid"
    using r by (simp_all add: status_in_def)
  have res: "reserved P (tb_orders s) (tb_items s @ [i]) k =
      reserved P (tb_orders s) (tb_items s) k + (if k = pid \<and> status_in P (tb_orders s) oid then n else 0)" for P k
    using i by (auto simp: reserved_snoc)
  have uniq: "x = p" if "x \<in> set (tb_products s)" "prd_ID x = pid" for x
    using ok that p find_row_mem [of prd_ID "tb_products s" x] by (auto simp: stock_ok_def pk_def)
  have pk: "pk prd_ID (upd_row prd_ID pid ?f (tb_products s)) = pk prd_ID (tb_products s)"
    by (rule pk_upd_row) simp
  have find: "find_row prd_ID k (upd_row prd_ID pid ?f (tb_products s))
      = (if k = pid then Some (?f p) else find_row prd_ID k (tb_products s))" for k
    using p by (simp add: find_row_upd)
  have pair: "(oid, pid) \<notin> (\<lambda>i. (itm_OrderID i, itm_ProductID i)) ` set (tb_items s)" using fresh by auto
  have "items_ok (tb_orders s) (tb_products s) (tb_items s)" using ok by (simp add: stock_ok_def)
  then have items: "items_ok (tb_orders s) (upd_row prd_ID pid ?f (tb_products s)) (tb_items s @ [i])"
    using i r p pair unfolding items_ok_def find by auto
  have "room_ok (tb_orders s) (tb_items s @ [i]) x" if x: "x \<in> set (upd_row prd_ID pid ?f (tb_products s))" for x
  proof -
    obtain y where y: "y \<in> set (tb_products s)" "x = (if prd_ID y = pid then ?f y else y)"
      using x unfolding set_upd_row by blast
    have "room_ok (tb_orders s) (tb_items s) y" using ok y by (simp add: stock_ok_def)
    then show ?thesis using y uniq [OF y(1)] p st unfolding room_ok_def by (auto simp: res split: if_splits)
  qed
  then show "stock_ok s'" using ok pk items by (simp add: s' stock_ok_def)
  have "prd_ID p = pid" using p(1) find_row_key by metis
  then show "units_kept s s'"
    unfolding units_kept_def units_def s' using st p(1)
    by (auto simp: find res dest: find_row_key)
qed

lemma stk_reserve_items:
  assumes "reserve_items oid snaps s = Inr (items, s')"
    and "find_row ord_ID oid (tb_orders s) = Some r" "ord_Status r = OrderStatusPendingPayment"
    and "distinct (map (oii_ProductID \<circ> snp_input) snaps)"
    and "\<And>j sn. j \<in> set (tb_items s) \<Longrightarrow> itm_OrderID j = oid \<Longrightarrow> sn \<in> set snaps \<Longrightarrow>
           itm_ProductID j \<noteq> oii_ProductID (snp_input sn)"
  shows "stk s s'"
  using assms
proof (induction snaps arbitrary: s items)
  case Nil
  then show ?case by (simp add: tx_simps stk.R_refl)
next
  case (Cons sn snaps)
  let ?pid = "oii_ProductID (snp_input sn)"
  let ?n = "oii_Quantity (snp_input sn)"
  from Cons.prems(1) obtain x s1 y s2 its where run: "q_DecrProductStock ?pid ?n s = Inr (x, s1)"
    "q_CreateOrderItem oid ?pid ?n (snp_unitPrice sn) (prd_Name (snp_product sn)) (prd_CoverImage (snp_product sn)) s1
       = Inr (y, s2)"
    "reserve_items oid snaps s2 = Inr (its, s')"
    by (rule reserve_items_Cons)
  obtain p where eff: "find_row prd_ID ?pid (tb_products s) = Some p" "?n \<le> prd_Stock p" "0 < ?n"
    "itm_OrderID y = oid" "itm_ProductID y = ?pid" "itm_Quantity y = ?n"
    "s2 = s\<lparr>tb_products := upd_row prd_ID ?pid (\<lambda>p. p\<lparr>prd_Stock := prd_Stock p - ?n\<rparr>) (tb_products s),
           tb_items := tb_items s @ [y]\<rparr>"
    using decr_item_effect [OF run(1,2)] by auto
  have "stk s s2"
    by (rule stk_reserve [OF Cons.prems(2) _ _ eff(1-6) _ eff(7)])
       (use Cons.prems in \<open>auto simp: restorable_def holds_stock_def\<close>)
  moreover have "stk s2 s'"
    by (rule Cons.IH [OF run(3)]) (use Cons.prems eff in \<open>auto simp: image_iff\<close>)
  ultimately show ?case by (rule stk.R_trans)
qed

lemma stk_new_order:
  assumes "ord_ID r = next_id ord_ID (tb_orders s)"
  shows "stk s (s\<lparr>tb_orders := tb_orders s @ [r]\<rparr>)"
proof (rule stkI)
  assume ok: "stock_ok s"
  then have items: "items_ok (tb_orders s) (tb_products s) (tb_items s)" by (simp add: stock_ok_def)
  note res = reserved_new_order [OF items assms]
  have "items_ok (tb_orders s @ [r]) (tb_products s) (tb_items s)"
    using items assms by (auto simp: items_ok_def find_row_insert)
  then show "stock_ok (s\<lparr>tb_orders := tb_orders s @ [r]\<rparr>)"
    using ok assms by (simp add: stock_ok_def pk_insert room_ok_def res)
  show "units_kept s (s\<lparr>tb_orders := tb_orders s @ [r]\<rparr>)" by (simp add: units_kept_def units_def res)
qed

text \<open>The products of the catalogue: a new one, and a change of anything but the stock.\<close>

lemma stk_new_product:
  assumes p: "prd_ID p = next_id prd_ID (tb_products s)" "0 \<le> prd_Stock p" "int32_range (prd_Stock p)"
  shows "stk s (s\<lparr>tb_products := tb_products s @ [p]\<rparr>)"
proof (rule stkI)
  assume ok: "stock_ok s"
  then have items: "items_ok (tb_orders s) (tb_products s) (tb_items s)" by (simp add: stock_ok_def)
  have "itm_ProductID i \<noteq> prd_ID p" if "i \<in> set (tb_items s)" for i
    using items that p(1) find_row_next_id [of prd_ID "tb_products s"] by (auto simp: items_ok_def)
  then have "reserved restorable (tb_orders s) (tb_items s) (prd_ID p) = 0" by (rule reserved_no_items)
  then have "room_ok (tb_orders s) (tb_items s) p"
    using p by (simp add: room_ok_def int32_range_def MaxInt32_def)
  moreover have "items_ok (tb_orders s) (tb_products s @ [p]) (tb_items s)"
    using items p(1) by (auto simp: items_ok_def find_row_insert)
  ultimately show "stock_ok (s\<lparr>tb_products := tb_products s @ [p]\<rparr>)"
    using ok p(1) by (auto simp: stock_ok_def pk_insert)
  have "find_row prd_ID i (tb_products s) = Some q \<Longrightarrow> i \<noteq> prd_ID p" for i q
    using p(1) find_row_next_id [of prd_ID "tb_products s"] by auto
  then show "units_kept s (s\<lparr>tb_products := tb_products s @ [p]\<rparr>)"
    using p(1) by (auto simp: units_kept_def units_def find_row_insert)
qed

lemma stk_product:
  assumes f: "\<And>p. prd_ID (f p) = prd_ID p" "\<And>p. prd_Stock (f p) = prd_Stock p"
  shows "stk s (s\<lparr>tb_products := upd_row prd_ID i f (tb_products s)\<rparr>)" (is "stk s ?s")
proof (rule stkI)
  assume ok: "stock_ok s"
  have find: "find_row prd_ID j (upd_row prd_ID i f (tb_products s))
      = (if j = i then map_option f (find_row prd_ID i (tb_products s)) else find_row prd_ID j (tb_products s))" for j
    using f(1) by (rule find_row_upd)
  have pk: "pk prd_ID (upd_row prd_ID i f (tb_products s)) = pk prd_ID (tb_products s)" using f(1) by (rule pk_upd_row)
  have items: "items_ok os (upd_row prd_ID i f (tb_products s)) is = items_ok os (tb_products s) is" for os "is"
    by (auto simp: items_ok_def find)
  have "room_ok os is (f p) = room_ok os is p" for os "is" p using f by (simp add: room_ok_def)
  then show "stock_ok ?s" using ok by (auto simp: stock_ok_def items pk set_upd_row)
  show "units_kept s ?s" using f by (auto simp: units_kept_def units_def find)
qed

section \<open>Every transaction keeps the relation\<close>

named_theorems stk_rules \<open>statements and bodies that keep the stock relation\<close>

declare stk.rel_intros [stk_rules]

lemma stk_same_tx: "(\<And>s r s'. m s = Inr (r, s') \<Longrightarrow> stock_eq s s') \<Longrightarrow> tx_rel stk m"
  by (intro tx_relI stk_same)

lemma stk_core: "core_eq s s' \<Longrightarrow> stk s s'"
  by (rule stk_same) (simp add: core_eq_def stock_eq_def)

lemma stk_core_tx: "(\<And>s r s'. m s = Inr (r, s') \<Longrightarrow> core_eq s s') \<Longrightarrow> tx_rel stk m"
  by (intro tx_relI stk_core)

lemma stk_reads [stk_rules]:
  "tx_rel stk (q_GetPayment i)" "tx_rel stk (q_GetPaymentForUpdate i)" "tx_rel stk (q_GetOrder i)"
  "tx_rel stk (q_GetOrderForUpdate i)" "tx_rel stk (q_GetOrderByUserForUpdate i u)"
  "tx_rel stk (q_GetOrderForUpdateByPaymentID i)" "tx_rel stk (q_OrderIsExpired i)"
  "tx_rel stk (q_ListPaymentsByOrderForUpdate i)" "tx_rel stk (q_LockUserForReference i)"
  "tx_rel stk (q_GetOrderRefundByPaymentID i)" "tx_rel stk (q_GetOrderByUserIdempotency i k)"
  "tx_rel stk (q_GetReconciliationAction i k)" "tx_rel stk (q_HasUnresolvedProviderRefund i)"
  "tx_rel stk (q_GetOrderFulfillmentAction i k)" "tx_rel stk (q_GetProductForOrder i)"
  "tx_rel stk (q_GetStockAdjustment i k)" "tx_rel stk (q_GetRestorableProductStock i)"
  "tx_rel stk (q_LockOrderIdempotency i k)" "tx_rel stk (q_GetShippingAddressForSnapshot a u)"
  "tx_rel stk (q_ListOrderItems i)"
  by (auto simp: tx_rel_def tx_simps sql_defs q_GetOrderByUserForUpdate_def q_GetProductForOrder_def stk.R_refl
      split: option.splits if_splits)

text \<open>The statements on payments, refunds and the tables around them.\<close>

lemma stk_payments [stk_rules]:
  "tx_rel stk (q_ClaimPaymentPrepay i token lease)" "tx_rel stk (q_FinalizePaymentPrepay i token a b)"
  "tx_rel stk (q_RecordPaymentPrepayError i token e)" "tx_rel stk (q_MarkPaymentClosePending i)"
  "tx_rel stk (q_MarkPaymentClosed i)" "tx_rel stk (q_MarkPaymentFailed i e)"
  "tx_rel stk (q_RequirePaymentReconciliation i rsn dtl)" "tx_rel stk (q_RetryPaymentReconciliation i v)"
  "tx_rel stk (q_ConfirmPaymentRefunded i)" "tx_rel stk (q_RetryOrderRefund i)"
  "tx_rel stk (q_RecordOrderRefundError d err i)" "tx_rel stk (q_MarkOrderRefundSuccess i j)"
  by (rule stk_same_tx, force simp: tx_simps sql_defs stock_eq_def)+

lemma stk_record_success [stk_rules]: "tx_rel stk (q_RecordPaymentSuccess i t)"
  by (rule stk_same_tx) (auto simp: q_RecordPaymentSuccess_def tx_simps stock_eq_def)

lemma stk_resolve [stk_rules]: "tx_rel stk (q_ResolvePaymentReconciliation i v)"
  by (rule stk_same_tx) (auto simp: q_ResolvePaymentReconciliation_def tx_simps stock_eq_def)

lemma stk_inserts [stk_rules]:
  "tx_rel stk (q_CreateOrderRefund p no purpose)" "tx_rel stk (q_CreatePaymentWithOutTradeNo cpp)"
  "tx_rel stk (q_CreateReconciliationAction a)" "tx_rel stk (q_CreateOrderFulfillmentAction b)"
  by (rule stk_same_tx, auto simp: q_CreateOrderRefund_def q_CreatePaymentWithOutTradeNo_def Let_def
      q_CreateReconciliationAction_def q_CreateOrderFulfillmentAction_def tx_simps stock_eq_def split: if_splits)+

lemma stk_notified [stk_rules]: "tx_rel stk (markNotificationProcessed i)"
  by (rule stk_core_tx) (rule markNotificationProcessed_core)

lemma stk_failure [stk_rules]: "tx_rel stk (createReconciliationFailure f)"
  by (rule stk_core_tx) (rule createReconciliationFailure_core)

lemma stk_river [stk_rules]: "tx_rel stk (river_insert ins a t)"
  by (rule stk_core_tx) (rule river_insert_core)

lemma stk_enqueue [stk_rules]: "tx_rel stk (enqueue_tx jobs m a t)"
  by (rule stk_core_tx) (rule enqueue_tx_core)

text \<open>The statements on orders.\<close>

lemma stk_order_status [stk_rules]:
  "tx_rel stk (q_MarkOrderPaid i p)" "tx_rel stk (q_MarkOrderShipped i)" "tx_rel stk (q_MarkOrderCompleted i)"
  "tx_rel stk (q_MarkOrderCancelling i)"
  by (rule tx_relI, auto simp: sql_defs tx_simps restorable_def holds_stock_def intro!: stk_order)+

lemma stk_cancel [stk_rules]: "tx_rel stk (cancel_and_restore i)"
proof (rule tx_relI)
  fix s u s' assume "cancel_and_restore i s = Inr (u, s')"
  then obtain r1 s1 s2 r3 where run: "q_MarkOrderCancelling i s = Inr (r1, s1)"
    "q_RestoreOrderItemStock i s1 = Inr ((), s2)" "q_MarkOrderCancelled i s2 = Inr (r3, s')"
    by (auto simp: cancel_and_restore_def tx_simps)
  have one: "stk s s1" by (rule tx_relD [OF stk_order_status(4) run(1)])
  have s2: "s2 = s1\<lparr>tb_products := map (restore_product (tb_items s1) i) (tb_products s1)\<rparr>"
    using run(2) by (auto simp: q_RestoreOrderItemStock_def Let_def split: if_splits)
  obtain r where r: "find_row ord_ID i (tb_orders s1) = Some r" "ord_Status r = OrderStatusCancelling"
    and s': "s' = s2\<lparr>tb_orders := upd_row ord_ID i (\<lambda>r. r\<lparr>ord_IsCompleted := True, ord_Status := OrderStatusCancelled,
            ord_UpdatedAt := tb_current_timestamp s2\<rparr>) (tb_orders s2)\<rparr>"
    using run(3) by (auto simp: s2 sql_defs tx_simps)
  have "stk s1 s'"
    by (rule stk_release [OF _ r(1)]) (use r s' in \<open>auto simp: s2 restorable_def holds_stock_def\<close>)
  with one show "stk s s'" by (rule stk.R_trans)
qed

lemma stk_refund_order:
  assumes "q_MarkOrderRefunded i s = Inr (r0, s1)" and "q_RestoreOrderItemStock i s1 = Inr ((), s')"
  shows "stk s s'"
proof -
  let ?f = "\<lambda>r. r\<lparr>ord_IsCompleted := True, ord_Status := OrderStatusRefunded, ord_UpdatedAt := tb_current_timestamp s\<rparr>"
  obtain r where r: "find_row ord_ID i (tb_orders s) = Some r" "ord_Status r = OrderStatusPaid"
    and s1: "s1 = s\<lparr>tb_orders := upd_row ord_ID i ?f (tb_orders s)\<rparr>"
    using assms(1) by (auto simp: sql_defs tx_simps)
  have "s' = s1\<lparr>tb_products := map (restore_product (tb_items s1) i) (tb_products s1)\<rparr>"
    using assms(2) by (auto simp: q_RestoreOrderItemStock_def Let_def split: if_splits)
  then show ?thesis
    by (intro stk_release [OF _ r(1), where f = ?f]) (use r in \<open>auto simp: s1 restorable_def holds_stock_def\<close>)
qed

lemma stk_settle [stk_rules]: "tx_rel stk (settlePaymentRefund ord p f)"
proof -
  define m where "m = tx_seq (tx_on_no_rows (q_MarkOrderRefunded (ord_ID ord)) (tx_throw ErrPaymentStateConflict))
    (q_RestoreOrderItemStock (ord_ID ord))"
  have m: "tx_rel stk m"
    unfolding m_def by (rule tx_relI) (auto simp: tx_simps intro: stk_refund_order)
  show ?thesis unfolding settlePaymentRefund_def m_def [symmetric] by (intro stk_rules m)
qed

lemma stk_recover [stk_rules]: "tx_rel stk (recoverUnsupportedPayments ps)"
proof (induction ps)
  case (Cons p ps)
  then show ?case unfolding recoverUnsupportedPayments.simps by (intro stk_rules)
qed (simp add: stk.rel_return)

lemma stk_require [stk_rules]: "tx_rel stk (requirePaymentReconciliation i a b)"
  unfolding requirePaymentReconciliation_def by (intro stk_rules)

lemma stk_review [stk_rules]: "tx_rel stk (send_to_review args p a b c d)"
  unfolding send_to_review_def by (intro stk_rules)

lemma stk_stateAfterCAS [stk_rules]: "tx_rel stk (paymentStateAfterCAS i d)"
  unfolding paymentStateAfterCAS_def by (intro stk_rules)

lemma stk_finalize [stk_rules]: "tx_rel stk (finalizeOrderAfterPaymentInactive ord ps p)"
  unfolding finalizeOrderAfterPaymentInactive_def by (intro stk_rules)

lemma stk_expire_settled [stk_rules]: "tx_rel stk (expire_settled oid ps)"
proof (induction ps)
  case (Cons p ps)
  then show ?case by (cases "pay_Status p") (simp_all, (intro stk_rules)+)
qed (simp add: stk.rel_return)

lemma stk_expire_close [stk_rules]: "tx_rel stk (expire_close jobs ps a)"
proof (induction ps arbitrary: a)
  case (Cons p ps)
  then show ?case unfolding expire_close.simps by (intro stk_rules)
qed (simp add: stk.rel_return)

lemma stk_price_items [stk_rules]: "tx_rel stk (price_items L items t)"
proof (induction items arbitrary: t)
  case (Cons item items)
  then show ?case unfolding price_items.simps by (intro stk_rules)
qed (simp add: stk.rel_return)

text \<open>The bodies.\<close>

lemma stk_orders:
  "tx_rel stk (CancelOrderByUser i uid)" "tx_rel stk (ExpireOrder_body jobs i)"
  "tx_rel stk (ApplyFulfillment actor inp)" "tx_rel stk (CreatePayment_body cya)"
  unfolding CancelOrderByUser_def ExpireOrder_body_def ApplyFulfillment_def CreatePayment_body_def
  by (intro stk_rules)+

lemma stk_prepay:
  "tx_rel stk (ClaimPaymentPrepay i token lease)" "tx_rel stk (FinalizePaymentPrepay i token act)"
  "tx_rel stk (RecordPaymentPrepayError i token err)" "tx_rel stk (MarkPayClosePending jobs cpa)"
  unfolding ClaimPaymentPrepay_def FinalizePaymentPrepay_def RecordPaymentPrepayError_def
    MarkPayClosePending_def close_fence_def
  by (intro stk_rules)+

lemma stk_trade_state [stk_rules]: "tx_rel stk (apply_trade_state args ord ps p provider r)"
proof -
  have "tx_rel stk (apply_success args ord ps p provider r)" "tx_rel stk (apply_closed args ord ps p r)"
    "tx_rel stk (apply_pay_error args ord ps p r)" "tx_rel stk (apply_refund args ord p provider)"
    unfolding apply_success_def apply_decision_def apply_closed_def apply_pay_error_def apply_refund_def
    by (intro stk_rules)+
  then show ?thesis
    unfolding apply_trade_state_def by (cases "qrs_TradeState r") (simp_all add: stk_review)
qed

lemma stk_payments_bodies:
  "tx_rel stk (ApplyPayQuery_body cpa result)" "tx_rel stk (MarkReconciliationRequired f)"
  "tx_rel stk (PreparePaymentRefund i no)" "tx_rel stk (ApplyPaymentRefund i rid)"
  "tx_rel stk (RecordPaymentRefundError i err definitive)"
  unfolding ApplyPayQuery_body_def apply_locked_def MarkReconciliationRequired_def PreparePaymentRefund_def
    ApplyPaymentRefund_def RecordPaymentRefundError_def
  by (intro stk_rules)+

lemma stk_reconcile: "tx_rel stk (ApplyReconciliation jobs actor rin)"
  unfolding ApplyReconciliation_def ApplyReconciliation_body_def reconcile_locked_def retry_case_def
    resolve_case_def primary_settled_def load_refund_def canResolvePaymentReconciliation_def
  by (intro stk_rules)

section \<open>Adjustments and the catalogue\<close>

lemma restorable_query:
  "q_GetRestorableProductStock pid s = Inr (reserved restorable (tb_orders s) (tb_items s) pid, s)"
  unfolding q_GetRestorableProductStock_def reserved_def status_in_def tx_read_def by simp

lemma stk_adjust_effect:
  assumes p: "find_row prd_ID pid (tb_products s) = Some p"
    and room: "0 \<le> prd_Stock p + d" "reserved restorable (tb_orders s) (tb_items s) pid \<le> MaxInt32 - (prd_Stock p + d)"
    and a: "adj_ProductID a = pid" "adj_Delta a = d"
    and s': "s' = s\<lparr>tb_products := upd_row prd_ID pid (\<lambda>p. p\<lparr>prd_Stock := prd_Stock p + d\<rparr>) (tb_products s),
      tb_adjustments := tb_adjustments s @ [a]\<rparr>"
  shows "stk s s'"
proof (rule stkI)
  assume ok: "stock_ok s"
  let ?f = "\<lambda>p :: product. p\<lparr>prd_Stock := prd_Stock p + d\<rparr>"
  let ?ps = "upd_row prd_ID pid ?f (tb_products s)"
  have uniq: "x = p" if "x \<in> set (tb_products s)" "prd_ID x = pid" for x
    using ok that p find_row_mem [of prd_ID "tb_products s" x] by (auto simp: stock_ok_def pk_def)
  have find: "find_row prd_ID k ?ps = (if k = pid then Some (?f p) else find_row prd_ID k (tb_products s))" for k
    using p by (simp add: find_row_upd)
  have pk: "pk prd_ID ?ps = pk prd_ID (tb_products s)" by (rule pk_upd_row) simp
  have items: "items_ok (tb_orders s) ?ps (tb_items s)"
    using ok p unfolding stock_ok_def items_ok_def find by auto
  have "room_ok (tb_orders s) (tb_items s) x" if x: "x \<in> set ?ps" for x
  proof -
    obtain y where y: "y \<in> set (tb_products s)" "x = (if prd_ID y = pid then ?f y else y)"
      using x unfolding set_upd_row by blast
    have "room_ok (tb_orders s) (tb_items s) y" using ok y by (simp add: stock_ok_def)
    then show ?thesis using y uniq [OF y(1)] p room unfolding room_ok_def by (auto split: if_splits)
  qed
  then show "stock_ok s'" using ok pk items by (simp add: s' stock_ok_def)
  have "prd_ID p = pid" using p find_row_key by metis
  then show "units_kept s s'"
    unfolding units_kept_def units_def s' using p a by (auto simp: find adjusted_snoc dest: find_row_key)
qed

lemma stk_adjust: "tx_rel stk (repo_AdjustStock sai)"
proof -
  let ?pid = "sai_ProductID sai"
  let ?d = "sai_Delta sai"
  have "stk s s'"
    if run: "q_AdjustProductStock ?pid ?d s = Inr (u, s1)"
      "q_CreateStockAdjustment ?pid (sai_ActorID sai) ?d (sai_Reason sai) (sai_IdempotencyKey sai) (prd_Stock u) s1 = Inr (a, s')"
      and p: "find_row prd_ID ?pid (tb_products s) = Some p"
      and room: "0 \<le> prd_Stock p + ?d" "reserved restorable (tb_orders s) (tb_items s) ?pid \<le> MaxInt32 - (prd_Stock p + ?d)"
    for s s' s1 u a p
  proof (rule stk_adjust_effect [OF p room])
    show "adj_ProductID a = ?pid" "adj_Delta a = ?d" using run(2) by (auto simp: sql_defs tx_simps)
    show "s' = s\<lparr>tb_products := upd_row prd_ID ?pid (\<lambda>p. p\<lparr>prd_Stock := prd_Stock p + ?d\<rparr>) (tb_products s),
      tb_adjustments := tb_adjustments s @ [a]\<rparr>"
      using run by (auto simp: q_AdjustProductStock_def check_stock_def sql_defs tx_simps)
  qed
  then show ?thesis
    unfolding repo_AdjustStock_def
    by (intro tx_relI)
       (auto simp: tx_simps q_GetProductForOrder_def q_GetStockAdjustment_def restorable_query Let_def not_less stk.R_refl
          split: option.splits if_splits)
qed

lemma stk_catalog:
  "tx_rel stk (q_UpdateProduct i cid name minor rate cover media text)"
  "tx_rel stk (q_UpdateProductStatus i status)"
  "tx_rel stk (q_SoftDeleteProduct i)"
  unfolding q_UpdateProduct_def q_UpdateProductStatus_def q_SoftDeleteProduct_def check_product_def
  by (rule tx_relI, auto simp: tx_simps stk.R_refl intro!: stk_product)+

lemma stk_create_product: "tx_rel stk (q_CreateProduct cpr)"
  unfolding q_CreateProduct_def check_product_def check_stock_def
  by (rule tx_relI) (auto simp: tx_simps Let_def not_less intro!: stk_new_product)

section \<open>Checkout\<close>

lemma stk_assume: "(stock_ok s \<Longrightarrow> stk s s') \<Longrightarrow> stk s s'"
  by (auto simp: stk_def)

lemma stk_create_and_reserve:
  assumes c: "q_CreateOrder cop s = Inr (r, s1)" and res: "reserve_items (ord_ID r) snaps s1 = Inr (its, s2)"
    and d: "distinct (map (oii_ProductID \<circ> snp_input) snaps)"
  shows "stk s s2"
proof (rule stk_assume)
  assume ok: "stock_ok s"
  note e = create_order_effect [OF c]
  have one: "stk s s1" using e stk_new_order by simp
  have new: "itm_OrderID j \<noteq> ord_ID r" if "j \<in> set (tb_items s)" for j
    using ok that e find_row_next_id [of ord_ID "tb_orders s"] by (auto simp: stock_ok_def items_ok_def)
  have "find_row ord_ID (ord_ID r) (tb_orders s1) = Some r" using e by (simp add: find_row_insert)
  then have "stk s1 s2" by (rule stk_reserve_items [OF res _ _ d]) (use e new in auto)
  with one show "stk s s2" by (rule stk.R_trans)
qed

lemma stk_place_order:
  assumes "distinct (map oii_ProductID items)"
  shows "tx_rel stk (place_order L jobs args items)"
proof (rule tx_relI)
  fix s x s' assume "place_order L jobs args items s = Inr (x, s')"
  then obtain snaps tot r s1 its s2 y a where run: "price_items L items 0 s = Inr ((snaps, tot), s)"
    "q_CreateOrder (order_params args a tot) s = Inr (r, s1)" "reserve_items (ord_ID r) snaps s1 = Inr (its, s2)"
    "enqueue_tx jobs ''order mq is not configured'' (ExpireOrderJob (ord_ID r)) (ord_ExpiresAt r) s2 = Inr (y, s')"
    by (rule place_order_run)
  have "map (oii_ProductID \<circ> snp_input) snaps = map oii_ProductID items"
    using price_items_inputs [OF run(1)] by (metis map_map)
  then have "stk s s2" using stk_create_and_reserve [OF run(2,3)] assms by simp
  moreover have "stk s2 s'" by (rule tx_relD [OF stk_enqueue run(4)])
  ultimately show "stk s s'" by (rule stk.R_trans)
qed

lemma stk_checkout:
  assumes "check_items {} (coa_Items args) = Inr ()"
  shows "tx_rel stk (CreateOrder_body L jobs args)"
proof -
  have "tx_rel stk (place_order L jobs args (sort_key oii_ProductID (coa_Items args)))"
    using assms by (intro stk_place_order) (simp add: check_items_Inr distinct_sort_key)
  moreover have "tx_rel stk (replay_order args ord)" for ord
    unfolding replay_order_def loadItems_def by (intro stk_rules)
  ultimately show ?thesis unfolding CreateOrder_body_def Let_def by (intro stk_rules)
qed

section \<open>The stock of the mall\<close>

interpretation stock_steps: mall_relation stk
  by unfold_locales
     (rule stk_core stk_require stk_checkout stk_orders stk_prepay stk_payments_bodies stk_reconcile stk_adjust
       stk_catalog stk_create_product, assumption?)+

interpretation stock: invariant_system mall_init mall_step stock_ok
proof
  show "stock_ok s" if "mall_init s" for s
    using that by (simp add: mall_init_def stock_ok_def pk_def items_ok_def)
  show "stock_ok s'" if "stock_ok s" "mall_step s s'" for s s'
    using stock_steps.step_rel [OF that(2)] that(1) by (simp add: stk_def)
qed

lemma units_kept_star:
  assumes "rtranclp mall_step s s'" and "mall_reachable s"
  shows "units_kept s s'"
  using assms
proof (induction rule: rtranclp_induct)
  case base
  show ?case by (simp add: units_kept_def)
next
  case (step t u)
  have "stock_ok t" using step.hyps(1) step.prems stock.inv_reachable reachable_star by metis
  then have "units_kept t u" using stock_steps.step_rel [OF step.hyps(2)] by (simp add: stk_def)
  with step.IH step.prems show ?case using units_kept_trans by blast
qed

end
