(* ===== verification/Example.thy ===== *)
theory Example
  imports Mall
begin

text \<open>
  A concrete run of the mall, the input of the witnesses of the system properties: a product
  is put on sale, ordered, paid and refunded; a second order is shipped.
\<close>

definition ex_river :: river where
  "ex_river jobs args t = Inr (go_len jobs + 1, False)"

definition ex_env :: order_env where
  "ex_env = \<lparr>env_decimal = exact_decimals, env_jobs = Some ex_river, env_sha256hex = (\<lambda>s. s),
     env_DecryptPhone = (\<lambda>s. Inr s), env_PaymentTimeout = 0\<rparr>"

definition ex_db0 :: db where
  "ex_db0 = \<lparr>tb_users = [\<lparr>usr_ID = 7, usr_Nickname = ''mei'', usr_RealName = '''', usr_PhoneHash = '''',
       usr_PhoneEncrypt = '''', usr_PasswordHash = '''', usr_AuthVersion = 1, usr_Role = ''user'',
       usr_CreatedAt = 0, usr_UpdatedAt = 0\<rparr>],
     tb_addresses = [\<lparr>adr_ID = 3, adr_UserID = 7, adr_ReceiverName = ''Mei'', adr_ReceiverPhoneHash = '''', adr_ReceiverPhoneEncrypt = ''x'',
       adr_Province = '''', adr_City = '''', adr_District = '''', adr_DetailAddress = ''Road 1'',
       adr_AddressTag = None, adr_IsDefault = True, adr_CreatedAt = 0, adr_UpdatedAt = 0\<rparr>],
     tb_categories = [], tb_products = [], tb_orders = [], tb_items = [], tb_payments = [], tb_refunds = [],
     tb_notifications = [], tb_failures = [], tb_actions = [], tb_adjustments = [], tb_fulfillment = [],
     tb_events = [], tb_history = [], tb_posts = [], tb_media = [], tb_images = [], tb_likes = [], tb_comments = [],
     tb_jobs = [], tb_sequences = (\<lambda>t. 0), tb_current_timestamp = 1000, tb_statement_timestamp = 1000, tb_clock_timestamp = 1000, tb_time_Now = 1000\<rparr>"

definition ex_parse :: "string \<Rightarrow> error + rat" where
  "ex_parse v = (if v = ''12.50'' then Inr (25 / 2) else Inr (4 / 5))"

definition ex_db1 :: db where
  "ex_db1 = snd (InTx (repo_CreateCategory 0 ''tea'' 1) ex_db0)"

definition ex_db2 :: db where
  "ex_db2 = snd (InTx (uc_CreateProduct exact_decimals ex_parse 1 ''oolong'' ''12.50'' ''0.8'' 10 1 '''' [] '''') ex_db1)"

definition ex_req :: CreateOrderReq where
  "ex_req = \<lparr>cor_UserID = 7, cor_AddressID = 3, cor_Items = [\<lparr>oii_ProductID = 1, oii_Quantity = 3\<rparr>],
     cor_IdempotencyKey = ''key-0001''\<rparr>"

definition ex_db3 :: db where
  "ex_db3 = snd (uc_CreateOrder ex_env (Some (\<lambda>n. ''T1'')) (Some ex_req) ex_db2)"

definition ex_cya :: CreatePaymentArgs where
  "ex_cya = \<lparr>cya_OrderID = 1, cya_UserID = 7, cya_MerchantID = 0, cya_Amount = 3000, cya_Currency = ''CNY'',
     cya_Method = ''wechat:native'', cya_OutTradeNo = ''P1''\<rparr>"

definition ex_db4 :: db where
  "ex_db4 = snd (CreatePayment ex_cya ex_db3)"

definition ex_cpa :: CheckPayArgs where
  "ex_cpa = \<lparr>cpa_ConfirmUnissued = False, cpa_ReconciliationVersion = 0, cpa_PaymentID = 1, cpa_Provider = ''wechat'',
     cpa_NotificationID = 0, cpa_Trigger = ''api'', cpa_PollCount = 0, cpa_MaxPolls = 5,
     cpa_PollIntervalSeconds = 30, cpa_OrderExpiresAt = 0\<rparr>"

definition ex_result :: "TradeState \<Rightarrow> int \<Rightarrow> PaymentQueryResult" where
  "ex_result st amount = \<lparr>qrs_Method = \<lparr>pm_Provider = ''wechat'', pm_Product = ''native''\<rparr>, qrs_OutTradeNo = ''P1'',
     qrs_TransactionID = ''W9'', qrs_TradeState = st, qrs_TradeStateDesc = '''', qrs_RawTradeState = '''',
     qrs_Amount = amount, qrs_Currency = ''CNY''\<rparr>"

definition ex_db5 :: db where
  "ex_db5 = snd (ApplyPayQuery ex_cpa (Some (ex_result TradeStateSuccess 3000)) ex_db4)"

definition ex_db6 :: db where
  "ex_db6 = snd (InTx (PreparePaymentRefund 1 ''R1'') ex_db5)"

definition ex_db7 :: db where
  "ex_db7 = snd (InTx (ApplyPaymentRefund 1 1) ex_db6)"

definition ex_ship :: OrderFulfillmentInput where
  "ex_ship = \<lparr>ofi_OrderID = 1, ofi_Action = ''ship'', ofi_IdempotencyKey = ''ship-0001'', ofi_Reason = ''packed'',
     ofi_Carrier = ''SF'', ofi_TrackingNumber = ''SF1''\<rparr>"

definition ex_db8 :: db where
  "ex_db8 = snd (InTx (uc_ApplyFulfillment \<lparr>actor_ID = 7, actor_Admin = True\<rparr> ex_ship) ex_db5)"

definition ex_db9 :: db where
  "ex_db9 = snd (InTx (uc_CancelOrder 1 7) ex_db3)"

text \<open>A double charge: the first payment fails, a second one pays the order, then the provider
  reports that the first one succeeded too.\<close>

definition ex_db10 :: db where
  "ex_db10 = snd (ApplyPayQuery ex_cpa (Some (ex_result TradeStatePayError 3000)) ex_db4)"

definition ex_db11 :: db where
  "ex_db11 = snd (CreatePayment (ex_cya\<lparr>cya_OutTradeNo := ''P2''\<rparr>) ex_db10)"

definition ex_db12 :: db where
  "ex_db12 = snd (ApplyPayQuery (ex_cpa\<lparr>cpa_PaymentID := 2\<rparr>)
     (Some ((ex_result TradeStateSuccess 3000)\<lparr>qrs_OutTradeNo := ''P2'', qrs_TransactionID := ''W10''\<rparr>)) ex_db11)"

definition ex_db13 :: db where
  "ex_db13 = snd (ApplyPayQuery ex_cpa (Some (ex_result TradeStateSuccess 3000)) ex_db12)"

lemma ex_steps:
  "mall_step ex_db0 ex_db1" "mall_step ex_db1 ex_db2" "mall_step ex_db2 ex_db3" "mall_step ex_db3 ex_db4"
  "mall_step ex_db4 ex_db5" "mall_step ex_db5 ex_db6" "mall_step ex_db6 ex_db7" "mall_step ex_db5 ex_db8"
  "mall_step ex_db3 ex_db9" "mall_step ex_db4 ex_db10" "mall_step ex_db10 ex_db11" "mall_step ex_db11 ex_db12"
  "mall_step ex_db12 ex_db13"
  unfolding ex_db1_def ex_db2_def ex_db3_def ex_db4_def ex_db5_def ex_db6_def ex_db7_def ex_db8_def ex_db9_def
    ex_db10_def ex_db11_def ex_db12_def ex_db13_def
  by (rule CreateCategory CreateProduct Checkout OpenPayment ProviderResult PrepareRefund ApplyRefund Fulfil CancelOrder,
      rule surjective_pairing)+

lemma ex_reachable:
  "mall_reachable ex_db0" "mall_reachable ex_db1" "mall_reachable ex_db2" "mall_reachable ex_db3"
  "mall_reachable ex_db4" "mall_reachable ex_db5" "mall_reachable ex_db6" "mall_reachable ex_db7"
  "mall_reachable ex_db8" "mall_reachable ex_db9" "mall_reachable ex_db13"
proof -
  show 0: "mall_reachable ex_db0" by (rule reachable_init) (simp add: mall_init_def ex_db0_def)
  show 1: "mall_reachable ex_db1" by (rule reachable_step [OF 0 ex_steps(1)])
  show 2: "mall_reachable ex_db2" by (rule reachable_step [OF 1 ex_steps(2)])
  show 3: "mall_reachable ex_db3" by (rule reachable_step [OF 2 ex_steps(3)])
  show 4: "mall_reachable ex_db4" by (rule reachable_step [OF 3 ex_steps(4)])
  show 5: "mall_reachable ex_db5" by (rule reachable_step [OF 4 ex_steps(5)])
  show 6: "mall_reachable ex_db6" by (rule reachable_step [OF 5 ex_steps(6)])
  show "mall_reachable ex_db7" by (rule reachable_step [OF 6 ex_steps(7)])
  show "mall_reachable ex_db8" by (rule reachable_step [OF 5 ex_steps(8)])
  show "mall_reachable ex_db9" by (rule reachable_step [OF 3 ex_steps(9)])
  have 10: "mall_reachable ex_db10" by (rule reachable_step [OF 4 ex_steps(10)])
  have 11: "mall_reachable ex_db11" by (rule reachable_step [OF 10 ex_steps(11)])
  have 12: "mall_reachable ex_db12" by (rule reachable_step [OF 11 ex_steps(12)])
  show "mall_reachable ex_db13" by (rule reachable_step [OF 12 ex_steps(13)])
qed

text \<open>What the run computes.\<close>

lemma ex_stock:
  "map prd_Stock (tb_products ex_db2) = [10]" "map prd_Stock (tb_products ex_db3) = [7]"
  "map prd_Stock (tb_products ex_db7) = [10]" "map prd_Stock (tb_products ex_db9) = [10]"
  by code_simp+

lemma ex_order:
  "map_option ord_Status (find_row ord_ID 1 (tb_orders ex_db3)) = Some OrderStatusPendingPayment"
  "map_option ord_Status (find_row ord_ID 1 (tb_orders ex_db5)) = Some OrderStatusPaid"
  "map_option ord_Status (find_row ord_ID 1 (tb_orders ex_db7)) = Some OrderStatusRefunded"
  "map_option ord_Status (find_row ord_ID 1 (tb_orders ex_db8)) = Some OrderStatusShipped"
  "map_option ord_Status (find_row ord_ID 1 (tb_orders ex_db9)) = Some OrderStatusCancelled"
  "map_option ord_TotalAmountMinor (find_row ord_ID 1 (tb_orders ex_db3)) = Some 3000"
  by code_simp+

lemma ex_double:
  "map (\<lambda>p. (pay_ID p, pay_OrderID p, pay_Status p, pay_ReconciliationStatus p)) (tb_payments ex_db13) =
     [(1, 1, PaymentStatusSuccess, ReconciliationStatusRequired), (2, 1, PaymentStatusSuccess, ReconciliationStatusNone)]"
  by code_simp

lemma ex_payment:
  "map_option pay_Status (find_row pay_ID 1 (tb_payments ex_db4)) = Some PaymentStatusCreating"
  "map_option pay_Status (find_row pay_ID 1 (tb_payments ex_db5)) = Some PaymentStatusSuccess"
  "map_option pay_Status (find_row pay_ID 1 (tb_payments ex_db7)) = Some PaymentStatusRefunded"
  by code_simp+

end
