(* ===== verification/Gateway.thy ===== *)
theory Gateway
  imports PaymentJobs
begin

text \<open>
  Programs that run several transactions and call a payment provider between them, and the
  payment gateway in front of the provider adapters
  (app/mall/internal/biz/payment\_gateway.go). The adapters talk to Alipay and WeChat Pay over
  the network: here they are arbitrary functions on the world, which is the database together
  with the provider's own state; theory Adapters has the adapters of the repository. An adapter call returns a world whose database may
  differ, because other requests run while the network call is in flight.
\<close>

section \<open>Programs\<close>

record 'p world =
  w_db :: db
  w_provider :: 'p

type_synonym ('w, 'a) prog = "'w \<Rightarrow> (error + 'a) \<times> 'w"

definition prog_return :: "'a \<Rightarrow> ('w, 'a) prog" where
  "prog_return x = (\<lambda>w. (Inr x, w))"

definition prog_throw :: "error \<Rightarrow> ('w, 'a) prog" where
  "prog_throw e = (\<lambda>w. (Inl e, w))"

text \<open>\<open>r, err := m\<close>, with both outcomes at hand.\<close>

definition prog_try :: "('w, 'a) prog \<Rightarrow> (error + 'a \<Rightarrow> ('w, 'b) prog) \<Rightarrow> ('w, 'b) prog" where
  "prog_try m k = (\<lambda>w. case m w of (r, w') \<Rightarrow> k r w')"

text \<open>\<open>if err != nil { return err }\<close>.\<close>

definition prog_bind :: "('w, 'a) prog \<Rightarrow> ('a \<Rightarrow> ('w, 'b) prog) \<Rightarrow> ('w, 'b) prog" where
  "prog_bind m f = prog_try m (\<lambda>r. case r of Inl e \<Rightarrow> prog_throw e | Inr x \<Rightarrow> f x)"

definition prog_lift :: "error + 'a \<Rightarrow> ('w, 'a) prog" where
  "prog_lift r = (\<lambda>w. (r, w))"

text \<open>A repository method: it runs on the database of the world.\<close>

definition on_db :: "(db \<Rightarrow> (error + 'a) \<times> db) \<Rightarrow> ('p world, 'a) prog" where
  "on_db f = (\<lambda>w. case f (w_db w) of (r, s') \<Rightarrow> (r, w\<lparr>w_db := s'\<rparr>))"

definition transact :: "(db, 'a) tx \<Rightarrow> ('p world, 'a) prog" where
  "transact m = on_db (InTx m)"

text \<open>\<open>time.Now()\<close>.\<close>

definition time_Now :: "('p world, int) prog" where
  "time_Now = (\<lambda>w. (Inr (tb_time_Now (w_db w)), w))"

lemmas prog_eval = prog_return_def prog_throw_def prog_try_def prog_bind_def prog_lift_def on_db_def
  transact_def time_Now_def

lemma prog_bind_Inr:
  "prog_bind m f w = (Inr x, w') \<longleftrightarrow> (\<exists>y w1. m w = (Inr y, w1) \<and> f y w1 = (Inr x, w'))"
  by (auto simp: prog_bind_def prog_try_def prog_throw_def split: prod.splits sum.splits)

lemma prog_bind_Inl: "m w = (Inl e, w1) \<Longrightarrow> prog_bind m f w = (Inl e, w1)"
  by (simp add: prog_bind_def prog_try_def prog_throw_def)

lemma prog_bind_step: "m w = (Inr y, w1) \<Longrightarrow> prog_bind m f w = f y w1"
  by (simp add: prog_bind_def prog_try_def)

lemma prog_lift_Inr: "prog_lift r w = (Inr x, w') \<longleftrightarrow> r = Inr x \<and> w' = w"
  by (auto simp: prog_lift_def)

lemma transact_Inr: "transact m w = (Inr x, w') \<longleftrightarrow> (\<exists>s'. m (w_db w) = Inr (x, s') \<and> w' = w\<lparr>w_db := s'\<rparr>)"
  by (auto simp: transact_def on_db_def InTx_def split: sum.splits)

lemma transact_Inl: "m (w_db w) = Inl e \<Longrightarrow> transact m w = (Inl e, w)"
  by (simp add: transact_def on_db_def InTx_def)

lemma prog_return_Inr: "prog_return x w = (Inr y, w') \<longleftrightarrow> y = x \<and> w' = w"
  by (auto simp: prog_return_def)

lemma prog_throw_Inr: "prog_throw e w = (Inr y, w') \<longleftrightarrow> False"
  by (simp add: prog_throw_def)

lemma bind_time_Now [simp]: "prog_bind time_Now f w = f (tb_time_Now (w_db w)) w"
  by (simp add: prog_bind_def prog_try_def time_Now_def)

lemma bind_lift [simp]:
  "prog_bind (prog_lift (Inr x)) f w = f x w" "prog_bind (prog_lift (Inl e)) f w = (Inl e, w)"
  by (simp_all add: prog_bind_def prog_try_def prog_lift_def prog_throw_def)

lemmas prog_Inr = prog_bind_Inr prog_lift_Inr transact_Inr prog_return_Inr prog_throw_Inr

text \<open>
  A dereferenced nil result; the recovery middleware of the server turns the panic into an
  internal error.
\<close>

abbreviation nil_panic :: error where
  "nil_panic \<equiv> InternalServer ''panic''"

section \<open>Adapters and the gateway\<close>

record PaymentPrepayRequest =
  prq_ExpiresAt :: int
  prq_Method :: PaymentMethod
  prq_OutTradeNo :: string
  prq_Description :: string
  prq_Amount :: int
  prq_Currency :: string
  prq_ClientIP :: string
  prq_Extension :: "string \<Rightarrow> string option"

record PaymentPrepayResult =
  prs_ProviderReference :: string
  prs_Action :: PaymentAction

record PaymentNotificationAck =
  ack_StatusCode :: int
  ack_ContentType :: string
  ack_Body :: string

text \<open>
  The interface \<open>PaymentAdapter\<close>. A nil pointer is \<open>None\<close>. \<open>Refund\<close> may return a result
  together with an error, and the code looks at both. An HTTP request is a value of the type
  \<open>'h\<close> the adapter verifies and parses.
\<close>

record ('w, 'h) PaymentAdapter =
  ad_Provider :: string
  ad_Supports :: "PaymentMethod \<Rightarrow> bool"
  ad_Capabilities :: "PaymentMethod \<Rightarrow> PaymentCapabilities"
  ad_Prepay :: "PaymentPrepayRequest \<Rightarrow> ('w, PaymentPrepayResult option) prog"
  ad_Query :: "PaymentQueryRequest \<Rightarrow> ('w, PaymentQueryResult option) prog"
  ad_Close :: "PaymentCloseRequest \<Rightarrow> ('w, PaymentCloseResult option) prog"
  ad_Refund :: "PaymentRefundRequest \<Rightarrow> 'w \<Rightarrow> (PaymentRefundResult option \<times> error option) \<times> 'w"
  ad_ParseAndVerifyNotification :: "'h \<Rightarrow> error + PaymentNotification"
  ad_NotificationAck :: "bool \<Rightarrow> PaymentNotificationAck"

type_synonym ('w, 'h) gateway = "string \<Rightarrow> ('w, 'h) PaymentAdapter option"

text \<open>Nil adapters are skipped, a later adapter of the same provider wins.\<close>

fun register_adapters :: "('w, 'h) gateway \<Rightarrow> ('w, 'h) PaymentAdapter option list \<Rightarrow> ('w, 'h) gateway" where
  "register_adapters g [] = g"
| "register_adapters g (None # ads) = register_adapters g ads"
| "register_adapters g (Some ad # ads) =
     (let provider = ToLower (TrimSpace (ad_Provider ad)) in
      register_adapters (if provider \<noteq> '''' then g(provider \<mapsto> ad) else g) ads)"

definition NewPaymentGateway :: "('w, 'h) PaymentAdapter option list \<Rightarrow> ('w, 'h) gateway" where
  "NewPaymentGateway ads = register_adapters Map.empty ads"

definition gw_adapter :: "('w, 'h) gateway \<Rightarrow> PaymentMethod \<Rightarrow> error + ('w, 'h) PaymentAdapter" where
  "gw_adapter g method0 = (let method = Normalize method0 in
     case g (pm_Provider method) of
       None \<Rightarrow> Inl ErrPaymentProviderUnavailable
     | Some ad \<Rightarrow> if \<not> ad_Supports ad method then Inl ErrPaymentProviderUnavailable else Inr ad)"

definition gw_Capabilities :: "('w, 'h) gateway \<Rightarrow> PaymentMethod \<Rightarrow> error + PaymentCapabilities" where
  "gw_Capabilities g method = (case gw_adapter g method of Inl e \<Rightarrow> Inl e
     | Inr ad \<Rightarrow> Inr (ad_Capabilities ad (Normalize method)))"

definition gw_Prepay :: "('w, 'h) gateway \<Rightarrow> PaymentPrepayRequest \<Rightarrow> ('w, PaymentPrepayResult option) prog" where
  "gw_Prepay g req = (case gw_adapter g (prq_Method req) of Inl e \<Rightarrow> prog_throw e
     | Inr ad \<Rightarrow> ad_Prepay ad (req\<lparr>prq_Method := Normalize (prq_Method req)\<rparr>))"

definition gw_Query :: "('w, 'h) gateway \<Rightarrow> PaymentQueryRequest \<Rightarrow> ('w, PaymentQueryResult option) prog" where
  "gw_Query g req = (case gw_adapter g (qrq_Method req) of Inl e \<Rightarrow> prog_throw e
     | Inr ad \<Rightarrow> ad_Query ad (req\<lparr>qrq_Method := Normalize (qrq_Method req)\<rparr>))"

definition gw_Close :: "('w, 'h) gateway \<Rightarrow> PaymentCloseRequest \<Rightarrow> ('w, PaymentCloseResult option) prog" where
  "gw_Close g req = (case gw_adapter g (crq_Method req) of Inl e \<Rightarrow> prog_throw e
     | Inr ad \<Rightarrow> ad_Close ad (req\<lparr>crq_Method := Normalize (crq_Method req)\<rparr>))"

definition gw_Refund :: "('w, 'h) gateway \<Rightarrow> PaymentRefundRequest \<Rightarrow>
    'w \<Rightarrow> (PaymentRefundResult option \<times> error option) \<times> 'w" where
  "gw_Refund g req = (case gw_adapter g (rrq_Method req) of Inl e \<Rightarrow> (\<lambda>w. ((None, Some e), w))
     | Inr ad \<Rightarrow> ad_Refund ad (req\<lparr>rrq_Method := Normalize (rrq_Method req)\<rparr>))"

definition gw_ParseAndVerifyNotification :: "('w, 'h) gateway \<Rightarrow> string \<Rightarrow> 'h \<Rightarrow> error + PaymentNotification" where
  "gw_ParseAndVerifyNotification g provider request =
     (case g (ToLower (TrimSpace provider)) of
        None \<Rightarrow> Inl ErrPaymentProviderUnavailable
      | Some ad \<Rightarrow> ad_ParseAndVerifyNotification ad request)"

definition gw_NotificationAck :: "('w, 'h) gateway \<Rightarrow> string \<Rightarrow> bool \<Rightarrow> error + PaymentNotificationAck" where
  "gw_NotificationAck g provider success =
     (case g (ToLower (TrimSpace provider)) of
        None \<Rightarrow> Inl ErrPaymentProviderUnavailable
      | Some ad \<Rightarrow> Inr (ad_NotificationAck ad success))"

text \<open>The gateway dispatches to the adapter registered last under the method's provider.\<close>

lemma register_adapters_lookup:
  "register_adapters g ads p =
     (case List.find (\<lambda>ad. ToLower (TrimSpace (ad_Provider ad)) = p) (rev (List.map_filter id ads)) of
        None \<Rightarrow> g p | Some ad \<Rightarrow> if p = '''' then g p else Some ad)"
proof (induction g ads rule: register_adapters.induct)
  case (3 g ad ads)
  have "List.find P (xs @ [y]) = (case List.find P xs of None \<Rightarrow> if P y then Some y else None | Some x \<Rightarrow> Some x)"
    for P and xs :: "('a, 'b) PaymentAdapter list" and y
    by (induction xs) auto
  moreover have "[] = ToLower s \<longleftrightarrow> s = []" for s by (auto simp: ToLower_def)
  ultimately show ?case using 3 by (auto simp: Let_def List.map_filter_simps split: option.splits)
qed (simp_all add: List.map_filter_simps)

section \<open>Relations a program keeps\<close>

text \<open>
  As for transactions: \<open>prog_rel R m\<close> says that the worlds before and after \<open>m\<close> are related,
  whether it returns a result or an error.
\<close>

definition prog_rel :: "('w \<Rightarrow> 'w \<Rightarrow> bool) \<Rightarrow> ('w \<Rightarrow> 'a \<times> 'w) \<Rightarrow> bool" where
  "prog_rel R m \<longleftrightarrow> (\<forall>w. R w (snd (m w)))"

lemma prog_relI: "(\<And>w. R w (snd (m w))) \<Longrightarrow> prog_rel R m"
  by (simp add: prog_rel_def)

lemma prog_relD: "prog_rel R m \<Longrightarrow> m w = (r, w') \<Longrightarrow> R w w'"
  unfolding prog_rel_def by (metis snd_conv)

locale prog_relation =
  fixes R :: "'w \<Rightarrow> 'w \<Rightarrow> bool"
  assumes P_refl: "R w w"
    and P_trans: "R u v \<Longrightarrow> R v w \<Longrightarrow> R u w"
begin

lemma prel_return: "prog_rel R (prog_return x)"
  by (simp add: prog_rel_def prog_return_def P_refl)

lemma prel_throw: "prog_rel R (prog_throw e)"
  by (simp add: prog_rel_def prog_throw_def P_refl)

lemma prel_lift: "prog_rel R (prog_lift r)"
  by (simp add: prog_rel_def prog_lift_def P_refl)

lemma prel_pure: "prog_rel R (\<lambda>w. (r, w))"
  by (simp add: prog_rel_def P_refl)

lemma prel_chain:
  assumes "prog_rel R m" and "\<And>r. prog_rel R (k r)"
  shows "prog_rel R (\<lambda>w. case m w of (r, w') \<Rightarrow> k r w')"
  unfolding prog_rel_def
proof
  fix w
  obtain r w' where m: "m w = (r, w')" by fastforce
  have "R w w'" by (rule prog_relD [OF assms(1) m])
  moreover have "R w' (snd (k r w'))" using assms(2) by (simp add: prog_rel_def)
  ultimately show "R w (snd (case m w of (r, w') \<Rightarrow> k r w'))" using P_trans by (simp add: m)
qed

lemma prel_try: "prog_rel R m \<Longrightarrow> (\<And>r. prog_rel R (k r)) \<Longrightarrow> prog_rel R (prog_try m k)"
  unfolding prog_try_def by (rule prel_chain)

lemma prel_case_sum: "(\<And>e. r = Inl e \<Longrightarrow> prog_rel R (f e)) \<Longrightarrow> (\<And>x. r = Inr x \<Longrightarrow> prog_rel R (k x)) \<Longrightarrow>
    prog_rel R (case r of Inl e \<Rightarrow> f e | Inr x \<Rightarrow> k x)"
  by (cases r) auto

lemma prel_bind: "prog_rel R m \<Longrightarrow> (\<And>x. prog_rel R (f x)) \<Longrightarrow> prog_rel R (prog_bind m f)"
  unfolding prog_bind_def by (intro prel_try prel_case_sum prel_throw)

lemma prel_if: "(b \<Longrightarrow> prog_rel R m) \<Longrightarrow> (\<not> b \<Longrightarrow> prog_rel R k) \<Longrightarrow> prog_rel R (if b then m else k)"
  by simp

lemma prel_case_option:
  "(x = None \<Longrightarrow> prog_rel R m) \<Longrightarrow> (\<And>y. x = Some y \<Longrightarrow> prog_rel R (k y)) \<Longrightarrow>
   prog_rel R (case x of None \<Rightarrow> m | Some y \<Rightarrow> k y)"
  by (cases x) auto

lemma prel_case_prod: "(\<And>a b. x = (a, b) \<Longrightarrow> prog_rel R (k a b)) \<Longrightarrow> prog_rel R (case x of (a, b) \<Rightarrow> k a b)"
  by (cases x) auto

lemma prel_Let: "(\<And>y. y = x \<Longrightarrow> prog_rel R (k y)) \<Longrightarrow> prog_rel R (Let x k)"
  by simp

lemmas prel_intros = prel_return prel_throw prel_lift prel_try prel_case_sum prel_bind prel_if
  prel_case_option prel_case_prod prel_Let

end

end
