(* ===== verification/PaymentUsecase.thy ===== *)
theory PaymentUsecase
  imports Gateway Reconciliation
begin

text \<open>
  The payment use cases (\<open>paymentUsecase\<close>: app/mall/internal/biz/payment.go,
  payment\_prepay.go, payment\_refund.go, payment\_notification.go and \<open>CreateCheckJob\<close> of
  payment\_jobs.go). Each runs several repository transactions with provider calls between
  them. Logging and metrics are left out; the text of an error (\<open>err.Error()\<close>), which is
  stored but never read back, is the parameter \<open>puc_Error\<close>.
\<close>

record ('w, 'h) paymentUsecase =
  puc_gateway :: "('w, 'h) gateway"
  puc_repoJobs :: "river option"
  puc_notificationRepo :: "river option"
  puc_paymentJobs :: "river option"
  puc_policy :: PaymentPolicy
  puc_Error :: "error \<Rightarrow> string"

text \<open>The arguments \<open>CheckPayArgs{PaymentID: .., Provider: .., Trigger: ..}\<close>, the rest zero.\<close>

definition trigger_args :: "int \<Rightarrow> string \<Rightarrow> string \<Rightarrow> CheckPayArgs" where
  "trigger_args pid provider trigger = \<lparr>cpa_ConfirmUnissued = False, cpa_ReconciliationVersion = 0,
     cpa_PaymentID = pid, cpa_Provider = provider, cpa_NotificationID = 0, cpa_Trigger = trigger,
     cpa_PollCount = 0, cpa_MaxPolls = 0, cpa_PollIntervalSeconds = 0, cpa_OrderExpiresAt = 0\<rparr>"

definition query_request :: "PaymentMethod \<Rightarrow> PaymentDO \<Rightarrow> PaymentQueryRequest" where
  "query_request method payment = \<lparr>qrq_ExpectedProviderAccount = '''', qrq_Method = method,
     qrq_OutTradeNo = pdo_OutTradeNo payment, qrq_TransactionID = pdo_ThirdPartyTxID payment\<rparr>"

definition close_request :: "PaymentMethod \<Rightarrow> PaymentDO \<Rightarrow> PaymentCloseRequest" where
  "close_request method payment = \<lparr>crq_Method = method, crq_OutTradeNo = pdo_OutTradeNo payment,
     crq_TransactionID = pdo_ThirdPartyTxID payment\<rparr>"

text \<open>The result that stands for a confirmed closure.\<close>

definition closed_result :: "PaymentMethod \<Rightarrow> PaymentDO \<Rightarrow> string \<Rightarrow> PaymentQueryResult" where
  "closed_result method payment txID = \<lparr>qrs_Method = method, qrs_OutTradeNo = pdo_OutTradeNo payment,
     qrs_TransactionID = txID, qrs_TradeState = TradeStateClosed, qrs_TradeStateDesc = '''',
     qrs_RawTradeState = '''', qrs_Amount = pdo_Amount payment, qrs_Currency = pdo_Currency payment\<rparr>"

section \<open>Reading, querying and closing\<close>

definition uc_GetPayment :: "int \<Rightarrow> int \<Rightarrow> ('p world, PaymentDO) prog" where
  "uc_GetPayment i userID = transact (repo_GetPaymentByUser i userID)"

definition uc_GetPaymentByOrder :: "int \<Rightarrow> int \<Rightarrow> ('p world, PaymentDO) prog" where
  "uc_GetPaymentByOrder orderID userID =
     prog_bind (transact (repo_GetOrderByUser orderID userID)) (\<lambda>order.
     transact (repo_GetLatestPaymentByOrder (odo_ID order)))"

definition authorizedByOutTradeNo :: "string \<Rightarrow> int \<Rightarrow> ('p world, PaymentDO) prog" where
  "authorizedByOutTradeNo outTradeNo userID =
     (if outTradeNo = '''' \<or> userID \<le> 0 then prog_throw ErrPaymentNotFound
      else prog_bind (transact (repo_GetPaymentByOutTradeNo outTradeNo)) (\<lambda>payment.
        if pdo_UserID payment \<noteq> userID then prog_throw ErrPaymentNotFound else prog_return payment))"

definition QueryPayment ::
    "('p world, 'h) paymentUsecase \<Rightarrow> string \<Rightarrow> int \<Rightarrow> ('p world, PaymentQueryResult) prog" where
  "QueryPayment uc outTradeNo userID =
     prog_bind (authorizedByOutTradeNo outTradeNo userID) (\<lambda>payment.
     prog_bind (prog_lift (ParsePaymentMethod (pdo_Method payment))) (\<lambda>method.
     prog_bind (gw_Query (puc_gateway uc) (query_request method payment)) (\<lambda>result.
     case result of None \<Rightarrow> prog_throw nil_panic
     | Some res \<Rightarrow>
        if IsTerminal (qrs_TradeState res) then
          prog_bind (on_db (ApplyPayQuery (trigger_args (pdo_ID payment) (pm_Provider method) ''api_query'') (Some res)))
            (\<lambda>_. prog_return res)
        else prog_return res)))"

text \<open>After \<open>ErrProviderTradeStateConflict\<close> the provider is asked what state won; \<open>Some\<close> is the
  answer of the use case, \<open>None\<close> means that the close error is returned.\<close>

definition close_conflict ::
    "('p world, 'h) paymentUsecase \<Rightarrow> PaymentMethod \<Rightarrow> PaymentDO \<Rightarrow> ('p world, PaymentCloseResult option) prog" where
  "close_conflict uc method payment =
     prog_bind (gw_Query (puc_gateway uc) (query_request method payment)) (\<lambda>query.
     case query of None \<Rightarrow> prog_return None
     | Some q \<Rightarrow>
        if IsTerminal (qrs_TradeState q) then
          prog_bind (on_db (ApplyPayQuery (trigger_args (pdo_ID payment) (pm_Provider method) ''api_close'') (Some q)))
            (\<lambda>_. prog_return (Some \<lparr>crs_Method = method, crs_OutTradeNo = pdo_OutTradeNo payment,
               crs_TransactionID = qrs_TransactionID q, crs_Success = (qrs_TradeState q = TradeStateClosed)\<rparr>))
        else prog_return None)"

definition ClosePayment ::
    "('p world, 'h) paymentUsecase \<Rightarrow> string \<Rightarrow> int \<Rightarrow> ('p world, PaymentCloseResult) prog" where
  "ClosePayment uc outTradeNo userID =
     prog_bind (authorizedByOutTradeNo outTradeNo userID) (\<lambda>payment.
     prog_bind (prog_lift (ParsePaymentMethod (pdo_Method payment))) (\<lambda>method.
     prog_bind (prog_lift (gw_Capabilities (puc_gateway uc) method)) (\<lambda>capabilities.
     if \<not> cap_SupportsClose capabilities then prog_throw (StatusError 501 ''PAYMENT_CLOSE_NOT_SUPPORTED'')
     else if pdo_Status payment = PaymentStatusClosed then
       prog_return \<lparr>crs_Method = method, crs_OutTradeNo = pdo_OutTradeNo payment,
         crs_TransactionID = pdo_ThirdPartyTxID payment, crs_Success = True\<rparr>
     else if pdo_Status payment \<noteq> PaymentStatusPending \<and> pdo_Status payment \<noteq> PaymentStatusClosePending
       then prog_throw ErrPaymentStateConflict
     else if puc_paymentJobs uc = None then prog_throw (ServiceUnavailable ''PAYMENT_MQ_NOT_CONFIGURED'')
     else
       let closeArgs = trigger_args (pdo_ID payment) (pm_Provider method) ''api_close'' in
       prog_bind (transact (MarkPayClosePending (puc_repoJobs uc) closeArgs)) (\<lambda>_.
       prog_try (gw_Close (puc_gateway uc) (close_request method payment)) (\<lambda>r.
       prog_bind (if r = Inl ErrProviderTradeStateConflict then close_conflict uc method payment
                  else prog_return None) (\<lambda>settled.
       case settled of Some answer \<Rightarrow> prog_return answer
       | None \<Rightarrow> (case r of
           Inl e \<Rightarrow> prog_throw e
         | Inr None \<Rightarrow> prog_throw (Errorf ''payment provider returned an empty close result'')
         | Inr (Some result) \<Rightarrow>
             if crs_Success result then
               prog_bind (on_db (ApplyPayQuery closeArgs (Some (closed_result method payment (crs_TransactionID result)))))
                 (\<lambda>_. prog_return result)
             else prog_return result)))))))"

section \<open>Prepay\<close>

record PrepayForOrderArgs =
  pfa_OrderNo :: string
  pfa_UserID :: int
  pfa_Method :: PaymentMethod
  pfa_ClientIP :: string
  pfa_Extension :: "string \<Rightarrow> string option"
  pfa_Description :: string

record PrepayForOrderResult =
  pfr_Payment :: PaymentDO
  pfr_Prepay :: PaymentPrepayResult

definition MaxPaymentDescriptionBytes :: int where
  "MaxPaymentDescriptionBytes = 127"

definition stored_action :: "PaymentDO \<Rightarrow> PrepayForOrderResult" where
  "stored_action payment = \<lparr>pfr_Payment = payment,
     pfr_Prepay = \<lparr>prs_ProviderReference = pdo_ThirdPartyTxID payment, prs_Action = pdo_Action payment\<rparr>\<rparr>"

text \<open>The error is returned after the lease of this attempt is cleared; a failure to record it
  is only logged.\<close>

definition prepay_failed :: "('p world, 'h) paymentUsecase \<Rightarrow> int \<Rightarrow> string \<Rightarrow> error \<Rightarrow> ('p world, 'a) prog" where
  "prepay_failed uc pid leaseToken e =
     prog_try (transact (RecordPaymentPrepayError pid leaseToken (puc_Error uc e))) (\<lambda>_. prog_throw e)"

text \<open>From the claimed lease to the stored action.\<close>

definition prepay_claimed ::
    "('p world, 'h) paymentUsecase \<Rightarrow> PaymentCapabilities \<Rightarrow> PaymentMethod \<Rightarrow> Order \<Rightarrow> PrepayForOrderArgs \<Rightarrow>
     string \<Rightarrow> string \<Rightarrow> PaymentDO \<Rightarrow> ('p world, PrepayForOrderResult) prog" where
  "prepay_claimed uc capabilities method order args description leaseToken payment =
     prog_try (gw_Prepay (puc_gateway uc) \<lparr>prq_ExpiresAt = odo_ExpiresAt order, prq_Method = method,
       prq_OutTradeNo = pdo_OutTradeNo payment, prq_Description = description,
       prq_Amount = odo_TotalAmount order, prq_Currency = odo_Currency order,
       prq_ClientIP = pfa_ClientIP args, prq_Extension = pfa_Extension args\<rparr>) (\<lambda>r.
     case r of
       Inl e \<Rightarrow> prepay_failed uc (pdo_ID payment) leaseToken e
     | Inr None \<Rightarrow> prepay_failed uc (pdo_ID payment) leaseToken (InternalServer ''PAYMENT_PREPAY_RESPONSE_INVALID'')
     | Inr (Some prepay) \<Rightarrow>
        if act_Type (prs_Action prepay) = '''' \<or> act_Payload (prs_Action prepay) = ''''
        then prepay_failed uc (pdo_ID payment) leaseToken (InternalServer ''PAYMENT_PREPAY_RESPONSE_INVALID'')
        else prog_try (transact (activate_prepay (puc_paymentJobs uc) (puc_policy uc)
               (cap_RequiresPoll capabilities) (pm_Provider method) (odo_ExpiresAt order)
               (pdo_ID payment) leaseToken (prs_Action prepay))) (\<lambda>a.
          case a of
            Inl e \<Rightarrow> prepay_failed uc (pdo_ID payment) leaseToken e
          | Inr activated \<Rightarrow> prog_return \<lparr>pfr_Payment = activated,
              pfr_Prepay = \<lparr>prs_ProviderReference = prs_ProviderReference prepay,
                            prs_Action = pdo_Action activated\<rparr>\<rparr>))"

text \<open>\<open>outTradeNo\<close> and \<open>leaseToken\<close> are the two numbers the id generator draws.\<close>

definition PrepayForOrder ::
    "('p world, 'h) paymentUsecase \<Rightarrow> string \<Rightarrow> string \<Rightarrow> PrepayForOrderArgs \<Rightarrow>
     ('p world, PrepayForOrderResult) prog" where
  "PrepayForOrder uc outTradeNo leaseToken args =
     (let method = Normalize (pfa_Method args) in
      if PaymentMethod_String method = '''' then prog_throw (BadRequest ''PAYMENT_METHOD_REQUIRED'')
      else
      prog_bind (prog_lift (gw_Capabilities (puc_gateway uc) method)) (\<lambda>capabilities.
      prog_bind (transact (repo_GetOrderByOrderNo (pfa_OrderNo args))) (\<lambda>order.
      if pfa_UserID args \<le> 0 \<or> odo_UserID order \<noteq> pfa_UserID args then prog_throw ErrOrderNotFound
      else if odo_Status order \<noteq> OrderStatusPendingPayment then prog_throw (Conflict ''ORDER_NOT_PAYABLE'')
      else
      let trimmed = TrimSpace (pfa_Description args);
          description = (if trimmed = '''' then ''Order '' @ odo_OutTradeNo order else trimmed) in
      if go_len description > MaxPaymentDescriptionBytes then prog_throw ErrPaymentDescriptionTooLong
      else
      prog_bind (prog_lift (validateOutTradeNo outTradeNo)) (\<lambda>_.
      prog_bind (on_db (CreatePayment \<lparr>cya_OrderID = odo_ID order, cya_UserID = odo_UserID order, cya_MerchantID = 0,
        cya_Amount = odo_TotalAmount order, cya_Currency = odo_Currency order,
        cya_Method = PaymentMethod_String method, cya_OutTradeNo = outTradeNo\<rparr>)) (\<lambda>payment.
      if pdo_Status payment = PaymentStatusPending \<and> act_Type (pdo_Action payment) \<noteq> ''''
        then prog_return (stored_action payment)
      else if pdo_Status payment \<noteq> PaymentStatusCreating then prog_throw ErrPaymentStateConflict
      else
      prog_bind (transact (ClaimPaymentPrepay (pdo_ID payment) leaseToken (pol_PrepayLeaseDuration (puc_policy uc))))
        (\<lambda>claimed.
      if pdo_Status claimed = PaymentStatusPending \<and> act_Type (pdo_Action claimed) \<noteq> ''''
        then prog_return (stored_action claimed)
      else prepay_claimed uc capabilities method order args description leaseToken claimed))))))"

section \<open>Refunds\<close>

text \<open>A Go pair \<open>(result, err)\<close> of which the caller looks at both parts.\<close>

type_synonym refund_outcome = "PaymentRefundResult option \<times> error option"

definition settle_refund ::
    "PaymentDO \<Rightarrow> PaymentRefund \<Rightarrow> refund_outcome \<Rightarrow> 'p world \<Rightarrow> refund_outcome \<times> 'p world" where
  "settle_refund payment refund outcome = (case outcome of
       (result, Some e) \<Rightarrow> (\<lambda>w. ((result, Some e), w))
     | (result, None) \<Rightarrow>
         if (case result of None \<Rightarrow> True | Some r \<Rightarrow> \<not> rrs_Success r \<or> rrs_Rejection r)
         then (\<lambda>w. ((result, Some (StatusError 502 ''PAYMENT_REFUND_FAILED'')), w))
         else (\<lambda>w. case transact (ApplyPaymentRefund (pdo_ID payment) (prf_ID refund)) w of (r, w') \<Rightarrow>
                ((case r of Inl e \<Rightarrow> (None, Some e) | Inr _ \<Rightarrow> (result, None)), w')))"

definition executeRefund ::
    "('p world, 'h) paymentUsecase \<Rightarrow> PaymentMethod \<Rightarrow> PaymentDO \<Rightarrow> PaymentRefund \<Rightarrow>
     'p world \<Rightarrow> refund_outcome \<times> 'p world" where
  "executeRefund uc method payment refund =
     (if prf_Status refund = PaymentRefundStatusSuccess then
        (\<lambda>w. ((Some \<lparr>rrs_Method = method, rrs_OutTradeNo = pdo_OutTradeNo payment,
           rrs_TransactionID = pdo_ThirdPartyTxID payment, rrs_OutRefundNo = prf_OutRefundNo refund,
           rrs_Amount = prf_RefundAmount refund, rrs_Currency = prf_Currency refund,
           rrs_Success = True, rrs_Rejection = False\<rparr>, None), w))
      else (\<lambda>w. case gw_Refund (puc_gateway uc)
          \<lparr>rrq_Method = method, rrq_OutTradeNo = pdo_OutTradeNo payment,
           rrq_TransactionID = pdo_ThirdPartyTxID payment, rrq_OutRefundNo = prf_OutRefundNo refund,
           rrq_Amount = prf_RefundAmount refund, rrq_Currency = prf_Currency refund,
           rrq_Reason = prf_Reason refund\<rparr> w of (outcome, w') \<Rightarrow> settle_refund payment refund outcome w'))"

text \<open>Returns the outcome the reconciliation counts: \<^verbatim>\<open>record_error\<close>, \<^verbatim>\<open>rejected\<close> or
  \<^verbatim>\<open>deferred\<close>.\<close>

definition recordRefundFailure ::
    "('p world, 'h) paymentUsecase \<Rightarrow> int \<Rightarrow> PaymentRefundResult option \<Rightarrow> error \<Rightarrow>
     'p world \<Rightarrow> string \<times> 'p world" where
  "recordRefundFailure uc refundID result cause =
     (let definitive = (case result of None \<Rightarrow> False | Some r \<Rightarrow> rrs_Rejection r) in
      (\<lambda>w. case transact (RecordPaymentRefundError refundID (puc_Error uc cause) definitive) w of (r, w') \<Rightarrow>
        ((case r of Inl _ \<Rightarrow> ''record_error'' | Inr _ \<Rightarrow> if definitive then ''rejected'' else ''deferred''), w')))"

text \<open>What \<open>RefundPayment\<close> returns for an outcome: a failure is recorded first.\<close>

definition refund_answer ::
    "('p world, 'h) paymentUsecase \<Rightarrow> PaymentRefund \<Rightarrow> refund_outcome \<Rightarrow> ('p world, PaymentRefundResult) prog" where
  "refund_answer uc refund outcome = (case outcome of
       (result, Some e) \<Rightarrow> (\<lambda>w. case recordRefundFailure uc (prf_ID refund) result e w of (_, w') \<Rightarrow> (Inl e, w'))
     | (Some result, None) \<Rightarrow> prog_return result
     | (None, None) \<Rightarrow> prog_throw nil_panic)"

text \<open>The refund number drawn from the generator is an argument; \<open>None\<close>: no generator.\<close>

definition RefundPayment ::
    "('p world, 'h) paymentUsecase \<Rightarrow> string option \<Rightarrow> int \<Rightarrow> ('p world, PaymentRefundResult) prog" where
  "RefundPayment uc refundNo paymentID =
     (if paymentID \<le> 0 then prog_throw (BadRequest ''PAYMENT_ID_REQUIRED'')
      else case refundNo of None \<Rightarrow> prog_throw (InternalServer ''PAYMENT_ID_GENERATOR_MISSING'')
      | Some no \<Rightarrow>
      prog_bind (transact (repo_GetPayment paymentID)) (\<lambda>payment.
      prog_bind (prog_lift (ParsePaymentMethod (pdo_Method payment))) (\<lambda>method.
      prog_bind (prog_lift (gw_Capabilities (puc_gateway uc) method)) (\<lambda>capabilities.
      if \<not> cap_SupportsRefund capabilities then prog_throw (StatusError 501 ''PAYMENT_REFUND_NOT_SUPPORTED'')
      else prog_bind (transact (PreparePaymentRefund paymentID no)) (\<lambda>(locked, refund).
        (\<lambda>w. case executeRefund uc method locked refund w of (outcome, w') \<Rightarrow> refund_answer uc refund outcome w'))))))"

text \<open>The checks before a stale refund is issued again.\<close>

definition reprepare ::
    "('p world, 'h) paymentUsecase \<Rightarrow> PaymentRefund \<Rightarrow> ('p world, PaymentMethod \<times> PaymentDO \<times> PaymentRefund) prog" where
  "reprepare uc refund =
     prog_bind (transact (repo_GetPayment (prf_PaymentID refund))) (\<lambda>payment.
     prog_bind (prog_lift (ParsePaymentMethod (pdo_Method payment))) (\<lambda>method.
     prog_bind (prog_lift (gw_Capabilities (puc_gateway uc) method)) (\<lambda>capabilities.
     if \<not> cap_SupportsRefund capabilities
     then prog_throw (Errorf (''provider '' @ pm_Provider method @ '' does not support refund''))
     else prog_bind (transact (PreparePaymentRefund (prf_PaymentID refund) (prf_OutRefundNo refund)))
       (\<lambda>(current, prepared).
       if prf_ID prepared \<noteq> prf_ID refund then prog_throw ErrPaymentStateConflict
       else prog_return (method, current, prepared)))))"

definition reconcileRefund ::
    "('p world, 'h) paymentUsecase \<Rightarrow> PaymentRefund \<Rightarrow> 'p world \<Rightarrow> refund_outcome \<times> 'p world" where
  "reconcileRefund uc refund w =
     (case reprepare uc refund w of (r, w') \<Rightarrow>
      (case r of Inl e \<Rightarrow> (\<lambda>w. ((None, Some e), w))
       | Inr (method, current, prepared) \<Rightarrow> executeRefund uc method current prepared) w')"

text \<open>One turn of the loop: the new count of settled refunds.\<close>

definition reconcile_one ::
    "('p world, 'h) paymentUsecase \<Rightarrow> PaymentRefund \<Rightarrow> int \<Rightarrow> 'p world \<Rightarrow> int \<times> 'p world" where
  "reconcile_one uc refund settled w =
     (case reconcileRefund uc refund w of (outcome, w') \<Rightarrow>
      (case outcome of
         (result, Some e) \<Rightarrow> (\<lambda>w. case recordRefundFailure uc (prf_ID refund) result e w of (_, w'') \<Rightarrow> (settled, w''))
       | (result, None) \<Rightarrow> (\<lambda>w. (settled + 1, w))) w')"

text \<open>The loop over the stale refunds; a failed one is recorded and the loop goes on.\<close>

fun reconcile_all ::
    "('p world, 'h) paymentUsecase \<Rightarrow> PaymentRefund list \<Rightarrow> int \<Rightarrow> 'p world \<Rightarrow> int \<times> 'p world" where
  "reconcile_all uc [] settled w = (settled, w)"
| "reconcile_all uc (refund # refunds) settled w =
     (case reconcile_one uc refund settled w of (settled', w') \<Rightarrow> reconcile_all uc refunds settled' w')"

definition ReconcilePendingRefunds ::
    "('p world, 'h) paymentUsecase \<Rightarrow> int \<Rightarrow> int \<Rightarrow> ('p world, int) prog" where
  "ReconcilePendingRefunds uc olderThan limit =
     prog_bind (transact (ListStalePendingRefunds (if olderThan \<le> 0 then 600 * 10 ^ 9 else olderThan)
                            (if limit \<le> 0 then 100 else limit))) (\<lambda>refunds w.
     case reconcile_all uc refunds 0 w of (settled, w') \<Rightarrow> (Inr settled, w'))"

section \<open>Notifications and check jobs\<close>

definition callback_failure :: "PaymentDO \<Rightarrow> string \<Rightarrow> PaymentNotification \<Rightarrow> ReconciliationFailure" where
  "callback_failure payment provider n = \<lparr>rf_PaymentID = pdo_ID payment, rf_NotificationID = 0,
     rf_Provider = provider, rf_RiverJobID = None, rf_Attempt = 1,
     rf_Reason = (if pn_Amount n = pdo_Amount payment then ''callback_currency_mismatch''
                  else ''callback_amount_mismatch''),
     rf_LastError = ''verified payment notification does not match persisted payment''\<rparr>"

definition HandleNotification :: "('p world, 'h) paymentUsecase \<Rightarrow> string \<Rightarrow> 'h \<Rightarrow> ('p world, unit) prog" where
  "HandleNotification uc provider request =
     (case puc_notificationRepo uc of
        None \<Rightarrow> prog_throw (ServiceUnavailable ''PAYMENT_CALLBACK_STORE_UNAVAILABLE'')
      | Some repo \<Rightarrow>
      prog_bind (prog_lift (gw_ParseAndVerifyNotification (puc_gateway uc) provider request)) (\<lambda>n.
      prog_bind (transact (repo_GetPaymentByOutTradeNo (pn_OutTradeNo n))) (\<lambda>payment.
      prog_bind (prog_lift (ParsePaymentMethod (pdo_Method payment))) (\<lambda>method.
      if pm_Provider method \<noteq> ToLower (pn_Provider n)
        then prog_throw (BadRequest ''PAYMENT_NOTIFICATION_PROVIDER_MISMATCH'')
      else if pn_Amount n \<noteq> pdo_Amount payment \<or>
              ToUpper (TrimSpace (pn_Currency n)) \<noteq> ToUpper (TrimSpace (pdo_Currency payment)) then
        prog_bind (transact (MarkReconciliationRequired (callback_failure payment (pm_Provider method) n)))
          (\<lambda>_. prog_throw (Conflict ''PAYMENT_NOTIFICATION_AMOUNT_MISMATCH''))
      else prog_bind (transact (PersistAndEnqueueNotification repo n
             (poll_args (puc_policy uc) (pdo_ID payment) (pm_Provider method) ''callback'' 0)))
             (\<lambda>_. prog_return ())))))"

definition DefaultPaymentNotificationAck :: PaymentNotificationAck where
  "DefaultPaymentNotificationAck = \<lparr>ack_StatusCode = 400, ack_ContentType = ''text/plain; charset=utf-8'',
     ack_Body = ''unsupported provider''\<rparr>"

definition uc_NotificationAck :: "('w, 'h) paymentUsecase \<Rightarrow> string \<Rightarrow> bool \<Rightarrow> PaymentNotificationAck" where
  "uc_NotificationAck uc provider success =
     (case gw_NotificationAck (puc_gateway uc) provider success of
        Inl _ \<Rightarrow> DefaultPaymentNotificationAck | Inr ack \<Rightarrow> ack)"

definition SupportsNotificationProvider :: "('w, 'h) paymentUsecase \<Rightarrow> string \<Rightarrow> bool" where
  "SupportsNotificationProvider uc provider =
     (case gw_NotificationAck (puc_gateway uc) provider False of Inl _ \<Rightarrow> False | Inr _ \<Rightarrow> True)"

definition CreateCheckJob ::
    "('p world, 'h) paymentUsecase \<Rightarrow> int \<Rightarrow> int \<Rightarrow> int \<Rightarrow> int \<Rightarrow> string \<Rightarrow> ('p world, int \<times> bool) prog" where
  "CreateCheckJob uc paymentID maxPolls pollInterval delay trigger =
     (case puc_paymentJobs uc of None \<Rightarrow> prog_throw (ServiceUnavailable ''PAYMENT_MQ_NOT_CONFIGURED'')
      | Some repo \<Rightarrow>
      prog_bind (transact (repo_GetPayment paymentID)) (\<lambda>payment.
      prog_bind (prog_lift (ParsePaymentMethod (pdo_Method payment))) (\<lambda>method.
      transact (enqueue repo ((trigger_args (pdo_ID payment) (pm_Provider method) trigger)
        \<lparr>cpa_MaxPolls := maxPolls, cpa_PollIntervalSeconds := whole_seconds pollInterval\<rparr>) delay))))"

end
