(* ===== verification/Workers.thy ===== *)
theory Workers
  imports PaymentUsecase
begin

text \<open>
  The background workers of the payment and order components (app/mall/internal/job/river.go,
  close\_payment.go, order\_expiry.go, reaper.go). A worker returns nil, an error (the queue
  retries it with the delay of \<open>NextRetry\<close>), \<open>river.JobCancel\<close> or \<open>river.JobSnooze\<close>.
\<close>

datatype work_result = JobComplete | JobCancel error | JobSnooze int

abbreviation Second :: int where
  "Second \<equiv> 10 ^ 9"

definition PaymentExpirySafetyMargin :: int where
  "PaymentExpirySafetyMargin = 60 * Second"

text \<open>\<open>time.Until(t)\<close>: \<open>t.Sub(time.Now())\<close>, which saturates at the ends of int64.\<close>

definition time_Until :: "int \<Rightarrow> int \<Rightarrow> int" where
  "time_Until t now = max (- (2 ^ 63)) (min MaxInt64 (t - now))"

text \<open>\<open>time.Second << min(attempt, 6)\<close>; River counts attempts from 1.\<close>

definition NextRetry :: "int \<Rightarrow> int \<Rightarrow> int" where
  "NextRetry now attempt = now + Second * 2 ^ nat (min attempt 6)"

text \<open>
  The parameters of a worker: the gateway, the repository's job queue, the JSON decoder of a
  signed payload (its flag says whether decoding succeeded; a failed decoding may leave fields
  set), the outcome of \<open>river.RecordOutput\<close> and the text of an error.
\<close>

record SignedPaymentPayload =
  spp_Payload :: string
  spp_ExpiresAt :: int
  spp_ProviderAccount :: string

record ('w, 'h) pay_worker =
  pw_gateway :: "('w, 'h) gateway"
  pw_repoJobs :: "river option"
  pw_Unmarshal :: "string \<Rightarrow> bool \<times> SignedPaymentPayload"
  pw_recordOutput :: "int \<Rightarrow> error + unit"
  pw_Error :: "error \<Rightarrow> string"

section \<open>Checking a payment\<close>

text \<open>
  \<open>retryable\<close> returns the work error, wrapped when recording it failed; \<open>cancel\<close> gives the
  job up unless the notification cannot be marked.
\<close>

definition retryable :: "('p world, 'h) pay_worker \<Rightarrow> CheckPayArgs \<Rightarrow> error \<Rightarrow> ('p world, work_result) prog" where
  "retryable wk args workErr =
     (if cpa_NotificationID args \<le> 0 then prog_throw workErr
      else prog_try (transact (RecordPaymentNotificationError (cpa_NotificationID args) (pw_Error wk workErr)))
             (\<lambda>_. prog_throw workErr))"

definition cancel :: "('p world, 'h) pay_worker \<Rightarrow> CheckPayArgs \<Rightarrow> error \<Rightarrow> ('p world, work_result) prog" where
  "cancel wk args workErr =
     (if cpa_NotificationID args > 0 then
        prog_bind (transact (MarkPaymentNotificationFailed (cpa_NotificationID args) (pw_Error wk workErr)))
          (\<lambda>_. prog_return (JobCancel workErr))
      else prog_return (JobCancel workErr))"

text \<open>\<open>m\<close>, with its error handed to \<open>retryable\<close>.\<close>

definition or_retry ::
    "('p world, 'h) pay_worker \<Rightarrow> CheckPayArgs \<Rightarrow> ('p world, 'a) prog \<Rightarrow> ('a \<Rightarrow> ('p world, work_result) prog) \<Rightarrow>
     ('p world, work_result) prog" where
  "or_retry wk args m k = prog_try m (\<lambda>r. case r of Inl e \<Rightarrow> retryable wk args e | Inr x \<Rightarrow> k x)"

text \<open>
  A provider state that is still pending: one more poll is recorded; polling goes on while the
  budget lasts, and waits for the order's deadline after it. Only then the payment is handed
  over to closing. \<open>output\<close> is the poll count an earlier run of the job recorded.
\<close>

definition check_pending ::
    "('p world, 'h) pay_worker \<Rightarrow> CheckPayArgs \<Rightarrow> int option \<Rightarrow> ('p world, work_result) prog" where
  "check_pending wk args0 output =
     (let count = wrap64 ((case output of None \<Rightarrow> cpa_PollCount args0 | Some n \<Rightarrow> n) + 1);
          args = args0\<lparr>cpa_PollCount := count\<rparr> in
      or_retry wk args (prog_lift (pw_recordOutput wk count)) (\<lambda>_.
      if count < cpa_MaxPolls args then prog_return (JobSnooze (wrap64 (cpa_PollIntervalSeconds args * Second)))
      else
      or_retry wk args
        (if cpa_OrderExpiresAt args = 0 then transact (GetOrderExpiry (cpa_PaymentID args))
         else prog_return (cpa_OrderExpiresAt args)) (\<lambda>deadline.
      prog_bind time_Now (\<lambda>now.
      let wait = time_Until (deadline + PaymentExpirySafetyMargin) now in
      if deadline \<noteq> 0 \<and> wait > 0 then prog_return (JobSnooze (max Second wait))
      else or_retry wk args (transact (MarkPayClosePending (pw_repoJobs wk) args)) (\<lambda>_.
        prog_return JobComplete)))))"

definition check_result ::
    "('p world, 'h) pay_worker \<Rightarrow> CheckPayArgs \<Rightarrow> int option \<Rightarrow> PaymentQueryResult option \<Rightarrow>
     ('p world, work_result) prog" where
  "check_result wk args output result =
     (case result of
        None \<Rightarrow> retryable wk args (Errorf ''payment provider returned an empty query result'')
      | Some res \<Rightarrow>
        if IsTerminal (qrs_TradeState res) then
          or_retry wk args (on_db (ApplyPayQuery args (Some res))) (\<lambda>_. prog_return JobComplete)
        else if \<not> IsPending (qrs_TradeState res) then
          retryable wk args (Errorf (''provider returned unsupported state '' @ TradeState_String (qrs_TradeState res)))
        else check_pending wk args output)"

definition CheckPayWorker_Work ::
    "('p world, 'h) pay_worker \<Rightarrow> CheckPayArgs \<Rightarrow> int option \<Rightarrow> ('p world, work_result) prog" where
  "CheckPayWorker_Work wk jobArgs output =
     (let args = NormalizeCheckPayArgs jobArgs in
      if cpa_PaymentID args \<le> 0 \<or> cpa_Provider args = ''''
        then cancel wk args (Errorf ''payment_id and provider are required'')
      else
      prog_bind (transact (GetPaymentForJob (cpa_PaymentID args))) (\<lambda>payment.
      if \<not> ReconciliationJobCurrent (cpa_ReconciliationVersion args) (pdo_ReconciliationVersion payment)
             (pdo_ReconciliationStatus payment) then prog_return JobComplete
      else (case ParsePaymentMethod (pdo_Method payment) of
        Inl e \<Rightarrow> cancel wk args e
      | Inr method \<Rightarrow>
        if pm_Provider method \<noteq> cpa_Provider args
          then cancel wk args (Errorf ''job provider does not match payment method'')
        else
        prog_try (transact (BeginPaymentNotificationProcessing (cpa_NotificationID args) (cpa_Provider args)
                   (pdo_OutTradeNo payment))) (\<lambda>r.
        case r of
          Inl e \<Rightarrow> if e = ErrPaymentNotificationBinding then cancel wk args e else prog_throw e
        | Inr proceed \<Rightarrow>
          if \<not> proceed then prog_return JobComplete
          else or_retry wk args (gw_Query (pw_gateway wk) (query_request method payment))
                 (check_result wk args output)))))"

section \<open>Closing a payment\<close>

definition close_failure :: "PaymentDO \<Rightarrow> string \<Rightarrow> int \<Rightarrow> string \<Rightarrow> string \<Rightarrow> ReconciliationFailure" where
  "close_failure payment provider attempt reason lastError = \<lparr>rf_PaymentID = pdo_ID payment, rf_NotificationID = 0,
     rf_Provider = provider, rf_RiverJobID = None, rf_Attempt = max 1 attempt, rf_Reason = reason,
     rf_LastError = lastError\<rparr>"

text \<open>
  The provider does not know the trade. Closing is applied only with proof that the payment
  parameters were never issued or have expired; otherwise the payment goes to review.
\<close>

definition close_absent ::
    "('p world, 'h) pay_worker \<Rightarrow> int \<Rightarrow> PaymentDO \<Rightarrow> PaymentMethod \<Rightarrow> CheckPayArgs \<Rightarrow> bool \<Rightarrow>
     SignedPaymentPayload \<Rightarrow> int \<Rightarrow> ('p world, work_result) prog" where
  "close_absent wk attempt payment method applyArgs0 localSigning signed queryStarted =
     (let unissued = CanConfirmUnissuedPayment payment queryStarted;
          applyArgs = applyArgs0\<lparr>cpa_ConfirmUnissued := unissued\<rparr>;
          dated = localSigning \<and> spp_ProviderAccount signed \<noteq> '''' \<and> spp_Payload signed \<noteq> '''' \<and>
                  spp_ExpiresAt signed \<noteq> 0;
          safeAt = spp_ExpiresAt signed + PaymentExpirySafetyMargin in
      if dated \<and> queryStarted < safeAt then
        prog_bind time_Now (\<lambda>now. prog_return (JobSnooze (max Second (time_Until safeAt now))))
      else if unissued \<or> dated then
        prog_bind (on_db (ApplyPayQuery applyArgs (Some (closed_result method payment ''''))))
          (\<lambda>_. prog_return JobComplete)
      else prog_bind (transact (MarkReconciliationRequired (close_failure payment (pm_Provider method) attempt
             ''provider_order_not_exist''
             ''provider absence without proof that previously issued payment parameters are unusable'')))
             (\<lambda>_. prog_return JobComplete))"

text \<open>The provider still has an open trade: it is closed there, then here.\<close>

definition close_open ::
    "('p world, 'h) pay_worker \<Rightarrow> int \<Rightarrow> PaymentDO \<Rightarrow> PaymentMethod \<Rightarrow> CheckPayArgs \<Rightarrow> PaymentQueryRequest \<Rightarrow>
     ('p world, work_result) prog" where
  "close_open wk attempt payment method applyArgs queryRequest =
     prog_bind (prog_lift (gw_Capabilities (pw_gateway wk) method)) (\<lambda>capabilities.
     if \<not> cap_SupportsClose capabilities then
       (if cpa_ReconciliationVersion applyArgs \<noteq> 0
        then prog_throw (Errorf ''provider does not support payment close'')
        else prog_bind (transact (MarkReconciliationRequired (close_failure payment (pm_Provider method) attempt
               ''close_failed'' ''provider does not support payment close''))) (\<lambda>_. prog_return JobComplete))
     else
     prog_try (gw_Close (pw_gateway wk) (close_request method payment)) (\<lambda>r.
     prog_bind (if r = Inl ErrProviderTradeStateConflict then gw_Query (pw_gateway wk) queryRequest
                else prog_return None) (\<lambda>query.
     case (case query of None \<Rightarrow> None | Some q \<Rightarrow> if IsTerminal (qrs_TradeState q) then Some q else None) of
       Some q \<Rightarrow> prog_bind (on_db (ApplyPayQuery applyArgs (Some q))) (\<lambda>_. prog_return JobComplete)
     | None \<Rightarrow> (case r of
         Inl e \<Rightarrow> prog_throw e
       | Inr None \<Rightarrow> prog_throw (Errorf ''payment provider returned an empty close result'')
       | Inr (Some closing) \<Rightarrow>
          if \<not> crs_Success closing then prog_throw (Errorf ''provider did not confirm payment close'')
          else prog_bind (on_db (ApplyPayQuery applyArgs (Some (closed_result method payment (crs_TransactionID closing)))))
                 (\<lambda>_. prog_return JobComplete)))))"

text \<open>Whether the payment's parameters are only signed locally, and what was signed.\<close>

definition locally_signed_product :: "PaymentMethod \<Rightarrow> bool" where
  "locally_signed_product method \<longleftrightarrow>
     pm_Provider method = ''alipay'' \<and> (pm_Product method = ''app'' \<or> pm_Product method = ''wap'')"

definition signed_payload :: "('w, 'h) pay_worker \<Rightarrow> PaymentMethod \<Rightarrow> PaymentDO \<Rightarrow> bool \<times> SignedPaymentPayload" where
  "signed_payload wk method payment =
     (if locally_signed_product method \<and> act_Type (pdo_Action payment) \<noteq> ''''
      then pw_Unmarshal wk (act_Payload (pdo_Action payment))
      else (False, \<lparr>spp_Payload = '''', spp_ExpiresAt = 0, spp_ProviderAccount = ''''\<rparr>))"

definition close_checked ::
    "('p world, 'h) pay_worker \<Rightarrow> int \<Rightarrow> PaymentDO \<Rightarrow> PaymentMethod \<Rightarrow> CheckPayArgs \<Rightarrow> ('p world, work_result) prog" where
  "close_checked wk attempt payment method applyArgs =
     (case signed_payload wk method payment of (localSigning, signed) \<Rightarrow>
      let queryRequest = (query_request method payment)
            \<lparr>qrq_ExpectedProviderAccount := spp_ProviderAccount signed\<rparr> in
      prog_bind time_Now (\<lambda>queryStarted.
      prog_try (gw_Query (pw_gateway wk) queryRequest) (\<lambda>r.
      case r of
        Inl e \<Rightarrow> if e = ErrProviderOrderNotExist
          then close_absent wk attempt payment method applyArgs localSigning signed queryStarted
          else prog_throw e
      | Inr None \<Rightarrow> prog_throw (Errorf ''payment provider returned an empty query result'')
      | Inr (Some query) \<Rightarrow>
          if IsTerminal (qrs_TradeState query)
          then prog_bind (on_db (ApplyPayQuery applyArgs (Some query))) (\<lambda>_. prog_return JobComplete)
          else close_open wk attempt payment method applyArgs queryRequest)))"

definition ClosePayWorker_Work ::
    "('p world, 'h) pay_worker \<Rightarrow> int \<Rightarrow> ClosePayArgs \<Rightarrow> ('p world, work_result) prog" where
  "ClosePayWorker_Work wk attempt args =
     (if cla_PaymentID args \<le> 0 \<or> cla_Provider args = ''''
      then prog_return (JobCancel (Errorf ''close_pay requires payment_id, provider, gateway, and repository''))
      else
      prog_bind (transact (GetPaymentForJob (cla_PaymentID args))) (\<lambda>payment.
      if \<not> ReconciliationJobCurrent (cla_ReconciliationVersion args) (pdo_ReconciliationVersion payment)
             (pdo_ReconciliationStatus payment) then prog_return JobComplete
      else (case ParsePaymentMethod (pdo_Method payment) of
        Inl e \<Rightarrow> prog_return (JobCancel e)
      | Inr method \<Rightarrow>
        if pm_Provider method \<noteq> cla_Provider args
          then prog_return (JobCancel (Errorf ''close_pay provider does not match payment''))
        else
        prog_bind time_Now (\<lambda>now.
        case (if locally_signed_product method \<and> pdo_Status payment = PaymentStatusClosePending \<and>
                 act_Type (pdo_Action payment) = '''' then pdo_PrepayLeaseUntil payment else None) of
          Some leaseUntil \<Rightarrow>
            if now < leaseUntil then prog_return (JobSnooze (max Second (time_Until leaseUntil now)))
            else close_checked wk attempt payment method ((trigger_args (pdo_ID payment) (pm_Provider method) ''close_pay'')
                   \<lparr>cpa_ReconciliationVersion := cla_ReconciliationVersion args\<rparr>)
        | None \<Rightarrow>
            close_checked wk attempt payment method ((trigger_args (pdo_ID payment) (pm_Provider method) ''close_pay'')
                   \<lparr>cpa_ReconciliationVersion := cla_ReconciliationVersion args\<rparr>)))))"

section \<open>Order expiry, reaper and refund reconciliation\<close>

definition ExpireOrderWorker_Work :: "river option \<Rightarrow> int \<Rightarrow> ('p world, work_result) prog" where
  "ExpireOrderWorker_Work jobs orderID =
     (if orderID \<le> 0 then prog_return (JobCancel (Errorf ''expire_order requires order_id and repository''))
      else prog_try (on_db (ExpireOrder jobs orderID)) (\<lambda>r.
        case r of
          Inr _ \<Rightarrow> prog_return JobComplete
        | Inl e \<Rightarrow>
          if e = ErrOrderNotExpired then prog_return (JobSnooze (60 * Second))
          else if e = ErrPaymentReconciliationRequired then prog_return (JobSnooze (5 * 60 * Second))
          else if e = ErrOrderNotFound then prog_return (JobCancel e)
          else prog_throw e))"

definition ReapExpiredOrdersWorker_Work :: "river option \<Rightarrow> ('p world, work_result) prog" where
  "ReapExpiredOrdersWorker_Work jobs =
     prog_bind (on_db (ReapOverdueOrders jobs (5 * 60 * Second) 100)) (\<lambda>_. prog_return JobComplete)"

definition ReconcileRefundsWorker_Work :: "('p world, 'h) paymentUsecase \<Rightarrow> ('p world, work_result) prog" where
  "ReconcileRefundsWorker_Work uc =
     prog_bind (ReconcilePendingRefunds uc (10 * 60 * Second) 100) (\<lambda>_. prog_return JobComplete)"

end
