(* ===== verification/PaymentFlow.thy ===== *)
theory PaymentFlow
  imports Mall Workers
begin

text \<open>
  The payment use cases and workers, composed with the mall: whatever they do to the database,
  while other requests run during their provider calls, is a run of \<open>mall_step\<close>, so every
  invariant of the mall holds before, between and after their transactions.
\<close>

section \<open>Programs as runs of the mall\<close>

abbreviation runs :: "'p world \<Rightarrow> 'p world \<Rightarrow> bool" where
  "runs w w' \<equiv> rtranclp mall_step (w_db w) (w_db w')"

text \<open>
  The environment of a provider call: while it is in flight the database changes only by steps
  of the mall.
\<close>

definition adapter_interleaves :: "('p world, 'h) PaymentAdapter \<Rightarrow> bool" where
  "adapter_interleaves ad \<longleftrightarrow>
     (\<forall>req. prog_rel runs (ad_Prepay ad req)) \<and> (\<forall>req. prog_rel runs (ad_Query ad req)) \<and>
     (\<forall>req. prog_rel runs (ad_Close ad req)) \<and> (\<forall>req. prog_rel runs (ad_Refund ad req))"

definition interleaves :: "('p world, 'h) gateway \<Rightarrow> bool" where
  "interleaves g \<longleftrightarrow> (\<forall>p ad. g p = Some ad \<longrightarrow> adapter_interleaves ad)"

interpretation flow: prog_relation runs
  by unfold_locales auto

lemma flow_on_db: "(\<And>s r s'. f s = (r, s') \<Longrightarrow> mall_step s s') \<Longrightarrow> prog_rel runs (on_db f)"
  unfolding prog_rel_def on_db_def by (auto split: prod.splits)

lemma flow_transact: "(\<And>s r s'. InTx m s = (r, s') \<Longrightarrow> mall_step s s') \<Longrightarrow> prog_rel runs (transact m)"
  unfolding transact_def by (rule flow_on_db)

lemma flow_readonly: "(\<And>s r s'. m s = Inr (r, s') \<Longrightarrow> s' = s) \<Longrightarrow> prog_rel runs (transact m)"
  unfolding prog_rel_def transact_def on_db_def InTx_def by (auto split: prod.splits sum.splits)

lemma flow_at: "prog_rel runs m \<Longrightarrow> rtranclp mall_step (w_db w) (w_db (snd (m w)))"
  by (simp add: prog_rel_def)

lemma flow_time_Now: "prog_rel runs time_Now"
  by (simp add: prog_rel_def time_Now_def)

lemma flow_reads:
  "prog_rel runs (transact (repo_GetPayment i))" "prog_rel runs (transact (GetPaymentForJob i))"
  "prog_rel runs (transact (repo_GetPaymentByUser i uid))" "prog_rel runs (transact (repo_GetPaymentByOutTradeNo no))"
  "prog_rel runs (transact (repo_GetLatestPaymentByOrder i))" "prog_rel runs (transact (repo_GetOrderByOrderNo no))"
  "prog_rel runs (transact (repo_GetOrderByUser i uid))" "prog_rel runs (transact (GetOrderExpiry i))"
  "prog_rel runs (transact (ListStalePendingRefunds a b))"
  by (rule flow_readonly, force simp: repo_GetPayment_def GetPaymentForJob_def repo_GetPaymentByUser_def
      repo_GetPaymentByOutTradeNo_def repo_GetLatestPaymentByOrder_def repo_GetOrderByOrderNo_def
      repo_GetOrderByUser_def GetOrderExpiry_def ListStalePendingRefunds_def load_payment_def with_items_def
      loadItems_def q_GetLatestPaymentByOrder_def q_ListStalePendingRefunds_def tx_simps sql_defs
      split: option.splits if_splits list.splits)+

lemma flow_steps:
  "prog_rel runs (on_db (ApplyPayQuery cpa res))" "prog_rel runs (on_db (CreatePayment cya))"
  "prog_rel runs (on_db (ExpireOrder jobs i))" "prog_rel runs (on_db (ReapOverdueOrders jobs grace lmt))"
  "prog_rel runs (transact (ClaimPaymentPrepay i token lease))"
  "prog_rel runs (transact (activate_prepay jobs policy poll provider expiresAt i token act))"
  "prog_rel runs (transact (RecordPaymentPrepayError i token err))"
  "prog_rel runs (transact (MarkPayClosePending jobs cpa))"
  "prog_rel runs (transact (MarkReconciliationRequired f))"
  "prog_rel runs (transact (PreparePaymentRefund i no))"
  "prog_rel runs (transact (ApplyPaymentRefund i rid))"
  "prog_rel runs (transact (RecordPaymentRefundError i err definitive))"
  "prog_rel runs (transact (PersistAndEnqueueNotification ins n cpa))"
  "prog_rel runs (transact (BeginPaymentNotificationProcessing i provider no))"
  "prog_rel runs (transact (RecordPaymentNotificationError i err))"
  "prog_rel runs (transact (MarkPaymentNotificationFailed i err))"
  "prog_rel runs (transact (enqueue ins cpa delay))"
  by (rule flow_on_db flow_transact, erule mall_step.intros)+

lemma flow_gateway:
  assumes "interleaves g"
  shows "prog_rel runs (gw_Prepay g preq)" "prog_rel runs (gw_Query g qreq)"
    "prog_rel runs (gw_Close g creq)" "prog_rel runs (gw_Refund g rreq)"
proof -
  have "adapter_interleaves ad" if "gw_adapter g m = Inr ad" for m ad
    using that assms by (auto simp: gw_adapter_def interleaves_def Let_def split: option.splits if_splits)
  then show "prog_rel runs (gw_Prepay g preq)" "prog_rel runs (gw_Query g qreq)"
    "prog_rel runs (gw_Close g creq)" "prog_rel runs (gw_Refund g rreq)"
    unfolding gw_Prepay_def gw_Query_def gw_Close_def gw_Refund_def adapter_interleaves_def
    by (auto intro: flow.prel_throw flow.prel_pure split: sum.splits)
qed

lemmas flow_rules = flow.prel_intros flow_time_Now flow_reads flow_steps flow_gateway


text \<open>The programs. A provider call is the only place where the environment may step in.\<close>

lemma flow_authorized: "prog_rel runs (authorizedByOutTradeNo no uid)"
  unfolding authorizedByOutTradeNo_def by (intro flow_rules)

lemma flow_QueryPayment: "interleaves (puc_gateway uc) \<Longrightarrow> prog_rel runs (QueryPayment uc no uid)"
  unfolding QueryPayment_def by (intro flow_rules flow_authorized)

lemma flow_ClosePayment:
  assumes "interleaves (puc_gateway uc)"
  shows "prog_rel runs (ClosePayment uc no uid)"
proof -
  have "prog_rel runs (close_conflict uc m p)" for m p
    unfolding close_conflict_def by (intro flow_rules assms)
  then show ?thesis unfolding ClosePayment_def by (intro flow_rules flow_authorized assms)
qed

lemma flow_PrepayForOrder:
  assumes "interleaves (puc_gateway uc)"
  shows "prog_rel runs (PrepayForOrder uc no token args)"
proof -
  have "prog_rel runs (prepay_failed uc pid tok e)" for pid tok e
    unfolding prepay_failed_def by (intro flow_rules)
  then have "prog_rel runs (prepay_claimed uc cap m ord args d tok p)" for cap m ord d tok p
    unfolding prepay_claimed_def by (intro flow_rules assms)
  then show ?thesis unfolding PrepayForOrder_def by (intro flow_rules assms)
qed

lemma flow_settle_refund: "prog_rel runs (settle_refund p r outcome)"
  unfolding settle_refund_def
  by (intro flow.prel_case_prod flow.prel_case_option flow.prel_if flow.prel_pure flow.prel_chain flow_steps)

lemma flow_executeRefund: "interleaves (puc_gateway uc) \<Longrightarrow> prog_rel runs (executeRefund uc m p r)"
  unfolding executeRefund_def
  by (intro flow.prel_if flow.prel_pure flow.prel_chain flow_gateway flow_settle_refund)

lemma flow_recordRefundFailure: "prog_rel runs (recordRefundFailure uc i res e)"
  unfolding recordRefundFailure_def by (intro flow.prel_Let flow.prel_chain flow.prel_pure flow_steps)

lemma flow_RefundPayment:
  assumes "interleaves (puc_gateway uc)"
  shows "prog_rel runs (RefundPayment uc no pid)"
proof -
  have "prog_rel runs (refund_answer uc r outcome)" for r outcome
    unfolding refund_answer_def
    by (intro flow_rules flow.prel_chain flow.prel_pure flow_recordRefundFailure)
  then show ?thesis
    unfolding RefundPayment_def by (intro flow_rules flow.prel_chain flow_executeRefund assms)
qed

lemma flow_reconcile_one:
  assumes "interleaves (puc_gateway uc)"
  shows "prog_rel runs (reconcile_one uc r n)"
proof -
  have "prog_rel runs (reprepare uc r)" unfolding reprepare_def by (intro flow_rules assms)
  then have "prog_rel runs (reconcileRefund uc r)"
    unfolding reconcileRefund_def
    by (intro flow.prel_chain flow.prel_case_sum flow.prel_pure flow.prel_case_prod flow_executeRefund assms)
  then show ?thesis
    unfolding reconcile_one_def
    by (intro flow.prel_chain flow.prel_case_prod flow.prel_case_option flow.prel_pure flow_recordRefundFailure)
qed

lemma flow_reconcile_all:
  assumes "interleaves (puc_gateway uc)"
  shows "prog_rel runs (reconcile_all uc rs n)"
proof (induction rs arbitrary: n)
  case Nil
  show ?case by (simp add: prog_rel_def)
next
  case (Cons r rs)
  have "prog_rel runs (\<lambda>w. case reconcile_one uc r n w of (n', w') \<Rightarrow> reconcile_all uc rs n' w')"
    by (intro flow.prel_chain flow_reconcile_one assms Cons)
  then show ?case by (simp add: prog_rel_def)
qed

lemma flow_ReconcilePendingRefunds:
  "interleaves (puc_gateway uc) \<Longrightarrow> prog_rel runs (ReconcilePendingRefunds uc d n)"
  unfolding ReconcilePendingRefunds_def
  by (intro flow_rules flow.prel_chain flow.prel_pure flow_reconcile_all)

lemma flow_HandleNotification: "prog_rel runs (HandleNotification uc provider request)"
  unfolding HandleNotification_def by (intro flow_rules)

lemma flow_CreateCheckJob: "prog_rel runs (CreateCheckJob uc pid n d delay trigger)"
  unfolding CreateCheckJob_def by (intro flow_rules)

lemma flow_retryable: "prog_rel runs (retryable wk args e)"
  unfolding retryable_def by (intro flow_rules)

lemma flow_cancel: "prog_rel runs (cancel wk args e)"
  unfolding cancel_def by (intro flow_rules)

lemma flow_or_retry:
  "prog_rel runs m \<Longrightarrow> (\<And>x. prog_rel runs (k x)) \<Longrightarrow> prog_rel runs (or_retry wk args m k)"
  unfolding or_retry_def by (intro flow_rules flow_retryable)

lemma flow_CheckPayWorker:
  assumes "interleaves (pw_gateway wk)"
  shows "prog_rel runs (CheckPayWorker_Work wk args output)"
proof -
  have "prog_rel runs (check_pending wk a output)" for a
    unfolding check_pending_def by (intro flow_or_retry flow_rules)
  then have "prog_rel runs (check_result wk a output res)" for a res
    unfolding check_result_def by (intro flow_or_retry flow_rules flow_retryable)
  then show ?thesis
    unfolding CheckPayWorker_Work_def by (intro flow_or_retry flow_rules flow_cancel assms)
qed

lemma flow_ClosePayWorker:
  assumes "interleaves (pw_gateway wk)"
  shows "prog_rel runs (ClosePayWorker_Work wk attempt args)"
proof -
  have "prog_rel runs (close_absent wk attempt p m a b c d)"
    "prog_rel runs (close_open wk attempt p m a q)" for p m a b c d q
    unfolding close_absent_def close_open_def by (intro flow_rules assms)+
  then have "prog_rel runs (close_checked wk attempt p m a)" for p m a
    unfolding close_checked_def by (intro flow_rules assms)
  then show ?thesis unfolding ClosePayWorker_Work_def by (intro flow_rules)
qed

lemma flow_order_workers:
  "prog_rel runs (ExpireOrderWorker_Work jobs i)" "prog_rel runs (ReapExpiredOrdersWorker_Work jobs)"
  unfolding ExpireOrderWorker_Work_def ReapExpiredOrdersWorker_Work_def by (intro flow_rules)+

section \<open>A refund that is reported settled is settled\<close>

lemma confirm_refunded:
  "q_ConfirmPaymentRefunded i s = Inr (r, s') \<Longrightarrow>
   map_option pay_Status (find_row pay_ID i (tb_payments s')) = Some PaymentStatusRefunded"
  by (auto simp: q_ConfirmPaymentRefunded_def tx_simps find_row_upd)

lemma ApplyPaymentRefund_refunded:
  assumes "ApplyPaymentRefund i rid s = Inr (u, s')"
  shows "map_option pay_Status (find_row pay_ID i (tb_payments s')) = Some PaymentStatusRefunded"
proof -
  obtain ord p f r where p: "find_row pay_ID i (tb_payments s) = Some p" "pay_ID p = i"
    and settle: "settlePaymentRefund ord p f s = Inr (r, s')"
    using assms by (force simp: ApplyPaymentRefund_def tx_simps sql_defs split: if_splits dest: find_row_key)
  show ?thesis
  proof (cases "pay_Status p = PaymentStatusRefunded \<and> rfd_Status f = PaymentRefundStatusSuccess")
    case True
    then have "s' = s" using settle by (auto simp: settlePaymentRefund_def tx_simps split: if_splits)
    then show ?thesis using True p by simp
  next
    case False
    obtain s1 q where "q_ConfirmPaymentRefunded (pay_ID p) s1 = Inr (q, s')"
      using settle unfolding settlePaymentRefund_def if_not_P [OF False]
      by (auto simp: Let_def tx_simps split: if_splits)
    then show ?thesis using confirm_refunded p(2) by blast
  qed
qed

text \<open>Preparing a refund returns the payment it was asked for, and a refund record that says
  success only when it found one in the table and changed nothing.\<close>

lemma PreparePaymentRefund_result:
  assumes a: "PreparePaymentRefund i no s = Inr ((p, f), s')"
  shows "pdo_ID p = i" and "prf_Status f = PaymentRefundStatusSuccess \<Longrightarrow>
      s' = s \<and> (\<exists>row. refund_of i (tb_refunds s) = Some row \<and> rfd_Status row = PaymentRefundStatusSuccess)"
proof -
  obtain pay where pay: "find_row pay_ID i (tb_payments s) = Some pay"
    using a by (auto simp: PreparePaymentRefund_def tx_simps q_GetPayment_def)
  note steps = PreparePaymentRefund_def tx_simps q_GetPayment_def q_GetPaymentForUpdate_def
    q_LockUserForReference_def get_refund get_refund_none
  have p: "p = toBizPayment pay"
    using a pay by (auto simp: steps dest!: get_order_of_payment)
  then show "pdo_ID p = i" using find_row_key [OF pay] by (simp add: toBizPayment_def)
  assume ok: "prf_Status f = PaymentRefundStatusSuccess"
  show "s' = s \<and> (\<exists>row. refund_of i (tb_refunds s) = Some row \<and> rfd_Status row = PaymentRefundStatusSuccess)"
  proof (cases "refund_of i (tb_refunds s)")
    case None
    then obtain purpose row where "q_CreateOrderRefund pay no purpose s = Inr (row, s')" "f = toBizPaymentRefund row"
      using a pay by (auto simp: steps dest!: get_order_of_payment split: option.splits if_splits)
    then show ?thesis
      using ok by (auto simp: q_CreateOrderRefund_def new_refund_def toBizPaymentRefund_def rfd.insert_Inr split: if_splits)
  next
    case (Some row)
    then have "s' = s \<and> f = toBizPaymentRefund row \<or>
        (\<exists>x. q_RetryOrderRefund (rfd_ID row) s = Inr (x, s') \<and> f = toBizPaymentRefund x)"
      using a pay by (auto simp: steps dest!: get_order_of_payment split: option.splits if_splits)
    then show ?thesis
      using ok Some by (auto simp: toBizPaymentRefund_def q_RetryOrderRefund_def rfd.update_Inr)
  qed
qed

lemma executeRefund_settled:
  assumes "executeRefund uc m p f w = ((Some res, None), w')"
  shows "rrs_Success res \<and> (prf_Status f = PaymentRefundStatusSuccess \<and> w' = w \<or>
    map_option pay_Status (find_row pay_ID (pdo_ID p) (tb_payments (w_db w'))) = Some PaymentStatusRefunded)"
  using assms ApplyPaymentRefund_refunded
  by (auto simp: executeRefund_def settle_refund_def transact_Inr split: if_splits prod.splits option.splits sum.splits)

lemma successful_refund_row:
  assumes "mall_reachable s" and "refund_of i (tb_refunds s) = Some f" and "rfd_Status f = PaymentRefundStatusSuccess"
  shows "map_option pay_Status (find_row pay_ID i (tb_payments s)) = Some PaymentStatusRefunded"
proof -
  obtain p where p: "find_row pay_ID i (tb_payments s) = Some p"
    using reach_refund [OF assms(1,2)] by (auto simp: refund_ok_def)
  show ?thesis using reach_pay [OF assms(1) p] assms p by (auto simp: pay_ok_def)
qed


section \<open>What the use cases refuse\<close>

text \<open>
  Nobody can query or close the payment of somebody else: when the trade number names no
  payment of the user, both calls answer that there is no such payment, the provider is not
  asked and nothing changes.
\<close>
theorem foreign_payment_is_refused:
  assumes "\<forall>p \<in> set (tb_payments (w_db w)). pay_OutTradeNo p = no \<longrightarrow> pay_UserID p \<noteq> uid"
  shows "QueryPayment uc no uid w = (Inl ErrPaymentNotFound, w) \<and> ClosePayment uc no uid w = (Inl ErrPaymentNotFound, w)"
proof -
  have "authorizedByOutTradeNo no uid w = (Inl ErrPaymentNotFound, w)"
  proof (cases "List.find (\<lambda>p. pay_OutTradeNo p = no) (tb_payments (w_db w))")
    case None
    then show ?thesis
      by (simp add: authorizedByOutTradeNo_def repo_GetPaymentByOutTradeNo_def load_payment_def
          q_GetPaymentByOutTradeNo_def sql_find_def prog_eval tx_eval)
  next
    case (Some p)
    then have "p \<in> set (tb_payments (w_db w))" "pay_OutTradeNo p = no"
      by (auto simp: find_Some_iff)
    then have "pay_UserID p \<noteq> uid" using assms by blast
    with Some show ?thesis
      by (simp add: authorizedByOutTradeNo_def repo_GetPaymentByOutTradeNo_def load_payment_def
          q_GetPaymentByOutTradeNo_def sql_find_def toBizPayment_def prog_eval tx_eval)
  qed
  then show ?thesis unfolding QueryPayment_def ClosePayment_def by (simp add: prog_bind_Inl)
qed

section \<open>Retries of an older version\<close>

lemma GetPaymentForJob_bind:
  "find_row pay_ID i (tb_payments (w_db w)) = Some p \<Longrightarrow>
   prog_bind (transact (GetPaymentForJob i)) f w = f (toBizPayment p) w"
  by (simp add: GetPaymentForJob_def load_payment_def q_GetPayment_def sql_get_def prog_eval tx_eval)

lemma discard_stale_job:
  assumes "mall_reachable s" and "find_row pay_ID pid (tb_payments s) = Some p"
    and "\<not> ReconciliationJobCurrent version (pay_ReconciliationVersion p) (pay_ReconciliationStatus p)"
  shows "tb_payments (snd (InTx (discard_job j n pid nid provider version err) s)) = tb_payments s"
proof -
  have d: "distinct (map pay_ID (tb_payments s))" using reach_inv(1) [OF assms(1)] by (simp add: db_ok_def pk_def)
  have same: "q = p" if "List.find (\<lambda>q. pay_ID q = pid) (payments_newest_first (filter P (tb_payments s))) = Some q" for q P
  proof -
    have "q \<in> set (payments_newest_first (filter P (tb_payments s)))" "pay_ID q = pid"
      using that by (auto simp: find_Some_iff in_set_conv_nth)
    then have "find_row pay_ID pid (tb_payments s) = Some q"
      using find_row_mem [OF d] by (auto simp: payments_newest_first_def)
    then show ?thesis using assms(2) by simp
  qed
  have keeps: "tb_payments s1 = tb_payments s" if "fail_notification nid err s = Inr (u, s1)" for u s1
    using fail_notification_core [OF that] by (simp add: core_eq_def)
  have "tb_payments s' = tb_payments s" if run: "discard_job j n pid nid provider version err s = Inr (r, s')" for r s'
    using run assms(2,3) unfolding discard_job_def
    by (auto simp: tx_simps q_GetPayment_def q_GetOrderForUpdate_def q_ListPaymentsByOrderForUpdate_def
        split: option.splits if_splits dest!: same dest: keeps)
  then show ?thesis by (auto simp: InTx_def split: sum.splits)
qed

text \<open>
  A manual retry belongs to the reconciliation version that queued it: a check or close
  job of an older version, or of a case that is no longer processing, completes without asking
  the provider and without changing anything, and when such a job runs out of attempts its
  payment is not touched either.
\<close>
theorem stale_retry_does_nothing:
  assumes "mall_reachable (w_db w)" and "find_row pay_ID pid (tb_payments (w_db w)) = Some p" and "0 < pid"
    and "TrimSpace provider \<noteq> ''''"
    and "\<not> ReconciliationJobCurrent version (pay_ReconciliationVersion p) (pay_ReconciliationStatus p)"
    and "cpa_PaymentID cpa = pid" "cpa_Provider cpa = provider" "cpa_ReconciliationVersion cpa = version"
    and "cla_PaymentID cla = pid" "cla_Provider cla = provider" "cla_ReconciliationVersion cla = version"
  shows "CheckPayWorker_Work wk cpa output w = (Inr JobComplete, w) \<and>
    ClosePayWorker_Work wk attempt cla w = (Inr JobComplete, w) \<and>
    tb_payments (HandleError \<lparr>rj_ID = j, rj_Attempt = n, rj_MaxAttempts = k, rj_Args = CheckPay cpa\<rparr> err (w_db w))
      = tb_payments (w_db w)"
proof (intro conjI)
  have prov: "provider \<noteq> ''''" using assms(4) by (auto simp: TrimSpace_def)
  have stale: "\<not> ReconciliationJobCurrent version (pdo_ReconciliationVersion (toBizPayment p))
      (pdo_ReconciliationStatus (toBizPayment p))"
    using assms(5) by (simp add: toBizPayment_def)
  note get = GetPaymentForJob_bind [OF assms(2)]
  show "CheckPayWorker_Work wk cpa output w = (Inr JobComplete, w)"
    using assms(3,4,6-8) stale
    by (simp add: CheckPayWorker_Work_def NormalizeCheckPayArgs_def Let_def get prog_return_def)
  show "ClosePayWorker_Work wk attempt cla w = (Inr JobComplete, w)"
    using assms(3,9-11) prov stale by (simp add: ClosePayWorker_Work_def get prog_return_def)
  show "tb_payments (HandleError \<lparr>rj_ID = j, rj_Attempt = n, rj_MaxAttempts = k, rj_Args = CheckPay cpa\<rparr> err (w_db w))
      = tb_payments (w_db w)"
    using discard_stale_job [OF assms(1,2,5)] by (simp add: HandleError_def assms(6,8))
qed

section \<open>Polling inside the payment window\<close>

text \<open>Nothing but notification records and jobs changed, and no time passed.\<close>

definition quiet :: "'p world \<Rightarrow> 'p world \<Rightarrow> bool" where
  "quiet w w' \<longleftrightarrow> core_eq (w_db w) (w_db w') \<and> tb_time_Now (w_db w') = tb_time_Now (w_db w)"

definition deadline_of :: "CheckPayArgs \<Rightarrow> db \<Rightarrow> int" where
  "deadline_of args s = (if cpa_OrderExpiresAt args \<noteq> 0 then cpa_OrderExpiresAt args
     else case GetOrderExpiry (cpa_PaymentID args) s of Inl _ \<Rightarrow> 0 | Inr (d, _) \<Rightarrow> d)"

definition in_window :: "CheckPayArgs \<Rightarrow> 'p world \<Rightarrow> bool" where
  "in_window args w \<longleftrightarrow> deadline_of args (w_db w) \<noteq> 0 \<and>
     tb_time_Now (w_db w) < deadline_of args (w_db w) + PaymentExpirySafetyMargin"

abbreviation still :: "CheckPayArgs \<Rightarrow> 'p world \<Rightarrow> 'p world \<Rightarrow> bool" where
  "still args w w' \<equiv> in_window args w \<longrightarrow> quiet w w'"

lemma GetOrderExpiry_run: "\<exists>d. GetOrderExpiry i s = Inr (d, s)"
  by (auto simp: GetOrderExpiry_def q_GetOrderExpiryByPaymentID_def sql_get_def tx_eval split: option.splits)

lemma in_window_quiet: "quiet w w' \<Longrightarrow> in_window args w \<Longrightarrow> in_window args w'"
  unfolding in_window_def deadline_of_def quiet_def core_eq_def
  by (auto simp: GetOrderExpiry_def q_GetOrderExpiryByPaymentID_def sql_get_def tx_eval split: option.splits)

interpretation window: prog_relation "still args"
proof
  show "in_window args w \<longrightarrow> quiet w w" for w :: "'a world" by (simp add: quiet_def)
  show "in_window args u \<longrightarrow> quiet u w"
    if "in_window args u \<longrightarrow> quiet u v" "in_window args v \<longrightarrow> quiet v w" for u v w :: "'a world"
    using that in_window_quiet unfolding quiet_def by (metis core_eq_trans)
qed

lemma quiet_transact:
  assumes "\<And>s r s'. m s = Inr (r, s') \<Longrightarrow> core_eq s s' \<and> tb_time_Now s' = tb_time_Now s"
  shows "prog_rel (still args) (transact m)"
  unfolding prog_rel_def
proof (intro allI impI)
  fix w
  show "quiet w (snd (transact m w))"
    using assms [of "w_db w"] by (auto simp: quiet_def transact_def on_db_def InTx_def split: sum.splits)
qed

lemma quiet_notifications:
  "prog_rel (still args) (transact (BeginPaymentNotificationProcessing i provider no))"
  "prog_rel (still args) (transact (RecordPaymentNotificationError i err))"
  "prog_rel (still args) (transact (MarkPaymentNotificationFailed i err))"
  "prog_rel (still args) (transact (GetPaymentForJob i))"
  by (rule quiet_transact, auto simp: BeginPaymentNotificationProcessing_def RecordPaymentNotificationError_def
      MarkPaymentNotificationFailed_def notificationStateAfterCAS_def GetPaymentForJob_def load_payment_def
      tx_simps sql_defs core_eq_def split: if_splits)+

lemma quiet_retryable: "prog_rel (still args) (retryable wk a e)"
  unfolding retryable_def by (intro window.prel_intros quiet_notifications)

lemma quiet_cancel: "prog_rel (still args) (cancel wk a e)"
  unfolding cancel_def by (intro window.prel_intros quiet_notifications)

lemma check_pending_in_window:
  assumes "in_window args w"
  shows "(\<exists>d. check_pending wk args output w = (Inr (JobSnooze d), w)) \<or>
    (\<exists>a e. check_pending wk args output w = retryable wk a e w)"
proof -
  let ?d = "deadline_of args (w_db w)"
  have until: "0 < time_Until (?d + PaymentExpirySafetyMargin) (tb_time_Now (w_db w))" "?d \<noteq> 0"
    using assms by (auto simp: in_window_def time_Until_def MaxInt64_def)
  have d: "(if cpa_OrderExpiresAt args = 0 then transact (GetOrderExpiry (cpa_PaymentID args))
         else prog_return (cpa_OrderExpiresAt args)) w = (Inr ?d, w)"
    using GetOrderExpiry_run [of "cpa_PaymentID args" "w_db w"]
    by (auto simp: deadline_of_def transact_def on_db_def InTx_def prog_return_def)
  show ?thesis
    unfolding check_pending_def Let_def or_retry_def
    using until d by (auto simp: prog_try_def prog_bind_def prog_lift_def prog_return_def time_Now_def split: sum.splits)
qed

text \<open>
  Polling does not close a payment inside its order's payment window: while the provider
  reports a pending trade (or cannot be reached) and the deadline (with its safety margin) has not passed, a check
  job changes no payment, no order, no refund and no stock, however often it ran before.
\<close>
theorem polling_keeps_open_payment:
  assumes "\<forall>req v. snd (gw_Query (pw_gateway wk) req v) = v \<and>
      (\<forall>res. fst (gw_Query (pw_gateway wk) req v) = Inr (Some res) \<longrightarrow> IsPending (qrs_TradeState res))"
    and "in_window args w" and "CheckPayWorker_Work wk args output w = (r, w')"
  shows "core_eq (w_db w) (w_db w')"
proof -
  define a where "a = NormalizeCheckPayArgs args"
  have same: "in_window a v = in_window args v" for v :: "'a world"
    by (simp add: in_window_def deadline_of_def a_def NormalizeCheckPayArgs_def)
  have pending: "prog_rel (still args) (check_pending wk a output)"
    unfolding prog_rel_def
  proof (intro allI impI)
    fix v :: "'a world" assume v: "in_window args v"
    show "quiet v (snd (check_pending wk a output v))"
      using check_pending_in_window [of a v wk "output"] v quiet_retryable [of args wk]
      by (auto simp: same prog_rel_def quiet_def)
  qed
  have result: "prog_rel (still args) (or_retry wk a (gw_Query (pw_gateway wk) req) (check_result wk a output))" for req
    unfolding prog_rel_def
  proof (intro allI impI)
    fix v :: "'a world" assume v: "in_window args v"
    obtain r where r: "gw_Query (pw_gateway wk) req v = (r, v)" using assms(1) by (metis prod.collapse)
    have "\<not> IsTerminal (qrs_TradeState res) \<and> IsPending (qrs_TradeState res)" if "r = Inr (Some res)" for res
      using assms(1) r that by (cases "qrs_TradeState res") (metis fst_conv IsPending.simps IsTerminal.simps)+
    then have "prog_rel (still args) (check_result wk a output x)" if "r = Inr x" for x
      using that pending quiet_retryable by (auto simp: check_result_def split: option.splits)
    then show "quiet v (snd (or_retry wk a (gw_Query (pw_gateway wk) req) (check_result wk a output) v))"
      using v r quiet_retryable [of args wk] by (cases r) (simp_all add: or_retry_def prog_try_def prog_rel_def)
  qed
  have "prog_rel (still args) (CheckPayWorker_Work wk args output)"
    unfolding CheckPayWorker_Work_def a_def [symmetric] Let_def
    by (intro window.prel_intros quiet_cancel quiet_notifications result)
  from prog_relD [OF this assms(3)] assms(2) show ?thesis by (simp add: quiet_def)
qed

section \<open>Facts that only open a review\<close>

text \<open>Sending a payment to review changes no status, no order, no stock and queues no job.\<close>

definition only_review :: "db \<Rightarrow> db \<Rightarrow> bool" where
  "only_review s s' \<longleftrightarrow> map pay_Status (tb_payments s') = map pay_Status (tb_payments s) \<and>
     tb_orders s' = tb_orders s \<and> tb_products s' = tb_products s \<and> tb_refunds s' = tb_refunds s \<and> tb_jobs s' = tb_jobs s"

lemma only_review_refl [simp]: "only_review s s"
  by (simp add: only_review_def)

lemma only_review_trans: "only_review s t \<Longrightarrow> only_review t u \<Longrightarrow> only_review s u"
  by (simp add: only_review_def)

lemma map_upd_row: "(\<And>r. f (g r) = f r) \<Longrightarrow> map f (upd_row key i g t) = map f t"
  by (induction t) auto

lemma MarkReconciliationRequired_only_review:
  assumes "MarkReconciliationRequired f s = Inr (u, s')"
  shows "only_review s s'"
proof -
  have 1: "only_review s t" if "requirePaymentReconciliation i a b s = Inr (p, t)" for i a b p s t
    using that by (auto simp: requirePaymentReconciliation_def tx_simps sql_defs only_review_def map_upd_row)
  have 2: "only_review s t" if "createReconciliationFailure f s = Inr (v, t)" for f v s t
    using that by (auto simp: createReconciliationFailure_def q_CreatePaymentReconciliationFailure_def only_review_def split: if_splits)
  have 3: "only_review s t" if "markNotificationProcessed i s = Inr (v, t)" for i v s t
    using that by (auto simp: markNotificationProcessed_def notificationStateAfterCAS_def tx_simps sql_defs only_review_def
        split: if_splits)
  obtain p v s1 s2 where r: "requirePaymentReconciliation (rf_PaymentID f)
        (if rf_Reason f = '''' then ''job_exhausted'' else rf_Reason f) (rf_LastError f) s = Inr (p, s1)"
      "createReconciliationFailure f s1 = Inr (v, s2)" "markNotificationProcessed (rf_NotificationID f) s2 = Inr (u, s')"
    using assms unfolding MarkReconciliationRequired_def by (auto simp: tx_seq_Inr)
  show ?thesis
    by (rule only_review_trans [OF 1 [OF r(1)] only_review_trans [OF 2 [OF r(2)] 3 [OF r(3)]]])
qed

lemma transact_review:
  "transact (MarkReconciliationRequired f) w = (r, w') \<Longrightarrow> only_review (w_db w) (w_db w')"
  using MarkReconciliationRequired_only_review [of f "w_db w"]
  by (cases "MarkReconciliationRequired f (w_db w)") (auto simp: transact_def on_db_def InTx_def)

lemma review_then_fail:
  "isl (fst (prog_bind (transact (MarkReconciliationRequired f)) (\<lambda>_. prog_throw e) w)) \<and>
   only_review (w_db w) (w_db (snd (prog_bind (transact (MarkReconciliationRequired f)) (\<lambda>_. prog_throw e) w)))"
proof -
  obtain r w' where "transact (MarkReconciliationRequired f) w = (r, w')" by fastforce
  then show ?thesis
    using transact_review by (cases r) (auto simp: prog_bind_def prog_try_def prog_throw_def)
qed

text \<open>
  C19. A trade the provider does not know is not taken as closed without proof: when the query
  fails (in particular with "no such trade") for a channel whose prepay is a network call and
  a payment that may have been issued, the close job releases nothing: no payment or order
  changes its status and no stock is restored; at most the payment is sent to review.
\<close>
theorem absent_trade_is_not_closed_without_proof:
  assumes "\<forall>req v. isl (fst (gw_Query (pw_gateway wk) req v)) \<and> snd (gw_Query (pw_gateway wk) req v) = v"
    and "find_row pay_ID (cla_PaymentID args) (tb_payments (w_db w)) = Some p"
    and "\<not> CanConfirmUnissuedPayment (toBizPayment p) (tb_time_Now (w_db w))"
    and "ParsePaymentMethod (pay_PayChannel p) = Inr m" and "\<not> locally_signed_product m"
  shows "only_review (w_db w) (w_db (snd (ClosePayWorker_Work wk attempt args w)))"
proof -
  have query: "\<exists>e. gw_Query (pw_gateway wk) req w = (Inl e, w)" for req
    using assms(1) by (metis isl_def prod.collapse)
  have checked: "only_review (w_db w) (w_db (snd (close_checked wk attempt (toBizPayment p) m a w)))" for a
    using query [of "(query_request m (toBizPayment p))\<lparr>qrq_ExpectedProviderAccount := []\<rparr>"] assms(3,5)
    by (auto simp: close_checked_def signed_payload_def close_absent_def Let_def prog_bind_def prog_try_def time_Now_def
        prog_return_def prog_throw_def split: prod.splits sum.splits dest: transact_review)
  have "pdo_Method (toBizPayment p) = pay_PayChannel p" by (simp add: toBizPayment_def)
  then show ?thesis
    unfolding ClosePayWorker_Work_def
    using assms(4,5) checked
    by (simp add: GetPaymentForJob_bind [OF assms(2)] prog_return_def)
qed

text \<open>
  C20. A verified notification whose amount or currency is not the payment's is refused: the
  call returns an error, queues no job and changes no status, order or stock; at most the
  payment is sent to review.
\<close>
theorem mismatched_notification_is_refused:
  assumes "gw_ParseAndVerifyNotification (puc_gateway uc) provider request = Inr n"
    and "List.find (\<lambda>p. pay_OutTradeNo p = pn_OutTradeNo n) (tb_payments (w_db w)) = Some p"
    and "pn_Amount n \<noteq> pay_AmountMinor p \<or> ToUpper (TrimSpace (pn_Currency n)) \<noteq> ToUpper (TrimSpace (pay_Currency p))"
  shows "isl (fst (HandleNotification uc provider request w)) \<and>
    only_review (w_db w) (w_db (snd (HandleNotification uc provider request w)))"
proof -
  have load: "prog_bind (transact (repo_GetPaymentByOutTradeNo (pn_OutTradeNo n))) f w = f (toBizPayment p) w" for f
    using assms(2) by (simp add: repo_GetPaymentByOutTradeNo_def load_payment_def q_GetPaymentByOutTradeNo_def
        sql_find_def prog_eval tx_eval)
  have p: "pdo_Amount (toBizPayment p) = pay_AmountMinor p" "pdo_Currency (toBizPayment p) = pay_Currency p"
    by (simp_all add: toBizPayment_def)
  show ?thesis
  proof (cases "puc_notificationRepo uc")
    case None
    then show ?thesis by (simp add: HandleNotification_def prog_throw_def)
  next
    case (Some repo)
    then show ?thesis
      using assms(3)
      by (cases "ParsePaymentMethod (pdo_Method (toBizPayment p))")
        (simp_all add: HandleNotification_def assms(1) load p review_then_fail prog_throw_def [of "BadRequest x" for x])
  qed
qed

section \<open>Notifications are stored once\<close>

definition stored :: "PaymentNotification \<Rightarrow> payment_notification list \<Rightarrow> bool" where
  "stored n t \<longleftrightarrow> (\<exists>r \<in> set t. ntf_Provider r = pn_Provider n \<and> ntf_OutTradeNo r = pn_OutTradeNo n \<and>
     ntf_PayloadHash r = pn_PayloadHash n)"

lemma set_job_keeps:
  assumes "q_SetPaymentNotificationRiverJob i j s = Inr (u, s')"
  shows "map (\<lambda>r. (ntf_ID r, ntf_Provider r, ntf_OutTradeNo r, ntf_PayloadHash r)) (tb_notifications s')
    = map (\<lambda>r. (ntf_ID r, ntf_Provider r, ntf_OutTradeNo r, ntf_PayloadHash r)) (tb_notifications s)"
  using assms by (auto simp: q_SetPaymentNotificationRiverJob_def tx_simps map_upd_row)

lemma stored_map:
  "map (\<lambda>r. (ntf_ID r, ntf_Provider r, ntf_OutTradeNo r, ntf_PayloadHash r)) t'
     = map (\<lambda>r. (ntf_ID r, ntf_Provider r, ntf_OutTradeNo r, ntf_PayloadHash r)) t \<Longrightarrow>
   stored n t' = stored n t \<and> map ntf_ID t' = map ntf_ID t"
proof -
  let ?f = "\<lambda>r. (ntf_ID r, ntf_Provider r, ntf_OutTradeNo r, ntf_PayloadHash r)"
  assume eq: "map ?f t' = map ?f t"
  have 1: "stored n u \<longleftrightarrow> (\<exists>k. (k, pn_Provider n, pn_OutTradeNo n, pn_PayloadHash n) \<in> set (map ?f u))" for u
    unfolding stored_def by (force simp: image_iff)
  have 2: "map ntf_ID u = map fst (map ?f u)" for u by simp
  show ?thesis by (simp only: 1 2 eq)
qed

lemma enqueue_notification_rows:
  assumes "enqueue_notification jobs n args row s = Inr (u, s')"
  shows "(ntf_Provider row = pn_Provider n \<and> ntf_OutTradeNo row = pn_OutTradeNo n \<and> ntf_PayloadHash row = pn_PayloadHash n) \<and>
    map (\<lambda>r. (ntf_ID r, ntf_Provider r, ntf_OutTradeNo r, ntf_PayloadHash r)) (tb_notifications s')
      = map (\<lambda>r. (ntf_ID r, ntf_Provider r, ntf_OutTradeNo r, ntf_PayloadHash r)) (tb_notifications s)"
  using assms unfolding enqueue_notification_def
  by (auto simp: tx_simps river_insert_def split: if_splits prod.splits sum.splits dest!: set_job_keeps)

lemma create_notification_rows:
  assumes "tx_optional (q_CreatePaymentNotification (pn_Provider n) ev (pn_OutTradeNo n) (pn_PayloadHash n) v) s
    = Inr (created, s1)"
  shows "(stored n (tb_notifications s) \<longrightarrow> created = None) \<and> (created = None \<longrightarrow> s1 = s) \<and>
    (created \<noteq> None \<longrightarrow> stored n (tb_notifications s1))"
  using assms
  by (cases created) (auto simp: tx_optional_Inr q_CreatePaymentNotification_def ntf.insert_Inr stored_def split: if_splits)

lemma Persist_result:
  assumes "PersistAndEnqueueNotification jobs n args s = Inr (dup, s')"
  shows "stored n (tb_notifications s') \<and> (stored n (tb_notifications s) \<longrightarrow>
    dup \<and> map ntf_ID (tb_notifications s') = map ntf_ID (tb_notifications s))"
proof -
  obtain created row s1 s2 u where c: "tx_optional (q_CreatePaymentNotification (pn_Provider n) (text_of (pn_ProviderEventID n))
        (pn_OutTradeNo n) (pn_PayloadHash n) (pn_VerifiedAt n)) s = Inr (created, s1)"
    and row: "(case created of Some r \<Rightarrow> tx_return r | None \<Rightarrow> getExistingPaymentNotification n) s1 = Inr (row, s2)"
    and enq: "enqueue_notification jobs n args row s2 = Inr (u, s')" and dup: "dup = (created = None)"
    using assms unfolding PersistAndEnqueueNotification_def
    by (simp only: tx_bind_Inr tx_seq_Inr tx_return_Inr prod.inject) blast
  have s2: "s2 = s1" and old: "created = None \<longrightarrow> row \<in> set (tb_notifications s1)"
    using row by (auto simp: getExistingPaymentNotification_def Let_def tx_simps sql_defs find_Some_iff
        split: option.splits if_splits)
  note rows = enqueue_notification_rows [OF enq] create_notification_rows [OF c]
  have "stored n (tb_notifications s1)" using rows old by (auto simp: stored_def)
  then show ?thesis using rows stored_map [of "tb_notifications s'" "tb_notifications s1" n] dup s2 by auto
qed

text \<open>
  A notification is stored once: after it was accepted, accepting it again (same provider,
  trade number and payload) succeeds only as a duplicate and adds no row, so one provider
  event leads to one stored fact however often it is delivered.
\<close>
theorem notification_is_stored_once:
  assumes "PersistAndEnqueueNotification jobs n args s = Inr (dup, s')"
    and "PersistAndEnqueueNotification jobs' n args' s' = Inr (dup', s'')"
  shows "dup' \<and> map ntf_ID (tb_notifications s'') = map ntf_ID (tb_notifications s')"
  using Persist_result [OF assms(1)] Persist_result [OF assms(2)] by blast

section \<open>Every program is a run of the mall\<close>

text \<open>
  The payment use cases and the workers are runs of the mall: whatever happens between
  their transactions while a provider call is in flight, the database goes from the state
  before to the state after by steps of \<open>mall_step\<close>. With the invariants of the mall, no use case and no worker
  can leave the mall in a state where money or stock is unaccounted for.
\<close>
theorem payment_programs_are_mall_runs:
  assumes "interleaves (puc_gateway uc)" and "interleaves (pw_gateway wk)"
  shows "rtranclp mall_step (w_db w) (w_db (snd (PrepayForOrder uc no token pfa w))) \<and>
    rtranclp mall_step (w_db w) (w_db (snd (QueryPayment uc no uid w))) \<and>
    rtranclp mall_step (w_db w) (w_db (snd (ClosePayment uc no uid w))) \<and>
    rtranclp mall_step (w_db w) (w_db (snd (RefundPayment uc rno pid w))) \<and>
    rtranclp mall_step (w_db w) (w_db (snd (ReconcilePendingRefunds uc older lmt w))) \<and>
    rtranclp mall_step (w_db w) (w_db (snd (HandleNotification uc provider request w))) \<and>
    rtranclp mall_step (w_db w) (w_db (snd (CheckPayWorker_Work wk cpa out w))) \<and>
    rtranclp mall_step (w_db w) (w_db (snd (ClosePayWorker_Work wk attempt cla w))) \<and>
    rtranclp mall_step (w_db w) (w_db (snd (ExpireOrderWorker_Work jobs oid w))) \<and>
    rtranclp mall_step (w_db w) (w_db (snd (ReapExpiredOrdersWorker_Work jobs w)))"
  by (intro conjI flow_at [OF flow_PrepayForOrder [OF assms(1)]] flow_at [OF flow_QueryPayment [OF assms(1)]]
      flow_at [OF flow_ClosePayment [OF assms(1)]] flow_at [OF flow_RefundPayment [OF assms(1)]]
      flow_at [OF flow_ReconcilePendingRefunds [OF assms(1)]] flow_at [OF flow_HandleNotification]
      flow_at [OF flow_CheckPayWorker [OF assms(2)]] flow_at [OF flow_ClosePayWorker [OF assms(2)]]
      flow_at [OF flow_order_workers(1)] flow_at [OF flow_order_workers(2)])

end
