(* ===== verification/PaymentExample.thy ===== *)
theory PaymentExample
  imports Example PaymentFlow
begin

text \<open>
  Concrete providers, and the payment use cases and workers run with them on the example
  database: the inputs at which the properties of the payment flow are instantiated.
\<close>

definition ex_adapter ::
    "(PaymentQueryRequest \<Rightarrow> error + PaymentQueryResult option) \<Rightarrow> (unit world, PaymentNotification) PaymentAdapter" where
  "ex_adapter query = \<lparr>ad_Provider = ''WeChat '', ad_Supports = (\<lambda>_. True),
     ad_Capabilities = (\<lambda>_. \<lparr>cap_SupportsNotify = True, cap_RequiresPoll = True, cap_SupportsClose = True, cap_SupportsRefund = True\<rparr>),
     ad_Prepay = (\<lambda>req. prog_return (Some \<lparr>prs_ProviderReference = ''ref'', prs_Action = \<lparr>act_Type = ''invoke'', act_Payload = ''sig''\<rparr>\<rparr>)),
     ad_Query = (\<lambda>req. prog_lift (query req)),
     ad_Close = (\<lambda>req. prog_return (Some \<lparr>crs_Method = crq_Method req, crs_OutTradeNo = crq_OutTradeNo req, crs_TransactionID = '''', crs_Success = True\<rparr>)),
     ad_Refund = (\<lambda>req w. ((Some \<lparr>rrs_Method = rrq_Method req, rrs_OutTradeNo = rrq_OutTradeNo req, rrs_TransactionID = rrq_TransactionID req,
        rrs_OutRefundNo = rrq_OutRefundNo req, rrs_Amount = rrq_Amount req, rrs_Currency = rrq_Currency req,
        rrs_Success = True, rrs_Rejection = False\<rparr>, None), w)),
     ad_ParseAndVerifyNotification = Inr,
     ad_NotificationAck = (\<lambda>ok. \<lparr>ack_StatusCode = 200, ack_ContentType = ''text/plain'', ack_Body = ''success''\<rparr>)\<rparr>"

definition ex_gateway ::
    "(PaymentQueryRequest \<Rightarrow> error + PaymentQueryResult option) \<Rightarrow> (unit world, PaymentNotification) gateway" where
  "ex_gateway query = NewPaymentGateway [Some (ex_adapter query)]"

lemma ex_gateway_interleaves: "interleaves (ex_gateway query)"
proof -
  have "adapter_interleaves (ex_adapter query)"
    by (simp add: adapter_interleaves_def ex_adapter_def prog_rel_def prog_return_def prog_lift_def)
  then show ?thesis
    by (auto simp: interleaves_def ex_gateway_def NewPaymentGateway_def Let_def split: if_splits)
qed

definition ex_uc :: "(unit world, PaymentNotification) paymentUsecase" where
  "ex_uc = \<lparr>puc_gateway = ex_gateway (\<lambda>req. Inr (Some (ex_result TradeStateSuccess 3000))),
     puc_repoJobs = Some ex_river, puc_notificationRepo = Some ex_river, puc_paymentJobs = Some ex_river,
     puc_policy = configured_policy \<lparr>pol_PrepayLeaseDuration = 0, pol_PollInitialDelay = 0, pol_PollInterval = 0, pol_PollMaxCount = 0\<rparr>,
     puc_Error = (\<lambda>_. ''error'')\<rparr>"

definition ex_worker ::
    "(PaymentQueryRequest \<Rightarrow> error + PaymentQueryResult option) \<Rightarrow> (unit world, PaymentNotification) pay_worker" where
  "ex_worker query = \<lparr>pw_gateway = ex_gateway query, pw_repoJobs = Some ex_river,
     pw_Unmarshal = (\<lambda>_. (False, \<lparr>spp_Payload = '''', spp_ExpiresAt = 0, spp_ProviderAccount = ''''\<rparr>)),
     pw_recordOutput = (\<lambda>_. Inr ()), pw_Error = (\<lambda>_. ''error'')\<rparr>"

definition ex_world :: "db \<Rightarrow> unit world" where
  "ex_world s = \<lparr>w_db = s, w_provider = ()\<rparr>"

lemma ex_world_db [simp]: "w_db (ex_world s) = s"
  by (simp add: ex_world_def)

lemma ex_uc_gateway [simp]: "interleaves (puc_gateway ex_uc)"
  by (simp add: ex_uc_def ex_gateway_interleaves)

lemma ex_worker_gateway [simp]: "interleaves (pw_gateway (ex_worker query))"
  by (simp add: ex_worker_def ex_gateway_interleaves)

lemma pair_Inr: "\<not> isl (fst x) \<Longrightarrow> \<exists>v. x = (Inr v, snd x)"
  by (metis prod.collapse sum.collapse(2))

lemma ex_query:
  "snd (gw_Query (pw_gateway (ex_worker query)) req w) = w"
  "fst (gw_Query (pw_gateway (ex_worker query)) req w) = Inr r \<Longrightarrow> \<exists>req'. query req' = Inr r"
  by (auto simp: ex_worker_def ex_gateway_def NewPaymentGateway_def ex_adapter_def gw_Query_def gw_adapter_def
      Let_def prog_lift_def prog_throw_def split: sum.splits option.splits if_splits)


theorem foreign_payment_is_refused_witness:
  "QueryPayment ex_uc ''P1'' 8 (ex_world ex_db4) = (Inl ErrPaymentNotFound, ex_world ex_db4)"
proof -
  have "list_all (\<lambda>p. pay_UserID p \<noteq> 8) (tb_payments ex_db4)" by code_simp
  then have "\<forall>p \<in> set (tb_payments (w_db (ex_world ex_db4))). pay_OutTradeNo p = ''P1'' \<longrightarrow> pay_UserID p \<noteq> 8"
    by (simp add: list_all_iff)
  then show ?thesis using foreign_payment_is_refused [of "ex_world ex_db4" "''P1''" 8 ex_uc] by simp
qed

text \<open>A case that is processing at version 2 while a job of version 1 still runs.\<close>

theorem stale_retry_does_nothing_witness:
  "CheckPayWorker_Work (ex_worker (\<lambda>_. Inr None)) (ex_cpa\<lparr>cpa_ReconciliationVersion := 1\<rparr>) None (ex_world ex_db4)
     = (Inr JobComplete, ex_world ex_db4)"
proof -
  have "map_option (\<lambda>p. ReconciliationJobCurrent 1 (pay_ReconciliationVersion p) (pay_ReconciliationStatus p))
      (find_row pay_ID 1 (tb_payments ex_db4)) = Some False" by code_simp
  then obtain p where p: "find_row pay_ID 1 (tb_payments (w_db (ex_world ex_db4))) = Some p"
    "\<not> ReconciliationJobCurrent 1 (pay_ReconciliationVersion p) (pay_ReconciliationStatus p)" by auto
  have "mall_reachable (w_db (ex_world ex_db4))" using ex_reachable(5) by simp
  moreover have "TrimSpace ''wechat'' \<noteq> ''''" by code_simp
  ultimately show ?thesis
    using stale_retry_does_nothing [OF _ p(1) _ _ p(2),
        of "''wechat''" "ex_cpa\<lparr>cpa_ReconciliationVersion := 1\<rparr>"
          "\<lparr>cla_ReconciliationVersion = 1, cla_PaymentID = 1, cla_Provider = ''wechat'', cla_Reason = ''''\<rparr>"
          "ex_worker (\<lambda>_. Inr None)" None]
    by (simp add: ex_cpa_def)
qed

theorem polling_keeps_open_payment_witness:
  "core_eq ex_db4 (w_db (snd (CheckPayWorker_Work (ex_worker (\<lambda>_. Inr (Some (ex_result TradeStateNotPay 3000))))
     (ex_cpa\<lparr>cpa_PollCount := 9\<rparr>) None (ex_world ex_db4))))"
proof -
  let ?wk = "ex_worker (\<lambda>_. Inr (Some (ex_result TradeStateNotPay 3000)))"
  have pending: "\<forall>req v. snd (gw_Query (pw_gateway ?wk) req v) = v \<and>
      (\<forall>res. fst (gw_Query (pw_gateway ?wk) req v) = Inr (Some res) \<longrightarrow> IsPending (qrs_TradeState res))"
    using ex_query by (fastforce simp: ex_result_def)
  have window: "in_window (ex_cpa\<lparr>cpa_PollCount := 9\<rparr>) (ex_world ex_db4)" by code_simp
  show ?thesis
    using polling_keeps_open_payment [OF pending window surjective_pairing, of None] by simp
qed

theorem absent_trade_is_not_closed_without_proof_witness:
  "only_review ex_db4 (w_db (snd (ClosePayWorker_Work (ex_worker (\<lambda>_. Inl ErrProviderOrderNotExist)) 1
     \<lparr>cla_ReconciliationVersion = 0, cla_PaymentID = 1, cla_Provider = ''wechat'', cla_Reason = ''''\<rparr> (ex_world ex_db4))))"
proof -
  let ?wk = "ex_worker (\<lambda>_. Inl ErrProviderOrderNotExist)"
  let ?m = "\<lparr>pm_Provider = ''wechat'', pm_Product = ''native''\<rparr>"
  have fails: "\<forall>req v. isl (fst (gw_Query (pw_gateway ?wk) req v)) \<and> snd (gw_Query (pw_gateway ?wk) req v) = v"
    using ex_query by (metis (no_types, lifting) Inl_Inr_False isl_def sum.collapse(2))
  have "map_option (\<lambda>p. (CanConfirmUnissuedPayment (toBizPayment p) (tb_time_Now ex_db4), ParsePaymentMethod (pay_PayChannel p)))
      (find_row pay_ID 1 (tb_payments ex_db4)) = Some (False, Inr ?m)" by code_simp
  then obtain p where p: "find_row pay_ID 1 (tb_payments ex_db4) = Some p"
    "\<not> CanConfirmUnissuedPayment (toBizPayment p) (tb_time_Now ex_db4)" "ParsePaymentMethod (pay_PayChannel p) = Inr ?m"
    by auto
  have "\<not> locally_signed_product ?m" by code_simp
  then show ?thesis
    using absent_trade_is_not_closed_without_proof [OF fails _ _ p(3),
        of "\<lparr>cla_ReconciliationVersion = 0, cla_PaymentID = 1, cla_Provider = ''wechat'', cla_Reason = ''''\<rparr>"
          "ex_world ex_db4" 1] p(1,2) by simp
qed

definition ex_note :: "int \<Rightarrow> PaymentNotification" where
  "ex_note amount = \<lparr>pn_Provider = ''wechat'', pn_ProviderEventID = ''ev1'', pn_OutTradeNo = ''P1'', pn_TransactionID = ''W9'',
     pn_Amount = amount, pn_Currency = ''CNY'', pn_PayloadHash = ''h'', pn_VerifiedAt = 1000\<rparr>"

theorem mismatched_notification_is_refused_witness:
  "isl (fst (HandleNotification ex_uc ''wechat'' (ex_note 1) (ex_world ex_db4)))"
proof -
  have parse: "gw_ParseAndVerifyNotification (puc_gateway ex_uc) ''wechat'' (ex_note 1) = Inr (ex_note 1)" by code_simp
  have "map_option pay_AmountMinor (List.find (\<lambda>p. pay_OutTradeNo p = ''P1'') (tb_payments ex_db4)) = Some 3000"
    by code_simp
  then obtain p where p: "List.find (\<lambda>p. pay_OutTradeNo p = ''P1'') (tb_payments ex_db4) = Some p" "pay_AmountMinor p = 3000"
    by auto
  have "pn_Amount (ex_note 1) \<noteq> pay_AmountMinor p" using p(2) by (simp add: ex_note_def)
  then show ?thesis
    using mismatched_notification_is_refused [OF parse, of "ex_world ex_db4" p] p(1) by (simp add: ex_note_def)
qed

theorem notification_is_stored_once_witness:
  "map ntf_ID (tb_notifications (snd (InTx (PersistAndEnqueueNotification ex_river (ex_note 3000) ex_cpa)
     (snd (InTx (PersistAndEnqueueNotification ex_river (ex_note 3000) ex_cpa) ex_db4))))) = [1]"
proof -
  let ?m = "PersistAndEnqueueNotification ex_river (ex_note 3000) ex_cpa"
  let ?s = "snd (InTx ?m ex_db4)"
  have "\<not> isl (fst (InTx ?m ex_db4))" "\<not> isl (fst (InTx ?m ?s))" by code_simp+
  then obtain x y where "InTx ?m ex_db4 = (Inr x, ?s)" "InTx ?m ?s = (Inr y, snd (InTx ?m ?s))"
    using pair_Inr by blast
  then have "?m ex_db4 = Inr (x, ?s)" "?m ?s = Inr (y, snd (InTx ?m ?s))" by (simp_all only: InTx_Inr)
  note once = notification_is_stored_once [OF this]
  have "map ntf_ID (tb_notifications ?s) = [1]" by code_simp
  with once show ?thesis by simp
qed

theorem payment_programs_are_mall_runs_witness:
  "rtranclp mall_step ex_db3 (w_db (snd (PrepayForOrder ex_uc ''P1'' ''L1'' \<lparr>pfa_OrderNo = ''T1'', pfa_UserID = 7,
     pfa_Method = \<lparr>pm_Provider = ''WeChat'', pm_Product = ''native''\<rparr>, pfa_ClientIP = '''', pfa_Extension = (\<lambda>_. None),
     pfa_Description = ''''\<rparr> (ex_world ex_db3))))"
  using payment_programs_are_mall_runs [OF ex_uc_gateway ex_worker_gateway, of "ex_world ex_db3" "''P1''" "''L1''"
      "\<lparr>pfa_OrderNo = ''T1'', pfa_UserID = 7, pfa_Method = \<lparr>pm_Provider = ''WeChat'', pm_Product = ''native''\<rparr>,
        pfa_ClientIP = '''', pfa_Extension = (\<lambda>_. None), pfa_Description = ''''\<rparr>"] by simp

end
