(* ===== verification/Crypto.thy ===== *)
theory Crypto
  imports GoStrings Prelude
begin

text \<open>
  The encodings and the credential helpers of pkg/phonecrypto and pkg/pwdhash. Base64 and
  hexadecimal text are modelled byte by byte, as Go's \<^verbatim>\<open>encoding/base64\<close> and
  \<^verbatim>\<open>encoding/hex\<close> write and read them. The cryptographic primitives (HMAC-SHA256, HKDF,
  AES-GCM, bcrypt) are arguments, collected in the record \<open>crypto_lib\<close>; what the round trip
  of a phone number needs of AES-GCM is the predicate \<open>aead_ok\<close>. A byte is a \<open>char\<close>.
\<close>

section \<open>Base64\<close>

text \<open>The standard and the URL alphabet differ in the last two letters.\<close>

definition b64_char :: "bool \<Rightarrow> nat \<Rightarrow> char" where
  "b64_char url n = (char_of
     (if n < 26 then 65 + n else if n < 52 then 97 + (n - 26) else if n < 62 then 48 + (n - 52)
      else if n = 62 then (if url then 45 else 43) else (if url then 95 else 47) :: nat))"

definition b64_value :: "bool \<Rightarrow> char \<Rightarrow> nat option" where
  "b64_value url c = (let n = (of_char c :: nat) in
     if 65 \<le> n \<and> n \<le> 90 then Some (n - 65)
     else if 97 \<le> n \<and> n \<le> 122 then Some (n - 71)
     else if 48 \<le> n \<and> n \<le> 57 then Some (n + 4)
     else if n = (if url then 45 else 43) then Some 62
     else if n = (if url then 95 else 47) then Some 63
     else None)"

text \<open>An encoding: the alphabet, padding or not (\<open>RawURLEncoding\<close>), and \<open>Strict()\<close>.\<close>

record b64_encoding =
  b64_url :: bool
  b64_padded :: bool
  b64_strict :: bool

definition StdEncoding :: b64_encoding where
  "StdEncoding = \<lparr>b64_url = False, b64_padded = True, b64_strict = False\<rparr>"

definition RawURLEncoding_Strict :: b64_encoding where
  "RawURLEncoding_Strict = \<lparr>b64_url = True, b64_padded = False, b64_strict = True\<rparr>"

fun EncodeToString :: "b64_encoding \<Rightarrow> string \<Rightarrow> string" where
  "EncodeToString E [] = []"
| "EncodeToString E [a] = (let x = (of_char a :: nat); ch = b64_char (b64_url E) in
     [ch (x div 4), ch (x mod 4 * 16)] @ (if b64_padded E then ''=='' else []))"
| "EncodeToString E [a, b] = (let x = (of_char a :: nat); y = (of_char b :: nat); ch = b64_char (b64_url E) in
     [ch (x div 4), ch (x mod 4 * 16 + y div 16), ch (y mod 16 * 4)] @ (if b64_padded E then ''='' else []))"
| "EncodeToString E (a # b # c # r) = (let x = (of_char a :: nat); y = (of_char b :: nat); z = (of_char c :: nat);
       ch = b64_char (b64_url E) in
     [ch (x div 4), ch (x mod 4 * 16 + y div 16), ch (y mod 16 * 4 + z div 64), ch (z mod 64)] @ EncodeToString E r)"

text \<open>\<open>CorruptInputError\<close>; the position it carries is not looked at.\<close>

abbreviation corrupt_input :: error where
  "corrupt_input \<equiv> Errorf ''illegal base64 data''"

text \<open>The last quantum holds one or two bytes; a strict decoder requires its unused bits to
  be zero.\<close>

definition b64_tail1 :: "b64_encoding \<Rightarrow> char \<Rightarrow> char \<Rightarrow> error + string" where
  "b64_tail1 E c1 c2 = (case (b64_value (b64_url E) c1, b64_value (b64_url E) c2) of
     (Some v1, Some v2) \<Rightarrow> if b64_strict E \<and> v2 mod 16 \<noteq> 0 then Inl corrupt_input
       else Inr [char_of (v1 * 4 + v2 div 16)]
   | _ \<Rightarrow> Inl corrupt_input)"

definition b64_tail2 :: "b64_encoding \<Rightarrow> char \<Rightarrow> char \<Rightarrow> char \<Rightarrow> error + string" where
  "b64_tail2 E c1 c2 c3 = (case (b64_value (b64_url E) c1, b64_value (b64_url E) c2, b64_value (b64_url E) c3) of
     (Some v1, Some v2, Some v3) \<Rightarrow> if b64_strict E \<and> v3 mod 4 \<noteq> 0 then Inl corrupt_input
       else Inr [char_of (v1 * 4 + v2 div 16), char_of (v2 mod 16 * 16 + v3 div 4)]
   | _ \<Rightarrow> Inl corrupt_input)"

abbreviation pad_char :: char where
  "pad_char \<equiv> CHR ''=''"

fun b64_quanta :: "b64_encoding \<Rightarrow> string \<Rightarrow> error + string" where
  "b64_quanta E [] = Inr []"
| "b64_quanta E [_] = Inl corrupt_input"
| "b64_quanta E [c1, c2] = (if b64_padded E then Inl corrupt_input else b64_tail1 E c1 c2)"
| "b64_quanta E [c1, c2, c3] = (if b64_padded E then Inl corrupt_input else b64_tail2 E c1 c2 c3)"
| "b64_quanta E (c1 # c2 # c3 # c4 # r) =
     (if b64_padded E \<and> c4 = pad_char \<and> r = [] then
        (if c3 = pad_char then b64_tail1 E c1 c2 else b64_tail2 E c1 c2 c3)
      else (case (b64_value (b64_url E) c1, b64_value (b64_url E) c2, b64_value (b64_url E) c3, b64_value (b64_url E) c4) of
          (Some v1, Some v2, Some v3, Some v4) \<Rightarrow> (case b64_quanta E r of
              Inl e \<Rightarrow> Inl e
            | Inr t \<Rightarrow> Inr (char_of (v1 * 4 + v2 div 16) # char_of (v2 mod 16 * 16 + v3 div 4) #
                char_of (v3 mod 4 * 64 + v4) # t))
        | _ \<Rightarrow> Inl corrupt_input))"

text \<open>The decoder skips carriage returns and line feeds.\<close>

definition is_newline :: "char \<Rightarrow> bool" where
  "is_newline c \<longleftrightarrow> of_char c = (10 :: nat) \<or> of_char c = (13 :: nat)"

definition DecodeString :: "b64_encoding \<Rightarrow> string \<Rightarrow> error + string" where
  "DecodeString E s = b64_quanta E (filter (\<lambda>c. \<not> is_newline c) s)"

section \<open>Hexadecimal\<close>

definition hex_char :: "nat \<Rightarrow> char" where
  "hex_char n = (char_of (if n < 10 then 48 + n else 87 + n :: nat))"

definition hex_EncodeToString :: "string \<Rightarrow> string" where
  "hex_EncodeToString s = concat (map (\<lambda>c. [hex_char (of_char c div 16), hex_char (of_char c mod 16)]) s)"

section \<open>Phone numbers and passwords\<close>

record crypto_lib =
  cl_HMAC_SHA256 :: "string \<Rightarrow> string \<Rightarrow> string"
  cl_HKDF :: "string \<Rightarrow> string \<Rightarrow> int \<Rightarrow> error + string"
  cl_NewGCM :: "string \<Rightarrow> error + unit"
  cl_NonceSize :: nat
  cl_Seal :: "string \<Rightarrow> string \<Rightarrow> string \<Rightarrow> string"
  cl_Open :: "string \<Rightarrow> string \<Rightarrow> string \<Rightarrow> error + string"
  cl_GenerateFromPassword :: "string \<Rightarrow> int \<Rightarrow> error + string"
  cl_bcrypt_Cost :: "string \<Rightarrow> error + int"
  cl_CompareHashAndPassword :: "string \<Rightarrow> string \<Rightarrow> error + unit"

definition deriveKey :: "crypto_lib \<Rightarrow> string \<Rightarrow> string \<Rightarrow> int \<Rightarrow> error + string" where
  "deriveKey C secret info len = cl_HKDF C secret info len"

definition HashPhone :: "crypto_lib \<Rightarrow> string \<Rightarrow> string \<Rightarrow> string" where
  "HashPhone C phone secret = EncodeToString StdEncoding (cl_HMAC_SHA256 C secret phone)"

abbreviation phone_key_info :: string where
  "phone_key_info \<equiv> ''phone-encryption-aes-gcm''"

text \<open>\<open>nonce\<close> is what \<open>io.ReadFull(rand.Reader, nonce)\<close> read; \<open>Seal\<close> appends the ciphertext
  to it.\<close>

definition EncryptPhone :: "crypto_lib \<Rightarrow> string \<Rightarrow> string \<Rightarrow> string \<Rightarrow> error + string" where
  "EncryptPhone C nonce phone secret =
     (case deriveKey C secret phone_key_info 32 of
        Inl e \<Rightarrow> Inl e
      | Inr k \<Rightarrow> (case cl_NewGCM C k of
          Inl e \<Rightarrow> Inl e
        | Inr _ \<Rightarrow> Inr (EncodeToString StdEncoding (nonce @ cl_Seal C k nonce phone))))"

definition DecryptPhone :: "crypto_lib \<Rightarrow> string \<Rightarrow> string \<Rightarrow> error + string" where
  "DecryptPhone C encoded secret =
     (case deriveKey C secret phone_key_info 32 of
        Inl e \<Rightarrow> Inl e
      | Inr k \<Rightarrow> (case DecodeString StdEncoding encoded of
          Inl e \<Rightarrow> Inl e
        | Inr ciphertext \<Rightarrow> (case cl_NewGCM C k of
            Inl e \<Rightarrow> Inl e
          | Inr _ \<Rightarrow> (if length ciphertext < cl_NonceSize C then Inl (Errorf ''ciphertext too short'')
              else cl_Open C k (take (cl_NonceSize C) ciphertext) (drop (cl_NonceSize C) ciphertext)))))"

definition Cost :: int where
  "Cost = 12"

definition HashPassword :: "crypto_lib \<Rightarrow> string \<Rightarrow> error + string" where
  "HashPassword C password = cl_GenerateFromPassword C password Cost"

definition ComparePassword :: "crypto_lib \<Rightarrow> string \<Rightarrow> string \<Rightarrow> error + unit" where
  "ComparePassword C dbPassword password = (case cl_bcrypt_Cost C dbPassword of
     Inl e \<Rightarrow> Inl e
   | Inr cost \<Rightarrow> (if cost \<noteq> Cost then Inl (Errorf ''unsupported bcrypt cost'')
                    else cl_CompareHashAndPassword C dbPassword password))"

text \<open>AES-GCM opens what it sealed under the same key and nonce.\<close>

definition aead_ok :: "crypto_lib \<Rightarrow> bool" where
  "aead_ok C \<longleftrightarrow> (\<forall>k nonce plain. cl_NewGCM C k = Inr () \<longrightarrow> length nonce = cl_NonceSize C \<longrightarrow>
     cl_Open C k nonce (cl_Seal C k nonce plain) = Inr plain)"

section \<open>Decoding inverts encoding\<close>

lemma byte_bound: "(of_char c :: nat) < 256"
  using of_char_mod_256 [of c, where ?'a = nat] by (metis mod_less_divisor zero_less_numeral)

lemma of_b64_char: "n < 64 \<Longrightarrow> of_char (b64_char u n) =
    (if n < 26 then 65 + n else if n < 52 then 97 + (n - 26) else if n < 62 then 48 + (n - 52)
      else if n = 62 then (if u then 45 else 43) else (if u then 95 else 47) :: nat)"
  unfolding b64_char_def of_char_of by simp

lemma b64_letter:
  assumes "n < 64"
  shows "b64_value u (b64_char u n) = Some n" and "b64_char u n \<noteq> pad_char" and "\<not> is_newline (b64_char u n)"
proof -
  show "b64_value u (b64_char u n) = Some n"
    using assms by (auto simp: b64_value_def of_b64_char Let_def)
  have "of_char (b64_char u n) \<noteq> (61 :: nat)" using assms by (auto simp: of_b64_char)
  moreover have "of_char pad_char = (61 :: nat)" by simp
  ultimately show "b64_char u n \<noteq> pad_char" by metis
  show "\<not> is_newline (b64_char u n)" using assms by (auto simp: is_newline_def of_b64_char)
qed

text \<open>The bits of three bytes in four sextets.\<close>

lemma div_bits: "(x :: nat) < m * n \<Longrightarrow> x div n < m"
  by (simp add: less_mult_imp_div_less)

lemma byte_sextets:
  "(of_char a :: nat) div 4 < 64" "(of_char a :: nat) mod 4 * 16 < 64"
  "(of_char a :: nat) mod 4 * 16 + of_char b div 16 < 64" "(of_char b :: nat) mod 16 * 4 < 64"
  "(of_char b :: nat) mod 16 * 4 + of_char c div 64 < 64" "(of_char c :: nat) mod 64 < 64"
proof -
  have q: "(of_char b :: nat) div 16 < 16" "(of_char c :: nat) div 64 < 4"
    using byte_bound [of b] byte_bound [of c] by (simp_all add: div_bits)
  have m: "(of_char a :: nat) mod 4 < 4" "(of_char b :: nat) mod 16 < 16" by simp_all
  show "(of_char a :: nat) div 4 < 64" using byte_bound [of a] by (simp add: div_bits)
  show "(of_char a :: nat) mod 4 * 16 < 64" "(of_char a :: nat) mod 4 * 16 + of_char b div 16 < 64"
    "(of_char b :: nat) mod 16 * 4 < 64" "(of_char b :: nat) mod 16 * 4 + of_char c div 64 < 64"
    "(of_char c :: nat) mod 64 < 64"
    using q m by linarith+
qed

lemma byte_high_bits:
  "(of_char b :: nat) div 16 div 16 = 0" "(of_char b :: nat) div 16 mod 16 = of_char b div 16"
  "(of_char b :: nat) div 64 div 4 = 0" "(of_char b :: nat) div 64 mod 4 = of_char b div 64"
  using byte_bound [of b] by (simp_all add: div_bits)

lemma pad_no_newline: "\<not> is_newline (CHR ''='')"
  by (simp add: is_newline_def)

lemma quanta_encode: "b64_quanta E (EncodeToString E s) = Inr s"
proof (induction E s rule: EncodeToString.induct)
  case (4 E a b c r)
  then show ?case
    by (simp add: Let_def b64_letter byte_sextets byte_high_bits)
qed (simp_all add: Let_def b64_tail1_def b64_tail2_def b64_letter byte_sextets byte_high_bits)

lemma encode_no_newline: "filter (\<lambda>c. \<not> is_newline c) (EncodeToString E s) = EncodeToString E s"
proof (induction E s rule: EncodeToString.induct)
  case (4 E a b c r)
  then show ?case by (simp add: Let_def b64_letter byte_sextets)
qed (simp_all add: Let_def b64_letter byte_sextets pad_no_newline)

lemma decode_encode: "DecodeString E (EncodeToString E s) = Inr s"
  by (simp add: DecodeString_def encode_no_newline quanta_encode)

lemma decrypt_encrypt:
  assumes "aead_ok C" and "length nonce = cl_NonceSize C" and "EncryptPhone C nonce phone secret = Inr enc"
  shows "DecryptPhone C enc secret = Inr phone"
  using assms by (auto simp: EncryptPhone_def DecryptPhone_def decode_encode aead_ok_def split: sum.splits)

lemma length_hex [simp]: "length (hex_EncodeToString s) = 2 * length s"
  by (induction s) (simp_all add: hex_EncodeToString_def)

end
