(* ===== verification/Accounts.thy ===== *)
theory Accounts
  imports Money Queries EventSystem Crypto
begin

text \<open>
  Users and their address book (app/mall/internal/data/user.go, the repositories behind
  app/mall/internal/biz/user.go). A phone number identifies an account through its HMAC
  (\<^verbatim>\<open>idx_users_phone_hash\<close>), a change of password is a compare-and-swap on the credential
  version, and a user has at most one default address (\<^verbatim>\<open>idx_shipping_addresses_one_default\<close>):
  the code clears the old default in the transaction that sets the new one.

  The profile caches in front of the reads are not modelled: a read is the query behind the
  cache. Deleting an account also concerns the community tables and is in the theory of the
  community.
\<close>

section \<open>Statements\<close>

record CreateUserParams =
  cus_Nickname :: string
  cus_RealName :: string
  cus_PhoneHash :: string
  cus_PhoneEncrypt :: string
  cus_PasswordHash :: string
  cus_Role :: string

definition q_CreateUser :: "CreateUserParams \<Rightarrow> (db, user) tx" where
  "q_CreateUser a = (\<lambda>s.
     if \<exists>u \<in> set (tb_users s). usr_PhoneHash u = cus_PhoneHash a then Inl (UniqueViolation ''idx_users_phone_hash'')
     else tx_bind (nextval ''users'') (\<lambda>i. sql_insert tb_users put_users
       \<lparr>usr_ID = i, usr_Nickname = cus_Nickname a, usr_RealName = cus_RealName a,
        usr_PhoneHash = cus_PhoneHash a, usr_PhoneEncrypt = cus_PhoneEncrypt a,
        usr_PasswordHash = cus_PasswordHash a, usr_AuthVersion = 1, usr_Role = cus_Role a,
        usr_CreatedAt = tb_current_timestamp s, usr_UpdatedAt = tb_current_timestamp s\<rparr>) s)"

definition q_GetUserByID :: "int \<Rightarrow> (db, user) tx" where
  "q_GetUserByID i = sql_get tb_users usr_ID i"

definition q_GetUserByPhoneHash :: "string \<Rightarrow> (db, user) tx" where
  "q_GetUserByPhoneHash h = sql_find tb_users (\<lambda>u. usr_PhoneHash u = h)"

definition q_LockUserForAddress :: "int \<Rightarrow> (db, int) tx" where
  "q_LockUserForAddress i = tx_bind (sql_get tb_users usr_ID i) (\<lambda>u. tx_return (usr_ID u))"

definition q_UpdateUser :: "int \<Rightarrow> string \<Rightarrow> string \<Rightarrow> (db, user) tx" where
  "q_UpdateUser i nickname realName = (\<lambda>s. sql_update tb_users put_users usr_ID i (\<lambda>u. True)
     (\<lambda>u. u\<lparr>usr_Nickname := nickname, usr_RealName := realName, usr_UpdatedAt := tb_current_timestamp s\<rparr>) s)"

definition q_UpdateUserPassword :: "int \<Rightarrow> string \<Rightarrow> int \<Rightarrow> (db, int) tx" where
  "q_UpdateUserPassword i passwordHash expectedVersion = (\<lambda>s.
     sql_exec tb_users put_users usr_ID i (\<lambda>u. usr_AuthVersion u = expectedVersion)
     (\<lambda>u. u\<lparr>usr_PasswordHash := passwordHash, usr_AuthVersion := usr_AuthVersion u + 1,
            usr_UpdatedAt := tb_current_timestamp s\<rparr>) s)"

definition q_UpdateUserRole :: "int \<Rightarrow> string \<Rightarrow> (db, unit) tx" where
  "q_UpdateUserRole i role = (\<lambda>s. tx_seq (sql_exec tb_users put_users usr_ID i (\<lambda>u. True)
     (\<lambda>u. u\<lparr>usr_Role := role, usr_UpdatedAt := tb_current_timestamp s\<rparr>)) (tx_return ()) s)"

record AddressParams =
  adp_ReceiverName :: string
  adp_ReceiverPhoneHash :: string
  adp_ReceiverPhoneEncrypt :: string
  adp_Province :: string
  adp_City :: string
  adp_District :: string
  adp_DetailAddress :: string
  adp_AddressTag :: "string option"

text \<open>The foreign key to the user and the partial unique index on the default.\<close>

definition q_CreateShippingAddress :: "int \<Rightarrow> AddressParams \<Rightarrow> bool \<Rightarrow> (db, shipping_address) tx" where
  "q_CreateShippingAddress uid a isDefault = (\<lambda>s.
     if find_row usr_ID uid (tb_users s) = None then Inl (ForeignKeyViolation ''fk_user_addresses'')
     else if isDefault \<and> (\<exists>r \<in> set (tb_addresses s). adr_UserID r = uid \<and> adr_IsDefault r)
       then Inl (UniqueViolation ''idx_shipping_addresses_one_default'')
     else tx_bind (nextval ''shipping_addresses'') (\<lambda>i. sql_insert tb_addresses put_addresses
       \<lparr>adr_ID = i, adr_UserID = uid, adr_ReceiverName = adp_ReceiverName a,
        adr_ReceiverPhoneHash = adp_ReceiverPhoneHash a, adr_ReceiverPhoneEncrypt = adp_ReceiverPhoneEncrypt a,
        adr_Province = adp_Province a, adr_City = adp_City a, adr_District = adp_District a,
        adr_DetailAddress = adp_DetailAddress a, adr_AddressTag = adp_AddressTag a, adr_IsDefault = isDefault,
        adr_CreatedAt = tb_current_timestamp s, adr_UpdatedAt = tb_current_timestamp s\<rparr>) s)"

definition q_ClearDefaultShippingAddress :: "int \<Rightarrow> (db, unit) tx" where
  "q_ClearDefaultShippingAddress uid = (\<lambda>s. Inr ((), put_addresses
     (map (\<lambda>r. if adr_UserID r = uid then r\<lparr>adr_IsDefault := False, adr_UpdatedAt := tb_current_timestamp s\<rparr> else r)
       (tb_addresses s)) s))"

definition q_GetDefaultShippingAddress :: "int \<Rightarrow> (db, shipping_address) tx" where
  "q_GetDefaultShippingAddress uid = sql_find tb_addresses (\<lambda>r. adr_UserID r = uid \<and> adr_IsDefault r)"

definition q_GetShippingAddress :: "int \<Rightarrow> int \<Rightarrow> (db, shipping_address) tx" where
  "q_GetShippingAddress i uid = sql_find tb_addresses (\<lambda>r. adr_ID r = i \<and> adr_UserID r = uid)"

definition q_GetShippingAddressForUpdate :: "int \<Rightarrow> int \<Rightarrow> (db, shipping_address) tx" where
  "q_GetShippingAddressForUpdate i uid = sql_find tb_addresses (\<lambda>r. adr_ID r = i \<and> adr_UserID r = uid)"

text \<open>\<open>ORDER BY is_default DESC, id DESC\<close>\<close>

definition q_ListShippingAddressesByUser :: "int \<Rightarrow> int \<Rightarrow> int \<Rightarrow> (db, shipping_address list) tx" where
  "q_ListShippingAddressesByUser uid lmt off = tx_read (\<lambda>s. take (nat lmt) (drop (nat off)
     (sort_key (\<lambda>r. (\<not> adr_IsDefault r, - adr_ID r)) (filter (\<lambda>r. adr_UserID r = uid) (tb_addresses s)))))"

text \<open>The unique index rejects the statement when another row of the user is the default.\<close>

definition q_SetDefaultShippingAddress :: "int \<Rightarrow> int \<Rightarrow> (db, int) tx" where
  "q_SetDefaultShippingAddress i uid = (\<lambda>s.
     if (\<exists>r \<in> set (tb_addresses s). adr_ID r = i \<and> adr_UserID r = uid) \<and>
        (\<exists>r \<in> set (tb_addresses s). adr_ID r \<noteq> i \<and> adr_UserID r = uid \<and> adr_IsDefault r)
     then Inl (UniqueViolation ''idx_shipping_addresses_one_default'')
     else sql_exec tb_addresses put_addresses adr_ID i (\<lambda>r. adr_UserID r = uid)
       (\<lambda>r. r\<lparr>adr_IsDefault := True, adr_UpdatedAt := tb_current_timestamp s\<rparr>) s)"

definition q_UpdateShippingAddress :: "int \<Rightarrow> int \<Rightarrow> AddressParams \<Rightarrow> (db, shipping_address) tx" where
  "q_UpdateShippingAddress i uid a = (\<lambda>s.
     sql_update tb_addresses put_addresses adr_ID i (\<lambda>r. adr_UserID r = uid)
     (\<lambda>r. r\<lparr>adr_ReceiverName := adp_ReceiverName a, adr_ReceiverPhoneHash := adp_ReceiverPhoneHash a,
            adr_ReceiverPhoneEncrypt := adp_ReceiverPhoneEncrypt a, adr_Province := adp_Province a,
            adr_City := adp_City a, adr_District := adp_District a, adr_DetailAddress := adp_DetailAddress a,
            adr_AddressTag := adp_AddressTag a, adr_UpdatedAt := tb_current_timestamp s\<rparr>) s)"

definition q_DeleteShippingAddress :: "int \<Rightarrow> int \<Rightarrow> (db, unit) tx" where
  "q_DeleteShippingAddress i uid = (\<lambda>s. Inr ((), put_addresses
     (filter (\<lambda>r. \<not> (adr_ID r = i \<and> adr_UserID r = uid)) (tb_addresses s)) s))"

section \<open>The user repository\<close>

record UserProfile =
  upf_ID :: int
  upf_Nickname :: string
  upf_RealName :: string
  upf_Role :: string
  upf_CreatedAt :: int
  upf_UpdatedAt :: int

definition user_Profile :: "user \<Rightarrow> UserProfile" where
  "user_Profile u = \<lparr>upf_ID = usr_ID u, upf_Nickname = usr_Nickname u, upf_RealName = usr_RealName u,
     upf_Role = usr_Role u, upf_CreatedAt = usr_CreatedAt u, upf_UpdatedAt = usr_UpdatedAt u\<rparr>"

text \<open>\<open>rnd\<close> is what \<open>rand.Read\<close> puts into the four bytes of a generated nickname.\<close>

definition repo_CreateUser :: "string \<Rightarrow> string \<Rightarrow> string \<Rightarrow> string \<Rightarrow> string \<Rightarrow> (db, user) tx" where
  "repo_CreateUser rnd nickname phoneHash phoneEncrypt passwordHash = q_CreateUser
     \<lparr>cus_Nickname = (if nickname = '''' then ''u'' @ hex_EncodeToString rnd else nickname),
      cus_RealName = '''', cus_PhoneHash = phoneHash, cus_PhoneEncrypt = phoneEncrypt,
      cus_PasswordHash = passwordHash, cus_Role = ''user''\<rparr>"

definition repo_GetAuthUser :: "int \<Rightarrow> (db, user option) tx" where
  "repo_GetAuthUser i = tx_optional (q_GetUserByID i)"

definition repo_GetUserByID :: "int \<Rightarrow> (db, UserProfile option) tx" where
  "repo_GetUserByID i = tx_bind (tx_optional (q_GetUserByID i)) (\<lambda>u. tx_return (map_option user_Profile u))"

definition repo_GetUserByPhoneHash :: "string \<Rightarrow> (db, user option) tx" where
  "repo_GetUserByPhoneHash h = tx_optional (q_GetUserByPhoneHash h)"

definition repo_UpdateUser :: "int \<Rightarrow> string \<Rightarrow> string \<Rightarrow> (db, UserProfile) tx" where
  "repo_UpdateUser i nickname realName =
     tx_bind (q_UpdateUser i nickname realName) (\<lambda>u. tx_return (user_Profile u))"

definition repo_UpdateUserPassword :: "int \<Rightarrow> int \<Rightarrow> string \<Rightarrow> (db, unit) tx" where
  "repo_UpdateUserPassword i expectedVersion passwordHash =
     tx_bind (q_UpdateUserPassword i passwordHash expectedVersion) (\<lambda>rows.
       if rows = 0 then tx_throw (Conflict ''CREDENTIAL_VERSION_CONFLICT'') else tx_return ())"

section \<open>The address book\<close>

text \<open>The result of the repository; the decrypted phone number is the use case's.\<close>

record ShippingAddress =
  bsa_ID :: int
  bsa_UserID :: int
  bsa_ReceiverName :: string
  bsa_ReceiverPhone :: string
  bsa_ReceiverPhoneHash :: string
  bsa_ReceiverPhoneEncrypt :: string
  bsa_Province :: string
  bsa_City :: string
  bsa_District :: string
  bsa_DetailAddress :: string
  bsa_AddressTag :: string
  bsa_IsDefault :: bool
  bsa_CreatedAt :: int
  bsa_UpdatedAt :: int

definition toBizShippingAddress :: "shipping_address \<Rightarrow> ShippingAddress" where
  "toBizShippingAddress r = \<lparr>bsa_ID = adr_ID r, bsa_UserID = adr_UserID r, bsa_ReceiverName = adr_ReceiverName r,
     bsa_ReceiverPhone = [], bsa_ReceiverPhoneHash = adr_ReceiverPhoneHash r,
     bsa_ReceiverPhoneEncrypt = adr_ReceiverPhoneEncrypt r, bsa_Province = adr_Province r, bsa_City = adr_City r,
     bsa_District = adr_District r, bsa_DetailAddress = adr_DetailAddress r,
     bsa_AddressTag = text_String (adr_AddressTag r), bsa_IsDefault = adr_IsDefault r,
     bsa_CreatedAt = adr_CreatedAt r, bsa_UpdatedAt = adr_UpdatedAt r\<rparr>"

text \<open>The id of the old default is only used to invalidate its cache entry.\<close>

definition repo_CreateShippingAddress :: "int \<Rightarrow> AddressParams \<Rightarrow> bool \<Rightarrow> (db, ShippingAddress) tx" where
  "repo_CreateShippingAddress uid a isDefault =
     tx_seq (tx_when isDefault
       (tx_seq (q_LockUserForAddress uid)
       (tx_seq (tx_optional (q_GetDefaultShippingAddress uid))
               (q_ClearDefaultShippingAddress uid))))
     (tx_bind (q_CreateShippingAddress uid a isDefault) (\<lambda>r. tx_return (toBizShippingAddress r)))"

definition repo_ListShippingAddressesByUser :: "int \<Rightarrow> int \<Rightarrow> int \<Rightarrow> (db, ShippingAddress list) tx" where
  "repo_ListShippingAddressesByUser uid lmt off = tx_bind (tx_lift (NewOffsetPage lmt off)) (\<lambda>p.
     tx_bind (q_ListShippingAddressesByUser uid (pg_Limit p) (pg_Offset p)) (\<lambda>rows.
     tx_return (map toBizShippingAddress rows)))"

abbreviation address_not_found :: error where
  "address_not_found \<equiv> NotFound ''SHIPPING_ADDRESS_NOT_FOUND''"

definition repo_GetShippingAddress :: "int \<Rightarrow> int \<Rightarrow> (db, ShippingAddress) tx" where
  "repo_GetShippingAddress i uid = tx_bind (tx_optional (q_GetShippingAddress i uid)) (\<lambda>row.
     case row of
       None \<Rightarrow> tx_throw address_not_found
     | Some r \<Rightarrow> if adr_UserID r \<noteq> uid \<or> adr_ID r \<noteq> i then tx_throw address_not_found
         else tx_return (toBizShippingAddress r))"

definition repo_UpdateShippingAddress :: "int \<Rightarrow> int \<Rightarrow> AddressParams \<Rightarrow> (db, ShippingAddress) tx" where
  "repo_UpdateShippingAddress i uid a =
     tx_bind (q_UpdateShippingAddress i uid a) (\<lambda>r. tx_return (toBizShippingAddress r))"

definition repo_SetDefaultShippingAddress :: "int \<Rightarrow> int \<Rightarrow> (db, unit) tx" where
  "repo_SetDefaultShippingAddress i uid =
     tx_seq (q_LockUserForAddress uid)
     (tx_seq (tx_on_no_rows (q_GetShippingAddressForUpdate i uid) (tx_throw address_not_found))
     (tx_seq (tx_optional (q_GetDefaultShippingAddress uid))
     (tx_seq (q_ClearDefaultShippingAddress uid)
     (tx_bind (q_SetDefaultShippingAddress i uid) (\<lambda>rows.
       if rows = 0 then tx_throw address_not_found else tx_return ())))))"

definition repo_DeleteShippingAddress :: "int \<Rightarrow> int \<Rightarrow> (db, unit) tx" where
  "repo_DeleteShippingAddress i uid = tx_seq (q_LockUserForAddress uid) (q_DeleteShippingAddress i uid)"

lemmas user_query_defs = q_CreateUser_def q_GetUserByID_def q_GetUserByPhoneHash_def q_LockUserForAddress_def
  q_UpdateUser_def q_UpdateUserPassword_def q_UpdateUserRole_def

lemmas address_query_defs = q_LockUserForAddress_def q_CreateShippingAddress_def q_ClearDefaultShippingAddress_def
  q_GetDefaultShippingAddress_def q_GetShippingAddress_def q_GetShippingAddressForUpdate_def
  q_SetDefaultShippingAddress_def q_UpdateShippingAddress_def q_DeleteShippingAddress_def

section \<open>Deleting an account\<close>

text \<open>
  The foreign keys on \<^verbatim>\<open>users\<close>: orders, payments, refunds and the audit tables restrict the
  deletion; addresses, browsing history and likes go with the user; posts, media and comments
  lose their author.
\<close>

definition has_retained_history :: "int \<Rightarrow> db \<Rightarrow> bool" where
  "has_retained_history i s \<longleftrightarrow>
     (\<exists>r \<in> set (tb_adjustments s). adj_ActorID r = i) \<or> (\<exists>r \<in> set (tb_orders s). ord_UserID r = i) \<or>
     (\<exists>r \<in> set (tb_fulfillment s). ful_ActorID r = i) \<or> (\<exists>r \<in> set (tb_payments s). pay_UserID r = i) \<or>
     (\<exists>r \<in> set (tb_actions s). rac_ActorID r = i) \<or> (\<exists>r \<in> set (tb_refunds s). rfd_UserID r = i)"

definition forget :: "int \<Rightarrow> int option \<Rightarrow> int option" where
  "forget i x = (if x = Some i then None else x)"

definition q_DeleteUser :: "int \<Rightarrow> (db, unit) tx" where
  "q_DeleteUser i = (\<lambda>s.
     if find_row usr_ID i (tb_users s) = None then Inr ((), s)
     else if has_retained_history i s then Inl (ForeignKeyViolation ''users'')
     else Inr ((), s\<lparr>tb_users := filter (\<lambda>u. usr_ID u \<noteq> i) (tb_users s),
       tb_addresses := filter (\<lambda>a. adr_UserID a \<noteq> i) (tb_addresses s),
       tb_history := filter (\<lambda>h. his_UserID h \<noteq> i) (tb_history s),
       tb_likes := filter (\<lambda>l. lik_UserID l \<noteq> i) (tb_likes s),
       tb_posts := map (\<lambda>p. p\<lparr>pst_AuthorID := forget i (pst_AuthorID p)\<rparr>) (tb_posts s),
       tb_media := map (\<lambda>m. m\<lparr>mas_OwnerID := forget i (mas_OwnerID m)\<rparr>) (tb_media s),
       tb_comments := map (\<lambda>c. c\<lparr>cmt_AuthorID := forget i (cmt_AuthorID c)\<rparr>) (tb_comments s)\<rparr>))"

text \<open>\<open>pgErr.Code == "23503"\<close>: a row that still refers to the user.\<close>

definition repo_DeleteUser :: "int \<Rightarrow> (db, unit) tx" where
  "repo_DeleteUser i = (\<lambda>s. case q_DeleteUser i s of
     Inl e \<Rightarrow> (case e of ForeignKeyViolation c \<Rightarrow> Inl (Conflict ''ACCOUNT_HAS_RETAINED_HISTORY'') | _ \<Rightarrow> Inl e)
   | Inr r \<Rightarrow> Inr r)"

lemma repo_DeleteUser_Inr: "repo_DeleteUser i s = Inr (r, s') \<longleftrightarrow> q_DeleteUser i s = Inr (r, s')"
  by (auto simp: repo_DeleteUser_def split: sum.splits error.splits)

section \<open>The invariant of the accounts\<close>

definition one_default :: "shipping_address list \<Rightarrow> bool" where
  "one_default t \<longleftrightarrow> (\<forall>a \<in> set t. \<forall>b \<in> set t.
     adr_UserID a = adr_UserID b \<and> adr_IsDefault a \<and> adr_IsDefault b \<longrightarrow> adr_ID a = adr_ID b)"

text \<open>Identity values: positive, unique, and none beyond the sequence.\<close>

definition drawn :: "('r \<Rightarrow> int) \<Rightarrow> int \<Rightarrow> 'r list \<Rightarrow> bool" where
  "drawn key n t \<longleftrightarrow> 0 \<le> n \<and> pk key t \<and> (\<forall>r \<in> set t. key r \<le> n)"

definition users_ok :: "db \<Rightarrow> bool" where
  "users_ok s \<longleftrightarrow> drawn usr_ID (tb_sequences s ''users'') (tb_users s) \<and>
     distinct (map usr_PhoneHash (tb_users s)) \<and> (\<forall>u \<in> set (tb_users s). 0 < usr_AuthVersion u)"

definition addresses_ok :: "db \<Rightarrow> bool" where
  "addresses_ok s \<longleftrightarrow> drawn adr_ID (tb_sequences s ''shipping_addresses'') (tb_addresses s) \<and>
     (\<forall>a \<in> set (tb_addresses s). adr_UserID a \<in> usr_ID ` set (tb_users s)) \<and> one_default (tb_addresses s)"

definition accounts_ok :: "db \<Rightarrow> bool" where
  "accounts_ok s \<longleftrightarrow> users_ok s \<and> addresses_ok s"

text \<open>One account transaction, or anything that leaves the two tables alone.\<close>

inductive account_step :: "db \<Rightarrow> db \<Rightarrow> bool" where
  CreateUser: "InTx (repo_CreateUser rnd nickname phoneHash phoneEncrypt passwordHash) s = (r, s') \<Longrightarrow> account_step s s'"
| UpdateUser: "InTx (repo_UpdateUser i nickname realName) s = (r, s') \<Longrightarrow> account_step s s'"
| UpdateUserPassword: "InTx (repo_UpdateUserPassword i v passwordHash) s = (r, s') \<Longrightarrow> account_step s s'"
| UpdateUserRole: "InTx (q_UpdateUserRole i role) s = (r, s') \<Longrightarrow> account_step s s'"
| DeleteUser: "InTx (repo_DeleteUser i) s = (r, s') \<Longrightarrow> account_step s s'"
| CreateAddress: "InTx (repo_CreateShippingAddress uid a isDefault) s = (r, s') \<Longrightarrow> account_step s s'"
| UpdateAddress: "InTx (repo_UpdateShippingAddress i uid a) s = (r, s') \<Longrightarrow> account_step s s'"
| SetDefaultAddress: "InTx (repo_SetDefaultShippingAddress i uid) s = (r, s') \<Longrightarrow> account_step s s'"
| DeleteAddress: "InTx (repo_DeleteShippingAddress i uid) s = (r, s') \<Longrightarrow> account_step s s'"
| ElsewhereAccounts: "tb_users s' = tb_users s \<Longrightarrow> tb_addresses s' = tb_addresses s \<Longrightarrow>
    tb_sequences s' ''users'' = tb_sequences s ''users'' \<Longrightarrow>
    tb_sequences s' ''shipping_addresses'' = tb_sequences s ''shipping_addresses'' \<Longrightarrow> account_step s s'"

definition accounts_init :: "db \<Rightarrow> bool" where
  "accounts_init s \<longleftrightarrow> tb_users s = [] \<and> tb_addresses s = [] \<and> tb_sequences s ''users'' = 0 \<and>
     tb_sequences s ''shipping_addresses'' = 0"

lemma drawn_insert: "drawn key n t \<Longrightarrow> key r = n + 1 \<Longrightarrow> drawn key (n + 1) (t @ [r])"
  by (fastforce simp: drawn_def pk_def)

lemma drawn_filter: "drawn key n t \<Longrightarrow> drawn key n (filter P t)"
  by (auto simp: drawn_def pk_def intro: distinct_map_filter)

lemma drawn_upd: "drawn key n t \<Longrightarrow> (\<And>r. key (f r) = key r) \<Longrightarrow> drawn key n (upd_row key i f t)"
  unfolding drawn_def using pk_upd_row [of key f i t] by (fastforce simp: set_upd_row)

lemma drawn_map: "drawn key n t \<Longrightarrow> (\<And>r. key (f r) = key r) \<Longrightarrow> drawn key n (map f t)"
  by (auto simp: drawn_def pk_def comp_def)

lemma map_upd_row_other: "(\<And>r. g (f r) = g r) \<Longrightarrow> map g (upd_row key i f t) = map g t"
  by (simp add: upd_row_def)

text \<open>What each transaction did, statement by statement.\<close>

lemmas user_tx_simps = repo_CreateUser_def repo_UpdateUser_def repo_UpdateUserPassword_def repo_DeleteUser_Inr
  q_CreateUser_def q_UpdateUser_def q_UpdateUserPassword_def q_UpdateUserRole_def q_DeleteUser_def tx_simps

lemma users_ok_create:
  assumes "q_CreateUser a s = Inr (u, s')" and "users_ok s"
  shows "users_ok s' \<and> tb_addresses s' = tb_addresses s \<and> set (tb_users s) \<subseteq> set (tb_users s') \<and>
    tb_sequences s' ''shipping_addresses'' = tb_sequences s ''shipping_addresses''"
proof -
  let ?i = "tb_sequences s ''users'' + 1"
  from assms(1) have u: "usr_ID u = ?i" "usr_AuthVersion u = 1" "usr_PhoneHash u \<notin> usr_PhoneHash ` set (tb_users s)"
    and s': "tb_users s' = tb_users s @ [u]" "tb_sequences s' = (tb_sequences s)(''users'' := ?i)"
    "tb_addresses s' = tb_addresses s"
    by (auto simp: q_CreateUser_def tx_simps split: if_splits)
  have "drawn usr_ID ?i (tb_users s @ [u])"
    using assms(2) u(1) by (auto simp: users_ok_def intro: drawn_insert)
  then show ?thesis using assms(2) u s' by (auto simp: users_ok_def)
qed

lemma accounts_ok_upd:
  assumes "accounts_ok s" and k: "\<And>u. usr_ID (f u) = usr_ID u" and "\<And>u. usr_PhoneHash (f u) = usr_PhoneHash u"
    and v: "\<And>u. usr_AuthVersion u \<le> usr_AuthVersion (f u)"
  shows "accounts_ok (put_users (upd_row usr_ID i f (tb_users s)) s)"
proof -
  let ?t = "upd_row usr_ID i f (tb_users s)"
  have "0 < usr_AuthVersion u" if "u \<in> set ?t" for u
    using that assms(1) v by (fastforce simp: accounts_ok_def users_ok_def set_upd_row intro: less_le_trans)
  moreover have "usr_ID ` set ?t = usr_ID ` set (tb_users s)"
    using map_key_upd_row [of usr_ID f i "tb_users s"] k by (metis set_map)
  ultimately show ?thesis
    using assms by (simp add: accounts_ok_def users_ok_def addresses_ok_def drawn_upd map_upd_row_other)
qed

lemma addresses_ok_keep:
  "addresses_ok s \<Longrightarrow> tb_addresses s' = tb_addresses s \<Longrightarrow> usr_ID ` set (tb_users s) \<subseteq> usr_ID ` set (tb_users s') \<Longrightarrow>
   tb_sequences s' ''shipping_addresses'' = tb_sequences s ''shipping_addresses'' \<Longrightarrow> addresses_ok s'"
  by (auto simp: addresses_ok_def)

lemma users_ok_keep:
  "users_ok s \<Longrightarrow> tb_users s' = tb_users s \<Longrightarrow> tb_sequences s' ''users'' = tb_sequences s ''users'' \<Longrightarrow> users_ok s'"
  by (auto simp: users_ok_def)

lemma repo_UpdateUser_elim:
  assumes "repo_UpdateUser i n m s = Inr (r, s')"
  obtains "s' = s\<lparr>tb_users := upd_row usr_ID i
    (\<lambda>u. u\<lparr>usr_Nickname := n, usr_RealName := m, usr_UpdatedAt := tb_current_timestamp s\<rparr>) (tb_users s)\<rparr>"
  using assms by (auto simp: user_tx_simps)

lemma repo_UpdateUserPassword_elim:
  assumes "repo_UpdateUserPassword i v h s = Inr (r, s')"
  obtains u where "find_row usr_ID i (tb_users s) = Some u" and "usr_AuthVersion u = v"
    and "s' = s\<lparr>tb_users := upd_row usr_ID i (\<lambda>u. u\<lparr>usr_PasswordHash := h,
      usr_AuthVersion := usr_AuthVersion u + 1, usr_UpdatedAt := tb_current_timestamp s\<rparr>) (tb_users s)\<rparr>"
  using assms by (auto simp: user_tx_simps split: if_splits)

lemma accounts_ok_user_tx:
  assumes "accounts_ok s"
  shows "repo_UpdateUser i n m s = Inr (r1, s') \<Longrightarrow> accounts_ok s'"
    and "repo_UpdateUserPassword i v h s = Inr (r2, s') \<Longrightarrow> accounts_ok s'"
    and "q_UpdateUserRole i role s = Inr (r3, s') \<Longrightarrow> accounts_ok s'"
  using assms by (auto simp: user_tx_simps split: if_splits intro!: accounts_ok_upd)

lemma one_defaultI:
  "(\<And>a b. a \<in> set t \<Longrightarrow> b \<in> set t \<Longrightarrow> adr_UserID a = adr_UserID b \<Longrightarrow> adr_IsDefault a \<Longrightarrow> adr_IsDefault b \<Longrightarrow>
     adr_ID a = adr_ID b) \<Longrightarrow> one_default t"
  unfolding one_default_def by blast

lemma one_defaultD:
  "one_default t \<Longrightarrow> a \<in> set t \<Longrightarrow> b \<in> set t \<Longrightarrow> adr_UserID a = adr_UserID b \<Longrightarrow> adr_IsDefault a \<Longrightarrow>
   adr_IsDefault b \<Longrightarrow> adr_ID a = adr_ID b"
  unfolding one_default_def by blast

lemma one_default_map:
  assumes "one_default t" and f: "\<And>r. adr_ID (f r) = adr_ID r" "\<And>r. adr_UserID (f r) = adr_UserID r"
    "\<And>r. adr_IsDefault (f r) \<Longrightarrow> adr_IsDefault r"
  shows "one_default (map f t)"
proof (rule one_defaultI)
  fix a b assume "a \<in> set (map f t)" "b \<in> set (map f t)" and ab: "adr_UserID a = adr_UserID b" "adr_IsDefault a" "adr_IsDefault b"
  then obtain x y where x: "x \<in> set t" "a = f x" "y \<in> set t" "b = f y" by auto
  then show "adr_ID a = adr_ID b" using one_defaultD [OF assms(1) x(1,3)] ab f by simp
qed

lemma one_default_subset: "one_default t \<Longrightarrow> set u \<subseteq> set t \<Longrightarrow> one_default u"
  unfolding one_default_def by blast

lemma accounts_ok_delete:
  assumes "accounts_ok s" and "q_DeleteUser i s = Inr (r, s')"
  shows "accounts_ok s'"
proof (cases "find_row usr_ID i (tb_users s) = None")
  case False
  then have s': "tb_users s' = filter (\<lambda>u. usr_ID u \<noteq> i) (tb_users s)" "tb_sequences s' = tb_sequences s"
    "tb_addresses s' = filter (\<lambda>a. adr_UserID a \<noteq> i) (tb_addresses s)"
    using assms(2) by (auto simp: q_DeleteUser_def split: if_splits)
  have "users_ok s'" using assms(1) s' by (auto simp: accounts_ok_def users_ok_def drawn_filter distinct_map_filter)
  moreover have "addresses_ok s'"
    using assms(1) s' one_default_subset [of "tb_addresses s"]
    by (auto simp: accounts_ok_def addresses_ok_def drawn_filter)
  ultimately show ?thesis by (simp add: accounts_ok_def)
qed (use assms in \<open>simp add: q_DeleteUser_def\<close>)

section \<open>The default address\<close>

definition clear_default :: "int \<Rightarrow> int \<Rightarrow> shipping_address \<Rightarrow> shipping_address" where
  "clear_default uid now r = (if adr_UserID r = uid then r\<lparr>adr_IsDefault := False, adr_UpdatedAt := now\<rparr> else r)"

definition choose_default :: "int \<Rightarrow> int \<Rightarrow> int \<Rightarrow> shipping_address \<Rightarrow> shipping_address" where
  "choose_default i uid now r =
     (if adr_UserID r = uid then r\<lparr>adr_IsDefault := (adr_ID r = i), adr_UpdatedAt := now\<rparr> else r)"

lemma clear_default_simps [simp]:
  "adr_ID (clear_default uid now r) = adr_ID r" "adr_UserID (clear_default uid now r) = adr_UserID r"
  "adr_IsDefault (clear_default uid now r) \<longleftrightarrow> adr_UserID r \<noteq> uid \<and> adr_IsDefault r"
  by (auto simp: clear_default_def)

lemma choose_default_simps [simp]:
  "adr_ID (choose_default i uid now r) = adr_ID r" "adr_UserID (choose_default i uid now r) = adr_UserID r"
  "adr_IsDefault (choose_default i uid now r) \<longleftrightarrow> (if adr_UserID r = uid then adr_ID r = i else adr_IsDefault r)"
  by (auto simp: choose_default_def)

lemma q_ClearDefault_run: "q_ClearDefaultShippingAddress uid s =
    Inr ((), put_addresses (map (clear_default uid (tb_current_timestamp s)) (tb_addresses s)) s)"
  by (simp add: q_ClearDefaultShippingAddress_def clear_default_def)

lemma find_address:
  assumes "distinct (map adr_ID t)"
  shows "List.find (\<lambda>r. adr_ID r = i \<and> adr_UserID r = uid) t =
    (case find_row adr_ID i t of None \<Rightarrow> None | Some r \<Rightarrow> if adr_UserID r = uid then Some r else None)"
  using assms
proof (induction t)
  case (Cons a t)
  have "find_row adr_ID (adr_ID a) t = None" using Cons.prems by (auto simp: find_row_None rev_image_eqI)
  then show ?case using Cons by (auto split: option.splits)
qed simp

text \<open>The statement after the clear finds exactly its target.\<close>

lemma q_SetDefault_after_clear:
  assumes "distinct (map adr_ID (tb_addresses s))" and "find_row adr_ID i (tb_addresses s) = Some r" and "adr_UserID r = uid"
    and "s1 = put_addresses (map (clear_default uid (tb_current_timestamp s)) (tb_addresses s)) s"
  shows "q_SetDefaultShippingAddress i uid s1 =
    Inr (1, put_addresses (map (choose_default i uid (tb_current_timestamp s)) (tb_addresses s)) s)"
proof -
  let ?now = "tb_current_timestamp s" and ?t = "tb_addresses s"
  let ?f = "\<lambda>r :: shipping_address. r\<lparr>adr_IsDefault := True, adr_UpdatedAt := ?now\<rparr>"
  have "find_row adr_ID i (tb_addresses s1) = Some (clear_default uid ?now r)"
    using assms(2,4) by (simp add: find_row_map)
  moreover have "\<not> (\<exists>a \<in> set (tb_addresses s1). adr_ID a \<noteq> i \<and> adr_UserID a = uid \<and> adr_IsDefault a)"
    using assms(4) by auto
  moreover have "upd_row adr_ID i ?f (map (clear_default uid ?now) ?t) = map (choose_default i uid ?now) ?t"
  proof -
    have "adr_UserID a = uid" if "a \<in> set ?t" "adr_ID a = i" for a
      using find_row_mem [OF assms(1) that(1)] assms(2,3) that(2) by simp
    then show ?thesis by (auto simp: upd_row_def clear_default_def choose_default_def)
  qed
  ultimately show ?thesis
    using assms(3,4) by (simp add: q_SetDefaultShippingAddress_def sql_exec_def)
qed

lemma set_default_run:
  assumes "distinct (map adr_ID (tb_addresses s))"
  shows "repo_SetDefaultShippingAddress i uid s =
    (if find_row usr_ID uid (tb_users s) = None then Inl ErrNoRows
     else case find_row adr_ID i (tb_addresses s) of
       None \<Rightarrow> Inl address_not_found
     | Some r \<Rightarrow> if adr_UserID r \<noteq> uid then Inl address_not_found
         else Inr ((), put_addresses (map (choose_default i uid (tb_current_timestamp s)) (tb_addresses s)) s))"
proof (cases "find_row usr_ID uid (tb_users s)")
  case None
  then show ?thesis by (simp add: repo_SetDefaultShippingAddress_def q_LockUserForAddress_def tx_eval sql_get_def)
next
  case (Some u)
  have d: "\<exists>d. tx_optional (q_GetDefaultShippingAddress uid) s = Inr (d, s)"
    by (simp add: q_GetDefaultShippingAddress_def tx_optional_def sql_find_def split: option.splits)
  show ?thesis
  proof (cases "\<exists>r. find_row adr_ID i (tb_addresses s) = Some r \<and> adr_UserID r = uid")
    case True
    then obtain r where r: "find_row adr_ID i (tb_addresses s) = Some r" "adr_UserID r = uid" by blast
    have get: "q_GetShippingAddressForUpdate i uid s = Inr (r, s)"
      using r by (simp add: q_GetShippingAddressForUpdate_def sql_find_def find_address [OF assms])
    obtain d where d: "tx_optional (q_GetDefaultShippingAddress uid) s = Inr (d, s)" using d by blast
    show ?thesis
      using Some r get d q_SetDefault_after_clear [OF assms r refl]
      by (simp add: repo_SetDefaultShippingAddress_def q_LockUserForAddress_def q_ClearDefault_run
          tx_bind_def tx_seq_def tx_return_def tx_on_no_rows_def sql_get_def)
  next
    case False
    then have "q_GetShippingAddressForUpdate i uid s = Inl ErrNoRows"
      by (auto simp: q_GetShippingAddressForUpdate_def sql_find_def find_address [OF assms] split: option.splits)
    then show ?thesis using Some False
      by (auto simp: repo_SetDefaultShippingAddress_def q_LockUserForAddress_def
          tx_bind_def tx_seq_def tx_return_def tx_throw_def tx_on_no_rows_def sql_get_def split: option.splits)
  qed
qed

lemma accounts_ok_map_addresses:
  assumes "accounts_ok s" and k: "\<And>r. adr_ID (f r) = adr_ID r" "\<And>r. adr_UserID (f r) = adr_UserID r"
    and "one_default (map f (tb_addresses s))"
  shows "accounts_ok (put_addresses (map f (tb_addresses s)) s)"
  using assms(1,4) drawn_map [of adr_ID _ "tb_addresses s" f, OF _ k(1)] k(2)
  by (auto simp: accounts_ok_def users_ok_def addresses_ok_def)

lemma one_default_clear: "one_default t \<Longrightarrow> one_default (map (clear_default uid now) t)"
  by (rule one_default_map) simp_all

lemma one_default_choose:
  assumes "one_default t"
  shows "one_default (map (choose_default i uid now) t)"
proof (rule one_defaultI)
  fix a b assume "a \<in> set (map (choose_default i uid now) t)" "b \<in> set (map (choose_default i uid now) t)"
    and ab: "adr_UserID a = adr_UserID b" "adr_IsDefault a" "adr_IsDefault b"
  then obtain x y where x: "x \<in> set t" "a = choose_default i uid now x" "y \<in> set t" "b = choose_default i uid now y"
    by auto
  show "adr_ID a = adr_ID b"
  proof (cases "adr_UserID x = uid")
    case True
    then show ?thesis using ab x by simp
  next
    case False
    then show ?thesis using one_defaultD [OF assms x(1,3)] ab x by simp
  qed
qed

lemma one_default_snoc:
  assumes "one_default t" and "adr_IsDefault r \<Longrightarrow> (\<And>x. x \<in> set t \<Longrightarrow> adr_UserID x = adr_UserID r \<Longrightarrow> \<not> adr_IsDefault x)"
  shows "one_default (t @ [r])"
proof (rule one_defaultI)
  fix a b assume "a \<in> set (t @ [r])" "b \<in> set (t @ [r])" and ab: "adr_UserID a = adr_UserID b" "adr_IsDefault a" "adr_IsDefault b"
  then consider "a \<in> set t" "b \<in> set t" | "a = r" "b \<in> set t" | "a \<in> set t" "b = r" | "a = r" "b = r" by auto
  then show "adr_ID a = adr_ID b"
  proof cases
    case 1
    then show ?thesis using ab by (rule one_defaultD [OF assms(1)])
  next
    case 2
    then show ?thesis using assms(2) [of b] ab by simp
  next
    case 3
    then show ?thesis using assms(2) [of a] ab by simp
  qed simp
qed

lemma accounts_ok_distinct: "accounts_ok s \<Longrightarrow> distinct (map adr_ID (tb_addresses s))"
  by (simp add: accounts_ok_def addresses_ok_def drawn_def pk_def)

lemma accounts_ok_one_default: "accounts_ok s \<Longrightarrow> one_default (tb_addresses s)"
  by (simp add: accounts_ok_def addresses_ok_def)

lemma accounts_ok_set_default:
  assumes "accounts_ok s" and "repo_SetDefaultShippingAddress i uid s = Inr (r, s')"
  shows "accounts_ok s'"
proof -
  have "s' = put_addresses (map (choose_default i uid (tb_current_timestamp s)) (tb_addresses s)) s"
    using assms(2) by (auto simp: set_default_run [OF accounts_ok_distinct [OF assms(1)]] split: if_splits option.splits)
  then show ?thesis
    using accounts_ok_map_addresses [OF assms(1)] one_default_choose [OF accounts_ok_one_default [OF assms(1)]] by simp
qed

lemma q_CreateShippingAddress_Inr:
  assumes "q_CreateShippingAddress uid a isDefault s = Inr (r, s')"
  defines "i \<equiv> tb_sequences s ''shipping_addresses'' + 1"
  shows "find_row usr_ID uid (tb_users s) \<noteq> None" and "adr_ID r = i" and "adr_UserID r = uid"
    and "adr_IsDefault r = isDefault"
    and "isDefault \<Longrightarrow> x \<in> set (tb_addresses s) \<Longrightarrow> adr_UserID x = uid \<Longrightarrow> \<not> adr_IsDefault x"
    and "s' = s\<lparr>tb_sequences := (tb_sequences s)(''shipping_addresses'' := i), tb_addresses := tb_addresses s @ [r]\<rparr>"
  using assms(1) unfolding i_def by (simp_all add: q_CreateShippingAddress_def tx_simps split: if_splits)

lemma accounts_ok_insert_address:
  assumes "accounts_ok s" and ins: "q_CreateShippingAddress uid a isDefault s = Inr (r, s')"
  shows "accounts_ok s'"
proof -
  let ?i = "tb_sequences s ''shipping_addresses'' + 1"
  note r = q_CreateShippingAddress_Inr(2-4) [OF ins] and none = q_CreateShippingAddress_Inr(5) [OF ins]
    and s' = q_CreateShippingAddress_Inr(6) [OF ins]
  have u: "uid \<in> usr_ID ` set (tb_users s)" using q_CreateShippingAddress_Inr(1) [OF ins]
    by (force dest: find_row_in find_row_key)
  have "one_default (tb_addresses s @ [r])"
    using accounts_ok_one_default [OF assms(1)] none r by (intro one_default_snoc) auto
  moreover have "drawn adr_ID ?i (tb_addresses s @ [r])"
    using assms(1) r(1) by (auto simp: accounts_ok_def addresses_ok_def intro: drawn_insert)
  ultimately show ?thesis using assms(1) u r(2) s' by (auto simp: accounts_ok_def users_ok_def addresses_ok_def)
qed

lemma accounts_ok_create_address:
  assumes "accounts_ok s" and "repo_CreateShippingAddress uid a isDefault s = Inr (r, s')"
  shows "accounts_ok s'"
proof (cases isDefault)
  case True
  let ?s1 = "put_addresses (map (clear_default uid (tb_current_timestamp s)) (tb_addresses s)) s"
  have "accounts_ok ?s1"
    using accounts_ok_map_addresses [OF assms(1)] one_default_clear [OF accounts_ok_one_default [OF assms(1)]] by simp
  moreover obtain row where "q_CreateShippingAddress uid a isDefault ?s1 = Inr (row, s')"
    using assms(2) True
    by (auto simp: repo_CreateShippingAddress_def q_LockUserForAddress_def q_ClearDefault_run
        q_GetDefaultShippingAddress_def tx_simps split: option.splits)
  ultimately show ?thesis by (rule accounts_ok_insert_address)
next
  case False
  then show ?thesis
    using assms accounts_ok_insert_address by (auto simp: repo_CreateShippingAddress_def tx_simps)
qed

lemma accounts_ok_update_address:
  assumes "accounts_ok s" and "repo_UpdateShippingAddress i uid a s = Inr (r, s')"
  shows "accounts_ok s'"
proof -
  let ?f = "\<lambda>r. if adr_ID r = i then r\<lparr>adr_ReceiverName := adp_ReceiverName a, adr_ReceiverPhoneHash := adp_ReceiverPhoneHash a,
      adr_ReceiverPhoneEncrypt := adp_ReceiverPhoneEncrypt a, adr_Province := adp_Province a,
      adr_City := adp_City a, adr_District := adp_District a, adr_DetailAddress := adp_DetailAddress a,
      adr_AddressTag := adp_AddressTag a, adr_UpdatedAt := tb_current_timestamp s\<rparr> else r"
  have "s' = put_addresses (map ?f (tb_addresses s)) s"
    using assms(2) by (auto simp: repo_UpdateShippingAddress_def q_UpdateShippingAddress_def tx_simps upd_row_def)
  moreover have "one_default (map ?f (tb_addresses s))"
    by (rule one_default_map) (simp_all add: accounts_ok_one_default [OF assms(1)] split: if_splits)
  ultimately show ?thesis using accounts_ok_map_addresses [OF assms(1), of ?f] by simp
qed

lemma accounts_ok_delete_address:
  assumes "accounts_ok s" and "repo_DeleteShippingAddress i uid s = Inr (r, s')"
  shows "accounts_ok s'"
proof -
  have "s' = put_addresses (filter (\<lambda>r. \<not> (adr_ID r = i \<and> adr_UserID r = uid)) (tb_addresses s)) s"
    using assms(2) by (auto simp: repo_DeleteShippingAddress_def q_LockUserForAddress_def q_DeleteShippingAddress_def tx_simps)
  then show ?thesis using assms(1) one_default_subset [of "tb_addresses s"]
    by (auto simp: accounts_ok_def users_ok_def addresses_ok_def drawn_filter)
qed

lemma accounts_ok_create_user:
  "accounts_ok s \<Longrightarrow> repo_CreateUser rnd n h e p s = Inr (r, s') \<Longrightarrow> accounts_ok s'"
  unfolding accounts_ok_def repo_CreateUser_def using users_ok_create addresses_ok_keep by (metis image_mono)

lemma accounts_ok_repo_delete: "accounts_ok s \<Longrightarrow> repo_DeleteUser i s = Inr (r, s') \<Longrightarrow> accounts_ok s'"
  by (simp add: repo_DeleteUser_Inr accounts_ok_delete)

lemmas accounts_ok_txs = accounts_ok_create_user accounts_ok_user_tx accounts_ok_repo_delete
  accounts_ok_create_address accounts_ok_update_address accounts_ok_set_default accounts_ok_delete_address

lemma accounts_ok_InTx:
  "InTx m s = (r, s') \<Longrightarrow> accounts_ok s \<Longrightarrow> (\<And>x t. accounts_ok s \<Longrightarrow> m s = Inr (x, t) \<Longrightarrow> accounts_ok t) \<Longrightarrow> accounts_ok s'"
  by (auto simp: InTx_def split: sum.splits)

lemma accounts_ok_step:
  assumes "account_step s s'" and "accounts_ok s"
  shows "accounts_ok s'"
  using assms
proof (induction rule: account_step.induct)
  case (ElsewhereAccounts s' s)
  then show ?case by (simp add: accounts_ok_def users_ok_def addresses_ok_def)
qed (erule (1) accounts_ok_InTx, erule (1) accounts_ok_txs)+

interpretation accounts: invariant_system accounts_init account_step accounts_ok
proof unfold_locales
  show "accounts_ok s" if "accounts_init s" for s
    using that by (simp add: accounts_init_def accounts_ok_def users_ok_def addresses_ok_def drawn_def pk_def one_default_def)
qed (rule accounts_ok_step)

section \<open>Credential versions\<close>

text \<open>Along every run, a user row that is still there has at least the version it had, and a
  new row has an identity value no earlier row had.\<close>

definition versions_grow :: "db \<Rightarrow> db \<Rightarrow> bool" where
  "versions_grow s t \<longleftrightarrow> tb_sequences s ''users'' \<le> tb_sequences t ''users'' \<and>
     (\<forall>u' \<in> set (tb_users t). usr_ID u' \<le> tb_sequences s ''users'' \<longrightarrow>
        (\<exists>u \<in> set (tb_users s). usr_ID u = usr_ID u' \<and> usr_AuthVersion u \<le> usr_AuthVersion u'))"

lemma versions_grow_refl: "versions_grow s s"
  by (auto simp: versions_grow_def)

lemma versions_growD:
  assumes "versions_grow s t" and "u' \<in> set (tb_users t)" and "usr_ID u' \<le> tb_sequences s ''users''"
  obtains u where "u \<in> set (tb_users s)" and "usr_ID u = usr_ID u'" and "usr_AuthVersion u \<le> usr_AuthVersion u'"
  using assms unfolding versions_grow_def by blast

lemma versions_grow_trans:
  assumes "versions_grow s t" and "versions_grow t u"
  shows "versions_grow s u"
proof -
  have le: "tb_sequences s ''users'' \<le> tb_sequences t ''users''" "tb_sequences t ''users'' \<le> tb_sequences u ''users''"
    using assms by (simp_all add: versions_grow_def)
  have "\<exists>x \<in> set (tb_users s). usr_ID x = usr_ID z \<and> usr_AuthVersion x \<le> usr_AuthVersion z"
    if z: "z \<in> set (tb_users u)" "usr_ID z \<le> tb_sequences s ''users''" for z
  proof -
    have "usr_ID z \<le> tb_sequences t ''users''" using z(2) le(1) by linarith
    then obtain y where y: "y \<in> set (tb_users t)" "usr_ID y = usr_ID z" "usr_AuthVersion y \<le> usr_AuthVersion z"
      by (rule versions_growD [OF assms(2) z(1)])
    have "usr_ID y \<le> tb_sequences s ''users''" using z(2) y(2) by simp
    then obtain x where x: "x \<in> set (tb_users s)" "usr_ID x = usr_ID y" "usr_AuthVersion x \<le> usr_AuthVersion y"
      by (rule versions_growD [OF assms(1) y(1)])
    show ?thesis using x(1) by (rule bexI [rotated]) (use x y in simp)
  qed
  then show ?thesis using le by (simp add: versions_grow_def)
qed

lemma versions_grow_same:
  "tb_users t = tb_users s \<Longrightarrow> tb_sequences t ''users'' = tb_sequences s ''users'' \<Longrightarrow> versions_grow s t"
  by (auto simp: versions_grow_def)

lemma versions_grow_upd:
  assumes "\<And>u. usr_ID (f u) = usr_ID u" and "\<And>u. usr_AuthVersion u \<le> usr_AuthVersion (f u)"
  shows "versions_grow s (put_users (upd_row usr_ID i f (tb_users s)) s)"
  using assms by (force simp: versions_grow_def set_upd_row)

lemma versions_grow_user_tx:
  "repo_CreateUser rnd n h e p s = Inr (r1, s') \<Longrightarrow> versions_grow s s'"
  "repo_UpdateUser i n m s = Inr (r2, s') \<Longrightarrow> versions_grow s s'"
  "repo_UpdateUserPassword i v h s = Inr (r3, s') \<Longrightarrow> versions_grow s s'"
  "q_UpdateUserRole i role s = Inr (r4, s') \<Longrightarrow> versions_grow s s'"
  "repo_DeleteUser i s = Inr (r5, s') \<Longrightarrow> versions_grow s s'"
proof -
  show "repo_CreateUser rnd n h e p s = Inr (r1, s') \<Longrightarrow> versions_grow s s'"
    by (auto simp: repo_CreateUser_def q_CreateUser_def tx_simps versions_grow_def split: if_splits)
  show "repo_UpdateUser i n m s = Inr (r2, s') \<Longrightarrow> versions_grow s s'"
    "repo_UpdateUserPassword i v h s = Inr (r3, s') \<Longrightarrow> versions_grow s s'"
    "q_UpdateUserRole i role s = Inr (r4, s') \<Longrightarrow> versions_grow s s'"
    by (auto simp: user_tx_simps versions_grow_refl split: if_splits intro!: versions_grow_upd)
  show "repo_DeleteUser i s = Inr (r5, s') \<Longrightarrow> versions_grow s s'"
    by (auto simp: repo_DeleteUser_Inr q_DeleteUser_def versions_grow_def split: if_splits)
qed

interpretation vg: tx_relation versions_grow
  by unfold_locales (rule versions_grow_refl, erule (1) versions_grow_trans)

lemma address_query_users:
  "tx_rel versions_grow (q_LockUserForAddress i)"
  "tx_rel versions_grow (q_CreateShippingAddress i a d)"
  "tx_rel versions_grow (q_ClearDefaultShippingAddress i)"
  "tx_rel versions_grow (q_GetDefaultShippingAddress i)"
  "tx_rel versions_grow (q_GetShippingAddressForUpdate i j)"
  "tx_rel versions_grow (q_SetDefaultShippingAddress i j)"
  "tx_rel versions_grow (q_UpdateShippingAddress i j a)"
  "tx_rel versions_grow (q_DeleteShippingAddress i j)"
  unfolding address_query_defs
  by (intro vg.rel_intros | rule tx_relI, rule versions_grow_same;
      auto simp: sql_insert_def sql_exec_def sql_update_def tx_simps split: if_splits option.splits)+

lemma address_tx_users:
  "tx_rel versions_grow (repo_CreateShippingAddress uid a d)"
  "tx_rel versions_grow (repo_UpdateShippingAddress i uid a)"
  "tx_rel versions_grow (repo_SetDefaultShippingAddress i uid)"
  "tx_rel versions_grow (repo_DeleteShippingAddress i uid)"
  unfolding repo_CreateShippingAddress_def repo_UpdateShippingAddress_def repo_SetDefaultShippingAddress_def
    repo_DeleteShippingAddress_def
  by (intro vg.rel_intros address_query_users)+

lemma versions_grow_InTx:
  "InTx m s = (r, s') \<Longrightarrow> (\<And>x t. m s = Inr (x, t) \<Longrightarrow> versions_grow s t) \<Longrightarrow> versions_grow s s'"
  by (auto simp: InTx_def versions_grow_refl split: sum.splits)

lemma versions_grow_step: "account_step s s' \<Longrightarrow> versions_grow s s'"
proof (induction rule: account_step.induct)
  case (ElsewhereAccounts s' s)
  then show ?case by (simp add: versions_grow_same)
qed (erule versions_grow_InTx, erule versions_grow_user_tx address_tx_users [THEN tx_relD])+

lemma versions_grow_run: "account_step\<^sup>*\<^sup>* s s' \<Longrightarrow> versions_grow s s'"
  by (erule star_rel) (rule versions_grow_refl versions_grow_trans versions_grow_step; assumption)+

lemma distinct_short:
  assumes "distinct (map f l)" and "\<And>a b. a \<in> set l \<Longrightarrow> b \<in> set l \<Longrightarrow> f a = f b"
  shows "length l \<le> 1"
proof (cases l)
  case (Cons a m)
  show ?thesis
  proof (cases m)
    case (Cons b k)
    then show ?thesis using assms(1) assms(2) [of a b] \<open>l = a # m\<close> by simp
  qed (use Cons in simp)
qed simp

lemma password_version_later:
  assumes "accounts_ok s" and "repo_UpdateUserPassword i v h s = Inr ((), s1)" and "account_step\<^sup>*\<^sup>* s1 s2"
    and "find_row usr_ID i (tb_users s2) = Some x"
  shows "v < usr_AuthVersion x"
proof -
  note ok = assms(1)
  from assms(2) obtain u where u: "find_row usr_ID i (tb_users s) = Some u" "usr_AuthVersion u = v"
    and s1: "s1 = s\<lparr>tb_users := upd_row usr_ID i (\<lambda>u. u\<lparr>usr_PasswordHash := h,
      usr_AuthVersion := usr_AuthVersion u + 1, usr_UpdatedAt := tb_current_timestamp s\<rparr>) (tb_users s)\<rparr>"
    by (rule repo_UpdateUserPassword_elim) blast
  have d: "distinct (map usr_ID (tb_users s))" and le: "i \<le> tb_sequences s ''users''"
    using ok find_row_in [OF u(1)] find_row_key [OF u(1)] by (auto simp: accounts_ok_def users_ok_def drawn_def pk_def)
  have new: "usr_AuthVersion x = v + 1" if "x \<in> set (tb_users s1)" "usr_ID x = i" for x
  proof -
    have "x \<in> (\<lambda>r. if usr_ID r = i then r\<lparr>usr_PasswordHash := h, usr_AuthVersion := usr_AuthVersion r + 1,
        usr_UpdatedAt := tb_current_timestamp s\<rparr> else r) ` set (tb_users s)"
      using that(1) unfolding s1 by (simp add: set_upd_row)
    then obtain y where y0: "y \<in> set (tb_users s)" "x = (if usr_ID y = i then y\<lparr>usr_PasswordHash := h,
        usr_AuthVersion := usr_AuthVersion y + 1, usr_UpdatedAt := tb_current_timestamp s\<rparr> else y)" by blast
    have y: "y \<in> set (tb_users s)" "usr_ID y = i" "usr_AuthVersion x = usr_AuthVersion y + 1"
      using y0 that(2) by (cases "usr_ID y = i"; simp)+
    then have "y = u" using find_row_mem [OF d y(1)] u(1) by simp
    then show ?thesis using y(3) u(2) by simp
  qed
  show "v < usr_AuthVersion x"
  proof -
    have "x \<in> set (tb_users s2)" "usr_ID x = i" using find_row_in [OF assms(4)] find_row_key [OF assms(4)] .
    moreover have "usr_ID x \<le> tb_sequences s1 ''users''" using \<open>usr_ID x = i\<close> le unfolding s1 by simp
    ultimately obtain y where y: "y \<in> set (tb_users s1)" "usr_ID y = i" "usr_AuthVersion y \<le> usr_AuthVersion x"
      using versions_growD [OF versions_grow_run [OF assms(3)]] by metis
    then show ?thesis using new [OF y(1,2)] by linarith
  qed
qed

section \<open>Properties\<close>

text \<open>
  In every state the account operations reach, a user has at most one default address,
  whatever mixture of creations, updates, switches and deletions led there.
\<close>

theorem default_address_is_unique:
  assumes "reachable accounts_init account_step s"
  shows "length (filter (\<lambda>a. adr_UserID a = uid \<and> adr_IsDefault a) (tb_addresses s)) \<le> 1"
proof -
  let ?l = "filter (\<lambda>a. adr_UserID a = uid \<and> adr_IsDefault a) (tb_addresses s)"
  have ok: "accounts_ok s" by (rule accounts.inv_reachable [OF assms])
  have "adr_ID a = adr_ID b" if "a \<in> set ?l" "b \<in> set ?l" for a b
    using that one_defaultD [OF accounts_ok_one_default [OF ok], of a b] by simp
  moreover have "distinct (map adr_ID ?l)"
    using accounts_ok_distinct [OF ok] by (simp add: distinct_map_filter)
  ultimately show ?thesis by (rule distinct_short [rotated])
qed

text \<open>
  Choosing a default address is one transaction with exactly this outcome: an unknown user
  is \<open>ErrNoRows\<close>, an address that is missing or another user's is reported as not found, and
  otherwise the chosen address is the only default of the user while the addresses of everybody
  else, and every other column, stay as they were. A refused switch keeps the old default.
\<close>

theorem set_default_switches_default:
  assumes "reachable accounts_init account_step s"
  shows "InTx (repo_SetDefaultShippingAddress i uid) s =
    (if find_row usr_ID uid (tb_users s) = None then (Inl ErrNoRows, s)
     else case find_row adr_ID i (tb_addresses s) of
       None \<Rightarrow> (Inl address_not_found, s)
     | Some r \<Rightarrow> if adr_UserID r \<noteq> uid then (Inl address_not_found, s)
         else (Inr (), put_addresses (map (\<lambda>a. if adr_UserID a = uid
           then a\<lparr>adr_IsDefault := (adr_ID a = i), adr_UpdatedAt := tb_current_timestamp s\<rparr> else a) (tb_addresses s)) s))"
  using set_default_run [OF accounts_ok_distinct [OF accounts.inv_reachable [OF assms]], of i uid]
  by (auto simp: InTx_def choose_default_def split: option.splits)

text \<open>
  A credential version pays for one password change only: once a change that verified the
  password of version \<open>v\<close> has committed, every later change that was verified against the same
  version is refused, whatever happens to the account in between (also when it is deleted and
  other accounts are created).
\<close>

theorem credential_version_is_used_once:
  assumes "reachable accounts_init account_step s"
    and "InTx (repo_UpdateUserPassword i v h) s = (Inr (), s1)" and "account_step\<^sup>*\<^sup>* s1 s2"
  shows "InTx (repo_UpdateUserPassword i v h') s2 = (Inl (Conflict ''CREDENTIAL_VERSION_CONFLICT''), s2)"
proof -
  have ok: "accounts_ok s" by (rule accounts.inv_reachable [OF assms(1)])
  from assms(2) have "repo_UpdateUserPassword i v h s = Inr ((), s1)" by (simp add: InTx_Inr)
  note later = password_version_later [OF ok this assms(3)]
  have "q_UpdateUserPassword i h' v s2 = Inr (0, s2)"
    using later by (fastforce simp: q_UpdateUserPassword_def sql_exec_def split: option.splits)
  then show ?thesis by (simp add: repo_UpdateUserPassword_def InTx_def tx_bind_def tx_throw_def)
qed

end
