(* ===== verification/Sessions.thy ===== *)
theory Sessions
  imports Accounts Checkout Gateway
begin

text \<open>
  Login, sessions and tokens (app/mall/internal/biz/auth.go, biz/user.go, data/auth.go,
  data/login\_limit.go). Sessions live in Redis: a hash per session with its owner and state,
  one flag per consumed refresh token, one number per account for the login budget. The Lua
  scripts run atomically, so each is a function on the store. Signing and parsing tokens is
  the JWT package's, a parameter.

  The world of a program is the database together with the \<open>auth_store\<close>: Redis, its clock and
  the stream of random bytes \<^verbatim>\<open>crypto/rand\<close> reads.
\<close>

section \<open>Redis\<close>

text \<open>The keys \<open>redisKey\<close> builds, by their parts; \<open>redis_key_string\<close> is the text.\<close>

datatype redis_key =
    SessionKey string
  | UsedKey string string
  | LoginKey string

fun redis_key_string :: "redis_key \<Rightarrow> string" where
  "redis_key_string (SessionKey i) = ''auth:session:{'' @ i @ ''}''"
| "redis_key_string (UsedKey i tok) = ''auth:session:{'' @ i @ ''}'' @ '':used:'' @ tok"
| "redis_key_string (LoginKey h) = ''auth:login:budget:'' @ h"

datatype redis_value =
    SessionHash string string
  | UsedFlag
  | Budget int

text \<open>\<open>rd_data\<close> holds a value with the millisecond it expires at (\<^verbatim>\<open>PX\<close>, \<^verbatim>\<open>PEXPIRE\<close>); the
  clock counts nanoseconds. \<open>rd_down\<close>: the server cannot be reached.\<close>

record auth_store =
  rd_data :: "redis_key \<Rightarrow> (redis_value \<times> int) option"
  rd_clock :: int
  rd_down :: bool
  as_rand :: "nat \<Rightarrow> char"
  as_pos :: nat

definition rd_ms :: "auth_store \<Rightarrow> int" where
  "rd_ms R = rd_clock R div 10 ^ 6"

text \<open>A key is gone once the clock is past its expiry.\<close>

definition rd_get :: "redis_key \<Rightarrow> auth_store \<Rightarrow> (redis_value \<times> int) option" where
  "rd_get k R = (case rd_data R k of
     None \<Rightarrow> None
   | Some (v, e) \<Rightarrow> if rd_ms R > e then None else Some (v, e))"

definition rd_set :: "redis_key \<Rightarrow> redis_value \<Rightarrow> int \<Rightarrow> auth_store \<Rightarrow> auth_store" where
  "rd_set k v e R = R\<lparr>rd_data := (rd_data R)(k := Some (v, e))\<rparr>"

type_synonym auth_world = "auth_store world"

abbreviation redis_unreachable :: error where
  "redis_unreachable \<equiv> Errorf ''redis''"

definition on_redis :: "(auth_store \<Rightarrow> 'a \<times> auth_store) \<Rightarrow> (auth_world, 'a) prog" where
  "on_redis f = (\<lambda>w. if rd_down (w_provider w) then (Inl redis_unreachable, w)
     else (case f (w_provider w) of (x, R') \<Rightarrow> (Inr x, w\<lparr>w_provider := R'\<rparr>)))"

text \<open>\<open>rand.Read\<close> of \<open>n\<close> bytes.\<close>

definition rand_Read :: "nat \<Rightarrow> (auth_world, string) prog" where
  "rand_Read n = (\<lambda>w. let R = w_provider w in
     (Inr (map (as_rand R) [as_pos R ..< as_pos R + n]), w\<lparr>w_provider := R\<lparr>as_pos := as_pos R + n\<rparr>\<rparr>))"

definition generateTokenID :: "(auth_world, string) prog" where
  "generateTokenID = prog_bind (rand_Read 16) (\<lambda>b. prog_return (hex_EncodeToString b))"

section \<open>The session store\<close>

text \<open>\<open>time.Duration.Milliseconds()\<close>\<close>

definition Milliseconds :: "int \<Rightarrow> int" where
  "Milliseconds d = go_div d (10 ^ 6)"

definition createSessionScript :: "string \<Rightarrow> string \<Rightarrow> int \<Rightarrow> auth_store \<Rightarrow> int \<times> auth_store" where
  "createSessionScript i owner ttl R =
     (if rd_get (SessionKey i) R \<noteq> None then (0, R)
      else (1, rd_set (SessionKey i) (SessionHash owner ''active'') (rd_ms R + ttl) R))"

definition CreateSession :: "string \<Rightarrow> int \<Rightarrow> int \<Rightarrow> (auth_world, unit) prog" where
  "CreateSession i userID expiration =
     (if i = '''' \<or> userID \<le> 0 \<or> Milliseconds expiration \<le> 0 then prog_throw (Errorf ''invalid session'')
      else prog_bind (on_redis (createSessionScript i (FormatInt userID) (Milliseconds expiration))) (\<lambda>n.
        if n \<noteq> 1 then prog_throw (Errorf ''session already exists'') else prog_return ()))"

definition session_active :: "string \<Rightarrow> string \<Rightarrow> auth_store \<Rightarrow> bool" where
  "session_active i owner R = (case rd_get (SessionKey i) R of
     Some (SessionHash o' st, _) \<Rightarrow> o' = owner \<and> st = ''active'' | _ \<Rightarrow> False)"

definition SessionActive :: "string \<Rightarrow> int \<Rightarrow> (auth_world, bool) prog" where
  "SessionActive i userID = on_redis (\<lambda>R. (session_active i (FormatInt userID) R, R))"

definition consumeSessionRefreshScript ::
    "string \<Rightarrow> string \<Rightarrow> string \<Rightarrow> int \<Rightarrow> auth_store \<Rightarrow> int \<times> auth_store" where
  "consumeSessionRefreshScript i tok owner expiration R =
     (if \<not> session_active i owner R then (0, R)
      else (case rd_get (SessionKey i) R of
          None \<Rightarrow> (0, R)
        | Some (_, e) \<Rightarrow>
            (let ttl = e - rd_ms R in
             if ttl \<le> 0 then (0, R)
             else if rd_get (UsedKey i tok) R \<noteq> None then (0, R)
             else (1, rd_set (UsedKey i tok) UsedFlag (rd_ms R + min ttl expiration) R))))"

definition ConsumeSessionRefresh :: "string \<Rightarrow> int \<Rightarrow> string \<Rightarrow> int \<Rightarrow> (auth_world, bool) prog" where
  "ConsumeSessionRefresh i userID tokenID expiration =
     (if i = '''' \<or> userID \<le> 0 \<or> tokenID = '''' \<or> Milliseconds expiration \<le> 0 then prog_return False
      else prog_bind (on_redis (consumeSessionRefreshScript i tokenID (FormatInt userID) (Milliseconds expiration)))
        (\<lambda>n. prog_return (n = 1)))"

definition revokeSessionScript :: "string \<Rightarrow> string \<Rightarrow> auth_store \<Rightarrow> int \<times> auth_store" where
  "revokeSessionScript i owner R = (case rd_get (SessionKey i) R of
     Some (SessionHash o' st, e) \<Rightarrow>
       if o' \<noteq> owner then (0, R) else (1, rd_set (SessionKey i) (SessionHash o' ''revoked'') e R)
   | _ \<Rightarrow> (1, R))"

definition RevokeSession :: "string \<Rightarrow> int \<Rightarrow> (auth_world, bool) prog" where
  "RevokeSession i userID = (if i = '''' \<or> userID \<le> 0 then prog_return False
     else prog_bind (on_redis (revokeSessionScript i (FormatInt userID))) (\<lambda>n. prog_return (n = 1)))"

section \<open>The login budget\<close>

definition reserveLoginAttemptScript :: "string \<Rightarrow> int \<Rightarrow> int \<Rightarrow> auth_store \<Rightarrow> int \<times> auth_store" where
  "reserveLoginAttemptScript h interval burst R =
     (let now = rd_ms R;
          ready = max now (case rd_get (LoginKey h) R of Some (Budget b, _) \<Rightarrow> b | _ \<Rightarrow> now);
          wait = ready - (burst - 1) * interval - now in
      if wait > 0 then (wait, R)
      else (0, rd_set (LoginKey h) (Budget (ready + interval)) (now + (ready + interval - now)) R))"

definition ReserveLoginAttempt :: "string \<Rightarrow> int \<Rightarrow> int \<Rightarrow> (auth_world, int) prog" where
  "ReserveLoginAttempt phoneHash burst interval =
     (if phoneHash = '''' \<or> burst < 1 \<or> burst > 100 \<or> interval < 10 ^ 9 \<or> interval > 60 * 10 ^ 9
      then prog_throw (Errorf ''invalid account login quota'')
      else prog_bind (on_redis (reserveLoginAttemptScript phoneHash (Milliseconds interval) burst)) (\<lambda>wait.
        prog_return (wait * 10 ^ 6)))"

section \<open>Configuration\<close>

record auth_conf =
  ac_AccessTokenSecret :: string
  ac_AccessTokenTimeout :: int
  ac_RefreshTokenSecret :: string
  ac_RefreshTokenTimeout :: int
  ac_PhoneSecret :: string
  ac_LoginAccountBurst :: int
  ac_LoginAccountInterval :: int

text \<open>The defaults of \<open>NewUserUsecase\<close>: five attempts, one more every thirty seconds.\<close>

definition loginAccountBurst :: "auth_conf \<Rightarrow> int" where
  "loginAccountBurst ac = (if ac_LoginAccountBurst ac > 0 then ac_LoginAccountBurst ac else 5)"

definition loginAccountInterval :: "auth_conf \<Rightarrow> int" where
  "loginAccountInterval ac = (if ac_LoginAccountInterval ac > 0 then ac_LoginAccountInterval ac else 30 * 10 ^ 9)"

section \<open>Accounts\<close>

definition is_digit_in :: "nat \<Rightarrow> nat \<Rightarrow> char \<Rightarrow> bool" where
  "is_digit_in lo hi c \<longleftrightarrow> lo \<le> (of_char c :: nat) \<and> (of_char c :: nat) \<le> hi"

text \<open>The regular expression \<^verbatim>\<open>^1[3-9]\d{9}$\<close>.\<close>

definition IsValidCNMobile :: "string \<Rightarrow> bool" where
  "IsValidCNMobile phone \<longleftrightarrow> (case phone of
     a # b # r \<Rightarrow> a = CHR ''1'' \<and> is_digit_in 51 57 b \<and> length r = 9 \<and> list_all (is_digit_in 48 57) r
   | _ \<Rightarrow> False)"

definition generateDefaultNickname :: "string \<Rightarrow> (auth_world, string) prog" where
  "generateDefaultNickname seed = (if length seed \<ge> 8 then prog_return (''u'' @ take 8 seed)
     else prog_bind (rand_Read 4) (\<lambda>b. prog_return (''u'' @ hex_EncodeToString b)))"

abbreviation invalid_password :: error where
  "invalid_password \<equiv> BadRequest ''INVALID_PASSWORD''"

abbreviation invalid_credentials :: error where
  "invalid_credentials \<equiv> Unauthorized ''INVALID_CREDENTIALS''"

definition bad_password :: "string \<Rightarrow> bool" where
  "bad_password p \<longleftrightarrow> length p < 8 \<or> length p > 72"

definition uc_Register :: "crypto_lib \<Rightarrow> auth_conf \<Rightarrow> string \<Rightarrow> string \<Rightarrow> (auth_world, user) prog" where
  "uc_Register C ac phone password =
     (if bad_password password then prog_throw invalid_password
      else if \<not> IsValidCNMobile phone then prog_throw (BadRequest ''INVALID_PHONE'')
      else let phoneHash = HashPhone C phone (ac_PhoneSecret ac) in
        prog_bind (prog_lift (HashPassword C password)) (\<lambda>passwordHash.
        prog_bind (transact (repo_GetUserByPhoneHash phoneHash)) (\<lambda>existing.
        if existing \<noteq> None then prog_throw (Conflict ''USER_ALREADY_EXISTS'')
        else prog_bind (rand_Read (cl_NonceSize C)) (\<lambda>nonce.
          prog_bind (prog_lift (EncryptPhone C nonce phone (ac_PhoneSecret ac))) (\<lambda>phoneEncrypt.
          prog_bind (generateDefaultNickname phoneHash) (\<lambda>nickname.
          prog_bind (if nickname = '''' then rand_Read 4 else prog_return '''') (\<lambda>rnd.
          transact (repo_CreateUser rnd nickname phoneHash phoneEncrypt passwordHash))))))))"

text \<open>The comparison with the dummy hash on the unknown-phone path only burns time.\<close>

definition uc_Login :: "crypto_lib \<Rightarrow> auth_conf \<Rightarrow> string \<Rightarrow> string \<Rightarrow> (auth_world, user) prog" where
  "uc_Login C ac phone password =
     (if bad_password password then prog_throw invalid_password
      else if \<not> IsValidCNMobile phone then prog_throw (BadRequest ''INVALID_PHONE'')
      else let phoneHash = HashPhone C phone (ac_PhoneSecret ac) in
        prog_try (ReserveLoginAttempt phoneHash (loginAccountBurst ac) (loginAccountInterval ac)) (\<lambda>r.
          case r of
            Inl e \<Rightarrow> prog_throw (ServiceUnavailable ''AUTH_STORE_UNAVAILABLE'')
          | Inr wait \<Rightarrow>
              if wait > 0 then prog_throw (ErrUserLoginLocked (go_div (wait + 10 ^ 9 - 1) (10 ^ 9)))
              else prog_bind (transact (repo_GetUserByPhoneHash phoneHash)) (\<lambda>u.
                case u of
                  None \<Rightarrow> prog_throw invalid_credentials
                | Some u \<Rightarrow> (case ComparePassword C (usr_PasswordHash u) password of
                    Inl e \<Rightarrow> prog_throw invalid_credentials
                  | Inr _ \<Rightarrow> prog_return u))))"

definition uc_ChangePassword :: "crypto_lib \<Rightarrow> int \<Rightarrow> string \<Rightarrow> string \<Rightarrow> (auth_world, unit) prog" where
  "uc_ChangePassword C i oldPassword newPassword =
     (if i \<le> 0 then prog_throw (Unauthorized ''UNAUTHORIZED'')
      else if bad_password newPassword then prog_throw invalid_password
      else if newPassword = oldPassword then prog_throw invalid_password
      else prog_bind (transact (repo_GetAuthUser i)) (\<lambda>u.
        case u of
          None \<Rightarrow> prog_throw (Unauthorized ''UNAUTHORIZED'')
        | Some u \<Rightarrow> (case ComparePassword C (usr_PasswordHash u) oldPassword of
            Inl e \<Rightarrow> prog_throw invalid_credentials
          | Inr _ \<Rightarrow> prog_bind (prog_lift (HashPassword C newPassword)) (\<lambda>passwordHash.
              transact (repo_UpdateUserPassword i (usr_AuthVersion u) passwordHash)))))"

section \<open>The address book\<close>

record AddressInput =
  ain_ReceiverName :: string
  ain_ReceiverPhone :: string
  ain_Province :: string
  ain_City :: string
  ain_District :: string
  ain_DetailAddress :: string
  ain_AddressTag :: string

definition address_params :: "AddressInput \<Rightarrow> string \<Rightarrow> string \<Rightarrow> AddressParams" where
  "address_params a phoneHash phoneEncrypt = \<lparr>adp_ReceiverName = ain_ReceiverName a,
     adp_ReceiverPhoneHash = phoneHash, adp_ReceiverPhoneEncrypt = phoneEncrypt, adp_Province = ain_Province a,
     adp_City = ain_City a, adp_District = ain_District a, adp_DetailAddress = ain_DetailAddress a,
     adp_AddressTag = text_of (ain_AddressTag a)\<rparr>"

definition decryptPhone :: "crypto_lib \<Rightarrow> auth_conf \<Rightarrow> ShippingAddress \<Rightarrow> ShippingAddress" where
  "decryptPhone C ac sa = (if bsa_ReceiverPhoneEncrypt sa = '''' then sa
     else (case DecryptPhone C (bsa_ReceiverPhoneEncrypt sa) (ac_PhoneSecret ac) of
       Inl e \<Rightarrow> sa | Inr phone \<Rightarrow> sa\<lparr>bsa_ReceiverPhone := phone\<rparr>))"

definition uc_CreateShippingAddress ::
    "crypto_lib \<Rightarrow> auth_conf \<Rightarrow> int \<Rightarrow> AddressInput \<Rightarrow> bool \<Rightarrow> (auth_world, ShippingAddress) prog" where
  "uc_CreateShippingAddress C ac userID a isDefault =
     (let phoneHash = HashPhone C (ain_ReceiverPhone a) (ac_PhoneSecret ac) in
      prog_bind (rand_Read (cl_NonceSize C)) (\<lambda>nonce.
      prog_bind (prog_lift (EncryptPhone C nonce (ain_ReceiverPhone a) (ac_PhoneSecret ac))) (\<lambda>phoneEncrypt.
      prog_bind (transact (repo_CreateShippingAddress userID (address_params a phoneHash phoneEncrypt) isDefault)) (\<lambda>sa.
      prog_return (sa\<lparr>bsa_ReceiverPhone := ain_ReceiverPhone a\<rparr>)))))"

definition uc_UpdateShippingAddress ::
    "crypto_lib \<Rightarrow> auth_conf \<Rightarrow> int \<Rightarrow> int \<Rightarrow> AddressInput \<Rightarrow> (auth_world, ShippingAddress) prog" where
  "uc_UpdateShippingAddress C ac i userID a =
     (let phoneHash = HashPhone C (ain_ReceiverPhone a) (ac_PhoneSecret ac) in
      prog_bind (rand_Read (cl_NonceSize C)) (\<lambda>nonce.
      prog_bind (prog_lift (EncryptPhone C nonce (ain_ReceiverPhone a) (ac_PhoneSecret ac))) (\<lambda>phoneEncrypt.
      prog_bind (transact (repo_UpdateShippingAddress i userID (address_params a phoneHash phoneEncrypt))) (\<lambda>sa.
      prog_return (sa\<lparr>bsa_ReceiverPhone := ain_ReceiverPhone a\<rparr>)))))"

definition uc_GetShippingAddress :: "crypto_lib \<Rightarrow> auth_conf \<Rightarrow> int \<Rightarrow> int \<Rightarrow> (auth_world, ShippingAddress) prog" where
  "uc_GetShippingAddress C ac i userID =
     prog_bind (transact (repo_GetShippingAddress i userID)) (\<lambda>sa. prog_return (decryptPhone C ac sa))"

definition uc_ListShippingAddressesByUser ::
    "crypto_lib \<Rightarrow> auth_conf \<Rightarrow> int \<Rightarrow> int \<Rightarrow> int \<Rightarrow> (auth_world, ShippingAddress list) prog" where
  "uc_ListShippingAddressesByUser C ac userID page pageSize =
     prog_bind (prog_lift (NewPage page pageSize)) (\<lambda>p.
     prog_bind (transact (repo_ListShippingAddressesByUser userID (pg_Limit p) (pg_Offset p))) (\<lambda>sas.
     prog_return (map (decryptPhone C ac) sas)))"

section \<open>Tokens\<close>

record EcommerceClaims =
  clm_UserID :: int
  clm_Role :: string
  clm_AuthVersion :: int
  clm_SessionID :: string
  clm_TokenKind :: string
  clm_ID :: string
  clm_IssuedAt :: int
  clm_ExpiresAt :: int

text \<open>
  The JWT package: \<open>jw_SignedString\<close> signs the claims with HS256 under a secret,
  \<open>jw_ParseWithClaims\<close> verifies a token at a time under a secret, with
  \<open>WithValidMethods(HS256)\<close> and \<open>WithExpirationRequired\<close>.
\<close>

record jwt_lib =
  jw_SignedString :: "EcommerceClaims \<Rightarrow> string \<Rightarrow> error + string"
  jw_ParseWithClaims :: "int \<Rightarrow> string \<Rightarrow> string \<Rightarrow> error + EcommerceClaims"

record TokenPair =
  tp_AccessToken :: string
  tp_RefreshToken :: string

text \<open>\<open>Truncate(time.Second)\<close>, also what \<open>NewNumericDate\<close> does.\<close>

definition trunc_second :: "int \<Rightarrow> int" where
  "trunc_second t = t - t mod 10 ^ 9"

definition parseToken :: "jwt_lib \<Rightarrow> string \<Rightarrow> string \<Rightarrow> string \<Rightarrow> (auth_world, EcommerceClaims) prog" where
  "parseToken J tokenStr secret kind = prog_bind time_Now (\<lambda>now.
     prog_bind (prog_lift (jw_ParseWithClaims J now secret tokenStr)) (\<lambda>claims.
     if clm_TokenKind claims \<noteq> kind \<or> clm_UserID claims \<le> 0 \<or> clm_AuthVersion claims \<le> 0 \<or>
        clm_SessionID claims = '''' \<or> clm_ID claims = ''''
     then prog_throw (Errorf ''invalid token claims'') else prog_return claims))"

definition ParseAccessToken :: "jwt_lib \<Rightarrow> auth_conf \<Rightarrow> string \<Rightarrow> (auth_world, EcommerceClaims) prog" where
  "ParseAccessToken J ac tokenStr = parseToken J tokenStr (ac_AccessTokenSecret ac) ''access''"

definition ParseRefreshToken :: "jwt_lib \<Rightarrow> auth_conf \<Rightarrow> string \<Rightarrow> (auth_world, EcommerceClaims) prog" where
  "ParseRefreshToken J ac tokenStr = parseToken J tokenStr (ac_RefreshTokenSecret ac) ''refresh''"

definition sign_token ::
    "jwt_lib \<Rightarrow> int \<Rightarrow> string \<Rightarrow> int \<Rightarrow> string \<Rightarrow> int \<Rightarrow> string \<Rightarrow> string \<Rightarrow> int \<Rightarrow> (auth_world, string) prog" where
  "sign_token J userID role version sessionID now kind secret expires =
     prog_bind generateTokenID (\<lambda>tid.
     prog_lift (jw_SignedString J \<lparr>clm_UserID = userID, clm_Role = role, clm_AuthVersion = version,
       clm_SessionID = sessionID, clm_TokenKind = kind, clm_ID = tid, clm_IssuedAt = trunc_second now,
       clm_ExpiresAt = trunc_second expires\<rparr> secret))"

definition signPair ::
    "jwt_lib \<Rightarrow> auth_conf \<Rightarrow> int \<Rightarrow> string \<Rightarrow> int \<Rightarrow> string \<Rightarrow> int \<Rightarrow> int \<Rightarrow> (auth_world, TokenPair) prog" where
  "signPair J ac userID role version sessionID now deadline =
     (let accessDeadline = (if deadline < now + ac_AccessTokenTimeout ac then deadline else now + ac_AccessTokenTimeout ac) in
      prog_bind (sign_token J userID role version sessionID now ''access'' (ac_AccessTokenSecret ac) accessDeadline) (\<lambda>access.
      prog_bind (sign_token J userID role version sessionID now ''refresh'' (ac_RefreshTokenSecret ac) deadline) (\<lambda>refresh.
      prog_return \<lparr>tp_AccessToken = access, tp_RefreshToken = refresh\<rparr>)))"

section \<open>Sessions\<close>

abbreviation unauthorized :: error where
  "unauthorized \<equiv> Unauthorized ''UNAUTHORIZED''"

abbreviation token_expired :: error where
  "token_expired \<equiv> Unauthorized ''TOKEN_EXPIRED''"

text \<open>The claims with the role of the account, which the code writes into them.\<close>

definition ValidateAccount :: "EcommerceClaims option \<Rightarrow> (auth_world, EcommerceClaims) prog" where
  "ValidateAccount c = (case c of
     None \<Rightarrow> prog_throw unauthorized
   | Some claims \<Rightarrow>
       if clm_UserID claims \<le> 0 \<or> clm_AuthVersion claims \<le> 0 then prog_throw unauthorized
       else prog_bind (transact (repo_GetAuthUser (clm_UserID claims))) (\<lambda>u.
         case u of
           None \<Rightarrow> prog_throw unauthorized
         | Some u \<Rightarrow> if clm_AuthVersion claims \<noteq> usr_AuthVersion u then prog_throw unauthorized
             else prog_return (claims\<lparr>clm_Role := usr_Role u\<rparr>)))"

definition ValidateSession :: "EcommerceClaims option \<Rightarrow> (auth_world, unit) prog" where
  "ValidateSession c = (case c of
     None \<Rightarrow> prog_throw unauthorized
   | Some claims \<Rightarrow>
       if clm_SessionID claims = '''' \<or> clm_ID claims = '''' \<or> clm_UserID claims \<le> 0 \<or> clm_TokenKind claims \<noteq> ''access''
       then prog_throw unauthorized
       else prog_try (SessionActive (clm_SessionID claims) (clm_UserID claims)) (\<lambda>r.
         case r of
           Inl e \<Rightarrow> prog_throw (ServiceUnavailable ''AUTH_STORE_UNAVAILABLE'')
         | Inr active \<Rightarrow> if \<not> active then prog_throw token_expired else prog_return ()))"

text \<open>\<open>time.Until(t)\<close>\<close>

definition until :: "int \<Rightarrow> (auth_world, int) prog" where
  "until t = prog_bind time_Now (\<lambda>now. prog_return (t - now))"

definition StartSession :: "jwt_lib \<Rightarrow> auth_conf \<Rightarrow> user option \<Rightarrow> (auth_world, TokenPair) prog" where
  "StartSession J ac verifiedUser = (case verifiedUser of
     None \<Rightarrow> prog_throw unauthorized
   | Some u \<Rightarrow>
       if usr_ID u \<le> 0 \<or> usr_AuthVersion u \<le> 0 then prog_throw unauthorized
       else prog_bind time_Now (\<lambda>now.
         let lifetime = max (ac_RefreshTokenTimeout ac) (ac_AccessTokenTimeout ac) in
         if lifetime \<le> 0 \<or> ac_AccessTokenTimeout ac \<le> 0 \<or> ac_RefreshTokenTimeout ac \<le> 0
         then prog_throw (Errorf ''invalid token timeouts'')
         else prog_bind generateTokenID (\<lambda>sessionID.
           let deadline = trunc_second (now + lifetime) in
           prog_bind (signPair J ac (usr_ID u) (usr_Role u) (usr_AuthVersion u) sessionID now deadline) (\<lambda>pair.
           prog_bind (until deadline) (\<lambda>ttl.
           prog_try (CreateSession sessionID (usr_ID u) ttl) (\<lambda>r.
             case r of
               Inl e \<Rightarrow> prog_throw (ServiceUnavailable ''AUTH_STORE_UNAVAILABLE'')
             | Inr _ \<Rightarrow> prog_return pair))))))"

definition RefreshSession :: "jwt_lib \<Rightarrow> auth_conf \<Rightarrow> string \<Rightarrow> (auth_world, TokenPair) prog" where
  "RefreshSession J ac refreshToken = prog_try (ParseRefreshToken J ac refreshToken) (\<lambda>r.
     case r of
       Inl e \<Rightarrow> prog_throw token_expired
     | Inr claims0 \<Rightarrow>
         prog_bind (ValidateAccount (Some claims0)) (\<lambda>claims.
         prog_bind (until (clm_ExpiresAt claims)) (\<lambda>ttl.
         prog_try (ConsumeSessionRefresh (clm_SessionID claims) (clm_UserID claims) (clm_ID claims) ttl) (\<lambda>r.
           case r of
             Inl e \<Rightarrow> prog_throw (ServiceUnavailable ''AUTH_STORE_UNAVAILABLE'')
           | Inr ok \<Rightarrow>
               if \<not> ok then prog_throw token_expired
               else prog_bind time_Now (\<lambda>now.
                 signPair J ac (clm_UserID claims) (clm_Role claims) (clm_AuthVersion claims)
                   (clm_SessionID claims) now (clm_ExpiresAt claims))))))"

definition Logout :: "jwt_lib \<Rightarrow> auth_conf \<Rightarrow> EcommerceClaims option \<Rightarrow> string \<Rightarrow> (auth_world, unit) prog" where
  "Logout J ac c refreshToken = (case c of
     None \<Rightarrow> prog_throw unauthorized
   | Some claims \<Rightarrow>
       if clm_SessionID claims = '''' \<or> clm_UserID claims \<le> 0 \<or> clm_ID claims = '''' \<or> clm_TokenKind claims \<noteq> ''access''
       then prog_throw unauthorized
       else prog_bind (if refreshToken = '''' then prog_return False
           else prog_try (ParseRefreshToken J ac refreshToken) (\<lambda>r. case r of
               Inl e \<Rightarrow> prog_return False
             | Inr refresh \<Rightarrow> prog_return
                 (clm_UserID refresh \<noteq> clm_UserID claims \<or> clm_SessionID refresh \<noteq> clm_SessionID claims)))
         (\<lambda>foreign.
           if foreign then prog_throw unauthorized
           else prog_try (RevokeSession (clm_SessionID claims) (clm_UserID claims)) (\<lambda>r.
             case r of
               Inl e \<Rightarrow> prog_throw (ServiceUnavailable ''LOGOUT_UNAVAILABLE'')
             | Inr ok \<Rightarrow> if \<not> ok then prog_throw unauthorized else prog_return ())))"

section \<open>The gate in front of the handlers\<close>

text \<open>
  \<open>CheckBlacklist\<close> (app/mall/internal/server/middleware/blacklist.go): the claims the JWT
  middleware verified are checked against the account and, except for a logout, against the
  session, before the handler runs. The handler sees the claims with the current role.
\<close>

definition CheckBlacklist ::
    "EcommerceClaims option \<Rightarrow> bool \<Rightarrow> (EcommerceClaims \<Rightarrow> (auth_world, 'a) prog) \<Rightarrow> (auth_world, 'a) prog" where
  "CheckBlacklist c isLogout handler = (case c of
     None \<Rightarrow> prog_throw unauthorized
   | Some ec \<Rightarrow> prog_try (ValidateAccount (Some ec)) (\<lambda>r.
       case r of
         Inl e \<Rightarrow> prog_throw unauthorized
       | Inr ec' \<Rightarrow> if isLogout then handler ec'
           else prog_bind (ValidateSession (Some ec')) (\<lambda>_. handler ec')))"

definition authenticatedClaims :: "EcommerceClaims option \<Rightarrow> error + EcommerceClaims" where
  "authenticatedClaims c = (case c of
     None \<Rightarrow> Inl unauthorized
   | Some claims \<Rightarrow> if clm_UserID claims \<le> 0 then Inl unauthorized else Inr claims)"

definition requireResourceOwner :: "EcommerceClaims \<Rightarrow> int \<Rightarrow> error + unit" where
  "requireResourceOwner claims requestedUserID =
     (if requestedUserID \<noteq> 0 \<and> requestedUserID \<noteq> clm_UserID claims then Inl (Forbidden ''FORBIDDEN'') else Inr ())"

definition requireAdmin :: "EcommerceClaims option \<Rightarrow> error + EcommerceClaims" where
  "requireAdmin c = (case authenticatedClaims c of
     Inl e \<Rightarrow> Inl e
   | Inr claims \<Rightarrow> if clm_Role claims \<noteq> ''admin'' then Inl (Forbidden ''FORBIDDEN'') else Inr claims)"

text \<open>A handler on the caller's own resource: both checks, then the use case under the id of
  the claims.\<close>

definition own_resource ::
    "EcommerceClaims option \<Rightarrow> int \<Rightarrow> (int \<Rightarrow> (auth_world, 'a) prog) \<Rightarrow> (auth_world, 'a) prog" where
  "own_resource c requestedID body =
     prog_bind (prog_lift (authenticatedClaims c)) (\<lambda>claims.
     prog_bind (prog_lift (requireResourceOwner claims requestedID)) (\<lambda>_. body (clm_UserID claims)))"

definition svc_Register :: "crypto_lib \<Rightarrow> auth_conf \<Rightarrow> string \<Rightarrow> string \<Rightarrow> (auth_world, int) prog" where
  "svc_Register C ac phone password = prog_bind (uc_Register C ac phone password) (\<lambda>u. prog_return (usr_ID u))"

definition svc_Login :: "crypto_lib \<Rightarrow> jwt_lib \<Rightarrow> auth_conf \<Rightarrow> string \<Rightarrow> string \<Rightarrow> (auth_world, int \<times> TokenPair) prog" where
  "svc_Login C J ac phone password =
     prog_bind (uc_Login C ac phone password) (\<lambda>u.
     prog_bind (StartSession J ac (Some u)) (\<lambda>pair. prog_return (usr_ID u, pair)))"

definition svc_GetUser :: "EcommerceClaims option \<Rightarrow> int \<Rightarrow> (auth_world, UserProfile) prog" where
  "svc_GetUser c reqID = own_resource c reqID (\<lambda>uid.
     prog_bind (transact (repo_GetUserByID uid)) (\<lambda>u.
       case u of None \<Rightarrow> prog_throw (NotFound ''USER_NOT_FOUND'') | Some p \<Rightarrow> prog_return p))"

definition svc_UpdateUser :: "EcommerceClaims option \<Rightarrow> int \<Rightarrow> string \<Rightarrow> string \<Rightarrow> (auth_world, UserProfile) prog" where
  "svc_UpdateUser c reqID nickname realName = own_resource c reqID (\<lambda>uid.
     transact (repo_UpdateUser uid nickname realName))"

definition svc_ChangePassword :: "crypto_lib \<Rightarrow> EcommerceClaims option \<Rightarrow> string \<Rightarrow> string \<Rightarrow> (auth_world, unit) prog" where
  "svc_ChangePassword C c oldPassword newPassword =
     prog_bind (prog_lift (authenticatedClaims c)) (\<lambda>claims.
     uc_ChangePassword C (clm_UserID claims) oldPassword newPassword)"

definition svc_CreateShippingAddress ::
    "crypto_lib \<Rightarrow> auth_conf \<Rightarrow> EcommerceClaims option \<Rightarrow> int \<Rightarrow> AddressInput \<Rightarrow> bool \<Rightarrow> (auth_world, ShippingAddress) prog" where
  "svc_CreateShippingAddress C ac c reqUser a isDefault = own_resource c reqUser (\<lambda>uid.
     uc_CreateShippingAddress C ac uid a isDefault)"

definition svc_ListShippingAddresses ::
    "crypto_lib \<Rightarrow> auth_conf \<Rightarrow> EcommerceClaims option \<Rightarrow> int \<Rightarrow> int \<Rightarrow> int \<Rightarrow> (auth_world, ShippingAddress list) prog" where
  "svc_ListShippingAddresses C ac c reqUser page pageSize = own_resource c reqUser (\<lambda>uid.
     uc_ListShippingAddressesByUser C ac uid page pageSize)"

definition svc_UpdateShippingAddress ::
    "crypto_lib \<Rightarrow> auth_conf \<Rightarrow> EcommerceClaims option \<Rightarrow> int \<Rightarrow> int \<Rightarrow> AddressInput \<Rightarrow> (auth_world, ShippingAddress) prog" where
  "svc_UpdateShippingAddress C ac c i reqUser a = own_resource c reqUser (\<lambda>uid.
     uc_UpdateShippingAddress C ac i uid a)"

definition svc_SetDefaultShippingAddress :: "EcommerceClaims option \<Rightarrow> int \<Rightarrow> int \<Rightarrow> (auth_world, unit) prog" where
  "svc_SetDefaultShippingAddress c i reqUser = own_resource c reqUser (\<lambda>uid.
     transact (repo_SetDefaultShippingAddress i uid))"

definition svc_DeleteShippingAddress :: "EcommerceClaims option \<Rightarrow> int \<Rightarrow> int \<Rightarrow> (auth_world, unit) prog" where
  "svc_DeleteShippingAddress c i reqUser = own_resource c reqUser (\<lambda>uid.
     transact (repo_DeleteShippingAddress i uid))"

definition svc_RefreshToken :: "jwt_lib \<Rightarrow> auth_conf \<Rightarrow> string \<Rightarrow> (auth_world, TokenPair) prog" where
  "svc_RefreshToken J ac refreshToken = RefreshSession J ac refreshToken"

definition svc_Logout :: "jwt_lib \<Rightarrow> auth_conf \<Rightarrow> EcommerceClaims option \<Rightarrow> string \<Rightarrow> (auth_world, unit) prog" where
  "svc_Logout J ac c refreshToken =
     prog_bind (prog_lift (authenticatedClaims c)) (\<lambda>claims. Logout J ac (Some claims) refreshToken)"

end
