(* ===== verification/SessionSafety.thy ===== *)
theory SessionSafety
  imports Sessions
begin

text \<open>
  What the session store guarantees: a refresh token is consumed at most once, a revoked
  session stays dead, and the login budget bounds the attempts on an account. The operations
  that touch Redis are described once, by the locale \<open>session_relation\<close>: a relation between
  worlds that each script keeps holds along every program. Each invariant is an interpretation.
\<close>

section \<open>What the programs do to the store\<close>

definition same_time :: "db \<Rightarrow> db \<Rightarrow> bool" where
  "same_time s s' \<longleftrightarrow> tb_time_Now s' = tb_time_Now s"

interpretation st: tx_relation same_time
  by unfold_locales (simp_all add: same_time_def)

lemma same_time_users:
  "tx_rel same_time (repo_GetUserByPhoneHash h)" "tx_rel same_time (repo_GetAuthUser i)"
  "tx_rel same_time (repo_CreateUser rnd n h e p)" "tx_rel same_time (repo_UpdateUserPassword i v h)"
  unfolding repo_GetUserByPhoneHash_def repo_GetAuthUser_def repo_CreateUser_def repo_UpdateUserPassword_def
    q_GetUserByPhoneHash_def q_GetUserByID_def
  by (intro st.rel_intros | rule tx_relI;
      auto simp: q_CreateUser_def q_UpdateUserPassword_def tx_simps same_time_def split: if_splits)+

text \<open>\<open>R\<close> is kept by every step of a program except the creation of the session \<open>sid\<close>.\<close>

locale session_relation = prog_relation R
  for R :: "auth_world \<Rightarrow> auth_world \<Rightarrow> bool" +
  fixes sid :: string
  assumes R_db: "tb_time_Now s = tb_time_Now (w_db w) \<Longrightarrow> R w (w\<lparr>w_db := s\<rparr>)"
    and R_rand: "R w (w\<lparr>w_provider := (w_provider w)\<lparr>as_pos := n\<rparr>\<rparr>)"
    and R_create: "i \<noteq> sid \<Longrightarrow> R w (w\<lparr>w_provider := snd (createSessionScript i owner ttl (w_provider w))\<rparr>)"
    and R_consume: "R w (w\<lparr>w_provider := snd (consumeSessionRefreshScript i tok owner ttl (w_provider w))\<rparr>)"
    and R_revoke: "R w (w\<lparr>w_provider := snd (revokeSessionScript i owner (w_provider w))\<rparr>)"
    and R_reserve: "R w (w\<lparr>w_provider := snd (reserveLoginAttemptScript h interval burst (w_provider w))\<rparr>)"
begin

lemma prel_redis:
  assumes "\<And>w. R w (w\<lparr>w_provider := snd (f (w_provider w))\<rparr>)"
  shows "prog_rel R (on_redis f)"
  using assms by (auto simp: prog_rel_def on_redis_def P_refl split: prod.splits) (metis snd_conv)

lemma prel_read: "prog_rel R (on_redis (\<lambda>r. (g r, r)))"
  by (rule prel_redis) (simp add: P_refl)

lemma prel_transact: "tx_rel same_time m \<Longrightarrow> prog_rel R (transact m)"
  unfolding prog_rel_def transact_def on_db_def
  using R_db st.rel_InTx [of m] by (simp add: same_time_def split: prod.splits) (metis snd_conv)

lemma prel_now: "prog_rel R time_Now"
  by (simp add: prog_rel_def time_Now_def P_refl)

lemma prel_until: "prog_rel R (until t)"
  unfolding until_def by (intro prel_intros prel_now)

lemma prel_rand: "prog_rel R (rand_Read n)"
  using R_rand by (simp add: prog_rel_def rand_Read_def Let_def)

lemma prel_token: "prog_rel R generateTokenID"
  unfolding generateTokenID_def by (intro prel_intros prel_rand)

lemma prel_parse: "prog_rel R (ParseRefreshToken J ac tok)" "prog_rel R (ParseAccessToken J ac tok)"
  unfolding ParseRefreshToken_def ParseAccessToken_def parseToken_def by (intro prel_intros prel_now)+

lemma prel_sign: "prog_rel R (signPair J ac u role v i now deadline)"
  unfolding signPair_def sign_token_def by (intro prel_intros prel_token)

lemma prel_create: "i \<noteq> sid \<Longrightarrow> prog_rel R (CreateSession i u ttl)"
  unfolding CreateSession_def by (intro prel_intros prel_redis R_create) assumption

lemma prel_refresh: "prog_rel R (RefreshSession J ac tok)"
  unfolding RefreshSession_def ValidateAccount_def ConsumeSessionRefresh_def
  by (intro prel_intros prel_now prel_until prel_parse prel_sign prel_transact same_time_users prel_redis R_consume)

lemma prel_logout: "prog_rel R (Logout J ac c tok)"
  unfolding Logout_def RevokeSession_def
  by (intro prel_intros prel_parse prel_redis R_revoke)

lemma prel_login: "prog_rel R (uc_Login C ac phone password)"
  unfolding uc_Login_def ReserveLoginAttempt_def
  by (intro prel_intros prel_transact same_time_users prel_redis R_reserve)

lemma prel_register: "prog_rel R (uc_Register C ac phone password)"
  unfolding uc_Register_def generateDefaultNickname_def
  by (intro prel_intros prel_transact same_time_users prel_rand)

lemma prel_password: "prog_rel R (uc_ChangePassword C i old new)"
  unfolding uc_ChangePassword_def
  by (intro prel_intros prel_transact same_time_users)

lemma prel_start_other:
  assumes "i \<noteq> sid"
  shows "prog_rel R (prog_bind (signPair J ac u role v i now deadline) (\<lambda>pair.
    prog_bind (until deadline) (\<lambda>ttl. prog_try (CreateSession i u ttl) (\<lambda>r.
      case r of Inl e \<Rightarrow> prog_throw (ServiceUnavailable ''AUTH_STORE_UNAVAILABLE'') | Inr _ \<Rightarrow> prog_return pair))))"
  by (intro prel_intros prel_sign prel_until prel_create assms)

end

section \<open>Runs\<close>

text \<open>
  One program of the authentication component, a change of the database by any other component,
  the passing of time on both clocks, or Redis going away and coming back. The relation is
  indexed by a session id that no login of the run draws: ids are sixteen random bytes.
\<close>

definition next_token_id :: "auth_world \<Rightarrow> string" where
  "next_token_id w = (let R = w_provider w in hex_EncodeToString (map (as_rand R) [as_pos R ..< as_pos R + 16]))"

inductive auth_step :: "crypto_lib \<Rightarrow> jwt_lib \<Rightarrow> auth_conf \<Rightarrow> string \<Rightarrow> auth_world \<Rightarrow> auth_world \<Rightarrow> bool"
  for C J ac sid where
  StartStep: "next_token_id w \<noteq> sid \<Longrightarrow> StartSession J ac u w = (r, w') \<Longrightarrow> auth_step C J ac sid w w'"
| RefreshStep: "RefreshSession J ac tok w = (r, w') \<Longrightarrow> auth_step C J ac sid w w'"
| LogoutStep: "Logout J ac c tok w = (r, w') \<Longrightarrow> auth_step C J ac sid w w'"
| LoginStep: "uc_Login C ac phone password w = (r, w') \<Longrightarrow> auth_step C J ac sid w w'"
| RegisterStep: "uc_Register C ac phone password w = (r, w') \<Longrightarrow> auth_step C J ac sid w w'"
| PasswordStep: "uc_ChangePassword C i old new w = (r, w') \<Longrightarrow> auth_step C J ac sid w w'"
| DatabaseStep: "tb_time_Now s = tb_time_Now (w_db w) \<Longrightarrow> auth_step C J ac sid w (w\<lparr>w_db := s\<rparr>)"
| ClockStep: "0 \<le> d \<Longrightarrow> auth_step C J ac sid w (w\<lparr>w_db := (w_db w)\<lparr>tb_time_Now := tb_time_Now (w_db w) + d\<rparr>,
    w_provider := (w_provider w)\<lparr>rd_clock := rd_clock (w_provider w) + d\<rparr>\<rparr>)"
| RedisStep: "auth_step C J ac sid w (w\<lparr>w_provider := (w_provider w)\<lparr>rd_down := b\<rparr>\<rparr>)"

text \<open>A relation for runs also survives the clock and an outage.\<close>

locale session_run = session_relation R sid
  for R :: "auth_world \<Rightarrow> auth_world \<Rightarrow> bool" and sid :: string +
  assumes R_clock: "0 \<le> d \<Longrightarrow> R w (w\<lparr>w_db := (w_db w)\<lparr>tb_time_Now := tb_time_Now (w_db w) + d\<rparr>,
      w_provider := (w_provider w)\<lparr>rd_clock := rd_clock (w_provider w) + d\<rparr>\<rparr>)"
    and R_down: "R w (w\<lparr>w_provider := (w_provider w)\<lparr>rd_down := b\<rparr>\<rparr>)"
begin

lemma R_start:
  assumes "next_token_id w \<noteq> sid"
  shows "R w (snd (StartSession J ac u w))"
proof -
  let ?w1 = "w\<lparr>w_provider := (w_provider w)\<lparr>as_pos := as_pos (w_provider w) + 16\<rparr>\<rparr>"
  have gen: "generateTokenID w = (Inr (next_token_id w), ?w1)"
    by (simp add: generateTokenID_def prog_bind_def prog_try_def prog_return_def rand_Read_def next_token_id_def Let_def)
  have bind: "prog_bind generateTokenID f w = f (next_token_id w) ?w1" for f :: "string \<Rightarrow> (auth_world, TokenPair) prog"
    by (simp add: prog_bind_def prog_try_def gen)
  have "R ?w1 (snd (m ?w1))" if "prog_rel R m" for m :: "(auth_world, TokenPair) prog"
    using that by (simp add: prog_rel_def)
  note later = this [OF prel_start_other [OF assms]]
  have refused: "snd (prog_throw e w) = w" for e by (simp add: prog_throw_def)
  show ?thesis
    unfolding StartSession_def
    by (auto simp: P_refl refused bind Let_def
        intro: P_trans [OF R_rand later] split: option.splits)
qed

lemma R_step: "auth_step C J ac sid w w' \<Longrightarrow> R w w'"
proof (induction rule: auth_step.induct)
  case (StartStep w u r w')
  then show ?case using R_start [of w J ac u] by simp
next
  case (DatabaseStep s w)
  then show ?case by (rule R_db)
next
  case (ClockStep d w)
  then show ?case by (rule R_clock)
next
  case (RedisStep w b)
  show ?case by (rule R_down)
qed (erule prog_relD [rotated], rule prel_refresh prel_logout prel_login prel_register prel_password)+

lemma R_run: "(auth_step C J ac sid)\<^sup>*\<^sup>* w w' \<Longrightarrow> R w w'"
  by (induction rule: rtranclp_induct) (auto intro: P_refl P_trans R_step)

end

section \<open>A revoked session stays dead\<close>

definition dead :: "string \<Rightarrow> auth_store \<Rightarrow> bool" where
  "dead sid R = (case rd_data R (SessionKey sid) of
     Some (SessionHash owner st, e) \<Rightarrow> st \<noteq> ''active'' \<or> rd_ms R > e | _ \<Rightarrow> True)"

lemma dead_inactive: "dead sid R \<Longrightarrow> \<not> session_active sid owner R"
  by (auto simp: dead_def session_active_def rd_get_def split: option.splits redis_value.splits if_splits)

lemma rd_ms_set [simp]: "rd_ms (rd_set k v e R) = rd_ms R"
  by (simp add: rd_ms_def rd_set_def)

lemma rd_ms_mono: "0 \<le> d \<Longrightarrow> rd_ms R \<le> rd_ms (R\<lparr>rd_clock := rd_clock R + d\<rparr>)"
  by (simp add: rd_ms_def zdiv_mono1)

lemma rd_data_set: "rd_data (rd_set k v e R) k' = (if k' = k then Some (v, e) else rd_data R k')"
  by (simp add: rd_set_def)

lemma dead_cong:
  "rd_data R' (SessionKey sid) = rd_data R (SessionKey sid) \<Longrightarrow> rd_ms R \<le> rd_ms R' \<Longrightarrow> dead sid R \<Longrightarrow> dead sid R'"
  by (auto simp: dead_def split: option.splits redis_value.splits)

text \<open>What the scripts write.\<close>

lemma script_clock:
  "rd_clock (snd (createSessionScript i owner ttl R)) = rd_clock R"
  "rd_clock (snd (consumeSessionRefreshScript i tok owner ttl R)) = rd_clock R"
  "rd_clock (snd (revokeSessionScript i owner R)) = rd_clock R"
  "rd_clock (snd (reserveLoginAttemptScript h interval burst R)) = rd_clock R"
  by (auto simp: createSessionScript_def consumeSessionRefreshScript_def revokeSessionScript_def
      reserveLoginAttemptScript_def rd_set_def Let_def split: option.splits redis_value.splits)

lemma create_data: "k \<noteq> SessionKey i \<Longrightarrow> rd_data (snd (createSessionScript i owner ttl R)) k = rd_data R k"
  by (simp add: createSessionScript_def rd_data_set)

lemma consume_data: "k \<noteq> UsedKey i tok \<Longrightarrow> rd_data (snd (consumeSessionRefreshScript i tok owner ttl R)) k = rd_data R k"
  by (auto simp: consumeSessionRefreshScript_def rd_data_set Let_def split: option.splits)

lemma reserve_data: "k \<noteq> LoginKey h \<Longrightarrow> rd_data (snd (reserveLoginAttemptScript h interval burst R)) k = rd_data R k"
  by (auto simp: reserveLoginAttemptScript_def rd_data_set Let_def)

lemma revoke_data:
  "rd_data (snd (revokeSessionScript i owner R)) k = rd_data R k \<or>
   (\<exists>st e. k = SessionKey i \<and> rd_data R k = Some (SessionHash owner st, e) \<and>
      rd_data (snd (revokeSessionScript i owner R)) k = Some (SessionHash owner ''revoked'', e))"
  by (auto simp: revokeSessionScript_def rd_get_def rd_data_set split: option.splits redis_value.splits if_splits)

lemma dead_revoke: "dead sid R \<Longrightarrow> dead sid (snd (revokeSessionScript i owner R))"
  using revoke_data [of i owner R "SessionKey sid"] script_clock(3) [of i owner R]
  by (auto simp: dead_def rd_ms_def split: option.splits redis_value.splits)

interpretation dead: session_run "\<lambda>w w'. dead sid (w_provider w) \<longrightarrow> dead sid (w_provider w')" sid for sid
proof unfold_locales
  fix w :: auth_world and i tok owner ttl h interval burst n d and b :: bool
  let ?R = "w_provider w"
  show "dead sid (w_provider w) \<longrightarrow> dead sid (w_provider (w\<lparr>w_provider := ?R\<lparr>as_pos := n\<rparr>\<rparr>))"
    by (auto simp: rd_ms_def intro: dead_cong [of _ sid ?R])
  show "dead sid (w_provider w) \<longrightarrow> dead sid (w_provider (w\<lparr>w_provider := ?R\<lparr>rd_down := b\<rparr>\<rparr>))"
    by (auto simp: rd_ms_def intro: dead_cong [of _ sid ?R])
  show "dead sid (w_provider w) \<longrightarrow>
      dead sid (w_provider (w\<lparr>w_provider := snd (consumeSessionRefreshScript i tok owner ttl ?R)\<rparr>))"
    by (auto simp: rd_ms_def script_clock consume_data intro: dead_cong [of _ sid ?R])
  show "dead sid (w_provider w) \<longrightarrow>
      dead sid (w_provider (w\<lparr>w_provider := snd (reserveLoginAttemptScript h interval burst ?R)\<rparr>))"
    by (auto simp: rd_ms_def script_clock reserve_data intro: dead_cong [of _ sid ?R])
  show "i \<noteq> sid \<Longrightarrow> dead sid (w_provider w) \<longrightarrow>
      dead sid (w_provider (w\<lparr>w_provider := snd (createSessionScript i owner ttl ?R)\<rparr>))"
    by (auto simp: rd_ms_def script_clock create_data intro: dead_cong [of _ sid ?R])
  show "0 \<le> d \<Longrightarrow> dead sid (w_provider w) \<longrightarrow> dead sid (w_provider (w\<lparr>w_db := (w_db w)\<lparr>tb_time_Now := tb_time_Now (w_db w) + d\<rparr>,
      w_provider := ?R\<lparr>rd_clock := rd_clock ?R + d\<rparr>\<rparr>))"
    by (auto intro: dead_cong [of _ sid ?R] rd_ms_mono)
qed (simp_all add: dead_revoke)

section \<open>A consumed refresh token stays consumed\<close>

text \<open>
  The token \<open>tok\<close> of the session \<open>sid\<close> with expiry \<open>expy\<close> is burnt: it has expired, its session
  is dead, or its flag is in the store and outlives the session or the token. \<open>skew\<close> is how far
  Redis' clock is ahead of the application's; both advance together.
\<close>

definition flag_lasts :: "int \<Rightarrow> string \<Rightarrow> string \<Rightarrow> int \<Rightarrow> auth_store \<Rightarrow> bool" where
  "flag_lasts skew sid tok expy R \<longleftrightarrow>
     (case (rd_data R (SessionKey sid), rd_data R (UsedKey sid tok)) of
        (Some (_, we), Some (_, wu)) \<Rightarrow> we \<le> wu \<or> (expy + skew) div 10 ^ 6 \<le> wu + 1
      | _ \<Rightarrow> False)"

definition burnt :: "int \<Rightarrow> string \<Rightarrow> string \<Rightarrow> int \<Rightarrow> auth_world \<Rightarrow> bool" where
  "burnt skew sid tok expy w \<longleftrightarrow> rd_clock (w_provider w) - tb_time_Now (w_db w) = skew \<and>
     (expy \<le> tb_time_Now (w_db w) \<or> dead sid (w_provider w) \<or> flag_lasts skew sid tok expy (w_provider w))"

lemma ms_before:
  fixes t e :: int
  assumes "t < e" and "10 ^ 6 dvd e"
  shows "t div 10 ^ 6 + 1 \<le> e div 10 ^ 6"
proof -
  obtain k where "e = 10 ^ 6 * k" using assms(2) by (rule dvdE)
  moreover from this have "t div 10 ^ 6 < k" using assms(1) by (simp add: div_less_iff_less_mult mult.commute)
  ultimately show ?thesis by simp
qed

text \<open>While the flag lasts and the session is alive, the flag is there.\<close>

lemma flag_present:
  assumes "flag_lasts skew sid tok expy R" and "rd_clock R = t + skew" and "t < expy" and "10 ^ 6 dvd expy + skew"
    and "session_active sid owner R"
  shows "rd_get (UsedKey sid tok) R \<noteq> None"
proof -
  obtain v we x wu where d: "rd_data R (SessionKey sid) = Some (v, we)" "rd_data R (UsedKey sid tok) = Some (x, wu)"
    and le: "we \<le> wu \<or> (expy + skew) div 10 ^ 6 \<le> wu + 1"
    using assms(1) by (auto simp: flag_lasts_def split: option.splits)
  have "rd_ms R \<le> we" using assms(5) d(1) by (auto simp: session_active_def rd_get_def split: if_splits option.splits)
  moreover have "rd_ms R + 1 \<le> (expy + skew) div 10 ^ 6"
    using ms_before [of "t + skew" "expy + skew"] assms(2-4) by (simp add: rd_ms_def)
  ultimately show ?thesis using d(2) le by (auto simp: rd_get_def)
qed

lemma flag_lasts_cong:
  "rd_data R' (SessionKey sid) = rd_data R (SessionKey sid) \<Longrightarrow>
   rd_data R' (UsedKey sid tok) = rd_data R (UsedKey sid tok) \<Longrightarrow>
   flag_lasts skew sid tok expy R \<Longrightarrow> flag_lasts skew sid tok expy R'"
  by (simp add: flag_lasts_def)

lemma flag_lasts_revoke: "flag_lasts skew sid tok expy R \<Longrightarrow> flag_lasts skew sid tok expy (snd (revokeSessionScript i owner R))"
  using revoke_data [of i owner R "SessionKey sid"] revoke_data [of i owner R "UsedKey sid tok"]
  by (auto simp: flag_lasts_def split: option.splits)

text \<open>A second consumption finds the flag and leaves the store alone.\<close>

lemma burnt_consume:
  assumes "burnt skew sid tok expy w" and "10 ^ 6 dvd expy + skew"
  shows "burnt skew sid tok expy (w\<lparr>w_provider := snd (consumeSessionRefreshScript i t owner ttl (w_provider w))\<rparr>)"
    (is "burnt skew sid tok expy (w\<lparr>w_provider := ?R'\<rparr>)")
proof -
  let ?R = "w_provider w"
  consider "expy \<le> tb_time_Now (w_db w)" | "dead sid ?R" | "tb_time_Now (w_db w) < expy" "flag_lasts skew sid tok expy ?R"
    using assms(1) unfolding burnt_def by linarith
  then show ?thesis
  proof cases
    case 2
    then have "dead sid ?R'" by (auto simp: rd_ms_def script_clock consume_data intro: dead_cong [of _ sid ?R])
    then show ?thesis using assms(1) by (simp add: burnt_def script_clock)
  next
    case 3
    have "?R' = ?R" if "i = sid" "t = tok"
    proof (cases "session_active sid owner ?R")
      case True
      have "rd_get (UsedKey sid tok) ?R \<noteq> None"
        using flag_present [OF 3(2) _ 3(1) assms(2) True] assms(1) by (simp add: burnt_def)
      then show ?thesis using that by (auto simp: consumeSessionRefreshScript_def Let_def split: option.splits)
    qed (use that in \<open>simp add: consumeSessionRefreshScript_def\<close>)
    then have "rd_data ?R' (UsedKey sid tok) = rd_data ?R (UsedKey sid tok)"
      by (cases "i = sid \<and> t = tok") (auto simp: consume_data)
    then have "flag_lasts skew sid tok expy ?R'"
      using flag_lasts_cong [of ?R' sid ?R tok skew expy] 3(2) by (simp add: consume_data)
    then show ?thesis using assms(1) by (simp add: burnt_def script_clock)
  qed (use assms(1) in \<open>simp add: burnt_def script_clock\<close>)
qed

lemma burnt_store:
  assumes "burnt skew sid tok expy w" and "w_db w' = w_db w" and "rd_clock (w_provider w') = rd_clock (w_provider w)"
    and "dead sid (w_provider w) \<Longrightarrow> dead sid (w_provider w')"
    and "flag_lasts skew sid tok expy (w_provider w) \<Longrightarrow> flag_lasts skew sid tok expy (w_provider w')"
  shows "burnt skew sid tok expy w'"
  using assms by (auto simp: burnt_def)

abbreviation burnt_rel :: "int \<Rightarrow> string \<Rightarrow> string \<Rightarrow> int \<Rightarrow> auth_world \<Rightarrow> auth_world \<Rightarrow> bool" where
  "burnt_rel skew sid tok expy w w' \<equiv>
     10 ^ 6 dvd expy + skew \<longrightarrow> burnt skew sid tok expy w \<longrightarrow> burnt skew sid tok expy w'"

interpretation burnt: session_run "burnt_rel skew sid tok expy" sid for skew sid tok expy
proof unfold_locales
  fix w :: auth_world and i t owner ttl h interval burst n d s and b :: bool
  let ?R = "w_provider w"
  show "burnt_rel skew sid tok expy w w" by simp
  show "tb_time_Now s = tb_time_Now (w_db w) \<Longrightarrow> burnt_rel skew sid tok expy w (w\<lparr>w_db := s\<rparr>)"
    by (simp add: burnt_def)
  show "burnt_rel skew sid tok expy w (w\<lparr>w_provider := ?R\<lparr>as_pos := n\<rparr>\<rparr>)"
    "burnt_rel skew sid tok expy w (w\<lparr>w_provider := ?R\<lparr>rd_down := b\<rparr>\<rparr>)"
    by (auto elim!: burnt_store intro: dead_cong [of _ sid ?R] flag_lasts_cong [of _ sid ?R] simp: rd_ms_def)
  show "i \<noteq> sid \<Longrightarrow> burnt_rel skew sid tok expy w (w\<lparr>w_provider := snd (createSessionScript i owner ttl ?R)\<rparr>)"
    by (auto elim!: burnt_store intro: dead_cong [of _ sid ?R] flag_lasts_cong [of _ sid ?R]
        simp: rd_ms_def script_clock create_data)
  show "burnt_rel skew sid tok expy w (w\<lparr>w_provider := snd (consumeSessionRefreshScript i t owner ttl ?R)\<rparr>)"
    by (simp add: burnt_consume)
  show "burnt_rel skew sid tok expy w (w\<lparr>w_provider := snd (revokeSessionScript i owner ?R)\<rparr>)"
    by (auto elim!: burnt_store simp: script_clock dead_revoke flag_lasts_revoke)
  show "burnt_rel skew sid tok expy w (w\<lparr>w_provider := snd (reserveLoginAttemptScript h interval burst ?R)\<rparr>)"
    by (auto elim!: burnt_store intro: dead_cong [of _ sid ?R] flag_lasts_cong [of _ sid ?R]
        simp: rd_ms_def script_clock reserve_data)
  show "0 \<le> d \<Longrightarrow> burnt_rel skew sid tok expy w (w\<lparr>w_db := (w_db w)\<lparr>tb_time_Now := tb_time_Now (w_db w) + d\<rparr>,
      w_provider := ?R\<lparr>rd_clock := rd_clock ?R + d\<rparr>\<rparr>)"
    using dead_cong [of "?R\<lparr>rd_clock := rd_clock ?R + d\<rparr>" sid ?R] rd_ms_mono [of d ?R]
      flag_lasts_cong [of "?R\<lparr>rd_clock := rd_clock ?R + d\<rparr>" sid ?R tok skew expy]
    by (auto simp: burnt_def)
qed simp

section \<open>Properties\<close>

text \<open>
  What the code relies on of the JWT package: a token that parses has not expired, its expiry is
  a whole second (\<^verbatim>\<open>TimePrecision\<close>), and its claims do not depend on when it is parsed.
\<close>

definition jwt_ok :: "jwt_lib \<Rightarrow> bool" where
  "jwt_ok J \<longleftrightarrow> (\<forall>now secret tok c. jw_ParseWithClaims J now secret tok = Inr c \<longrightarrow>
       now < clm_ExpiresAt c \<and> 10 ^ 9 dvd clm_ExpiresAt c) \<and>
     (\<forall>now now' secret tok c c'. jw_ParseWithClaims J now secret tok = Inr c \<longrightarrow>
       jw_ParseWithClaims J now' secret tok = Inr c' \<longrightarrow> c = c')"

lemma ParseRefreshToken_Inr:
  "ParseRefreshToken J ac tok w = (Inr c, w') \<longleftrightarrow> w' = w \<and>
     jw_ParseWithClaims J (tb_time_Now (w_db w)) (ac_RefreshTokenSecret ac) tok = Inr c \<and>
     clm_TokenKind c = ''refresh'' \<and> 0 < clm_UserID c \<and> 0 < clm_AuthVersion c \<and> clm_SessionID c \<noteq> '''' \<and> clm_ID c \<noteq> ''''"
  by (auto simp: ParseRefreshToken_def parseToken_def prog_bind_Inr prog_lift_Inr prog_return_Inr prog_throw_Inr
      split: if_splits)

lemma ValidateAccount_Inr:
  "ValidateAccount (Some c) w = (Inr c', w') \<Longrightarrow> w' = w \<and> (\<exists>role. c' = c\<lparr>clm_Role := role\<rparr>)"
  by (auto simp: ValidateAccount_def repo_GetAuthUser_def q_GetUserByID_def prog_Inr tx_simps
      split: if_splits option.splits)

lemma ConsumeSessionRefresh_True:
  assumes "ConsumeSessionRefresh i u tok d w = (Inr True, w')"
  shows "session_active i (FormatInt u) (w_provider w)"
    and "rd_get (UsedKey i tok) (w_provider w) = None"
    and "w_db w' = w_db w" and "rd_clock (w_provider w') = rd_clock (w_provider w)"
    and "\<exists>v we. rd_data (w_provider w') (SessionKey i) = Some (v, we) \<and>
      rd_data (w_provider w') (UsedKey i tok) =
        Some (UsedFlag, rd_ms (w_provider w) + min (we - rd_ms (w_provider w)) (Milliseconds d))"
    and "0 < Milliseconds d"
  using assms
  by (auto simp: ConsumeSessionRefresh_def on_redis_def consumeSessionRefreshScript_def prog_Inr Let_def rd_get_def
      rd_set_def session_active_def split: if_splits option.splits prod.splits redis_value.splits)

lemma RefreshSession_Inr:
  assumes "RefreshSession J ac tok w = (Inr pair, w')"
  obtains c w1 where "ParseRefreshToken J ac tok w = (Inr c, w)"
    and "ConsumeSessionRefresh (clm_SessionID c) (clm_UserID c) (clm_ID c) (clm_ExpiresAt c - tb_time_Now (w_db w)) w
      = (Inr True, w1)"
    and "w_db w' = w_db w1" and "rd_data (w_provider w') = rd_data (w_provider w1)"
    and "rd_clock (w_provider w') = rd_clock (w_provider w1)"
proof -
  obtain c where c: "ParseRefreshToken J ac tok w = (Inr c, w)"
    using assms by (cases "ParseRefreshToken J ac tok w"; cases "fst (ParseRefreshToken J ac tok w)")
      (auto simp: RefreshSession_def prog_try_def prog_throw_def ParseRefreshToken_Inr)
  obtain c' where v: "ValidateAccount (Some c) w = (Inr c', w)"
    using assms c by (auto simp: RefreshSession_def prog_try_def prog_bind_Inr dest: ValidateAccount_Inr)
  obtain role where c': "c' = c\<lparr>clm_Role := role\<rparr>" using ValidateAccount_Inr [OF v] by blast
  let ?m = "ConsumeSessionRefresh (clm_SessionID c) (clm_UserID c) (clm_ID c) (clm_ExpiresAt c - tb_time_Now (w_db w))"
  obtain w1 where w1: "?m w = (Inr True, w1)" and sp: "signPair J ac (clm_UserID c) role (clm_AuthVersion c)
      (clm_SessionID c) (tb_time_Now (w_db w1)) (clm_ExpiresAt c) w1 = (Inr pair, w')"
    using assms c v c'
    by (cases "?m w"; cases "fst (?m w)")
      (auto simp: RefreshSession_def prog_try_def prog_bind_step [of "ValidateAccount (Some c)"] until_def prog_bind_step
        prog_return_def prog_throw_def split: if_splits)
  have "w_db w' = w_db w1 \<and> rd_data (w_provider w') = rd_data (w_provider w1) \<and> rd_clock (w_provider w') = rd_clock (w_provider w1)"
    using sp by (auto simp: signPair_def sign_token_def generateTokenID_def rand_Read_def prog_Inr Let_def)
  then show ?thesis using that c w1 by blast
qed

lemma not_isl_fst: "\<not> isl (fst x) \<Longrightarrow> \<exists>y w. x = (Inr y, w)"
  by (cases x; cases "fst x") auto

lemma refresh_burns:
  assumes "jwt_ok J" and "10 ^ 6 dvd rd_clock (w_provider w) - tb_time_Now (w_db w)"
    and "RefreshSession J ac tok w = (Inr pair, w1)"
  obtains c where "ParseRefreshToken J ac tok w = (Inr c, w)"
    and "10 ^ 6 dvd clm_ExpiresAt c + (rd_clock (w_provider w) - tb_time_Now (w_db w))"
    and "burnt (rd_clock (w_provider w) - tb_time_Now (w_db w)) (clm_SessionID c) (clm_ID c) (clm_ExpiresAt c) w1"
proof -
  from assms(3) obtain c w0 where c: "ParseRefreshToken J ac tok w = (Inr c, w)"
    and con: "ConsumeSessionRefresh (clm_SessionID c) (clm_UserID c) (clm_ID c) (clm_ExpiresAt c - tb_time_Now (w_db w)) w = (Inr True, w0)"
    and w1: "w_db w1 = w_db w0" "rd_data (w_provider w1) = rd_data (w_provider w0)"
      "rd_clock (w_provider w1) = rd_clock (w_provider w0)"
    by (rule RefreshSession_Inr)
  let ?k = "rd_clock (w_provider w) - tb_time_Now (w_db w)" and ?ms = "rd_ms (w_provider w)"
  let ?t = "tb_time_Now (w_db w)" and ?e = "clm_ExpiresAt c"
  have e: "?t < ?e" "10 ^ 9 dvd ?e"
    using assms(1) c by (auto simp: jwt_ok_def ParseRefreshToken_Inr)
  have dvd: "10 ^ 6 dvd ?e + ?k"
    using dvd_trans [OF _ e(2), of "10 ^ 6"] assms(2) by (intro dvd_add) auto
  obtain v we where d: "rd_data (w_provider w0) (SessionKey (clm_SessionID c)) = Some (v, we)"
      "rd_data (w_provider w0) (UsedKey (clm_SessionID c) (clm_ID c)) = Some (UsedFlag, ?ms + min (we - ?ms) (Milliseconds (?e - ?t)))"
    using ConsumeSessionRefresh_True(5) [OF con] by blast
  have "(?e + ?k) div 10 ^ 6 \<le> ?ms + (?e - ?t) div 10 ^ 6 + 1"
  proof -
    have "(x + y) div n \<le> x div n + y div n + 1" if "0 < n" for x y n :: int
    proof -
      have "x < (x div n + 1) * n" "y < (y div n + 1) * n"
        using int_le_div_iff [OF that, of "x div n + 1" x] int_le_div_iff [OF that, of "y div n + 1" y] by linarith+
      then have "x + y < (x div n + y div n + 2) * n" by (simp add: algebra_simps)
      then show ?thesis using int_le_div_iff [OF that, of "x div n + y div n + 2" "x + y"] by linarith
    qed
    from this [of "10 ^ 6" "rd_clock (w_provider w)" "?e - ?t"]
    have "(rd_clock (w_provider w) + (?e - ?t)) div 10 ^ 6 \<le> ?ms + (?e - ?t) div 10 ^ 6 + 1"
      by (simp add: rd_ms_def)
    moreover have "?e + ?k = rd_clock (w_provider w) + (?e - ?t)" by simp
    ultimately show ?thesis by simp
  qed
  then have "flag_lasts ?k (clm_SessionID c) (clm_ID c) ?e (w_provider w1)"
    using d w1(2) e(1) by (auto simp: flag_lasts_def Milliseconds_def go_div_nonneg min_def)
  then have "burnt ?k (clm_SessionID c) (clm_ID c) ?e w1"
    using w1 ConsumeSessionRefresh_True(3,4) [OF con] by (simp add: burnt_def)
  then show ?thesis using that c dvd by blast
qed


lemma Logout_dead:
  assumes "Logout J ac (Some claims) tok w = (Inr (), w1)"
  shows "dead (clm_SessionID claims) (w_provider w1)"
proof -
  have "\<exists>w0. RevokeSession (clm_SessionID claims) (clm_UserID claims) w0 = (Inr True, w1)"
    using assms unfolding Logout_def
    by (auto simp: prog_try_def prog_bind_def prog_throw_def prog_return_def split: if_splits prod.splits sum.splits)
  then obtain w0 where "RevokeSession (clm_SessionID claims) (clm_UserID claims) w0 = (Inr True, w1)" by blast
  then show ?thesis
    by (auto simp: RevokeSession_def on_redis_def revokeSessionScript_def prog_Inr rd_get_def dead_def rd_data_set
        split: if_splits prod.splits option.splits redis_value.splits)
qed

text \<open>
  A logout ends the whole session. Once it succeeded, no access token of the session passes
  \<open>ValidateSession\<close> and no refresh token of the session is rotated, in any later state; this
  covers the pair the client still holds and every descendant of it.
\<close>

theorem logout_ends_session:
  assumes "Logout J ac (Some claims) rtok w = (Inr (), w1)"
    and "(auth_step C J ac (clm_SessionID claims))\<^sup>*\<^sup>* w1 w2"
    and "clm_SessionID access = clm_SessionID claims"
    and "ParseRefreshToken J ac tok w2 = (Inr refresh, w2)" and "clm_SessionID refresh = clm_SessionID claims"
  shows "isl (fst (ValidateSession (Some access) w2)) \<and> isl (fst (RefreshSession J ac tok w2))"
proof -
  have d: "dead (clm_SessionID claims) (w_provider w2)"
    using dead.R_run [OF assms(2)] Logout_dead [OF assms(1)] by blast
  have "isl (fst (ValidateSession (Some access) w2))"
    using dead_inactive [OF d] assms(3)
    by (auto simp: ValidateSession_def SessionActive_def on_redis_def prog_try_def prog_throw_def prog_return_def)
  moreover have "isl (fst (RefreshSession J ac tok w2))"
  proof (rule ccontr)
    assume "\<not> isl (fst (RefreshSession J ac tok w2))"
    then obtain pair w3 where "RefreshSession J ac tok w2 = (Inr pair, w3)"
      using not_isl_fst by blast
    then obtain c w4 where "ParseRefreshToken J ac tok w2 = (Inr c, w2)"
      and "ConsumeSessionRefresh (clm_SessionID c) (clm_UserID c) (clm_ID c) (clm_ExpiresAt c - tb_time_Now (w_db w2)) w2
        = (Inr True, w4)"
      by (rule RefreshSession_Inr)
    then show False using ConsumeSessionRefresh_True(1) dead_inactive [OF d] assms(4,5) by force
  qed
  ultimately show ?thesis by simp
qed

section \<open>The login budget\<close>

text \<open>A sequence of attempts on one account: \<open>d\<close> nanoseconds pass before each. The count is that
  of the attempts that may look at the password.\<close>

fun login_attempts :: "string \<Rightarrow> int \<Rightarrow> int \<Rightarrow> int list \<Rightarrow> auth_store \<Rightarrow> nat \<times> auth_store" where
  "login_attempts h interval burst [] R = (0, R)"
| "login_attempts h interval burst (d # ds) R =
     (case reserveLoginAttemptScript h interval burst (R\<lparr>rd_clock := rd_clock R + d\<rparr>) of
        (wait, R1) \<Rightarrow> (case login_attempts h interval burst ds R1 of
          (n, R2) \<Rightarrow> (if wait > 0 then n else Suc n, R2)))"

text \<open>A stored budget expires when it is full again.\<close>

definition budget_ok :: "string \<Rightarrow> auth_store \<Rightarrow> bool" where
  "budget_ok h R \<longleftrightarrow> (case rd_data R (LoginKey h) of None \<Rightarrow> True | Some (v, e) \<Rightarrow> v = Budget e)"

definition ready_at :: "string \<Rightarrow> auth_store \<Rightarrow> int" where
  "ready_at h R = (case rd_data R (LoginKey h) of Some (Budget b, _) \<Rightarrow> max (rd_ms R) b | _ \<Rightarrow> rd_ms R)"

lemma reserve_run:
  assumes "budget_ok h R"
  shows "reserveLoginAttemptScript h interval burst R =
    (if ready_at h R - (burst - 1) * interval - rd_ms R > 0 then (ready_at h R - (burst - 1) * interval - rd_ms R, R)
     else (0, rd_set (LoginKey h) (Budget (ready_at h R + interval)) (ready_at h R + interval) R))"
  using assms
  by (auto simp: reserveLoginAttemptScript_def budget_ok_def ready_at_def rd_get_def Let_def max_def
      split: option.splits)

lemma ready_at_clock: "0 \<le> d \<Longrightarrow> ready_at h R \<le> ready_at h (R\<lparr>rd_clock := rd_clock R + d\<rparr>)"
  using rd_ms_mono [of d R] by (auto simp: ready_at_def split: option.splits redis_value.splits)

lemma ready_at_ge: "rd_ms R \<le> ready_at h R"
  by (auto simp: ready_at_def split: option.splits redis_value.splits)

lemma ready_at_set: "ready_at h (rd_set (LoginKey h) (Budget b) e R) = max (rd_ms R) b"
  by (simp add: ready_at_def rd_data_set)

text \<open>Each granted attempt pushes the time at which the budget is full by one interval, and a
  grant never pushes it more than the burst ahead of the clock.\<close>

lemma login_attempts_ready:
  assumes "login_attempts h interval burst ds R = (n, R')" and "list_all (\<lambda>d. 0 \<le> d) ds"
    and "budget_ok h R" and "0 < interval"
  shows "rd_ms R \<le> rd_ms R' \<and> ready_at h R + int n * interval \<le> ready_at h R' \<and>
    ready_at h R' \<le> max (ready_at h R) (rd_ms R' + max 1 burst * interval)"
  using assms(1-3)
proof (induction ds arbitrary: R n)
  case (Cons d ds)
  let ?R = "R\<lparr>rd_clock := rd_clock R + d\<rparr>"
  have d: "0 \<le> d" "list_all (\<lambda>d. 0 \<le> d) ds" using Cons.prems(2) by simp_all
  have ok: "budget_ok h ?R" using Cons.prems(3) by (simp add: budget_ok_def)
  obtain wait R1 m where r: "reserveLoginAttemptScript h interval burst ?R = (wait, R1)"
    and l: "login_attempts h interval burst ds R1 = (m, R')" and n: "n = (if wait > 0 then m else Suc m)"
    using Cons.prems(1) by (auto split: prod.splits)
  have clock: "rd_ms R \<le> rd_ms ?R" "ready_at h R \<le> ready_at h ?R"
    using d(1) by (simp_all add: rd_ms_mono ready_at_clock)
  have up: "ready_at h ?R \<le> max (ready_at h R) (rd_ms ?R)"
    by (auto simp: ready_at_def rd_ms_def split: option.splits redis_value.splits)
  show ?case
  proof (cases "wait > 0")
    case True
    then have "R1 = ?R" using r by (simp add: reserve_run [OF ok] split: if_splits)
    then have ih: "rd_ms ?R \<le> rd_ms R'" "ready_at h ?R + int m * interval \<le> ready_at h R'"
      "ready_at h R' \<le> max (ready_at h ?R) (rd_ms R' + max 1 burst * interval)"
      using Cons.IH [OF l d(2)] ok by simp_all
    have "0 \<le> max 1 burst * interval" using assms(4) by simp
    then have "ready_at h R' \<le> max (ready_at h R) (rd_ms R' + max 1 burst * interval)"
      using ih(1,3) up by linarith
    then show ?thesis using ih n True clock by simp
  next
    case False
    then have R1: "R1 = rd_set (LoginKey h) (Budget (ready_at h ?R + interval)) (ready_at h ?R + interval) ?R"
      and w: "ready_at h ?R \<le> rd_ms ?R + (burst - 1) * interval"
      using r by (auto simp: reserve_run [OF ok] split: if_splits)
    have ok1: "budget_ok h R1" by (simp add: R1 budget_ok_def rd_data_set)
    have ready1: "ready_at h R1 = ready_at h ?R + interval"
      using ready_at_ge [of ?R h] assms(4) by (simp add: R1 ready_at_set)
    have "rd_ms R1 = rd_ms ?R" by (simp add: R1)
    moreover have "ready_at h R1 \<le> rd_ms ?R + max 1 burst * interval"
    proof -
      have "ready_at h R1 \<le> rd_ms ?R + burst * interval" using w ready1 by (simp add: algebra_simps)
      also have "\<dots> \<le> rd_ms ?R + max 1 burst * interval" using assms(4) by (intro add_left_mono mult_right_mono) auto
      finally show ?thesis .
    qed
    ultimately show ?thesis
      using Cons.IH [OF l d(2) ok1] n False clock ready1 by (auto simp: algebra_simps max_def split: if_splits)
  qed
qed simp


section \<open>Credentials\<close>

lemma prog_throw_at: "prog_throw e w = (Inl e, w)"
  by (simp add: prog_throw_def)

text \<open>Reading an account is one statement and changes nothing.\<close>

lemma bind_GetAuthUser:
  "prog_bind (transact (repo_GetAuthUser i)) f w = f (find_row usr_ID i (tb_users (w_db w))) w"
  by (simp add: prog_bind_def prog_try_def transact_def on_db_def InTx_def repo_GetAuthUser_def q_GetUserByID_def
      tx_optional_def sql_get_def split: option.splits)

lemma bind_GetUserByPhoneHash:
  "prog_bind (transact (repo_GetUserByPhoneHash h)) f w = f (List.find (\<lambda>u. usr_PhoneHash u = h) (tb_users (w_db w))) w"
  by (simp add: prog_bind_def prog_try_def transact_def on_db_def InTx_def repo_GetUserByPhoneHash_def
      q_GetUserByPhoneHash_def tx_optional_def sql_find_def split: option.splits)

lemma uc_ChangePassword_Inr:
  assumes "uc_ChangePassword C i old new w = (Inr (), w1)"
  obtains u h where "find_row usr_ID i (tb_users (w_db w)) = Some u"
    and "repo_UpdateUserPassword i (usr_AuthVersion u) h (w_db w) = Inr ((), w_db w1)"
proof (cases "find_row usr_ID i (tb_users (w_db w))")
  case None
  then show ?thesis using assms by (auto simp: uc_ChangePassword_def bind_GetAuthUser prog_throw_at split: if_splits)
next
  case (Some u)
  then have "\<exists>h. repo_UpdateUserPassword i (usr_AuthVersion u) h (w_db w) = Inr ((), w_db w1)"
    using assms by (cases "ComparePassword C (usr_PasswordHash u) old")
      (auto simp: uc_ChangePassword_def bind_GetAuthUser prog_throw_at prog_Inr split: if_splits)
  then show ?thesis using that Some by blast
qed

text \<open>
  A refused login tells nothing about the accounts: whether the phone number is unknown or
  the password is wrong, the answer and what happens to the store are the same. Two worlds with
  the same session store but any two databases give the same refusal.
\<close>

theorem login_refusal_reveals_nothing:
  assumes "w_provider v = w_provider w"
    and "uc_Login C ac phone password w = (Inl e, w')" and "uc_Login C ac phone password v = (Inl e', v')"
  shows "e = e' \<and> w_provider w' = w_provider v'"
proof -
  let ?res = "ReserveLoginAttempt (HashPhone C phone (ac_PhoneSecret ac)) (loginAccountBurst ac) (loginAccountInterval ac)"
  have same: "fst (?res v) = fst (?res w) \<and> w_provider (snd (?res v)) = w_provider (snd (?res w))"
    using assms(1) by (auto simp: ReserveLoginAttempt_def on_redis_def prog_bind_def prog_try_def prog_throw_def
        prog_return_def split: prod.splits)
  obtain r w1 v1 where r: "?res w = (r, w1)" "?res v = (r, v1)" and p: "w_provider v1 = w_provider w1"
    using same by (metis prod.collapse)
  have look: "e = invalid_credentials \<and> y = x" if "(case u of None \<Rightarrow> prog_throw invalid_credentials
    | Some u \<Rightarrow> (case ComparePassword C (usr_PasswordHash u) password of
        Inl e \<Rightarrow> prog_throw invalid_credentials | Inr _ \<Rightarrow> prog_return u)) x = (Inl e, y)" for u e and x y :: auth_world
    using that by (auto simp: prog_throw_at prog_return_def split: option.splits sum.splits)
  consider "bad_password password" | "\<not> IsValidCNMobile phone" | (run) "\<not> bad_password password" "IsValidCNMobile phone" by blast
  then show ?thesis
  proof cases
    case run
    show ?thesis
    proof (cases r)
      case (Inl x)
      then show ?thesis using assms(2,3) run r p by (simp add: uc_Login_def prog_try_def prog_throw_at Let_def)
    next
      case (Inr wait)
      show ?thesis
      proof (cases "wait > 0")
        case True
        then show ?thesis using assms(2,3) run r p Inr by (simp add: uc_Login_def prog_try_def prog_throw_at Let_def)
      next
        case False
        have "e = invalid_credentials \<and> w' = w1" "e' = invalid_credentials \<and> v' = v1"
          using assms(2,3) run r Inr False
          by (simp_all add: uc_Login_def prog_try_def Let_def bind_GetUserByPhoneHash look)
        then show ?thesis using p by simp
      qed
    qed
  qed (use assms in \<open>auto simp: uc_Login_def prog_throw_at split: if_splits\<close>)
qed

text \<open>
  C40. Changing the password revokes what was signed before: claims that were accepted for the
  account when the old password was verified are refused after the change, in every later state
  of the accounts. Nothing has to be deleted for this: the credential version is gone for good.
\<close>

theorem password_change_revokes_claims:
  assumes "reachable accounts_init account_step (w_db w)"
    and "uc_ChangePassword C i old new w = (Inr (), w1)"
    and "ValidateAccount (Some claims) w = (Inr c, w)" and "clm_UserID claims = i"
    and "account_step\<^sup>*\<^sup>* (w_db w1) s2"
  shows "ValidateAccount (Some claims) (w1\<lparr>w_db := s2\<rparr>) = (Inl unauthorized, w1\<lparr>w_db := s2\<rparr>)"
proof -
  have ok: "accounts_ok (w_db w)" by (rule accounts.inv_reachable [OF assms(1)])
  from assms(2) obtain u h where u: "find_row usr_ID i (tb_users (w_db w)) = Some u"
    and upd: "repo_UpdateUserPassword i (usr_AuthVersion u) h (w_db w) = Inr ((), w_db w1)"
    by (rule uc_ChangePassword_Inr)
  have v: "clm_AuthVersion claims = usr_AuthVersion u" "0 < clm_UserID claims" "0 < clm_AuthVersion claims"
    using assms(3,4) u by (auto simp: ValidateAccount_def bind_GetAuthUser prog_throw_at split: if_splits)
  have "clm_AuthVersion claims \<noteq> usr_AuthVersion x" if "find_row usr_ID i (tb_users s2) = Some x" for x
    using password_version_later [OF ok upd assms(5) that] v(1) by simp
  then show ?thesis
    using v(2,3) assms(4) by (auto simp: ValidateAccount_def bind_GetAuthUser prog_throw_at split: option.splits)
qed

text \<open>
  The stored phone number is the one the user entered: decrypting what \<open>EncryptPhone\<close>
  produced under the same secret gives the number back, through the nonce prefix and the base64
  text.
\<close>

theorem phone_number_round_trip:
  assumes "aead_ok C" and "length nonce = cl_NonceSize C" and "EncryptPhone C nonce phone secret = Inr enc"
  shows "DecryptPhone C enc secret = Inr phone"
  by (rule decrypt_encrypt [OF assms])

end
