(* ===== verification/AccountExample.thy ===== *)
theory AccountExample
  imports SessionSafety Example
begin

text \<open>
  Accounts and sessions at concrete inputs: an account with two addresses, a login session and a
  refresh, and the properties of accounts and sessions applied to them.
\<close>

section \<open>Accounts\<close>

definition ex_acc0 :: db where
  "ex_acc0 = ex_db0\<lparr>tb_users := [], tb_addresses := []\<rparr>"

definition ex_acc1 :: db where
  "ex_acc1 = snd (InTx (repo_CreateUser [] ''mei'' ''h'' ''e'' ''p'') ex_acc0)"

definition ex_adp :: AddressParams where
  "ex_adp = \<lparr>adp_ReceiverName = ''Mei'', adp_ReceiverPhoneHash = ''h'', adp_ReceiverPhoneEncrypt = ''e'',
     adp_Province = ''P'', adp_City = ''C'', adp_District = ''D'', adp_DetailAddress = ''Road 1'', adp_AddressTag = None\<rparr>"

definition ex_acc2 :: db where
  "ex_acc2 = snd (InTx (repo_CreateShippingAddress 1 ex_adp True) ex_acc1)"

definition ex_acc3 :: db where
  "ex_acc3 = snd (InTx (repo_CreateShippingAddress 1 ex_adp True) ex_acc2)"

lemma ex_acc_init: "reachable accounts_init account_step ex_acc0"
  by (rule reachable.reachable_init) (simp add: accounts_init_def ex_acc0_def ex_db0_def)

lemma ex_acc1_reachable: "reachable accounts_init account_step ex_acc1"
  by (rule reachable.reachable_step [OF ex_acc_init], rule account_step.CreateUser)
    (simp add: ex_acc1_def prod_eq_iff)

lemma ex_acc3_reachable: "reachable accounts_init account_step ex_acc3"
proof -
  have "reachable accounts_init account_step ex_acc2"
    by (rule reachable.reachable_step [OF ex_acc1_reachable], rule account_step.CreateAddress)
      (simp add: ex_acc2_def prod_eq_iff)
  then show ?thesis
    by (rule reachable.reachable_step, intro account_step.CreateAddress) (simp add: ex_acc3_def prod_eq_iff)
qed

theorem default_address_is_unique_witness:
  "reachable accounts_init account_step ex_acc3 \<and> map adr_IsDefault (tb_addresses ex_acc3) = [False, True] \<and>
   length (filter (\<lambda>a. adr_UserID a = 1 \<and> adr_IsDefault a) (tb_addresses ex_acc3)) \<le> 1"
  using default_address_is_unique [OF ex_acc3_reachable, of 1] ex_acc3_reachable by (auto, code_simp)

theorem set_default_switches_default_witness:
  "map adr_IsDefault (tb_addresses (snd (InTx (repo_SetDefaultShippingAddress 1 1) ex_acc3))) = [True, False]"
proof -
  have "find_row usr_ID 1 (tb_users ex_acc3) \<noteq> None" by code_simp
  moreover have "map_option adr_UserID (find_row adr_ID 1 (tb_addresses ex_acc3)) = Some 1" by code_simp
  moreover have "map adr_ID (tb_addresses ex_acc3) = [1, 2]" "map adr_UserID (tb_addresses ex_acc3) = [1, 1]" by code_simp+
  ultimately show ?thesis
    using set_default_switches_default [OF ex_acc3_reachable, of 1 1] by auto
qed

theorem credential_version_is_used_once_witness:
  "InTx (repo_UpdateUserPassword 1 1 ''second'') (snd (InTx (repo_UpdateUserPassword 1 1 ''first'') ex_acc1)) =
   (Inl (Conflict ''CREDENTIAL_VERSION_CONFLICT''), snd (InTx (repo_UpdateUserPassword 1 1 ''first'') ex_acc1))"
proof -
  have "fst (InTx (repo_UpdateUserPassword 1 1 ''first'') ex_acc1) = Inr ()" by code_simp
  then have "InTx (repo_UpdateUserPassword 1 1 ''first'') ex_acc1 =
      (Inr (), snd (InTx (repo_UpdateUserPassword 1 1 ''first'') ex_acc1))" by (simp add: prod_eq_iff)
  from credential_version_is_used_once [OF ex_acc1_reachable this rtranclp.rtrancl_refl] show ?thesis .
qed

section \<open>Sessions\<close>

definition ex_crypto :: crypto_lib where
  "ex_crypto = \<lparr>cl_HMAC_SHA256 = (\<lambda>k m. m), cl_HKDF = (\<lambda>s i n. Inr s), cl_NewGCM = (\<lambda>k. Inr ()), cl_NonceSize = 2,
     cl_Seal = (\<lambda>k n p. rev p), cl_Open = (\<lambda>k n c. Inr (rev c)),
     cl_GenerateFromPassword = (\<lambda>p c. Inr p), cl_bcrypt_Cost = (\<lambda>h. Inr 12),
     cl_CompareHashAndPassword = (\<lambda>h p. if h = p then Inr () else Inl (Errorf ''mismatch''))\<rparr>"

definition ex_ac :: auth_conf where
  "ex_ac = \<lparr>ac_AccessTokenSecret = ''a'', ac_AccessTokenTimeout = 60 * 10 ^ 9, ac_RefreshTokenSecret = ''b'',
     ac_RefreshTokenTimeout = 600 * 10 ^ 9, ac_PhoneSecret = ''s'', ac_LoginAccountBurst = 0, ac_LoginAccountInterval = 0\<rparr>"

definition ex_claims :: "string \<Rightarrow> EcommerceClaims" where
  "ex_claims kind = \<lparr>clm_UserID = 1, clm_Role = ''user'', clm_AuthVersion = 1, clm_SessionID = ''sid'', clm_TokenKind = kind,
     clm_ID = ''jti'', clm_IssuedAt = 0, clm_ExpiresAt = 500 * 10 ^ 9\<rparr>"

definition ex_jwt :: jwt_lib where
  "ex_jwt = \<lparr>jw_SignedString = (\<lambda>c s. Inr (clm_TokenKind c)),
     jw_ParseWithClaims = (\<lambda>now s tok. if now < 500 * 10 ^ 9 \<and> tok = ''tok'' then Inr (ex_claims ''refresh'')
       else Inl (Errorf ''jwt''))\<rparr>"

definition ex_redis :: auth_store where
  "ex_redis = \<lparr>rd_data = (\<lambda>k. None)(SessionKey ''sid'' := Some (SessionHash ''1'' ''active'', 500000)),
     rd_clock = 100 * 10 ^ 9, rd_down = False, as_rand = (\<lambda>n. CHR ''x''), as_pos = 0\<rparr>"

definition ex_session :: auth_world where
  "ex_session = \<lparr>w_db = ex_acc1\<lparr>tb_time_Now := 100 * 10 ^ 9\<rparr>, w_provider = ex_redis\<rparr>"

definition ex_later :: "auth_world \<Rightarrow> auth_world" where
  "ex_later w = w\<lparr>w_db := (w_db w)\<lparr>tb_time_Now := tb_time_Now (w_db w) + 10 ^ 9\<rparr>,
     w_provider := (w_provider w)\<lparr>rd_clock := rd_clock (w_provider w) + 10 ^ 9\<rparr>\<rparr>"

lemma ex_jwt_ok: "jwt_ok ex_jwt"
  by (simp add: jwt_ok_def ex_jwt_def ex_claims_def)

lemma ex_later_step: "(auth_step C J ac sid)\<^sup>*\<^sup>* w (ex_later w)"
  unfolding ex_later_def by (intro r_into_rtranclp auth_step.ClockStep) simp

lemma ex_parse_refresh:
  "ParseRefreshToken ex_jwt ex_ac ''tok'' ex_session = (Inr (ex_claims ''refresh''), ex_session)"
  by (simp add: ParseRefreshToken_Inr ex_jwt_def ex_claims_def ex_session_def)


lemma run_fst: "fst x = Inr y \<Longrightarrow> x = (Inr y, snd x)"
  by (simp add: prod_eq_iff)

definition ex_logged_out :: auth_world where
  "ex_logged_out = ex_later (snd (Logout ex_jwt ex_ac (Some (ex_claims ''access'')) '''' ex_session))"

theorem logout_ends_session_witness:
  "isl (fst (ValidateSession (Some (ex_claims ''access'')) ex_logged_out)) \<and>
   isl (fst (RefreshSession ex_jwt ex_ac ''tok'' ex_logged_out))"
proof -
  have out: "fst (Logout ex_jwt ex_ac (Some (ex_claims ''access'')) '''' ex_session) = Inr ()" by code_simp
  have "tb_time_Now (w_db ex_logged_out) = 101 * 10 ^ 9" by code_simp
  then have tok: "ParseRefreshToken ex_jwt ex_ac ''tok'' ex_logged_out = (Inr (ex_claims ''refresh''), ex_logged_out)"
    by (simp add: ParseRefreshToken_Inr ex_jwt_def ex_claims_def)
  have run: "(auth_step C ex_jwt ex_ac (clm_SessionID (ex_claims ''access'')))\<^sup>*\<^sup>*
      (snd (Logout ex_jwt ex_ac (Some (ex_claims ''access'')) '''' ex_session)) ex_logged_out" for C
    unfolding ex_logged_out_def by (rule ex_later_step)
  show ?thesis by (rule logout_ends_session [OF run_fst [OF out] run refl tok]) (simp add: ex_claims_def)
qed

definition ex_attempts :: "nat \<times> auth_store" where
  "ex_attempts = login_attempts ''h'' 30000 5 [0, 0, 0, 0, 0, 0, 40 * 10 ^ 9, 0] ex_redis"


definition ex_phone :: string where
  "ex_phone = ''13800138000''"

text \<open>The phone number belongs to an account here, and to nobody in \<open>ex_session\<close>.\<close>

definition ex_known :: auth_world where
  "ex_known = ex_session\<lparr>w_db := (w_db ex_session)\<lparr>tb_users :=
     map (\<lambda>u. u\<lparr>usr_PhoneHash := HashPhone ex_crypto ex_phone ''s''\<rparr>) (tb_users (w_db ex_session))\<rparr>\<rparr>"

theorem login_refusal_reveals_nothing_witness:
  "fst (uc_Login ex_crypto ex_ac ex_phone ''password'' ex_known) = Inl invalid_credentials \<and>
   fst (uc_Login ex_crypto ex_ac ex_phone ''password'' ex_session) = Inl invalid_credentials \<and>
   w_provider (snd (uc_Login ex_crypto ex_ac ex_phone ''password'' ex_session)) =
   w_provider (snd (uc_Login ex_crypto ex_ac ex_phone ''password'' ex_known))"
proof -
  have known: "fst (uc_Login ex_crypto ex_ac ex_phone ''password'' ex_known) = Inl invalid_credentials" by code_simp
  have stranger: "fst (uc_Login ex_crypto ex_ac ex_phone ''password'' ex_session) = Inl invalid_credentials" by code_simp
  have same: "w_provider ex_known = w_provider ex_session" by (simp add: ex_known_def)
  have run: "x = (Inl y, snd x)" if "fst x = Inl y" for x :: "(error + user) \<times> auth_world" and y
    using that by (simp add: prod_eq_iff)
  show ?thesis
    using login_refusal_reveals_nothing [OF same run [OF stranger] run [OF known]] known stranger by simp
qed

definition ex_changed :: auth_world where
  "ex_changed = snd (uc_ChangePassword ex_crypto 1 ''p'' ''newpassword'' ex_session)"

theorem password_change_revokes_claims_witness:
  "fst (ValidateAccount (Some (ex_claims ''access'')) ex_session) = Inr (ex_claims ''access'') \<and>
   fst (ValidateAccount (Some (ex_claims ''access'')) ex_changed) = Inl unauthorized"
proof -
  have reach: "reachable accounts_init account_step (w_db ex_session)"
    by (rule reachable.reachable_step [OF ex_acc1_reachable], rule account_step.ElsewhereAccounts)
      (simp_all add: ex_session_def)
  have ch: "fst (uc_ChangePassword ex_crypto 1 ''p'' ''newpassword'' ex_session) = Inr ()" by code_simp
  have ok: "fst (ValidateAccount (Some (ex_claims ''access'')) ex_session) = Inr (ex_claims ''access'')" by code_simp
  have same: "snd (ValidateAccount (Some (ex_claims ''access'')) ex_session) = ex_session"
    using ValidateAccount_Inr [OF run_fst [OF ok]] by simp
  have val: "ValidateAccount (Some (ex_claims ''access'')) ex_session = (Inr (ex_claims ''access''), ex_session)"
    using run_fst [OF ok] same by simp
  have "ValidateAccount (Some (ex_claims ''access'')) (ex_changed\<lparr>w_db := w_db ex_changed\<rparr>) =
      (Inl unauthorized, ex_changed\<lparr>w_db := w_db ex_changed\<rparr>)"
    unfolding ex_changed_def
    by (rule password_change_revokes_claims [OF reach run_fst [OF ch] val _ rtranclp.rtrancl_refl])
      (simp add: ex_claims_def)
  then show ?thesis using ok by simp
qed

theorem phone_number_round_trip_witness:
  "EncryptPhone ex_crypto ''xy'' ex_phone ''s'' = Inr ''eHkwMDA4MzEwMDgzMQ=='' \<and>
   DecryptPhone ex_crypto ''eHkwMDA4MzEwMDgzMQ=='' ''s'' = Inr ex_phone"
proof -
  have enc: "EncryptPhone ex_crypto ''xy'' ex_phone ''s'' = Inr ''eHkwMDA4MzEwMDgzMQ==''" by code_simp
  have "DecryptPhone ex_crypto ''eHkwMDA4MzEwMDgzMQ=='' ''s'' = Inr ex_phone"
    by (rule phone_number_round_trip [OF _ _ enc]) (simp_all add: ex_crypto_def aead_ok_def)
  then show ?thesis using enc by simp
qed

end
