(* ===== verification/Snowflake.thy ===== *)
theory Snowflake
  imports Checkout "HOL-Library.Word"
begin

text \<open>
  The id generator (app/mall/internal/data/id\_generator.go): snowflake ids of 41 bits of
  milliseconds, 10 bits of node and 12 bits of sequence, issued by a clock that never goes
  back, and the order and refund numbers built from them. The mutex makes the calls of one
  generator sequential, so a generator is a state that each call updates; what the host clock
  shows at a call is an argument, so that it may go back and forth.
\<close>

unbundle bit_operations_syntax

section \<open>The generator\<close>

definition snowflakeEpochMs :: int where
  "snowflakeEpochMs = 1288834974657"

definition snowflakeStepMask :: int where
  "snowflakeStepMask = 2 ^ 12 - 1"

definition snowflakeMaxNode :: int where
  "snowflakeMaxNode = 2 ^ 10 - 1"

record snowflakeGenerator =
  sg_nodeID :: int
  sg_wallMs :: int
  sg_lastMs :: int
  sg_step :: int
  sg_rollbacks :: int

text \<open>The shifts and the or of \<open>nextID\<close>, on 64-bit words; the result is read as int64.\<close>

definition compose_id :: "int \<Rightarrow> int \<Rightarrow> int \<Rightarrow> 64 word" where
  "compose_id ms node step = push_bit 22 (word_of_int (ms - snowflakeEpochMs)) OR
     push_bit 12 (word_of_int node) OR word_of_int step"

definition nextID :: "snowflakeGenerator \<Rightarrow> int \<Rightarrow> int \<times> snowflakeGenerator" where
  "nextID g0 rawMs =
     (let g1 = (if rawMs < sg_wallMs g0 then g0\<lparr>sg_rollbacks := wrap64 (sg_rollbacks g0 + 1)\<rparr>
                else g0\<lparr>sg_wallMs := rawMs\<rparr>);
          nowMs = max rawMs (sg_lastMs g1);
          g = (if nowMs = sg_lastMs g1 then
                 (let step = wrap64 (sg_step g1 + 1) in
                  if step > snowflakeStepMask then g1\<lparr>sg_lastMs := wrap64 (sg_lastMs g1 + 1), sg_step := 0\<rparr>
                  else g1\<lparr>sg_step := step\<rparr>)
               else g1\<lparr>sg_lastMs := nowMs, sg_step := 0\<rparr>) in
      (sint (compose_id (sg_lastMs g) (sg_nodeID g) (sg_step g)), g))"

text \<open>The ids of a sequence of calls, given what the clock showed at each of them.\<close>

fun nextIDs :: "snowflakeGenerator \<Rightarrow> int list \<Rightarrow> int list" where
  "nextIDs g [] = []"
| "nextIDs g (t # ts) = (case nextID g t of (i, g') \<Rightarrow> i # nextIDs g' ts)"

definition GenerateString :: "snowflakeGenerator \<Rightarrow> int \<Rightarrow> string \<times> snowflakeGenerator" where
  "GenerateString g rawMs = (case nextID g rawMs of (i, g') \<Rightarrow> (FormatInt i, g'))"

section \<open>The node id\<close>

text \<open>\<open>strconv.ParseInt(raw, 10, 64)\<close>: an optional sign, at least one digit, and the range.\<close>

definition ParseInt :: "string \<Rightarrow> int option" where
  "ParseInt raw =
     (let neg = (raw \<noteq> '''' \<and> hd raw = CHR ''-'');
          ds = (if raw \<noteq> '''' \<and> (hd raw = CHR ''-'' \<or> hd raw = CHR ''+'') then tl raw else raw);
          n = (if neg then - int (digits_value ds) else int (digits_value ds)) in
      if ds = '''' \<or> \<not> list_all (\<lambda>c. 48 \<le> (of_char c :: nat) \<and> (of_char c :: nat) < 58) ds \<or> \<not> int64_range n
      then None else Some n)"

definition resolveSnowflakeNodeID :: "int option \<Rightarrow> string \<Rightarrow> error + int" where
  "resolveSnowflakeNodeID c env =
     (case (case c of None \<Rightarrow> None | Some nodeId \<Rightarrow> if nodeId > 0 then Some nodeId else None) of
        Some nodeId \<Rightarrow> Inr nodeId
      | None \<Rightarrow>
        if env = '''' then Inl (Errorf ''snowflake node_id is required'')
        else (case ParseInt env of
            None \<Rightarrow> Inl (Errorf ''invalid SNOWFLAKE_NODE_ID'')
          | Some nodeID \<Rightarrow> if nodeID < 0 \<or> nodeID > snowflakeMaxNode
              then Inl (Errorf ''snowflake node_id out of range'') else Inr nodeID))"

definition NewSnowflakeIDGenerator :: "int option \<Rightarrow> string \<Rightarrow> error + snowflakeGenerator" where
  "NewSnowflakeIDGenerator c env = (case resolveSnowflakeNodeID c env of Inl e \<Rightarrow> Inl e
     | Inr nodeID \<Rightarrow> Inr \<lparr>sg_nodeID = nodeID, sg_wallMs = 0, sg_lastMs = 0, sg_step = 0, sg_rollbacks = 0\<rparr>)"

section \<open>Order and refund numbers\<close>

text \<open>Digits in a base up to 36, most significant first, and left padding with zeros.\<close>

definition digit_char :: "nat \<Rightarrow> char" where
  "digit_char d = char_of (if d < 10 then 48 + d else 87 + d)"

fun base_digits :: "nat \<Rightarrow> nat \<Rightarrow> string" where
  "base_digits b n = (if n < b \<or> b < 2 then [digit_char n] else base_digits b (n div b) @ [digit_char (n mod b)])"

declare base_digits.simps [simp del]

definition pad_zeros :: "nat \<Rightarrow> string \<Rightarrow> string" where
  "pad_zeros width s = replicate (width - length s) CHR ''0'' @ s"

text \<open>\<open>%019d\<close> and \<open>%016x\<close>: the sign, if any, counts towards the width.\<close>

definition format_padded :: "nat \<Rightarrow> nat \<Rightarrow> int \<Rightarrow> string" where
  "format_padded b width i = (if i < 0 then CHR ''-'' # pad_zeros (width - 1) (base_digits b (nat (- i)))
     else pad_zeros width (base_digits b (nat i)))"

text \<open>\<open>prefix[:n]\<close>, or \<open>fmt.Sprintf("%-ns", prefix)\<close>.\<close>

definition fit_prefix :: "nat \<Rightarrow> string \<Rightarrow> string" where
  "fit_prefix n p = (if length p > n then take n p else p @ replicate (n - length p) CHR '' '')"

definition base36UserID :: "int \<Rightarrow> string" where
  "base36UserID userID =
     (let encoded0 = (if userID > 0 then ToUpper (base_digits 36 (nat userID)) else ''0'');
          encoded = (if length encoded0 > 8 then drop (length encoded0 - 8) encoded0 else encoded0) in
      replicate (8 - length encoded) CHR ''0'' @ encoded)"

definition charset :: string where
  "charset = ''ABCDEFGHIJKLMNOPQRSTUVWXYZ0123456789''"

text \<open>\<open>bytes\<close> is what \<open>crypto/rand\<close> read; \<open>None\<close>: it failed and the nanosecond clock is used.\<close>

definition generateSecureRandomString :: "nat \<Rightarrow> nat list option \<Rightarrow> int \<Rightarrow> string" where
  "generateSecureRandomString len bytes nanos =
     (case bytes of
        None \<Rightarrow> take len (format_padded 10 19 nanos)
      | Some b \<Rightarrow> map (\<lambda>i. charset ! (b ! i mod length charset)) [0..<len])"

text \<open>\<open>timestamp\<close> is \<open>time.Now().Format("20060102150405")\<close>.\<close>

definition GenerateOrderNo32 :: "snowflakeGenerator \<Rightarrow> int \<Rightarrow> string \<Rightarrow> string \<Rightarrow> string \<times> snowflakeGenerator" where
  "GenerateOrderNo32 g rawMs timestamp pre =
     (case nextID g rawMs of (i, g') \<Rightarrow> (fit_prefix 2 pre @ timestamp @ format_padded 16 16 i, g'))"

definition GenerateOrderNo64 ::
    "snowflakeGenerator \<Rightarrow> int \<Rightarrow> string \<Rightarrow> nat list option \<Rightarrow> int \<Rightarrow> string \<Rightarrow> int \<Rightarrow> string \<times> snowflakeGenerator" where
  "GenerateOrderNo64 g rawMs timestamp bytes nanos pre userID =
     (case nextID g rawMs of (i, g') \<Rightarrow>
       (fit_prefix 4 pre @ timestamp @ base36UserID userID @ format_padded 10 19 i @
        generateSecureRandomString 19 bytes nanos, g'))"

section \<open>The layout\<close>

lemma sint64: "0 \<le> v \<Longrightarrow> v < 2 ^ 63 \<Longrightarrow> sint (word_of_int v :: 64 word) = v"
  by (simp add: signed_of_int signed_take_bit_int_eq_self)

lemma node_of_id:
  fixes k nd st :: int
  assumes "0 \<le> nd" "nd < 2 ^ 10" "0 \<le> st" "st < 2 ^ 12"
  shows "((k * 2 ^ 10 + nd) * 2 ^ 12 + st) div 2 ^ 12 mod 2 ^ 10 = nd"
proof -
  have "((k * 2 ^ 10 + nd) * 2 ^ 12 + st) div 2 ^ 12 = k * 2 ^ 10 + nd"
    using assms(3,4) by (simp add: div_pos_pos_trivial)
  then show ?thesis using assms(1,2) by (simp add: mod_pos_pos_trivial)
qed

lemma compose_id_value:
  assumes "0 \<le> t" "t < 2 ^ 41" "0 \<le> node" "node < 2 ^ 10" "0 \<le> st" "st < 2 ^ 12"
  shows "sint (compose_id (snowflakeEpochMs + t) node st) = (t * 2 ^ 10 + node) * 2 ^ 12 + st"
proof -
  have low: "st OR push_bit 12 k = st + push_bit 12 k" for k
    using concat_bit_eq [of 12 st k] concat_bit_def [of 12 st k] assms(5,6) by (simp add: take_bit_int_eq_self)
  have mid: "node OR push_bit 10 t = node + push_bit 10 t"
    using concat_bit_eq [of 10 node t] concat_bit_def [of 10 node t] assms(3,4) by (simp add: take_bit_int_eq_self)
  have "push_bit 22 t OR push_bit 12 node OR st = st OR push_bit 12 (node OR push_bit 10 t)"
    by (simp add: push_bit_or ac_simps)
  also have "\<dots> = (t * 2 ^ 10 + node) * 2 ^ 12 + st" unfolding mid low by (simp add: push_bit_eq_mult)
  finally have v: "push_bit 22 t OR push_bit 12 node OR st = (t * 2 ^ 10 + node) * 2 ^ 12 + st" .
  have "compose_id (snowflakeEpochMs + t) node st = word_of_int (push_bit 22 t OR push_bit 12 node OR st)"
    by (simp add: compose_id_def push_bit_of_int of_int_or_eq)
  moreover have "sint (word_of_int ((t * 2 ^ 10 + node) * 2 ^ 12 + st) :: 64 word) = (t * 2 ^ 10 + node) * 2 ^ 12 + st"
    by (rule sint64) (use assms in auto)
  ultimately show ?thesis unfolding v by (simp only:)
qed

text \<open>What a generator promises of its state: the sequence fits its field, and the time is in
  the 41-bit range for at least \<open>n\<close> more ids.\<close>

definition gen_ok :: "nat \<Rightarrow> snowflakeGenerator \<Rightarrow> bool" where
  "gen_ok n g \<longleftrightarrow> 0 \<le> sg_nodeID g \<and> sg_nodeID g \<le> snowflakeMaxNode \<and> 0 \<le> sg_step g \<and> sg_step g \<le> snowflakeStepMask \<and>
     0 \<le> sg_lastMs g \<and> sg_lastMs g + int n < snowflakeEpochMs + 2 ^ 41"

text \<open>The clock of the host in the supported range, which ends in 2045.\<close>

definition clock_ok :: "int \<Rightarrow> bool" where
  "clock_ok t \<longleftrightarrow> snowflakeEpochMs \<le> t \<and> t < snowflakeEpochMs + 2 ^ 40"

definition id_value :: "snowflakeGenerator \<Rightarrow> int" where
  "id_value g = ((sg_lastMs g - snowflakeEpochMs) * 2 ^ 10 + sg_nodeID g) * 2 ^ 12 + sg_step g"

lemmas sg_consts = snowflakeEpochMs_def snowflakeStepMask_def snowflakeMaxNode_def

text \<open>One call: the state keeps its promise, the id is the value of the new state, and it is
  greater than that of the old one.\<close>

lemma nextID_step:
  assumes "gen_ok (Suc n) g" and "clock_ok t" and "n < 2 ^ 40" and "nextID g t = (i, g')"
  shows "gen_ok n g'" and "i = id_value g'" and "snowflakeEpochMs \<le> sg_lastMs g'" and "id_value g < i" and "0 \<le> i"
    and "sg_nodeID g' = sg_nodeID g"
proof -
  define last' step' where "last' = (if t > sg_lastMs g then t else if sg_step g = 2 ^ 12 - 1 then sg_lastMs g + 1 else sg_lastMs g)"
    and "step' = (if t > sg_lastMs g \<or> sg_step g = 2 ^ 12 - 1 then 0 else sg_step g + 1)"
  note r = assms(1-3) [unfolded gen_ok_def clock_ok_def sg_consts]
  have w: "wrap64 (sg_step g + 1) = sg_step g + 1" "wrap64 (sg_lastMs g + 1) = sg_lastMs g + 1"
    "wrap64 4096 = 4096"
    using r by (auto intro!: wrap64_id simp: int64_range_def)
  have g': "sg_lastMs g' = last'" "sg_step g' = step'" "sg_nodeID g' = sg_nodeID g"
    "i = sint (compose_id last' (sg_nodeID g) step')"
    using assms(4) r unfolding nextID_def Let_def last'_def step'_def snowflakeStepMask_def
    by (auto simp: max_def w split: if_splits)
  have b: "snowflakeEpochMs \<le> last'" "last' + int n < snowflakeEpochMs + 2 ^ 41" "0 \<le> step'" "step' \<le> 2 ^ 12 - 1"
    "sg_lastMs g < last' \<or> sg_lastMs g = last' \<and> sg_step g < step'"
    using r unfolding last'_def step'_def sg_consts by (auto split: if_splits)
  have nd: "0 \<le> sg_nodeID g" "sg_nodeID g < 2 ^ 10" using r by auto
  show "gen_ok n g'" using b nd by (simp add: gen_ok_def g' sg_consts)
  show v: "i = id_value g'"
    using compose_id_value [of "last' - snowflakeEpochMs" "sg_nodeID g" step'] b nd by (simp add: g' id_value_def)
  show "snowflakeEpochMs \<le> sg_lastMs g'" "sg_nodeID g' = sg_nodeID g" using b(1) by (simp_all add: g')
  show "id_value g < i" using b nd r unfolding v id_value_def g' sg_consts by auto
  show "0 \<le> i" using b nd unfolding v id_value_def g' by auto
qed

lemma nextIDs_above:
  assumes "gen_ok (length ts) g" and "list_all clock_ok ts" and "length ts < 2 ^ 40"
  shows "sorted_wrt (<) (nextIDs g ts) \<and> (\<forall>i \<in> set (nextIDs g ts). id_value g < i \<and> 0 \<le> i \<and>
    (i div 2 ^ 12) mod 2 ^ 10 = sg_nodeID g)"
  using assms
proof (induction ts arbitrary: g)
  case (Cons t ts)
  obtain i g' where n: "nextID g t = (i, g')" by fastforce
  have step: "gen_ok (length ts) g'" "i = id_value g'" "id_value g < i" "0 \<le> i" "sg_nodeID g' = sg_nodeID g"
    using nextID_step [OF _ _ _ n, of "length ts"] Cons.prems by auto
  have node: "(i div 2 ^ 12) mod 2 ^ 10 = sg_nodeID g"
    using step(1,5) unfolding step(2) id_value_def by (subst node_of_id) (auto simp: gen_ok_def sg_consts)
  have "sorted_wrt (<) (nextIDs g' ts) \<and> (\<forall>j \<in> set (nextIDs g' ts). id_value g' < j \<and> 0 \<le> j \<and>
    (j div 2 ^ 12) mod 2 ^ 10 = sg_nodeID g')"
    by (rule Cons.IH) (use Cons.prems step(1) in auto)
  then show ?case using n step node by auto
qed simp


text \<open>
  Generators of different nodes never issue the same id, at whatever times they run: the
  node can be read back from every id.
\<close>
theorem snowflake_nodes_never_collide:
  assumes "gen_ok (length ts) g" "list_all clock_ok ts" "length ts < 2 ^ 40"
    and "gen_ok (length us) h" "list_all clock_ok us" "length us < 2 ^ 40"
    and "sg_nodeID g \<noteq> sg_nodeID h"
  shows "set (nextIDs g ts) \<inter> set (nextIDs h us) = {}"
  using nextIDs_above [OF assms(1-3)] nextIDs_above [OF assms(4-6)] assms(7) by fastforce

section \<open>The numbers built from ids\<close>

lemma base_digits_length:
  assumes "2 \<le> b" "n < b ^ k" "0 < k"
  shows "length (base_digits b n) \<le> k"
  using assms
proof (induction b n arbitrary: k rule: base_digits.induct)
  case (1 b n)
  show ?case
  proof (cases "n < b")
    case True
    then show ?thesis using 1(4) by (simp add: base_digits.simps [of b n])
  next
    case False
    obtain j where j: "k = Suc j" using 1(4) by (cases k) auto
    then have k: "k = Suc j" "0 < j" using 1(3) False by (auto intro: Suc_leI gr0I)
    have "n div b < b ^ j" using 1(2,3) k by (simp add: less_mult_imp_div_less mult.commute)
    then have "length (base_digits b (n div b)) \<le> j" using 1(1) [of j] False 1(2) k by simp
    then show ?thesis using False 1(2) k by (simp add: base_digits.simps [of b n])
  qed
qed

lemma pad_zeros_length: "length s \<le> w \<Longrightarrow> length (pad_zeros w s) = w"
  by (simp add: pad_zeros_def)

lemma base36UserID_length: "length (base36UserID u) = 8"
  by (auto simp: base36UserID_def Let_def)

text \<open>
  The numbers have exactly the widths the columns expect: for an id in range, a timestamp
  of 14 characters and enough random bytes (or none), an order number has 32 characters and a
  refund number 64, for every prefix and every user id.
\<close>
theorem order_numbers_have_fixed_width:
  assumes "gen_ok 1 g" and "clock_ok t" and "length timestamp = 14"
    and "0 \<le> nanos" and "nanos \<le> MaxInt64"
  shows "length (fst (GenerateOrderNo32 g t timestamp pre)) = 32 \<and>
    length (fst (GenerateOrderNo64 g t timestamp bytes nanos pre userID)) = 64"
proof -
  obtain i g' where n: "nextID g t = (i, g')" by fastforce
  have i: "0 \<le> i" "i = id_value g'" "gen_ok 0 g'"
    using nextID_step [OF _ assms(2) _ n, of 0] assms(1) by auto
  have "i < 2 ^ 63" using i(3) unfolding i(2) id_value_def gen_ok_def sg_consts by auto
  then have "nat i < 16 ^ 16" "nat i < 10 ^ 19" "nat nanos < 10 ^ 19" using i(1) assms(5) by (auto simp: MaxInt64_def nat_less_iff)
  then have "length (base_digits 16 (nat i)) \<le> 16" "length (base_digits 10 (nat i)) \<le> 19"
      "length (base_digits 10 (nat nanos)) \<le> 19"
    by (intro base_digits_length; simp)+
  then have "length (format_padded 16 16 i) = 16" "length (format_padded 10 19 i) = 19" "length (format_padded 10 19 nanos) = 19"
    using i(1) assms(4) by (simp_all add: format_padded_def pad_zeros_length)
  then show ?thesis
    using assms(3)
    by (auto simp: GenerateOrderNo32_def GenerateOrderNo64_def n fit_prefix_def base36UserID_length
        generateSecureRandomString_def split: option.splits)
qed

lemma nat_digits_base: "nat_digits n = base_digits 10 n"
proof (induction n rule: nat_digits.induct)
  case (1 n)
  then show ?case
    by (cases "n < 10") (simp_all add: nat_digits.simps [of n] base_digits.simps [of 10 n] digit_char_def)
qed

text \<open>
  A generated trade number is always accepted: the decimal form of any int64 id passes the
  check of \<open>out_trade_no\<close>, so \<open>PrepayForOrder\<close> never fails on the number it drew itself.
\<close>
theorem generated_trade_number_is_valid: "validateOutTradeNo (fst (GenerateString g t)) = Inr ()"
proof -
  obtain i g' where n: "nextID g t = (i, g')" by fastforce
  have r: "int64_range i"
    using n sint_range_size [of "compose_id (sg_lastMs g') (sg_nodeID g') (sg_step g')"]
    by (auto simp: nextID_def Let_def int64_range_def word_size)
  have "nat \<bar>i\<bar> < 10 ^ 19" using r by (auto simp: int64_range_def nat_less_iff)
  then have len: "length (nat_digits (nat \<bar>i\<bar>)) \<le> 19" 
    unfolding nat_digits_base by (intro base_digits_length) simp_all
  have "FormatInt i \<noteq> ''''" by (subst FormatInt_def, subst (1 2) nat_digits.simps) simp
  moreover have "length (FormatInt i) \<le> 20" using len by (auto simp: FormatInt_def)
  moreover have "outTradeNo_char c" if "c \<in> set (FormatInt i)" for c
    using FormatInt_num [OF that] by (auto simp: num_char_def outTradeNo_char_def Let_def)
  ultimately show ?thesis by (simp add: GenerateString_def n validateOutTradeNo_def go_len_def)
qed

text \<open>
  A node id from the configuration file is not checked against its 10-bit field (the
  environment variable is): with node 1024 one generator issues at one millisecond the very
  id that a generator with node 0 issues at the next.
\<close>
lemma configured_node_id_can_collide:
  "resolveSnowflakeNodeID (Some 1024) env = Inr 1024 \<and>
   fst (nextID \<lparr>sg_nodeID = 1024, sg_wallMs = 0, sg_lastMs = 0, sg_step = 0, sg_rollbacks = 0\<rparr> 1700000000001)
     = fst (nextID \<lparr>sg_nodeID = 0, sg_wallMs = 0, sg_lastMs = 0, sg_step = 0, sg_rollbacks = 0\<rparr> 1700000000002)"
proof
  show "resolveSnowflakeNodeID (Some 1024) env = Inr 1024" by (simp add: resolveSnowflakeNodeID_def)
qed code_simp

section \<open>Examples\<close>

definition ex_gen :: "int \<Rightarrow> snowflakeGenerator" where
  "ex_gen node = \<lparr>sg_nodeID = node, sg_wallMs = 0, sg_lastMs = 0, sg_step = 0, sg_rollbacks = 0\<rparr>"

text \<open>The clock stands still, goes back and recovers.\<close>

definition ex_clock :: "int list" where
  "ex_clock = [1700000000000, 1700000000000, 1699999999990, 1700000000005]"


theorem snowflake_nodes_never_collide_witness:
  "set (nextIDs (ex_gen 3) ex_clock) \<inter> set (nextIDs (ex_gen 4) ex_clock) = {}"
  by (rule snowflake_nodes_never_collide)
    (simp_all add: gen_ok_def clock_ok_def ex_gen_def ex_clock_def sg_consts)

theorem order_numbers_have_fixed_width_witness:
  "length (fst (GenerateOrderNo64 (ex_gen 3) 1700000000000 ''20231114221320'' None 1700000000000000000 ''rfnd'' 7)) = 64"
proof -
  have "gen_ok 1 (ex_gen 3)" "clock_ok 1700000000000" "length ''20231114221320'' = 14"
    "(1700000000000000000 :: int) \<le> MaxInt64" by code_simp+
  then show ?thesis using order_numbers_have_fixed_width [of "ex_gen 3" 1700000000000 "''20231114221320''" 1700000000000000000] by simp
qed

end
