(* ===== verification/Pages.thy ===== *)
theory Pages
  imports Sessions
begin

text \<open>
  What the community services share (app/mall/internal/biz/community.go): the actor of a
  request, the checks of ids and texts, and keyset pagination. A page cursor is the key of the
  last row of the page, written as JSON and base64; the JSON package is a parameter.

  The locale \<open>paged_listing\<close> states what a listing has to do for its cursors to work; every
  listing of the community is an instance of it.
\<close>

section \<open>Actors and identifiers\<close>

fun PositiveIDs :: "int list \<Rightarrow> error + unit" where
  "PositiveIDs [] = Inr ()"
| "PositiveIDs (i # is) = (if i \<le> 0 then Inl (BadRequest ''INVALID_ID'') else PositiveIDs is)"

lemma PositiveIDs_iff: "PositiveIDs is = Inr () \<longleftrightarrow> list_all (\<lambda>i. 0 < i) is"
  by (induction "is") auto

lemma Actor_Validate_iff: "Actor_Validate a = Inr () \<longleftrightarrow> 0 < actor_ID a"
  by (auto simp: Actor_Validate_def)

lemma Actor_Owns_iff: "Actor_Owns a i adm = Inr () \<longleftrightarrow> 0 < actor_ID a \<and> (actor_ID a = i \<or> adm \<and> actor_Admin a)"
  by (auto simp: Actor_Owns_def Actor_Validate_def)

text \<open>\<open>pgtype.Int8{Int64: id, Valid: id > 0}\<close>.\<close>

definition communityID :: "int \<Rightarrow> int option" where
  "communityID i = (if i > 0 then Some i else None)"

text \<open>The actor of a request is taken from its claims.\<close>

definition actor :: "EcommerceClaims option \<Rightarrow> error + Actor" where
  "actor ctx = (case authenticatedClaims ctx of
     Inl e \<Rightarrow> Inl e
   | Inr c \<Rightarrow> Inr \<lparr>actor_ID = clm_UserID c, actor_Admin = (clm_Role c = ''admin'')\<rparr>)"

definition q_LockCommunityUser :: "int \<Rightarrow> (db, user) tx" where
  "q_LockCommunityUser i = sql_get tb_users usr_ID i"

definition lockCommunityUser :: "int \<Rightarrow> (db, unit) tx" where
  "lockCommunityUser i = tx_seq (tx_on_no_rows (q_LockCommunityUser i) (tx_throw (Unauthorized ''UNAUTHORIZED''))) (tx_return ())"

lemma lockCommunityUser_Inr [tx_simps]:
  "lockCommunityUser i s = Inr (r, s') \<longleftrightarrow> (\<exists>u. find_row usr_ID i (tb_users s) = Some u) \<and> s' = s"
  by (auto simp: lockCommunityUser_def q_LockCommunityUser_def tx_simps)

lemma pk_find: "pk key t \<Longrightarrow> r \<in> set t \<Longrightarrow> find_row key (key r) t = Some r"
  by (simp add: pk_def find_row_mem)

section \<open>Texts\<close>

text \<open>
  \<open>utf8.ValidString\<close>: well-formed sequences of one to four bytes, without surrogates and
  overlong forms.
\<close>

definition cont_byte :: "char \<Rightarrow> bool" where
  "cont_byte c \<longleftrightarrow> 128 \<le> (of_char c :: nat) \<and> (of_char c :: nat) < 192"

definition in_bytes :: "nat \<Rightarrow> nat \<Rightarrow> char \<Rightarrow> bool" where
  "in_bytes lo hi c \<longleftrightarrow> lo \<le> (of_char c :: nat) \<and> (of_char c :: nat) \<le> hi"

fun ValidString :: "string \<Rightarrow> bool" where
  "ValidString [] \<longleftrightarrow> True"
| "ValidString (a # s) \<longleftrightarrow>
     (if in_bytes 0 127 a then ValidString s
      else case s of
        [] \<Rightarrow> False
      | b # s2 \<Rightarrow>
          if in_bytes 194 223 a then cont_byte b \<and> ValidString s2
          else case s2 of
            [] \<Rightarrow> False
          | c # s3 \<Rightarrow>
              if in_bytes 224 239 a then
                (if in_bytes 224 224 a then in_bytes 160 191 b
                 else if in_bytes 237 237 a then in_bytes 128 159 b else cont_byte b) \<and>
                cont_byte c \<and> ValidString s3
              else case s3 of
                [] \<Rightarrow> False
              | d # s4 \<Rightarrow>
                  in_bytes 240 244 a \<and>
                  (if in_bytes 240 240 a then in_bytes 144 191 b
                   else if in_bytes 244 244 a then in_bytes 128 143 b else cont_byte b) \<and>
                  cont_byte c \<and> cont_byte d \<and> ValidString s4)"

text \<open>
  \<open>strings.TrimSpace\<close> on text: the encodings of the code points that \<open>unicode.IsSpace\<close>
  accepts, removed at both ends. UTF-8 is self-synchronising, so a suffix with the bytes of a
  space is that space.
\<close>

definition space_runes :: "string list" where
  "space_runes = map (map char_of) ([[9], [10], [11], [12], [13], [32], [194, 133], [194, 160], [225, 154, 128],
     [226, 128, 168], [226, 128, 169], [226, 128, 175], [226, 129, 159], [227, 128, 128]] @
     map (\<lambda>i. [226, 128, i]) [128..<139 :: nat])"

definition starts_with :: "string list \<Rightarrow> string \<Rightarrow> nat" where
  "starts_with ps s = (case List.find (\<lambda>p. take (length p) s = p) ps of None \<Rightarrow> 0 | Some p \<Rightarrow> length p)"

function trim_left :: "string list \<Rightarrow> string \<Rightarrow> string" where
  "trim_left ps s = (let n = starts_with ps s in if n = 0 \<or> s = [] then s else trim_left ps (drop n s))"
  by pat_completeness auto
termination by (relation "measure (\<lambda>(ps, s). length s)") auto

declare trim_left.simps [simp del]

definition TrimSpace_text :: "string \<Rightarrow> string" where
  "TrimSpace_text s = rev (trim_left (map rev space_runes) (rev (trim_left space_runes s)))"

definition ValidText :: "string \<Rightarrow> int \<Rightarrow> error + string" where
  "ValidText s mx = (let s = TrimSpace_text s in
     if \<not> ValidString s \<or> RuneCountInString s < 1 \<or> RuneCountInString s > mx \<or>
        CHR 0x00 \<in> set s \<or> CHR ''<'' \<in> set s \<or> CHR ''>'' \<in> set s
     then Inl (BadRequest ''INVALID_CONTENT'') else Inr s)"

lemma ValidText_Inr:
  "ValidText s mx = Inr t \<Longrightarrow> t \<noteq> [] \<and> 1 \<le> RuneCountInString t \<and> RuneCountInString t \<le> mx"
  by (auto simp: ValidText_def Let_def split: if_splits) (simp add: RuneCountInString_def)

section \<open>Cursors\<close>

text \<open>Times are nanoseconds since 1970 in UTC; a decoded time carries its zone's offset in seconds.\<close>

record Page =
  pag_Scope :: string
  pag_Time :: int
  pag_ID :: int
  pag_Limit :: int
  pag_HasCursor :: bool

record cursor =
  cur_Version :: int
  cur_Scope :: string
  cur_Time :: int
  cur_Offset :: int
  cur_ID :: int

text \<open>
  \<open>encoding/json\<close> on cursors: \<open>cj_Marshal\<close> writes one, \<open>cj_Decode\<close> reads the first value of
  the input with unknown fields disallowed and says whether the input ends after it.
\<close>

record cursor_json =
  cj_Marshal :: "cursor \<Rightarrow> string"
  cj_Decode :: "string \<Rightarrow> (cursor \<times> bool) option"

definition year_end_9999 :: int where
  "year_end_9999 = 253402300800 * 1000000000"

text \<open>\<open>Year()\<close> is between 1970 and 9999.\<close>

definition year_ok :: "int \<Rightarrow> bool" where
  "year_ok t \<longleftrightarrow> 0 \<le> t \<and> t < year_end_9999"

definition zero_time :: int where
  "zero_time = - 62135596800 * 1000000000"

text \<open>
  Reading back what was written, and the size of it, for the cursors the server writes: an
  \<open>int64\<close> key, a time in UTC and a scope without characters that JSON escapes.
\<close>

definition scope_char :: "char \<Rightarrow> bool" where
  "scope_char c \<longleftrightarrow> in_bytes 97 122 c \<or> in_bytes 48 58 c \<or> c = CHR ''-''"

definition written_cursor :: "cursor \<Rightarrow> bool" where
  "written_cursor c \<longleftrightarrow> cur_Version c = 1 \<and> list_all scope_char (cur_Scope c) \<and> year_ok (cur_Time c) \<and> cur_Offset c = 0 \<and>
     int64_range (cur_ID c)"

definition cursor_json_ok :: "cursor_json \<Rightarrow> bool" where
  "cursor_json_ok J \<longleftrightarrow> (\<forall>c. written_cursor c \<longrightarrow>
     cj_Decode J (cj_Marshal J c) = Some (c, True) \<and> cj_Marshal J c \<noteq> [] \<and>
     length (cj_Marshal J c) \<le> 160 + length (cur_Scope c))"

abbreviation invalid_cursor :: error where
  "invalid_cursor \<equiv> BadRequest ''INVALID_CURSOR''"

definition ParsePage :: "cursor_json \<Rightarrow> string \<Rightarrow> string \<Rightarrow> int \<Rightarrow> error + Page" where
  "ParsePage J raw scope pageSize =
     (let p = \<lparr>pag_Scope = scope, pag_Time = 0, pag_ID = 0, pag_Limit = (if pageSize = 0 then 20 else pageSize), pag_HasCursor = False\<rparr> in
      if pageSize < 0 \<or> pageSize > 50 then Inl invalid_cursor
      else if raw = '''' then Inr p
      else if go_len raw > 512 then Inl invalid_cursor
      else case DecodeString RawURLEncoding_Strict raw of
        Inl e \<Rightarrow> Inl invalid_cursor
      | Inr b \<Rightarrow> (case cj_Decode J b of
          None \<Rightarrow> Inl invalid_cursor
        | Some (c, eof) \<Rightarrow>
            if \<not> eof \<or> cur_Version c \<noteq> 1 \<or> cur_Scope c \<noteq> scope \<or> cur_ID c \<le> 0 \<or> cur_Time c = zero_time \<or>
               \<not> year_ok (cur_Time c + cur_Offset c * 1000000000)
            then Inl invalid_cursor
            else Inr (p\<lparr>pag_Time := cur_Time c, pag_ID := cur_ID c, pag_HasCursor := True\<rparr>)))"

definition NextCursor :: "cursor_json \<Rightarrow> Page \<Rightarrow> int \<Rightarrow> int \<Rightarrow> string" where
  "NextCursor J p t i = EncodeToString RawURLEncoding_Strict
     (cj_Marshal J \<lparr>cur_Version = 1, cur_Scope = pag_Scope p, cur_Time = t, cur_Offset = 0, cur_ID = i\<rparr>)"

fun Scope :: "string \<Rightarrow> int list \<Rightarrow> string" where
  "Scope kind [] = kind"
| "Scope kind (i # is) = Scope (kind @ '':'' @ FormatInt i) is"

lemma length_EncodeToString:
  "\<not> b64_padded E \<Longrightarrow> 3 * length (EncodeToString E s) \<le> 4 * length s + 2"
  by (induction E s rule: EncodeToString.induct) (auto simp: Let_def)

lemma EncodeToString_Nil: "EncodeToString E s = [] \<longleftrightarrow> s = []"
  by (cases "(E, s)" rule: EncodeToString.cases) (auto simp: Let_def)

lemma cursor_json_okD:
  assumes "cursor_json_ok J" and "written_cursor c"
  shows "cj_Decode J (cj_Marshal J c) = Some (c, True)" and "cj_Marshal J c \<noteq> []"
    and "length (cj_Marshal J c) \<le> 160 + length (cur_Scope c)"
  using assms unfolding cursor_json_ok_def by blast+

text \<open>A cursor that the server gave out is accepted by the listing it belongs to, as the key it was made of.\<close>

lemma parse_next_cursor:
  assumes "cursor_json_ok J" and "year_ok t" and "0 < i" and "int64_range i" and "list_all scope_char (pag_Scope p)"
    and "length (pag_Scope p) \<le> 200" and "0 \<le> pageSize" and "pageSize \<le> 50"
  shows "ParsePage J (NextCursor J p t i) (pag_Scope p) pageSize =
    Inr \<lparr>pag_Scope = pag_Scope p, pag_Time = t, pag_ID = i, pag_Limit = (if pageSize = 0 then 20 else pageSize), pag_HasCursor = True\<rparr>"
proof -
  let ?c = "\<lparr>cur_Version = 1, cur_Scope = pag_Scope p, cur_Time = t, cur_Offset = 0, cur_ID = i\<rparr>"
  have "written_cursor ?c" using assms by (simp add: written_cursor_def)
  with assms(1) have c: "cj_Decode J (cj_Marshal J ?c) = Some (?c, True)" "cj_Marshal J ?c \<noteq> []"
    "length (cj_Marshal J ?c) \<le> 160 + length (pag_Scope p)"
    using cursor_json_okD [of J ?c] by simp_all
  have "3 * length (NextCursor J p t i) \<le> 4 * length (cj_Marshal J ?c) + 2"
    unfolding NextCursor_def by (rule length_EncodeToString) (simp add: RawURLEncoding_Strict_def)
  then have "go_len (NextCursor J p t i) \<le> 512" using c(3) assms(6) by (simp add: go_len_def)
  moreover have "NextCursor J p t i \<noteq> []" using c(2) by (simp add: NextCursor_def EncodeToString_Nil)
  moreover have "DecodeString RawURLEncoding_Strict (NextCursor J p t i) = Inr (cj_Marshal J ?c)"
    by (simp add: NextCursor_def decode_encode)
  moreover have "t \<noteq> zero_time" using assms(2) by (simp add: year_ok_def zero_time_def)
  ultimately show ?thesis using c(1) assms by (simp add: ParsePage_def Let_def)
qed

lemma NextCursor_nonempty:
  "cursor_json_ok J \<Longrightarrow> year_ok t \<Longrightarrow> int64_range i \<Longrightarrow> list_all scope_char (pag_Scope p) \<Longrightarrow> NextCursor J p t i \<noteq> []"
  by (simp add: NextCursor_def EncodeToString_Nil cursor_json_okD written_cursor_def)

lemma ParsePage_limit: "ParsePage J raw scope pageSize = Inr p \<Longrightarrow> 1 \<le> pag_Limit p \<and> pag_Limit p \<le> 50 \<and> pag_Scope p = scope"
  by (auto simp: ParsePage_def Let_def split: if_splits sum.splits option.splits prod.splits)

section \<open>Reading page after page\<close>

text \<open>
  The part of a page that every listing shares: one row more than the limit is read, to know
  whether there is a next page; the cursor is the key of the last row that is returned.
\<close>

definition cut_page :: "('r \<Rightarrow> string) \<Rightarrow> int \<Rightarrow> 'r list \<Rightarrow> 'r list \<times> string" where
  "cut_page cur lmt rows =
     (if go_len rows > lmt then (take (nat lmt) rows, cur (rows ! (nat lmt - 1))) else (rows, ''''))"

text \<open>A client that follows the cursors until there is none, at most \<open>n\<close> pages.\<close>

fun fetch_all :: "nat \<Rightarrow> (string \<Rightarrow> error + ('r list \<times> string)) \<Rightarrow> string \<Rightarrow> (error + 'r list) option" where
  "fetch_all 0 list_page raw = None"
| "fetch_all (Suc n) list_page raw = (case list_page raw of
     Inl e \<Rightarrow> Some (Inl e)
   | Inr (rows, nxt) \<Rightarrow>
       if nxt = '''' then Some (Inr rows)
       else map_option (map_sum id ((@) rows)) (fetch_all n list_page nxt))"

text \<open>
  A listing with cursors: the first page is cut from all rows, and the page after a row is cut
  from the rows behind it.
\<close>

locale paged_listing =
  fixes ok :: "'s \<Rightarrow> bool"
    and list_page :: "'s \<Rightarrow> string \<Rightarrow> error + ('r list \<times> string)"
    and rows :: "'s \<Rightarrow> 'r list"
    and cur :: "'s \<Rightarrow> 'r \<Rightarrow> string"
    and lmt :: "'s \<Rightarrow> int"
  assumes first_page: "ok s \<Longrightarrow> list_page s '''' = Inr (cut_page (cur s) (lmt s) (take (nat (lmt s) + 1) (rows s)))"
    and later_page: "ok s \<Longrightarrow> rows s = xs @ r # ys \<Longrightarrow>
      list_page s (cur s r) = Inr (cut_page (cur s) (lmt s) (take (nat (lmt s) + 1) ys))"
    and cursor_nonempty: "ok s \<Longrightarrow> r \<in> set (rows s) \<Longrightarrow> cur s r \<noteq> ''''"
    and limit_positive: "ok s \<Longrightarrow> 1 \<le> lmt s"
begin

lemma cut_long:
  assumes "ok s" and "nat (lmt s) < length ys"
  shows "cut_page (cur s) (lmt s) (take (nat (lmt s) + 1) ys) = (take (nat (lmt s)) ys, cur s (ys ! (nat (lmt s) - 1)))"
  using assms limit_positive [of s] by (simp add: cut_page_def go_len_def)

lemma cut_short:
  assumes "ok s" and "length ys \<le> nat (lmt s)"
  shows "cut_page (cur s) (lmt s) (take (nat (lmt s) + 1) ys) = (ys, '''')"
  using assms limit_positive [of s] by (auto simp: cut_page_def go_len_def)

lemma fetch_from:
  assumes "ok s" and "rows s = pre @ ys" and "length ys < n"
    and "list_page s raw = Inr (cut_page (cur s) (lmt s) (take (nat (lmt s) + 1) ys))"
  shows "fetch_all n (list_page s) raw = Some (Inr ys)"
  using assms(2-)
proof (induction n arbitrary: pre ys raw)
  case (Suc n)
  let ?l = "nat (lmt s)"
  show ?case
  proof (cases "?l < length ys")
    case True
    have l: "1 \<le> ?l" using limit_positive [OF assms(1)] by simp
    obtain r where r: "r = ys ! (?l - 1)" by simp
    have split: "ys = take (?l - 1) ys @ r # drop ?l ys"
      using True l id_take_nth_drop [of "?l - 1" ys] by (simp add: r)
    have tk: "take ?l ys = take (?l - 1) ys @ [r]"
      using True l take_Suc_conv_app_nth [of "?l - 1" ys] by (simp add: r)
    have rin: "r \<in> set (rows s)" unfolding Suc.prems(1) using split by (metis in_set_conv_decomp Un_iff set_append)
    have all: "rows s = (pre @ take (?l - 1) ys) @ r # drop ?l ys" using Suc.prems(1) split by (metis append_assoc)
    have "fetch_all n (list_page s) (cur s r) = Some (Inr (drop ?l ys))"
      by (rule Suc.IH [of "pre @ take ?l ys"])
        (use Suc.prems(1,2) l True later_page [OF assms(1) all] in auto)
    then show ?thesis
      using Suc.prems(3) cut_long [OF assms(1) True, folded r] cursor_nonempty [OF assms(1) rin] by simp
  next
    case False
    then show ?thesis using Suc.prems(3) cut_short [OF assms(1)] by simp
  qed
qed simp

text \<open>Following the cursors reads every row once, in order, and ends.\<close>

lemma fetch_complete: "ok s \<Longrightarrow> length (rows s) < n \<Longrightarrow> fetch_all n (list_page s) '''' = Some (Inr (rows s))"
  using fetch_from [of s "[]" "rows s" n "[]"] first_page [of s] by simp

end

text \<open>A filter by the cursor keeps what follows the row of the cursor.\<close>

lemma filter_after:
  assumes "sorted_wrt (\<lambda>a b. before (key a) (key b)) (xs @ r # ys)" and "\<And>k. \<not> before k k"
    and "\<And>a b. before a b \<Longrightarrow> \<not> before b a"
  shows "filter (\<lambda>x. before (key r) (key x)) (xs @ r # ys) = ys"
proof -
  have "filter (\<lambda>x. before (key r) (key x)) xs = []"
    using assms(1,3) by (auto simp: sorted_wrt_append filter_empty_conv)
  moreover have "filter (\<lambda>x. before (key r) (key x)) ys = ys"
    using assms(1) by (auto simp: sorted_wrt_append intro: filter_True)
  ultimately show ?thesis using assms(2) by simp
qed

text \<open>Sorting by a key that tells the rows apart is strict.\<close>

lemma sorted_wrt_sort_key:
  assumes "distinct (map key t)"
  shows "sorted_wrt (\<lambda>a b. key a < key b) (sort_key key t)"
proof -
  have "sorted (map key (sort_key key t))" by simp
  moreover have "distinct (map key (sort_key key t))"
    using assms distinct_sort_key by blast
  ultimately have "sorted_wrt (<) (map key (sort_key key t))"
    by (simp add: strict_sorted_iff)
  then show ?thesis by (simp add: sorted_wrt_map)
qed

lemma page_after:
  assumes "distinct (map key t)" and "sort_key key t = xs @ r # ys"
  shows "sort_key key (filter (\<lambda>x. key r < key x) t) = ys"
proof -
  have "sort_key key (filter (\<lambda>x. key r < key x) t) = filter (\<lambda>x. key r < key x) (xs @ r # ys)"
    using assms(2) by (simp add: filter_sort [symmetric])
  also have "\<dots> = ys"
    by (rule filter_after [where before = "(<)"]) (use sorted_wrt_sort_key [OF assms(1)] assms(2) in auto)
  finally show ?thesis .
qed

lemma neg_pair_less: "(- a, - b) < (- c, - d) \<longleftrightarrow> (c, d) < (a, b :: int)" for a c :: int
  by (auto simp: less_prod_def)

lemma cut_page_map:
  "0 < lmt \<Longrightarrow> cut_page cur lmt (map f rows) = (case cut_page (\<lambda>r. cur (f r)) lmt rows of (rs, nxt) \<Rightarrow> (map f rs, nxt))"
  by (auto simp: cut_page_def go_len_def take_map)

text \<open>Scopes are short.\<close>

lemma length_nat_digits: "n < 10 ^ k \<Longrightarrow> 0 < k \<Longrightarrow> length (nat_digits n) \<le> k"
proof (induction k arbitrary: n)
  case (Suc k)
  show ?case
  proof (cases "n < 10")
    case True
    then show ?thesis by (subst nat_digits.simps) simp
  next
    case False
    then have "0 < k" using Suc.prems(1) by (cases k) auto
    moreover have "n div 10 < 10 ^ k" using Suc.prems(1) by (simp add: less_mult_imp_div_less mult.commute)
    ultimately have "length (nat_digits (n div 10)) \<le> k" using Suc.IH by blast
    then show ?thesis using False by (subst nat_digits.simps) simp
  qed
qed simp

lemma length_FormatInt: "int64_range i \<Longrightarrow> length (FormatInt i) \<le> 20"
proof -
  assume "int64_range i"
  then have "nat \<bar>i\<bar> < 10 ^ 19" by (simp add: int64_range_def nat_less_iff abs_if)
  then have "length (nat_digits (nat \<bar>i\<bar>)) \<le> 19" using length_nat_digits by simp
  then show ?thesis by (auto simp: FormatInt_def abs_if split: if_splits)
qed

lemma length_Scope: "list_all int64_range is \<Longrightarrow> length (Scope kind is) \<le> length kind + 21 * length is"
proof (induction "is" arbitrary: kind)
  case (Cons i "is")
  then show ?case using Cons.IH [of "kind @ '':'' @ FormatInt i"] length_FormatInt [of i] by simp
qed simp

lemma nat_digits_scope: "list_all scope_char (nat_digits n)"
  using nat_digits_chars [of _ n] by (fastforce simp: list_all_iff scope_char_def in_bytes_def)

lemma scope_chars_Scope: "list_all scope_char kind \<Longrightarrow> list_all scope_char (Scope kind is)"
proof (induction "is" arbitrary: kind)
  case (Cons i "is")
  have "list_all scope_char (FormatInt i)" using nat_digits_scope by (simp add: FormatInt_def scope_char_def)
  moreover have "scope_char (CHR '':'')" by (simp add: scope_char_def in_bytes_def)
  ultimately show ?case using Cons by simp
qed simp

lemma set_cut_page: "set (fst (cut_page cur lmt rows)) \<subseteq> set rows"
  by (auto simp: cut_page_def dest: in_set_takeD)

lemma cut_page_cong:
  assumes "0 < lmt" and "\<And>r. r \<in> set rows \<Longrightarrow> cur r = cur' r"
  shows "cut_page cur lmt rows = cut_page cur' lmt rows"
  using assms by (auto simp: cut_page_def go_len_def)

section \<open>Listings by key\<close>

text \<open>
  How the repositories list: the page says after which key to go on, the cursor of a page is the
  key of its last row. With \<open>ParsePage\<close> in front this is a listing with cursors.
\<close>

locale keyset_listing =
  fixes ok :: "'s \<Rightarrow> bool"
    and json :: "'s \<Rightarrow> cursor_json"
    and scope :: "'s \<Rightarrow> string"
    and pageSize :: "'s \<Rightarrow> int"
    and page_of :: "'s \<Rightarrow> Page \<Rightarrow> error + ('r list \<times> string)"
    and rows :: "'s \<Rightarrow> 'r list"
    and tm :: "'r \<Rightarrow> int"
    and ident :: "'r \<Rightarrow> int"
  assumes json_ok: "ok s \<Longrightarrow> cursor_json_ok (json s)"
    and size_ok: "ok s \<Longrightarrow> 0 \<le> pageSize s \<and> pageSize s \<le> 50"
    and scope_ok: "ok s \<Longrightarrow> length (scope s) \<le> 200 \<and> list_all scope_char (scope s)"
    and row_ok: "ok s \<Longrightarrow> r \<in> set (rows s) \<Longrightarrow> year_ok (tm r) \<and> 0 < ident r \<and> int64_range (ident r)"
    and first_key: "ok s \<Longrightarrow> \<not> pag_HasCursor p \<Longrightarrow> 0 < pag_Limit p \<Longrightarrow> page_of s p =
      Inr (cut_page (\<lambda>r. NextCursor (json s) p (tm r) (ident r)) (pag_Limit p) (take (nat (pag_Limit p) + 1) (rows s)))"
    and later_key: "ok s \<Longrightarrow> rows s = xs @ r # ys \<Longrightarrow> pag_HasCursor p \<Longrightarrow> pag_Time p = tm r \<Longrightarrow> pag_ID p = ident r \<Longrightarrow>
      0 < pag_Limit p \<Longrightarrow> page_of s p =
      Inr (cut_page (\<lambda>r. NextCursor (json s) p (tm r) (ident r)) (pag_Limit p) (take (nat (pag_Limit p) + 1) ys))"

definition list_from :: "cursor_json \<Rightarrow> string \<Rightarrow> int \<Rightarrow> (Page \<Rightarrow> error + 'r) \<Rightarrow> string \<Rightarrow> error + 'r" where
  "list_from J scope pageSize page_of raw = (case ParsePage J raw scope pageSize of Inl e \<Rightarrow> Inl e | Inr p \<Rightarrow> page_of p)"

definition page_size :: "int \<Rightarrow> int" where
  "page_size z = (if z = 0 then 20 else z)"

definition key_cursor :: "cursor_json \<Rightarrow> string \<Rightarrow> int \<Rightarrow> int \<Rightarrow> string" where
  "key_cursor J scope t i = NextCursor J \<lparr>pag_Scope = scope, pag_Time = 0, pag_ID = 0, pag_Limit = 1, pag_HasCursor = False\<rparr> t i"

lemma key_cursor: "pag_Scope p = scope \<Longrightarrow> NextCursor J p t i = key_cursor J scope t i"
  by (simp add: NextCursor_def key_cursor_def)

sublocale keyset_listing \<subseteq> paged_listing ok "\<lambda>s. list_from (json s) (scope s) (pageSize s) (page_of s)" rows
  "\<lambda>s r. key_cursor (json s) (scope s) (tm r) (ident r)" "\<lambda>s. page_size (pageSize s)"
proof
  fix s assume ok: "ok s"
  show lim: "1 \<le> page_size (pageSize s)" using size_ok [OF ok] by (simp add: page_size_def)
  define p where "p = \<lparr>pag_Scope = scope s, pag_Time = 0, pag_ID = 0, pag_Limit = page_size (pageSize s), pag_HasCursor = False\<rparr>"
  have "ParsePage (json s) '''' (scope s) (pageSize s) = Inr p"
    using size_ok [OF ok] by (simp add: ParsePage_def p_def page_size_def)
  then show "list_from (json s) (scope s) (pageSize s) (page_of s) '''' = Inr (cut_page (\<lambda>r. key_cursor (json s) (scope s) (tm r) (ident r))
      (page_size (pageSize s)) (take (nat (page_size (pageSize s)) + 1) (rows s)))"
    using first_key [OF ok, of p] lim key_cursor [of p "scope s"] by (simp add: list_from_def p_def)
  show "key_cursor (json s) (scope s) (tm r) (ident r) \<noteq> ''''" if "r \<in> set (rows s)" for r
    using NextCursor_nonempty [OF json_ok [OF ok]] row_ok [OF ok that] scope_ok [OF ok] by (simp add: key_cursor_def)
  fix xs r ys assume split: "rows s = xs @ r # ys"
  define q where "q = \<lparr>pag_Scope = scope s, pag_Time = tm r, pag_ID = ident r, pag_Limit = page_size (pageSize s), pag_HasCursor = True\<rparr>"
  have "ParsePage (json s) (key_cursor (json s) (scope s) (tm r) (ident r)) (scope s) (pageSize s) = Inr q"
    using parse_next_cursor [OF json_ok [OF ok], of "tm r" "ident r" p "pageSize s"] row_ok [OF ok, of r] split scope_ok [OF ok] size_ok [OF ok]
      key_cursor [of p "scope s"] by (simp add: q_def p_def page_size_def)
  then show "list_from (json s) (scope s) (pageSize s) (page_of s) (key_cursor (json s) (scope s) (tm r) (ident r)) =
      Inr (cut_page (\<lambda>r. key_cursor (json s) (scope s) (tm r) (ident r)) (page_size (pageSize s)) (take (nat (page_size (pageSize s)) + 1) ys))"
    using later_key [OF ok split, of q] lim key_cursor [of q "scope s"] by (simp add: list_from_def q_def)
qed

end
