(* ===== verification/Cache.thy ===== *)
theory Cache
  imports Pages Catalog
begin

text \<open>
  The Redis copies of product projections (app/mall/internal/data/cache.go, cache\_generation.go,
  cache\_invalidation.go, cache\_invalidation\_repository.go, product\_cache.go, redis\_key.go, the
  reading side of product.go, db/cache\_invalidations.sql.go and job/cache\_invalidation.go). A
  cached value lives under a key that carries a generation; whoever changes the rows behind it
  increments the generation, and the database records every change in an outbox so that a lost
  increment is repeated.

  Requests, commits, invalidations and the recovery worker interleave in single steps, between
  the Redis and database calls of the code. Expiry is modelled as an entry that may vanish at any
  time; the JSON codec is a parameter.
\<close>

section \<open>Keys\<close>

definition redisKey :: "string list \<Rightarrow> string" where
  "redisKey parts = join_sep (CHR '':'') parts"

datatype projection =
    ProductByID int
  | ProductList int int
  | ProductsOfCategory int int int

text \<open>The generation key of a projection, and the key of its value under a generation.\<close>

fun gen_key :: "projection \<Rightarrow> string" where
  "gen_key (ProductByID i) = redisKey [''product'', FormatInt i, ''gen'']"
| "gen_key (ProductList lmt off) = redisKey [''product'', ''list'', ''gen'']"
| "gen_key (ProductsOfCategory c lmt off) = redisKey [''product'', ''category'', FormatInt c, ''gen'']"

fun value_key :: "projection \<Rightarrow> int \<Rightarrow> string" where
  "value_key (ProductByID i) g = redisKey [''product'', FormatInt i, ''g'', FormatInt g]"
| "value_key (ProductList lmt off) g = redisKey [''product'', ''list'', FormatInt g, FormatInt lmt, FormatInt off]"
| "value_key (ProductsOfCategory c lmt off) g =
     redisKey [''product'', ''category'', FormatInt c, FormatInt g, FormatInt lmt, FormatInt off]"

lemma join_sep_inj:
  assumes "join_sep c ps = join_sep c qs" and "ps \<noteq> []" and "qs \<noteq> []"
    and "list_all (\<lambda>p. c \<notin> set p) ps" and "list_all (\<lambda>p. c \<notin> set p) qs"
  shows "ps = qs"
  using assms
proof (induction c ps arbitrary: qs rule: join_sep.induct)
  case (2 c x)
  then obtain y ys where qs: "qs = y # ys" by (cases qs) auto
  have "ys = []"
  proof (rule ccontr)
    assume "ys \<noteq> []"
    then have "c \<in> set (join_sep c qs)" by (cases ys) (auto simp: qs)
    then show False using 2 by auto
  qed
  then show ?case using 2 qs by simp
next
  case (3 c x y ys)
  obtain u us where qs: "qs = u # us" using 3 by (cases qs) auto
  obtain v vs where us: "us = v # vs"
  proof (cases us)
    case Nil
    then have "c \<in> set u" using 3(2) qs by (metis in_set_conv_decomp join_sep.simps(2,3))
    then show ?thesis using 3 qs by simp
  qed
  have e: "x @ c # join_sep c (y # ys) = u @ c # join_sep c (v # vs)" using 3(2) by (simp add: qs us)
  have c: "c \<notin> set x" "c \<notin> set u" using 3 by (simp_all add: qs)
  have "takeWhile (\<lambda>d. d \<noteq> c) (x @ c # r) = x" if "c \<notin> set x" for x r
    using that by (subst takeWhile_append2) auto
  then have "x = u" using e c by metis
  then show ?case using e 3 by (simp add: qs us)
qed simp

lemma FormatInt_chars: "c \<in> set (FormatInt i) \<Longrightarrow> c = CHR ''-'' \<or> 48 \<le> (of_char c :: nat) \<and> (of_char c :: nat) < 58"
  using nat_digits_chars by (auto simp: FormatInt_def split: if_splits)

lemma FormatInt_plain: "CHR '':'' \<notin> set (FormatInt i)"
  using FormatInt_chars [of "CHR '':''" i] by auto

lemma FormatInt_not_word: "FormatInt i \<noteq> CHR ''g'' # w" "FormatInt i \<noteq> CHR ''l'' # w" "FormatInt i \<noteq> CHR ''c'' # w"
proof -
  have "FormatInt i = c # w \<Longrightarrow> c = CHR ''-'' \<or> 48 \<le> (of_char c :: nat) \<and> (of_char c :: nat) < 58" for c
    using FormatInt_chars [of c i] by simp
  from this [of "CHR ''g''"] this [of "CHR ''l''"] this [of "CHR ''c''"]
  show "FormatInt i \<noteq> CHR ''g'' # w" "FormatInt i \<noteq> CHR ''l'' # w" "FormatInt i \<noteq> CHR ''c'' # w" by auto
qed

lemma redisKey_inj:
  "redisKey ps = redisKey qs \<Longrightarrow> ps \<noteq> [] \<Longrightarrow> qs \<noteq> [] \<Longrightarrow> list_all (\<lambda>p. CHR '':'' \<notin> set p) ps \<Longrightarrow>
   list_all (\<lambda>p. CHR '':'' \<notin> set p) qs \<Longrightarrow> ps = qs"
  unfolding redisKey_def by (rule join_sep_inj)

lemma value_key_inj: "value_key \<pi> g = value_key \<pi>' g' \<longleftrightarrow> \<pi> = \<pi>' \<and> g = g'"
  by (cases \<pi>; cases \<pi>') (auto dest!: redisKey_inj simp: FormatInt_plain FormatInt_inject FormatInt_not_word FormatInt_not_word [symmetric])

lemma value_key_not_gen: "value_key \<pi> g \<noteq> gen_key \<pi>'"
  by (cases \<pi>; cases \<pi>') (auto dest!: redisKey_inj simp: FormatInt_plain FormatInt_inject FormatInt_not_word FormatInt_not_word [symmetric])

section \<open>Redis\<close>

datatype cache_entry =
    Counter int
  | Encoded string

text \<open>\<open>rdb\<close> is absent without a configured server; \<open>rc_up\<close>: it can be reached.\<close>

record redis_client =
  rc_data :: "string \<Rightarrow> cache_entry option"
  rc_up :: bool

definition put_entry :: "string \<Rightarrow> cache_entry option \<Rightarrow> redis_client \<Rightarrow> redis_client" where
  "put_entry k v r = r\<lparr>rc_data := (rc_data r)(k := v)\<rparr>"

text \<open>A missing key is generation 0; whatever is not a counter disables caching.\<close>

definition cacheGeneration :: "redis_client option \<Rightarrow> string \<Rightarrow> int" where
  "cacheGeneration rdb key = (case rdb of
     None \<Rightarrow> - 1
   | Some r \<Rightarrow>
       if \<not> rc_up r then - 1
       else (case rc_data r key of
           None \<Rightarrow> 0
         | Some (Counter g) \<Rightarrow> if g \<ge> 0 then g else - 1
         | Some (Encoded e) \<Rightarrow> - 1))"

definition readCacheGeneration :: "bool \<Rightarrow> redis_client option \<Rightarrow> string \<Rightarrow> int" where
  "readCacheGeneration inTransaction rdb key = (if inTransaction then - 1 else cacheGeneration rdb key)"

definition generationCacheKey :: "int \<Rightarrow> string \<Rightarrow> string" where
  "generationCacheKey generation key = (if generation < 0 then '''' else key)"

text \<open>The key a request reads under, empty where caching is disabled.\<close>

definition cache_key :: "bool \<Rightarrow> redis_client option \<Rightarrow> projection \<Rightarrow> string" where
  "cache_key inTransaction rdb \<pi> =
     (let generation = readCacheGeneration inTransaction rdb (gen_key \<pi>) in generationCacheKey generation (value_key \<pi> generation))"

definition readJSONCache :: "(string \<Rightarrow> 'v option) \<Rightarrow> bool \<Rightarrow> redis_client option \<Rightarrow> string \<Rightarrow> 'v option" where
  "readJSONCache unmarshal inTransaction rdb key =
     (if key = '''' \<or> inTransaction then None
      else case rdb of
        None \<Rightarrow> None
      | Some r \<Rightarrow>
          if \<not> rc_up r then None
          else (case rc_data r key of Some (Encoded e) \<Rightarrow> unmarshal e | Some (Counter g) \<Rightarrow> unmarshal (FormatInt g) | None \<Rightarrow> None))"

text \<open>What the callback of \<open>writeJSONCache\<close> does; a failure is only logged.\<close>

definition writeJSONCache :: "('v \<Rightarrow> string) \<Rightarrow> string \<Rightarrow> 'v \<Rightarrow> redis_client option \<Rightarrow> redis_client option" where
  "writeJSONCache marshal key value rdb =
     (if key = '''' then rdb
      else map_option (\<lambda>r. if rc_up r then put_entry key (Some (Encoded (marshal value))) r else r) rdb)"

section \<open>Invalidation\<close>

record redisCacheInvalidation =
  rci_generations :: "string list"
  rci_deletes :: "string list"

definition newCacheInvalidation :: redisCacheInvalidation where
  "newCacheInvalidation = \<lparr>rci_generations = [], rci_deletes = []\<rparr>"

definition add_keys :: "string list \<Rightarrow> string list \<Rightarrow> string list" where
  "add_keys new have = foldl (\<lambda>ks k. if k = '''' \<or> k \<in> set ks then ks else ks @ [k]) have new"

definition invalidation_add :: "string list \<Rightarrow> string list \<Rightarrow> redisCacheInvalidation \<Rightarrow> redisCacheInvalidation" where
  "invalidation_add generations deletes b = b\<lparr>rci_generations := add_keys generations (rci_generations b),
     rci_deletes := add_keys deletes (rci_deletes b)\<rparr>"

text \<open>\<open>INCR\<close> and \<open>UNLINK\<close>; \<open>INCR\<close> of a text fails.\<close>

definition incr :: "string \<Rightarrow> redis_client \<Rightarrow> redis_client" where
  "incr k r = (case rc_data r k of
     None \<Rightarrow> put_entry k (Some (Counter 1)) r
   | Some (Counter g) \<Rightarrow> put_entry k (Some (Counter (g + 1))) r
   | Some (Encoded e) \<Rightarrow> r)"

definition unlink :: "string list \<Rightarrow> redis_client \<Rightarrow> redis_client" where
  "unlink ks r = fold (\<lambda>k. put_entry k None) ks r"

definition countable_key :: "string \<Rightarrow> redis_client \<Rightarrow> bool" where
  "countable_key k r = (case rc_data r k of Some (Encoded e) \<Rightarrow> False | _ \<Rightarrow> True)"

text \<open>
  One pipeline: \<open>applied\<close> says which commands the server carried out before the connection broke; the
  client sees success only when all were carried out and none failed.
\<close>

definition flush :: "(string \<Rightarrow> bool) \<Rightarrow> bool \<Rightarrow> redisCacheInvalidation \<Rightarrow> redis_client \<Rightarrow> (error + unit) \<times> redis_client" where
  "flush applied acked b r =
     (if rci_generations b = [] \<and> rci_deletes b = [] then (Inr (), r)
      else if \<not> rc_up r then (Inl (Errorf ''redis''), r)
      else (let r1 = fold incr (filter applied (rci_generations b)) r;
                r2 = unlink (filter applied (rci_deletes b)) r1 in
        if acked \<and> list_all applied (rci_generations b) \<and> list_all applied (rci_deletes b) \<and>
           list_all (\<lambda>k. countable_key k r) (rci_generations b)
        then (Inr (), r2) else (Inl (Errorf ''pipeline''), r2)))"

text \<open>What a change of a product invalidates: the keys the repository and the order code name.\<close>

definition category_keys :: "int list \<Rightarrow> string list" where
  "category_keys categoryIDs = map (\<lambda>c. redisKey [''product'', ''category'', FormatInt c, ''gen''])
     (remdups (filter (\<lambda>c. c > 0) categoryIDs))"

definition invalidateProduct :: "int \<Rightarrow> int list \<Rightarrow> redisCacheInvalidation \<Rightarrow> redisCacheInvalidation" where
  "invalidateProduct productID categoryIDs = invalidation_add
     ([redisKey [''product'', FormatInt productID, ''gen''], ''product:list:gen''] @ category_keys categoryIDs)
     [redisKey [''product'', FormatInt productID]]"

text \<open>\<open>ListOrderProductCacheTargets\<close>: id and category of every product of the order.\<close>

definition invalidateProductCachesForOrder :: "(int \<times> int) list \<Rightarrow> redisCacheInvalidation \<Rightarrow> redisCacheInvalidation" where
  "invalidateProductCachesForOrder rows = invalidation_add
     (''product:list:gen'' # concat (map (\<lambda>(i, c). [redisKey [''product'', FormatInt i, ''gen''],
        redisKey [''product'', ''category'', FormatInt c, ''gen'']]) rows))
     (map (\<lambda>(i, c). redisKey [''product'', FormatInt i]) rows)"

section \<open>The outbox\<close>

record cache_invalidation =
  civ_ID :: int
  civ_GenerationKeys :: "string list"

text \<open>\<open>enqueue_projection_invalidation\<close> on a row of \<open>products\<close>: the row before and after.\<close>

fun product_targets :: "product option \<times> product option \<Rightarrow> string list" where
  "product_targets (None, None) = []"
| "product_targets (Some old, None) = [redisKey [''product'', FormatInt (prd_ID old), ''gen''], ''product:list:gen'',
     redisKey [''product'', ''category'', FormatInt (prd_CategoryID old), ''gen'']]"
| "product_targets (None, Some new) = [redisKey [''product'', FormatInt (prd_ID new), ''gen''], ''product:list:gen'',
     redisKey [''product'', ''category'', FormatInt (prd_CategoryID new), ''gen'']]"
| "product_targets (Some old, Some new) = [redisKey [''product'', FormatInt (prd_ID new), ''gen''], ''product:list:gen'',
     redisKey [''product'', ''category'', FormatInt (prd_CategoryID new), ''gen'']] @
     (if prd_CategoryID old \<noteq> prd_CategoryID new then [redisKey [''product'', ''category'', FormatInt (prd_CategoryID old), ''gen'']] else [])"

definition changed_products :: "product list \<Rightarrow> product list \<Rightarrow> (product option \<times> product option) list" where
  "changed_products old new = filter (\<lambda>(a, b). a \<noteq> b)
     (map (\<lambda>i. (find_row prd_ID i old, find_row prd_ID i new)) (remdups (map prd_ID old @ map prd_ID new)))"

definition q_LockCacheInvalidations :: "int \<Rightarrow> cache_invalidation list \<Rightarrow> cache_invalidation list" where
  "q_LockCacheInvalidations lmt t = take (nat lmt) (sort_key civ_ID t)"

definition q_DeleteCacheInvalidations :: "int list \<Rightarrow> cache_invalidation list \<Rightarrow> cache_invalidation list" where
  "q_DeleteCacheInvalidations ids t = filter (\<lambda>r. civ_ID r \<notin> set ids) t"

section \<open>The system\<close>

text \<open>
  Reads that hold a key but have not loaded yet, loaded values that are still to be published (and
  are shared by the requests that wait for the same key), and as a history variable the
  generation keys of projections that changed since the key was last incremented.
\<close>

record cache_sys =
  sys_db :: db
  sys_outbox :: "cache_invalidation list"
  sys_rdb :: redis_client
  sys_reads :: "(projection \<times> string) list"
  sys_flight :: "(string \<times> string) list"
  sys_stale :: "string set"

record product_codec =
  pc_one :: "Product option \<Rightarrow> string"
  pc_read_one :: "string \<Rightarrow> Product option option"
  pc_many :: "Product list \<Rightarrow> string"
  pc_read_many :: "string \<Rightarrow> Product list option"

definition codec_ok :: "product_codec \<Rightarrow> bool" where
  "codec_ok C \<longleftrightarrow> (\<forall>v. pc_read_one C (pc_one C v) = Some v) \<and> (\<forall>v. pc_read_many C (pc_many C v) = Some v)"

definition repo_ListProducts :: "decimal_lib \<Rightarrow> int \<Rightarrow> int \<Rightarrow> (db, Product list) tx" where
  "repo_ListProducts L lmt off = tx_bind (q_ListProducts lmt off) (\<lambda>ps. tx_return (map (toBizProduct L) ps))"

definition repo_ListProductsByCategory :: "decimal_lib \<Rightarrow> int \<Rightarrow> int \<Rightarrow> int \<Rightarrow> (db, Product list) tx" where
  "repo_ListProductsByCategory L c lmt off = tx_bind (q_ListProductsByCategory c lmt off) (\<lambda>ps. tx_return (map (toBizProduct L) ps))"

text \<open>What a load of the projection publishes; the loads of products cannot fail.\<close>

definition loaded :: "error + 'v \<Rightarrow> ('v \<Rightarrow> string) \<Rightarrow> string" where
  "loaded r marshal = (case r of Inl e \<Rightarrow> '''' | Inr v \<Rightarrow> marshal v)"

fun load_text :: "product_codec \<Rightarrow> decimal_lib \<Rightarrow> projection \<Rightarrow> db \<Rightarrow> string" where
  "load_text C L (ProductByID i) s = loaded (fst (InTx (repo_GetProduct L i) s)) (pc_one C)"
| "load_text C L (ProductList lmt off) s = loaded (fst (InTx (repo_ListProducts L lmt off) s)) (pc_many C)"
| "load_text C L (ProductsOfCategory c lmt off) s = loaded (fst (InTx (repo_ListProductsByCategory L c lmt off) s)) (pc_many C)"

text \<open>
  \<open>FlushCacheInvalidations\<close>: the rows stay unless the pipeline and then the commit of the
  transaction succeeded. The server is always configured here: \<open>NewRedisClient\<close> gives no nil client.
\<close>

definition FlushCacheInvalidations ::
    "(string \<Rightarrow> bool) \<Rightarrow> bool \<Rightarrow> bool \<Rightarrow> int \<Rightarrow> cache_sys \<Rightarrow> (error + int) \<times> cache_sys" where
  "FlushCacheInvalidations applied acked committed lmt s =
     (if lmt < 1 \<or> lmt > 1000 then (Inl (Errorf ''cache invalidation batch must be between 1 and 1000''), s)
      else (let rows = q_LockCacheInvalidations lmt (sys_outbox s) in
        if rows = [] then (Inr 0, s)
        else (let b = foldl (\<lambda>b row. invalidation_add (civ_GenerationKeys row) [] b) newCacheInvalidation rows in
          case flush applied acked b (sys_rdb s) of
            (Inl e, r) \<Rightarrow> (Inl e, s\<lparr>sys_rdb := r\<rparr>)
          | (Inr _, r) \<Rightarrow>
              if committed then (Inr (go_len rows), s\<lparr>sys_rdb := r, sys_outbox := q_DeleteCacheInvalidations (map civ_ID rows) (sys_outbox s)\<rparr>)
              else (Inl (Errorf ''commit''), s\<lparr>sys_rdb := r\<rparr>))))"

definition CacheInvalidationWorker_Work ::
    "(string \<Rightarrow> bool) \<Rightarrow> bool \<Rightarrow> bool \<Rightarrow> cache_sys \<Rightarrow> (error + unit) \<times> cache_sys" where
  "CacheInvalidationWorker_Work applied acked committed s = (case FlushCacheInvalidations applied acked committed 1000 s of
     (Inl e, s') \<Rightarrow> (Inl e, s') | (Inr n, s') \<Rightarrow> (Inr (), s'))"

section \<open>Steps\<close>

definition generation_of :: "redis_client \<Rightarrow> string \<Rightarrow> int" where
  "generation_of r k = (case rc_data r k of Some (Counter g) \<Rightarrow> g | _ \<Rightarrow> 0)"

text \<open>The history variable after a step.\<close>

definition note_stale :: "product_codec \<Rightarrow> decimal_lib \<Rightarrow> cache_sys \<Rightarrow> cache_sys \<Rightarrow> cache_sys" where
  "note_stale C L s s' = s'\<lparr>sys_stale :=
     (sys_stale s - {k. generation_of (sys_rdb s') k \<noteq> generation_of (sys_rdb s) k}) \<union>
     {gen_key \<pi> |\<pi>. load_text C L \<pi> (sys_db s') \<noteq> load_text C L \<pi> (sys_db s)}\<rparr>"

text \<open>What the code invalidates: it increments no value and deletes no generation.\<close>

definition batch_ok :: "redisCacheInvalidation \<Rightarrow> bool" where
  "batch_ok b \<longleftrightarrow> (\<forall>\<pi> g. value_key \<pi> g \<notin> set (rci_generations b)) \<and> (\<forall>\<pi>. gen_key \<pi> \<notin> set (rci_deletes b))"

inductive cache_step :: "product_codec \<Rightarrow> decimal_lib \<Rightarrow> cache_sys \<Rightarrow> cache_sys \<Rightarrow> bool" for C L where
  Commit: "pk prd_ID (tb_products d) \<Longrightarrow> pk civ_ID (sys_outbox s @ new) \<Longrightarrow>
    set (concat (map product_targets (changed_products (tb_products (sys_db s)) (tb_products d)))) \<subseteq>
      set (concat (map civ_GenerationKeys new)) \<Longrightarrow>
    (\<forall>\<pi> g. value_key \<pi> g \<notin> set (concat (map civ_GenerationKeys new))) \<Longrightarrow>
    s' = s\<lparr>sys_db := d, sys_outbox := sys_outbox s @ new\<rparr> \<Longrightarrow> cache_step C L s (note_stale C L s s')"
| Invalidate: "batch_ok b \<Longrightarrow> flush applied acked b (sys_rdb s) = (res, r) \<Longrightarrow> s' = s\<lparr>sys_rdb := r\<rparr> \<Longrightarrow>
    cache_step C L s (note_stale C L s s')"
| Recover: "CacheInvalidationWorker_Work applied acked committed s = (res, s') \<Longrightarrow> cache_step C L s (note_stale C L s s')"
| Begin: "k = cache_key False (Some (sys_rdb s)) \<pi> \<Longrightarrow> k \<noteq> '''' \<Longrightarrow> s' = s\<lparr>sys_reads := (\<pi>, k) # sys_reads s\<rparr> \<Longrightarrow>
    cache_step C L s (note_stale C L s s')"
| Load: "(\<pi>, k) \<in> set (sys_reads s) \<Longrightarrow> s' = s\<lparr>sys_flight := (k, load_text C L \<pi> (sys_db s)) # sys_flight s\<rparr> \<Longrightarrow>
    cache_step C L s (note_stale C L s s')"
| Publish: "(k, e) \<in> set (sys_flight s) \<Longrightarrow> writeJSONCache id k e (Some (sys_rdb s)) = Some r \<Longrightarrow> s' = s\<lparr>sys_rdb := r\<rparr> \<Longrightarrow>
    cache_step C L s (note_stale C L s s')"
| Finish: "set reads \<subseteq> set (sys_reads s) \<Longrightarrow> set flight \<subseteq> set (sys_flight s) \<Longrightarrow>
    s' = s\<lparr>sys_reads := reads, sys_flight := flight\<rparr> \<Longrightarrow> cache_step C L s (note_stale C L s s')"
| Elsewhere: "(\<forall>\<pi>. rc_data r (gen_key \<pi>) = rc_data (sys_rdb s) (gen_key \<pi>)) \<Longrightarrow>
    (\<forall>\<pi> g. rc_data r (value_key \<pi> g) \<in> {None, rc_data (sys_rdb s) (value_key \<pi> g)}) \<Longrightarrow>
    s' = s\<lparr>sys_rdb := r\<rparr> \<Longrightarrow> cache_step C L s (note_stale C L s s')"

definition cache_init :: "cache_sys \<Rightarrow> bool" where
  "cache_init s \<longleftrightarrow> pk prd_ID (tb_products (sys_db s)) \<and> sys_outbox s = [] \<and> (\<forall>k. rc_data (sys_rdb s) k = None) \<and>
     sys_reads s = [] \<and> sys_flight s = [] \<and> sys_stale s = {}"

section \<open>The trigger covers every change\<close>

lemma gen_key_list: "gen_key (ProductList lmt off) = ''product:list:gen''"
  by (simp add: redisKey_def)

lemma changed_products_iff:
  "(a, b) \<in> set (changed_products old new) \<longleftrightarrow> a \<noteq> b \<and> (\<exists>i. a = find_row prd_ID i old \<and> b = find_row prd_ID i new)"
proof -
  have "i \<in> prd_ID ` set old \<union> prd_ID ` set new" if "find_row prd_ID i old \<noteq> find_row prd_ID i new" for i
    using that by (metis Un_iff find_row_None image_eqI)
  then show ?thesis by (auto simp: changed_products_def)
qed

lemma sql_page_cong:
  assumes "distinct (map key t)" and "distinct (map key u)" and "set t = set u"
  shows "sql_page key lmt off t = sql_page key lmt off u"
proof -
  have "distinct t" "distinct u" using assms(1,2) by (auto simp: distinct_map)
  then have "mset t = mset u" using assms(3) by (simp add: set_eq_iff_mset_eq_distinct)
  moreover have "inj_on (\<lambda>r. - key r) (set t)" using assms(1) by (auto simp: distinct_map inj_on_def)
  ultimately have "sort_key (\<lambda>r. - key r) t = sort_key (\<lambda>r. - key r) u"
    by (intro sort_key_inj_key_eq) simp_all
  then show ?thesis by (simp add: sql_page_def)
qed

lemma page_changed:
  assumes "pk prd_ID t" and "pk prd_ID u" and "sql_page prd_ID lmt off (filter P t) \<noteq> sql_page prd_ID lmt off (filter P u)"
  shows "\<exists>(a, b) \<in> set (changed_products t u). (\<exists>p. a = Some p \<and> P p) \<or> (\<exists>p. b = Some p \<and> P p)"
proof -
  have "distinct (map prd_ID (filter P t))" "distinct (map prd_ID (filter P u))"
    using assms(1,2) by (auto simp: pk_def intro: distinct_map_filter)
  from sql_page_cong [OF this] assms(3) have "set (filter P t) \<noteq> set (filter P u)" by metis
  then obtain p where p: "p \<in> set t \<and> P p \<and> p \<notin> set u \<or> p \<in> set u \<and> P p \<and> p \<notin> set t" by auto
  let ?a = "find_row prd_ID (prd_ID p) t" and ?b = "find_row prd_ID (prd_ID p) u"
  have a: "p \<in> set t \<Longrightarrow> ?a = Some p" and b: "p \<in> set u \<Longrightarrow> ?b = Some p"
    using pk_find [OF assms(1)] pk_find [OF assms(2)] by auto
  have "?a \<noteq> ?b" using p a b find_row_in by metis
  then have "(?a, ?b) \<in> set (changed_products t u)" by (auto simp: changed_products_iff)
  then show ?thesis using p a b by (intro bexI [of _ "(?a, ?b)"]) auto
qed

lemma changed_products_ids:
  assumes "(a, b) \<in> set (changed_products t u)"
  shows "\<exists>i. a \<noteq> b \<and> (\<forall>p. a = Some p \<longrightarrow> prd_ID p = i) \<and> (\<forall>p. b = Some p \<longrightarrow> prd_ID p = i)"
proof -
  obtain i where "a \<noteq> b" "a = find_row prd_ID i t" "b = find_row prd_ID i u" using assms unfolding changed_products_iff by blast
  then show ?thesis using find_row_key [of prd_ID i t] find_row_key [of prd_ID i u] by (intro exI [of _ i]) simp
qed

lemma product_targets_keys:
  assumes "(a, b) \<in> set (changed_products t u)"
  shows "a = Some p \<or> b = Some p \<Longrightarrow> redisKey [''product'', FormatInt (prd_ID p), ''gen''] \<in> set (product_targets (a, b))"
    and "a = Some p \<or> b = Some p \<Longrightarrow> redisKey [''product'', ''category'', FormatInt (prd_CategoryID p), ''gen''] \<in> set (product_targets (a, b))"
    and "''product:list:gen'' \<in> set (product_targets (a, b))"
proof -
  obtain i where i: "a \<noteq> b" "\<forall>p. a = Some p \<longrightarrow> prd_ID p = i" "\<forall>p. b = Some p \<longrightarrow> prd_ID p = i"
    using changed_products_ids [OF assms] by blast
  show "redisKey [''product'', FormatInt (prd_ID p), ''gen''] \<in> set (product_targets (a, b))" if p: "a = Some p \<or> b = Some p"
  proof -
    have "prd_ID p = i" using p i(2,3) by blast
    moreover have "redisKey [''product'', FormatInt i, ''gen''] \<in> set (product_targets (a, b))"
    proof (cases b)
      case None
      then have "a = Some p" using p by simp
      then show ?thesis using None i(2) by simp
    next
      case (Some q)
      have "prd_ID q = i" using Some i(3) by blast
      then show ?thesis using Some by (cases a) simp_all
    qed
    ultimately show ?thesis by simp
  qed
  show "redisKey [''product'', ''category'', FormatInt (prd_CategoryID p), ''gen''] \<in> set (product_targets (a, b))" if "a = Some p \<or> b = Some p"
    using that by (cases a; cases b) auto
  show "''product:list:gen'' \<in> set (product_targets (a, b))" using i(1) by (cases a; cases b) simp_all
qed

lemma load_by_id: "find_row prd_ID i (tb_products s) = find_row prd_ID i (tb_products s') \<Longrightarrow>
   load_text C L (ProductByID i) s = load_text C L (ProductByID i) s'"
  by (simp add: loaded_def InTx_def repo_GetProduct_def tx_bind_def tx_optional_def tx_return_def q_GetProduct_def q_GetProductForOrder_def
      split: option.splits)

lemma load_changed:
  assumes "pk prd_ID (tb_products s)" and "pk prd_ID (tb_products s')" and "load_text C L \<pi> s' \<noteq> load_text C L \<pi> s"
  shows "gen_key \<pi> \<in> set (concat (map product_targets (changed_products (tb_products s) (tb_products s'))))"
proof (cases \<pi>)
  case (ProductByID i)
  let ?a = "find_row prd_ID i (tb_products s)" and ?b = "find_row prd_ID i (tb_products s')"
  have "?a \<noteq> ?b" using assms(3) load_by_id [of i s s' C L] unfolding ProductByID by metis
  then have c: "(?a, ?b) \<in> set (changed_products (tb_products s) (tb_products s'))" unfolding changed_products_iff by blast
  obtain p where p: "?a = Some p \<or> ?b = Some p" using \<open>?a \<noteq> ?b\<close> by (metis not_Some_eq)
  then have "prd_ID p = i" using find_row_key [of prd_ID i _ p] by metis
  then have "gen_key \<pi> \<in> set (product_targets (?a, ?b))" using product_targets_keys(1) [OF c p] ProductByID by simp
  then show ?thesis using c by auto
next
  case (ProductList lmt off)
  then have "sql_page prd_ID lmt off (filter (\<lambda>p. prd_DeletedAt p = None) (tb_products s)) \<noteq>
      sql_page prd_ID lmt off (filter (\<lambda>p. prd_DeletedAt p = None) (tb_products s'))"
    using assms(3) by (auto simp: loaded_def InTx_def repo_ListProducts_def tx_bind_def tx_return_def q_ListProducts_def tx_read_def)
  from page_changed [OF assms(1,2) this] show ?thesis
    using product_targets_keys(3) ProductList gen_key_list by fastforce
next
  case (ProductsOfCategory c lmt off)
  let ?P = "\<lambda>p. prd_CategoryID p = c \<and> prd_Status p = 1 \<and> prd_DeletedAt p = None"
  have "sql_page prd_ID lmt off (filter ?P (tb_products s)) \<noteq> sql_page prd_ID lmt off (filter ?P (tb_products s'))"
    using assms(3) ProductsOfCategory
    by (auto simp: loaded_def InTx_def repo_ListProductsByCategory_def tx_bind_def tx_return_def q_ListProductsByCategory_def tx_read_def)
  from page_changed [OF assms(1,2) this] obtain a b p where ab: "(a, b) \<in> set (changed_products (tb_products s) (tb_products s'))"
    "a = Some p \<or> b = Some p" "?P p" by auto
  then show ?thesis using product_targets_keys(2) [OF ab(1,2)] ProductsOfCategory by auto
qed

section \<open>What the Redis commands do\<close>

lemma put_entry_data [simp]: "rc_data (put_entry k v r) = (rc_data r)(k := v)" "rc_up (put_entry k v r) = rc_up r"
  by (simp_all add: put_entry_def)

lemma incr_other: "k \<noteq> k' \<Longrightarrow> rc_data (incr k r) k' = rc_data r k'"
  by (simp add: incr_def split: option.splits cache_entry.splits)

lemma fold_incr_other: "k \<notin> set ks \<Longrightarrow> rc_data (fold incr ks r) k = rc_data r k"
  by (induction ks arbitrary: r) (auto simp: incr_other)

lemma incr_countable: "countable_key k r \<Longrightarrow> countable_key k (incr k' r)"
  by (auto simp: countable_key_def incr_def split: option.splits cache_entry.splits)

lemma incr_generation: "countable_key k r \<Longrightarrow> generation_of (incr k' r) k = generation_of r k + (if k = k' then 1 else 0)"
  by (auto simp: countable_key_def generation_of_def incr_def split: option.splits cache_entry.splits)

lemma fold_incr_generation:
  "countable_key k r \<Longrightarrow> countable_key k (fold incr ks r) \<and> generation_of (fold incr ks r) k = generation_of r k + int (count_list ks k)"
  by (induction ks arbitrary: r) (auto simp: incr_countable incr_generation)

lemma unlink_data: "rc_data (unlink ks r) k = (if k \<in> set ks then None else rc_data r k)"
  unfolding unlink_def by (induction ks arbitrary: r) auto

lemma flush_value:
  assumes "batch_ok b" and "flush applied acked b r = (res, r')"
  shows "rc_data r' (value_key \<pi> g) \<in> {None, rc_data r (value_key \<pi> g)}"
proof -
  have "value_key \<pi> g \<notin> set (filter applied (rci_generations b))" using assms(1) by (auto simp: batch_ok_def)
  from fold_incr_other [OF this, of r] show ?thesis
    using assms(2) by (auto simp: flush_def Let_def unlink_data split: if_splits)
qed

lemma flush_generation:
  assumes "batch_ok b" and "flush applied acked b r = (res, r')" and "countable_key (gen_key \<pi>) r"
  shows "countable_key (gen_key \<pi>) r' \<and> generation_of r (gen_key \<pi>) \<le> generation_of r' (gen_key \<pi>)"
    and "res = Inr x \<Longrightarrow> gen_key \<pi> \<in> set (rci_generations b) \<Longrightarrow> generation_of r (gen_key \<pi>) < generation_of r' (gen_key \<pi>)"
proof -
  let ?k = "gen_key \<pi>"
  let ?r1 = "fold incr (filter applied (rci_generations b)) r"
  have f: "countable_key ?k ?r1" "generation_of ?r1 ?k = generation_of r ?k + int (count_list (filter applied (rci_generations b)) ?k)"
    using fold_incr_generation [OF assms(3)] by auto
  have u: "rc_data (unlink (filter applied (rci_deletes b)) ?r1) ?k = rc_data ?r1 ?k"
    using assms(1) by (auto simp: unlink_data batch_ok_def)
  show "countable_key ?k r' \<and> generation_of r ?k \<le> generation_of r' ?k"
    using assms(2,3) f u by (auto simp: flush_def Let_def countable_key_def generation_of_def split: if_splits)
  show "generation_of r ?k < generation_of r' ?k" if x: "res = Inr x" and k: "?k \<in> set (rci_generations b)"
  proof -
    have "r' = unlink (filter applied (rci_deletes b)) ?r1" "list_all applied (rci_generations b)"
      using assms(2) x k by (auto simp: flush_def Let_def split: if_splits)
    moreover from this have "0 < count_list (filter applied (rci_generations b)) ?k"
      using k by (simp add: list_all_iff filter_id_conv count_list_0_iff zero_less_iff_neq_zero)
    ultimately show ?thesis using f u by (simp add: generation_of_def)
  qed
qed

section \<open>The invariant\<close>

definition entry_ok :: "product_codec \<Rightarrow> decimal_lib \<Rightarrow> cache_sys \<Rightarrow> projection \<Rightarrow> int \<Rightarrow> string \<Rightarrow> bool" where
  "entry_ok C L s \<pi> g e \<longleftrightarrow> g \<le> generation_of (sys_rdb s) (gen_key \<pi>) \<and>
     (g = generation_of (sys_rdb s) (gen_key \<pi>) \<and> gen_key \<pi> \<notin> sys_stale s \<longrightarrow> e = load_text C L \<pi> (sys_db s))"

definition outbox_keys :: "cache_invalidation list \<Rightarrow> string set" where
  "outbox_keys t = set (concat (map civ_GenerationKeys t))"

definition entries_ok :: "product_codec \<Rightarrow> decimal_lib \<Rightarrow> cache_sys \<Rightarrow> bool" where
  "entries_ok C L s \<longleftrightarrow> (\<forall>\<pi>. countable_key (gen_key \<pi>) (sys_rdb s) \<and> 0 \<le> generation_of (sys_rdb s) (gen_key \<pi>)) \<and>
     (\<forall>\<pi> g e. rc_data (sys_rdb s) (value_key \<pi> g) = Some (Encoded e) \<or> (value_key \<pi> g, e) \<in> set (sys_flight s) \<longrightarrow> entry_ok C L s \<pi> g e) \<and>
     (\<forall>\<pi> g. \<not> (\<exists>n. rc_data (sys_rdb s) (value_key \<pi> g) = Some (Counter n))) \<and>
     (\<forall>k e. (k, e) \<in> set (sys_flight s) \<longrightarrow> (\<exists>\<pi> g. k = value_key \<pi> g)) \<and>
     (\<forall>\<pi> k. (\<pi>, k) \<in> set (sys_reads s) \<longrightarrow> (\<exists>g. k = value_key \<pi> g \<and> g \<le> generation_of (sys_rdb s) (gen_key \<pi>)))"

definition outbox_ok :: "cache_sys \<Rightarrow> bool" where
  "outbox_ok s \<longleftrightarrow> pk prd_ID (tb_products (sys_db s)) \<and> pk civ_ID (sys_outbox s) \<and>
     (\<forall>\<pi> g. value_key \<pi> g \<notin> outbox_keys (sys_outbox s)) \<and>
     sys_stale s \<subseteq> outbox_keys (sys_outbox s) \<and> sys_stale s \<subseteq> range gen_key"

lemma note_stale_simps [simp]:
  "sys_db (note_stale C L s s') = sys_db s'" "sys_outbox (note_stale C L s s') = sys_outbox s'" "sys_rdb (note_stale C L s s') = sys_rdb s'"
  "sys_reads (note_stale C L s s') = sys_reads s'" "sys_flight (note_stale C L s s') = sys_flight s'"
  by (simp_all add: note_stale_def)

lemma note_stale_stale:
  "gen_key \<pi> \<in> sys_stale (note_stale C L s s') \<longleftrightarrow>
     gen_key \<pi> \<in> sys_stale s \<and> generation_of (sys_rdb s') (gen_key \<pi>) = generation_of (sys_rdb s) (gen_key \<pi>) \<or>
     (\<exists>\<pi>'. gen_key \<pi>' = gen_key \<pi> \<and> load_text C L \<pi>' (sys_db s') \<noteq> load_text C L \<pi>' (sys_db s))"
  by (auto simp: note_stale_def)

lemma entry_ok_note:
  assumes "entry_ok C L s \<pi> g e" and "generation_of (sys_rdb s) (gen_key \<pi>) \<le> generation_of (sys_rdb s') (gen_key \<pi>)"
  shows "entry_ok C L (note_stale C L s s') \<pi> g e"
  using assms unfolding entry_ok_def note_stale_stale note_stale_simps by fastforce

text \<open>A step that adds no entry and lowers no generation.\<close>

lemma entries_ok_step:
  assumes "entries_ok C L s"
    and "\<And>\<pi>. countable_key (gen_key \<pi>) (sys_rdb s') \<and> generation_of (sys_rdb s) (gen_key \<pi>) \<le> generation_of (sys_rdb s') (gen_key \<pi>)"
    and "\<And>\<pi> g. rc_data (sys_rdb s') (value_key \<pi> g) \<in> {None, rc_data (sys_rdb s) (value_key \<pi> g)}"
    and "set (sys_reads s') \<subseteq> set (sys_reads s)" and "set (sys_flight s') \<subseteq> set (sys_flight s)"
  shows "entries_ok C L (note_stale C L s s')"
proof -
  have k: "countable_key (gen_key \<pi>) (sys_rdb s')" "generation_of (sys_rdb s) (gen_key \<pi>) \<le> generation_of (sys_rdb s') (gen_key \<pi>)" for \<pi>
    using assms(2) by auto
  have v: "rc_data (sys_rdb s') (value_key \<pi> g) = Some x \<Longrightarrow> rc_data (sys_rdb s) (value_key \<pi> g) = Some x" for \<pi> g x
    using assms(3) [of \<pi> g] by auto
  have "entry_ok C L (note_stale C L s s') \<pi> g e"
    if "rc_data (sys_rdb s') (value_key \<pi> g) = Some (Encoded e) \<or> (value_key \<pi> g, e) \<in> set (sys_flight s')" for \<pi> g e
  proof (rule entry_ok_note [OF _ k(2)])
    show "entry_ok C L s \<pi> g e" using that assms(1,5) v unfolding entries_ok_def by blast
  qed
  moreover have "0 \<le> generation_of (sys_rdb s') (gen_key \<pi>)" for \<pi>
    using assms(1) k(2) [of \<pi>] unfolding entries_ok_def by (meson order_trans)
  moreover have "\<not> (\<exists>n. rc_data (sys_rdb s') (value_key \<pi> g) = Some (Counter n))" for \<pi> g
    using v assms(1) unfolding entries_ok_def by blast
  moreover have "\<exists>\<pi> g. k = value_key \<pi> g" if "(k, e) \<in> set (sys_flight s')" for k e
    using that assms(1,5) unfolding entries_ok_def by blast
  moreover have "\<exists>g. k = value_key \<pi> g \<and> g \<le> generation_of (sys_rdb s') (gen_key \<pi>)" if "(\<pi>, k) \<in> set (sys_reads s')" for \<pi> k
    using that assms(1,4) k(2) [of \<pi>] unfolding entries_ok_def by (meson order_trans subsetD)
  ultimately show ?thesis using k(1) unfolding entries_ok_def note_stale_simps by blast
qed

lemma add_keys_set: "set (add_keys new have) = set have \<union> (set new - {''''})"
  unfolding add_keys_def by (induction new arbitrary: "have") auto

lemma recover_batch:
  "set (rci_generations (foldl (\<lambda>b row. invalidation_add (civ_GenerationKeys row) [] b) b rows)) =
     set (rci_generations b) \<union> (outbox_keys rows - {''''})"
  "rci_deletes (foldl (\<lambda>b row. invalidation_add (civ_GenerationKeys row) [] b) b rows) = rci_deletes b"
  by (induction rows arbitrary: b) (auto simp: invalidation_add_def add_keys_set outbox_keys_def, auto simp: add_keys_def)

lemma outbox_keys_subset: "set t \<subseteq> set u \<Longrightarrow> outbox_keys t \<subseteq> outbox_keys u"
  by (auto simp: outbox_keys_def)

lemma gen_key_nonempty: "gen_key \<pi> \<noteq> ''''" "value_key \<pi> g \<noteq> ''''"
  by (cases \<pi>; simp add: redisKey_def)+

text \<open>What a run of the recovery worker may do.\<close>

lemma recover_elim:
  assumes "outbox_ok s" and "FlushCacheInvalidations applied acked committed lmt s = (res, s')"
  obtains "s' = s" and "\<And>n. res = Inr n \<Longrightarrow> sys_outbox s = []"
  | b fres r where "batch_ok b" and "flush applied acked b (sys_rdb s) = (fres, r)" and "s' = s\<lparr>sys_rdb := r\<rparr>" and "isl res"
  | b r rows where "batch_ok b" and "flush applied acked b (sys_rdb s) = (Inr (), r)"
    and "rows = take (nat lmt) (sort_key civ_ID (sys_outbox s))" and "outbox_keys rows - {''''} \<subseteq> set (rci_generations b)"
    and "s' = s\<lparr>sys_rdb := r, sys_outbox := filter (\<lambda>x. civ_ID x \<notin> civ_ID ` set rows) (sys_outbox s)\<rparr>" and "\<not> isl res"
proof -
  define rows where "rows = take (nat lmt) (sort_key civ_ID (sys_outbox s))"
  define b where "b = foldl (\<lambda>b row. invalidation_add (civ_GenerationKeys row) [] b) newCacheInvalidation rows"
  have sub: "set rows \<subseteq> set (sys_outbox s)" by (metis rows_def set_sort set_take_subset)
  have gens: "set (rci_generations b) = outbox_keys rows - {''''}" "rci_deletes b = []"
    by (simp_all add: b_def recover_batch newCacheInvalidation_def)
  have ok: "batch_ok b" using assms(1) outbox_keys_subset [OF sub] by (auto simp: batch_ok_def gens outbox_ok_def)
  show thesis
  proof (cases "lmt < 1 \<or> lmt > 1000 \<or> rows = []")
    case True
    have "s' = s" using assms(2) True by (auto simp: FlushCacheInvalidations_def q_LockCacheInvalidations_def rows_def [symmetric] Let_def split: if_splits)
    moreover have "sys_outbox s = []" if "res = Inr n" for n
    proof -
      have "1 \<le> lmt" "rows = []" using assms(2) that True
        by (auto simp: FlushCacheInvalidations_def q_LockCacheInvalidations_def rows_def [symmetric] Let_def split: if_splits)
      then have "sort_key civ_ID (sys_outbox s) = []" by (auto simp: rows_def)
      then show ?thesis by (metis length_0_conv length_sort)
    qed
    ultimately show thesis by (rule that(1))
  next
    case False
    obtain fres r where f: "flush applied acked b (sys_rdb s) = (fres, r)" by fastforce
    have run: "(res, s') = (case fres of Inl e \<Rightarrow> (Inl e, s\<lparr>sys_rdb := r\<rparr>)
      | Inr _ \<Rightarrow> if committed then (Inr (go_len rows), s\<lparr>sys_rdb := r, sys_outbox := q_DeleteCacheInvalidations (map civ_ID rows) (sys_outbox s)\<rparr>)
          else (Inl (Errorf ''commit''), s\<lparr>sys_rdb := r\<rparr>))"
      using assms(2) False f by (auto simp: FlushCacheInvalidations_def q_LockCacheInvalidations_def rows_def [symmetric] b_def Let_def split: sum.splits)
    show thesis
    proof (cases "isl fres \<or> \<not> committed")
      case True
      then have "s' = s\<lparr>sys_rdb := r\<rparr>" "isl res" using run by (auto split: sum.splits)
      then show thesis using that(2) ok f by blast
    next
      case False
      then have "s' = s\<lparr>sys_rdb := r, sys_outbox := filter (\<lambda>x. civ_ID x \<notin> civ_ID ` set rows) (sys_outbox s)\<rparr>" "fres = Inr ()" "\<not> isl res"
        using run by (auto simp: q_DeleteCacheInvalidations_def split: sum.splits)
      then show thesis using that(3) [OF ok _ rows_def] f gens(1) by simp
    qed
  qed
qed

lemma generations_kept:
  assumes "entries_ok C L s" and "batch_ok b" and "flush applied acked b (sys_rdb s) = (res, r)"
  shows "countable_key (gen_key \<pi>) r \<and> generation_of (sys_rdb s) (gen_key \<pi>) \<le> generation_of r (gen_key \<pi>)"
  using flush_generation(1) [OF assms(2,3)] assms(1) unfolding entries_ok_def by blast

lemma entries_ok_flush:
  assumes "entries_ok C L s" and "batch_ok b" and "flush applied acked b (sys_rdb s) = (res, r)"
    and "sys_rdb s' = r" and "sys_reads s' = sys_reads s" and "sys_flight s' = sys_flight s"
  shows "entries_ok C L (note_stale C L s s')"
  by (rule entries_ok_step [OF assms(1)]) (use generations_kept [OF assms(1-3)] flush_value [OF assms(2,3)] assms(4-6) in auto)

lemma outbox_ok_same:
  assumes "outbox_ok s" and "sys_db s' = sys_db s" and "sys_outbox s' = sys_outbox s"
  shows "outbox_ok (note_stale C L s s')"
  using assms by (auto simp: outbox_ok_def note_stale_def)

lemma entries_ok_Recover:
  assumes "entries_ok C L s" and "outbox_ok s" and "FlushCacheInvalidations applied acked committed lmt s = (res, s')"
  shows "entries_ok C L (note_stale C L s s')"
  using assms(2,3)
proof (cases rule: recover_elim)
  case 1
  then show ?thesis using entries_ok_step [OF assms(1)] assms(1) unfolding entries_ok_def by auto
next
  case (2 b fres r)
  then show ?thesis using entries_ok_flush [OF assms(1)] by auto
next
  case (3 b r rows)
  then show ?thesis using entries_ok_flush [OF assms(1)] by auto
qed

text \<open>Rows leave the outbox only after the generations they name were incremented.\<close>

lemma outbox_ok_Recover:
  assumes "entries_ok C L s" and "outbox_ok s" and "FlushCacheInvalidations applied acked committed lmt s = (res, s')"
  shows "outbox_ok (note_stale C L s s')"
  using assms(2,3)
proof (cases rule: recover_elim)
  case (3 b r rows)
  let ?left = "filter (\<lambda>x. civ_ID x \<notin> civ_ID ` set rows) (sys_outbox s)"
  have sub: "outbox_keys ?left \<subseteq> outbox_keys (sys_outbox s)" by (rule outbox_keys_subset) auto
  have "pk civ_ID ?left" using assms(2) by (auto simp: outbox_ok_def pk_def intro: distinct_map_filter)
  moreover have "k \<in> outbox_keys ?left" if k: "k \<in> sys_stale (note_stale C L s s')" for k
  proof -
    obtain \<pi> where p: "k = gen_key \<pi>" "k \<in> sys_stale s" "generation_of r k = generation_of (sys_rdb s) k"
      using k assms(2) 3(5) by (auto simp: note_stale_def outbox_ok_def)
    have "k \<notin> set (rci_generations b)"
      using flush_generation(2) [OF 3(1,2), of \<pi>] assms(1) p unfolding entries_ok_def by auto
    then have "k \<notin> outbox_keys rows" using 3(4) p(1) gen_key_nonempty by auto
    moreover obtain x where x: "x \<in> set (sys_outbox s)" "k \<in> set (civ_GenerationKeys x)"
      using p(2) assms(2) by (auto simp: outbox_ok_def outbox_keys_def)
    moreover have "civ_ID x \<notin> civ_ID ` set rows" if "x \<notin> set rows"
    proof
      assume "civ_ID x \<in> civ_ID ` set rows"
      then obtain y where y: "y \<in> set rows" "civ_ID y = civ_ID x" by auto
      have "y \<in> set (sys_outbox s)" using y(1) 3(3) by (metis in_set_takeD set_sort)
      then have "y = x" using y(2) x(1) assms(2) pk_find [of civ_ID "sys_outbox s"] by (metis option.inject outbox_ok_def)
      then show False using y(1) that by simp
    qed
    ultimately show ?thesis by (auto simp: outbox_keys_def)
  qed
  moreover have "sys_stale (note_stale C L s s') \<subseteq> range gen_key"
    using assms(2) 3(5) by (auto simp: note_stale_def outbox_ok_def)
  ultimately show ?thesis using assms(2) sub 3(5) by (auto simp: outbox_ok_def)
qed (auto intro!: outbox_ok_same [OF assms(2)])

lemma entries_ok_Publish:
  assumes "entries_ok C L s" and "(k, e) \<in> set (sys_flight s)" and "writeJSONCache id k e (Some (sys_rdb s)) = Some r"
  shows "entries_ok C L (note_stale C L s (s\<lparr>sys_rdb := r\<rparr>))"
proof (cases "k = '''' \<or> \<not> rc_up (sys_rdb s)")
  case True
  then have "r = sys_rdb s" using assms(3) by (auto simp: writeJSONCache_def split: if_splits)
  then show ?thesis using entries_ok_step [OF assms(1)] assms(1) unfolding entries_ok_def by auto
next
  case False
  then have r: "r = put_entry k (Some (Encoded e)) (sys_rdb s)" using assms(3) by (auto simp: writeJSONCache_def split: if_splits)
  obtain \<pi> g where k: "k = value_key \<pi> g" using assms(1,2) unfolding entries_ok_def by blast
  have gen: "rc_data r (gen_key \<pi>') = rc_data (sys_rdb s) (gen_key \<pi>')" for \<pi>'
    by (simp add: r k value_key_not_gen [THEN not_sym])
  have same: "entry_ok C L (note_stale C L s (s\<lparr>sys_rdb := r\<rparr>)) = entry_ok C L s"
    "\<And>\<pi>'. generation_of r (gen_key \<pi>') = generation_of (sys_rdb s) (gen_key \<pi>')"
    "\<And>\<pi>'. countable_key (gen_key \<pi>') r = countable_key (gen_key \<pi>') (sys_rdb s)"
    using gen by (auto simp: fun_eq_iff entry_ok_def note_stale_stale generation_of_def countable_key_def)
  show ?thesis
    using assms(1,2) same unfolding entries_ok_def by (auto simp: r k value_key_inj)
qed

lemma Commit_ok:
  assumes "entries_ok C L s" and "outbox_ok s" and "pk prd_ID (tb_products d)" and "pk civ_ID (sys_outbox s @ new)"
    and "set (concat (map product_targets (changed_products (tb_products (sys_db s)) (tb_products d)))) \<subseteq> set (concat (map civ_GenerationKeys new))"
    and "\<forall>\<pi> g. value_key \<pi> g \<notin> set (concat (map civ_GenerationKeys new))" and "s' = s\<lparr>sys_db := d, sys_outbox := sys_outbox s @ new\<rparr>"
  shows "entries_ok C L (note_stale C L s s') \<and> outbox_ok (note_stale C L s s')"
proof
  show "entries_ok C L (note_stale C L s s')"
    by (rule entries_ok_step [OF assms(1)]) (use assms(1,7) in \<open>auto simp: entries_ok_def\<close>)
  have keys: "outbox_keys (sys_outbox s @ new) = outbox_keys (sys_outbox s) \<union> outbox_keys new" by (simp add: outbox_keys_def)
  have "gen_key \<pi> \<in> outbox_keys new" if "load_text C L \<pi> d \<noteq> load_text C L \<pi> (sys_db s)" for \<pi>
    using load_changed [OF _ assms(3) that] assms(2,5) unfolding outbox_ok_def outbox_keys_def by blast
  then have "sys_stale (note_stale C L s s') \<subseteq> outbox_keys (sys_outbox s @ new)"
    using assms(2,7) by (auto simp: keys note_stale_def outbox_ok_def)
  moreover have "sys_stale (note_stale C L s s') \<subseteq> range gen_key" using assms(2,7) by (auto simp: note_stale_def outbox_ok_def)
  moreover have "value_key \<pi> g \<notin> outbox_keys (sys_outbox s @ new)" for \<pi> g
    using assms(2,6) by (simp add: keys outbox_ok_def outbox_keys_def)
  ultimately show "outbox_ok (note_stale C L s s')" using assms(3,4,7) by (simp add: outbox_ok_def)
qed

lemma Begin_ok:
  assumes "entries_ok C L s" and "k = cache_key False (Some (sys_rdb s)) \<pi>" and "k \<noteq> ''''"
    and "s' = s\<lparr>sys_reads := (\<pi>, k) # sys_reads s\<rparr>"
  shows "entries_ok C L (note_stale C L s s')"
proof -
  have "countable_key (gen_key \<pi>) (sys_rdb s)" "0 \<le> generation_of (sys_rdb s) (gen_key \<pi>)" using assms(1) by (auto simp: entries_ok_def)
  then have k: "k = value_key \<pi> (generation_of (sys_rdb s) (gen_key \<pi>))"
    using assms(2,3) by (auto simp: cache_key_def Let_def readCacheGeneration_def cacheGeneration_def generationCacheKey_def generation_of_def
        countable_key_def split: option.splits cache_entry.splits if_splits)
  have "entry_ok C L (note_stale C L s s') = entry_ok C L s"
    using assms(4) by (auto simp: fun_eq_iff entry_ok_def note_stale_def)
  then show ?thesis using assms(1) unfolding entries_ok_def by (auto simp: assms(4) k)
qed

lemma Load_ok:
  assumes "entries_ok C L s" and "(\<pi>, k) \<in> set (sys_reads s)" and "s' = s\<lparr>sys_flight := (k, load_text C L \<pi> (sys_db s)) # sys_flight s\<rparr>"
  shows "entries_ok C L (note_stale C L s s')"
proof -
  obtain g where g: "k = value_key \<pi> g" "g \<le> generation_of (sys_rdb s) (gen_key \<pi>)" using assms(1,2) unfolding entries_ok_def by blast
  have e: "entry_ok C L (note_stale C L s s') = entry_ok C L s"
    using assms(3) by (auto simp: fun_eq_iff entry_ok_def note_stale_def)
  have "entry_ok C L s \<pi> g (load_text C L \<pi> (sys_db s))" using g(2) by (simp add: entry_ok_def)
  then show ?thesis using assms(1) e unfolding entries_ok_def by (auto simp: assms(3) g(1) value_key_inj)
qed

interpretation cached: invariant_system cache_init "cache_step C L" "\<lambda>s. entries_ok C L s \<and> outbox_ok s" for C L
proof
  show "entries_ok C L s \<and> outbox_ok s" if "cache_init s" for s
    using that by (simp add: cache_init_def entries_ok_def outbox_ok_def countable_key_def generation_of_def pk_def outbox_keys_def)
  fix s s' assume ok: "entries_ok C L s \<and> outbox_ok s" and step: "cache_step C L s s'"
  from step show "entries_ok C L s' \<and> outbox_ok s'"
  proof cases
    case (Commit d new t)
    then show ?thesis using Commit_ok ok by blast
  next
    case (Invalidate b applied acked res r t)
    then show ?thesis using entries_ok_flush [of C L s b] outbox_ok_same ok by simp
  next
    case (Recover applied acked committed res t)
    obtain q where "FlushCacheInvalidations applied acked committed 1000 s = (q, t)"
      using Recover(2) by (auto simp: CacheInvalidationWorker_Work_def split: prod.splits sum.splits)
    then show ?thesis using Recover(1) entries_ok_Recover outbox_ok_Recover ok by blast
  next
    case (Begin k \<pi> t)
    then show ?thesis using Begin_ok outbox_ok_same [of s t] ok by simp
  next
    case (Load \<pi> k t)
    then show ?thesis using Load_ok outbox_ok_same [of s t] ok by simp
  next
    case (Publish k e r t)
    then show ?thesis using entries_ok_Publish outbox_ok_same [of s t] ok by simp
  next
    case (Finish reads flight t)
    have "entries_ok C L s'" unfolding Finish(1)
      by (intro entries_ok_step) (use ok Finish(2-4) in \<open>simp_all add: entries_ok_def\<close>)
    then show ?thesis using outbox_ok_same [of s t] ok Finish(1,4) by simp
  next
    case (Elsewhere r t)
    have "countable_key (gen_key \<pi>) r = countable_key (gen_key \<pi>) (sys_rdb s)"
      "generation_of r (gen_key \<pi>) = generation_of (sys_rdb s) (gen_key \<pi>)" for \<pi>
      using Elsewhere(2) by (simp_all add: countable_key_def generation_of_def)
    then have "entries_ok C L s'" unfolding Elsewhere(1)
      by (intro entries_ok_step) (use ok Elsewhere(3,4) in \<open>simp_all add: entries_ok_def\<close>)
    then show ?thesis using outbox_ok_same [of s t] ok Elsewhere(1,4) by simp
  qed
qed

section \<open>Reading through the cache\<close>

text \<open>
  \<open>cacheAside\<close> of one request: the second look-up is the one inside the shared flight. Database
  errors are returned and not cached.
\<close>

definition cacheAside ::
    "('v \<Rightarrow> string) \<Rightarrow> (string \<Rightarrow> 'v option) \<Rightarrow> bool \<Rightarrow> string \<Rightarrow> error + 'v \<Rightarrow> redis_client option \<Rightarrow> (error + 'v) \<times> redis_client option" where
  "cacheAside marshal unmarshal inTransaction key load rdb =
     (if key = '''' \<or> inTransaction \<or> rdb = None then (load, rdb)
      else case readJSONCache unmarshal inTransaction rdb key of
        Some v \<Rightarrow> (Inr v, rdb)
      | None \<Rightarrow> (case readJSONCache unmarshal inTransaction rdb key of
            Some v \<Rightarrow> (Inr v, rdb)
          | None \<Rightarrow> (case load of
              Inl e \<Rightarrow> (Inl e, rdb)
            | Inr v \<Rightarrow> (Inr v, writeJSONCache marshal key v rdb))))"

definition cached_GetProduct ::
    "product_codec \<Rightarrow> decimal_lib \<Rightarrow> bool \<Rightarrow> int \<Rightarrow> redis_client option \<Rightarrow> db \<Rightarrow> (error + Product option) \<times> redis_client option" where
  "cached_GetProduct C L inTransaction i rdb s = cacheAside (pc_one C) (pc_read_one C) inTransaction
     (cache_key inTransaction rdb (ProductByID i)) (fst (InTx (repo_GetProduct L i) s)) rdb"

definition cached_ListProducts ::
    "product_codec \<Rightarrow> decimal_lib \<Rightarrow> bool \<Rightarrow> int \<Rightarrow> int \<Rightarrow> redis_client option \<Rightarrow> db \<Rightarrow> (error + Product list) \<times> redis_client option" where
  "cached_ListProducts C L inTransaction lmt off rdb s = cacheAside (pc_many C) (pc_read_many C) inTransaction
     (cache_key inTransaction rdb (ProductList lmt off)) (fst (InTx (repo_ListProducts L lmt off) s)) rdb"

definition cached_ListProductsByCategory ::
    "product_codec \<Rightarrow> decimal_lib \<Rightarrow> bool \<Rightarrow> int \<Rightarrow> int \<Rightarrow> int \<Rightarrow> redis_client option \<Rightarrow> db \<Rightarrow> (error + Product list) \<times> redis_client option" where
  "cached_ListProductsByCategory C L inTransaction c lmt off rdb s = cacheAside (pc_many C) (pc_read_many C) inTransaction
     (cache_key inTransaction rdb (ProductsOfCategory c lmt off)) (fst (InTx (repo_ListProductsByCategory L c lmt off) s)) rdb"

lemma cache_key_value:
  assumes "entries_ok C L s"
  shows "cache_key inT (Some (sys_rdb s)) \<pi> = (if inT \<or> \<not> rc_up (sys_rdb s) then '''' else value_key \<pi> (generation_of (sys_rdb s) (gen_key \<pi>)))"
proof -
  have "countable_key (gen_key \<pi>) (sys_rdb s)" "0 \<le> generation_of (sys_rdb s) (gen_key \<pi>)" using assms by (auto simp: entries_ok_def)
  then show ?thesis
    by (auto simp: cache_key_def Let_def readCacheGeneration_def cacheGeneration_def generationCacheKey_def generation_of_def
        countable_key_def split: option.splits cache_entry.splits)
qed

lemma cacheAside_fresh:
  assumes "entries_ok C L s" and "gen_key \<pi> \<notin> sys_stale s" and "load_text C L \<pi> (sys_db s) = loaded load marshal"
    and "\<And>v. unmarshal (marshal v) = Some v" and "\<not> isl load"
  shows "fst (cacheAside marshal unmarshal inT (cache_key inT (Some (sys_rdb s)) \<pi>) load (Some (sys_rdb s))) = load"
proof -
  let ?k = "value_key \<pi> (generation_of (sys_rdb s) (gen_key \<pi>))"
  obtain v where v: "load = Inr v" using assms(5) by (cases load) auto
  have hit: "readJSONCache unmarshal inT (Some (sys_rdb s)) ?k \<in> {None, Some v}"
  proof (cases "rc_data (sys_rdb s) ?k")
    case (Some x)
    then obtain e where e: "x = Encoded e" using assms(1) unfolding entries_ok_def by (cases x) blast+
    then have "entry_ok C L s \<pi> (generation_of (sys_rdb s) (gen_key \<pi>)) e" using Some assms(1) unfolding entries_ok_def by blast
    then have "e = marshal v" using assms(2,3) v by (simp add: entry_ok_def loaded_def)
    then show ?thesis using Some e assms(4) by (simp add: readJSONCache_def)
  qed (simp add: readJSONCache_def)
  then show ?thesis unfolding cache_key_value [OF assms(1)] using v by (auto simp: cacheAside_def split: option.splits)
qed

lemma product_loads: "\<not> isl (fst (InTx (repo_GetProduct L i) d))" "\<not> isl (fst (InTx (repo_ListProducts L lmt off) d))"
  "\<not> isl (fst (InTx (repo_ListProductsByCategory L c lmt off) d))"
  by (auto simp: InTx_def repo_GetProduct_def repo_ListProducts_def repo_ListProductsByCategory_def tx_bind_def tx_optional_def tx_return_def
      tx_read_def q_GetProduct_def q_GetProductForOrder_def q_ListProducts_def q_ListProductsByCategory_def split: option.splits)

text \<open>
  C24. The product caches are transparent. However requests, commits, publications, lost and
  repeated invalidations, expiry and outages of Redis interleave: unless a projection changed
  after its generation was last incremented, a request through the cache answers exactly what
  the database answers, and so does every loaded value that waiting requests share. And whenever
  a projection is stale in this sense, the outbox still holds a row that will increment its
  generation, so staleness is never forgotten.
\<close>

theorem cache_is_transparent:
  assumes "reachable cache_init (cache_step C L) s" and "codec_ok C"
  shows "(gen_key (ProductByID i) \<in> sys_stale s \<or>
      fst (cached_GetProduct C L inT i (Some (sys_rdb s)) (sys_db s)) = fst (InTx (repo_GetProduct L i) (sys_db s))) \<and>
    (gen_key (ProductList lmt off) \<in> sys_stale s \<or>
      fst (cached_ListProducts C L inT lmt off (Some (sys_rdb s)) (sys_db s)) = fst (InTx (repo_ListProducts L lmt off) (sys_db s))) \<and>
    (gen_key (ProductsOfCategory c lmt off) \<in> sys_stale s \<or>
      fst (cached_ListProductsByCategory C L inT c lmt off (Some (sys_rdb s)) (sys_db s)) =
        fst (InTx (repo_ListProductsByCategory L c lmt off) (sys_db s))) \<and>
    (gen_key \<pi> \<in> sys_stale s \<or>
      list_all (\<lambda>(k, e). k \<noteq> cache_key False (Some (sys_rdb s)) \<pi> \<or> e = load_text C L \<pi> (sys_db s)) (sys_flight s)) \<and>
    sys_stale s \<subseteq> outbox_keys (sys_outbox s)"
proof -
  have ok: "entries_ok C L s" and ob: "outbox_ok s" using cached.inv_reachable [OF assms(1)] by auto
  note fresh = cacheAside_fresh [OF ok]
  have "list_all (\<lambda>(k, e). k \<noteq> cache_key False (Some (sys_rdb s)) \<pi> \<or> e = load_text C L \<pi> (sys_db s)) (sys_flight s)"
    if "gen_key \<pi> \<notin> sys_stale s"
  proof -
    have "e = load_text C L \<pi> (sys_db s)" if f: "(cache_key False (Some (sys_rdb s)) \<pi>, e) \<in> set (sys_flight s)" for e
    proof -
      obtain \<pi>' g where "cache_key False (Some (sys_rdb s)) \<pi> = value_key \<pi>' g" using f ok unfolding entries_ok_def by blast
      then have "cache_key False (Some (sys_rdb s)) \<pi> = value_key \<pi> (generation_of (sys_rdb s) (gen_key \<pi>))"
        using gen_key_nonempty(2) [of \<pi>' g] cache_key_value [OF ok, of False \<pi>] by (simp split: if_splits)
      then have "entry_ok C L s \<pi> (generation_of (sys_rdb s) (gen_key \<pi>)) e" using f ok unfolding entries_ok_def by auto
      then show ?thesis using \<open>gen_key \<pi> \<notin> sys_stale s\<close> by (simp add: entry_ok_def)
    qed
    then show ?thesis by (auto simp: list_all_iff)
  qed
  moreover have "gen_key (ProductByID i) \<notin> sys_stale s \<Longrightarrow>
      fst (cached_GetProduct C L inT i (Some (sys_rdb s)) (sys_db s)) = fst (InTx (repo_GetProduct L i) (sys_db s))"
    unfolding cached_GetProduct_def by (rule fresh) (use assms(2) product_loads in \<open>auto simp: codec_ok_def\<close>)
  moreover have "gen_key (ProductList lmt off) \<notin> sys_stale s \<Longrightarrow>
      fst (cached_ListProducts C L inT lmt off (Some (sys_rdb s)) (sys_db s)) = fst (InTx (repo_ListProducts L lmt off) (sys_db s))"
    unfolding cached_ListProducts_def by (rule fresh) (use assms(2) product_loads in \<open>auto simp: codec_ok_def\<close>)
  moreover have "gen_key (ProductsOfCategory c lmt off) \<notin> sys_stale s \<Longrightarrow>
      fst (cached_ListProductsByCategory C L inT c lmt off (Some (sys_rdb s)) (sys_db s)) = fst (InTx (repo_ListProductsByCategory L c lmt off) (sys_db s))"
    unfolding cached_ListProductsByCategory_def by (rule fresh) (use assms(2) product_loads in \<open>auto simp: codec_ok_def\<close>)
  ultimately show ?thesis using ob unfolding outbox_ok_def by blast
qed

text \<open>The invalidations of the repositories are of the kind the steps allow.\<close>

lemma entity_key_not_gen: "redisKey [''product'', FormatInt i] \<noteq> gen_key \<pi>"
  by (cases \<pi>) (auto dest!: redisKey_inj simp: FormatInt_plain)

lemma value_keys_not_invalidated:
  "value_key \<pi> g \<noteq> redisKey [''product'', FormatInt i, ''gen'']" "value_key \<pi> g \<noteq> ''product:list:gen''"
  "value_key \<pi> g \<noteq> redisKey [''product'', ''category'', FormatInt c, ''gen'']"
  using value_key_not_gen [of \<pi> g "ProductByID i"] value_key_not_gen [of \<pi> g "ProductList 0 0"]
    value_key_not_gen [of \<pi> g "ProductsOfCategory c 0 0"] gen_key_list [of 0 0] by simp_all

lemma product_targets_no_values: "value_key \<pi> g \<notin> set (product_targets ab)"
  using value_keys_not_invalidated by (cases ab rule: product_targets.cases) auto

lemma product_batches_ok:
  assumes "batch_ok b"
  shows "batch_ok (invalidateProduct i cs b)" "batch_ok (invalidateProductCachesForOrder rows b)"
  using assms value_keys_not_invalidated entity_key_not_gen [THEN not_sym]
  by (auto simp: batch_ok_def invalidateProduct_def invalidateProductCachesForOrder_def invalidation_add_def add_keys_set category_keys_def)

text \<open>With Redis reachable, a complete pipeline and a commit the worker succeeds.\<close>

lemma recover_succeeds:
  assumes "rc_up (sys_rdb s)" and "acked" and "committed" and "\<And>k. applied k" and "\<forall>k \<in> outbox_keys (sys_outbox s). countable_key k (sys_rdb s)"
  shows "\<not> isl (fst (FlushCacheInvalidations applied acked committed 1000 s))"
proof -
  define rows where "rows = q_LockCacheInvalidations 1000 (sys_outbox s)"
  define b where "b = foldl (\<lambda>b row. invalidation_add (civ_GenerationKeys row) [] b) newCacheInvalidation rows"
  have "set rows \<subseteq> set (sys_outbox s)" unfolding rows_def q_LockCacheInvalidations_def by (metis set_sort set_take_subset)
  from outbox_keys_subset [OF this] have "set (rci_generations b) \<subseteq> outbox_keys (sys_outbox s)"
    by (auto simp: b_def recover_batch newCacheInvalidation_def)
  then have "fst (flush applied acked b (sys_rdb s)) = Inr ()"
    using assms by (auto simp: flush_def Let_def list_all_iff)
  then show ?thesis
    using assms(3) by (auto simp: FlushCacheInvalidations_def rows_def [symmetric] b_def [symmetric] Let_def split: prod.splits sum.splits)
qed

text \<open>
  C25. Recovery is complete and safe. A run of the recovery worker that reports success has
  incremented every generation of the rows it took and removed exactly those; when it took all
  rows nothing is stale any more. A run that fails (Redis unreachable, a broken pipeline, a lost
  commit) leaves every row in the outbox for the next run; and a run fails only for such a
  reason, or because a key that must hold a counter holds something else.
\<close>

theorem recovery_clears_staleness:
  assumes "reachable cache_init (cache_step C L) s" and "CacheInvalidationWorker_Work applied acked committed s = (res, s')"
    and "length (sys_outbox s) \<le> 1000"
  shows "if rc_up (sys_rdb s) \<and> acked \<and> committed \<and> (\<forall>k. applied k) \<and> (\<forall>k \<in> outbox_keys (sys_outbox s). countable_key k (sys_rdb s)) \<or> \<not> isl res
    then sys_outbox s' = [] \<and> sys_stale (note_stale C L s s') = {}
    else sys_outbox s' = sys_outbox s"
proof -
  have ok: "entries_ok C L s" and ob: "outbox_ok s" using cached.inv_reachable [OF assms(1)] by auto
  obtain q where q: "FlushCacheInvalidations applied acked committed 1000 s = (q, s')" "isl res = isl q"
    using assms(2) by (auto simp: CacheInvalidationWorker_Work_def split: prod.splits sum.splits)
  have clear: "sys_outbox s' = [] \<Longrightarrow> sys_stale (note_stale C L s s') = {}"
    using outbox_ok_Recover [OF ok ob q(1)] by (auto simp: outbox_ok_def outbox_keys_def)
  have live: "\<not> isl q" if "rc_up (sys_rdb s) \<and> acked \<and> committed \<and> (\<forall>k. applied k) \<and> (\<forall>k \<in> outbox_keys (sys_outbox s). countable_key k (sys_rdb s))"
    using recover_succeeds [of s acked committed applied] q(1) that by simp
  have "if isl q then sys_outbox s' = sys_outbox s else sys_outbox s' = [] \<and> sys_stale (note_stale C L s s') = {}"
    using ob q(1)
  proof (cases rule: recover_elim)
    case 1
    then show ?thesis using clear by (cases q) auto
  next
    case (2 b fres r)
    then show ?thesis by simp
  next
    case (3 b r rows)
    have "length (sort_key civ_ID (sys_outbox s)) \<le> 1000" using assms(3) by simp
    then have "set rows = set (sys_outbox s)" by (simp add: 3(3))
    then have e: "sys_outbox s' = []" using 3(5) by (auto simp: filter_empty_conv)
    then show ?thesis using 3(6) clear by simp
  qed
  then show ?thesis using live q(2) by (auto split: if_splits)
qed

end
