(* ===== verification/Media.thy ===== *)
theory Media
  imports Pages Workers
begin

text \<open>
  Uploaded images (app/mall/internal/biz/media.go, data/media.go, db/media\_assets.sql.go,
  db/post\_images.sql.go, job/media\_cleanup.go, service/media.go). An asset is created
  \<open>pending\<close>, becomes \<open>ready\<close> when the uploaded bytes have been verified, \<open>deleting\<close> when nothing
  refers to it any more and \<open>deleted\<close> when the stored objects are gone. The object storage is a
  parameter: its calls run on the world and may let other requests run in between. The image
  decoders are a parameter as well.

  The advisory lock around completion and removal (\<open>withIOLock\<close>) is not part of the state: what
  is proved holds for every interleaving, also those the lock excludes.
\<close>

section \<open>Statements\<close>

text \<open>\<open>column = $1\<close> where both may be NULL.\<close>

definition sql_eq :: "'a option \<Rightarrow> 'a option \<Rightarrow> bool" where
  "sql_eq a b \<longleftrightarrow> a \<noteq> None \<and> a = b"

lemma sql_eq_simps [simp]: "sql_eq a None \<longleftrightarrow> False" "sql_eq None b \<longleftrightarrow> False" "sql_eq a (Some x) \<longleftrightarrow> a = Some x"
  by (auto simp: sql_eq_def)

definition media_bound :: "int \<Rightarrow> db \<Rightarrow> bool" where
  "media_bound i s \<longleftrightarrow> list_ex (\<lambda>im. img_MediaID im = i) (tb_images s)"

definition sorted_media :: "(media_asset \<Rightarrow> bool) \<Rightarrow> db \<Rightarrow> media_asset list" where
  "sorted_media P s = sort_key mas_ID (filter P (tb_media s))"

record CreateMediaAssetParams =
  cma_OwnerID :: "int option"
  cma_Provider :: string
  cma_BucketName :: string
  cma_ObjectKey :: string
  cma_StagingKey :: string
  cma_ContentType :: string
  cma_SizeBytes :: int
  cma_ExpiresAt :: int
  cma_UploadExpiresAt :: int

definition q_CreateMediaAsset :: "CreateMediaAssetParams \<Rightarrow> (db, media_asset) tx" where
  "q_CreateMediaAsset a = (\<lambda>s.
     if cma_SizeBytes a < 1 \<or> cma_SizeBytes a > 10485760 then Inl (CheckViolation ''media_assets_size_bytes_check'')
     else if list_ex (\<lambda>m. mas_Provider m = cma_Provider a \<and> mas_BucketName m = cma_BucketName a \<and>
                          mas_ObjectKey m = cma_ObjectKey a) (tb_media s)
     then Inl (UniqueViolation ''media_assets_provider_bucket_name_object_key_key'')
     else sql_insert tb_media put_media
       \<lparr>mas_ID = next_id mas_ID (tb_media s), mas_OwnerID = cma_OwnerID a, mas_Provider = cma_Provider a,
        mas_BucketName = cma_BucketName a, mas_ObjectKey = cma_ObjectKey a, mas_StagingKey = cma_StagingKey a,
        mas_StagingCleaned = False, mas_StagingCleanupAt = None, mas_ContentType = cma_ContentType a,
        mas_SizeBytes = cma_SizeBytes a, mas_Width = 0, mas_Height = 0, mas_Status = MediaStatusPending,
        mas_ExpiresAt = cma_ExpiresAt a, mas_UploadExpiresAt = cma_UploadExpiresAt a,
        mas_CreatedAt = tb_current_timestamp s, mas_UpdatedAt = tb_current_timestamp s\<rparr> s)"

definition q_GetMediaAsset :: "int \<Rightarrow> (db, media_asset) tx" where
  "q_GetMediaAsset i = sql_get tb_media mas_ID i"

definition q_LockMediaAssets :: "int list \<Rightarrow> (db, media_asset list) tx" where
  "q_LockMediaAssets ids = tx_read (sorted_media (\<lambda>m. mas_ID m \<in> set ids))"

definition q_LockUserMedia :: "int option \<Rightarrow> (db, media_asset list) tx" where
  "q_LockUserMedia owner = tx_read (sorted_media (\<lambda>m. sql_eq (mas_OwnerID m) owner \<and> mas_Status m \<noteq> MediaStatusDeleted))"

definition q_CanReadMedia :: "int \<Rightarrow> int option \<Rightarrow> (db, bool) tx" where
  "q_CanReadMedia i viewer = tx_read (\<lambda>s. list_ex (\<lambda>m. mas_ID m = i \<and> mas_Status m = MediaStatusReady \<and>
     (list_ex (\<lambda>im. img_MediaID im = mas_ID m \<and>
          list_ex (\<lambda>p. pst_ID p = img_PostID im \<and> pst_DeletedAt p = None) (tb_posts s)) (tb_images s) \<or>
      sql_eq (mas_OwnerID m) viewer \<and> mas_ExpiresAt m > tb_clock_timestamp s \<and> \<not> media_bound (mas_ID m) s)) (tb_media s))"

definition q_MarkMediaDeleting :: "int \<Rightarrow> (db, int) tx" where
  "q_MarkMediaDeleting i = (\<lambda>s. sql_exec tb_media put_media mas_ID i
     (\<lambda>m. mas_Status m \<in> {MediaStatusPending, MediaStatusReady} \<and> \<not> media_bound i s)
     (\<lambda>m. m\<lparr>mas_Status := MediaStatusDeleting, mas_UpdatedAt := tb_clock_timestamp s\<rparr>) s)"

definition q_MarkMediaDeleted :: "int \<Rightarrow> (db, unit) tx" where
  "q_MarkMediaDeleted i = (\<lambda>s. tx_seq (sql_exec tb_media put_media mas_ID i (\<lambda>m. mas_Status m = MediaStatusDeleting)
     (\<lambda>m. m\<lparr>mas_Status := MediaStatusDeleted, mas_UpdatedAt := tb_clock_timestamp s\<rparr>)) (tx_return ()) s)"

definition q_MarkMediaStagingCleaned :: "int \<Rightarrow> (db, unit) tx" where
  "q_MarkMediaStagingCleaned i = tx_seq (sql_exec tb_media put_media mas_ID i (\<lambda>m. True)
     (\<lambda>m. m\<lparr>mas_StagingCleaned := True\<rparr>)) (tx_return ())"

definition q_ReadyMediaAsset :: "int \<Rightarrow> string \<Rightarrow> int \<Rightarrow> int \<Rightarrow> int \<Rightarrow> (db, media_asset) tx" where
  "q_ReadyMediaAsset i contentType sizeBytes width height = (\<lambda>s.
     if sizeBytes < 1 \<or> sizeBytes > 10485760 \<or> width < 0 \<or> width > 10000 \<or> height < 0 \<or> height > 10000
     then (case find_row mas_ID i (tb_media s) of
         Some m \<Rightarrow> if mas_Status m = MediaStatusPending then Inl (CheckViolation ''media_assets_check'') else Inl ErrNoRows
       | None \<Rightarrow> Inl ErrNoRows)
     else sql_update tb_media put_media mas_ID i (\<lambda>m. mas_Status m = MediaStatusPending)
       (\<lambda>m. m\<lparr>mas_Status := MediaStatusReady, mas_ContentType := contentType, mas_SizeBytes := sizeBytes,
              mas_Width := width, mas_Height := height, mas_UpdatedAt := tb_clock_timestamp s\<rparr>) s)"

definition q_TouchDeletingMedia :: "int \<Rightarrow> (db, unit) tx" where
  "q_TouchDeletingMedia i = (\<lambda>s. tx_seq (sql_exec tb_media put_media mas_ID i (\<lambda>m. mas_Status m = MediaStatusDeleting)
     (\<lambda>m. m\<lparr>mas_UpdatedAt := tb_clock_timestamp s\<rparr>)) (tx_return ()) s)"

definition q_TouchMediaStagingCleanup :: "int \<Rightarrow> (db, unit) tx" where
  "q_TouchMediaStagingCleanup i = (\<lambda>s. tx_seq (sql_exec tb_media put_media mas_ID i (\<lambda>m. True)
     (\<lambda>m. m\<lparr>mas_StagingCleanupAt := Some (tb_clock_timestamp s)\<rparr>)) (tx_return ()) s)"

abbreviation Minute :: int where
  "Minute \<equiv> 60 * Second"

text \<open>\<open>fresh UNION ALL stale\<close>, each with its own order and limit.\<close>

definition q_LockExpiredMedia :: "int \<Rightarrow> (db, media_asset list) tx" where
  "q_LockExpiredMedia lmt = tx_read (\<lambda>s.
     take (nat lmt) (sort_key (\<lambda>m. (mas_ExpiresAt m, mas_ID m)) (filter (\<lambda>m.
       mas_Status m \<in> {MediaStatusPending, MediaStatusReady} \<and> mas_ExpiresAt m \<le> tb_clock_timestamp s \<and>
       \<not> media_bound (mas_ID m) s) (tb_media s))) @
     take (nat lmt) (sort_key (\<lambda>m. (mas_UpdatedAt m, mas_ID m)) (filter (\<lambda>m.
       mas_Status m = MediaStatusDeleting \<and> mas_UpdatedAt m \<le> tb_clock_timestamp s - 10 * Minute \<and>
       \<not> media_bound (mas_ID m) s) (tb_media s))))"

definition staging_due :: "db \<Rightarrow> media_asset \<Rightarrow> bool" where
  "staging_due s m \<longleftrightarrow> mas_Status m = MediaStatusReady \<and> \<not> mas_StagingCleaned m \<and>
     mas_UploadExpiresAt m \<le> tb_clock_timestamp s - Minute \<and>
     (mas_ExpiresAt m > tb_clock_timestamp s \<or> media_bound (mas_ID m) s)"

definition q_LockStagingCleanupMedia :: "int \<Rightarrow> (db, media_asset list) tx" where
  "q_LockStagingCleanupMedia lmt = tx_read (\<lambda>s.
     take (nat lmt) (sort_key (\<lambda>m. (mas_UploadExpiresAt m, mas_ID m)) (filter (\<lambda>m.
       staging_due s m \<and> mas_StagingCleanupAt m = None) (tb_media s))) @
     take (nat lmt) (sort_key (\<lambda>m. (int8_Int64 (mas_StagingCleanupAt m), mas_ID m)) (filter (\<lambda>m. staging_due s m \<and>
       (case mas_StagingCleanupAt m of None \<Rightarrow> False | Some t \<Rightarrow> t \<le> tb_clock_timestamp s - 10 * Minute)) (tb_media s))))"

text \<open>The statements of \<^verbatim>\<open>post_images.sql\<close>.\<close>

definition q_BindPostImage :: "int \<Rightarrow> int \<Rightarrow> int \<Rightarrow> (db, unit) tx" where
  "q_BindPostImage pid mid sortOrder = (\<lambda>s.
     if sortOrder < 0 \<or> sortOrder > 8 then Inl (CheckViolation ''post_images_sort_order_check'')
     else if list_ex (\<lambda>im. img_MediaID im = mid) (tb_images s) then Inl (UniqueViolation ''post_images_media_id_key'')
     else if list_ex (\<lambda>im. img_PostID im = pid \<and> img_SortOrder im = sortOrder) (tb_images s)
       then Inl (UniqueViolation ''post_images_post_id_sort_order_key'')
     else if find_row pst_ID pid (tb_posts s) = None \<or> find_row mas_ID mid (tb_media s) = None
       then Inl (ForeignKeyViolation ''post_images'')
     else Inr ((), s\<lparr>tb_images := tb_images s @ [\<lparr>img_PostID = pid, img_MediaID = mid, img_SortOrder = sortOrder\<rparr>]\<rparr>))"

definition q_GetMediaBinding :: "int \<Rightarrow> (db, int) tx" where
  "q_GetMediaBinding mid = tx_bind (sql_find tb_images (\<lambda>im. img_MediaID im = mid)) (\<lambda>im. tx_return (img_PostID im))"

definition visible_post :: "db \<Rightarrow> int \<Rightarrow> bool" where
  "visible_post s pid \<longleftrightarrow> list_ex (\<lambda>p. pst_ID p = pid \<and> pst_DeletedAt p = None) (tb_posts s)"

definition q_GetPostImages :: "int list \<Rightarrow> (db, (post_image \<times> media_asset) list) tx" where
  "q_GetPostImages ids = tx_read (\<lambda>s. sort_key (\<lambda>(im, m). (img_PostID im, img_SortOrder im))
     (concat (map (\<lambda>im. case find_row mas_ID (img_MediaID im) (tb_media s) of
          None \<Rightarrow> []
        | Some m \<Rightarrow> if img_PostID im \<in> set ids \<and> visible_post s (img_PostID im) \<and> mas_Status m = MediaStatusReady
            then [(im, m)] else []) (tb_images s))))"

definition q_LockPostImageAssets :: "int \<Rightarrow> (db, media_asset list) tx" where
  "q_LockPostImageAssets pid = tx_read (\<lambda>s. sorted_media (\<lambda>m.
     list_ex (\<lambda>im. img_PostID im = pid \<and> img_MediaID im = mas_ID m) (tb_images s)) s)"

definition q_UnbindPostImages :: "int \<Rightarrow> (db, unit) tx" where
  "q_UnbindPostImages pid = (\<lambda>s. Inr ((), put_images (filter (\<lambda>im. img_PostID im \<noteq> pid) (tb_images s)) s))"

definition q_UnbindUserImages :: "int option \<Rightarrow> (db, unit) tx" where
  "q_UnbindUserImages owner = (\<lambda>s. Inr ((), put_images (filter (\<lambda>im.
     \<not> list_ex (\<lambda>m. sql_eq (mas_OwnerID m) owner \<and> mas_ID m = img_MediaID im) (tb_media s)) (tb_images s)) s))"

section \<open>Repository\<close>

record ObjectRef =
  obj_Provider :: string
  obj_Bucket :: string
  obj_Key :: string

record MediaAsset =
  ma_ID :: int
  ma_OwnerID :: int
  ma_Object :: ObjectRef
  ma_StagingKey :: string
  ma_ContentType :: string
  ma_Status :: media_status
  ma_URL :: string
  ma_SizeBytes :: int
  ma_Width :: int
  ma_Height :: int
  ma_ExpiresAt :: int
  ma_UploadExpiresAt :: int

record VerifiedImage =
  vi_ContentType :: string
  vi_Size :: int
  vi_Width :: int
  vi_Height :: int

definition toMedia :: "media_asset \<Rightarrow> MediaAsset" where
  "toMedia m = \<lparr>ma_ID = mas_ID m, ma_OwnerID = int8_Int64 (mas_OwnerID m),
     ma_Object = \<lparr>obj_Provider = mas_Provider m, obj_Bucket = mas_BucketName m, obj_Key = mas_ObjectKey m\<rparr>,
     ma_StagingKey = mas_StagingKey m, ma_ContentType = mas_ContentType m, ma_Status = mas_Status m, ma_URL = '''',
     ma_SizeBytes = mas_SizeBytes m, ma_Width = mas_Width m, ma_Height = mas_Height m,
     ma_ExpiresAt = mas_ExpiresAt m, ma_UploadExpiresAt = mas_UploadExpiresAt m\<rparr>"

abbreviation media_not_ready :: error where
  "media_not_ready \<equiv> Conflict ''MEDIA_NOT_READY''"

abbreviation media_not_found :: error where
  "media_not_found \<equiv> NotFound ''MEDIA_NOT_FOUND''"

abbreviation media_forbidden :: error where
  "media_forbidden \<equiv> Forbidden ''MEDIA_FORBIDDEN''"

abbreviation ErrMediaCleanupNotDue :: error where
  "ErrMediaCleanupNotDue \<equiv> Errorf ''upload grant may still be live''"

definition media_Create :: "int \<Rightarrow> MediaAsset \<Rightarrow> (db, MediaAsset) tx" where
  "media_Create uid m = tx_seq (lockCommunityUser uid) (tx_bind (q_CreateMediaAsset
     \<lparr>cma_OwnerID = communityID uid, cma_Provider = obj_Provider (ma_Object m), cma_BucketName = obj_Bucket (ma_Object m),
      cma_ObjectKey = obj_Key (ma_Object m), cma_StagingKey = ma_StagingKey m, cma_ContentType = ma_ContentType m,
      cma_SizeBytes = ma_SizeBytes m, cma_ExpiresAt = ma_ExpiresAt m, cma_UploadExpiresAt = ma_UploadExpiresAt m\<rparr>)
     (\<lambda>row. tx_return (toMedia row)))"

definition enqueueDelete :: "river option \<Rightarrow> media_asset \<Rightarrow> (db, unit) tx" where
  "enqueueDelete jobs m = (\<lambda>s.
     let due = tb_time_Now s + Minute; t = mas_UploadExpiresAt m + Minute in
     tx_seq (enqueue_tx jobs ''media deletion requires a transactional River client''
       (MediaDelete \<lparr>mda_MediaID = mas_ID m, mda_StagingOnly = False\<rparr>) (if t > due then t else due)) (tx_return ()) s)"

definition markDeleting :: "river option \<Rightarrow> media_asset \<Rightarrow> (db, unit) tx" where
  "markDeleting jobs m = tx_bind (q_MarkMediaDeleting (mas_ID m)) (\<lambda>n.
     if n = 0 then tx_return () else enqueueDelete jobs m)"

fun sweep_staging :: "river option \<Rightarrow> media_asset list \<Rightarrow> (db, int) tx" where
  "sweep_staging jobs [] = tx_return 0"
| "sweep_staging jobs (m # ms) =
     tx_seq (enqueue_tx jobs ''staging cleanup requires transactional River client''
       (MediaDelete \<lparr>mda_MediaID = mas_ID m, mda_StagingOnly = True\<rparr>) 0)
     (tx_seq (q_TouchMediaStagingCleanup (mas_ID m))
     (tx_bind (sweep_staging jobs ms) (\<lambda>n. tx_return (n + 1))))"

fun sweep_expired :: "river option \<Rightarrow> media_asset list \<Rightarrow> (db, int) tx" where
  "sweep_expired jobs [] = tx_return 0"
| "sweep_expired jobs (m # ms) =
     tx_seq (if mas_Status m = MediaStatusDeleting
             then tx_seq (enqueueDelete jobs m) (q_TouchDeletingMedia (mas_ID m))
             else markDeleting jobs m)
     (tx_bind (sweep_expired jobs ms) (\<lambda>n. tx_return (n + 1)))"

definition media_Sweep :: "river option \<Rightarrow> int \<Rightarrow> (db, int) tx" where
  "media_Sweep jobs batch = tx_bind (q_LockStagingCleanupMedia batch) (\<lambda>staging.
     tx_bind (sweep_staging jobs staging) (\<lambda>n.
     tx_bind (q_LockExpiredMedia batch) (\<lambda>rows.
     tx_bind (sweep_expired jobs rows) (\<lambda>k. tx_return (n + k)))))"

definition media_Complete :: "(MediaAsset \<Rightarrow> ('p world, VerifiedImage) prog) \<Rightarrow> int \<Rightarrow> int \<Rightarrow> ('p world, MediaAsset) prog" where
  "media_Complete verify uid i =
     prog_bind (transact (tx_on_no_rows (q_GetMediaAsset i) (tx_throw media_not_found))) (\<lambda>m.
     if mas_OwnerID m \<noteq> Some uid then prog_throw media_forbidden
     else if mas_Status m = MediaStatusReady then
       prog_bind (transact (q_CanReadMedia i (communityID uid))) (\<lambda>allowed.
         if \<not> allowed then prog_throw media_not_ready else prog_return (toMedia m))
     else prog_bind time_Now (\<lambda>now.
       if mas_Status m \<noteq> MediaStatusPending \<or> \<not> mas_ExpiresAt m > now then prog_throw media_not_ready
       else prog_bind (verify (toMedia m)) (\<lambda>v.
         prog_bind (transact (tx_on_no_rows (q_ReadyMediaAsset i (vi_ContentType v) (vi_Size v) (vi_Width v) (vi_Height v))
                      (tx_throw media_not_ready)))
           (\<lambda>m. prog_return (toMedia m)))))"

definition media_Read :: "int \<Rightarrow> int \<Rightarrow> (db, MediaAsset) tx" where
  "media_Read uid i = tx_bind (tx_on_no_rows (q_GetMediaAsset i) (tx_throw media_not_found)) (\<lambda>m.
     tx_bind (q_CanReadMedia i (communityID uid)) (\<lambda>ok.
       if \<not> ok \<or> mas_Status m \<noteq> MediaStatusReady then tx_throw media_not_found else tx_return (toMedia m)))"

definition media_Remove :: "(MediaAsset \<Rightarrow> ('p world, unit) prog) \<Rightarrow> int \<Rightarrow> ('p world, unit) prog" where
  "media_Remove remove i =
     prog_bind (transact (tx_optional (q_GetMediaAsset i))) (\<lambda>row.
     case row of
       None \<Rightarrow> prog_return ()
     | Some m \<Rightarrow>
         if mas_Status m = MediaStatusDeleted then prog_return ()
         else if mas_Status m \<noteq> MediaStatusDeleting then prog_throw media_not_ready
         else prog_bind time_Now (\<lambda>now.
           if now < mas_UploadExpiresAt m + Minute then prog_throw ErrMediaCleanupNotDue
           else prog_bind (transact (tx_optional (q_GetMediaBinding i))) (\<lambda>binding.
             if binding \<noteq> None then prog_throw media_not_ready
             else prog_bind (remove (toMedia m)) (\<lambda>_. transact (q_MarkMediaDeleted i)))))"

definition removeMediaStaging :: "(MediaAsset \<Rightarrow> ('p world, unit) prog) \<Rightarrow> int \<Rightarrow> ('p world, unit) prog" where
  "removeMediaStaging remove i =
     prog_bind (transact (tx_optional (q_GetMediaAsset i))) (\<lambda>row.
     case row of
       None \<Rightarrow> prog_return ()
     | Some m \<Rightarrow>
         if mas_StagingCleaned m \<or> mas_Status m \<noteq> MediaStatusReady then prog_return ()
         else prog_bind time_Now (\<lambda>now.
           if now < mas_UploadExpiresAt m + Minute then prog_throw ErrMediaCleanupNotDue
           else prog_bind (remove (toMedia m)) (\<lambda>_. transact (q_MarkMediaStagingCleaned i))))"

section \<open>Use cases\<close>

record UploadGrant =
  ugr_URL :: string
  ugr_Fields :: "string \<Rightarrow> string option"
  ugr_ExpiresAt :: int

record 'w ObjectStorage =
  os_Location :: "string \<times> string"
  os_CreateUpload :: "ObjectRef \<Rightarrow> string \<Rightarrow> int \<Rightarrow> int \<Rightarrow> ('w, UploadGrant) prog"
  os_ReadObject :: "ObjectRef \<Rightarrow> int \<Rightarrow> ('w, string) prog"
  os_PutImmutable :: "ObjectRef \<Rightarrow> string \<Rightarrow> string \<Rightarrow> ('w, bool) prog"
  os_ReadURL :: "ObjectRef \<Rightarrow> int \<Rightarrow> ('w, string) prog"
  os_DeleteObject :: "ObjectRef \<Rightarrow> ('w, unit) prog"

record MediaPolicy =
  mpo_UploadTTL :: int
  mpo_ReadTTL :: int
  mpo_UnusedRetention :: int

text \<open>\<open>image.DecodeConfig\<close> and \<open>image.Decode\<close>: width, height and the name of the format.\<close>

record image_lib =
  il_DecodeConfig :: "string \<Rightarrow> (int \<times> int \<times> string) option"
  il_Decode :: "string \<Rightarrow> (int \<times> int \<times> string) option"

definition MaxImageBytes :: int where
  "MaxImageBytes = 10 * 1024 * 1024"

definition MaxImagePixels :: int where
  "MaxImagePixels = 20000000"

definition MaxImageDimension :: int where
  "MaxImageDimension = 10000"

definition supportedImage :: "string \<Rightarrow> bool" where
  "supportedImage m \<longleftrightarrow> m = ''image/jpeg'' \<or> m = ''image/png'' \<or> m = ''image/webp''"

definition image_mime :: "string \<Rightarrow> string" where
  "image_mime format = (if format = ''jpeg'' then ''image/jpeg'' else if format = ''png'' then ''image/png''
     else if format = ''webp'' then ''image/webp'' else '''')"

abbreviation invalid_image :: error where
  "invalid_image \<equiv> BadRequest ''INVALID_IMAGE''"

definition ValidateImage :: "image_lib \<Rightarrow> string \<Rightarrow> string \<Rightarrow> int \<Rightarrow> error + VerifiedImage" where
  "ValidateImage I b declared sizeBytes =
     (if \<not> supportedImage declared \<or> go_len b \<noteq> sizeBytes \<or> sizeBytes < 1 \<or> sizeBytes > MaxImageBytes then Inl invalid_image
      else case il_DecodeConfig I b of
        None \<Rightarrow> Inl invalid_image
      | Some (w, h, format) \<Rightarrow>
          if image_mime format \<noteq> declared \<or> w < 1 \<or> h < 1 \<or> w > MaxImageDimension \<or> h > MaxImageDimension \<or>
             wrap64 (w * h) > MaxImagePixels then Inl invalid_image
          else (case il_Decode I b of
            None \<Rightarrow> Inl invalid_image
          | Some (dx, dy, f) \<Rightarrow> if f \<noteq> format \<or> dx \<noteq> w \<or> dy \<noteq> h then Inl invalid_image
              else Inr \<lparr>vi_ContentType = image_mime format, vi_Size = sizeBytes, vi_Width = wrap32 w, vi_Height = wrap32 h\<rparr>))"

definition uc_CreateUpload :: "'p world ObjectStorage \<Rightarrow> MediaPolicy \<Rightarrow> (error + string) \<Rightarrow> Actor \<Rightarrow> string \<Rightarrow> int \<Rightarrow>
    ('p world, MediaAsset \<times> UploadGrant) prog" where
  "uc_CreateUpload S pol rnd a mime sizeBytes =
     prog_bind (prog_lift (Actor_Validate a)) (\<lambda>_.
     if \<not> supportedImage mime \<or> sizeBytes < 1 \<or> sizeBytes > MaxImageBytes then prog_throw invalid_image
     else if fst (os_Location S) = ''disabled'' then prog_throw (ServiceUnavailable ''STORAGE_UNAVAILABLE'')
     else prog_bind (prog_lift rnd) (\<lambda>key. prog_bind time_Now (\<lambda>now.
       let name = hex_EncodeToString key;
           asset = \<lparr>ma_ID = 0, ma_OwnerID = 0,
             ma_Object = \<lparr>obj_Provider = fst (os_Location S), obj_Bucket = snd (os_Location S), obj_Key = ''images/'' @ name\<rparr>,
             ma_StagingKey = ''uploads/'' @ name, ma_ContentType = mime, ma_Status = MediaStatusPending, ma_URL = '''',
             ma_SizeBytes = sizeBytes, ma_Width = 0, ma_Height = 0,
             ma_ExpiresAt = now + mpo_UnusedRetention pol, ma_UploadExpiresAt = now + mpo_UploadTTL pol\<rparr>
       in prog_bind (transact (media_Create (actor_ID a) asset)) (\<lambda>created.
          prog_bind (os_CreateUpload S ((ma_Object asset)\<lparr>obj_Key := ma_StagingKey asset\<rparr>) mime sizeBytes (ma_UploadExpiresAt asset))
            (\<lambda>grant. prog_return (created, grant))))))"

text \<open>The verification of the uploaded bytes: read the staging object, check it, store it under
  the immutable key; when another attempt stored it first, check what is stored.\<close>

definition verify_upload :: "'p world ObjectStorage \<Rightarrow> image_lib \<Rightarrow> MediaAsset \<Rightarrow> ('p world, VerifiedImage) prog" where
  "verify_upload S I m =
     prog_bind (os_ReadObject S ((ma_Object m)\<lparr>obj_Key := ma_StagingKey m\<rparr>) MaxImageBytes) (\<lambda>b.
     prog_bind (prog_lift (ValidateImage I b (ma_ContentType m) (ma_SizeBytes m))) (\<lambda>v.
     prog_bind (os_PutImmutable S (ma_Object m) b (vi_ContentType v)) (\<lambda>created.
     if \<not> created then prog_bind (os_ReadObject S (ma_Object m) MaxImageBytes) (\<lambda>b.
       prog_lift (ValidateImage I b (ma_ContentType m) (ma_SizeBytes m)))
     else prog_return v)))"

definition with_url :: "'p world ObjectStorage \<Rightarrow> MediaPolicy \<Rightarrow> MediaAsset \<Rightarrow> ('p world, MediaAsset) prog" where
  "with_url S pol m = prog_bind (os_ReadURL S (ma_Object m) (mpo_ReadTTL pol)) (\<lambda>url. prog_return (m\<lparr>ma_URL := url\<rparr>))"

definition uc_media_Complete :: "'p world ObjectStorage \<Rightarrow> image_lib \<Rightarrow> MediaPolicy \<Rightarrow> Actor \<Rightarrow> int \<Rightarrow> ('p world, MediaAsset) prog" where
  "uc_media_Complete S I pol a i =
     prog_bind (prog_lift (Actor_Validate a)) (\<lambda>_. prog_bind (prog_lift (PositiveIDs [i])) (\<lambda>_.
     prog_bind (media_Complete (verify_upload S I) (actor_ID a) i) (with_url S pol)))"

definition uc_media_Get :: "'p world ObjectStorage \<Rightarrow> MediaPolicy \<Rightarrow> Actor \<Rightarrow> int \<Rightarrow> ('p world, MediaAsset) prog" where
  "uc_media_Get S pol a i =
     prog_bind (prog_lift (Actor_Validate a)) (\<lambda>_. prog_bind (prog_lift (PositiveIDs [i])) (\<lambda>_.
     prog_bind (transact (media_Read (actor_ID a) i)) (with_url S pol)))"

definition uc_media_Remove :: "'p world ObjectStorage \<Rightarrow> int \<Rightarrow> ('p world, unit) prog" where
  "uc_media_Remove S = media_Remove (\<lambda>m. prog_bind (os_DeleteObject S (ma_Object m)) (\<lambda>_.
     os_DeleteObject S ((ma_Object m)\<lparr>obj_Key := ma_StagingKey m\<rparr>)))"

definition uc_media_RemoveStaging :: "'p world ObjectStorage \<Rightarrow> int \<Rightarrow> ('p world, unit) prog" where
  "uc_media_RemoveStaging S = removeMediaStaging (\<lambda>m. os_DeleteObject S ((ma_Object m)\<lparr>obj_Key := ma_StagingKey m\<rparr>))"

section \<open>Workers\<close>

definition MediaSweepWorker_Work :: "river option \<Rightarrow> int \<Rightarrow> ('p world, work_result) prog" where
  "MediaSweepWorker_Work jobs batch = prog_bind (transact (media_Sweep jobs batch)) (\<lambda>_. prog_return JobComplete)"

definition MediaDeleteWorker_Work :: "'p world ObjectStorage \<Rightarrow> MediaDeleteArgs \<Rightarrow> ('p world, work_result) prog" where
  "MediaDeleteWorker_Work S args =
     (if mda_MediaID args \<le> 0 then prog_return (JobCancel (Errorf ''invalid media ID''))
      else prog_try (if mda_StagingOnly args then uc_media_RemoveStaging S (mda_MediaID args)
                     else uc_media_Remove S (mda_MediaID args)) (\<lambda>r.
        case r of
          Inl e \<Rightarrow> if e = ErrMediaCleanupNotDue then prog_return (JobSnooze Minute) else prog_throw e
        | Inr _ \<Rightarrow> prog_return JobComplete))"

text \<open>The handlers of the media service.\<close>

definition svc_CreateImageUpload :: "'p world ObjectStorage \<Rightarrow> MediaPolicy \<Rightarrow> (error + string) \<Rightarrow> EcommerceClaims option \<Rightarrow>
    string \<Rightarrow> int \<Rightarrow> ('p world, MediaAsset \<times> UploadGrant) prog" where
  "svc_CreateImageUpload S pol rnd ctx contentType sizeBytes =
     prog_bind (prog_lift (actor ctx)) (\<lambda>a. uc_CreateUpload S pol rnd a contentType sizeBytes)"

definition svc_CompleteImageUpload :: "'p world ObjectStorage \<Rightarrow> image_lib \<Rightarrow> MediaPolicy \<Rightarrow> EcommerceClaims option \<Rightarrow> int \<Rightarrow>
    ('p world, MediaAsset) prog" where
  "svc_CompleteImageUpload S I pol ctx i = prog_bind (prog_lift (actor ctx)) (\<lambda>a. uc_media_Complete S I pol a i)"

definition svc_GetImage :: "'p world ObjectStorage \<Rightarrow> MediaPolicy \<Rightarrow> EcommerceClaims option \<Rightarrow> int \<Rightarrow> ('p world, MediaAsset) prog" where
  "svc_GetImage S pol ctx i = prog_bind (prog_lift (actor ctx)) (\<lambda>a. uc_media_Get S pol a i)"

end
