(* ===== verification/Community.thy ===== *)
theory Community
  imports Media
begin

text \<open>
  Posts, images of posts, likes and comments (app/mall/internal/biz/post.go, biz/comment.go,
  data/post.go, data/comment.go, data/community.go, data/community\_user.go, the statements of
  posts, post\_likes and post\_comments, service/community.go). A post carries a version for
  optimistic locking; comments have two levels; deleting an account hides its content.
\<close>

section \<open>Statements\<close>

text \<open>The constraints on stored text: \<open>char_length(btrim(t)) BETWEEN 1 AND n\<close>.\<close>

definition btrim :: "string \<Rightarrow> string" where
  "btrim t = rev (dropWhile (\<lambda>c. c = CHR '' '') (rev (dropWhile (\<lambda>c. c = CHR '' '') t)))"

definition text_check :: "int \<Rightarrow> string \<Rightarrow> bool" where
  "text_check n t \<longleftrightarrow> 1 \<le> RuneCountInString (btrim t) \<and> RuneCountInString (btrim t) \<le> n"

definition post_check :: "string \<Rightarrow> string \<Rightarrow> bool" where
  "post_check title content \<longleftrightarrow> text_check 100 title \<and> text_check 5000 content"

definition q_CreatePost :: "int option \<Rightarrow> string \<Rightarrow> string \<Rightarrow> (db, post) tx" where
  "q_CreatePost author title content = (\<lambda>s.
     if \<not> post_check title content then Inl (CheckViolation ''posts_check'')
     else sql_insert tb_posts put_posts
       \<lparr>pst_ID = next_id pst_ID (tb_posts s), pst_AuthorID = author, pst_Title = title, pst_Content = content,
        pst_Version = 1, pst_CreatedAt = tb_current_timestamp s, pst_UpdatedAt = tb_current_timestamp s,
        pst_DeletedAt = None\<rparr> s)"

text \<open>\<open>COALESCE(u.nickname, ...)\<close>: a removed author is shown as logged off (in Chinese, as UTF-8 bytes).\<close>

definition deleted_nickname :: string where
  "deleted_nickname = map char_of [229, 183, 178, 230, 179, 168, 233, 148, 128 :: nat]"

definition author_nickname :: "db \<Rightarrow> int option \<Rightarrow> string" where
  "author_nickname s author = (case author of
     None \<Rightarrow> deleted_nickname
   | Some i \<Rightarrow> (case find_row usr_ID i (tb_users s) of None \<Rightarrow> deleted_nickname | Some u \<Rightarrow> usr_Nickname u))"

definition q_GetVisiblePost :: "int \<Rightarrow> (db, post \<times> string) tx" where
  "q_GetVisiblePost i = (\<lambda>s. case List.find (\<lambda>p. pst_ID p = i \<and> pst_DeletedAt p = None) (tb_posts s) of
     None \<Rightarrow> Inl ErrNoRows
   | Some p \<Rightarrow> Inr ((p, author_nickname s (pst_AuthorID p)), s))"

definition hide_post :: "int \<Rightarrow> post \<Rightarrow> post" where
  "hide_post now p = p\<lparr>pst_DeletedAt := Some now, pst_UpdatedAt := now, pst_Version := pst_Version p + 1\<rparr>"

definition q_HideUserPosts :: "int option \<Rightarrow> (db, unit) tx" where
  "q_HideUserPosts author = (\<lambda>s. Inr ((), put_posts (map (\<lambda>p.
     if sql_eq (pst_AuthorID p) author \<and> pst_DeletedAt p = None then hide_post (tb_clock_timestamp s) p else p) (tb_posts s)) s))"

record ListPostsParams =
  lpp_AuthorID :: int
  lpp_HasCursor :: bool
  lpp_CursorTime :: int
  lpp_CursorID :: int
  lpp_PageLimit :: int

definition listed_posts :: "int \<Rightarrow> db \<Rightarrow> post list" where
  "listed_posts author s = filter (\<lambda>p. pst_DeletedAt p = None \<and> (author = 0 \<or> pst_AuthorID p = Some author)) (tb_posts s)"

text \<open>\<open>ORDER BY p.created_at DESC, p.id DESC\<close>\<close>

definition post_key :: "post \<Rightarrow> int \<times> int" where
  "post_key p = (- pst_CreatedAt p, - pst_ID p)"

definition q_ListPosts :: "ListPostsParams \<Rightarrow> (db, (post \<times> string) list) tx" where
  "q_ListPosts a = tx_read (\<lambda>s. map (\<lambda>p. (p, author_nickname s (pst_AuthorID p))) (take (nat (lpp_PageLimit a))
     (sort_key post_key (filter (\<lambda>p. \<not> lpp_HasCursor a \<or> (pst_CreatedAt p, pst_ID p) < (lpp_CursorTime a, lpp_CursorID a))
       (listed_posts (lpp_AuthorID a) s)))))"

definition q_LockPost :: "int \<Rightarrow> (db, post) tx" where
  "q_LockPost i = sql_get tb_posts pst_ID i"

definition q_LockUserCommunityPosts :: "int option \<Rightarrow> (db, post list) tx" where
  "q_LockUserCommunityPosts author = tx_read (\<lambda>s. sort_key pst_ID (filter (\<lambda>p. sql_eq (pst_AuthorID p) author \<or>
     list_ex (\<lambda>c. cmt_PostID c = pst_ID p \<and> sql_eq (cmt_AuthorID c) author) (tb_comments s)) (tb_posts s)))"

definition q_SoftDeletePost :: "int \<Rightarrow> int option \<Rightarrow> bool \<Rightarrow> (db, int) tx" where
  "q_SoftDeletePost i actorID isAdmin = (\<lambda>s. sql_exec tb_posts put_posts pst_ID i
     (\<lambda>p. pst_DeletedAt p = None \<and> (sql_eq (pst_AuthorID p) actorID \<or> isAdmin)) (hide_post (tb_clock_timestamp s)) s)"

definition q_UpdatePost :: "int \<Rightarrow> int option \<Rightarrow> string \<Rightarrow> string \<Rightarrow> int \<Rightarrow> (db, post) tx" where
  "q_UpdatePost i author title content expectedVersion = (\<lambda>s.
     case sql_update tb_posts put_posts pst_ID i
       (\<lambda>p. sql_eq (pst_AuthorID p) author \<and> pst_DeletedAt p = None \<and> pst_Version p = expectedVersion)
       (\<lambda>p. p\<lparr>pst_Title := title, pst_Content := content, pst_Version := pst_Version p + 1,
              pst_UpdatedAt := tb_clock_timestamp s\<rparr>) s of
       Inl e \<Rightarrow> Inl e
     | Inr r \<Rightarrow> if post_check title content then Inr r else Inl (CheckViolation ''posts_check''))"

record GetPostStatsRow =
  gps_ID :: int
  gps_LikeCount :: int
  gps_CommentCount :: int
  gps_LikedByMe :: bool

definition post_stats :: "int \<Rightarrow> db \<Rightarrow> int \<Rightarrow> GetPostStatsRow" where
  "post_stats viewer s i = \<lparr>gps_ID = i, gps_LikeCount = go_len (filter (\<lambda>l. lik_PostID l = i) (tb_likes s)),
     gps_CommentCount = go_len (filter (\<lambda>c. cmt_PostID c = i \<and> cmt_DeletedAt c = None) (tb_comments s)),
     gps_LikedByMe = list_ex (\<lambda>l. lik_PostID l = i \<and> lik_UserID l = viewer) (tb_likes s)\<rparr>"

definition q_GetPostStats :: "int \<Rightarrow> int list \<Rightarrow> (db, GetPostStatsRow list) tx" where
  "q_GetPostStats viewer ids = tx_read (\<lambda>s. map (\<lambda>p. post_stats viewer s (pst_ID p))
     (filter (\<lambda>p. pst_ID p \<in> set ids \<and> pst_DeletedAt p = None) (tb_posts s)))"

definition q_LikePost :: "int \<Rightarrow> int \<Rightarrow> (db, unit) tx" where
  "q_LikePost pid uid = (\<lambda>s.
     if list_ex (\<lambda>l. lik_PostID l = pid \<and> lik_UserID l = uid) (tb_likes s) then Inr ((), s)
     else Inr ((), s\<lparr>tb_likes := tb_likes s @ [\<lparr>lik_PostID = pid, lik_UserID = uid, lik_CreatedAt = tb_current_timestamp s\<rparr>]\<rparr>))"

definition q_UnlikePost :: "int \<Rightarrow> int \<Rightarrow> (db, unit) tx" where
  "q_UnlikePost pid uid = (\<lambda>s. Inr ((), s\<lparr>tb_likes := filter (\<lambda>l. \<not> (lik_PostID l = pid \<and> lik_UserID l = uid)) (tb_likes s)\<rparr>))"

text \<open>
  Comments, with the constraints of the table and the trigger that keeps threads at two levels:
  the root is a top-level comment of the post, the target belongs to the same thread.
\<close>

definition thread_check :: "int \<Rightarrow> int option \<Rightarrow> int option \<Rightarrow> post_comment list \<Rightarrow> bool" where
  "thread_check pid rt target t \<longleftrightarrow> (case (rt, target) of
     (None, None) \<Rightarrow> True
   | (Some r, Some g) \<Rightarrow>
       list_ex (\<lambda>c. cmt_PostID c = pid \<and> cmt_ID c = r \<and> cmt_RootCommentID c = None) t \<and>
       list_ex (\<lambda>c. cmt_PostID c = pid \<and> cmt_ID c = g \<and> (cmt_ID c = r \<or> cmt_RootCommentID c = Some r)) t
   | _ \<Rightarrow> False)"

definition q_CreateComment :: "int \<Rightarrow> int option \<Rightarrow> int option \<Rightarrow> int option \<Rightarrow> string \<Rightarrow> (db, post_comment) tx" where
  "q_CreateComment pid author rt target content = (\<lambda>s.
     if \<not> thread_check pid rt target (tb_comments s) \<or> \<not> text_check 1000 content
     then Inl (CheckViolation ''post_comments_check'')
     else sql_insert tb_comments put_comments
       \<lparr>cmt_ID = next_id cmt_ID (tb_comments s), cmt_PostID = pid, cmt_AuthorID = author, cmt_RootCommentID = rt,
        cmt_ReplyToCommentID = target, cmt_Content = content, cmt_CreatedAt = tb_current_timestamp s, cmt_DeletedAt = None\<rparr> s)"

definition redact :: "int \<Rightarrow> post_comment \<Rightarrow> post_comment" where
  "redact now c = c\<lparr>cmt_Content := '''', cmt_DeletedAt := Some now\<rparr>"

definition q_DeleteComment :: "int \<Rightarrow> int \<Rightarrow> int option \<Rightarrow> bool \<Rightarrow> (db, int) tx" where
  "q_DeleteComment pid i actorID isAdmin = (\<lambda>s. sql_exec tb_comments put_comments cmt_ID i
     (\<lambda>c. cmt_PostID c = pid \<and> cmt_DeletedAt c = None \<and> (sql_eq (cmt_AuthorID c) actorID \<or> isAdmin))
     (redact (tb_clock_timestamp s)) s)"

definition q_DeleteUserComments :: "int option \<Rightarrow> (db, unit) tx" where
  "q_DeleteUserComments author = (\<lambda>s. Inr ((), put_comments (map (\<lambda>c.
     if sql_eq (cmt_AuthorID c) author \<and> cmt_DeletedAt c = None then redact (tb_clock_timestamp s) c else c) (tb_comments s)) s))"

definition q_GetComment :: "int \<Rightarrow> int \<Rightarrow> (db, post_comment) tx" where
  "q_GetComment pid i = sql_find tb_comments (\<lambda>c. cmt_PostID c = pid \<and> cmt_ID c = i)"

definition live_replies :: "db \<Rightarrow> post_comment \<Rightarrow> post_comment list" where
  "live_replies s c = filter (\<lambda>r. cmt_PostID r = cmt_PostID c \<and> cmt_RootCommentID r = Some (cmt_ID c) \<and>
     cmt_DeletedAt r = None) (tb_comments s)"

record ListRootCommentsRow =
  lrc_Comment :: post_comment
  lrc_Nickname :: string
  lrc_ReplyCount :: int

definition root_row :: "db \<Rightarrow> post_comment \<Rightarrow> ListRootCommentsRow" where
  "root_row s c = \<lparr>lrc_Comment = c,
     lrc_Nickname = (if cmt_DeletedAt c = None then author_nickname s (cmt_AuthorID c) else ''''),
     lrc_ReplyCount = go_len (live_replies s c)\<rparr>"

definition listed_roots :: "int \<Rightarrow> db \<Rightarrow> post_comment list" where
  "listed_roots pid s = filter (\<lambda>c. cmt_PostID c = pid \<and> visible_post s pid \<and> cmt_RootCommentID c = None \<and>
     (cmt_DeletedAt c = None \<or> live_replies s c \<noteq> [])) (tb_comments s)"

text \<open>\<open>ORDER BY c.created_at DESC, c.id DESC\<close>\<close>

definition root_key :: "post_comment \<Rightarrow> int \<times> int" where
  "root_key c = (- cmt_CreatedAt c, - cmt_ID c)"

definition q_ListRootComments :: "int \<Rightarrow> bool \<Rightarrow> int \<Rightarrow> int \<Rightarrow> int \<Rightarrow> (db, ListRootCommentsRow list) tx" where
  "q_ListRootComments pid hasCursor cursorTime cursorID lmt = tx_read (\<lambda>s. map (root_row s) (take (nat lmt)
     (sort_key root_key (filter (\<lambda>c. \<not> hasCursor \<or> (cmt_CreatedAt c, cmt_ID c) < (cursorTime, cursorID)) (listed_roots pid s)))))"

record ListCommentRepliesRow =
  lcr_Comment :: post_comment
  lcr_Nickname :: string
  lcr_TargetDeleted :: bool
  lcr_TargetAuthorID :: int
  lcr_TargetNickname :: string

definition reply_row :: "db \<Rightarrow> post_comment \<Rightarrow> post_comment \<Rightarrow> ListCommentRepliesRow" where
  "reply_row s c target = \<lparr>lcr_Comment = c, lcr_Nickname = author_nickname s (cmt_AuthorID c),
     lcr_TargetDeleted = (cmt_DeletedAt target \<noteq> None),
     lcr_TargetAuthorID = (if cmt_DeletedAt target = None then int8_Int64 (cmt_AuthorID target) else 0),
     lcr_TargetNickname = (if cmt_DeletedAt target = None then author_nickname s (cmt_AuthorID target) else '''')\<rparr>"

definition reply_target :: "db \<Rightarrow> post_comment \<Rightarrow> post_comment option" where
  "reply_target s c = List.find (\<lambda>g. cmt_PostID g = cmt_PostID c \<and> cmt_ReplyToCommentID c = Some (cmt_ID g)) (tb_comments s)"

definition listed_replies :: "int \<Rightarrow> int option \<Rightarrow> db \<Rightarrow> post_comment list" where
  "listed_replies pid rt s = filter (\<lambda>c. cmt_PostID c = pid \<and> visible_post s pid \<and> sql_eq (cmt_RootCommentID c) rt \<and>
     cmt_DeletedAt c = None \<and> reply_target s c \<noteq> None) (tb_comments s)"

text \<open>\<open>ORDER BY c.created_at, c.id\<close>: replies are listed oldest first.\<close>

definition reply_key :: "post_comment \<Rightarrow> int \<times> int" where
  "reply_key c = (cmt_CreatedAt c, cmt_ID c)"

definition q_ListCommentReplies :: "int \<Rightarrow> int option \<Rightarrow> bool \<Rightarrow> int \<Rightarrow> int \<Rightarrow> int \<Rightarrow> (db, ListCommentRepliesRow list) tx" where
  "q_ListCommentReplies pid rt hasCursor cursorTime cursorID lmt = tx_read (\<lambda>s.
     map (\<lambda>c. reply_row s c (the (reply_target s c))) (take (nat lmt)
     (sort_key reply_key (filter (\<lambda>c. \<not> hasCursor \<or> (cmt_CreatedAt c, cmt_ID c) > (cursorTime, cursorID)) (listed_replies pid rt s)))))"

section \<open>The post repository\<close>

record Author =
  aut_ID :: int
  aut_Nickname :: string

record Post =
  bp_ID :: int
  bp_Author :: Author
  bp_Title :: string
  bp_Content :: string
  bp_Version :: int
  bp_CreatedAt :: int
  bp_UpdatedAt :: int
  bp_Images :: "MediaAsset list"
  bp_LikeCount :: int
  bp_CommentCount :: int
  bp_LikedByMe :: bool

record PostInput =
  pin_Title :: string
  pin_Content :: string
  pin_ImageIDs :: "int list"
  pin_ExpectedVersion :: int

abbreviation post_not_found :: error where
  "post_not_found \<equiv> NotFound ''POST_NOT_FOUND''"

abbreviation post_version_conflict :: error where
  "post_version_conflict \<equiv> Conflict ''POST_VERSION_CONFLICT''"

definition lockVisiblePost :: "int \<Rightarrow> (db, post) tx" where
  "lockVisiblePost i = tx_bind (tx_on_no_rows (q_LockPost i) (tx_throw post_not_found)) (\<lambda>p.
     if pst_DeletedAt p \<noteq> None then tx_throw post_not_found else tx_return p)"

definition post_base :: "post \<times> string \<Rightarrow> Post" where
  "post_base = (\<lambda>(p, nickname). \<lparr>bp_ID = pst_ID p, bp_Author = \<lparr>aut_ID = int8_Int64 (pst_AuthorID p), aut_Nickname = nickname\<rparr>,
     bp_Title = pst_Title p, bp_Content = pst_Content p, bp_Version = pst_Version p, bp_CreatedAt = pst_CreatedAt p,
     bp_UpdatedAt = pst_UpdatedAt p, bp_Images = [], bp_LikeCount = 0, bp_CommentCount = 0, bp_LikedByMe = False\<rparr>)"

definition image_asset :: "media_asset \<Rightarrow> MediaAsset" where
  "image_asset m = \<lparr>ma_ID = mas_ID m, ma_OwnerID = int8_Int64 (mas_OwnerID m),
     ma_Object = \<lparr>obj_Provider = mas_Provider m, obj_Bucket = mas_BucketName m, obj_Key = mas_ObjectKey m\<rparr>,
     ma_StagingKey = '''', ma_ContentType = mas_ContentType m, ma_Status = mas_Status m, ma_URL = '''',
     ma_SizeBytes = mas_SizeBytes m, ma_Width = mas_Width m, ma_Height = mas_Height m,
     ma_ExpiresAt = zero_time, ma_UploadExpiresAt = zero_time\<rparr>"

text \<open>
  \<open>enrich\<close>: the rows of two page-wide queries are written into the posts they belong to, found
  through the map from ids to posts.
\<close>

definition add_stats :: "Post list \<Rightarrow> GetPostStatsRow \<Rightarrow> Post list" where
  "add_stats ps r = map (\<lambda>p. if bp_ID p = gps_ID r then p\<lparr>bp_LikeCount := gps_LikeCount r,
     bp_CommentCount := gps_CommentCount r, bp_LikedByMe := gps_LikedByMe r\<rparr> else p) ps"

definition add_image :: "Post list \<Rightarrow> post_image \<times> media_asset \<Rightarrow> Post list" where
  "add_image ps r = map (\<lambda>p. if bp_ID p = img_PostID (fst r) then p\<lparr>bp_Images := bp_Images p @ [image_asset (snd r)]\<rparr> else p) ps"

definition enrich :: "int \<Rightarrow> Post list \<Rightarrow> (db, Post list) tx" where
  "enrich viewer posts =
     (if posts = [] then tx_return []
      else tx_bind (q_GetPostStats viewer (map bp_ID posts)) (\<lambda>stats.
           tx_bind (q_GetPostImages (map bp_ID posts)) (\<lambda>images.
           tx_return (foldl add_image (foldl add_stats posts stats) images))))"

definition post_get :: "int \<Rightarrow> int \<Rightarrow> (db, Post) tx" where
  "post_get viewer i = tx_bind (tx_on_no_rows (q_GetVisiblePost i) (tx_throw post_not_found)) (\<lambda>p.
     tx_bind (enrich viewer [post_base p]) (\<lambda>out. tx_return (hd out)))"

definition post_list :: "cursor_json \<Rightarrow> int \<Rightarrow> int \<Rightarrow> Page \<Rightarrow> (db, Post list \<times> string) tx" where
  "post_list J viewer author p = tx_bind (q_ListPosts \<lparr>lpp_AuthorID = author, lpp_HasCursor = pag_HasCursor p,
       lpp_CursorTime = pag_Time p, lpp_CursorID = pag_ID p, lpp_PageLimit = pag_Limit p + 1\<rparr>) (\<lambda>rows.
     case cut_page (\<lambda>r. NextCursor J p (pst_CreatedAt (fst r)) (pst_ID (fst r))) (pag_Limit p) rows of
       (rows, nxt) \<Rightarrow> tx_bind (enrich viewer (map post_base rows)) (\<lambda>out. tx_return (out, nxt)))"

text \<open>\<open>replaceImages\<close>: the checks of the new images, in the order of the request.\<close>

fun check_images :: "int \<Rightarrow> int \<Rightarrow> media_asset list \<Rightarrow> int list \<Rightarrow> (db, unit) tx" where
  "check_images uid pid assets [] = tx_return ()"
| "check_images uid pid assets (i # ids) = (case find_row mas_ID i assets of
     None \<Rightarrow> tx_throw media_not_ready
   | Some m \<Rightarrow>
       if mas_OwnerID m \<noteq> Some uid then tx_throw media_forbidden
       else if mas_Status m \<noteq> MediaStatusReady then tx_throw media_not_ready
       else tx_bind (tx_optional (q_GetMediaBinding i)) (\<lambda>bound. \<lambda>s.
         (case bound of
            Some b \<Rightarrow> if b \<noteq> pid then tx_throw media_not_ready else check_images uid pid assets ids
          | None \<Rightarrow> if \<not> mas_ExpiresAt m > tb_time_Now s then tx_throw media_not_ready
              else check_images uid pid assets ids) s))"

fun bind_images :: "int \<Rightarrow> int \<Rightarrow> int list \<Rightarrow> (db, unit) tx" where
  "bind_images pid k [] = tx_return ()"
| "bind_images pid k (i # ids) = tx_seq (q_BindPostImage pid i k) (bind_images pid (k + 1) ids)"

fun mark_all_deleting :: "river option \<Rightarrow> media_asset list \<Rightarrow> (db, unit) tx" where
  "mark_all_deleting jobs [] = tx_return ()"
| "mark_all_deleting jobs (m # ms) = tx_seq (markDeleting jobs m) (mark_all_deleting jobs ms)"

text \<open>\<open>byID[m.ID]\<close> for an old image: the zero asset where the map has no entry.\<close>

definition zero_media :: media_asset where
  "zero_media = \<lparr>mas_ID = 0, mas_OwnerID = None, mas_Provider = '''', mas_BucketName = '''', mas_ObjectKey = '''',
     mas_StagingKey = '''', mas_StagingCleaned = False, mas_StagingCleanupAt = None, mas_ContentType = '''', mas_SizeBytes = 0,
     mas_Width = 0, mas_Height = 0, mas_Status = MediaStatusPending, mas_ExpiresAt = zero_time,
     mas_UploadExpiresAt = zero_time, mas_CreatedAt = zero_time, mas_UpdatedAt = zero_time\<rparr>"

definition media_by_id :: "media_asset list \<Rightarrow> int \<Rightarrow> media_asset" where
  "media_by_id assets i = (case find_row mas_ID i assets of None \<Rightarrow> zero_media | Some m \<Rightarrow> m)"

definition replaceImages :: "river option \<Rightarrow> int \<Rightarrow> int \<Rightarrow> int list \<Rightarrow> (db, unit) tx" where
  "replaceImages jobs uid pid ids =
     tx_bind (q_GetPostImages [pid]) (\<lambda>old.
     tx_bind (q_LockMediaAssets (ids @ map (\<lambda>r. mas_ID (snd r)) old)) (\<lambda>assets.
     tx_seq (check_images uid pid assets ids)
     (tx_seq (q_UnbindPostImages pid)
     (tx_seq (bind_images pid 0 ids)
       (mark_all_deleting jobs (map (\<lambda>r. media_by_id assets (mas_ID (snd r)))
          (filter (\<lambda>r. mas_ID (snd r) \<notin> set ids) old)))))))"

definition post_Create :: "river option \<Rightarrow> Actor \<Rightarrow> PostInput \<Rightarrow> (db, Post) tx" where
  "post_Create jobs a i = tx_seq (lockCommunityUser (actor_ID a))
     (tx_bind (q_CreatePost (communityID (actor_ID a)) (pin_Title i) (pin_Content i)) (\<lambda>p.
      tx_seq (replaceImages jobs (actor_ID a) (pst_ID p) (pin_ImageIDs i)) (post_get (actor_ID a) (pst_ID p))))"

definition post_Update :: "river option \<Rightarrow> Actor \<Rightarrow> int \<Rightarrow> PostInput \<Rightarrow> (db, Post) tx" where
  "post_Update jobs a pid i = tx_seq (lockCommunityUser (actor_ID a))
     (tx_bind (lockVisiblePost pid) (\<lambda>p.
      tx_seq (tx_lift (Actor_Owns a (int8_Int64 (pst_AuthorID p)) False))
      (if pst_Version p \<noteq> pin_ExpectedVersion i then tx_throw post_version_conflict
       else tx_seq (replaceImages jobs (actor_ID a) pid (pin_ImageIDs i))
        (tx_seq (tx_on_no_rows (q_UpdatePost pid (communityID (actor_ID a)) (pin_Title i) (pin_Content i) (pin_ExpectedVersion i))
                  (tx_throw post_version_conflict))
          (post_get (actor_ID a) pid)))))"

definition post_Delete :: "river option \<Rightarrow> Actor \<Rightarrow> int \<Rightarrow> (db, unit) tx" where
  "post_Delete jobs a pid = tx_seq (lockCommunityUser (actor_ID a))
     (tx_bind (tx_on_no_rows (q_LockPost pid) (tx_throw post_not_found)) (\<lambda>p.
      tx_seq (tx_lift (Actor_Owns a (int8_Int64 (pst_AuthorID p)) True))
      (if pst_DeletedAt p \<noteq> None then tx_return ()
       else tx_bind (q_LockPostImageAssets pid) (\<lambda>images.
         tx_seq (q_SoftDeletePost pid (communityID (actor_ID a)) (actor_Admin a))
         (tx_seq (q_UnbindPostImages pid) (mark_all_deleting jobs images))))))"

definition post_SetLike :: "Actor \<Rightarrow> int \<Rightarrow> bool \<Rightarrow> (db, unit) tx" where
  "post_SetLike a pid on = tx_seq (lockCommunityUser (actor_ID a))
     (tx_seq (lockVisiblePost pid) (if on then q_LikePost pid (actor_ID a) else q_UnlikePost pid (actor_ID a)))"

section \<open>The comment repository\<close>

record Comment =
  bc_ID :: int
  bc_PostID :: int
  bc_RootID :: int
  bc_ReplyToID :: int
  bc_Author :: Author
  bc_Content :: string
  bc_CreatedAt :: int
  bc_Deleted :: bool
  bc_ReplyCount :: int
  bc_ReplyToDeleted :: bool
  bc_ReplyToAuthor :: "Author option"

abbreviation no_author :: Author where
  "no_author \<equiv> \<lparr>aut_ID = 0, aut_Nickname = ''''\<rparr>"

abbreviation invalid_reply_target :: error where
  "invalid_reply_target \<equiv> BadRequest ''INVALID_REPLY_TARGET''"

abbreviation comment_not_found :: error where
  "comment_not_found \<equiv> NotFound ''COMMENT_NOT_FOUND''"

text \<open>The root of the thread a reply belongs to; 0 for a top-level comment.\<close>

definition reply_root :: "int \<Rightarrow> int \<Rightarrow> (db, int) tx" where
  "reply_root pid targetID =
     (if targetID > 0 then
        tx_bind (tx_on_no_rows (q_GetComment pid targetID) (tx_throw invalid_reply_target)) (\<lambda>target.
        if cmt_DeletedAt target \<noteq> None then tx_throw invalid_reply_target
        else (let rootID = (case cmt_RootCommentID target of None \<Rightarrow> cmt_ID target | Some r \<Rightarrow> r) in
          tx_bind (tx_on_no_rows (q_GetComment pid rootID) (tx_throw invalid_reply_target)) (\<lambda>rt.
          if cmt_RootCommentID rt \<noteq> None then tx_throw invalid_reply_target
          else if cmt_DeletedAt rt \<noteq> None then tx_throw (Conflict ''COMMENT_THREAD_CLOSED'')
          else tx_return rootID)))
      else tx_return 0)"

definition comment_Create :: "Actor \<Rightarrow> int \<Rightarrow> string \<Rightarrow> int \<Rightarrow> (db, Comment) tx" where
  "comment_Create a pid content targetID = tx_seq (lockCommunityUser (actor_ID a))
     (tx_seq (lockVisiblePost pid)
     (tx_bind (reply_root pid targetID) (\<lambda>rootID.
      tx_bind (q_CreateComment pid (communityID (actor_ID a)) (communityID rootID) (communityID targetID) content) (\<lambda>c.
      tx_bind (q_GetUserByID (actor_ID a)) (\<lambda>u.
      tx_return \<lparr>bc_ID = cmt_ID c, bc_PostID = pid, bc_RootID = rootID, bc_ReplyToID = targetID,
        bc_Author = \<lparr>aut_ID = actor_ID a, aut_Nickname = usr_Nickname u\<rparr>, bc_Content = content, bc_CreatedAt = cmt_CreatedAt c,
        bc_Deleted = False, bc_ReplyCount = 0, bc_ReplyToDeleted = False, bc_ReplyToAuthor = None\<rparr>)))))"

definition root_comment :: "int \<Rightarrow> ListRootCommentsRow \<Rightarrow> Comment" where
  "root_comment pid r = (let c = lrc_Comment r; gone = (cmt_DeletedAt c \<noteq> None) in
     \<lparr>bc_ID = cmt_ID c, bc_PostID = pid, bc_RootID = 0, bc_ReplyToID = 0,
      bc_Author = (if gone then no_author else \<lparr>aut_ID = int8_Int64 (cmt_AuthorID c), aut_Nickname = lrc_Nickname r\<rparr>),
      bc_Content = (if gone then '''' else cmt_Content c), bc_CreatedAt = cmt_CreatedAt c, bc_Deleted = gone,
      bc_ReplyCount = lrc_ReplyCount r, bc_ReplyToDeleted = False, bc_ReplyToAuthor = None\<rparr>)"

definition reply_comment :: "int \<Rightarrow> ListCommentRepliesRow \<Rightarrow> Comment" where
  "reply_comment pid r = (let c = lcr_Comment r in
     \<lparr>bc_ID = cmt_ID c, bc_PostID = pid, bc_RootID = int8_Int64 (cmt_RootCommentID c),
      bc_ReplyToID = int8_Int64 (cmt_ReplyToCommentID c),
      bc_Author = \<lparr>aut_ID = int8_Int64 (cmt_AuthorID c), aut_Nickname = lcr_Nickname r\<rparr>, bc_Content = cmt_Content c,
      bc_CreatedAt = cmt_CreatedAt c, bc_Deleted = False, bc_ReplyCount = 0, bc_ReplyToDeleted = lcr_TargetDeleted r,
      bc_ReplyToAuthor = (if lcr_TargetDeleted r then None
        else Some \<lparr>aut_ID = lcr_TargetAuthorID r, aut_Nickname = lcr_TargetNickname r\<rparr>)\<rparr>)"

definition comment_rows :: "int \<Rightarrow> int \<Rightarrow> Page \<Rightarrow> (db, Comment list) tx" where
  "comment_rows pid rootID p =
     (if rootID = 0 then
        tx_bind (q_ListRootComments pid (pag_HasCursor p) (pag_Time p) (pag_ID p) (pag_Limit p + 1)) (\<lambda>rows.
        tx_return (map (root_comment pid) rows))
      else
        tx_bind (tx_on_no_rows (q_GetComment pid rootID) (tx_throw comment_not_found)) (\<lambda>rt.
        if cmt_RootCommentID rt \<noteq> None then tx_throw comment_not_found
        else tx_bind (q_ListCommentReplies pid (communityID rootID) (pag_HasCursor p) (pag_Time p) (pag_ID p) (pag_Limit p + 1)) (\<lambda>rows.
          tx_return (map (reply_comment pid) rows))))"

definition comment_list :: "cursor_json \<Rightarrow> int \<Rightarrow> int \<Rightarrow> Page \<Rightarrow> (db, Comment list \<times> string) tx" where
  "comment_list J pid rootID p =
     tx_seq (tx_on_no_rows (q_GetVisiblePost pid) (tx_throw post_not_found))
     (tx_bind (comment_rows pid rootID p) (\<lambda>out.
      tx_return (cut_page (\<lambda>c. NextCursor J p (bc_CreatedAt c) (bc_ID c)) (pag_Limit p) out)))"

definition comment_Delete :: "Actor \<Rightarrow> int \<Rightarrow> int \<Rightarrow> (db, unit) tx" where
  "comment_Delete a pid i = tx_seq (lockCommunityUser (actor_ID a))
     (tx_seq (lockVisiblePost pid)
     (tx_bind (tx_on_no_rows (q_GetComment pid i) (tx_throw comment_not_found)) (\<lambda>c.
      tx_seq (tx_lift (Actor_Owns a (int8_Int64 (cmt_AuthorID c)) True))
      (tx_seq (q_DeleteComment pid i (communityID (actor_ID a)) (actor_Admin a)) (tx_return ())))))"

section \<open>Deleting an account\<close>

definition community_DeleteUser :: "river option \<Rightarrow> int \<Rightarrow> (db, unit) tx" where
  "community_DeleteUser jobs i = tx_seq (lockCommunityUser i)
     (tx_seq (q_LockUserCommunityPosts (communityID i))
     (tx_seq (q_HideUserPosts (communityID i))
     (tx_seq (q_DeleteUserComments (communityID i))
     (tx_bind (q_LockUserMedia (communityID i)) (\<lambda>media.
      tx_seq (q_UnbindUserImages (communityID i))
      (tx_seq (mark_all_deleting jobs media) (repo_DeleteUser i)))))))"

section \<open>Use cases\<close>

fun check_image_ids :: "int set \<Rightarrow> int list \<Rightarrow> bool" where
  "check_image_ids seen [] \<longleftrightarrow> True"
| "check_image_ids seen (i # is) \<longleftrightarrow> \<not> (i \<le> 0 \<or> i \<in> seen) \<and> check_image_ids (insert i seen) is"

abbreviation invalid_content :: error where
  "invalid_content \<equiv> BadRequest ''INVALID_CONTENT''"

definition PostInput_Validate :: "PostInput \<Rightarrow> error + PostInput" where
  "PostInput_Validate i = (case ValidText (pin_Title i) 100 of
     Inl e \<Rightarrow> Inl e
   | Inr title \<Rightarrow> (case ValidText (pin_Content i) 5000 of
       Inl e \<Rightarrow> Inl e
     | Inr content \<Rightarrow>
         if go_len (pin_ImageIDs i) > 9 then Inl invalid_content
         else if \<not> check_image_ids {} (pin_ImageIDs i) then Inl invalid_content
         else Inr (i\<lparr>pin_Title := title, pin_Content := content\<rparr>)))"

fun image_urls :: "'p world ObjectStorage \<Rightarrow> MediaPolicy \<Rightarrow> MediaAsset list \<Rightarrow> ('p world, MediaAsset list) prog" where
  "image_urls S pol [] = prog_return []"
| "image_urls S pol (m # ms) = prog_bind (with_url S pol m) (\<lambda>m. prog_bind (image_urls S pol ms) (\<lambda>ms. prog_return (m # ms)))"

definition post_images :: "'p world ObjectStorage \<Rightarrow> MediaPolicy \<Rightarrow> Post \<Rightarrow> ('p world, Post) prog" where
  "post_images S pol p = prog_bind (image_urls S pol (bp_Images p)) (\<lambda>ms. prog_return (p\<lparr>bp_Images := ms\<rparr>))"

fun all_post_images :: "'p world ObjectStorage \<Rightarrow> MediaPolicy \<Rightarrow> Post list \<Rightarrow> ('p world, Post list) prog" where
  "all_post_images S pol [] = prog_return []"
| "all_post_images S pol (p # ps) = prog_bind (post_images S pol p) (\<lambda>p.
     prog_bind (all_post_images S pol ps) (\<lambda>ps. prog_return (p # ps)))"

definition uc_post_Create :: "'p world ObjectStorage \<Rightarrow> MediaPolicy \<Rightarrow> river option \<Rightarrow> Actor \<Rightarrow> PostInput \<Rightarrow> ('p world, Post) prog" where
  "uc_post_Create S pol jobs a i = prog_bind (prog_lift (Actor_Validate a)) (\<lambda>_.
     prog_bind (prog_lift (PostInput_Validate i)) (\<lambda>i. prog_bind (transact (post_Create jobs a i)) (post_images S pol)))"

definition uc_post_Get :: "'p world ObjectStorage \<Rightarrow> MediaPolicy \<Rightarrow> Actor \<Rightarrow> int \<Rightarrow> ('p world, Post) prog" where
  "uc_post_Get S pol a pid = prog_bind (prog_lift (Actor_Validate a)) (\<lambda>_. prog_bind (prog_lift (PositiveIDs [pid])) (\<lambda>_.
     prog_bind (transact (post_get (actor_ID a) pid)) (post_images S pol)))"

definition uc_post_List :: "'p world ObjectStorage \<Rightarrow> MediaPolicy \<Rightarrow> cursor_json \<Rightarrow> Actor \<Rightarrow> int \<Rightarrow> string \<Rightarrow> int \<Rightarrow>
    ('p world, Post list \<times> string) prog" where
  "uc_post_List S pol J a author raw pageSize = prog_bind (prog_lift (Actor_Validate a)) (\<lambda>_.
     if author < 0 then prog_throw invalid_content
     else prog_bind (prog_lift (ParsePage J raw (Scope ''posts'' [author]) pageSize)) (\<lambda>p.
       prog_bind (transact (post_list J (actor_ID a) author p)) (\<lambda>(ps, nxt).
       prog_bind (all_post_images S pol ps) (\<lambda>ps. prog_return (ps, nxt)))))"

definition uc_post_Update :: "'p world ObjectStorage \<Rightarrow> MediaPolicy \<Rightarrow> river option \<Rightarrow> Actor \<Rightarrow> int \<Rightarrow> PostInput \<Rightarrow> ('p world, Post) prog" where
  "uc_post_Update S pol jobs a pid i = prog_bind (prog_lift (Actor_Validate a)) (\<lambda>_.
     prog_bind (prog_lift (PositiveIDs [pid, pin_ExpectedVersion i])) (\<lambda>_. prog_bind (prog_lift (PostInput_Validate i)) (\<lambda>i.
     prog_bind (transact (post_Update jobs a pid i)) (post_images S pol))))"

definition uc_post_Delete :: "river option \<Rightarrow> Actor \<Rightarrow> int \<Rightarrow> (db, unit) tx" where
  "uc_post_Delete jobs a pid = tx_seq (tx_lift (Actor_Validate a)) (tx_seq (tx_lift (PositiveIDs [pid])) (post_Delete jobs a pid))"

definition uc_post_SetLike :: "Actor \<Rightarrow> int \<Rightarrow> bool \<Rightarrow> (db, unit) tx" where
  "uc_post_SetLike a pid on = tx_seq (tx_lift (Actor_Validate a)) (tx_seq (tx_lift (PositiveIDs [pid])) (post_SetLike a pid on))"

definition uc_comment_Create :: "Actor \<Rightarrow> int \<Rightarrow> string \<Rightarrow> int \<Rightarrow> (db, Comment) tx" where
  "uc_comment_Create a pid content target = tx_seq (tx_lift (Actor_Validate a)) (tx_seq (tx_lift (PositiveIDs [pid]))
     (if target < 0 then tx_throw invalid_reply_target
      else tx_bind (tx_lift (ValidText content 1000)) (\<lambda>content. comment_Create a pid content target)))"

definition uc_comment_List :: "cursor_json \<Rightarrow> Actor \<Rightarrow> int \<Rightarrow> int \<Rightarrow> string \<Rightarrow> int \<Rightarrow> (db, Comment list \<times> string) tx" where
  "uc_comment_List J a pid rootID raw pageSize = tx_seq (tx_lift (Actor_Validate a)) (tx_seq (tx_lift (PositiveIDs [pid]))
     (if rootID < 0 then tx_throw invalid_reply_target
      else tx_bind (tx_lift (ParsePage J raw (Scope ''comments'' [pid, rootID]) pageSize)) (\<lambda>p. comment_list J pid rootID p)))"

definition uc_comment_Delete :: "Actor \<Rightarrow> int \<Rightarrow> int \<Rightarrow> (db, unit) tx" where
  "uc_comment_Delete a pid i = tx_seq (tx_lift (Actor_Validate a)) (tx_seq (tx_lift (PositiveIDs [pid, i])) (comment_Delete a pid i))"

definition svc_DeleteUser :: "river option \<Rightarrow> EcommerceClaims option \<Rightarrow> int \<Rightarrow> (auth_world, unit) prog" where
  "svc_DeleteUser jobs c reqID = own_resource c reqID (\<lambda>uid. transact (community_DeleteUser jobs uid))"

section \<open>The handlers of the community service\<close>

record pb_Comment =
  pbc_ID :: int
  pbc_PostID :: int
  pbc_Author :: "Author option"
  pbc_Content :: string
  pbc_RootCommentID :: int
  pbc_ReplyToCommentID :: int
  pbc_Deleted :: bool
  pbc_CreatedAt :: int
  pbc_ReplyCount :: int
  pbc_ReplyToDeleted :: bool
  pbc_ReplyToAuthor :: "Author option"

definition commentProto :: "Comment \<Rightarrow> pb_Comment" where
  "commentProto c = \<lparr>pbc_ID = bc_ID c, pbc_PostID = bc_PostID c, pbc_Author = (if bc_Deleted c then None else Some (bc_Author c)),
     pbc_Content = bc_Content c, pbc_RootCommentID = bc_RootID c, pbc_ReplyToCommentID = bc_ReplyToID c,
     pbc_Deleted = bc_Deleted c, pbc_CreatedAt = bc_CreatedAt c, pbc_ReplyCount = bc_ReplyCount c,
     pbc_ReplyToDeleted = bc_ReplyToDeleted c,
     pbc_ReplyToAuthor = (if bc_ReplyToDeleted c then None else bc_ReplyToAuthor c)\<rparr>"

definition svc_CreatePost :: "'p world ObjectStorage \<Rightarrow> MediaPolicy \<Rightarrow> river option \<Rightarrow> EcommerceClaims option \<Rightarrow> string \<Rightarrow> string \<Rightarrow>
    int list \<Rightarrow> ('p world, Post) prog" where
  "svc_CreatePost S pol jobs ctx title content ids = prog_bind (prog_lift (actor ctx)) (\<lambda>a.
     uc_post_Create S pol jobs a \<lparr>pin_Title = title, pin_Content = content, pin_ImageIDs = ids, pin_ExpectedVersion = 0\<rparr>)"

definition svc_GetPost :: "'p world ObjectStorage \<Rightarrow> MediaPolicy \<Rightarrow> EcommerceClaims option \<Rightarrow> int \<Rightarrow> ('p world, Post) prog" where
  "svc_GetPost S pol ctx i = prog_bind (prog_lift (actor ctx)) (\<lambda>a. uc_post_Get S pol a i)"

definition svc_ListPosts :: "'p world ObjectStorage \<Rightarrow> MediaPolicy \<Rightarrow> cursor_json \<Rightarrow> EcommerceClaims option \<Rightarrow> int \<Rightarrow> string \<Rightarrow> int \<Rightarrow>
    ('p world, Post list \<times> string) prog" where
  "svc_ListPosts S pol J ctx author raw pageSize = prog_bind (prog_lift (actor ctx)) (\<lambda>a. uc_post_List S pol J a author raw pageSize)"

definition svc_UpdatePost :: "'p world ObjectStorage \<Rightarrow> MediaPolicy \<Rightarrow> river option \<Rightarrow> EcommerceClaims option \<Rightarrow> int \<Rightarrow> string \<Rightarrow>
    string \<Rightarrow> int list \<Rightarrow> int \<Rightarrow> ('p world, Post) prog" where
  "svc_UpdatePost S pol jobs ctx i title content ids version = prog_bind (prog_lift (actor ctx)) (\<lambda>a.
     uc_post_Update S pol jobs a i \<lparr>pin_Title = title, pin_Content = content, pin_ImageIDs = ids, pin_ExpectedVersion = version\<rparr>)"

definition svc_DeletePost :: "river option \<Rightarrow> EcommerceClaims option \<Rightarrow> int \<Rightarrow> (db, unit) tx" where
  "svc_DeletePost jobs ctx i = tx_bind (tx_lift (actor ctx)) (\<lambda>a. uc_post_Delete jobs a i)"

definition svc_LikePost :: "EcommerceClaims option \<Rightarrow> int \<Rightarrow> (db, unit) tx" where
  "svc_LikePost ctx i = tx_bind (tx_lift (actor ctx)) (\<lambda>a. uc_post_SetLike a i True)"

definition svc_UnlikePost :: "EcommerceClaims option \<Rightarrow> int \<Rightarrow> (db, unit) tx" where
  "svc_UnlikePost ctx i = tx_bind (tx_lift (actor ctx)) (\<lambda>a. uc_post_SetLike a i False)"

definition svc_CreateComment :: "EcommerceClaims option \<Rightarrow> int \<Rightarrow> string \<Rightarrow> int \<Rightarrow> (db, pb_Comment) tx" where
  "svc_CreateComment ctx pid content target = tx_bind (tx_lift (actor ctx)) (\<lambda>a.
     tx_bind (uc_comment_Create a pid content target) (\<lambda>c. tx_return (commentProto c)))"

definition listComments :: "cursor_json \<Rightarrow> EcommerceClaims option \<Rightarrow> int \<Rightarrow> int \<Rightarrow> string \<Rightarrow> int \<Rightarrow> (db, pb_Comment list \<times> string) tx" where
  "listComments J ctx pid rootID raw pageSize = tx_bind (tx_lift (actor ctx)) (\<lambda>a.
     tx_bind (uc_comment_List J a pid rootID raw pageSize) (\<lambda>(cs, nxt). tx_return (map commentProto cs, nxt)))"

definition svc_ListComments :: "cursor_json \<Rightarrow> EcommerceClaims option \<Rightarrow> int \<Rightarrow> string \<Rightarrow> int \<Rightarrow> (db, pb_Comment list \<times> string) tx" where
  "svc_ListComments J ctx pid raw pageSize = listComments J ctx pid 0 raw pageSize"

definition svc_ListCommentReplies :: "cursor_json \<Rightarrow> EcommerceClaims option \<Rightarrow> int \<Rightarrow> int \<Rightarrow> string \<Rightarrow> int \<Rightarrow>
    (db, pb_Comment list \<times> string) tx" where
  "svc_ListCommentReplies J ctx pid rootID raw pageSize =
     tx_seq (tx_lift (PositiveIDs [rootID])) (listComments J ctx pid rootID raw pageSize)"

definition svc_DeleteComment :: "EcommerceClaims option \<Rightarrow> int \<Rightarrow> int \<Rightarrow> (db, unit) tx" where
  "svc_DeleteComment ctx pid i = tx_bind (tx_lift (actor ctx)) (\<lambda>a. uc_comment_Delete a pid i)"

end
