(* ===== verification/CommunitySafety.thy ===== *)
theory CommunitySafety
  imports Community
begin

text \<open>
  The invariants of the community tables over every sequence of community transactions: images
  of posts, comment threads, deleted content; what the deletion of an account leaves behind;
  optimistic locking of posts; and the pages of the feed.
\<close>

section \<open>Invariants\<close>

definition owned_post :: "db \<Rightarrow> int \<Rightarrow> int \<Rightarrow> bool" where
  "owned_post s pid u \<longleftrightarrow> (\<exists>p \<in> set (tb_posts s). pst_ID p = pid \<and> pst_DeletedAt p = None \<and> pst_AuthorID p = Some u)"

definition owned_media :: "db \<Rightarrow> int \<Rightarrow> int \<Rightarrow> bool" where
  "owned_media s mid u \<longleftrightarrow> (\<exists>m \<in> set (tb_media s). mas_ID m = mid \<and> mas_Status m = MediaStatusReady \<and> mas_OwnerID m = Some u)"

definition image_ok :: "db \<Rightarrow> post_image \<Rightarrow> bool" where
  "image_ok s im \<longleftrightarrow> 0 \<le> img_SortOrder im \<and> img_SortOrder im \<le> 8 \<and>
     (\<exists>u. owned_post s (img_PostID im) u \<and> owned_media s (img_MediaID im) u)"

definition images_ok :: "db \<Rightarrow> bool" where
  "images_ok s \<longleftrightarrow> pk pst_ID (tb_posts s) \<and> pk mas_ID (tb_media s) \<and> distinct (map img_MediaID (tb_images s)) \<and>
     distinct (map (\<lambda>im. (img_PostID im, img_SortOrder im)) (tb_images s)) \<and> (\<forall>im \<in> set (tb_images s). image_ok s im)"

lemma images_okD: "images_ok s \<Longrightarrow> im \<in> set (tb_images s) \<Longrightarrow> image_ok s im"
  by (simp add: images_ok_def)

lemma owned_cong:
  "tb_posts s' = tb_posts s \<Longrightarrow> owned_post s' = owned_post s" "tb_media s' = tb_media s \<Longrightarrow> owned_media s' = owned_media s"
  unfolding owned_post_def owned_media_def by simp_all

lemma image_ok_cong: "tb_posts s' = tb_posts s \<Longrightarrow> tb_media s' = tb_media s \<Longrightarrow> image_ok s' = image_ok s"
  using owned_cong [of s' s] by (simp add: image_ok_def fun_eq_iff)

definition comments_ok :: "post_comment list \<Rightarrow> bool" where
  "comments_ok t \<longleftrightarrow> pk cmt_ID t \<and> (\<forall>c \<in> set t. thread_check (cmt_PostID c) (cmt_RootCommentID c) (cmt_ReplyToCommentID c) t \<and>
     (cmt_DeletedAt c \<noteq> None \<longrightarrow> cmt_Content c = ''''))"

definition community_ok :: "db \<Rightarrow> bool" where
  "community_ok s \<longleftrightarrow> images_ok s \<and> comments_ok (tb_comments s)"

text \<open>
  One community transaction, with the statements that completion and removal of an asset commit
  after their storage calls, or anything that leaves the tables alone.
\<close>

inductive community_step :: "db \<Rightarrow> db \<Rightarrow> bool" where
  CreatePost: "Actor_Validate a = Inr () \<Longrightarrow> InTx (post_Create jobs a i) s = (r1, s') \<Longrightarrow> community_step s s'"
| UpdatePost: "InTx (post_Update jobs a pid i) s = (r1, s') \<Longrightarrow> community_step s s'"
| DeletePost: "InTx (post_Delete jobs a pid) s = (r, s') \<Longrightarrow> community_step s s'"
| SetLike: "InTx (post_SetLike a pid on) s = (r, s') \<Longrightarrow> community_step s s'"
| CreateComment: "InTx (comment_Create a pid content target) s = (r2, s') \<Longrightarrow> community_step s s'"
| DeleteComment: "InTx (comment_Delete a pid cid) s = (r, s') \<Longrightarrow> community_step s s'"
| CreateMedia: "InTx (media_Create uid m) s = (r3, s') \<Longrightarrow> community_step s s'"
| ReadyMedia: "InTx (q_ReadyMediaAsset mid contentType sizeBytes width height) s = (r4, s') \<Longrightarrow> community_step s s'"
| MediaDeleted: "InTx (q_MarkMediaDeleted mid) s = (r, s') \<Longrightarrow> community_step s s'"
| StagingCleaned: "InTx (q_MarkMediaStagingCleaned mid) s = (r, s') \<Longrightarrow> community_step s s'"
| Sweep: "InTx (media_Sweep jobs batch) s = (r5, s') \<Longrightarrow> community_step s s'"
| DeleteAccount: "0 < uid \<Longrightarrow> InTx (community_DeleteUser jobs uid) s = (r, s') \<Longrightarrow> community_step s s'"
| ElsewhereCommunity: "tb_posts s' = tb_posts s \<Longrightarrow> tb_media s' = tb_media s \<Longrightarrow> tb_images s' = tb_images s \<Longrightarrow>
    tb_comments s' = tb_comments s \<Longrightarrow> community_step s s'"

definition community_init :: "db \<Rightarrow> bool" where
  "community_init s \<longleftrightarrow> tb_posts s = [] \<and> tb_media s = [] \<and> tb_images s = [] \<and> tb_comments s = []"

section \<open>Transactions on media\<close>

text \<open>A relation that the statements on media keep holds of the transactions built from them.\<close>

locale media_relation = tx_relation R for R :: "db \<Rightarrow> db \<Rightarrow> bool" +
  assumes R_same: "tb_posts s' = tb_posts s \<Longrightarrow> tb_images s' = tb_images s \<Longrightarrow> tb_comments s' = tb_comments s \<Longrightarrow>
      tb_media s' = tb_media s \<Longrightarrow> R s s'"
    and R_MarkDeleting: "tx_rel R (q_MarkMediaDeleting i)"
    and R_TouchDeleting: "tx_rel R (q_TouchDeletingMedia i)"
    and R_TouchStaging: "tx_rel R (q_TouchMediaStagingCleanup i)"
    and R_CreateAsset: "tx_rel R (q_CreateMediaAsset a)"
begin

lemma rel_enqueue: "tx_rel R (enqueue_tx jobs msg args sched)"
  by (auto simp: tx_rel_def enqueue_tx_def river_insert_def tx_simps split: option.splits sum.splits prod.splits if_splits
      intro!: R_same)

lemma rel_enqueueDelete: "tx_rel R (enqueueDelete jobs m)"
  using rel_enqueue unfolding tx_rel_def enqueueDelete_def Let_def tx_simps by blast

lemma rel_markDeleting: "tx_rel R (markDeleting jobs m)"
  unfolding markDeleting_def by (intro rel_intros R_MarkDeleting rel_enqueueDelete)

lemma rel_mark_all: "tx_rel R (mark_all_deleting jobs ms)"
  by (induction jobs ms rule: mark_all_deleting.induct) (auto intro!: rel_intros rel_markDeleting)

lemma rel_sweep_staging: "tx_rel R (sweep_staging jobs ms)"
  by (induction ms) (auto intro!: rel_intros rel_enqueue R_TouchStaging)

lemma rel_sweep_expired: "tx_rel R (sweep_expired jobs ms)"
  by (induction ms) (auto intro!: rel_intros rel_enqueueDelete rel_markDeleting R_TouchDeleting)

lemma rel_lock: "tx_rel R (lockCommunityUser i)"
  unfolding lockCommunityUser_def q_LockCommunityUser_def by (intro rel_intros)

lemma rel_Sweep: "tx_rel R (media_Sweep jobs batch)"
  unfolding media_Sweep_def q_LockStagingCleanupMedia_def q_LockExpiredMedia_def
  by (intro rel_intros rel_sweep_staging rel_sweep_expired)

lemma rel_Create: "tx_rel R (media_Create uid m)"
  unfolding media_Create_def by (intro rel_intros rel_lock R_CreateAsset)

end

section \<open>Statements on media\<close>

text \<open>What every statement on media keeps: posts, bindings and comments as they are, every asset
  with its owner, and every bound asset ready.\<close>

definition assets_kept :: "db \<Rightarrow> db \<Rightarrow> bool" where
  "assets_kept s s' \<longleftrightarrow> (\<forall>m \<in> set (tb_media s). \<exists>m' \<in> set (tb_media s'). mas_ID m' = mas_ID m \<and>
     mas_OwnerID m' = mas_OwnerID m \<and>
     (mas_Status m = MediaStatusReady \<and> media_bound (mas_ID m) s \<longrightarrow> mas_Status m' = MediaStatusReady))"

definition media_kept :: "db \<Rightarrow> db \<Rightarrow> bool" where
  "media_kept s s' \<longleftrightarrow> tb_posts s' = tb_posts s \<and> tb_images s' = tb_images s \<and> tb_comments s' = tb_comments s \<and>
     (pk mas_ID (tb_media s) \<longrightarrow> pk mas_ID (tb_media s') \<and> assets_kept s s')"

lemma media_bound_cong: "tb_images s' = tb_images s \<Longrightarrow> media_bound i s' = media_bound i s"
  by (simp add: media_bound_def)

lemma assets_kept_trans:
  assumes "assets_kept s t" and "assets_kept t u" and im: "tb_images t = tb_images s"
  shows "assets_kept s u"
  unfolding assets_kept_def
proof
  fix m assume m: "m \<in> set (tb_media s)"
  obtain m1 where m1: "m1 \<in> set (tb_media t)" "mas_ID m1 = mas_ID m" "mas_OwnerID m1 = mas_OwnerID m"
    "mas_Status m = MediaStatusReady \<and> media_bound (mas_ID m) s \<longrightarrow> mas_Status m1 = MediaStatusReady"
    using assms(1) m unfolding assets_kept_def by blast
  obtain m2 where m2: "m2 \<in> set (tb_media u)" "mas_ID m2 = mas_ID m1" "mas_OwnerID m2 = mas_OwnerID m1"
    "mas_Status m1 = MediaStatusReady \<and> media_bound (mas_ID m1) t \<longrightarrow> mas_Status m2 = MediaStatusReady"
    using assms(2) m1(1) unfolding assets_kept_def by blast
  show "\<exists>m' \<in> set (tb_media u). mas_ID m' = mas_ID m \<and> mas_OwnerID m' = mas_OwnerID m \<and>
      (mas_Status m = MediaStatusReady \<and> media_bound (mas_ID m) s \<longrightarrow> mas_Status m' = MediaStatusReady)"
    using m1 m2 media_bound_cong [OF im] by (intro bexI [of _ m2]) auto
qed

interpretation mk: tx_relation media_kept
proof
  show "media_kept s s" for s by (auto simp: media_kept_def assets_kept_def)
  show "media_kept s u" if "media_kept s t" "media_kept t u" for s t u
    using that assets_kept_trans [of s t u] by (simp add: media_kept_def)
qed

lemma media_kept_same: "tb_posts s' = tb_posts s \<Longrightarrow> tb_images s' = tb_images s \<Longrightarrow> tb_comments s' = tb_comments s \<Longrightarrow>
    tb_media s' = tb_media s \<Longrightarrow> media_kept s s'"
  by (auto simp: media_kept_def assets_kept_def)

lemma media_kept_upd:
  assumes k: "\<And>m. mas_ID (f m) = mas_ID m" "\<And>m. mas_OwnerID (f m) = mas_OwnerID m"
    and f: "\<And>m. find_row mas_ID i (tb_media s) = Some m \<Longrightarrow> mas_Status m = MediaStatusReady \<Longrightarrow> media_bound i s \<Longrightarrow>
      mas_Status (f m) = MediaStatusReady"
  shows "media_kept s (put_media (upd_row mas_ID i f (tb_media s)) s)"
proof -
  have "assets_kept s (put_media (upd_row mas_ID i f (tb_media s)) s)" if pk: "pk mas_ID (tb_media s)"
    unfolding assets_kept_def
  proof
    fix m assume m: "m \<in> set (tb_media s)"
    then have "find_row mas_ID (mas_ID m) (tb_media s) = Some m" using pk find_row_mem by (auto simp: pk_def)
    then show "\<exists>m' \<in> set (tb_media (put_media (upd_row mas_ID i f (tb_media s)) s)). mas_ID m' = mas_ID m \<and>
        mas_OwnerID m' = mas_OwnerID m \<and>
        (mas_Status m = MediaStatusReady \<and> media_bound (mas_ID m) s \<longrightarrow> mas_Status m' = MediaStatusReady)"
      using m k f by (intro bexI [of _ "if mas_ID m = i then f m else m"]) (auto simp: upd_row_def)
  qed
  then show ?thesis using pk_upd_row [of mas_ID f i "tb_media s"] k(1) by (simp add: media_kept_def)
qed

lemma mk_exec:
  assumes "\<And>s m. mas_ID (f s m) = mas_ID m \<and> mas_OwnerID (f s m) = mas_OwnerID m"
    and "\<And>s m. G s m \<Longrightarrow> mas_Status m = MediaStatusReady \<Longrightarrow> media_bound i s \<Longrightarrow> mas_Status (f s m) = MediaStatusReady"
  shows "tx_rel media_kept (\<lambda>s. sql_exec tb_media put_media mas_ID i (G s) (f s) s)"
  unfolding tx_rel_def
proof (intro allI impI)
  fix s r s' assume "sql_exec tb_media put_media mas_ID i (G s) (f s) s = Inr (r, s')"
  then have "s' = s \<or> (\<exists>m. find_row mas_ID i (tb_media s) = Some m \<and> G s m) \<and> s' = put_media (upd_row mas_ID i (f s) (tb_media s)) s"
    by (auto simp: sql_exec_def split: option.splits if_splits)
  then show "media_kept s s'"
    using media_kept_upd [of "f s" i s] assms mk.R_refl by auto
qed

lemmas media_statement_defs = q_MarkMediaDeleting_def q_MarkMediaDeleted_def q_MarkMediaStagingCleaned_def
  q_TouchDeletingMedia_def q_TouchMediaStagingCleanup_def

lemma mk_exec_unit:
  "tx_rel media_kept (\<lambda>s. m s s) \<Longrightarrow> tx_rel media_kept (\<lambda>s. tx_seq (m s) (tx_return ()) s)"
  by (auto simp: tx_rel_def tx_simps)

lemma mk_statements:
  "tx_rel media_kept (q_MarkMediaDeleting i)" "tx_rel media_kept (q_MarkMediaDeleted i)"
  "tx_rel media_kept (q_MarkMediaStagingCleaned i)" "tx_rel media_kept (q_TouchDeletingMedia i)"
  "tx_rel media_kept (q_TouchMediaStagingCleanup i)"
  unfolding media_statement_defs
  by (auto intro!: mk_exec mk_exec_unit mk.rel_seq mk.rel_return)

lemma mk_Ready: "tx_rel media_kept (q_ReadyMediaAsset i ct sz w h)"
  by (auto simp: tx_rel_def q_ReadyMediaAsset_def mas.update_Inr split: if_splits option.splits intro!: media_kept_upd)

lemma mk_Create: "tx_rel media_kept (q_CreateMediaAsset a)"
  by (auto simp: tx_rel_def q_CreateMediaAsset_def tx_simps media_kept_def assets_kept_def pk_insert split: if_splits)

interpretation mkm: media_relation media_kept
  by unfold_locales (rule media_kept_same mk_statements mk_Create; assumption?)+

lemma media_keptD:
  "media_kept s s' \<Longrightarrow> tb_posts s' = tb_posts s \<and> tb_images s' = tb_images s \<and> tb_comments s' = tb_comments s"
  by (simp add: media_kept_def)

lemma owned_media_kept:
  assumes "assets_kept s s'" and "owned_media s mid u" and "media_bound mid s"
  shows "owned_media s' mid u"
  using assms unfolding assets_kept_def owned_media_def by metis

lemma images_ok_media:
  assumes "media_kept s s'" and "images_ok s"
  shows "images_ok s'"
proof -
  have same: "tb_posts s' = tb_posts s" "tb_images s' = tb_images s" and k: "pk mas_ID (tb_media s')" "assets_kept s s'"
    using assms by (auto simp: media_kept_def images_ok_def)
  have "image_ok s' im" if im: "im \<in> set (tb_images s)" for im
  proof -
    have "media_bound (img_MediaID im) s" using im by (auto simp: media_bound_def list_ex_iff)
    then show ?thesis
      using images_okD [OF assms(2) im] owned_media_kept [OF k(2)] owned_cong(1) [OF same(1)] by (auto simp: image_ok_def)
  qed
  then show ?thesis using assms(2) same k(1) by (simp add: images_ok_def)
qed

section \<open>Images of posts\<close>

lemma images_ok_unbind: "images_ok s \<Longrightarrow> images_ok (put_images (filter P (tb_images s)) s)"
  using image_ok_cong [of "put_images (filter P (tb_images s)) s" s] by (auto simp: images_ok_def intro: distinct_map_filter)

lemma images_ok_bind:
  assumes "q_BindPostImage pid mid k s = Inr (x, s')" and "images_ok s" and "owned_post s pid u" and "owned_media s mid u"
  shows "images_ok s' \<and> tb_posts s' = tb_posts s \<and> tb_media s' = tb_media s \<and> tb_comments s' = tb_comments s"
proof -
  let ?im = "\<lparr>img_PostID = pid, img_MediaID = mid, img_SortOrder = k\<rparr>"
  have s': "s' = s\<lparr>tb_images := tb_images s @ [?im]\<rparr>" and k: "0 \<le> k" "k \<le> 8"
    and new: "mid \<notin> img_MediaID ` set (tb_images s)" "(pid, k) \<notin> (\<lambda>im. (img_PostID im, img_SortOrder im)) ` set (tb_images s)"
    using assms(1) by (auto simp: q_BindPostImage_def list_ex_iff split: if_splits)
  have "image_ok s ?im" using k assms(3,4) by (auto simp: image_ok_def)
  then have "image_ok s' im" if "im \<in> set (tb_images s')" for im
    using that images_okD [OF assms(2)] image_ok_cong [of s' s] by (auto simp: s')
  then show ?thesis using assms(2) new by (simp add: s' images_ok_def)
qed

lemma images_ok_bind_all:
  assumes "bind_images pid k ids s = Inr (x, s')" and "images_ok s" and "owned_post s pid u"
    and "list_all (\<lambda>i. owned_media s i u) ids"
  shows "images_ok s' \<and> tb_posts s' = tb_posts s \<and> tb_comments s' = tb_comments s"
  using assms
proof (induction ids arbitrary: k s)
  case (Cons i ids)
  then obtain y t where t: "q_BindPostImage pid i k s = Inr (y, t)" "bind_images pid (k + 1) ids t = Inr (x, s')"
    by (auto simp: tx_simps)
  have b: "images_ok t" "tb_posts t = tb_posts s" "tb_media t = tb_media s" "tb_comments t = tb_comments s"
    using images_ok_bind [OF t(1) Cons.prems(2,3)] Cons.prems(4) by auto
  have "owned_post t pid u" "list_all (\<lambda>i. owned_media t i u) ids"
    using Cons.prems(3,4) b by (simp_all add: owned_post_def owned_media_def)
  from Cons.IH [OF t(2) b(1) this] show ?case using b by simp
qed (simp add: tx_simps)

lemma check_images_owned:
  assumes "check_images uid pid assets ids s = Inr (x, s')" and "set assets \<subseteq> set (tb_media s)"
  shows "s' = s \<and> list_all (\<lambda>i. owned_media s i uid) ids"
  using assms(1)
proof (induction ids)
  case (Cons i ids)
  then obtain m where m: "find_row mas_ID i assets = Some m" "mas_OwnerID m = Some uid" "mas_Status m = MediaStatusReady"
    by (auto simp: tx_simps split: option.splits if_splits)
  then have rest: "check_images uid pid assets ids s = Inr (x, s')"
    using Cons.prems by (auto simp: tx_simps q_GetMediaBinding_def sql_find_def tx_bind_def tx_optional_def tx_return_def
        split: option.splits if_splits)
  have "owned_media s i uid"
    using m find_row_in [OF m(1)] find_row_key [OF m(1)] assms(2) by (auto simp: owned_media_def)
  then show ?case using Cons.IH [OF rest] by simp
qed (simp add: tx_simps)

lemma set_sorted_media: "set (sorted_media P s) \<subseteq> set (tb_media s)"
  by (auto simp: sorted_media_def)

lemma replaceImages_ok:
  assumes "replaceImages jobs uid pid ids s = Inr (x, s')" and "images_ok s" and "owned_post s pid uid"
  shows "images_ok s' \<and> tb_posts s' = tb_posts s \<and> tb_comments s' = tb_comments s"
proof -
  obtain old assets where "q_GetPostImages [pid] s = Inr (old, s)" and a: "assets = sorted_media (\<lambda>m. mas_ID m \<in> set (ids @ map (\<lambda>r. mas_ID (snd r)) old)) s"
    by (simp add: q_GetPostImages_def tx_read_def)
  then obtain y s1 s2 z s3 w where run: "check_images uid pid assets ids s = Inr (y, s1)"
    "q_UnbindPostImages pid s1 = Inr ((), s2)" "bind_images pid 0 ids s2 = Inr (z, s3)"
    "mark_all_deleting jobs (map (\<lambda>r. media_by_id assets (mas_ID (snd r))) (filter (\<lambda>r. mas_ID (snd r) \<notin> set ids) old)) s3 = Inr (w, s')"
    using assms(1) by (auto simp: replaceImages_def tx_simps q_LockMediaAssets_def)
  have c: "s1 = s" "list_all (\<lambda>i. owned_media s i uid) ids"
    using check_images_owned [OF run(1)] set_sorted_media a by auto
  have s2: "s2 = put_images (filter (\<lambda>im. img_PostID im \<noteq> pid) (tb_images s)) s"
    using run(2) c(1) by (simp add: q_UnbindPostImages_def)
  have "images_ok s2" using images_ok_unbind [OF assms(2)] s2 by simp
  moreover have "owned_post s2 pid uid" "list_all (\<lambda>i. owned_media s2 i uid) ids"
    using assms(3) c(2) s2 by (simp_all add: owned_post_def owned_media_def)
  ultimately have s3: "images_ok s3 \<and> tb_posts s3 = tb_posts s2 \<and> tb_comments s3 = tb_comments s2"
    using images_ok_bind_all [OF run(3)] by blast
  have "media_kept s3 s'" by (rule tx_relD [OF mkm.rel_mark_all run(4)])
  then show ?thesis using images_ok_media [of s3 s'] s3 s2 unfolding media_kept_def by simp
qed

lemma images_ok_frame:
  assumes "images_ok s" and "tb_media s' = tb_media s" and "tb_images s' = tb_images s" and "pk pst_ID (tb_posts s')"
    and "\<And>im u. im \<in> set (tb_images s) \<Longrightarrow> owned_post s (img_PostID im) u \<Longrightarrow> owned_media s (img_MediaID im) u \<Longrightarrow>
      owned_post s' (img_PostID im) u"
  shows "images_ok s'"
proof -
  have "image_ok s' im" if im: "im \<in> set (tb_images s)" for im
    using images_okD [OF assms(1) im] assms(5) [OF im] owned_cong(2) [OF assms(2)] by (auto simp: image_ok_def)
  then show ?thesis using assms by (simp add: images_ok_def)
qed

lemma owned_post_append: "owned_post s pid u \<Longrightarrow> owned_post (put_posts (tb_posts s @ [p]) s) pid u"
  by (auto simp: owned_post_def)

lemma owned_post_map:
  assumes "owned_post s pid u" and "\<And>p. pst_ID (f p) = pst_ID p"
    and "\<And>p. pst_ID p = pid \<Longrightarrow> pst_DeletedAt p = None \<Longrightarrow> pst_AuthorID p = Some u \<Longrightarrow>
      pst_DeletedAt (f p) = None \<and> pst_AuthorID (f p) = Some u"
  shows "owned_post (put_posts (map f (tb_posts s)) s) pid u"
  using assms by (fastforce simp: owned_post_def)

lemma pk_map: "(\<And>r. key (f r) = key r) \<Longrightarrow> pk key (map f t) = pk key t"
  by (simp add: pk_def comp_def)

lemma images_ok_map_posts:
  assumes "images_ok s" and "\<And>p. pst_ID (f p) = pst_ID p"
    and "\<And>im u p. im \<in> set (tb_images s) \<Longrightarrow> owned_media s (img_MediaID im) u \<Longrightarrow> pst_ID p = img_PostID im \<Longrightarrow> pst_DeletedAt p = None \<Longrightarrow>
      pst_AuthorID p = Some u \<Longrightarrow> pst_DeletedAt (f p) = None \<and> pst_AuthorID (f p) = Some u"
  shows "images_ok (put_posts (map f (tb_posts s)) s)"
proof (rule images_ok_frame [OF assms(1)])
  show "pk pst_ID (tb_posts (put_posts (map f (tb_posts s)) s))"
    using assms(1,2) by (simp add: images_ok_def pk_map)
qed (use assms(2,3) owned_post_map [of s _ _ f] in auto)

text \<open>Creating and updating a post.\<close>

lemma post_get_readonly: "post_get viewer i s = Inr (x, s') \<Longrightarrow> s' = s"
  by (auto simp: post_get_def enrich_def tx_simps q_GetVisiblePost_def q_GetPostStats_def q_GetPostImages_def
      split: option.splits if_splits)

lemma post_Create_ok:
  assumes "post_Create jobs a i s = Inr (x, s')" and "images_ok s" and "0 < actor_ID a"
  shows "images_ok s' \<and> tb_comments s' = tb_comments s"
proof -
  obtain p s1 y s2 where run: "q_CreatePost (communityID (actor_ID a)) (pin_Title i) (pin_Content i) s = Inr (p, s1)"
    "replaceImages jobs (actor_ID a) (pst_ID p) (pin_ImageIDs i) s1 = Inr (y, s2)" "s' = s2"
    using assms(1) post_get_readonly by (fastforce simp: post_Create_def tx_simps)
  have s1: "s1 = put_posts (tb_posts s @ [p]) s" and p: "pst_AuthorID p = Some (actor_ID a)" "pst_DeletedAt p = None"
    "pst_ID p = next_id pst_ID (tb_posts s)"
    using run(1) assms(3) by (auto simp: q_CreatePost_def tx_simps communityID_def split: if_splits)
  have "pk pst_ID (tb_posts s1)" using assms(2) p(3) by (auto simp: s1 images_ok_def intro: pk_insert)
  then have "images_ok s1"
    by (intro images_ok_frame [OF assms(2)]) (auto simp: s1 owned_post_append)
  moreover have "owned_post s1 (pst_ID p) (actor_ID a)" using p by (auto simp: s1 owned_post_def)
  ultimately show ?thesis using replaceImages_ok [OF run(2)] run(3) s1 by simp
qed

lemma upd_row_map: "upd_row key i f t = map (\<lambda>r. if key r = i then f r else r) t"
  by (simp add: upd_row_def)

lemma post_Update_elim:
  assumes "post_Update jobs a pid i s = Inr (x, s')"
  obtains p y s1 where "find_row pst_ID pid (tb_posts s) = Some p" and "pst_DeletedAt p = None"
    and "pst_AuthorID p = Some (actor_ID a)" and "pst_Version p = pin_ExpectedVersion i"
    and "replaceImages jobs (actor_ID a) pid (pin_ImageIDs i) s = Inr (y, s1)"
    and "s' = put_posts (upd_row pst_ID pid (\<lambda>p. p\<lparr>pst_Title := pin_Title i, pst_Content := pin_Content i,
      pst_Version := pst_Version p + 1, pst_UpdatedAt := tb_clock_timestamp s1\<rparr>) (tb_posts s1)) s1"
proof -
  obtain p y s1 q where run: "find_row pst_ID pid (tb_posts s) = Some p" "pst_DeletedAt p = None"
    "Actor_Owns a (int8_Int64 (pst_AuthorID p)) False = Inr ()" "pst_Version p = pin_ExpectedVersion i"
    "replaceImages jobs (actor_ID a) pid (pin_ImageIDs i) s = Inr (y, s1)"
    "q_UpdatePost pid (communityID (actor_ID a)) (pin_Title i) (pin_Content i) (pin_ExpectedVersion i) s1 = Inr (q, s')"
    using assms post_get_readonly
    by (fastforce simp: post_Update_def tx_simps lockVisiblePost_def q_LockPost_def pst.get_Inr split: if_splits)
  have "pst_AuthorID p = Some (actor_ID a)"
    using run(3) by (cases "pst_AuthorID p") (auto simp: Actor_Owns_iff int8_Int64_def)
  moreover have "s' = put_posts (upd_row pst_ID pid (\<lambda>p. p\<lparr>pst_Title := pin_Title i, pst_Content := pin_Content i,
      pst_Version := pst_Version p + 1, pst_UpdatedAt := tb_clock_timestamp s1\<rparr>) (tb_posts s1)) s1"
    using run(6) by (auto simp: q_UpdatePost_def pst.update_Inr split: sum.splits if_splits)
  ultimately show ?thesis using that run by blast
qed

lemma post_Update_ok:
  assumes "post_Update jobs a pid i s = Inr (x, s')" and "images_ok s"
  shows "images_ok s' \<and> tb_comments s' = tb_comments s"
  using assms(1)
proof (cases rule: post_Update_elim)
  case (1 p y s1)
  have "owned_post s pid (actor_ID a)"
    using 1(1-3) find_row_in [OF 1(1)] find_row_key [OF 1(1)] by (auto simp: owned_post_def)
  from replaceImages_ok [OF 1(5) assms(2) this] have s1: "images_ok s1" "tb_comments s1 = tb_comments s" by auto
  then show ?thesis unfolding 1(6) upd_row_map by (auto intro!: images_ok_map_posts)
qed

text \<open>Deleting a post.\<close>

lemma post_Delete_ok:
  assumes "post_Delete jobs a pid s = Inr (x, s')" and "images_ok s"
  shows "images_ok s' \<and> tb_comments s' = tb_comments s"
proof -
  define s0 where "s0 = put_images (filter (\<lambda>im. img_PostID im \<noteq> pid) (tb_images s)) s"
  have s0: "images_ok s0" using images_ok_unbind [OF assms(2)] by (simp add: s0_def)
  have "s' = s \<or> (\<exists>n s1 s2 images y. q_SoftDeletePost pid (communityID (actor_ID a)) (actor_Admin a) s = Inr (n, s1) \<and>
      q_UnbindPostImages pid s1 = Inr ((), s2) \<and> mark_all_deleting jobs images s2 = Inr (y, s'))"
    using assms(1) by (fastforce simp: post_Delete_def tx_simps q_LockPost_def pst.get_Inr q_LockPostImageAssets_def split: if_splits)
  then show ?thesis
  proof (elim disjE exE conjE)
    fix n s1 s2 images y
    assume r: "q_SoftDeletePost pid (communityID (actor_ID a)) (actor_Admin a) s = Inr (n, s1)"
      "q_UnbindPostImages pid s1 = Inr ((), s2)" "mark_all_deleting jobs images s2 = Inr (y, s')"
    have "s1 = s \<or> s1 = put_posts (map (\<lambda>p. if pst_ID p = pid then hide_post (tb_clock_timestamp s) p else p) (tb_posts s)) s"
      using r(1) by (auto simp: q_SoftDeletePost_def sql_exec_def upd_row_map split: option.splits if_splits)
    then have "s2 = s0 \<or> s2 = put_posts (map (\<lambda>p. if pst_ID p = pid then hide_post (tb_clock_timestamp s) p else p) (tb_posts s0)) s0"
      using r(2) by (auto simp: q_UnbindPostImages_def s0_def)
    moreover have "images_ok (put_posts (map (\<lambda>p. if pst_ID p = pid then hide_post (tb_clock_timestamp s) p else p) (tb_posts s0)) s0)"
      by (rule images_ok_map_posts [OF s0]) (auto simp: s0_def hide_post_def)
    ultimately have "images_ok s2" "tb_comments s2 = tb_comments s" using s0 by (auto simp: s0_def)
    then show ?thesis using images_ok_media [OF tx_relD [OF mkm.rel_mark_all r(3)]] media_keptD [OF tx_relD [OF mkm.rel_mark_all r(3)]] by simp
  qed (use assms(2) in simp)
qed

section \<open>Comment threads\<close>

lemma thread_check_mono:
  assumes "thread_check pid rt target t"
    and "\<And>c. c \<in> set t \<Longrightarrow> \<exists>c' \<in> set t'. cmt_ID c' = cmt_ID c \<and> cmt_PostID c' = cmt_PostID c \<and> cmt_RootCommentID c' = cmt_RootCommentID c"
  shows "thread_check pid rt target t'"
  using assms(1) unfolding thread_check_def list_ex_iff
  by (auto split: option.splits; metis assms(2))

lemma comments_ok_map:
  assumes "comments_ok t"
    and k: "\<And>c. cmt_ID (f c) = cmt_ID c" "\<And>c. cmt_PostID (f c) = cmt_PostID c" "\<And>c. cmt_RootCommentID (f c) = cmt_RootCommentID c"
      "\<And>c. cmt_ReplyToCommentID (f c) = cmt_ReplyToCommentID c"
    and d: "\<And>c. (cmt_DeletedAt c \<noteq> None \<longrightarrow> cmt_Content c = '''') \<Longrightarrow> cmt_DeletedAt (f c) \<noteq> None \<Longrightarrow> cmt_Content (f c) = ''''"
  shows "comments_ok (map f t)"
proof -
  have "thread_check pid rt target (map f t)" if "thread_check pid rt target t" for pid rt target
    by (rule thread_check_mono [OF that]) (use k in auto)
  then show ?thesis using assms(1) k d by (auto simp: comments_ok_def pk_map)
qed

lemma comments_ok_insert:
  assumes "comments_ok t" and "cmt_ID c = next_id cmt_ID t" and "cmt_DeletedAt c = None"
    and "thread_check (cmt_PostID c) (cmt_RootCommentID c) (cmt_ReplyToCommentID c) t"
  shows "comments_ok (t @ [c])"
proof -
  have "thread_check pid rt target (t @ [c])" if "thread_check pid rt target t" for pid rt target
    by (rule thread_check_mono [OF that]) auto
  then show ?thesis using assms pk_insert [of cmt_ID t c] by (auto simp: comments_ok_def)
qed

lemma comment_Create_ok:
  assumes "comment_Create a pid content target s = Inr (x, s')" and "comments_ok (tb_comments s)"
  shows "comments_ok (tb_comments s') \<and> tb_posts s' = tb_posts s \<and> tb_media s' = tb_media s \<and> tb_images s' = tb_images s"
proof -
  obtain rootID y c s1 where run: "reply_root pid target s = Inr (rootID, y)"
    "q_CreateComment pid (communityID (actor_ID a)) (communityID rootID) (communityID target) content y = Inr (c, s1)" "s' = s1"
    using assms(1) by (auto simp: comment_Create_def tx_simps lockVisiblePost_def q_LockPost_def pst.get_Inr q_GetUserByID_def usr.get_Inr
        split: if_splits)
  have "y = s" using run(1) by (auto simp: reply_root_def q_GetComment_def tx_simps cmt.find_Inr Let_def split: if_splits)
  then have c: "s' = put_comments (tb_comments s @ [c]) s" "cmt_ID c = next_id cmt_ID (tb_comments s)" "cmt_DeletedAt c = None"
    "thread_check (cmt_PostID c) (cmt_RootCommentID c) (cmt_ReplyToCommentID c) (tb_comments s)"
    using run(2,3) by (auto simp: q_CreateComment_def tx_simps split: if_splits)
  show ?thesis using comments_ok_insert [OF assms(2) c(2-4)] c(1) by simp
qed

lemma redact_simps [simp]:
  "cmt_ID (redact now c) = cmt_ID c" "cmt_PostID (redact now c) = cmt_PostID c" "cmt_RootCommentID (redact now c) = cmt_RootCommentID c"
  "cmt_ReplyToCommentID (redact now c) = cmt_ReplyToCommentID c" "cmt_Content (redact now c) = ''''"
  "cmt_AuthorID (redact now c) = cmt_AuthorID c" "cmt_DeletedAt (redact now c) = Some now"
  by (simp_all add: redact_def)

lemma comment_Delete_ok:
  assumes "comment_Delete a pid i s = Inr (x, s')" and "comments_ok (tb_comments s)"
  shows "comments_ok (tb_comments s') \<and> tb_posts s' = tb_posts s \<and> tb_media s' = tb_media s \<and> tb_images s' = tb_images s"
proof -
  obtain n where "q_DeleteComment pid i (communityID (actor_ID a)) (actor_Admin a) s = Inr (n, s')"
    using assms(1) by (auto simp: comment_Delete_def tx_simps lockVisiblePost_def q_LockPost_def pst.get_Inr q_GetComment_def cmt.find_Inr
        split: if_splits)
  then have "s' = s \<or> s' = put_comments (map (\<lambda>c. if cmt_ID c = i then redact (tb_clock_timestamp s) c else c) (tb_comments s)) s"
    by (auto simp: q_DeleteComment_def sql_exec_def upd_row_map split: option.splits if_splits)
  moreover have "comments_ok (map (\<lambda>c. if cmt_ID c = i then redact (tb_clock_timestamp s) c else c) (tb_comments s))"
    by (rule comments_ok_map [OF assms(2)]) auto
  ultimately show ?thesis using assms(2) by auto
qed

section \<open>Deleting an account\<close>

lemma images_ok_forget:
  assumes "q_DeleteUser i s = Inr (x, s')" and "images_ok s"
    and hid: "\<And>p. p \<in> set (tb_posts s) \<Longrightarrow> pst_AuthorID p = Some i \<Longrightarrow> pst_DeletedAt p \<noteq> None"
  shows "images_ok s'"
proof (cases "find_row usr_ID i (tb_users s) = None")
  case False
  then have s': "tb_images s' = tb_images s" "tb_posts s' = map (\<lambda>p. p\<lparr>pst_AuthorID := forget i (pst_AuthorID p)\<rparr>) (tb_posts s)"
    "tb_media s' = map (\<lambda>m. m\<lparr>mas_OwnerID := forget i (mas_OwnerID m)\<rparr>) (tb_media s)"
    using assms(1) by (auto simp: q_DeleteUser_def split: if_splits)
  have "image_ok s' im" if im: "im \<in> set (tb_images s)" for im
  proof -
    obtain u where u: "owned_post s (img_PostID im) u" "owned_media s (img_MediaID im) u" and o: "0 \<le> img_SortOrder im" "img_SortOrder im \<le> 8"
      using images_okD [OF assms(2) im] by (auto simp: image_ok_def)
    have "u \<noteq> i" using u(1) hid unfolding owned_post_def by blast
    obtain p m where "p \<in> set (tb_posts s)" "pst_ID p = img_PostID im" "pst_DeletedAt p = None" "pst_AuthorID p = Some u"
      "m \<in> set (tb_media s)" "mas_ID m = img_MediaID im" "mas_Status m = MediaStatusReady" "mas_OwnerID m = Some u"
      using u unfolding owned_post_def owned_media_def by blast
    with \<open>u \<noteq> i\<close> have "owned_post s' (img_PostID im) u" "owned_media s' (img_MediaID im) u"
      unfolding owned_post_def owned_media_def s'
      by (auto simp: forget_def intro!: bexI [of _ p] bexI [of _ m])
    then show ?thesis using o by (auto simp: image_ok_def)
  qed
  then show ?thesis using assms(2) by (simp add: images_ok_def s' pk_map)
qed (use assms in \<open>simp add: q_DeleteUser_def\<close>)

text \<open>The run of the transaction: content hidden and redacted, bindings removed, assets marked,
  the row deleted.\<close>

lemma community_DeleteUser_elim:
  assumes "community_DeleteUser jobs i s = Inr (x, s')" and "0 < i"
  obtains s1 s2 s3 s4 y where
    "s1 = put_posts (map (\<lambda>p. if pst_AuthorID p = Some i \<and> pst_DeletedAt p = None then hide_post (tb_clock_timestamp s) p else p) (tb_posts s)) s"
    and "s2 = put_comments (map (\<lambda>c. if cmt_AuthorID c = Some i \<and> cmt_DeletedAt c = None then redact (tb_clock_timestamp s) c else c) (tb_comments s)) s1"
    and "s3 = put_images (filter (\<lambda>im. \<not> list_ex (\<lambda>m. mas_OwnerID m = Some i \<and> mas_ID m = img_MediaID im) (tb_media s)) (tb_images s)) s2"
    and "mark_all_deleting jobs (sorted_media (\<lambda>m. mas_OwnerID m = Some i \<and> mas_Status m \<noteq> MediaStatusDeleted) s) s3 = Inr (y, s4)"
    and "q_DeleteUser i s4 = Inr (x, s')" and "find_row usr_ID i (tb_users s) \<noteq> None"
proof -
  have run: "\<exists>y s4. mark_all_deleting jobs (sorted_media (\<lambda>m. mas_OwnerID m = Some i \<and> mas_Status m \<noteq> MediaStatusDeleted) s)
      (put_images (filter (\<lambda>im. \<not> list_ex (\<lambda>m. mas_OwnerID m = Some i \<and> mas_ID m = img_MediaID im) (tb_media s)) (tb_images s))
      (put_comments (map (\<lambda>c. if cmt_AuthorID c = Some i \<and> cmt_DeletedAt c = None then redact (tb_clock_timestamp s) c else c) (tb_comments s))
      (put_posts (map (\<lambda>p. if pst_AuthorID p = Some i \<and> pst_DeletedAt p = None then hide_post (tb_clock_timestamp s) p else p) (tb_posts s)) s)))
      = Inr (y, s4) \<and> q_DeleteUser i s4 = Inr (x, s') \<and> find_row usr_ID i (tb_users s) \<noteq> None"
    using assms by (auto simp: community_DeleteUser_def tx_simps q_LockUserCommunityPosts_def q_HideUserPosts_def q_DeleteUserComments_def
        q_LockUserMedia_def q_UnbindUserImages_def communityID_def repo_DeleteUser_Inr sorted_media_def cong: if_cong)
  then show ?thesis using that by blast
qed

lemma owned_media_owner:
  assumes "pk mas_ID (tb_media s)" and "owned_media s mid u" and "m \<in> set (tb_media s)" and "mas_ID m = mid"
  shows "mas_OwnerID m = Some u"
proof -
  obtain m' where "m' \<in> set (tb_media s)" "mas_ID m' = mid" "mas_OwnerID m' = Some u" using assms(2) by (auto simp: owned_media_def)
  then show ?thesis using assms(1,3,4) by (metis find_row_mem option.inject pk_def)
qed

lemma community_DeleteUser_ok:
  assumes "community_DeleteUser jobs i s = Inr (x, s')" and "0 < i" and "images_ok s" and "comments_ok (tb_comments s)"
  shows "images_ok s' \<and> comments_ok (tb_comments s')"
  using assms(1,2)
proof (cases rule: community_DeleteUser_elim)
  case (1 s1 s2 s3 s4 y)
  let ?im = "filter (\<lambda>im. \<not> list_ex (\<lambda>m. mas_OwnerID m = Some i \<and> mas_ID m = img_MediaID im) (tb_media s)) (tb_images s)"
  let ?f = "\<lambda>p. if pst_AuthorID p = Some i \<and> pst_DeletedAt p = None then hide_post (tb_clock_timestamp s) p else p"
  let ?s0 = "put_images ?im s"
  have s0: "images_ok ?s0" by (rule images_ok_unbind [OF assms(3)])
  have "images_ok (put_posts (map ?f (tb_posts ?s0)) ?s0)"
  proof (rule images_ok_map_posts [OF s0])
    fix im u and p :: post assume im: "im \<in> set (tb_images ?s0)" "owned_media ?s0 (img_MediaID im) u" "pst_DeletedAt p = None" "pst_AuthorID p = Some u"
    then obtain m where "m \<in> set (tb_media s)" "mas_ID m = img_MediaID im" "mas_OwnerID m = Some u"
      by (auto simp: owned_media_def)
    then have "u \<noteq> i" using im(1) by (auto simp: list_ex_iff)
    then show "pst_DeletedAt (?f p) = None \<and> pst_AuthorID (?f p) = Some u" using im by simp
  qed (simp add: hide_post_def)
  then have s3: "images_ok s3"
    using assms(3) by (elim images_ok_frame) (simp_all add: 1(1-3) owned_post_def images_ok_def pk_map hide_post_def)
  have kept: "media_kept s3 s4" by (rule tx_relD [OF mkm.rel_mark_all 1(4)])
  have "pst_DeletedAt p \<noteq> None" if "p \<in> set (tb_posts s4)" "pst_AuthorID p = Some i" for p
    using that media_keptD [OF kept] by (auto simp: 1(1-3) hide_post_def split: if_splits)
  from images_ok_forget [OF 1(5) images_ok_media [OF kept s3] this] have "images_ok s'" .
  moreover have "comments_ok (map (\<lambda>c. if cmt_AuthorID c = Some i \<and> cmt_DeletedAt c = None
      then redact (tb_clock_timestamp s) c else c) (tb_comments s))"
    by (rule comments_ok_map [OF assms(4)]) auto
  then have "comments_ok (tb_comments s4)" using media_keptD [OF kept] by (simp add: 1(1-3))
  then have "comments_ok (tb_comments s')"
    using 1(5) comments_ok_map [of "tb_comments s4" "\<lambda>c. c\<lparr>cmt_AuthorID := forget i (cmt_AuthorID c)\<rparr>"]
    by (auto simp: q_DeleteUser_def split: if_splits)
  ultimately show ?thesis by simp
qed

section \<open>The invariant over every run\<close>

lemma community_ok_keep:
  assumes "InTx m s = (r, s')" and "community_ok s"
    and "\<And>x s'. m s = Inr (x, s') \<Longrightarrow> images_ok s' \<and> comments_ok (tb_comments s')"
  shows "community_ok s'"
  using assms by (auto simp: InTx_def community_ok_def split: sum.splits)

lemma community_ok_same:
  assumes "community_ok s" and "tb_posts s' = tb_posts s" "tb_media s' = tb_media s" "tb_images s' = tb_images s" "tb_comments s' = tb_comments s"
  shows "community_ok s'"
  using assms image_ok_cong [OF assms(2,3)] by (simp add: community_ok_def images_ok_def)

lemma community_ok_media: "community_ok s \<Longrightarrow> media_kept s s' \<Longrightarrow> community_ok s'"
  using images_ok_media [of s s'] media_keptD [of s s'] by (simp add: community_ok_def)

lemma lockVisiblePost_Inr:
  "lockVisiblePost i s = Inr (p, s') \<longleftrightarrow> find_row pst_ID i (tb_posts s) = Some p \<and> pst_DeletedAt p = None \<and> s' = s"
  by (auto simp: lockVisiblePost_def q_LockPost_def tx_simps pst.get_Inr split: if_splits)

lemma SetLike_same:
  "post_SetLike a pid on s = Inr (x, s') \<Longrightarrow> tb_posts s' = tb_posts s \<and> tb_media s' = tb_media s \<and> tb_images s' = tb_images s \<and>
    tb_comments s' = tb_comments s"
  unfolding post_SetLike_def tx_seq_Inr lockCommunityUser_Inr lockVisiblePost_Inr
  by (auto simp: q_LikePost_def q_UnlikePost_def split: if_splits)

interpretation community: invariant_system community_init community_step community_ok
proof
  show "community_ok s" if "community_init s" for s
    using that by (simp add: community_init_def community_ok_def images_ok_def comments_ok_def pk_def)
  show "community_ok s'" if ok: "community_ok s" and step: "community_step s s'" for s s'
  proof -
    have i: "images_ok s" and c: "comments_ok (tb_comments s)" using ok by (auto simp: community_ok_def)
    note keep = community_ok_keep [OF _ ok]
    from step show ?thesis
    proof cases
      case CreatePost
      then show ?thesis by (elim keep) (metis post_Create_ok i c Actor_Validate_iff)
    next
      case UpdatePost
      then show ?thesis by (elim keep) (metis post_Update_ok i c)
    next
      case DeletePost
      then show ?thesis by (elim keep) (metis post_Delete_ok i c)
    next
      case SetLike
      then show ?thesis by (elim keep) (metis SetLike_same community_ok_same community_ok_def ok)
    next
      case CreateComment
      then show ?thesis by (elim keep) (metis comment_Create_ok community_ok_same community_ok_def images_ok_frame i c images_ok_def owned_cong(1))
    next
      case DeleteComment
      then show ?thesis by (elim keep) (metis comment_Delete_ok i c images_ok_frame images_ok_def owned_cong(1))
    next
      case CreateMedia
      then show ?thesis using mk.rel_InTx [OF mkm.rel_Create] community_ok_media [OF ok] by (metis snd_conv)
    next
      case ReadyMedia
      then show ?thesis using mk.rel_InTx [OF mk_Ready] community_ok_media [OF ok] by (metis snd_conv)
    next
      case MediaDeleted
      then show ?thesis using mk.rel_InTx [OF mk_statements(2)] community_ok_media [OF ok] by (metis snd_conv)
    next
      case StagingCleaned
      then show ?thesis using mk.rel_InTx [OF mk_statements(3)] community_ok_media [OF ok] by (metis snd_conv)
    next
      case Sweep
      then show ?thesis using mk.rel_InTx [OF mkm.rel_Sweep] community_ok_media [OF ok] by (metis snd_conv)
    next
      case DeleteAccount
      then show ?thesis by (elim keep) (metis community_DeleteUser_ok i c)
    next
      case ElsewhereCommunity
      then show ?thesis using community_ok_same [OF ok] by blast
    qed
  qed
qed

lemma distinct_filter_one:
  assumes "distinct (map f t)" and "x \<in> set t"
  shows "filter (\<lambda>y. f y = f x) t = [x]"
  using assms by (induction t) (auto simp: filter_empty_conv image_iff)

lemma sort_orders_bound:
  assumes "distinct (map (\<lambda>im. (img_PostID im, img_SortOrder im)) t)" and "\<forall>im \<in> set t. 0 \<le> img_SortOrder im \<and> img_SortOrder im \<le> 8"
  shows "length (filter (\<lambda>im. img_PostID im = pid) t) \<le> 9"
proof -
  let ?u = "filter (\<lambda>im. img_PostID im = pid) t"
  have "distinct (map (\<lambda>im. (img_PostID im, img_SortOrder im)) ?u)" using assms(1) by (rule distinct_map_filter)
  then have "distinct (map img_SortOrder ?u)" by (auto simp: distinct_map inj_on_def)
  moreover have "set (map img_SortOrder ?u) \<subseteq> {0..8}" using assms(2) by auto
  ultimately have "card (set (map img_SortOrder ?u)) \<le> card {0..8 :: int}" by (intro card_mono) auto
  then show ?thesis using \<open>distinct (map img_SortOrder ?u)\<close> distinct_card by fastforce
qed

text \<open>
  C30. In every state the community operations reach, an image that a post shows has been
  verified (its asset is \<open>ready\<close>), belongs to the author of that post, and the post is visible;
  the image is bound to that one post only, and a post has at most nine images. So no deleted or
  hidden post keeps an image, and nobody can publish another user's upload.
\<close>

theorem bound_images_are_ready:
  assumes "reachable community_init community_step s" and "im \<in> set (tb_images s)"
  shows "(\<exists>p m u. find_row pst_ID (img_PostID im) (tb_posts s) = Some p \<and> pst_DeletedAt p = None \<and> pst_AuthorID p = Some u \<and>
      find_row mas_ID (img_MediaID im) (tb_media s) = Some m \<and> mas_Status m = MediaStatusReady \<and> mas_OwnerID m = Some u) \<and>
    filter (\<lambda>j. img_MediaID j = img_MediaID im) (tb_images s) = [im] \<and>
    length (filter (\<lambda>j. img_PostID j = img_PostID im) (tb_images s)) \<le> 9"
proof -
  have ok: "images_ok s" using community.inv_reachable [OF assms(1)] by (simp add: community_ok_def)
  obtain u where u: "owned_post s (img_PostID im) u" "owned_media s (img_MediaID im) u"
    using images_okD [OF ok assms(2)] by (auto simp: image_ok_def)
  obtain p m where "p \<in> set (tb_posts s)" "pst_ID p = img_PostID im" "pst_DeletedAt p = None" "pst_AuthorID p = Some u"
    "m \<in> set (tb_media s)" "mas_ID m = img_MediaID im" "mas_Status m = MediaStatusReady" "mas_OwnerID m = Some u"
    using u unfolding owned_post_def owned_media_def by blast
  moreover have "find_row pst_ID (pst_ID p) (tb_posts s) = Some p" "find_row mas_ID (mas_ID m) (tb_media s) = Some m"
    using pk_find [of pst_ID "tb_posts s" p] pk_find [of mas_ID "tb_media s" m] calculation ok by (simp_all add: images_ok_def)
  moreover have "length (filter (\<lambda>j. img_PostID j = img_PostID im) (tb_images s)) \<le> 9"
    using ok images_okD [OF ok] by (intro sort_orders_bound) (auto simp: images_ok_def image_ok_def)
  ultimately show ?thesis using distinct_filter_one [OF _ assms(2)] ok by (auto simp: images_ok_def)
qed

text \<open>
  C35. Comments form threads of two levels: a reply names a top-level comment of the same post as
  its root and answers a comment of the same thread; a deleted comment keeps no text. This holds
  in every state the community operations reach, also after accounts were deleted.
\<close>

theorem comment_threads_have_two_levels:
  assumes "reachable community_init community_step s" and "c \<in> set (tb_comments s)"
  shows "(case cmt_RootCommentID c of
      None \<Rightarrow> cmt_ReplyToCommentID c = None
    | Some r \<Rightarrow> \<exists>rt g. find_row cmt_ID r (tb_comments s) = Some rt \<and> cmt_RootCommentID rt = None \<and> cmt_PostID rt = cmt_PostID c \<and>
        cmt_ReplyToCommentID c = Some (cmt_ID g) \<and> g \<in> set (tb_comments s) \<and> cmt_PostID g = cmt_PostID c \<and>
        (g = rt \<or> cmt_RootCommentID g = Some r)) \<and>
    (cmt_DeletedAt c = None \<or> cmt_Content c = '''')"
proof -
  have ok: "comments_ok (tb_comments s)" using community.inv_reachable [OF assms(1)] by (simp add: community_ok_def)
  then have c: "thread_check (cmt_PostID c) (cmt_RootCommentID c) (cmt_ReplyToCommentID c) (tb_comments s)"
    "cmt_DeletedAt c = None \<or> cmt_Content c = ''''" and pk: "pk cmt_ID (tb_comments s)"
    using assms(2) by (auto simp: comments_ok_def)
  show ?thesis
  proof (cases "cmt_RootCommentID c")
    case None
    then show ?thesis using c by (auto simp: thread_check_def split: option.splits)
  next
    case (Some r)
    then obtain g0 where g0: "cmt_ReplyToCommentID c = Some g0"
      using c(1) by (auto simp: thread_check_def split: option.splits)
    then obtain rt g where rt: "rt \<in> set (tb_comments s)" "cmt_PostID rt = cmt_PostID c" "cmt_ID rt = r" "cmt_RootCommentID rt = None"
      and g: "g \<in> set (tb_comments s)" "cmt_PostID g = cmt_PostID c" "cmt_ID g = g0" "cmt_ID g = r \<or> cmt_RootCommentID g = Some r"
      using c(1) Some unfolding thread_check_def list_ex_iff by auto
    have f: "find_row cmt_ID r (tb_comments s) = Some rt" using pk_find [OF pk rt(1)] rt(3) by simp
    have "g = rt \<or> cmt_RootCommentID g = Some r" using g(4) pk_find [OF pk g(1)] f by auto
    then show ?thesis using Some f rt g g0 c(2) by auto
  qed
qed

end
