(* ===== verification/CommunityEvolution.thy ===== *)
theory CommunityEvolution
  imports CommunitySafety
begin

text \<open>
  What community transactions may do to a post or an image over time. A relation between states
  that every statement respects holds along every run (the locale \<open>community_relation\<close>); it is
  interpreted for the removal of images and for the versions of posts.
\<close>

section \<open>Relations along a run\<close>

lemma check_images_readonly: "check_images uid pid assets ids s = Inr (x, s') \<Longrightarrow> s' = s"
proof (induction ids)
  case (Cons i ids)
  then show ?case
    by (auto simp: tx_simps q_GetMediaBinding_def sql_find_def tx_bind_def tx_optional_def tx_return_def
        split: option.splits if_splits)
qed (simp add: tx_simps)

lemma InTx_snd: "InTx m s = (r, s') \<Longrightarrow> s' = snd (InTx m s)"
  by simp

locale community_relation = media_relation R for R :: "db \<Rightarrow> db \<Rightarrow> bool" +
  assumes R_Ready: "tx_rel R (q_ReadyMediaAsset i contentType sizeBytes width height)"
    and R_MediaDeleted: "tx_rel R (q_MarkMediaDeleted i)"
    and R_StagingCleaned: "tx_rel R (q_MarkMediaStagingCleaned i)"
    and R_CreatePost: "tx_rel R (q_CreatePost author title content)"
    and R_UpdatePost: "tx_rel R (q_UpdatePost pid author title content v)"
    and R_SoftDelete: "tx_rel R (q_SoftDeletePost pid author adm)"
    and R_Unbind: "tx_rel R (q_UnbindPostImages pid)"
    and R_Bind: "tx_rel R (q_BindPostImage pid i k)"
    and R_HideUser: "tx_rel R (q_HideUserPosts author)"
    and R_RedactUser: "tx_rel R (q_DeleteUserComments author)"
    and R_UnbindUser: "tx_rel R (q_UnbindUserImages author)"
    and R_CreateComment: "tx_rel R (q_CreateComment pid author rt target content)"
    and R_DeleteComment: "tx_rel R (q_DeleteComment pid i author adm)"
    and R_DeleteUser: "tx_rel R (repo_DeleteUser i)"
begin

lemma rel_readonly_parts:
  "tx_rel R (lockVisiblePost pid)" "tx_rel R (post_get viewer pid)" "tx_rel R (check_images uid pid assets ids)"
  "tx_rel R (reply_root pid target)"
  by (rule rel_readonly; auto simp: lockVisiblePost_Inr reply_root_def q_GetComment_def cmt.find_Inr Let_def tx_simps
      dest: post_get_readonly check_images_readonly split: if_splits)+

lemma rel_bind_images: "tx_rel R (bind_images pid k ids)"
  by (induction pid k ids rule: bind_images.induct) (auto intro!: rel_intros R_Bind)

lemma rel_replaceImages: "tx_rel R (replaceImages jobs uid pid ids)"
  unfolding replaceImages_def q_GetPostImages_def q_LockMediaAssets_def
  by (intro rel_intros rel_readonly_parts rel_bind_images rel_mark_all R_Unbind)

lemma rel_posts:
  "tx_rel R (post_Create jobs a i)" "tx_rel R (post_Update jobs a pid i)" "tx_rel R (post_Delete jobs a pid)"
  unfolding post_Create_def post_Update_def post_Delete_def q_LockPost_def q_LockPostImageAssets_def
  by (intro rel_intros rel_lock rel_readonly_parts rel_replaceImages rel_mark_all R_CreatePost R_UpdatePost R_SoftDelete R_Unbind)+

lemma rel_likes: "tx_rel R (post_SetLike a pid on)"
  unfolding tx_rel_def using SetLike_same by (intro allI impI R_same) blast+

lemma rel_comments: "tx_rel R (comment_Create a pid content target)" "tx_rel R (comment_Delete a pid i)"
  unfolding comment_Create_def comment_Delete_def q_GetUserByID_def q_GetComment_def
  by (intro rel_intros rel_lock rel_readonly_parts R_CreateComment R_DeleteComment)+

lemma rel_DeleteUser: "tx_rel R (community_DeleteUser jobs i)"
  unfolding community_DeleteUser_def q_LockUserCommunityPosts_def q_LockUserMedia_def
  by (intro rel_intros rel_lock rel_mark_all R_HideUser R_RedactUser R_UnbindUser R_DeleteUser)

lemma R_step: "community_step s s' \<Longrightarrow> R s s'"
  by (erule community_step.cases; hypsubst?)
    (auto dest!: InTx_snd intro!: rel_InTx rel_posts rel_likes rel_comments rel_Create rel_Sweep rel_DeleteUser
      R_Ready R_MediaDeleted R_StagingCleaned R_same)

lemma R_star: "community_step\<^sup>*\<^sup>* s s' \<Longrightarrow> R s s'"
  by (erule star_rel) (rule R_refl R_trans R_step; assumption)+

end

lemmas community_statement_simps = q_CreatePost_def q_UpdatePost_def q_SoftDeletePost_def q_UnbindPostImages_def
  q_BindPostImage_def q_HideUserPosts_def q_DeleteUserComments_def q_UnbindUserImages_def q_CreateComment_def q_DeleteComment_def
  sql_exec_def pst.update_Inr tx_simps

section \<open>Assets that are being removed\<close>

abbreviation dying :: "media_asset \<Rightarrow> bool" where
  "dying m \<equiv> mas_Status m = MediaStatusDeleting \<or> mas_Status m = MediaStatusDeleted"

definition dead_kept :: "db \<Rightarrow> db \<Rightarrow> bool" where
  "dead_kept s s' \<longleftrightarrow> (\<forall>i m. find_row mas_ID i (tb_media s) = Some m \<and> dying m \<longrightarrow>
     (\<exists>m'. find_row mas_ID i (tb_media s') = Some m' \<and> dying m'))"

interpretation dk: tx_relation dead_kept
proof
  show "dead_kept s s" for s by (auto simp: dead_kept_def)
  show "dead_kept s u" if "dead_kept s t" "dead_kept t u" for s t u
    using that unfolding dead_kept_def by blast
qed

lemma dead_kept_same: "tb_media s' = tb_media s \<Longrightarrow> dead_kept s s'"
  by (auto simp: dead_kept_def)

lemma dead_kept_upd:
  assumes "\<And>m. mas_ID (f m) = mas_ID m" and "\<And>m. find_row mas_ID i (tb_media s) = Some m \<Longrightarrow> dying m \<Longrightarrow> dying (f m)"
  shows "dead_kept s (put_media (upd_row mas_ID i f (tb_media s)) s)"
  using assms by (auto simp: dead_kept_def find_row_upd)

lemma dk_exec:
  assumes "\<And>s m. mas_ID (f s m) = mas_ID m" and "\<And>s m. G s m \<Longrightarrow> dying m \<Longrightarrow> dying (f s m)"
  shows "tx_rel dead_kept (\<lambda>s. sql_exec tb_media put_media mas_ID i (G s) (f s) s)"
  unfolding tx_rel_def
proof (intro allI impI)
  fix s r s' assume "sql_exec tb_media put_media mas_ID i (G s) (f s) s = Inr (r, s')"
  then have "s' = s \<or> (\<exists>m. find_row mas_ID i (tb_media s) = Some m \<and> G s m) \<and> s' = put_media (upd_row mas_ID i (f s) (tb_media s)) s"
    by (auto simp: sql_exec_def split: option.splits if_splits)
  then show "dead_kept s s'" using dead_kept_upd [of "f s" i s] assms dk.R_refl by auto
qed

lemma dk_exec_unit:
  "tx_rel dead_kept (\<lambda>s. m s s) \<Longrightarrow> tx_rel dead_kept (\<lambda>s. tx_seq (m s) (tx_return ()) s)"
  by (auto simp: tx_rel_def tx_simps)

lemma dk_statements:
  "tx_rel dead_kept (q_MarkMediaDeleting i)" "tx_rel dead_kept (q_MarkMediaDeleted i)"
  "tx_rel dead_kept (q_MarkMediaStagingCleaned i)" "tx_rel dead_kept (q_TouchDeletingMedia i)"
  "tx_rel dead_kept (q_TouchMediaStagingCleanup i)"
  unfolding media_statement_defs
  by (auto intro!: dk_exec dk_exec_unit dk.rel_seq dk.rel_return)

lemma dk_Ready: "tx_rel dead_kept (q_ReadyMediaAsset i ct sz w h)"
  by (auto simp: tx_rel_def q_ReadyMediaAsset_def mas.update_Inr split: if_splits option.splits intro!: dead_kept_upd)

lemma dk_Create: "tx_rel dead_kept (q_CreateMediaAsset a)"
  by (auto simp: tx_rel_def q_CreateMediaAsset_def tx_simps dead_kept_def find_row_append split: if_splits)

interpretation dkm: media_relation dead_kept
  by unfold_locales (rule dead_kept_same dk_statements dk_Create; assumption?)+

lemma dk_same: "(\<And>s x s'. m s = Inr (x, s') \<Longrightarrow> tb_media s' = tb_media s) \<Longrightarrow> tx_rel dead_kept m"
  unfolding tx_rel_def using dead_kept_same by blast

interpretation dkc: community_relation dead_kept
proof
  show "tx_rel dead_kept (repo_DeleteUser i)" for i
    unfolding tx_rel_def repo_DeleteUser_Inr
    by (auto simp: q_DeleteUser_def dead_kept_def find_row_map split: if_splits)
qed (rule dk_same dk_statements dk_Ready; auto simp: community_statement_simps
  split: if_splits option.splits sum.splits)+

text \<open>
  C31. Removal is final. Once an asset is being deleted it is bound to no post in any later state
  and never becomes ready again, whatever the authors do meanwhile; and while an asset is bound,
  the worker that removes objects refuses it without a single call to the object storage. So the
  objects of an image that a post shows are never removed, although storage calls and
  transactions interleave.
\<close>

theorem referenced_image_is_never_removed:
  assumes "reachable community_init community_step (w_db w)" and "find_row mas_ID i (tb_media (w_db w)) = Some m"
    and "community_step\<^sup>*\<^sup>* (w_db w) s'"
  shows "if dying m then \<not> media_bound i s' \<and> (\<exists>m'. find_row mas_ID i (tb_media s') = Some m' \<and> dying m')
    else uc_media_Remove S i w = (Inl media_not_ready, w)"
proof (cases "dying m")
  case True
  have "dead_kept (w_db w) s'"
    by (rule dkc.R_star [OF assms(3)])
  then obtain m' where m': "find_row mas_ID i (tb_media s') = Some m'" "dying m'"
    using assms(2) True unfolding dead_kept_def by blast
  have ok: "images_ok s'"
    using community.inv_reachable [OF reachable_star [OF assms(3,1)]] by (simp add: community_ok_def)
  have "\<not> media_bound i s'"
  proof
    assume "media_bound i s'"
    then obtain im where im: "im \<in> set (tb_images s')" "img_MediaID im = i"
      by (auto simp: media_bound_def list_ex_iff)
    then obtain u where "owned_media s' i u" using images_okD [OF ok im(1)] by (auto simp: image_ok_def)
    then obtain m2 where "m2 \<in> set (tb_media s')" "mas_ID m2 = i" "mas_Status m2 = MediaStatusReady"
      by (auto simp: owned_media_def)
    then show False using pk_find [of mas_ID "tb_media s'" m2] ok m' by (auto simp: images_ok_def)
  qed
  then show ?thesis using True m' by simp
next
  case False
  have "transact (tx_optional (q_GetMediaAsset i)) w = (Inr (Some m), w)"
    using assms(2) by (simp add: transact_def on_db_def InTx_def tx_optional_def q_GetMediaAsset_def sql_get_def)
  then show ?thesis
    using False by (simp add: uc_media_Remove_def media_Remove_def prog_bind_def prog_try_def prog_throw_def)
qed

section \<open>What an account leaves behind\<close>

lemma mark_dying:
  assumes "markDeleting jobs m s = Inr (x, s')" and "find_row mas_ID (mas_ID m) (tb_media s) = Some m0"
    and "\<not> media_bound (mas_ID m) s"
  shows "\<exists>m'. find_row mas_ID (mas_ID m) (tb_media s') = Some m' \<and> dying m'"
proof -
  let ?f = "\<lambda>m. m\<lparr>mas_Status := MediaStatusDeleting, mas_UpdatedAt := tb_clock_timestamp s\<rparr>"
  obtain n s1 where n: "q_MarkMediaDeleting (mas_ID m) s = Inr (n, s1)"
    "(if n = 0 then tx_return () else enqueueDelete jobs m) s1 = Inr (x, s')"
    using assms(1) by (auto simp: markDeleting_def tx_simps)
  have "\<exists>m1. find_row mas_ID (mas_ID m) (tb_media s1) = Some m1 \<and> dying m1"
    using n(1) assms(2,3) by (cases "mas_Status m0") (auto simp: q_MarkMediaDeleting_def sql_exec_def find_row_upd split: if_splits)
  moreover have "dead_kept s1 s'"
    using n(2) tx_relD [OF dkm.rel_enqueueDelete] dk.R_refl by (auto simp: tx_simps split: if_splits)
  ultimately show ?thesis unfolding dead_kept_def by blast
qed

lemma markDeleting_rows:
  assumes "markDeleting jobs a s = Inr (x, s')" and "find_row mas_ID i (tb_media s) = Some m0"
  shows "\<exists>m1. find_row mas_ID i (tb_media s') = Some m1"
proof -
  obtain n s1 where n: "q_MarkMediaDeleting (mas_ID a) s = Inr (n, s1)"
    "(if n = 0 then tx_return () else enqueueDelete jobs a) s1 = Inr (x, s')"
    using assms(1) by (auto simp: markDeleting_def tx_simps)
  have "\<exists>m1. find_row mas_ID i (tb_media s1) = Some m1"
    using n(1) assms(2) by (auto simp: q_MarkMediaDeleting_def sql_exec_def find_row_upd split: if_splits option.splits)
  moreover have "tb_media s' = tb_media s1"
    using n(2) by (auto simp: tx_simps enqueueDelete_def enqueue_tx_def river_insert_def Let_def
        split: if_splits option.splits sum.splits prod.splits)
  ultimately show ?thesis by simp
qed

lemma mark_all_dying:
  assumes "mark_all_deleting jobs ms s = Inr (x, s')" and "m \<in> set ms" and "find_row mas_ID (mas_ID m) (tb_media s) = Some m0"
    and "\<not> media_bound (mas_ID m) s"
  shows "\<exists>m'. find_row mas_ID (mas_ID m) (tb_media s') = Some m' \<and> dying m'"
  using assms
proof (induction ms arbitrary: s m0)
  case (Cons a ms)
  obtain y t where t: "markDeleting jobs a s = Inr (y, t)" "mark_all_deleting jobs ms t = Inr (x, s')"
    using Cons.prems(1) by (auto simp: tx_simps)
  have kept: "media_kept s t" by (rule tx_relD [OF mkm.rel_markDeleting t(1)])
  show ?case
  proof (cases "a = m")
    case True
    then obtain m' where "find_row mas_ID (mas_ID m) (tb_media t) = Some m'" "dying m'"
      using mark_dying [OF t(1)] Cons.prems(3,4) by blast
    then show ?thesis using tx_relD [OF dkm.rel_mark_all t(2)] unfolding dead_kept_def by blast
  next
    case False
    have "\<not> media_bound (mas_ID m) t" using Cons.prems(4) media_keptD [OF kept] media_bound_cong by metis
    moreover obtain m1 where "find_row mas_ID (mas_ID m) (tb_media t) = Some m1"
      using markDeleting_rows [OF t(1) Cons.prems(3)] by blast
    ultimately show ?thesis using Cons.IH [OF t(2)] Cons.prems(2) False by auto
  qed
qed simp

lemma mark_all_users: "mark_all_deleting jobs ms s = Inr (x, s') \<Longrightarrow> tb_users s' = tb_users s"
proof (induction ms arbitrary: s)
  case (Cons m ms)
  then obtain y t where t: "markDeleting jobs m s = Inr (y, t)" "mark_all_deleting jobs ms t = Inr (x, s')"
    by (auto simp: tx_simps)
  obtain n s1 where n: "q_MarkMediaDeleting (mas_ID m) s = Inr (n, s1)"
    "(if n = 0 then tx_return () else enqueueDelete jobs m) s1 = Inr (y, t)"
    using t(1) by (auto simp: markDeleting_def tx_simps)
  have "tb_users s1 = tb_users s" using n(1) by (auto simp: q_MarkMediaDeleting_def sql_exec_def split: option.splits if_splits)
  moreover have "tb_users t = tb_users s1"
    using n(2) by (auto simp: tx_simps enqueueDelete_def enqueue_tx_def river_insert_def Let_def
        split: if_splits option.splits sum.splits prod.splits)
  ultimately show ?case using Cons.IH [OF t(2)] by simp
qed (simp add: tx_simps)

lemma deleted_rows:
  assumes "community_DeleteUser jobs i s = Inr (x, s')" and "0 < i"
  shows "tb_posts s' = map (\<lambda>p. if pst_AuthorID p = Some i then (if pst_DeletedAt p = None then hide_post (tb_clock_timestamp s) p else p)\<lparr>pst_AuthorID := None\<rparr> else p) (tb_posts s)"
    and "tb_comments s' = map (\<lambda>c. if cmt_AuthorID c = Some i then (if cmt_DeletedAt c = None then redact (tb_clock_timestamp s) c else c)\<lparr>cmt_AuthorID := None\<rparr> else c) (tb_comments s)"
    and "tb_users s' = filter (\<lambda>u. usr_ID u \<noteq> i) (tb_users s)"
    and "tb_images s' = filter (\<lambda>im. \<not> list_ex (\<lambda>m. mas_OwnerID m = Some i \<and> mas_ID m = img_MediaID im) (tb_media s)) (tb_images s)"
proof -
  obtain s1 s2 s3 s4 y where r:
    "s1 = put_posts (map (\<lambda>p. if pst_AuthorID p = Some i \<and> pst_DeletedAt p = None then hide_post (tb_clock_timestamp s) p else p) (tb_posts s)) s"
    "s2 = put_comments (map (\<lambda>c. if cmt_AuthorID c = Some i \<and> cmt_DeletedAt c = None then redact (tb_clock_timestamp s) c else c) (tb_comments s)) s1"
    "s3 = put_images (filter (\<lambda>im. \<not> list_ex (\<lambda>m. mas_OwnerID m = Some i \<and> mas_ID m = img_MediaID im) (tb_media s)) (tb_images s)) s2"
    "mark_all_deleting jobs (sorted_media (\<lambda>m. mas_OwnerID m = Some i \<and> mas_Status m \<noteq> MediaStatusDeleted) s) s3 = Inr (y, s4)"
    "q_DeleteUser i s4 = Inr (x, s')" "find_row usr_ID i (tb_users s) \<noteq> None"
    using assms by (rule community_DeleteUser_elim)
  have k: "tb_posts s4 = tb_posts s1" "tb_images s4 = tb_images s3" "tb_comments s4 = tb_comments s2"
    using media_keptD [OF tx_relD [OF mkm.rel_mark_all r(4)]] r(1-3) by auto
  have u: "tb_users s4 = tb_users s" using mark_all_users [OF r(4)] r(1-3) by simp
  have d: "tb_users s' = filter (\<lambda>u. usr_ID u \<noteq> i) (tb_users s4)" "tb_images s' = tb_images s4"
    "tb_posts s' = map (\<lambda>p. p\<lparr>pst_AuthorID := forget i (pst_AuthorID p)\<rparr>) (tb_posts s4)"
    "tb_comments s' = map (\<lambda>c. c\<lparr>cmt_AuthorID := forget i (cmt_AuthorID c)\<rparr>) (tb_comments s4)"
    using r(5,6) u by (auto simp: q_DeleteUser_def split: if_splits)
  show "tb_users s' = filter (\<lambda>u. usr_ID u \<noteq> i) (tb_users s)" using d u by simp
  show "tb_images s' = filter (\<lambda>im. \<not> list_ex (\<lambda>m. mas_OwnerID m = Some i \<and> mas_ID m = img_MediaID im) (tb_media s)) (tb_images s)"
    using d k r(1-3) by simp
  show "tb_posts s' = map (\<lambda>p. if pst_AuthorID p = Some i then (if pst_DeletedAt p = None then hide_post (tb_clock_timestamp s) p else p)\<lparr>pst_AuthorID := None\<rparr> else p) (tb_posts s)"
    unfolding d k r(1) by (auto simp: hide_post_def forget_def)
  show "tb_comments s' = map (\<lambda>c. if cmt_AuthorID c = Some i then (if cmt_DeletedAt c = None then redact (tb_clock_timestamp s) c else c)\<lparr>cmt_AuthorID := None\<rparr> else c) (tb_comments s)"
    unfolding d k r(2) r(1) by (auto simp: redact_def forget_def)
qed

lemma deleted_media:
  assumes "community_DeleteUser jobs i s = Inr (x, s')" and "0 < i" and "pk mas_ID (tb_media s)" and "m \<in> set (tb_media s)"
    and "mas_OwnerID m = Some i"
  shows "\<exists>m'. find_row mas_ID (mas_ID m) (tb_media s') = Some m' \<and> dying m'"
  using assms(1,2)
proof (cases rule: community_DeleteUser_elim)
  case (1 s1 s2 s3 s4 y)
  have f: "find_row mas_ID (mas_ID m) (tb_media s3) = Some m" using pk_find [OF assms(3,4)] by (simp add: 1(1-3))
  have nb: "\<not> media_bound (mas_ID m) s3"
    using assms(4,5) by (auto simp: 1(1-3) media_bound_def list_ex_iff)
  have d: "dead_kept s4 s'" using tx_relD [OF dkc.R_DeleteUser, unfolded repo_DeleteUser_Inr, OF 1(5)] .
  have "\<exists>m'. find_row mas_ID (mas_ID m) (tb_media s4) = Some m' \<and> dying m'"
  proof (cases "mas_Status m = MediaStatusDeleted")
    case True
    then show ?thesis using tx_relD [OF dkm.rel_mark_all 1(4)] f unfolding dead_kept_def by blast
  next
    case False
    then have "m \<in> set (sorted_media (\<lambda>m. mas_OwnerID m = Some i \<and> mas_Status m \<noteq> MediaStatusDeleted) s)"
      using assms(4,5) by (simp add: sorted_media_def)
    then show ?thesis using mark_all_dying [OF 1(4) _ f nb] by blast
  qed
  then show ?thesis using d unfolding dead_kept_def by blast
qed


section \<open>Versions of posts\<close>

definition versions_rise :: "db \<Rightarrow> db \<Rightarrow> bool" where
  "versions_rise s s' \<longleftrightarrow> (\<forall>i p. find_row pst_ID i (tb_posts s) = Some p \<longrightarrow>
     (\<exists>p'. find_row pst_ID i (tb_posts s') = Some p' \<and> pst_Version p \<le> pst_Version p'))"

interpretation vr: tx_relation versions_rise
proof
  show "versions_rise s s" for s by (auto simp: versions_rise_def)
  show "versions_rise s u" if "versions_rise s t" "versions_rise t u" for s t u
    using that unfolding versions_rise_def by (meson order_trans)
qed

lemma versions_rise_same: "tb_posts s' = tb_posts s \<Longrightarrow> versions_rise s s'"
  by (auto simp: versions_rise_def)

lemma vr_same: "(\<And>s x s'. m s = Inr (x, s') \<Longrightarrow> tb_posts s' = tb_posts s) \<Longrightarrow> tx_rel versions_rise m"
  unfolding tx_rel_def using versions_rise_same by blast

lemma versions_rise_map:
  assumes "tb_posts s' = map f (tb_posts s)" and "\<And>p. pst_ID (f p) = pst_ID p" and "\<And>p. pst_Version p \<le> pst_Version (f p)"
  shows "versions_rise s s'"
  unfolding versions_rise_def using assms by (auto simp: find_row_map)

lemma versions_rise_put:
  assumes "\<And>p. pst_ID (f p) = pst_ID p" and "\<And>p. pst_Version p \<le> pst_Version (f p)"
  shows "versions_rise s (put_posts (map f (tb_posts s)) s)"
  by (rule versions_rise_map [where f = f]) (simp_all add: assms)

lemma vr_media: "tx_rel media_kept m \<Longrightarrow> tx_rel versions_rise m"
  unfolding tx_rel_def using media_keptD versions_rise_same by blast

lemma vr_posts:
  "tx_rel versions_rise (q_CreatePost author title content)" "tx_rel versions_rise (q_UpdatePost pid author title content v)"
  "tx_rel versions_rise (q_SoftDeletePost pid author adm)" "tx_rel versions_rise (q_HideUserPosts author)"
  "tx_rel versions_rise (repo_DeleteUser i)"
proof -
  show "tx_rel versions_rise (q_CreatePost author title content)"
    by (auto simp: tx_rel_def q_CreatePost_def tx_simps versions_rise_def find_row_append split: if_splits)
  show "tx_rel versions_rise (q_UpdatePost pid author title content v)"
    by (auto simp: tx_rel_def q_UpdatePost_def pst.update_Inr upd_row_map split: sum.splits if_splits intro!: versions_rise_put)
  show "tx_rel versions_rise (q_SoftDeletePost pid author adm)"
    by (auto simp: tx_rel_def q_SoftDeletePost_def sql_exec_def upd_row_map hide_post_def split: option.splits if_splits
        intro!: versions_rise_put vr.R_refl)
  show "tx_rel versions_rise (q_HideUserPosts author)"
    by (auto simp: tx_rel_def q_HideUserPosts_def hide_post_def intro!: versions_rise_put)
  show "tx_rel versions_rise (repo_DeleteUser i)"
    unfolding tx_rel_def repo_DeleteUser_Inr
    by (auto simp: q_DeleteUser_def split: if_splits intro!: vr.R_refl
        versions_rise_map [where f = "\<lambda>p. p\<lparr>pst_AuthorID := forget i (pst_AuthorID p)\<rparr>"])
qed

interpretation vrc: community_relation versions_rise
  by unfold_locales
    (rule versions_rise_same vr_posts vr_media [OF mk_Ready] vr_media [OF mk_Create] mk_statements [THEN vr_media];
      assumption? | (rule vr_same; auto simp: community_statement_simps split: if_splits option.splits sum.splits))+

lemma post_Update_refused:
  assumes "find_row pst_ID pid (tb_posts s) = Some p" and "pst_Version p \<noteq> pin_ExpectedVersion i"
  shows "\<exists>e. fst (InTx (post_Update jobs a pid i) s) = Inl e \<and>
    e \<in> {Unauthorized ''UNAUTHORIZED'', post_not_found, Forbidden ''FORBIDDEN'', post_version_conflict}"
  using assms
  by (auto simp: InTx_def post_Update_def tx_seq_def tx_bind_def tx_lift_def tx_throw_def tx_on_no_rows_def tx_return_def lockCommunityUser_def
      q_LockCommunityUser_def lockVisiblePost_def q_LockPost_def sql_get_def Actor_Owns_def Actor_Validate_def split: option.splits if_splits)

text \<open>
  No edit of a post is lost. A version of a post is used for at most one update: once an update
  that was based on version \<open>v\<close> has been committed, every later update of the post that is based
  on \<open>v\<close>, by whoever and after whatever other community transactions, is refused (as a version
  conflict, or because the actor or the post is gone or another's), and changes nothing.
\<close>

theorem post_version_is_used_once:
  assumes "InTx (post_Update jobs a pid i) s = (Inr p, s1)" and "community_step\<^sup>*\<^sup>* s1 s2"
    and "pin_ExpectedVersion i' = pin_ExpectedVersion i"
  shows "\<exists>e. InTx (post_Update jobs' a' pid i') s2 = (Inl e, s2) \<and>
    e \<in> {Unauthorized ''UNAUTHORIZED'', post_not_found, Forbidden ''FORBIDDEN'', post_version_conflict}"
proof -
  have run: "post_Update jobs a pid i s = Inr (p, s1)" using assms(1) by (auto simp: InTx_def split: sum.splits prod.splits)
  then obtain p0 y t where u: "find_row pst_ID pid (tb_posts s) = Some p0" "pst_Version p0 = pin_ExpectedVersion i"
    "replaceImages jobs (actor_ID a) pid (pin_ImageIDs i) s = Inr (y, t)"
    "s1 = put_posts (upd_row pst_ID pid (\<lambda>p. p\<lparr>pst_Title := pin_Title i, pst_Content := pin_Content i,
      pst_Version := pst_Version p + 1, pst_UpdatedAt := tb_clock_timestamp t\<rparr>) (tb_posts t)) t"
    by (rule post_Update_elim) (rule that)
  obtain q where q: "find_row pst_ID pid (tb_posts t) = Some q" "pst_Version p0 \<le> pst_Version q"
    using tx_relD [OF vrc.rel_replaceImages u(3)] u(1) unfolding versions_rise_def by blast
  then obtain p1 where p1: "find_row pst_ID pid (tb_posts s1) = Some p1" "pst_Version p0 < pst_Version p1"
    using u(4) by (auto simp: find_row_upd)
  then obtain p2 where p2: "find_row pst_ID pid (tb_posts s2) = Some p2" "pst_Version p0 < pst_Version p2"
    using vrc.R_star [OF assms(2)] unfolding versions_rise_def by fastforce
  then have "pst_Version p2 \<noteq> pin_ExpectedVersion i'" using u(2) assms(3) by simp
  from post_Update_refused [OF p2(1) this, of jobs' a'] show ?thesis
    by (auto simp: InTx_def split: sum.splits prod.splits)
qed

end
