(* ===== verification/Feed.thy ===== *)
theory Feed
  imports CommunitySafety
begin

text \<open>
  The listings of the community. A page of posts is filled in by two queries for the whole page
  (\<open>enrich\<close>); what a reader gets for a post is what a request for that single post gives. Posts and
  comments are listed by key, so following the cursors reads every row exactly once.
\<close>

section \<open>Filling in a page of posts\<close>

definition image_rows :: "db \<Rightarrow> int \<Rightarrow> (post_image \<times> media_asset) list" where
  "image_rows s i = sort_key (\<lambda>(im, m). (img_PostID im, img_SortOrder im))
     (concat (map (\<lambda>im. case find_row mas_ID (img_MediaID im) (tb_media s) of
          None \<Rightarrow> []
        | Some m \<Rightarrow> if img_PostID im = i \<and> visible_post s (img_PostID im) \<and> mas_Status m = MediaStatusReady
            then [(im, m)] else []) (tb_images s)))"

text \<open>One post with its counts and images.\<close>

definition filled :: "int \<Rightarrow> db \<Rightarrow> Post \<Rightarrow> Post" where
  "filled viewer s p = (let st = post_stats viewer s (bp_ID p) in
     p\<lparr>bp_LikeCount := gps_LikeCount st, bp_CommentCount := gps_CommentCount st, bp_LikedByMe := gps_LikedByMe st,
       bp_Images := bp_Images p @ map (\<lambda>r. image_asset (snd r)) (image_rows s (bp_ID p))\<rparr>)"

lemma add_images_map:
  "foldl add_image ps rs = map (\<lambda>p. p\<lparr>bp_Images := bp_Images p @ map (\<lambda>r. image_asset (snd r))
     (filter (\<lambda>r. img_PostID (fst r) = bp_ID p) rs)\<rparr>) ps"
  by (induction rs arbitrary: ps) (auto simp: add_image_def)

definition with_stats :: "int \<Rightarrow> db \<Rightarrow> Post \<Rightarrow> Post" where
  "with_stats viewer s p = (let st = post_stats viewer s (bp_ID p) in
     p\<lparr>bp_LikeCount := gps_LikeCount st, bp_CommentCount := gps_CommentCount st, bp_LikedByMe := gps_LikedByMe st\<rparr>)"

lemma with_stats_twice [simp]: "bp_ID (with_stats viewer s p) = bp_ID p" "with_stats viewer s (with_stats viewer s p) = with_stats viewer s p"
  by (simp_all add: with_stats_def Let_def)

lemma add_stats_with: "add_stats ps (post_stats viewer s i) = map (\<lambda>p. if bp_ID p = i then with_stats viewer s p else p) ps"
  by (auto simp: add_stats_def with_stats_def post_stats_def Let_def)

lemma add_stats_map:
  "foldl add_stats ps (map (post_stats viewer s) is) = map (\<lambda>p. if bp_ID p \<in> set is then with_stats viewer s p else p) ps"
proof (induction "is" arbitrary: ps)
  case (Cons i "is")
  have "foldl add_stats ps (map (post_stats viewer s) (i # is)) =
      map (\<lambda>p. if bp_ID p \<in> set is then with_stats viewer s p else p) (map (\<lambda>p. if bp_ID p = i then with_stats viewer s p else p) ps)"
    by (simp add: Cons.IH add_stats_with)
  then show ?case by (simp add: comp_def cong: if_cong)
qed simp

lemma filter_image_rows:
  assumes "i \<in> set ids"
  shows "filter (\<lambda>r. img_PostID (fst r) = i) (sort_key (\<lambda>(im, m). (img_PostID im, img_SortOrder im))
     (concat (map (\<lambda>im. case find_row mas_ID (img_MediaID im) (tb_media s) of
          None \<Rightarrow> []
        | Some m \<Rightarrow> if img_PostID im \<in> set ids \<and> visible_post s (img_PostID im) \<and> mas_Status m = MediaStatusReady
            then [(im, m)] else []) (tb_images s)))) = image_rows s i"
proof -
  have "filter (\<lambda>r. img_PostID (fst r) = i) (case find_row mas_ID (img_MediaID im) (tb_media s) of
          None \<Rightarrow> []
        | Some m \<Rightarrow> if img_PostID im \<in> set ids \<and> visible_post s (img_PostID im) \<and> mas_Status m = MediaStatusReady
            then [(im, m)] else []) = (case find_row mas_ID (img_MediaID im) (tb_media s) of
          None \<Rightarrow> []
        | Some m \<Rightarrow> if img_PostID im = i \<and> visible_post s (img_PostID im) \<and> mas_Status m = MediaStatusReady
            then [(im, m)] else [])" for im :: post_image
    using assms by (auto split: option.splits)
  then show ?thesis unfolding image_rows_def filter_sort filter_concat map_map comp_def by (simp only:)
qed

lemma enrich_filled:
  assumes "list_all (\<lambda>p. visible_post s (bp_ID p)) ps"
  shows "enrich viewer ps s = Inr (map (filled viewer s) ps, s)"
proof -
  let ?ids = "map bp_ID ps"
  define ks where "ks = map pst_ID (filter (\<lambda>p. pst_ID p \<in> set ?ids \<and> pst_DeletedAt p = None) (tb_posts s))"
  have found: "bp_ID p \<in> set ks" if "p \<in> set ps" for p
  proof -
    obtain q where "q \<in> set (tb_posts s)" "pst_ID q = bp_ID p" "pst_DeletedAt q = None"
      using assms \<open>p \<in> set ps\<close> by (auto simp: list_all_iff visible_post_def list_ex_iff)
    then show ?thesis using that by (force simp: ks_def)
  qed
  have st: "foldl add_stats ps (map (post_stats viewer s) ks) = map (with_stats viewer s) ps"
    unfolding add_stats_map by (rule map_cong) (auto simp: found)
  have q: "q_GetPostStats viewer ?ids s = Inr (map (post_stats viewer s) ks, s)"
    by (simp add: q_GetPostStats_def tx_read_def ks_def comp_def)
  obtain im where im: "q_GetPostImages ?ids s = Inr (im, s)" "\<And>i. i \<in> set ?ids \<Longrightarrow> filter (\<lambda>r. img_PostID (fst r) = i) im = image_rows s i"
    unfolding q_GetPostImages_def tx_read_def using filter_image_rows [of _ ?ids s] by blast
  have "foldl add_image (map (with_stats viewer s) ps) im = map (filled viewer s) ps"
    unfolding add_images_map map_map by (rule map_cong) (auto simp: im(2) with_stats_def filled_def Let_def)
  then show ?thesis using q im(1) st by (simp add: enrich_def tx_bind_def tx_return_def)
qed

definition post_view :: "int \<Rightarrow> db \<Rightarrow> post \<Rightarrow> Post" where
  "post_view viewer s p = filled viewer s (post_base (p, author_nickname s (pst_AuthorID p)))"

lemma post_view_key: "bp_ID (post_view viewer s p) = pst_ID p" "bp_CreatedAt (post_view viewer s p) = pst_CreatedAt p"
  by (simp_all add: post_view_def filled_def post_base_def Let_def)

lemma visible_listed: "p \<in> set (listed_posts author s) \<Longrightarrow> visible_post s (pst_ID p)"
  by (auto simp: listed_posts_def visible_post_def list_ex_iff)

lemma post_get_view:
  assumes "pk pst_ID (tb_posts s)" and "p \<in> set (tb_posts s)" and "pst_DeletedAt p = None"
  shows "post_get viewer (pst_ID p) s = Inr (post_view viewer s p, s)"
proof -
  have "List.find (\<lambda>q. pst_ID q = pst_ID p \<and> pst_DeletedAt q = None) (tb_posts s) = Some p"
  proof (cases "List.find (\<lambda>q. pst_ID q = pst_ID p \<and> pst_DeletedAt q = None) (tb_posts s)")
    case None
    then show ?thesis using assms(2,3) by (auto simp: find_None_iff)
  next
    case (Some q)
    then have "q \<in> set (tb_posts s)" "pst_ID q = pst_ID p" by (auto simp: find_Some_iff)
    then show ?thesis using Some assms(1,2) pk_find by metis
  qed
  moreover have "visible_post s (pst_ID p)" using assms(2,3) by (auto simp: visible_post_def list_ex_iff)
  ultimately show ?thesis
    by (simp add: post_get_def q_GetVisiblePost_def tx_bind_def tx_on_no_rows_def tx_return_def enrich_filled post_view_def post_base_def)
qed

section \<open>Pages of posts\<close>

type_synonym feed_request = "cursor_json \<times> int \<times> int \<times> int \<times> db"

fun feed_ok :: "feed_request \<Rightarrow> bool" where
  "feed_ok (J, viewer, author, pageSize, s) \<longleftrightarrow> cursor_json_ok J \<and> 0 \<le> pageSize \<and> pageSize \<le> 50 \<and> int64_range author \<and>
     pk pst_ID (tb_posts s) \<and> list_all (\<lambda>p. year_ok (pst_CreatedAt p) \<and> 0 < pst_ID p \<and> int64_range (pst_ID p)) (tb_posts s)"

fun feed_json :: "feed_request \<Rightarrow> cursor_json" where
  "feed_json (J, viewer, author, pageSize, s) = J"

fun feed_scope :: "feed_request \<Rightarrow> string" where
  "feed_scope (J, viewer, author, pageSize, s) = Scope ''posts'' [author]"

fun feed_size :: "feed_request \<Rightarrow> int" where
  "feed_size (J, viewer, author, pageSize, s) = pageSize"

fun feed_page :: "feed_request \<Rightarrow> Page \<Rightarrow> error + (Post list \<times> string)" where
  "feed_page (J, viewer, author, pageSize, s) p = fst (InTx (post_list J viewer author p) s)"

fun feed_rows :: "feed_request \<Rightarrow> Post list" where
  "feed_rows (J, viewer, author, pageSize, s) = map (post_view viewer s) (sort_key post_key (listed_posts author s))"

lemma post_list_run:
  assumes "0 < pag_Limit p" and "t = sort_key post_key (filter (\<lambda>q. \<not> pag_HasCursor p \<or> (pst_CreatedAt q, pst_ID q) < (pag_Time p, pag_ID p))
      (listed_posts author s))"
  shows "post_list J viewer author p s = Inr (cut_page (\<lambda>v. NextCursor J p (bp_CreatedAt v) (bp_ID v)) (pag_Limit p)
    (take (nat (pag_Limit p) + 1) (map (post_view viewer s) t)), s)"
proof -
  define u where "u = take (nat (pag_Limit p) + 1) t"
  let ?f = "\<lambda>q. (q, author_nickname s (pst_AuthorID q))"
  let ?c = "\<lambda>q. NextCursor J p (pst_CreatedAt q) (pst_ID q)"
  have q: "q_ListPosts \<lparr>lpp_AuthorID = author, lpp_HasCursor = pag_HasCursor p, lpp_CursorTime = pag_Time p, lpp_CursorID = pag_ID p,
      lpp_PageLimit = pag_Limit p + 1\<rparr> s = Inr (map ?f u, s)"
    using assms by (simp add: q_ListPosts_def tx_read_def u_def nat_add_distrib)
  have vis: "visible_post s (pst_ID q)" if "q \<in> set u" for q
    using in_set_takeD [OF that [unfolded u_def]] visible_listed [of q author s] by (auto simp: assms(2))
  obtain rs nxt where cut: "cut_page ?c (pag_Limit p) u = (rs, nxt)" by fastforce
  have "set rs \<subseteq> set u" using set_cut_page [of ?c "pag_Limit p" u] by (simp add: cut)
  then have "list_all (\<lambda>v. visible_post s (bp_ID v)) (map (\<lambda>q. post_base (?f q)) rs)"
    using vis by (auto simp: list_all_iff post_base_def)
  note e = enrich_filled [OF this, of viewer]
  have "cut_page (\<lambda>r. NextCursor J p (pst_CreatedAt (fst r)) (pst_ID (fst r))) (pag_Limit p) (map ?f u) = (map ?f rs, nxt)"
    by (simp add: cut_page_map [OF assms(1)] cut)
  moreover have "cut_page (\<lambda>v. NextCursor J p (bp_CreatedAt v) (bp_ID v)) (pag_Limit p) (map (post_view viewer s) u) =
      (map (post_view viewer s) rs, nxt)"
    by (simp add: cut_page_map [OF assms(1)] cut post_view_key)
  ultimately show ?thesis
    using q e unfolding take_map u_def [symmetric]
    by (simp add: post_list_def tx_bind_def tx_return_def comp_def post_view_def)
qed

lemma listed_posts_distinct: "pk pst_ID (tb_posts s) \<Longrightarrow> distinct (map post_key (listed_posts author s))"
proof -
  assume "pk pst_ID (tb_posts s)"
  then have "distinct (map pst_ID (listed_posts author s))" by (simp add: pk_def listed_posts_def distinct_map_filter)
  then have "distinct (map snd (map post_key (listed_posts author s)))"
    by (simp add: distinct_map inj_on_def post_key_def)
  then show ?thesis unfolding distinct_map by blast
qed

interpretation feed: keyset_listing feed_ok feed_json feed_scope feed_size feed_page feed_rows bp_CreatedAt bp_ID
proof
  fix r assume ok: "feed_ok r"
  obtain J viewer author z s where r: "r = (J, viewer, author, z, s)" by (cases r) auto
  show "cursor_json_ok (feed_json r)" "0 \<le> feed_size r \<and> feed_size r \<le> 50" using ok by (simp_all add: r)
  show "length (feed_scope r) \<le> 200 \<and> list_all scope_char (feed_scope r)"
    using length_Scope [of "[author]" "''posts''"] scope_chars_Scope [of "''posts''" "[author]"] ok by (simp add: r scope_char_def in_bytes_def)
  show "year_ok (bp_CreatedAt v) \<and> 0 < bp_ID v \<and> int64_range (bp_ID v)" if "v \<in> set (feed_rows r)" for v
    using that ok by (auto simp: r post_view_key listed_posts_def list_all_iff)
  show "feed_page r p = Inr (cut_page (\<lambda>v. NextCursor (feed_json r) p (bp_CreatedAt v) (bp_ID v)) (pag_Limit p)
      (take (nat (pag_Limit p) + 1) (feed_rows r)))" if "\<not> pag_HasCursor p" "0 < pag_Limit p" for p
    using post_list_run [OF that(2) refl, where author = author and s = s and J = J and viewer = viewer] that(1) by (simp add: r InTx_def)
  fix xs v ys and p :: Page assume split: "feed_rows r = xs @ v # ys" and p: "pag_HasCursor p" "pag_Time p = bp_CreatedAt v" "pag_ID p = bp_ID v" "0 < pag_Limit p"
  obtain us x vs where x: "sort_key post_key (listed_posts author s) = us @ x # vs" "v = post_view viewer s x" "ys = map (post_view viewer s) vs"
    using split by (auto simp: r map_eq_append_conv Cons_eq_map_conv)
  have "vs = sort_key post_key (filter (\<lambda>q. \<not> pag_HasCursor p \<or> (pst_CreatedAt q, pst_ID q) < (pag_Time p, pag_ID p)) (listed_posts author s))"
    using page_after [OF listed_posts_distinct x(1)] ok p by (simp add: r x(2) post_view_key post_key_def neg_pair_less)
  from post_list_run [OF p(4) this, where J = J and viewer = viewer]
  show "feed_page r p = Inr (cut_page (\<lambda>v. NextCursor (feed_json r) p (bp_CreatedAt v) (bp_ID v)) (pag_Limit p) (take (nat (pag_Limit p) + 1) ys))"
    by (simp add: r x(3) InTx_def)
qed

text \<open>
  C33. The feed is complete and consistent with single posts. A client that asks for pages of any
  size and follows the cursors gets, without an error, every visible post (of the author, where
  one is given) exactly once, newest first, and each as a request for that post alone shows it:
  with its counts, its own like and its images, although a page is filled in by two queries for
  all its posts.
\<close>

theorem feed_shows_every_post:
  assumes "cursor_json_ok J" and "0 \<le> pageSize" and "pageSize \<le> 50" and "int64_range author"
    and "reachable community_init community_step s" and "list_all (\<lambda>p. year_ok (pst_CreatedAt p) \<and> 0 < pst_ID p \<and> int64_range (pst_ID p)) (tb_posts s)"
    and "length (listed_posts author s) < n"
  shows "\<exists>vs. fetch_all n (list_from J (Scope ''posts'' [author]) pageSize (\<lambda>p. fst (InTx (post_list J viewer author p) s))) '''' = Some (Inr vs) \<and>
    list_all2 (\<lambda>p v. fst (InTx (post_get viewer (pst_ID p)) s) = Inr v) (sort_key post_key (listed_posts author s)) vs"
proof -
  have pk: "pk pst_ID (tb_posts s)" using community.inv_reachable [OF assms(5)] by (simp add: community_ok_def images_ok_def)
  let ?r = "(J, viewer, author, pageSize, s)"
  have "feed_page ?r = (\<lambda>p. fst (InTx (post_list J viewer author p) s))" by (simp add: fun_eq_iff)
  then have "fetch_all n (list_from J (Scope ''posts'' [author]) pageSize (\<lambda>p. fst (InTx (post_list J viewer author p) s))) '''' =
      Some (Inr (map (post_view viewer s) (sort_key post_key (listed_posts author s))))"
    using feed.fetch_complete [of ?r n] assms pk by simp
  moreover have "list_all2 (\<lambda>p v. fst (InTx (post_get viewer (pst_ID p)) s) = Inr v) (sort_key post_key (listed_posts author s))
      (map (post_view viewer s) (sort_key post_key (listed_posts author s)))"
    using post_get_view [OF pk, of _ viewer] by (auto simp: list_all2_map2 list_all2_same InTx_def listed_posts_def)
  ultimately show ?thesis by blast
qed

section \<open>Pages of comments\<close>

type_synonym thread_request = "cursor_json \<times> int \<times> int \<times> int \<times> db"

fun thread_ok :: "thread_request \<Rightarrow> bool" where
  "thread_ok (J, pid, rootID, pageSize, s) \<longleftrightarrow> cursor_json_ok J \<and> 0 \<le> pageSize \<and> pageSize \<le> 50 \<and>
     int64_range pid \<and> int64_range rootID \<and> 0 \<le> rootID \<and> visible_post s pid \<and>
     pk cmt_ID (tb_comments s) \<and> list_all (\<lambda>c. year_ok (cmt_CreatedAt c) \<and> 0 < cmt_ID c \<and> int64_range (cmt_ID c)) (tb_comments s) \<and>
     (rootID = 0 \<or> list_ex (\<lambda>c. cmt_PostID c = pid \<and> cmt_ID c = rootID \<and> cmt_RootCommentID c = None) (tb_comments s))"

fun thread_json :: "thread_request \<Rightarrow> cursor_json" where
  "thread_json (J, pid, rootID, pageSize, s) = J"

fun thread_scope :: "thread_request \<Rightarrow> string" where
  "thread_scope (J, pid, rootID, pageSize, s) = Scope ''comments'' [pid, rootID]"

fun thread_size :: "thread_request \<Rightarrow> int" where
  "thread_size (J, pid, rootID, pageSize, s) = pageSize"

fun thread_page :: "thread_request \<Rightarrow> Page \<Rightarrow> error + (Comment list \<times> string)" where
  "thread_page (J, pid, rootID, pageSize, s) p = fst (InTx (comment_list J pid rootID p) s)"

text \<open>The rows behind a listing, the key they are sorted by, and what is shown of each.\<close>

definition thread_table :: "int \<Rightarrow> int \<Rightarrow> db \<Rightarrow> post_comment list" where
  "thread_table pid rootID s = (if rootID = 0 then listed_roots pid s else listed_replies pid (Some rootID) s)"

definition thread_key :: "int \<Rightarrow> post_comment \<Rightarrow> int \<times> int" where
  "thread_key rootID = (if rootID = 0 then root_key else reply_key)"

definition thread_view :: "int \<Rightarrow> int \<Rightarrow> db \<Rightarrow> post_comment \<Rightarrow> Comment" where
  "thread_view pid rootID s c = (if rootID = 0 then root_comment pid (root_row s c)
     else reply_comment pid (reply_row s c (the (reply_target s c))))"

fun thread_rows :: "thread_request \<Rightarrow> Comment list" where
  "thread_rows (J, pid, rootID, pageSize, s) = map (thread_view pid rootID s) (sort_key (thread_key rootID) (thread_table pid rootID s))"

lemma thread_view_key: "bc_ID (thread_view pid rootID s c) = cmt_ID c" "bc_CreatedAt (thread_view pid rootID s c) = cmt_CreatedAt c"
  by (simp_all add: thread_view_def root_comment_def root_row_def reply_comment_def reply_row_def Let_def)

lemma thread_table_comments: "set (thread_table pid rootID s) \<subseteq> set (tb_comments s)"
  by (auto simp: thread_table_def listed_roots_def listed_replies_def)

lemma thread_table_distinct: "pk cmt_ID (tb_comments s) \<Longrightarrow> distinct (map (thread_key rootID) (thread_table pid rootID s))"
proof -
  assume "pk cmt_ID (tb_comments s)"
  then have "distinct (map cmt_ID (thread_table pid rootID s))"
    by (simp add: pk_def thread_table_def listed_roots_def listed_replies_def distinct_map_filter)
  then have "distinct (map snd (map (thread_key rootID) (thread_table pid rootID s)))"
    by (simp add: distinct_map inj_on_def thread_key_def root_key_def reply_key_def)
  then show ?thesis unfolding distinct_map by blast
qed

lemma comment_rows_run:
  assumes "thread_ok (J, pid, rootID, z, s)" and "0 < pag_Limit p"
    and "t = sort_key (thread_key rootID) (filter (\<lambda>c. \<not> pag_HasCursor p \<or>
      (if rootID = 0 then (cmt_CreatedAt c, cmt_ID c) < (pag_Time p, pag_ID p) else (cmt_CreatedAt c, cmt_ID c) > (pag_Time p, pag_ID p)))
      (thread_table pid rootID s))"
  shows "comment_rows pid rootID p s = Inr (take (nat (pag_Limit p) + 1) (map (thread_view pid rootID s) t), s)"
proof (cases "rootID = 0")
  case True
  then show ?thesis
    using assms(2) by (simp add: assms(3) comment_rows_def tx_bind_def tx_return_def q_ListRootComments_def tx_read_def thread_table_def
        thread_key_def thread_view_def take_map nat_add_distrib comp_def)
next
  case False
  then obtain c where "List.find (\<lambda>c. cmt_PostID c = pid \<and> cmt_ID c = rootID) (tb_comments s) = Some c" "cmt_RootCommentID c = None"
  proof -
    obtain c where c: "c \<in> set (tb_comments s)" "cmt_PostID c = pid" "cmt_ID c = rootID" "cmt_RootCommentID c = None"
      using assms(1) False by (auto simp: list_ex_iff)
    show ?thesis
    proof (cases "List.find (\<lambda>c. cmt_PostID c = pid \<and> cmt_ID c = rootID) (tb_comments s)")
      case None
      then show ?thesis using c by (auto simp: find_None_iff)
    next
      case (Some d)
      then have "d \<in> set (tb_comments s)" "cmt_ID d = cmt_ID c" using c(3) by (auto simp: find_Some_iff)
      then have "d = c" using c(1) assms(1) pk_find [of cmt_ID "tb_comments s"] by (metis option.inject thread_ok.simps)
      then show ?thesis using that Some c(4) by blast
    qed
  qed
  moreover have "communityID rootID = Some rootID" using assms(1) False by (simp add: communityID_def)
  ultimately show ?thesis
    using False assms(2) by (simp add: assms(3) comment_rows_def tx_bind_def tx_return_def tx_on_no_rows_def q_GetComment_def sql_find_def
        q_ListCommentReplies_def tx_read_def thread_table_def thread_key_def thread_view_def take_map nat_add_distrib comp_def)
qed

lemma comment_list_run:
  assumes "thread_ok (J, pid, rootID, z, s)" and "0 < pag_Limit p"
    and "t = sort_key (thread_key rootID) (filter (\<lambda>c. \<not> pag_HasCursor p \<or>
      (if rootID = 0 then (cmt_CreatedAt c, cmt_ID c) < (pag_Time p, pag_ID p) else (cmt_CreatedAt c, cmt_ID c) > (pag_Time p, pag_ID p)))
      (thread_table pid rootID s))"
  shows "comment_list J pid rootID p s = Inr (cut_page (\<lambda>v. NextCursor J p (bc_CreatedAt v) (bc_ID v)) (pag_Limit p)
    (take (nat (pag_Limit p) + 1) (map (thread_view pid rootID s) t)), s)"
proof -
  obtain q where "List.find (\<lambda>p. pst_ID p = pid \<and> pst_DeletedAt p = None) (tb_posts s) = Some q"
    using assms(1) by (cases "List.find (\<lambda>p. pst_ID p = pid \<and> pst_DeletedAt p = None) (tb_posts s)")
      (auto simp: visible_post_def find_None_iff list_ex_iff)
  then show ?thesis
    using comment_rows_run [OF assms] by (simp add: comment_list_def tx_seq_def tx_bind_def tx_return_def tx_on_no_rows_def q_GetVisiblePost_def)
qed

interpretation thread: keyset_listing thread_ok thread_json thread_scope thread_size thread_page thread_rows bc_CreatedAt bc_ID
proof
  fix r assume ok: "thread_ok r"
  obtain J pid rootID z s where r: "r = (J, pid, rootID, z, s)" by (cases r) auto
  note ok' = ok [unfolded r]
  show "cursor_json_ok (thread_json r)" "0 \<le> thread_size r \<and> thread_size r \<le> 50" using ok by (simp_all add: r)
  show "length (thread_scope r) \<le> 200 \<and> list_all scope_char (thread_scope r)"
    using length_Scope [of "[pid, rootID]" "''comments''"] scope_chars_Scope [of "''comments''" "[pid, rootID]"] ok
    by (simp add: r scope_char_def in_bytes_def)
  show "year_ok (bc_CreatedAt v) \<and> 0 < bc_ID v \<and> int64_range (bc_ID v)" if "v \<in> set (thread_rows r)" for v
    using that ok thread_table_comments [of pid rootID s] by (auto simp: r thread_view_key list_all_iff)
  show "thread_page r p = Inr (cut_page (\<lambda>v. NextCursor (thread_json r) p (bc_CreatedAt v) (bc_ID v)) (pag_Limit p)
      (take (nat (pag_Limit p) + 1) (thread_rows r)))" if "\<not> pag_HasCursor p" "0 < pag_Limit p" for p
    using comment_list_run [OF ok' that(2) refl] that(1) by (simp add: r InTx_def)
  fix xs v ys and p :: Page assume split: "thread_rows r = xs @ v # ys" and p: "pag_HasCursor p" "pag_Time p = bc_CreatedAt v" "pag_ID p = bc_ID v" "0 < pag_Limit p"
  obtain us x vs where x: "sort_key (thread_key rootID) (thread_table pid rootID s) = us @ x # vs" "v = thread_view pid rootID s x"
    "ys = map (thread_view pid rootID s) vs"
    using split by (auto simp: r map_eq_append_conv Cons_eq_map_conv)
  have "vs = sort_key (thread_key rootID) (filter (\<lambda>c. thread_key rootID x < thread_key rootID c) (thread_table pid rootID s))"
    using page_after [OF thread_table_distinct x(1)] ok by (simp add: r)
  moreover have "thread_key rootID x < thread_key rootID c \<longleftrightarrow> \<not> pag_HasCursor p \<or>
      (if rootID = 0 then (cmt_CreatedAt c, cmt_ID c) < (pag_Time p, pag_ID p) else (cmt_CreatedAt c, cmt_ID c) > (pag_Time p, pag_ID p))" for c
    using p(1-3) by (simp add: x(2) thread_view_key thread_key_def root_key_def reply_key_def neg_pair_less)
  ultimately have "vs = sort_key (thread_key rootID) (filter (\<lambda>c. \<not> pag_HasCursor p \<or>
      (if rootID = 0 then (cmt_CreatedAt c, cmt_ID c) < (pag_Time p, pag_ID p) else (cmt_CreatedAt c, cmt_ID c) > (pag_Time p, pag_ID p)))
      (thread_table pid rootID s))" by presburger
  from comment_list_run [OF ok' p(4) this]
  show "thread_page r p = Inr (cut_page (\<lambda>v. NextCursor (thread_json r) p (bc_CreatedAt v) (bc_ID v)) (pag_Limit p) (take (nat (pag_Limit p) + 1) ys))"
    by (simp add: r x(3) InTx_def)
qed

definition shown :: "post_comment \<Rightarrow> Comment list \<Rightarrow> bool" where
  "shown c vs \<longleftrightarrow> (case filter (\<lambda>v. bc_ID v = cmt_ID c) vs of
     [v] \<Rightarrow> bc_Content v = cmt_Content c \<and> bc_CreatedAt v = cmt_CreatedAt c \<and> \<not> bc_Deleted v
   | _ \<Rightarrow> False)"

lemma thread_filter:
  assumes "pk cmt_ID (tb_comments s)" and "c \<in> set (thread_table pid rootID s)"
  shows "filter (\<lambda>v. bc_ID v = cmt_ID c) (thread_rows (J, pid, rootID, z, s)) = [thread_view pid rootID s c]"
proof -
  have "distinct (map cmt_ID (thread_table pid rootID s))"
    using assms(1) by (simp add: pk_def thread_table_def listed_roots_def listed_replies_def distinct_map_filter)
  then have "filter (\<lambda>d. cmt_ID d = cmt_ID c) (thread_table pid rootID s) = [c]"
    using assms(2) distinct_filter_one by metis
  then show ?thesis by (simp add: filter_map comp_def thread_view_key filter_sort)
qed

lemma uc_comment_List_pages:
  assumes "0 < actor_ID a" and "0 < pid" and "0 \<le> rootID"
  shows "(\<lambda>raw. fst (InTx (uc_comment_List J a pid rootID raw z) s)) =
    list_from J (Scope ''comments'' [pid, rootID]) z (thread_page (J, pid, rootID, z, s))"
  using assms by (auto simp: fun_eq_iff InTx_def uc_comment_List_def list_from_def tx_seq_def tx_bind_def tx_lift_def Actor_Validate_def split: sum.splits)

lemma fetch_thread:
  assumes "thread_ok (J, pid, rootID, z, s)" and "0 < actor_ID a" and "0 < pid" and "length (tb_comments s) < n"
  shows "fetch_all n (\<lambda>raw. fst (InTx (uc_comment_List J a pid rootID raw z) s)) '''' = Some (Inr (thread_rows (J, pid, rootID, z, s)))"
proof -
  have "length (thread_table pid rootID s) \<le> length (tb_comments s)"
    by (simp add: thread_table_def listed_roots_def listed_replies_def)
  then have "length (thread_rows (J, pid, rootID, z, s)) < n" using assms(4) by simp
  from thread.fetch_complete [OF assms(1) this] show ?thesis
    using uc_comment_List_pages [of a pid rootID J z s] assms by simp
qed

lemma reply_in_thread:
  assumes "comments_ok (tb_comments s)" and "c \<in> set (tb_comments s)" and "cmt_DeletedAt c = None" and "visible_post s (cmt_PostID c)"
    and "cmt_RootCommentID c = Some r"
  shows "\<exists>d. d \<in> set (thread_table (cmt_PostID c) 0 s) \<and> cmt_ID d = r \<and> cmt_PostID d = cmt_PostID c \<and> cmt_RootCommentID d = None"
    and "r \<noteq> 0 \<Longrightarrow> c \<in> set (thread_table (cmt_PostID c) r s)"
proof -
  have th: "thread_check (cmt_PostID c) (Some r) (cmt_ReplyToCommentID c) (tb_comments s)"
    using assms by (auto simp: comments_ok_def)
  then obtain g where g: "cmt_ReplyToCommentID c = Some g" by (cases "cmt_ReplyToCommentID c") (auto simp: thread_check_def)
  obtain d where d: "d \<in> set (tb_comments s)" "cmt_PostID d = cmt_PostID c" "cmt_ID d = r" "cmt_RootCommentID d = None"
    using th g unfolding thread_check_def list_ex_iff by auto
  have "c \<in> set (live_replies s d)" using assms d by (simp add: live_replies_def)
  then have "live_replies s d \<noteq> []" by auto
  then have "d \<in> set (thread_table (cmt_PostID c) 0 s)" using d assms(4) by (simp add: thread_table_def listed_roots_def)
  with d show "\<exists>d. d \<in> set (thread_table (cmt_PostID c) 0 s) \<and> cmt_ID d = r \<and> cmt_PostID d = cmt_PostID c \<and> cmt_RootCommentID d = None"
    by blast
  have "reply_target s c \<noteq> None" using th g unfolding thread_check_def reply_target_def list_ex_iff by (auto simp: find_None_iff)
  then show "r \<noteq> 0 \<Longrightarrow> c \<in> set (thread_table (cmt_PostID c) r s)"
    using assms by (simp add: thread_table_def listed_replies_def sql_eq_def)
qed

text \<open>
  C34. Every comment can be read. For a comment that is not deleted, on a post that is visible, a
  client that follows the cursors of the post's comments, with any page size, sees the comment
  exactly once and unredacted; or, when it is a reply, sees the root of its thread exactly once
  (even if the root itself is deleted) and then, following the cursors of the replies to that
  root, the comment exactly once.
\<close>

theorem live_comment_is_shown:
  assumes "cursor_json_ok J" and "0 \<le> pageSize" and "pageSize \<le> 50" and "0 < actor_ID a"
    and "reachable community_init community_step s"
    and "list_all (\<lambda>c. year_ok (cmt_CreatedAt c) \<and> 0 < cmt_ID c \<and> int64_range (cmt_ID c)) (tb_comments s)"
    and "length (tb_comments s) < n"
    and "c \<in> set (tb_comments s)" and "cmt_DeletedAt c = None"
    and "visible_post s (cmt_PostID c)" and "0 < cmt_PostID c" and "int64_range (cmt_PostID c)"
  shows "\<exists>vs. fetch_all n (\<lambda>raw. fst (InTx (uc_comment_List J a (cmt_PostID c) 0 raw pageSize) s)) '''' = Some (Inr vs) \<and>
    (case cmt_RootCommentID c of
       None \<Rightarrow> shown c vs
     | Some r \<Rightarrow> length (filter (\<lambda>v. bc_ID v = r) vs) = 1 \<and>
         (\<exists>ts. fetch_all n (\<lambda>raw. fst (InTx (uc_comment_List J a (cmt_PostID c) r raw pageSize) s)) '''' = Some (Inr ts) \<and> shown c ts))"
proof -
  have ok: "comments_ok (tb_comments s)" using community.inv_reachable [OF assms(5)] by (simp add: community_ok_def)
  then have pk: "pk cmt_ID (tb_comments s)" by (simp add: comments_ok_def)
  let ?pid = "cmt_PostID c"
  have roots: "thread_ok (J, ?pid, 0, pageSize, s)" using assms pk by (simp add: int64_range_def)
  note f = fetch_thread [OF roots assms(4,11,7)]
  show ?thesis
  proof (cases "cmt_RootCommentID c")
    case None
    then have "c \<in> set (thread_table ?pid 0 s)" using assms by (simp add: thread_table_def listed_roots_def)
    then have "shown c (thread_rows (J, ?pid, 0, pageSize, s))"
      using thread_filter [OF pk] assms(9) by (simp add: shown_def thread_view_def root_comment_def root_row_def Let_def)
    then show ?thesis using f None by auto
  next
    case (Some r)
    obtain d where d: "d \<in> set (thread_table ?pid 0 s)" "cmt_ID d = r" "cmt_PostID d = ?pid" "cmt_RootCommentID d = None"
      using reply_in_thread(1) [OF ok assms(8-10) Some] by blast
    have dc: "d \<in> set (tb_comments s)" using d(1) thread_table_comments by blast
    then have r: "0 < r" "int64_range r" using d(2) assms(6) by (auto simp: list_all_iff)
    have one: "length (filter (\<lambda>v. bc_ID v = r) (thread_rows (J, ?pid, 0, pageSize, s))) = 1"
      using thread_filter [OF pk d(1), of J pageSize] d(2) by simp
    have "list_ex (\<lambda>d. cmt_PostID d = ?pid \<and> cmt_ID d = r \<and> cmt_RootCommentID d = None) (tb_comments s)"
      using dc d by (auto simp: list_ex_iff)
    then have th: "thread_ok (J, ?pid, r, pageSize, s)" using roots r by simp
    have "c \<in> set (thread_table ?pid r s)" using reply_in_thread(2) [OF ok assms(8-10) Some] r(1) by simp
    then have "shown c (thread_rows (J, ?pid, r, pageSize, s))"
      using thread_filter [OF pk] r(1) by (simp add: shown_def thread_view_def reply_comment_def reply_row_def Let_def)
    then show ?thesis using f fetch_thread [OF th assms(4,11,7)] one Some by auto
  qed
qed

end
