(* ===== verification/History.thy ===== *)
theory History
  imports Pages
begin

text \<open>
  The browsing history (app/mall/internal/biz/browsing\_history.go, data/browsing\_history.go,
  db/browsing\_history.sql.go, job/browsing\_history\_cleanup.go,
  service/browsing\_history.go): one row per user and product, listed newest first with a
  retention window and removed in batches once it is over.
\<close>

section \<open>Statements\<close>

definition viewable :: "product \<Rightarrow> bool" where
  "viewable p \<longleftrightarrow> prd_Status p = 1 \<and> prd_DeletedAt p = None"

text \<open>
  \<open>INSERT ... SELECT ... ON CONFLICT (user_id, product_id) DO UPDATE\<close>: no row when the product
  is not available.
\<close>

definition q_RecordProductView :: "int \<Rightarrow> int \<Rightarrow> (db, browsing_history) tx" where
  "q_RecordProductView uid pid = (\<lambda>s.
     case List.find (\<lambda>p. prd_ID p = pid \<and> viewable p) (tb_products s) of
       None \<Rightarrow> Inl ErrNoRows
     | Some p \<Rightarrow> (case List.find (\<lambda>h. his_UserID h = uid \<and> his_ProductID h = pid) (tb_history s) of
         None \<Rightarrow> (let h = \<lparr>his_UserID = uid, his_ProductID = pid, his_FirstViewedAt = tb_statement_timestamp s,
                        his_LastViewedAt = tb_statement_timestamp s\<rparr>
                 in Inr (h, s\<lparr>tb_history := tb_history s @ [h]\<rparr>))
       | Some h \<Rightarrow> (let f = (\<lambda>h. h\<lparr>his_LastViewedAt := max (his_LastViewedAt h) (tb_clock_timestamp s)\<rparr>)
                 in Inr (f h, s\<lparr>tb_history :=
                   map (\<lambda>h. if his_UserID h = uid \<and> his_ProductID h = pid then f h else h) (tb_history s)\<rparr>))))"

record ListBrowsingHistoryParams =
  lbh_UserID :: int
  lbh_Retention :: int
  lbh_HasStart :: bool
  lbh_StartTime :: int
  lbh_HasEnd :: bool
  lbh_EndTime :: int
  lbh_HasCursor :: bool
  lbh_CursorTime :: int
  lbh_CursorID :: int
  lbh_PageLimit :: int

record ListBrowsingHistoryRow =
  lbr_ProductID :: int
  lbr_LastViewedAt :: int
  lbr_Name :: string
  lbr_PriceMinor :: int
  lbr_Discount :: rat
  lbr_CoverImage :: "MediaInfo list"
  lbr_Available :: bool

text \<open>The join with \<^verbatim>\<open>products\<close>.\<close>

definition join_product :: "db \<Rightarrow> browsing_history \<Rightarrow> ListBrowsingHistoryRow list" where
  "join_product s h = (case find_row prd_ID (his_ProductID h) (tb_products s) of
     None \<Rightarrow> []
   | Some p \<Rightarrow> [\<lparr>lbr_ProductID = his_ProductID h, lbr_LastViewedAt = his_LastViewedAt h, lbr_Name = prd_Name p,
       lbr_PriceMinor = prd_PriceMinor p, lbr_Discount = prd_Discount p, lbr_CoverImage = prd_CoverImage p,
       lbr_Available = viewable p\<rparr>])"

definition in_history_window :: "ListBrowsingHistoryParams \<Rightarrow> int \<Rightarrow> browsing_history \<Rightarrow> bool" where
  "in_history_window a now h \<longleftrightarrow> his_UserID h = lbh_UserID a \<and> his_LastViewedAt h > now - lbh_Retention a \<and>
     (\<not> lbh_HasStart a \<or> his_LastViewedAt h \<ge> lbh_StartTime a) \<and>
     (\<not> lbh_HasEnd a \<or> his_LastViewedAt h < lbh_EndTime a)"

text \<open>\<open>ORDER BY h.last_viewed_at DESC, h.product_id DESC\<close>\<close>

definition history_key :: "ListBrowsingHistoryRow \<Rightarrow> int \<times> int" where
  "history_key r = (- lbr_LastViewedAt r, - lbr_ProductID r)"

definition q_ListBrowsingHistory :: "ListBrowsingHistoryParams \<Rightarrow> (db, ListBrowsingHistoryRow list) tx" where
  "q_ListBrowsingHistory a = tx_read (\<lambda>s. take (nat (lbh_PageLimit a)) (sort_key history_key
     (filter (\<lambda>r. \<not> lbh_HasCursor a \<or>
         (lbr_LastViewedAt r, lbr_ProductID r) < (lbh_CursorTime a, lbh_CursorID a))
       (concat (map (join_product s) (filter (in_history_window a (tb_current_timestamp s)) (tb_history s)))))))"

definition q_DeleteBrowsingHistoryItem :: "int \<Rightarrow> int \<Rightarrow> (db, unit) tx" where
  "q_DeleteBrowsingHistoryItem uid pid = (\<lambda>s. Inr ((), s\<lparr>tb_history :=
     filter (\<lambda>h. \<not> (his_UserID h = uid \<and> his_ProductID h = pid)) (tb_history s)\<rparr>))"

definition q_ClearBrowsingHistory :: "int \<Rightarrow> (db, unit) tx" where
  "q_ClearBrowsingHistory uid = (\<lambda>s. Inr ((), s\<lparr>tb_history := filter (\<lambda>h. his_UserID h \<noteq> uid) (tb_history s)\<rparr>))"

definition expired_history :: "int \<Rightarrow> db \<Rightarrow> browsing_history list" where
  "expired_history ret s = filter (\<lambda>h. his_LastViewedAt h \<le> tb_current_timestamp s - ret) (tb_history s)"

definition q_CleanupBrowsingHistory :: "int \<Rightarrow> int \<Rightarrow> (db, int) tx" where
  "q_CleanupBrowsingHistory ret batch = (\<lambda>s.
     let expired = take (nat batch) (sort_key (\<lambda>h. (his_LastViewedAt h, his_UserID h, his_ProductID h)) (expired_history ret s));
         gone = (\<lambda>h. (\<exists>e \<in> set expired. his_UserID h = his_UserID e \<and> his_ProductID h = his_ProductID e) \<and>
                     his_LastViewedAt h \<le> tb_current_timestamp s - ret)
     in Inr (go_len (filter gone (tb_history s)), s\<lparr>tb_history := filter (\<lambda>h. \<not> gone h) (tb_history s)\<rparr>))"

section \<open>Repository and use cases\<close>

record CommunityPolicy =
  cop_HistoryRetention :: int
  cop_CleanupBatch :: int

definition history_write :: "int \<Rightarrow> (db, 'a) tx \<Rightarrow> (db, 'a) tx" where
  "history_write uid fn = tx_seq (lockCommunityUser uid) fn"

definition history_Record :: "int \<Rightarrow> int \<Rightarrow> (db, int) tx" where
  "history_Record uid pid = history_write uid (tx_bind
     (tx_on_no_rows (q_RecordProductView uid pid) (tx_throw (NotFound ''PRODUCT_NOT_AVAILABLE'')))
     (\<lambda>h. tx_return (his_LastViewedAt h)))"

record HistoryFilter =
  hf_Start :: int
  hf_End :: int
  hf_HasStart :: bool
  hf_HasEnd :: bool

definition HistoryFilter_Validate :: "HistoryFilter \<Rightarrow> error + unit" where
  "HistoryFilter_Validate f =
     (if hf_HasStart f \<and> \<not> year_ok (hf_Start f) \<or> hf_HasEnd f \<and> \<not> year_ok (hf_End f) then Inl (BadRequest ''INVALID_TIME_RANGE'')
      else if hf_HasStart f \<and> hf_HasEnd f \<and> \<not> hf_Start f < hf_End f then Inl (BadRequest ''INVALID_TIME_RANGE'')
      else Inr ())"

record BrowsingHistoryItem =
  bhi_ProductID :: int
  bhi_Name :: string
  bhi_PriceMinor :: int
  bhi_EffectivePriceMinor :: int
  bhi_CoverImage :: "MediaInfo list"
  bhi_Available :: bool
  bhi_LastViewedAt :: int

text \<open>The loop over the rows of a page; the first price that cannot be computed ends it.\<close>

definition history_item :: "decimal_lib \<Rightarrow> ListBrowsingHistoryRow \<Rightarrow> error + BrowsingHistoryItem" where
  "history_item L h = (case EffectivePriceMinor L (lbr_PriceMinor h) (lbr_Discount h) of
     Inl e \<Rightarrow> Inl e
   | Inr effective \<Rightarrow> Inr \<lparr>bhi_ProductID = lbr_ProductID h, bhi_Name = lbr_Name h,
       bhi_PriceMinor = (if lbr_Available h then lbr_PriceMinor h else 0),
       bhi_EffectivePriceMinor = (if lbr_Available h then effective else 0),
       bhi_CoverImage = lbr_CoverImage h, bhi_Available = lbr_Available h, bhi_LastViewedAt = lbr_LastViewedAt h\<rparr>)"

fun history_items :: "decimal_lib \<Rightarrow> ListBrowsingHistoryRow list \<Rightarrow> error + BrowsingHistoryItem list" where
  "history_items L [] = Inr []"
| "history_items L (h # hs) = (case history_item L h of
     Inl e \<Rightarrow> Inl e
   | Inr i \<Rightarrow> (case history_items L hs of Inl e \<Rightarrow> Inl e | Inr is \<Rightarrow> Inr (i # is)))"

definition history_params :: "CommunityPolicy \<Rightarrow> int \<Rightarrow> Page \<Rightarrow> HistoryFilter \<Rightarrow> ListBrowsingHistoryParams" where
  "history_params pol uid p f = \<lparr>lbh_UserID = uid, lbh_Retention = cop_HistoryRetention pol, lbh_HasStart = hf_HasStart f,
     lbh_StartTime = hf_Start f, lbh_HasEnd = hf_HasEnd f, lbh_EndTime = hf_End f, lbh_HasCursor = pag_HasCursor p,
     lbh_CursorTime = pag_Time p, lbh_CursorID = pag_ID p, lbh_PageLimit = pag_Limit p + 1\<rparr>"

definition history_List :: "decimal_lib \<Rightarrow> cursor_json \<Rightarrow> CommunityPolicy \<Rightarrow> int \<Rightarrow> Page \<Rightarrow> HistoryFilter \<Rightarrow>
    (db, BrowsingHistoryItem list \<times> string) tx" where
  "history_List L J pol uid p f = tx_bind (q_ListBrowsingHistory (history_params pol uid p f)) (\<lambda>rows.
     case cut_page (\<lambda>r. NextCursor J p (lbr_LastViewedAt r) (lbr_ProductID r)) (pag_Limit p) rows of
       (rows, nxt) \<Rightarrow> tx_bind (tx_lift (history_items L rows)) (\<lambda>out. tx_return (out, nxt)))"

definition history_Delete :: "int \<Rightarrow> int \<Rightarrow> (db, unit) tx" where
  "history_Delete uid pid = history_write uid (q_DeleteBrowsingHistoryItem uid pid)"

definition history_Clear :: "int \<Rightarrow> (db, unit) tx" where
  "history_Clear uid = history_write uid (q_ClearBrowsingHistory uid)"

definition history_Cleanup :: "CommunityPolicy \<Rightarrow> (db, int) tx" where
  "history_Cleanup pol = q_CleanupBrowsingHistory (cop_HistoryRetention pol) (cop_CleanupBatch pol)"

definition uc_history_Record :: "Actor \<Rightarrow> int \<Rightarrow> (db, int) tx" where
  "uc_history_Record a pid = tx_seq (tx_lift (Actor_Validate a)) (tx_seq (tx_lift (PositiveIDs [pid]))
     (history_Record (actor_ID a) pid))"

definition uc_history_List :: "decimal_lib \<Rightarrow> cursor_json \<Rightarrow> CommunityPolicy \<Rightarrow> Actor \<Rightarrow> string \<Rightarrow> int \<Rightarrow> HistoryFilter \<Rightarrow>
    (db, BrowsingHistoryItem list \<times> string) tx" where
  "uc_history_List L J pol a raw pageSize f = tx_seq (tx_lift (Actor_Validate a)) (tx_seq (tx_lift (HistoryFilter_Validate f))
     (tx_bind (tx_lift (ParsePage J raw (Scope ''history'' [actor_ID a]) pageSize)) (\<lambda>p.
       history_List L J pol (actor_ID a) p f)))"

definition uc_history_Delete :: "Actor \<Rightarrow> int \<Rightarrow> (db, unit) tx" where
  "uc_history_Delete a pid = tx_seq (tx_lift (Actor_Validate a)) (tx_seq (tx_lift (PositiveIDs [pid]))
     (history_Delete (actor_ID a) pid))"

definition uc_history_Clear :: "Actor \<Rightarrow> (db, unit) tx" where
  "uc_history_Clear a = tx_seq (tx_lift (Actor_Validate a)) (history_Clear (actor_ID a))"

definition BrowsingHistoryCleanupWorker_Work :: "CommunityPolicy \<Rightarrow> (db, unit) tx" where
  "BrowsingHistoryCleanupWorker_Work pol = tx_seq (history_Cleanup pol) (tx_return ())"

text \<open>The handlers of the user service.\<close>

definition svc_RecordProductView :: "EcommerceClaims option \<Rightarrow> int \<Rightarrow> (db, int) tx" where
  "svc_RecordProductView ctx pid = tx_bind (tx_lift (actor ctx)) (\<lambda>a. uc_history_Record a pid)"

definition history_filter :: "int option \<Rightarrow> int option \<Rightarrow> HistoryFilter" where
  "history_filter start ending = \<lparr>hf_Start = (case start of None \<Rightarrow> zero_time | Some t \<Rightarrow> t),
     hf_End = (case ending of None \<Rightarrow> zero_time | Some t \<Rightarrow> t), hf_HasStart = (start \<noteq> None), hf_HasEnd = (ending \<noteq> None)\<rparr>"

definition svc_ListBrowsingHistory :: "decimal_lib \<Rightarrow> cursor_json \<Rightarrow> CommunityPolicy \<Rightarrow> EcommerceClaims option \<Rightarrow> string \<Rightarrow>
    int \<Rightarrow> int option \<Rightarrow> int option \<Rightarrow> (db, BrowsingHistoryItem list \<times> string) tx" where
  "svc_ListBrowsingHistory L J pol ctx raw pageSize start ending = tx_bind (tx_lift (actor ctx)) (\<lambda>a.
     uc_history_List L J pol a raw pageSize (history_filter start ending))"

definition svc_DeleteBrowsingHistoryItem :: "EcommerceClaims option \<Rightarrow> int \<Rightarrow> (db, unit) tx" where
  "svc_DeleteBrowsingHistoryItem ctx pid = tx_bind (tx_lift (actor ctx)) (\<lambda>a. uc_history_Delete a pid)"

definition svc_ClearBrowsingHistory :: "EcommerceClaims option \<Rightarrow> (db, unit) tx" where
  "svc_ClearBrowsingHistory ctx = tx_bind (tx_lift (actor ctx)) uc_history_Clear"

section \<open>One row per user and product\<close>

definition history_id :: "browsing_history \<Rightarrow> int \<times> int" where
  "history_id h = (his_UserID h, his_ProductID h)"

definition history_ok :: "browsing_history list \<Rightarrow> bool" where
  "history_ok t \<longleftrightarrow> distinct (map history_id t) \<and>
     list_all (\<lambda>h. his_FirstViewedAt h \<le> his_LastViewedAt h \<and> 0 < his_ProductID h) t"

inductive history_step :: "db \<Rightarrow> db \<Rightarrow> bool" where
  Record: "InTx (uc_history_Record a pid) s = (r, s') \<Longrightarrow> history_step s s'"
| DeleteItem: "InTx (uc_history_Delete a pid) s = (r, s') \<Longrightarrow> history_step s s'"
| Clear: "InTx (uc_history_Clear a) s = (r, s') \<Longrightarrow> history_step s s'"
| Cleanup: "InTx (BrowsingHistoryCleanupWorker_Work pol) s = (r, s') \<Longrightarrow> history_step s s'"
| DeleteAccount: "InTx (repo_DeleteUser i) s = (r, s') \<Longrightarrow> history_step s s'"
| ElsewhereHistory: "tb_history s' = tb_history s \<Longrightarrow> history_step s s'"

lemma history_ok_filter: "history_ok t \<Longrightarrow> history_ok (filter P t)"
  by (auto simp: history_ok_def list_all_iff intro: distinct_map_filter)

lemma history_ok_record:
  assumes "history_ok (tb_history s)" and "0 < pid" and "q_RecordProductView uid pid s = Inr (h, s')"
  shows "history_ok (tb_history s')"
proof -
  let ?m = "\<lambda>h. his_UserID h = uid \<and> his_ProductID h = pid"
  from assms(3) obtain p where p: "List.find (\<lambda>p. prd_ID p = pid \<and> viewable p) (tb_products s) = Some p"
    by (auto simp: q_RecordProductView_def split: option.splits)
  show ?thesis
  proof (cases "List.find ?m (tb_history s)")
    case None
    then have "tb_history s' = tb_history s @ [h]" and h: "history_id h = (uid, pid)" "his_FirstViewedAt h = his_LastViewedAt h"
      "his_ProductID h = pid"
      using assms(3) p by (auto simp: q_RecordProductView_def Let_def history_id_def)
    moreover have "(uid, pid) \<notin> history_id ` set (tb_history s)"
      using None by (auto simp: find_None_iff history_id_def)
    ultimately show ?thesis using assms(1,2) by (simp add: history_ok_def)
  next
    case (Some g)
    define f where "f = (\<lambda>h :: browsing_history. if ?m h then h\<lparr>his_LastViewedAt := max (his_LastViewedAt h) (tb_clock_timestamp s)\<rparr> else h)"
    have "tb_history s' = map f (tb_history s)"
      using assms(3) p Some by (auto simp: q_RecordProductView_def Let_def f_def)
    moreover have "map history_id (map f t) = map history_id t" for t
      by (simp add: f_def history_id_def)
    moreover have "list_all (\<lambda>h. his_FirstViewedAt h \<le> his_LastViewedAt h \<and> 0 < his_ProductID h) (map f t)"
      if "list_all (\<lambda>h. his_FirstViewedAt h \<le> his_LastViewedAt h \<and> 0 < his_ProductID h) t" for t
      using that by (auto simp: list_all_iff f_def max_def)
    ultimately show ?thesis using assms(1) by (metis history_ok_def)
  qed
qed

lemmas history_tx_simps = uc_history_Record_def uc_history_Delete_def uc_history_Clear_def history_Record_def
  history_Delete_def history_Clear_def history_write_def history_Cleanup_def BrowsingHistoryCleanupWorker_Work_def
  q_DeleteBrowsingHistoryItem_def q_ClearBrowsingHistory_def q_CleanupBrowsingHistory_def

lemma InTx_history:
  assumes "InTx m s = (r, s')" and "history_ok (tb_history s)"
    and "\<And>x s'. m s = Inr (x, s') \<Longrightarrow> history_ok (tb_history s')"
  shows "history_ok (tb_history s')"
  using assms by (auto simp: InTx_def split: sum.splits)

interpretation history: invariant_system "\<lambda>s. tb_history s = []" history_step "\<lambda>s. history_ok (tb_history s)"
proof
  fix s assume "tb_history s = []"
  then show "history_ok (tb_history s)" by (simp add: history_ok_def)
next
  fix s s' assume ok: "history_ok (tb_history s)" and "history_step s s'"
  from this(2) show "history_ok (tb_history s')"
  proof cases
    case (Record a pid r)
    then show ?thesis
    proof (rule InTx_history [OF _ ok])
      fix x s1 assume "uc_history_Record a pid s = Inr (x, s1)"
      then obtain h where "0 < pid" "q_RecordProductView (actor_ID a) pid s = Inr (h, s1)"
        by (auto simp: history_tx_simps tx_simps PositiveIDs_iff split: if_splits)
      then show "history_ok (tb_history s1)" using history_ok_record [OF ok] by blast
    qed
  next
    case (DeleteItem a pid r)
    then show ?thesis by (rule InTx_history [OF _ ok]) (use ok history_ok_filter in \<open>auto simp: history_tx_simps tx_simps\<close>)
  next
    case (Clear a r)
    then show ?thesis by (rule InTx_history [OF _ ok]) (use ok history_ok_filter in \<open>auto simp: history_tx_simps tx_simps\<close>)
  next
    case (Cleanup pol r)
    then show ?thesis
      by (rule InTx_history [OF _ ok]) (use ok history_ok_filter in \<open>auto simp: history_tx_simps tx_simps Let_def\<close>)
  next
    case (DeleteAccount i r)
    then show ?thesis
      by (rule InTx_history [OF _ ok]) (use ok history_ok_filter in \<open>auto simp: repo_DeleteUser_Inr q_DeleteUser_def split: if_splits\<close>)
  next
    case ElsewhereHistory
    with ok show ?thesis by simp
  qed
qed

section \<open>The pages of the history\<close>

definition history_rows :: "ListBrowsingHistoryParams \<Rightarrow> db \<Rightarrow> ListBrowsingHistoryRow list" where
  "history_rows a s = concat (map (join_product s) (filter (in_history_window a (tb_current_timestamp s)) (tb_history s)))"

lemma join_product_row: "r \<in> set (join_product s h) \<Longrightarrow> lbr_ProductID r = his_ProductID h \<and> lbr_LastViewedAt r = his_LastViewedAt h"
  by (auto simp: join_product_def split: option.splits)

lemma history_rows_distinct:
  assumes "distinct (map history_id (tb_history s))"
  shows "distinct (map history_key (history_rows a s))"
proof -
  have aux: "distinct (map his_ProductID hs) \<Longrightarrow> distinct (map history_key (concat (map (join_product s) hs)))" for hs
  proof (induction hs)
    case (Cons h hs)
    have "history_key x \<noteq> history_key y" if "x \<in> set (join_product s h)" "y \<in> set (concat (map (join_product s) hs))" for x y
      using that join_product_row Cons.prems by (fastforce simp: history_key_def)
    then have "set (map history_key (join_product s h)) \<inter> set (map history_key (concat (map (join_product s) hs))) = {}"
      by fastforce
    moreover have "distinct (map history_key (join_product s h))" by (simp add: join_product_def split: option.splits)
    moreover have "distinct (map history_key (concat (map (join_product s) hs)))" using Cons by simp
    ultimately show ?case by (simp only: list.map concat.simps map_append distinct_append)
  qed simp
  let ?f = "filter (in_history_window a (tb_current_timestamp s)) (tb_history s)"
  have "distinct (map his_ProductID ?f)"
    using assms by (induction "tb_history s" arbitrary: s) (auto simp: history_id_def in_history_window_def distinct_map inj_on_def)
  then show ?thesis unfolding history_rows_def by (rule aux)
qed

definition item_of_row :: "decimal_lib \<Rightarrow> ListBrowsingHistoryRow \<Rightarrow> BrowsingHistoryItem" where
  "item_of_row L r = projr (history_item L r)"

lemma history_items_map:
  "(\<And>r. r \<in> set rs \<Longrightarrow> \<not> isl (history_item L r)) \<Longrightarrow> history_items L rs = Inr (map (item_of_row L) rs)"
proof (induction rs)
  case (Cons r rs)
  have "\<not> isl (history_item L r)" using Cons.prems by simp
  then obtain i where "history_item L r = Inr i" by (cases "history_item L r") auto
  then show ?case using Cons by (simp add: item_of_row_def)
qed simp

lemma item_of_row_key:
  "\<not> isl (history_item L r) \<Longrightarrow> bhi_ProductID (item_of_row L r) = lbr_ProductID r \<and> bhi_LastViewedAt (item_of_row L r) = lbr_LastViewedAt r"
  by (auto simp: item_of_row_def history_item_def split: sum.splits)

lemma history_List_run:
  assumes ok: "\<And>r. r \<in> set (history_rows (history_params pol uid p f) s) \<Longrightarrow> \<not> isl (history_item L r)" and l: "0 < pag_Limit p"
  shows "history_List L J pol uid p f s = Inr (cut_page (\<lambda>i. NextCursor J p (bhi_LastViewedAt i) (bhi_ProductID i)) (pag_Limit p)
    (take (nat (pag_Limit p) + 1) (map (item_of_row L) (sort_key history_key (filter (\<lambda>r. \<not> pag_HasCursor p \<or>
      (lbr_LastViewedAt r, lbr_ProductID r) < (pag_Time p, pag_ID p)) (history_rows (history_params pol uid p f) s))))), s)"
proof -
  define rs where "rs = take (nat (pag_Limit p) + 1) (sort_key history_key (filter (\<lambda>r. \<not> pag_HasCursor p \<or>
      (lbr_LastViewedAt r, lbr_ProductID r) < (pag_Time p, pag_ID p)) (history_rows (history_params pol uid p f) s)))"
  let ?c = "\<lambda>r. NextCursor J p (lbr_LastViewedAt r) (lbr_ProductID r)"
  have q: "q_ListBrowsingHistory (history_params pol uid p f) s = Inr (rs, s)"
    using l by (simp add: q_ListBrowsingHistory_def tx_read_def rs_def history_rows_def history_params_def nat_add_distrib)
  have rok: "\<not> isl (history_item L r)" if "r \<in> set rs" for r
    using in_set_takeD [OF that [unfolded rs_def]] ok by simp
  have items: "history_items L (fst (cut_page ?c (pag_Limit p) rs)) = Inr (map (item_of_row L) (fst (cut_page ?c (pag_Limit p) rs)))"
    by (rule history_items_map) (rule rok [OF subsetD [OF set_cut_page]])
  have "cut_page (\<lambda>i. NextCursor J p (bhi_LastViewedAt i) (bhi_ProductID i)) (pag_Limit p) (map (item_of_row L) rs) =
      (case cut_page ?c (pag_Limit p) rs of (x, nxt) \<Rightarrow> (map (item_of_row L) x, nxt))"
    unfolding cut_page_map [OF l] by (subst cut_page_cong [OF l, of rs _ ?c]) (simp_all add: item_of_row_key [OF rok])
  then show ?thesis
    using q items unfolding rs_def [symmetric] take_map
    by (auto simp: history_List_def tx_bind_def tx_lift_def tx_return_def split: prod.splits)
qed

text \<open>The reference: everything a user may see, newest first.\<close>

type_synonym history_request = "decimal_lib \<times> cursor_json \<times> CommunityPolicy \<times> Actor \<times> int \<times> HistoryFilter \<times> db"

abbreviation history_page0 :: "Actor \<Rightarrow> Page" where
  "history_page0 a \<equiv> \<lparr>pag_Scope = Scope ''history'' [actor_ID a], pag_Time = 0, pag_ID = 0, pag_Limit = 1, pag_HasCursor = False\<rparr>"

fun history_reference :: "history_request \<Rightarrow> BrowsingHistoryItem list" where
  "history_reference (L, J, pol, a, pageSize, f, s) =
     map (item_of_row L) (sort_key history_key (history_rows (history_params pol (actor_ID a) (history_page0 a) f) s))"

fun history_listing_ok :: "history_request \<Rightarrow> bool" where
  "history_listing_ok (L, J, pol, a, pageSize, f, s) \<longleftrightarrow> cursor_json_ok J \<and> 0 < actor_ID a \<and> int64_range (actor_ID a) \<and>
     0 \<le> pageSize \<and> pageSize \<le> 50 \<and> HistoryFilter_Validate f = Inr () \<and> history_ok (tb_history s) \<and>
     list_all (\<lambda>h. year_ok (his_LastViewedAt h) \<and> int64_range (his_ProductID h)) (tb_history s) \<and>
     list_all (\<lambda>p. \<not> isl (EffectivePriceMinor L (prd_PriceMinor p) (prd_Discount p))) (tb_products s)"

fun list_history :: "history_request \<Rightarrow> string \<Rightarrow> error + (BrowsingHistoryItem list \<times> string)" where
  "list_history (L, J, pol, a, pageSize, f, s) raw = fst (InTx (uc_history_List L J pol a raw pageSize f) s)"

fun history_cursor :: "history_request \<Rightarrow> BrowsingHistoryItem \<Rightarrow> string" where
  "history_cursor (L, J, pol, a, pageSize, f, s) i = NextCursor J (history_page0 a) (bhi_LastViewedAt i) (bhi_ProductID i)"

fun history_limit :: "history_request \<Rightarrow> int" where
  "history_limit (L, J, pol, a, pageSize, f, s) = (if pageSize = 0 then 20 else pageSize)"

lemma history_row_facts:
  assumes "history_listing_ok (L, J, pol, a, pageSize, f, s)" and "r \<in> set (history_rows b s)"
  shows "\<not> isl (history_item L r) \<and> year_ok (lbr_LastViewedAt r) \<and> 0 < lbr_ProductID r \<and> int64_range (lbr_ProductID r)"
proof -
  obtain h p where h: "h \<in> set (tb_history s)" "find_row prd_ID (his_ProductID h) (tb_products s) = Some p"
    "lbr_PriceMinor r = prd_PriceMinor p" "lbr_Discount r = prd_Discount p"
    "lbr_LastViewedAt r = his_LastViewedAt h" "lbr_ProductID r = his_ProductID h"
  proof -
    from assms(2) obtain h where h: "h \<in> set (tb_history s)" "r \<in> set (join_product s h)"
      by (auto simp: history_rows_def)
    then obtain p where p: "find_row prd_ID (his_ProductID h) (tb_products s) = Some p"
      by (cases "find_row prd_ID (his_ProductID h) (tb_products s)") (auto simp: join_product_def)
    show ?thesis by (rule that [OF h(1) p]) (use h(2) p in \<open>auto simp: join_product_def\<close>)
  qed
  have "p \<in> set (tb_products s)" using find_row_in [OF h(2)] .
  then have "\<not> isl (EffectivePriceMinor L (prd_PriceMinor p) (prd_Discount p))"
    using assms(1) by (simp add: list_all_iff)
  moreover have "year_ok (his_LastViewedAt h)" "0 < his_ProductID h" "int64_range (his_ProductID h)"
    using assms(1) h(1) by (simp_all add: list_all_iff history_ok_def)
  ultimately show ?thesis using h by (auto simp: history_item_def split: sum.splits)
qed

lemma history_params_page: "history_rows (history_params pol uid p f) s = history_rows (history_params pol uid q f) s"
proof -
  have "in_history_window (history_params pol uid p f) = in_history_window (history_params pol uid q f)"
    by (simp add: fun_eq_iff in_history_window_def history_params_def)
  then show ?thesis by (simp add: history_rows_def)
qed

lemma NextCursor_scope: "pag_Scope p = pag_Scope q \<Longrightarrow> NextCursor J p t i = NextCursor J q t i"
  by (simp add: NextCursor_def)

lemma uc_history_List_run:
  assumes ok: "history_listing_ok (L, J, pol, a, pageSize, f, s)"
    and p: "ParsePage J raw (Scope ''history'' [actor_ID a]) pageSize = Inr p"
    and t: "sort_key history_key (filter (\<lambda>r. \<not> pag_HasCursor p \<or> (lbr_LastViewedAt r, lbr_ProductID r) < (pag_Time p, pag_ID p))
      (history_rows (history_params pol (actor_ID a) (history_page0 a) f) s)) = t"
  shows "list_history (L, J, pol, a, pageSize, f, s) raw =
    Inr (cut_page (history_cursor (L, J, pol, a, pageSize, f, s)) (pag_Limit p) (take (nat (pag_Limit p) + 1) (map (item_of_row L) t)))"
proof -
  have "pag_Scope p = pag_Scope (history_page0 a)" and l: "0 < pag_Limit p" using ParsePage_limit [OF p] by auto
  then have c: "(\<lambda>i. NextCursor J p (bhi_LastViewedAt i) (bhi_ProductID i)) = history_cursor (L, J, pol, a, pageSize, f, s)"
    using NextCursor_scope by (fastforce simp: fun_eq_iff)
  have "history_List L J pol (actor_ID a) p f s = Inr (cut_page (history_cursor (L, J, pol, a, pageSize, f, s)) (pag_Limit p)
      (take (nat (pag_Limit p) + 1) (map (item_of_row L) t)), s)"
    using history_List_run [of pol "actor_ID a" p f s L J] history_row_facts [OF ok] l c t
      history_params_page [of pol "actor_ID a" p f s "history_page0 a"] by auto
  then show ?thesis
    using ok p by (simp add: InTx_def uc_history_List_def tx_seq_def tx_bind_def tx_lift_def Actor_Validate_def)
qed

interpretation history_pages: paged_listing history_listing_ok list_history history_reference history_cursor history_limit
proof
  fix q :: history_request assume ok: "history_listing_ok q"
  obtain L J pol a z f s where q: "q = (L, J, pol, a, z, f, s)" by (cases q) auto
  note ok = ok [unfolded q]
  let ?t = "history_rows (history_params pol (actor_ID a) (history_page0 a) f) s"
  show "1 \<le> history_limit q" using ok by (simp add: q)
  have "ParsePage J '''' (Scope ''history'' [actor_ID a]) z = Inr ((history_page0 a)\<lparr>pag_Limit := history_limit q\<rparr>)"
    using ok by (simp add: ParsePage_def q)
  from uc_history_List_run [OF ok this refl]
  show "list_history q '''' = Inr (cut_page (history_cursor q) (history_limit q) (take (nat (history_limit q) + 1) (history_reference q)))"
    by (simp add: q)
  have sch: "list_all scope_char (Scope ''history'' [actor_ID a])"
    by (rule scope_chars_Scope) (simp add: scope_char_def in_bytes_def)
  have nil: "history_cursor q r \<noteq> ''''" if "r \<in> set (history_reference q)" for r
  proof -
    obtain x where x: "x \<in> set ?t" "r = item_of_row L x" using \<open>r \<in> _\<close> by (auto simp: q)
    show ?thesis
      using NextCursor_nonempty [of J] history_row_facts [OF ok x(1)] item_of_row_key ok x(2) sch by (simp add: q)
  qed
  then show "r \<in> set (history_reference q) \<Longrightarrow> history_cursor q r \<noteq> ''''" for r .
  fix xs r ys assume "history_reference q = xs @ r # ys"
  then obtain us x vs where split: "sort_key history_key ?t = us @ x # vs" "r = item_of_row L x" "ys = map (item_of_row L) vs"
    by (auto simp: q map_eq_append_conv Cons_eq_map_conv)
  have x: "x \<in> set ?t" using split(1) by (metis in_set_conv_decomp set_sort)
  note f = history_row_facts [OF ok x]
  have key: "bhi_LastViewedAt r = lbr_LastViewedAt x" "bhi_ProductID r = lbr_ProductID x"
    using item_of_row_key f split(2) by auto
  have sc: "length (Scope ''history'' [actor_ID a]) \<le> 200" using length_Scope [of "[actor_ID a]" "''history''"] ok by simp
  define p where "p = \<lparr>pag_Scope = Scope ''history'' [actor_ID a], pag_Time = lbr_LastViewedAt x, pag_ID = lbr_ProductID x,
      pag_Limit = (if z = 0 then 20 else z), pag_HasCursor = True\<rparr>"
  have p: "ParsePage J (history_cursor q r) (Scope ''history'' [actor_ID a]) z = Inr p"
    using parse_next_cursor [of J "lbr_LastViewedAt x" "lbr_ProductID x" "history_page0 a" z] f ok sc sch by (simp add: q key p_def)
  have "distinct (map history_key ?t)" using history_rows_distinct ok by (simp add: history_ok_def)
  from page_after [OF this split(1)]
  have "sort_key history_key (filter (\<lambda>r. \<not> pag_HasCursor p \<or> (lbr_LastViewedAt r, lbr_ProductID r) < (pag_Time p, pag_ID p)) ?t) = vs"
    by (simp add: p_def history_key_def neg_pair_less)
  from uc_history_List_run [OF ok p this]
  show "list_history q (history_cursor q r) = Inr (cut_page (history_cursor q) (history_limit q) (take (nat (history_limit q) + 1) ys))"
    by (simp add: q p_def split(3))
qed

section \<open>Cleaning up\<close>

lemma cleanup_elim:
  assumes "history_Cleanup pol s = Inr (n, s')"
  shows "\<exists>gone. s' = s\<lparr>tb_history := filter (\<lambda>h. \<not> gone h) (tb_history s)\<rparr> \<and>
    (\<forall>h. gone h \<longrightarrow> his_LastViewedAt h \<le> tb_current_timestamp s - cop_HistoryRetention pol) \<and>
    n = go_len (filter gone (tb_history s))"
proof -
  define expired where "expired = take (nat (cop_CleanupBatch pol)) (sort_key
    (\<lambda>h. (his_LastViewedAt h, his_UserID h, his_ProductID h)) (expired_history (cop_HistoryRetention pol) s))"
  define gone where "gone = (\<lambda>h :: browsing_history. (\<exists>e \<in> set expired. his_UserID h = his_UserID e \<and> his_ProductID h = his_ProductID e) \<and>
    his_LastViewedAt h \<le> tb_current_timestamp s - cop_HistoryRetention pol)"
  show ?thesis
    by (rule exI [of _ gone]) (use assms in \<open>auto simp: history_Cleanup_def q_CleanupBrowsingHistory_def Let_def gone_def expired_def\<close>)
qed

lemma history_rows_cleanup:
  assumes "history_Cleanup pol s = Inr (n, s')"
  shows "history_rows (history_params pol uid p f) s' = history_rows (history_params pol uid p f) s"
proof -
  let ?w = "in_history_window (history_params pol uid p f) (tb_current_timestamp s)"
  obtain gone where s': "s' = s\<lparr>tb_history := filter (\<lambda>h. \<not> gone h) (tb_history s)\<rparr>"
    and gone: "\<forall>h. gone h \<longrightarrow> his_LastViewedAt h \<le> tb_current_timestamp s - cop_HistoryRetention pol"
    using cleanup_elim [OF assms] by blast
  have "\<not> gone h" if "?w h" for h
    using that gone by (fastforce simp: in_history_window_def history_params_def)
  then have "filter ?w (filter (\<lambda>h. \<not> gone h) t) = filter ?w t" for t
    by (auto simp: filter_filter intro!: filter_cong)
  moreover have "join_product s' = join_product s" by (simp add: fun_eq_iff join_product_def s')
  ultimately show ?thesis by (simp add: history_rows_def s')
qed

text \<open>
  The cleanup job is invisible: after a batch has been removed, every listing request (any
  user, any cursor, any time filter) gives exactly the answer it would have given before, so a
  user never sees the difference between an expired row that is still stored and one that is
  gone. Listing and cleanup use the same boundary, computed from the same database clock.
\<close>

theorem history_cleanup_is_invisible:
  assumes "InTx (BrowsingHistoryCleanupWorker_Work pol) s = (r, s')"
  shows "fst (InTx (uc_history_List L J pol a raw pageSize f) s') = fst (InTx (uc_history_List L J pol a raw pageSize f) s)"
proof -
  obtain n where n: "history_Cleanup pol s = Inr (n, s')"
    using assms by (auto simp: InTx_def BrowsingHistoryCleanupWorker_Work_def tx_seq_def tx_bind_def tx_return_def
        history_Cleanup_def q_CleanupBrowsingHistory_def Let_def)
  have q: "\<exists>rows. q_ListBrowsingHistory (history_params pol uid p f) s = Inr (rows, s) \<and>
      q_ListBrowsingHistory (history_params pol uid p f) s' = Inr (rows, s')" for uid p
    using history_rows_cleanup [OF n, of uid p f] by (simp add: q_ListBrowsingHistory_def tx_read_def history_rows_def)
  have "fst (InTx (history_List L J pol uid p f) s') = fst (InTx (history_List L J pol uid p f) s)" for uid p
    using q [of uid p] by (auto simp: InTx_def history_List_def tx_bind_def tx_lift_def tx_return_def split: prod.splits sum.splits)
  then show ?thesis
    by (simp add: InTx_def uc_history_List_def tx_seq_def tx_bind_def tx_lift_def split: sum.splits prod.splits)
qed

end
