(* ===== verification/CommunityExample.thy ===== *)
theory CommunityExample
  imports CommunityEvolution Feed History Example
begin

text \<open>
  The community at concrete inputs: an upload, a post with that image, a comment and a reply, and
  the properties of posts, images, comments and the browsing history applied to them.
\<close>

section \<open>A post with an image and a thread\<close>

definition ex_bob :: user where
  "ex_bob = \<lparr>usr_ID = 8, usr_Nickname = ''bob'', usr_RealName = '''', usr_PhoneHash = ''b'', usr_PhoneEncrypt = '''', usr_PasswordHash = '''',
     usr_AuthVersion = 1, usr_Role = ''user'', usr_CreatedAt = 0, usr_UpdatedAt = 0\<rparr>"

definition ex_com0 :: db where
  "ex_com0 = ex_db0\<lparr>tb_users := tb_users ex_db0 @ [ex_bob]\<rparr>"

definition ex_asset :: MediaAsset where
  "ex_asset = \<lparr>ma_ID = 0, ma_OwnerID = 7, ma_Object = \<lparr>obj_Provider = ''s3'', obj_Bucket = ''b'', obj_Key = ''media/1''\<rparr>,
     ma_StagingKey = ''staging/1'', ma_ContentType = ''image/png'', ma_Status = MediaStatusPending, ma_URL = '''', ma_SizeBytes = 10,
     ma_Width = 0, ma_Height = 0, ma_ExpiresAt = 5000, ma_UploadExpiresAt = 3000\<rparr>"

definition ex_com1 :: db where
  "ex_com1 = snd (InTx (media_Create 7 ex_asset) ex_com0)"

definition ex_com2 :: db where
  "ex_com2 = snd (InTx (q_ReadyMediaAsset 1 ''image/png'' 10 4 4) ex_com1)"

definition ex_mei :: Actor where
  "ex_mei = \<lparr>actor_ID = 7, actor_Admin = False\<rparr>"

definition ex_post :: PostInput where
  "ex_post = \<lparr>pin_Title = ''Tea'', pin_Content = ''Oolong'', pin_ImageIDs = [1], pin_ExpectedVersion = 0\<rparr>"

definition ex_com3 :: db where
  "ex_com3 = snd (InTx (post_Create (Some ex_river) ex_mei ex_post) ex_com2)"

definition ex_com4 :: db where
  "ex_com4 = snd (InTx (comment_Create \<lparr>actor_ID = 8, actor_Admin = False\<rparr> 1 ''nice'' 0) ex_com3)"

definition ex_com5 :: db where
  "ex_com5 = snd (InTx (comment_Create ex_mei 1 ''thanks'' 1) ex_com4)"

definition ex_com6 :: db where
  "ex_com6 = snd (InTx (post_Delete (Some ex_river) ex_mei 1) ex_com5)"

lemma ex_com_init: "reachable community_init community_step ex_com0"
  by (rule reachable.reachable_init) (simp add: community_init_def ex_com0_def ex_db0_def)

lemma ex_com_steps:
  "community_step ex_com0 ex_com1" "community_step ex_com1 ex_com2" "community_step ex_com2 ex_com3" "community_step ex_com3 ex_com4"
  "community_step ex_com4 ex_com5" "community_step ex_com5 ex_com6"
  unfolding ex_com1_def ex_com2_def ex_com3_def ex_com4_def ex_com5_def ex_com6_def
  by (rule community_step.CreateMedia community_step.ReadyMedia community_step.CreatePost [rotated] community_step.CreateComment community_step.DeletePost,
      rule surjective_pairing, (simp add: Actor_Validate_def ex_mei_def)?)+

lemma ex_com_reachable: "reachable community_init community_step ex_com5" "reachable community_init community_step ex_com6"
  using ex_com_init ex_com_steps by (meson reachable.reachable_step)+

lemma ex_com5_rows:
  "map (\<lambda>im. (img_PostID im, img_MediaID im)) (tb_images ex_com5) = [(1, 1)]"
  "map (\<lambda>c. (cmt_ID c, cmt_PostID c, cmt_RootCommentID c, cmt_DeletedAt c)) (tb_comments ex_com5) = [(1, 1, None, None), (2, 1, Some 1, None)]"
  "map (\<lambda>p. (pst_ID p, pst_AuthorID p, pst_DeletedAt p)) (tb_posts ex_com5) = [(1, Some 7, None)]"
  "map mas_Status (tb_media ex_com5) = [MediaStatusReady]" "map mas_Status (tb_media ex_com6) = [MediaStatusDeleting]"
  by code_simp+

lemma ex_com5_single:
  "\<exists>im. tb_images ex_com5 = [im] \<and> img_PostID im = 1 \<and> img_MediaID im = 1"
  "\<exists>c d. tb_comments ex_com5 = [c, d] \<and> cmt_ID c = 1 \<and> cmt_ID d = 2 \<and> cmt_PostID d = 1 \<and> cmt_RootCommentID d = Some 1 \<and> cmt_DeletedAt d = None"
  using ex_com5_rows(1,2) by auto

theorem bound_images_are_ready_witness:
  "\<exists>p m. find_row pst_ID 1 (tb_posts ex_com5) = Some p \<and> pst_DeletedAt p = None \<and>
    find_row mas_ID 1 (tb_media ex_com5) = Some m \<and> mas_Status m = MediaStatusReady \<and> mas_OwnerID m = pst_AuthorID p"
proof -
  obtain im where im: "tb_images ex_com5 = [im]" "img_PostID im = 1" "img_MediaID im = 1" using ex_com5_single(1) by blast
  from bound_images_are_ready [OF ex_com_reachable(1), of im] show ?thesis by (auto simp: im)
qed

theorem comment_threads_have_two_levels_witness:
  "\<exists>rt d. find_row cmt_ID 1 (tb_comments ex_com5) = Some rt \<and> cmt_RootCommentID rt = None \<and>
    d \<in> set (tb_comments ex_com5) \<and> cmt_ID d = 2 \<and> cmt_PostID rt = cmt_PostID d"
proof -
  obtain c d where d: "tb_comments ex_com5 = [c, d]" "cmt_ID d = 2" "cmt_RootCommentID d = Some 1" using ex_com5_single(2) by blast
  have "d \<in> set (tb_comments ex_com5)" by (simp add: d(1))
  with comment_threads_have_two_levels [OF ex_com_reachable(1) this] show ?thesis using d(2,3) by auto
qed

definition ex_storage :: "unit world ObjectStorage" where
  "ex_storage = \<lparr>os_Location = (''s3'', ''b''), os_CreateUpload = (\<lambda>obj ct n ttl. prog_return \<lparr>ugr_URL = ''u'', ugr_Fields = Map.empty, ugr_ExpiresAt = 0\<rparr>),
     os_ReadObject = (\<lambda>obj n. prog_return ''''), os_PutImmutable = (\<lambda>obj ct b. prog_return True),
     os_ReadURL = (\<lambda>obj ttl. prog_return ''u''), os_DeleteObject = (\<lambda>obj. prog_return ())\<rparr>"

theorem referenced_image_is_never_removed_witness:
  "uc_media_Remove ex_storage 1 \<lparr>w_db = ex_com5, w_provider = ()\<rparr> = (Inl media_not_ready, \<lparr>w_db = ex_com5, w_provider = ()\<rparr>) \<and>
   \<not> media_bound 1 ex_com6"
proof -
  have "map_option mas_Status (find_row mas_ID 1 (tb_media ex_com5)) = Some MediaStatusReady"
    "map_option mas_Status (find_row mas_ID 1 (tb_media ex_com6)) = Some MediaStatusDeleting" by code_simp+
  then obtain m n where m: "find_row mas_ID 1 (tb_media ex_com5) = Some m" "mas_Status m = MediaStatusReady"
    and n: "find_row mas_ID 1 (tb_media ex_com6) = Some n" "mas_Status n = MediaStatusDeleting" by auto
  have "uc_media_Remove ex_storage 1 \<lparr>w_db = ex_com5, w_provider = ()\<rparr> = (Inl media_not_ready, \<lparr>w_db = ex_com5, w_provider = ()\<rparr>)"
    using referenced_image_is_never_removed [of "\<lparr>w_db = ex_com5, w_provider = ()\<rparr>" 1 m ex_com5 ex_storage] ex_com_reachable(1) m by simp
  moreover have "\<not> media_bound 1 ex_com6"
    using referenced_image_is_never_removed [of "\<lparr>w_db = ex_com6, w_provider = ()\<rparr>" 1 n ex_com6 ex_storage] ex_com_reachable(2) n by simp
  ultimately show ?thesis by blast
qed


definition ex_edit :: PostInput where
  "ex_edit = \<lparr>pin_Title = ''Tea'', pin_Content = ''Green'', pin_ImageIDs = [1], pin_ExpectedVersion = 1\<rparr>"

theorem post_version_is_used_once_witness:
  "isl (fst (InTx (post_Update (Some ex_river) ex_mei 1 ex_edit) (snd (InTx (post_Update (Some ex_river) ex_mei 1 ex_edit) ex_com5)))) \<and>
   \<not> isl (fst (InTx (post_Update (Some ex_river) ex_mei 1 ex_edit) ex_com5))"
proof -
  have n: "\<not> isl (fst (InTx (post_Update (Some ex_river) ex_mei 1 ex_edit) ex_com5))" by code_simp
  then obtain p where "InTx (post_Update (Some ex_river) ex_mei 1 ex_edit) ex_com5 =
      (Inr p, snd (InTx (post_Update (Some ex_river) ex_mei 1 ex_edit) ex_com5))"
    by (metis prod.collapse sum.collapse(2))
  from post_version_is_used_once [OF this rtranclp.rtrancl_refl refl, of "Some ex_river" ex_mei] n show ?thesis by auto
qed

section \<open>Reading pages\<close>

text \<open>A codec for cursors: the key and the scope, separated by slashes.\<close>

definition int_value :: "string \<Rightarrow> int" where
  "int_value s = (if hd s = CHR ''-'' then - int (digits_value (tl s)) else int (digits_value s))"

definition ex_cursor :: "string \<Rightarrow> cursor \<times> bool" where
  "ex_cursor b = (let r = tl (dropWhile (\<lambda>c. c \<noteq> CHR ''/'') b) in
     (\<lparr>cur_Version = 1, cur_Scope = tl (dropWhile (\<lambda>c. c \<noteq> CHR ''/'') r), cur_Time = int_value (takeWhile (\<lambda>c. c \<noteq> CHR ''/'') b),
       cur_Offset = 0, cur_ID = int_value (takeWhile (\<lambda>c. c \<noteq> CHR ''/'') r)\<rparr>, True))"

definition ex_json :: cursor_json where
  "ex_json = \<lparr>cj_Marshal = (\<lambda>c. FormatInt (cur_Time c) @ CHR ''/'' # FormatInt (cur_ID c) @ CHR ''/'' # cur_Scope c),
     cj_Decode = (\<lambda>b. Some (ex_cursor b))\<rparr>"

lemma nat_digits_plain: "CHR ''/'' \<notin> set (nat_digits n)" "hd (nat_digits n) \<noteq> CHR ''-''" "nat_digits n \<noteq> []"
proof -
  show ne: "nat_digits n \<noteq> []" by (subst nat_digits.simps) simp
  show "CHR ''/'' \<notin> set (nat_digits n)" using nat_digits_chars [of "CHR ''/''" n] by auto
  show "hd (nat_digits n) \<noteq> CHR ''-''" using nat_digits_chars [of "hd (nat_digits n)" n] hd_in_set [OF ne] by auto
qed

lemma int_value_FormatInt: "int_value (FormatInt i) = i" "CHR ''/'' \<notin> set (FormatInt i)"
  using nat_digits_plain by (auto simp: int_value_def FormatInt_def nat_digits_value)

lemma ex_json_ok: "cursor_json_ok ex_json"
  unfolding cursor_json_ok_def
proof (intro allI impI)
  fix c :: cursor assume c: "written_cursor c"
  let ?P = "\<lambda>c. c \<noteq> CHR ''/''"
  have tw: "takeWhile ?P (FormatInt i @ CHR ''/'' # s) = FormatInt i" "dropWhile ?P (FormatInt i @ CHR ''/'' # s) = CHR ''/'' # s" for i s
    using int_value_FormatInt(2) [of i] by (subst takeWhile_append2 dropWhile_append2; auto)+
  have "ex_cursor (FormatInt (cur_Time c) @ CHR ''/'' # FormatInt (cur_ID c) @ CHR ''/'' # cur_Scope c) = (c, True)"
    using c by (cases c) (simp add: ex_cursor_def tw int_value_FormatInt written_cursor_def)
  moreover have "length (FormatInt (cur_ID c)) \<le> 20" using c length_FormatInt by (simp add: written_cursor_def)
  moreover have "length (FormatInt (cur_Time c)) \<le> 21"
    using c length_nat_digits [of "nat (cur_Time c)" 21] by (simp add: FormatInt_def written_cursor_def year_ok_def year_end_9999_def nat_less_iff)
  ultimately show "cj_Decode ex_json (cj_Marshal ex_json c) = Some (c, True) \<and> cj_Marshal ex_json c \<noteq> [] \<and>
      length (cj_Marshal ex_json c) \<le> 160 + length (cur_Scope c)"
    by (simp add: ex_json_def)
qed

theorem feed_shows_every_post_witness:
  "\<exists>vs. fetch_all 2 (list_from ex_json (Scope ''posts'' [7]) 1 (\<lambda>p. fst (InTx (post_list ex_json 8 7 p) ex_com5))) '''' = Some (Inr vs) \<and>
    list_all2 (\<lambda>p v. fst (InTx (post_get 8 (pst_ID p)) ex_com5) = Inr v) (sort_key post_key (listed_posts 7 ex_com5)) vs"
proof (rule feed_shows_every_post [OF ex_json_ok])
  show "int64_range 7" by (simp add: int64_range_def)
  have "map (\<lambda>p. (pst_CreatedAt p, pst_ID p)) (tb_posts ex_com5) = [(1000, 1)]" by code_simp
  then show "list_all (\<lambda>p. year_ok (pst_CreatedAt p) \<and> 0 < pst_ID p \<and> int64_range (pst_ID p)) (tb_posts ex_com5)"
    by (auto simp: year_ok_def year_end_9999_def int64_range_def)
  show "length (listed_posts 7 ex_com5) < 2" by code_simp
qed (simp_all add: ex_com_reachable)

theorem live_comment_is_shown_witness:
  "\<exists>c vs ts. c \<in> set (tb_comments ex_com5) \<and> cmt_ID c = 2 \<and>
    fetch_all 3 (\<lambda>raw. fst (InTx (uc_comment_List ex_json ex_mei 1 0 raw 1) ex_com5)) '''' = Some (Inr vs) \<and>
    length (filter (\<lambda>v. bc_ID v = 1) vs) = 1 \<and>
    fetch_all 3 (\<lambda>raw. fst (InTx (uc_comment_List ex_json ex_mei 1 1 raw 1) ex_com5)) '''' = Some (Inr ts) \<and> shown c ts"
proof -
  obtain c d where d: "tb_comments ex_com5 = [c, d]" "cmt_ID c = 1" "cmt_ID d = 2" "cmt_PostID d = 1" "cmt_RootCommentID d = Some 1" "cmt_DeletedAt d = None"
    using ex_com5_single(2) by blast
  have "map cmt_CreatedAt (tb_comments ex_com5) = [1000, 1000]" by code_simp
  then have "list_all (\<lambda>c. year_ok (cmt_CreatedAt c) \<and> 0 < cmt_ID c \<and> int64_range (cmt_ID c)) (tb_comments ex_com5)"
    by (simp add: d year_ok_def year_end_9999_def int64_range_def)
  moreover have "visible_post ex_com5 1" by code_simp
  moreover have "d \<in> set (tb_comments ex_com5)" by (simp add: d(1))
  ultimately have "\<exists>vs. fetch_all 3 (\<lambda>raw. fst (InTx (uc_comment_List ex_json ex_mei (cmt_PostID d) 0 raw 1) ex_com5)) '''' = Some (Inr vs) \<and>
    (case cmt_RootCommentID d of
       None \<Rightarrow> shown d vs
     | Some r \<Rightarrow> length (filter (\<lambda>v. bc_ID v = r) vs) = 1 \<and>
         (\<exists>ts. fetch_all 3 (\<lambda>raw. fst (InTx (uc_comment_List ex_json ex_mei (cmt_PostID d) r raw 1) ex_com5)) '''' = Some (Inr ts) \<and> shown d ts))"
    by (intro live_comment_is_shown [OF ex_json_ok]) (simp_all add: d ex_mei_def ex_com_reachable int64_range_def)
  then show ?thesis using d(3-5) \<open>d \<in> set (tb_comments ex_com5)\<close> by auto
qed

section \<open>Browsing history\<close>

definition ex_policy :: CommunityPolicy where
  "ex_policy = \<lparr>cop_HistoryRetention = 100, cop_CleanupBatch = 10\<rparr>"

definition ex_his :: db where
  "ex_his = ex_db2\<lparr>tb_history := [\<lparr>his_UserID = 7, his_ProductID = 1, his_FirstViewedAt = 5, his_LastViewedAt = 10\<rparr>,
     \<lparr>his_UserID = 8, his_ProductID = 1, his_FirstViewedAt = 5, his_LastViewedAt = 990\<rparr>]\<rparr>"

definition ex_filter :: HistoryFilter where
  "ex_filter = \<lparr>hf_Start = 0, hf_End = 0, hf_HasStart = False, hf_HasEnd = False\<rparr>"

theorem history_cleanup_is_invisible_witness:
  "length (tb_history (snd (InTx (BrowsingHistoryCleanupWorker_Work ex_policy) ex_his))) = 1 \<and>
   fst (InTx (uc_history_List exact_decimals ex_json ex_policy ex_mei '''' 20 ex_filter)
     (snd (InTx (BrowsingHistoryCleanupWorker_Work ex_policy) ex_his))) =
   fst (InTx (uc_history_List exact_decimals ex_json ex_policy ex_mei '''' 20 ex_filter) ex_his)"
proof -
  have "length (tb_history (snd (InTx (BrowsingHistoryCleanupWorker_Work ex_policy) ex_his))) = 1" by code_simp
  then show ?thesis using history_cleanup_is_invisible [OF surjective_pairing] by blast
qed

end
