(* ===== verification/CacheExample.thy ===== *)
theory CacheExample
  imports Cache CommunityExample
begin

text \<open>
  The product cache at a concrete input: a codec for products, a request that publishes a product,
  a checkout that changes its stock, and the recovery of the generations.
\<close>

section \<open>A codec\<close>

text \<open>Values are written as lists of integers; reading returns what is left.\<close>

record 'a int_codec =
  ic_write :: "'a \<Rightarrow> int list"
  ic_read :: "int list \<Rightarrow> 'a \<times> int list"

definition int_codec_ok :: "'a int_codec \<Rightarrow> bool" where
  "int_codec_ok c \<longleftrightarrow> (\<forall>x r. ic_read c (ic_write c x @ r) = (x, r))"

definition c_int :: "int int_codec" where
  "c_int = \<lparr>ic_write = (\<lambda>i. [i]), ic_read = (\<lambda>xs. (hd xs, tl xs))\<rparr>"

definition c_pair :: "'a int_codec \<Rightarrow> 'b int_codec \<Rightarrow> ('a \<times> 'b) int_codec" where
  "c_pair a b = \<lparr>ic_write = (\<lambda>(x, y). ic_write a x @ ic_write b y),
     ic_read = (\<lambda>xs. case ic_read a xs of (x, r) \<Rightarrow> (case ic_read b r of (y, r') \<Rightarrow> ((x, y), r')))\<rparr>"

definition c_via :: "('b \<Rightarrow> 'a) \<Rightarrow> ('a \<Rightarrow> 'b) \<Rightarrow> 'a int_codec \<Rightarrow> 'b int_codec" where
  "c_via f g a = \<lparr>ic_write = (\<lambda>x. ic_write a (f x)), ic_read = (\<lambda>xs. case ic_read a xs of (x, r) \<Rightarrow> (g x, r))\<rparr>"

fun read_many :: "'a int_codec \<Rightarrow> nat \<Rightarrow> int list \<Rightarrow> 'a list \<times> int list" where
  "read_many a 0 xs = ([], xs)"
| "read_many a (Suc n) xs = (case ic_read a xs of (x, r) \<Rightarrow> (case read_many a n r of (ys, r') \<Rightarrow> (x # ys, r')))"

definition c_list :: "'a int_codec \<Rightarrow> 'a list int_codec" where
  "c_list a = \<lparr>ic_write = (\<lambda>ys. int (length ys) # concat (map (ic_write a) ys)), ic_read = (\<lambda>xs. read_many a (nat (hd xs)) (tl xs))\<rparr>"

lemma c_int_ok: "int_codec_ok c_int"
  by (simp add: int_codec_ok_def c_int_def)

lemma c_pair_ok: "int_codec_ok a \<Longrightarrow> int_codec_ok b \<Longrightarrow> int_codec_ok (c_pair a b)"
  by (simp add: int_codec_ok_def c_pair_def)

lemma c_via_ok: "int_codec_ok a \<Longrightarrow> (\<And>x. g (f x) = x) \<Longrightarrow> int_codec_ok (c_via f g a)"
  by (simp add: int_codec_ok_def c_via_def)

lemma read_many_ok: "int_codec_ok a \<Longrightarrow> read_many a (length ys) (concat (map (ic_write a) ys) @ r) = (ys, r)"
  by (induction ys) (simp_all add: int_codec_ok_def)

lemma c_list_ok: "int_codec_ok a \<Longrightarrow> int_codec_ok (c_list a)"
  using read_many_ok by (fastforce simp: int_codec_ok_def c_list_def)

definition c_string :: "string int_codec" where
  "c_string = c_list (c_via of_char (\<lambda>i. char_of (nat i)) c_int)"

definition c_rat :: "rat int_codec" where
  "c_rat = c_via quotient_of (\<lambda>(a, b). of_int a / of_int b) (c_pair c_int c_int)"

definition c_option :: "'a int_codec \<Rightarrow> 'a option int_codec" where
  "c_option a = c_via (\<lambda>x. case x of None \<Rightarrow> [] | Some y \<Rightarrow> [y]) (\<lambda>ys. case ys of [] \<Rightarrow> None | y # _ \<Rightarrow> Some y) (c_list a)"

definition c_media :: "MediaInfo int_codec" where
  "c_media = c_via (\<lambda>m. (med_OssURL m, med_BucketName m, med_ObjectKey m, med_ContentType m, med_Size m))
     (\<lambda>(u, b, k, t, n). \<lparr>med_OssURL = u, med_BucketName = b, med_ObjectKey = k, med_ContentType = t, med_Size = n\<rparr>)
     (c_pair c_string (c_pair c_string (c_pair c_string (c_pair c_string c_int))))"

definition c_product :: "Product int_codec" where
  "c_product = c_via (\<lambda>p. (bpr_ID p, bpr_CategoryID p, bpr_Name p, bpr_Price p, bpr_Discount p, bpr_Stock p, bpr_Status p, bpr_CoverImage p,
       bpr_MediaAssets p, bpr_Description p, bpr_DeletedAt p))
     (\<lambda>(i, c, n, p, d, st, sta, cov, med, desc, del). \<lparr>bpr_ID = i, bpr_CategoryID = c, bpr_Name = n, bpr_Price = p, bpr_Discount = d,
       bpr_Stock = st, bpr_Status = sta, bpr_CoverImage = cov, bpr_MediaAssets = med, bpr_Description = desc, bpr_DeletedAt = del\<rparr>)
     (c_pair c_int (c_pair c_int (c_pair c_string (c_pair c_rat (c_pair c_rat (c_pair c_int (c_pair c_int (c_pair (c_list c_media)
       (c_pair (c_list c_media) (c_pair c_string (c_option c_int)))))))))))"

lemma c_string_ok: "int_codec_ok c_string"
  unfolding c_string_def by (intro c_list_ok c_via_ok c_int_ok) simp

lemma c_rat_ok: "int_codec_ok c_rat"
  unfolding c_rat_def by (intro c_via_ok c_pair_ok c_int_ok) (metis case_prod_conv prod.collapse quotient_of_div)

lemma c_option_ok: "int_codec_ok a \<Longrightarrow> int_codec_ok (c_option a)"
  unfolding c_option_def by (intro c_via_ok c_list_ok) (auto split: option.splits)

lemma c_product_ok: "int_codec_ok c_product"
  unfolding c_product_def c_media_def by (intro c_via_ok c_pair_ok c_list_ok c_string_ok c_rat_ok c_option_ok c_int_ok) simp_all

definition text_of_ints :: "int list \<Rightarrow> string" where
  "text_of_ints xs = join_sep (CHR '','') (map FormatInt xs)"

definition ints_of_text :: "string \<Rightarrow> int list" where
  "ints_of_text s = map int_value (Split s (CHR '',''))"

lemma ints_of_text: "xs \<noteq> [] \<Longrightarrow> ints_of_text (text_of_ints xs) = xs"
proof -
  assume "xs \<noteq> []"
  have "CHR '','' \<notin> set (FormatInt i)" for i using FormatInt_chars [of "CHR '',''" i] by auto
  then have "Split (text_of_ints xs) (CHR '','') = map FormatInt xs"
    by (intro join_sep_inj [of "CHR '',''"]) (use \<open>xs \<noteq> []\<close> in \<open>auto simp: join_Split text_of_ints_def list_all_iff dest: Split_parts_no_sep\<close>)
  then show ?thesis by (simp add: ints_of_text_def int_value_FormatInt comp_def)
qed

definition ex_codec :: product_codec where
  "ex_codec = \<lparr>pc_one = (\<lambda>v. text_of_ints (ic_write (c_option c_product) v)),
     pc_read_one = (\<lambda>e. Some (fst (ic_read (c_option c_product) (ints_of_text e)))),
     pc_many = (\<lambda>v. text_of_ints (ic_write (c_list c_product) v)),
     pc_read_many = (\<lambda>e. Some (fst (ic_read (c_list c_product) (ints_of_text e))))\<rparr>"

lemma ex_codec_ok: "codec_ok ex_codec"
proof -
  have w: "ic_write (c_list a) ys \<noteq> []" "ic_write (c_option a) x \<noteq> []" for a :: "Product int_codec" and ys x
    by (simp_all add: c_list_def c_option_def c_via_def)
  have "ic_read (c_option c_product) (ic_write (c_option c_product) v) = (v, [])" for v
    using c_option_ok [OF c_product_ok] unfolding int_codec_ok_def by (metis append_Nil2)
  moreover have "ic_read (c_list c_product) (ic_write (c_list c_product) v) = (v, [])" for v
    using c_list_ok [OF c_product_ok] unfolding int_codec_ok_def by (metis append_Nil2)
  ultimately show ?thesis by (simp add: codec_ok_def ex_codec_def ints_of_text w)
qed

section \<open>A cached product\<close>

definition ex_key :: string where
  "ex_key = value_key (ProductByID 1) 0"

definition ex_sys0 :: cache_sys where
  "ex_sys0 = \<lparr>sys_db = ex_db2, sys_outbox = [], sys_rdb = \<lparr>rc_data = (\<lambda>k. None), rc_up = True\<rparr>, sys_reads = [], sys_flight = [], sys_stale = {}\<rparr>"

definition ex_sys1 :: cache_sys where
  "ex_sys1 = ex_sys0\<lparr>sys_reads := [(ProductByID 1, ex_key)]\<rparr>"

definition ex_sys2 :: cache_sys where
  "ex_sys2 = ex_sys1\<lparr>sys_flight := [(ex_key, load_text ex_codec exact_decimals (ProductByID 1) ex_db2)]\<rparr>"

definition ex_sys3 :: cache_sys where
  "ex_sys3 = ex_sys2\<lparr>sys_rdb := put_entry ex_key (Some (Encoded (load_text ex_codec exact_decimals (ProductByID 1) ex_db2))) (sys_rdb ex_sys0)\<rparr>"

definition ex_row :: cache_invalidation where
  "ex_row = \<lparr>civ_ID = 1, civ_GenerationKeys = concat (map product_targets (changed_products (tb_products ex_db2) (tb_products ex_db3)))\<rparr>"

definition ex_sys4 :: cache_sys where
  "ex_sys4 = note_stale ex_codec exact_decimals ex_sys3 (ex_sys3\<lparr>sys_db := ex_db3, sys_outbox := [ex_row]\<rparr>)"

lemma ex_key_nonempty: "ex_key \<noteq> ''''"
  unfolding ex_key_def by (rule gen_key_nonempty)

lemma ex_products_pk: "pk prd_ID (tb_products ex_db2)" "pk prd_ID (tb_products ex_db3)"
proof -
  have "map prd_ID (tb_products ex_db2) = [1]" "map prd_ID (tb_products ex_db3) = [1]" by code_simp+
  then show "pk prd_ID (tb_products ex_db2)" "pk prd_ID (tb_products ex_db3)" by (auto simp: pk_def)
qed

lemma note_stale_quiet:
  "sys_db s' = sys_db s \<Longrightarrow> sys_stale s = {} \<Longrightarrow> sys_stale s' = {} \<Longrightarrow> note_stale C L s s' = s'"
  by (simp add: note_stale_def)

lemma ex_sys_db: "sys_db ex_sys3 = ex_db2" "sys_outbox ex_sys3 = []" "sys_stale ex_sys3 = {}"
  by (simp_all add: ex_sys3_def ex_sys2_def ex_sys1_def ex_sys0_def)

lemma ex_sys_steps:
  "cache_step ex_codec exact_decimals ex_sys0 ex_sys1" "cache_step ex_codec exact_decimals ex_sys1 ex_sys2"
  "cache_step ex_codec exact_decimals ex_sys2 ex_sys3" "cache_step ex_codec exact_decimals ex_sys3 ex_sys4"
proof -
  have k: "cache_key False (Some (sys_rdb ex_sys0)) (ProductByID 1) = ex_key"
    by (simp add: cache_key_def readCacheGeneration_def cacheGeneration_def generationCacheKey_def ex_sys0_def ex_key_def)
  have "cache_step ex_codec exact_decimals ex_sys0 (note_stale ex_codec exact_decimals ex_sys0 ex_sys1)"
    by (rule cache_step.Begin [OF k [symmetric] ex_key_nonempty]) (simp add: ex_sys1_def ex_sys0_def)
  then show "cache_step ex_codec exact_decimals ex_sys0 ex_sys1" by (simp add: note_stale_quiet ex_sys1_def ex_sys0_def)
  have "cache_step ex_codec exact_decimals ex_sys1 (note_stale ex_codec exact_decimals ex_sys1 ex_sys2)"
    by (rule cache_step.Load [of "ProductByID 1" ex_key]) (simp_all add: ex_sys2_def ex_sys1_def ex_sys0_def)
  then show "cache_step ex_codec exact_decimals ex_sys1 ex_sys2" by (simp add: note_stale_quiet ex_sys2_def ex_sys1_def ex_sys0_def)
  have "cache_step ex_codec exact_decimals ex_sys2 (note_stale ex_codec exact_decimals ex_sys2 ex_sys3)"
    by (rule cache_step.Publish [of ex_key "load_text ex_codec exact_decimals (ProductByID 1) ex_db2"])
      (simp_all add: ex_sys3_def ex_sys2_def ex_sys1_def ex_sys0_def writeJSONCache_def ex_key_nonempty)
  then show "cache_step ex_codec exact_decimals ex_sys2 ex_sys3" by (simp add: note_stale_quiet ex_sys3_def ex_sys2_def ex_sys1_def ex_sys0_def)
  show "cache_step ex_codec exact_decimals ex_sys3 ex_sys4"
    unfolding ex_sys4_def
    by (intro cache_step.Commit [of ex_db3 ex_sys3 "[ex_row]"])
      (simp_all add: ex_products_pk pk_def [of civ_ID] ex_sys_db ex_row_def product_targets_no_values)
qed

lemma ex_sys_reachable:
  "reachable cache_init (cache_step ex_codec exact_decimals) ex_sys3" "reachable cache_init (cache_step ex_codec exact_decimals) ex_sys4"
proof -
  have "cache_init ex_sys0" by (simp add: cache_init_def ex_sys0_def ex_products_pk)
  then show "reachable cache_init (cache_step ex_codec exact_decimals) ex_sys3" "reachable cache_init (cache_step ex_codec exact_decimals) ex_sys4"
    using ex_sys_steps by (meson reachable.reachable_init reachable.reachable_step)+
qed

theorem cache_is_transparent_witness:
  "rc_data (sys_rdb ex_sys3) ex_key \<noteq> None \<and>
   fst (cached_GetProduct ex_codec exact_decimals False 1 (Some (sys_rdb ex_sys3)) (sys_db ex_sys3)) =
     fst (InTx (repo_GetProduct exact_decimals 1) ex_db2)"
proof -
  have "fst (cached_GetProduct ex_codec exact_decimals False 1 (Some (sys_rdb ex_sys3)) (sys_db ex_sys3)) =
     fst (InTx (repo_GetProduct exact_decimals 1) ex_db2)"
    using cache_is_transparent [OF ex_sys_reachable(1) ex_codec_ok, of 1 False] by (auto simp: ex_sys_db)
  then show ?thesis by (simp add: ex_sys3_def)
qed

theorem recovery_clears_staleness_witness:
  "sys_outbox ex_sys4 \<noteq> [] \<and>
   sys_outbox (snd (CacheInvalidationWorker_Work (\<lambda>k. True) True True ex_sys4)) = [] \<and>
   sys_stale (note_stale ex_codec exact_decimals ex_sys4 (snd (CacheInvalidationWorker_Work (\<lambda>k. True) True True ex_sys4))) = {}"
proof -
  have o: "sys_outbox ex_sys4 = [ex_row]" by (simp add: ex_sys4_def)
  have d: "rc_data (sys_rdb ex_sys4) = (\<lambda>k. None)(ex_key := Some (Encoded (load_text ex_codec exact_decimals (ProductByID 1) ex_db2)))"
    "rc_up (sys_rdb ex_sys4)"
    by (simp_all add: ex_sys4_def ex_sys3_def ex_sys0_def)
  have "ex_key \<notin> set (civ_GenerationKeys ex_row)"
    unfolding ex_key_def using product_targets_no_values [of "ProductByID 1" 0] by (auto simp: ex_row_def)
  then have "\<forall>k \<in> outbox_keys (sys_outbox ex_sys4). countable_key k (sys_rdb ex_sys4)"
    by (auto simp: o d(1) outbox_keys_def countable_key_def)
  then show ?thesis
    using recovery_clears_staleness [OF ex_sys_reachable(2) surjective_pairing, of True True "\<lambda>k. True"] d(2) by (simp add: o)
qed

end
