(* ===== verification/Events.thy ===== *)
theory Events
  imports Pages Catalog
begin

text \<open>
  Promotion events (the event part of app/mall/internal/biz/mall.go,
  app/mall/internal/data/event.go and db/events.sql.go): an event has a name, a status and a
  time window, and is deleted by marking it.

  Times of the program count nanoseconds; a TIMESTAMPTZ column keeps microseconds, and the zero
  time is stored as NULL. The Redis copies are not part of this theory.
\<close>

section \<open>Statements\<close>

text \<open>What a TIMESTAMPTZ column keeps of a time.\<close>

definition pg_micros :: "int \<Rightarrow> int" where
  "pg_micros t = t div 1000 * 1000"

definition toPgTimestamp :: "int \<Rightarrow> int option" where
  "toPgTimestamp t = (if t = zero_time then None else Some (pg_micros t))"

record CreateEventParams =
  cev_Name :: string
  cev_Status :: int
  cev_StartAt :: "int option"
  cev_EndAt :: "int option"
  cev_CoverImage :: "MediaInfo list"
  cev_MediaAssets :: "MediaInfo list"
  cev_Description :: "string option"

text \<open>The NOT NULL and CHECK constraints of the table.\<close>

definition check_event :: "int option \<Rightarrow> int option \<Rightarrow> int \<Rightarrow> error + int \<times> int" where
  "check_event startAt endAt status = (case (startAt, endAt) of
     (Some a, Some b) \<Rightarrow>
       if \<not> b > a then Inl (CheckViolation ''events_window_check'')
       else if status \<notin> {0, 1, 2} then Inl (CheckViolation ''events_status_check'')
       else Inr (a, b)
   | _ \<Rightarrow> Inl (CheckViolation ''not null''))"

definition new_event :: "db \<Rightarrow> CreateEventParams \<Rightarrow> int \<Rightarrow> int \<Rightarrow> event_row" where
  "new_event s a startAt endAt = \<lparr>evt_ID = next_id evt_ID (tb_events s), evt_Name = cev_Name a, evt_Status = cev_Status a,
     evt_StartAt = startAt, evt_EndAt = endAt, evt_CoverImage = cev_CoverImage a, evt_MediaAssets = cev_MediaAssets a,
     evt_Description = cev_Description a, evt_CreatedAt = tb_current_timestamp s,
     evt_UpdatedAt = tb_current_timestamp s, evt_DeletedAt = None\<rparr>"

definition q_CreateEvent :: "CreateEventParams \<Rightarrow> (db, event_row) tx" where
  "q_CreateEvent a = (\<lambda>s. case check_event (cev_StartAt a) (cev_EndAt a) (cev_Status a) of
     Inl e \<Rightarrow> Inl e
   | Inr (startAt, endAt) \<Rightarrow> sql_insert tb_events put_events (new_event s a startAt endAt) s)"

definition q_GetEvent :: "int \<Rightarrow> (db, event_row) tx" where
  "q_GetEvent i = (\<lambda>s. case find_row evt_ID i (tb_events s) of
     Some e \<Rightarrow> if evt_DeletedAt e = None then Inr (e, s) else Inl ErrNoRows
   | None \<Rightarrow> Inl ErrNoRows)"

text \<open>\<open>ORDER BY start_at\<close>; events that start together are taken in table order.\<close>

definition event_page :: "int \<Rightarrow> int \<Rightarrow> event_row list \<Rightarrow> event_row list" where
  "event_page lmt off t = take (nat lmt) (drop (nat off) (sort_key evt_StartAt t))"

definition q_ListEvents :: "int \<Rightarrow> int \<Rightarrow> (db, event_row list) tx" where
  "q_ListEvents lmt off = tx_read (\<lambda>s. event_page lmt off (filter (\<lambda>e. evt_DeletedAt e = None) (tb_events s)))"

definition q_ListEventsByStatus :: "int \<Rightarrow> int \<Rightarrow> int \<Rightarrow> (db, event_row list) tx" where
  "q_ListEventsByStatus status lmt off = tx_read (\<lambda>s.
     event_page lmt off (filter (\<lambda>e. evt_Status e = status \<and> evt_DeletedAt e = None) (tb_events s)))"

definition q_ListUpcomingEvents :: "int \<Rightarrow> int \<Rightarrow> (db, event_row list) tx" where
  "q_ListUpcomingEvents lmt off = tx_read (\<lambda>s. event_page lmt off
     (filter (\<lambda>e. evt_Status e = 0 \<and> evt_StartAt e > tb_current_timestamp s \<and> evt_DeletedAt e = None) (tb_events s)))"

definition q_SoftDeleteEvent :: "int \<Rightarrow> (db, unit) tx" where
  "q_SoftDeleteEvent i = (\<lambda>s. tx_seq (sql_exec tb_events put_events evt_ID i (\<lambda>e. True)
     (\<lambda>e. e\<lparr>evt_DeletedAt := Some (tb_current_timestamp s)\<rparr>)) (tx_return ()) s)"

record UpdateEventParams =
  uev_ID :: int
  uev_Name :: string
  uev_StartAt :: "int option"
  uev_EndAt :: "int option"
  uev_CoverImage :: "MediaInfo list"
  uev_MediaAssets :: "MediaInfo list"
  uev_Description :: "string option"

definition q_UpdateEvent :: "UpdateEventParams \<Rightarrow> (db, event_row) tx" where
  "q_UpdateEvent a = tx_bind (q_GetEvent (uev_ID a)) (\<lambda>old.
     tx_bind (tx_lift (check_event (uev_StartAt a) (uev_EndAt a) (evt_Status old))) (\<lambda>(startAt, endAt). \<lambda>s.
       sql_update tb_events put_events evt_ID (uev_ID a) (\<lambda>e. evt_DeletedAt e = None)
         (\<lambda>e. e\<lparr>evt_Name := uev_Name a, evt_StartAt := startAt, evt_EndAt := endAt, evt_CoverImage := uev_CoverImage a,
           evt_MediaAssets := uev_MediaAssets a, evt_Description := uev_Description a,
           evt_UpdatedAt := tb_current_timestamp s\<rparr>) s))"

definition q_UpdateEventStatus :: "int \<Rightarrow> int \<Rightarrow> (db, event_row) tx" where
  "q_UpdateEventStatus i status = tx_bind (q_GetEvent i) (\<lambda>old.
     tx_seq (tx_lift (check_event (Some (evt_StartAt old)) (Some (evt_EndAt old)) status)) (\<lambda>s.
       sql_update tb_events put_events evt_ID i (\<lambda>e. evt_DeletedAt e = None)
         (\<lambda>e. e\<lparr>evt_Status := status, evt_UpdatedAt := tb_current_timestamp s\<rparr>) s))"

section \<open>The repository\<close>

record Event =
  bev_ID :: int
  bev_Name :: string
  bev_Status :: int
  bev_CoverImage :: "MediaInfo list"
  bev_MediaAssets :: "MediaInfo list"
  bev_Description :: string
  bev_StartAt :: int
  bev_EndAt :: int
  bev_CreatedAt :: int
  bev_UpdatedAt :: int
  bev_DeletedAt :: "int option"

definition toBizEvent :: "event_row \<Rightarrow> Event" where
  "toBizEvent e = \<lparr>bev_ID = evt_ID e, bev_Name = evt_Name e, bev_Status = evt_Status e, bev_CoverImage = evt_CoverImage e,
     bev_MediaAssets = evt_MediaAssets e, bev_Description = text_String (evt_Description e), bev_StartAt = evt_StartAt e,
     bev_EndAt = evt_EndAt e, bev_CreatedAt = evt_CreatedAt e, bev_UpdatedAt = evt_UpdatedAt e, bev_DeletedAt = evt_DeletedAt e\<rparr>"

definition toBizEvents :: "event_row list \<Rightarrow> Event list" where
  "toBizEvents es = map toBizEvent es"

definition event_Create ::
    "string \<Rightarrow> int \<Rightarrow> MediaInfo list \<Rightarrow> MediaInfo list \<Rightarrow> string \<Rightarrow> int \<Rightarrow> int \<Rightarrow> (db, Event) tx" where
  "event_Create name status cover media desc startAt endAt =
     tx_seq (tx_lift (ValidateEventStatus status))
     (tx_bind (q_CreateEvent \<lparr>cev_Name = name, cev_Status = status, cev_StartAt = toPgTimestamp startAt,
        cev_EndAt = toPgTimestamp endAt, cev_CoverImage = cover, cev_MediaAssets = media, cev_Description = text_of desc\<rparr>)
      (\<lambda>e. tx_return (toBizEvent e)))"

definition event_Delete :: "int \<Rightarrow> (db, unit) tx" where
  "event_Delete i = q_SoftDeleteEvent i"

definition event_Get :: "int \<Rightarrow> (db, Event option) tx" where
  "event_Get i = tx_bind (tx_optional (q_GetEvent i)) (\<lambda>e. tx_return (map_option toBizEvent e))"

definition event_List :: "int option \<Rightarrow> int \<Rightarrow> int \<Rightarrow> (db, Event list) tx" where
  "event_List status lmt off =
     tx_seq (case status of None \<Rightarrow> tx_return () | Some st \<Rightarrow> tx_lift (ValidateEventStatus st))
     (tx_bind (case status of None \<Rightarrow> q_ListEvents lmt off | Some st \<Rightarrow> q_ListEventsByStatus st lmt off) (\<lambda>rows.
      tx_return (toBizEvents rows)))"

definition event_Update ::
    "int \<Rightarrow> string \<Rightarrow> MediaInfo list \<Rightarrow> MediaInfo list \<Rightarrow> string \<Rightarrow> int \<Rightarrow> int \<Rightarrow> (db, Event option) tx" where
  "event_Update i name cover media desc startAt endAt =
     tx_bind (tx_optional (q_UpdateEvent \<lparr>uev_ID = i, uev_Name = name, uev_StartAt = toPgTimestamp startAt,
        uev_EndAt = toPgTimestamp endAt, uev_CoverImage = cover, uev_MediaAssets = media, uev_Description = text_of desc\<rparr>))
     (\<lambda>e. tx_return (map_option toBizEvent e))"

definition event_UpdateStatus :: "int \<Rightarrow> int \<Rightarrow> (db, unit) tx" where
  "event_UpdateStatus i status =
     tx_seq (tx_lift (ValidateEventStatus status))
     (tx_seq (tx_on_no_rows (q_UpdateEventStatus i status) (tx_throw (NotFound ''EVENT_NOT_FOUND''))) (tx_return ()))"

section \<open>The use case\<close>

definition validateEventWindow :: "int \<Rightarrow> int \<Rightarrow> error + unit" where
  "validateEventWindow startAt endAt =
     (if startAt = zero_time \<or> endAt = zero_time \<or> \<not> endAt > startAt
      then Inl (BadRequest ''EVENT_INVALID_WINDOW'') else Inr ())"

definition uc_CreateEvent ::
    "string \<Rightarrow> int \<Rightarrow> string \<Rightarrow> MediaInfo list \<Rightarrow> string \<Rightarrow> int \<Rightarrow> int \<Rightarrow> (db, Event) tx" where
  "uc_CreateEvent name status cover media desc startAt endAt =
     tx_seq (tx_lift (ValidateEventStatus status))
     (tx_seq (tx_lift (validateEventWindow startAt endAt))
     (event_Create name status (mediaFromCoverURL cover) media desc startAt endAt))"

definition uc_GetEvent :: "int \<Rightarrow> (db, Event option) tx" where
  "uc_GetEvent i = event_Get i"

definition uc_ListEvents :: "int option \<Rightarrow> int \<Rightarrow> int \<Rightarrow> (db, Event list) tx" where
  "uc_ListEvents status pageSize page =
     tx_seq (case status of None \<Rightarrow> tx_return () | Some st \<Rightarrow> tx_lift (ValidateEventStatus st))
     (tx_bind (tx_lift (NewPage page pageSize)) (\<lambda>p. event_List status (pg_Limit p) (pg_Offset p)))"

definition uc_UpdateEvent ::
    "int \<Rightarrow> string \<Rightarrow> string \<Rightarrow> MediaInfo list \<Rightarrow> string \<Rightarrow> int \<Rightarrow> int \<Rightarrow> (db, Event option) tx" where
  "uc_UpdateEvent i name cover media desc startAt endAt =
     tx_seq (tx_lift (validateEventWindow startAt endAt)) (event_Update i name (mediaFromCoverURL cover) media desc startAt endAt)"

definition uc_UpdateEventStatus :: "int \<Rightarrow> int \<Rightarrow> (db, unit) tx" where
  "uc_UpdateEventStatus i status = tx_seq (tx_lift (ValidateEventStatus status)) (event_UpdateStatus i status)"

definition uc_DeleteEvent :: "int \<Rightarrow> (db, unit) tx" where
  "uc_DeleteEvent i = event_Delete i"

section \<open>The window check\<close>

lemma pg_micros_mono: "a \<le> b \<Longrightarrow> pg_micros a \<le> pg_micros b"
  unfolding pg_micros_def by (intro mult_right_mono zdiv_mono1) simp_all

lemma ValidateEventStatus_Inr: "ValidateEventStatus st = (if st \<in> {0, 1, 2} then Inr () else Inl (BadRequest ''EVENT_STATUS_INVALID''))"
  by (auto simp: ValidateEventStatus_def)

lemma check_event_times:
  assumes "a \<noteq> zero_time" and "b \<noteq> zero_time" and "a < b" and "st \<in> {0, 1, 2}"
  shows "check_event (toPgTimestamp a) (toPgTimestamp b) st =
    (if pg_micros a = pg_micros b then Inl (CheckViolation ''events_window_check'') else Inr (pg_micros a, pg_micros b))"
  using assms pg_micros_mono [of a b] by (auto simp: check_event_def toPgTimestamp_def)


section \<open>Evolution\<close>

definition event_ok :: "event_row \<Rightarrow> bool" where
  "event_ok e \<longleftrightarrow> evt_StartAt e < evt_EndAt e \<and> evt_Status e \<in> {0, 1, 2}"

definition events_ok :: "event_row list \<Rightarrow> bool" where
  "events_ok t \<longleftrightarrow> pk evt_ID t \<and> list_all event_ok t"

lemma check_event_Inr: "check_event st en x = Inr (a, b) \<longleftrightarrow> st = Some a \<and> en = Some b \<and> a < b \<and> x \<in> {0, 1, 2}"
  by (auto simp: check_event_def split: option.splits)

definition event_kept :: "event_row \<Rightarrow> event_row \<Rightarrow> bool" where
  "event_kept e e' \<longleftrightarrow> evt_CreatedAt e' = evt_CreatedAt e \<and>
     (evt_DeletedAt e = None \<or> evt_DeletedAt e' \<noteq> None \<and> e'\<lparr>evt_DeletedAt := evt_DeletedAt e\<rparr> = e)"

definition event_rel :: "db \<Rightarrow> db \<Rightarrow> bool" where
  "event_rel s s' \<longleftrightarrow> (events_ok (tb_events s) \<longrightarrow> events_ok (tb_events s')) \<and>
     (\<forall>i e. find_row evt_ID i (tb_events s) = Some e \<longrightarrow> (\<exists>e'. find_row evt_ID i (tb_events s') = Some e' \<and> event_kept e e'))"

lemma event_kept_refl [simp]: "event_kept e e"
  by (cases "evt_DeletedAt e") (simp_all add: event_kept_def)

lemma event_kept_deleted: "event_kept e e' \<Longrightarrow> evt_DeletedAt e \<noteq> None \<Longrightarrow> evt_DeletedAt e' \<noteq> None"
  by (simp add: event_kept_def)

lemma event_kept_trans: "event_kept a b \<Longrightarrow> event_kept b c \<Longrightarrow> event_kept a c"
  by (cases a; cases b; cases c) (auto simp: event_kept_def)

interpretation evr: tx_relation event_rel
proof
  fix s t u :: db
  show "event_rel s s" by (simp add: event_rel_def)
  assume a: "event_rel s t" and b: "event_rel t u"
  have "\<exists>e'. find_row evt_ID i (tb_events u) = Some e' \<and> event_kept e e'" if "find_row evt_ID i (tb_events s) = Some e" for i e
    using a b that unfolding event_rel_def by (meson event_kept_trans)
  then show "event_rel s u" using a b by (simp add: event_rel_def)
qed

lemma event_rel_put:
  assumes "\<And>e. evt_ID (f e) = evt_ID e" and "s' = s\<lparr>tb_events := upd_row evt_ID i f (tb_events s)\<rparr>"
    and "\<And>e. find_row evt_ID i (tb_events s) = Some e \<Longrightarrow> event_kept e (f e) \<and> (event_ok e \<longrightarrow> event_ok (f e))"
  shows "event_rel s s'"
proof -
  have "events_ok (tb_events s')" if ok: "events_ok (tb_events s)"
  proof -
    have "event_ok (if evt_ID e = i then f e else e)" if "e \<in> set (tb_events s)" for e
      using that ok assms(3) [of e] set_find_row [of evt_ID "tb_events s" e] by (auto simp: events_ok_def pk_def list_all_iff)
    then have "\<forall>e \<in> set (upd_row evt_ID i f (tb_events s)). event_ok e" unfolding set_upd_row by blast
    then show ?thesis using ok by (simp add: events_ok_def assms(2) pk_upd_row assms(1) list_all_iff)
  qed
  then show ?thesis using assms(3) by (auto simp: event_rel_def assms(2) find_row_upd assms(1))
qed

lemma rel_CreateEvent: "tx_rel event_rel (q_CreateEvent a)"
proof (rule tx_relI)
  fix s s' r assume "q_CreateEvent a s = Inr (r, s')"
  then obtain x y where c: "check_event (cev_StartAt a) (cev_EndAt a) (cev_Status a) = Inr (x, y)"
    and s': "s' = s\<lparr>tb_events := tb_events s @ [new_event s a x y]\<rparr>"
    by (auto simp: q_CreateEvent_def evt.insert_Inr split: sum.splits)
  have "evt_ID (new_event s a x y) = next_id evt_ID (tb_events s)" "event_ok (new_event s a x y)"
    using c by (auto simp: new_event_def event_ok_def check_event_Inr)
  then show "event_rel s s'"
    using find_row_next_id [of evt_ID "tb_events s"] by (auto simp: event_rel_def s' events_ok_def pk_insert find_row_insert)
qed

lemma rel_SoftDeleteEvent: "tx_rel event_rel (q_SoftDeleteEvent i)"
proof (rule tx_relI)
  fix s s' r assume "q_SoftDeleteEvent i s = Inr (r, s')"
  then consider "s' = s" | "s' = s\<lparr>tb_events := upd_row evt_ID i (\<lambda>e. e\<lparr>evt_DeletedAt := Some (tb_current_timestamp s)\<rparr>) (tb_events s)\<rparr>"
    by (auto simp: q_SoftDeleteEvent_def tx_simps evt.exec_Inr)
  then show "event_rel s s'"
  proof cases
    case 2
    then show ?thesis by (intro event_rel_put) (auto simp: event_kept_def event_ok_def)
  qed (simp add: evr.R_refl)
qed

lemma rel_UpdateEvent: "tx_rel event_rel (q_UpdateEvent a)"
proof (rule tx_relI)
  fix s s' r assume "q_UpdateEvent a s = Inr (r, s')"
  then obtain e x y where e: "find_row evt_ID (uev_ID a) (tb_events s) = Some e" "evt_DeletedAt e = None"
    and c: "check_event (uev_StartAt a) (uev_EndAt a) (evt_Status e) = Inr (x, y)"
    and s': "s' = s\<lparr>tb_events := upd_row evt_ID (uev_ID a) (\<lambda>e. e\<lparr>evt_Name := uev_Name a, evt_StartAt := x, evt_EndAt := y,
      evt_CoverImage := uev_CoverImage a, evt_MediaAssets := uev_MediaAssets a, evt_Description := uev_Description a,
      evt_UpdatedAt := tb_current_timestamp s\<rparr>) (tb_events s)\<rparr>"
    by (auto simp: q_UpdateEvent_def q_GetEvent_def tx_simps evt.update_Inr split: option.splits if_splits)
  show "event_rel s s'"
    by (rule event_rel_put [OF _ s']) (use e c in \<open>auto simp: event_kept_def event_ok_def check_event_Inr\<close>)
qed

lemma rel_UpdateEventStatus: "tx_rel event_rel (q_UpdateEventStatus i st)"
proof (rule tx_relI)
  fix s s' r assume "q_UpdateEventStatus i st s = Inr (r, s')"
  then obtain e x y where e: "find_row evt_ID i (tb_events s) = Some e" "evt_DeletedAt e = None"
    and c: "check_event (Some (evt_StartAt e)) (Some (evt_EndAt e)) st = Inr (x, y)"
    and s': "s' = s\<lparr>tb_events := upd_row evt_ID i (\<lambda>e. e\<lparr>evt_Status := st, evt_UpdatedAt := tb_current_timestamp s\<rparr>) (tb_events s)\<rparr>"
    by (auto simp: q_UpdateEventStatus_def q_GetEvent_def tx_simps evt.update_Inr split: option.splits if_splits)
  show "event_rel s s'"
    by (rule event_rel_put [OF _ s']) (use e c in \<open>auto simp: event_kept_def event_ok_def check_event_Inr\<close>)
qed

lemmas event_rels = rel_CreateEvent rel_SoftDeleteEvent rel_UpdateEvent rel_UpdateEventStatus

text \<open>The event requests that write; everything else leaves the table alone.\<close>

inductive event_step :: "db \<Rightarrow> db \<Rightarrow> bool" where
  Create: "InTx (uc_CreateEvent name status cover media desc a b) s = (r, s') \<Longrightarrow> event_step s s'"
| Update: "InTx (uc_UpdateEvent i name cover media desc a b) s = (r, s') \<Longrightarrow> event_step s s'"
| Status: "InTx (uc_UpdateEventStatus i status) s = (r, s') \<Longrightarrow> event_step s s'"
| Delete: "InTx (uc_DeleteEvent i) s = (r, s') \<Longrightarrow> event_step s s'"
| Elsewhere: "tb_events s' = tb_events s \<Longrightarrow> event_step s s'"

lemma event_step_rel: "event_step s s' \<Longrightarrow> event_rel s s'"
proof (induction rule: event_step.induct)
  case (Create name status cover media desc a b s r s')
  have "tx_rel event_rel (uc_CreateEvent name status cover media desc a b)"
    unfolding uc_CreateEvent_def event_Create_def by (intro evr.rel_intros event_rels)
  from evr.rel_InTx [OF this] Create show ?case by (metis snd_conv)
next
  case (Update i name cover media desc a b s r s')
  have "tx_rel event_rel (uc_UpdateEvent i name cover media desc a b)"
    unfolding uc_UpdateEvent_def event_Update_def by (intro evr.rel_intros event_rels)
  from evr.rel_InTx [OF this] Update show ?case by (metis snd_conv)
next
  case (Status i status s r s')
  have "tx_rel event_rel (uc_UpdateEventStatus i status)"
    unfolding uc_UpdateEventStatus_def event_UpdateStatus_def by (intro evr.rel_intros event_rels)
  from evr.rel_InTx [OF this] Status show ?case by (metis snd_conv)
next
  case (Delete i s r s')
  have "tx_rel event_rel (uc_DeleteEvent i)" unfolding uc_DeleteEvent_def event_Delete_def by (rule rel_SoftDeleteEvent)
  from evr.rel_InTx [OF this] Delete show ?case by (metis snd_conv)
qed (simp add: event_rel_def)

interpretation events: invariant_system "\<lambda>s. tb_events s = []" event_step "\<lambda>s. events_ok (tb_events s)"
proof
  show "tb_events s = [] \<Longrightarrow> events_ok (tb_events s)" for s :: db by (simp add: events_ok_def pk_def)
  show "events_ok (tb_events s) \<Longrightarrow> event_step s s' \<Longrightarrow> events_ok (tb_events s')" for s s'
    using event_step_rel by (simp add: event_rel_def)
qed

text \<open>
  A deleted event is gone for good. In every state the event requests reach, each event has
  a window that ends after it starts and one of the three statuses; and once an event was
  deleted, in every later state it is not found, no listing shows it and every update of it or
  of its status is refused without changing anything.
\<close>

theorem deleted_event_stays_hidden:
  assumes "reachable (\<lambda>s. tb_events s = []) event_step s" and "InTx (uc_DeleteEvent i) s = (Inr (), s1)" and "rtranclp event_step s1 s2"
    and "find_row evt_ID i (tb_events s) \<noteq> None"
  shows "list_all event_ok (tb_events s2) \<and> fst (InTx (uc_GetEvent i) s2) = Inr None \<and>
    (case fst (InTx (uc_ListEvents filter_status size0 page0) s2) of Inl e \<Rightarrow> True | Inr es \<Rightarrow> i \<notin> bev_ID ` set es) \<and>
    (case InTx (uc_UpdateEvent i name cover media desc a b) s2 of (r, s3) \<Rightarrow> r \<in> {Inr None, Inl (BadRequest ''EVENT_INVALID_WINDOW'')} \<and> s3 = s2) \<and>
    (case InTx (uc_UpdateEventStatus i status) s2 of (r, s3) \<Rightarrow>
       r \<in> {Inl (NotFound ''EVENT_NOT_FOUND''), Inl (BadRequest ''EVENT_STATUS_INVALID'')} \<and> s3 = s2)"
proof -
  have "events_ok (tb_events s1)" using assms(1,2) events.inv_reachable events.inv_step event_step.Delete by blast
  then have ok: "events_ok (tb_events s2)" using assms(3) events.inv_star by blast
  obtain e where e: "find_row evt_ID i (tb_events s1) = Some e" "evt_DeletedAt e \<noteq> None"
    using assms(2,4) by (auto simp: InTx_def uc_DeleteEvent_def event_Delete_def q_SoftDeleteEvent_def tx_eval sql_exec_def find_row_upd
        split: option.splits sum.splits)
  have "event_rel s1 s2" using assms(3) by (rule star_rel) (use evr.R_refl evr.R_trans event_step_rel in blast)+
  then obtain e' where e': "find_row evt_ID i (tb_events s2) = Some e'" "evt_DeletedAt e' \<noteq> None"
    using e unfolding event_rel_def by (meson event_kept_deleted)
  have get: "q_GetEvent i s2 = Inl ErrNoRows" using e' by (auto simp: q_GetEvent_def)
  have hidden: "evt_ID x \<noteq> i" if "x \<in> set (tb_events s2)" "evt_DeletedAt x = None" for x
    using that e' ok set_find_row [of evt_ID "tb_events s2" x] by (auto simp: events_ok_def pk_def)
  have page: "i \<notin> evt_ID ` set (event_page m n (filter (\<lambda>e. P e \<and> evt_DeletedAt e = None) (tb_events s2)))" for m n P
    using hidden unfolding event_page_def by (fastforce dest!: in_set_takeD in_set_dropD)
  show ?thesis
  proof (intro conjI)
    show "list_all event_ok (tb_events s2)" using ok by (simp add: events_ok_def)
    show "fst (InTx (uc_GetEvent i) s2) = Inr None"
      by (simp add: InTx_def uc_GetEvent_def event_Get_def tx_eval get)
    show "case fst (InTx (uc_ListEvents filter_status size0 page0) s2) of Inl e \<Rightarrow> True | Inr es \<Rightarrow> i \<notin> bev_ID ` set es"
      using page [of _ _ "\<lambda>_. True"] page [of _ _ "\<lambda>e. evt_Status e = _"]
      by (auto simp: InTx_def uc_ListEvents_def event_List_def q_ListEvents_def q_ListEventsByStatus_def toBizEvents_def toBizEvent_def tx_eval
          image_image split: sum.splits option.splits)
    show "case InTx (uc_UpdateEvent i name cover media desc a b) s2 of (r, s3) \<Rightarrow>
        r \<in> {Inr None, Inl (BadRequest ''EVENT_INVALID_WINDOW'')} \<and> s3 = s2"
      by (simp add: InTx_def uc_UpdateEvent_def event_Update_def q_UpdateEvent_def validateEventWindow_def tx_eval get)
    show "case InTx (uc_UpdateEventStatus i status) s2 of (r, s3) \<Rightarrow>
        r \<in> {Inl (NotFound ''EVENT_NOT_FOUND''), Inl (BadRequest ''EVENT_STATUS_INVALID'')} \<and> s3 = s2"
      by (simp add: InTx_def uc_UpdateEventStatus_def event_UpdateStatus_def q_UpdateEventStatus_def ValidateEventStatus_Inr tx_eval get)
  qed
qed

end
