(* ===== verification/MallService.thy ===== *)
theory MallService
  imports Events Sessions Mall
begin

text \<open>
  The handlers of the mall service (app/mall/internal/service/mall.go): catalogue and events.
  Writing requires an administrator. A handler runs its use case, which commits, and then
  converts the result; a conversion that fails does not undo the commit. \<open>String\<close> is the
  decimal package's printer, an argument like the rest of the package.

  Messages carry the fields the model's rows have; the creation time of a product is not among
  them.
\<close>

section \<open>Messages\<close>

record pb_MediaInfo =
  pmi_OssUrl :: string
  pmi_BucketName :: string
  pmi_ObjectKey :: string
  pmi_ContentType :: string
  pmi_Size :: int

record pb_Product =
  ppr_Id :: int
  ppr_CategoryId :: int
  ppr_Name :: string
  ppr_Price :: string
  ppr_Discount :: string
  ppr_EffectivePriceMinor :: int
  ppr_Stock :: int
  ppr_Status :: int
  ppr_Description :: string
  ppr_CoverImage :: string
  ppr_MediaAssets :: "pb_MediaInfo list"

record pb_Category =
  pct_Id :: int
  pct_ParentId :: int
  pct_Name :: string
  pct_SortOrder :: int

record pb_Event =
  pev_Id :: int
  pev_Name :: string
  pev_Status :: int
  pev_CoverImage :: string
  pev_MediaAssets :: "pb_MediaInfo list"
  pev_Description :: string
  pev_StartAt :: "int option"
  pev_EndAt :: "int option"
  pev_CreatedAt :: "int option"

definition mediaInfoToProto :: "MediaInfo list \<Rightarrow> pb_MediaInfo list" where
  "mediaInfoToProto infos = map (\<lambda>info. \<lparr>pmi_OssUrl = med_OssURL info, pmi_BucketName = med_BucketName info,
     pmi_ObjectKey = med_ObjectKey info, pmi_ContentType = med_ContentType info, pmi_Size = med_Size info\<rparr>) infos"

text \<open>A nil element of the request becomes a zero value.\<close>

definition protoToMediaInfo :: "pb_MediaInfo option list \<Rightarrow> MediaInfo list" where
  "protoToMediaInfo infos = map (\<lambda>info. case info of
     None \<Rightarrow> \<lparr>med_OssURL = '''', med_BucketName = '''', med_ObjectKey = '''', med_ContentType = '''', med_Size = 0\<rparr>
   | Some i \<Rightarrow> \<lparr>med_OssURL = pmi_OssUrl i, med_BucketName = pmi_BucketName i, med_ObjectKey = pmi_ObjectKey i,
       med_ContentType = pmi_ContentType i, med_Size = pmi_Size i\<rparr>) infos"

definition timestampToTime :: "int option \<Rightarrow> int" where
  "timestampToTime ts = (case ts of None \<Rightarrow> zero_time | Some t \<Rightarrow> t)"

definition coverImageURL :: "MediaInfo list \<Rightarrow> string" where
  "coverImageURL infos = (case infos of [] \<Rightarrow> '''' | i # _ \<Rightarrow> med_OssURL i)"

definition toProtoProduct :: "decimal_lib \<Rightarrow> (rat \<Rightarrow> string) \<Rightarrow> Product \<Rightarrow> error + pb_Product" where
  "toProtoProduct L String p = (case ProductPriceMinor L (bpr_Price p) of
     Inl e \<Rightarrow> Inl e
   | Inr priceMinor \<Rightarrow> (case EffectivePriceMinor L priceMinor (bpr_Discount p) of
       Inl e \<Rightarrow> Inl e
     | Inr effectiveMinor \<Rightarrow> Inr \<lparr>ppr_Id = bpr_ID p, ppr_CategoryId = bpr_CategoryID p, ppr_Name = bpr_Name p,
         ppr_Price = String (bpr_Price p), ppr_Discount = String (bpr_Discount p), ppr_EffectivePriceMinor = effectiveMinor,
         ppr_Stock = bpr_Stock p, ppr_Status = bpr_Status p, ppr_Description = bpr_Description p,
         ppr_CoverImage = coverImageURL (bpr_CoverImage p), ppr_MediaAssets = mediaInfoToProto (bpr_MediaAssets p)\<rparr>))"

definition toProtoCategory :: "category \<Rightarrow> pb_Category" where
  "toProtoCategory c = \<lparr>pct_Id = cat_ID c, pct_ParentId = int8_Int64 (cat_ParentID c), pct_Name = cat_Name c,
     pct_SortOrder = cat_SortOrder c\<rparr>"

definition toProtoEvent :: "Event \<Rightarrow> pb_Event" where
  "toProtoEvent e = \<lparr>pev_Id = bev_ID e, pev_Name = bev_Name e, pev_Status = bev_Status e,
     pev_CoverImage = coverImageURL (bev_CoverImage e), pev_MediaAssets = mediaInfoToProto (bev_MediaAssets e),
     pev_Description = bev_Description e,
     pev_StartAt = (if bev_StartAt e = zero_time then None else Some (bev_StartAt e)),
     pev_EndAt = (if bev_EndAt e = zero_time then None else Some (bev_EndAt e)),
     pev_CreatedAt = (if bev_CreatedAt e = zero_time then None else Some (bev_CreatedAt e))\<rparr>"

section \<open>Handlers\<close>

text \<open>\<open>if _, err := requireAdmin(ctx); err != nil\<close>, then the rest.\<close>

definition as_admin :: "EcommerceClaims option \<Rightarrow> (EcommerceClaims \<Rightarrow> (db, 'a) prog) \<Rightarrow> (db, 'a) prog" where
  "as_admin ctx body = prog_bind (prog_lift (requireAdmin ctx)) body"

definition svc_CreateProduct ::
    "decimal_lib \<Rightarrow> (string \<Rightarrow> error + rat) \<Rightarrow> (rat \<Rightarrow> string) \<Rightarrow> EcommerceClaims option \<Rightarrow> int \<Rightarrow> string \<Rightarrow> string \<Rightarrow> string \<Rightarrow> int \<Rightarrow>
     string \<Rightarrow> pb_MediaInfo option list \<Rightarrow> string \<Rightarrow> (db, pb_Product) prog" where
  "svc_CreateProduct L NewFromString String ctx categoryId name price discount stock cover media desc = as_admin ctx (\<lambda>_.
     prog_bind (InTx (uc_CreateProduct L NewFromString categoryId name price discount stock 1 cover (protoToMediaInfo media) desc))
       (\<lambda>p. prog_lift (toProtoProduct L String p)))"

definition svc_GetProduct :: "decimal_lib \<Rightarrow> (rat \<Rightarrow> string) \<Rightarrow> int \<Rightarrow> (db, pb_Product) prog" where
  "svc_GetProduct L String i = prog_bind (InTx (repo_GetProduct L i)) (\<lambda>p. case p of
     None \<Rightarrow> prog_throw (NotFound ''PRODUCT_NOT_FOUND'')
   | Some p \<Rightarrow> prog_lift (toProtoProduct L String p))"

text \<open>The loop over the page: the first product that cannot be shown fails the request.\<close>

fun toProtoProducts :: "decimal_lib \<Rightarrow> (rat \<Rightarrow> string) \<Rightarrow> Product list \<Rightarrow> error + pb_Product list" where
  "toProtoProducts L String [] = Inr []"
| "toProtoProducts L String (p # ps) = (case toProtoProduct L String p of
     Inl e \<Rightarrow> Inl e
   | Inr item \<Rightarrow> (case toProtoProducts L String ps of Inl e \<Rightarrow> Inl e | Inr items \<Rightarrow> Inr (item # items)))"

definition svc_ListProducts ::
    "decimal_lib \<Rightarrow> (rat \<Rightarrow> string) \<Rightarrow> int \<Rightarrow> int \<Rightarrow> int \<Rightarrow> (db, pb_Product list \<times> int) prog" where
  "svc_ListProducts L String categoryId reqPageSize reqPage =
     (let pageSize = (if reqPageSize = 0 then 10 else reqPageSize); page = (if reqPage = 0 then 1 else reqPage) in
      prog_bind (InTx (uc_ListProducts L categoryId pageSize page)) (\<lambda>(ps, tot).
        prog_bind (prog_lift (toProtoProducts L String ps)) (\<lambda>products. prog_return (products, tot))))"

text \<open>The use case reports a missing product as an error of the driver, so the handler's own
  test for a missing product is never reached.\<close>

definition svc_UpdateProduct ::
    "decimal_lib \<Rightarrow> (string \<Rightarrow> error + rat) \<Rightarrow> (rat \<Rightarrow> string) \<Rightarrow> EcommerceClaims option \<Rightarrow> int \<Rightarrow> int \<Rightarrow> string \<Rightarrow> string \<Rightarrow> string \<Rightarrow>
     string \<Rightarrow> pb_MediaInfo option list \<Rightarrow> string \<Rightarrow> (db, pb_Product) prog" where
  "svc_UpdateProduct L NewFromString String ctx i categoryId name price discount cover media desc = as_admin ctx (\<lambda>_.
     prog_bind (InTx (uc_UpdateProduct L NewFromString i categoryId name price discount cover (protoToMediaInfo media) desc))
       (\<lambda>p. prog_lift (toProtoProduct L String p)))"

definition svc_UpdateProductStatus :: "EcommerceClaims option \<Rightarrow> int \<Rightarrow> int \<Rightarrow> (db, unit) prog" where
  "svc_UpdateProductStatus ctx i status = as_admin ctx (\<lambda>_. InTx (uc_UpdateProductStatus i status))"

definition svc_AdjustProductStock ::
    "EcommerceClaims option \<Rightarrow> int \<Rightarrow> int \<Rightarrow> string \<Rightarrow> string \<Rightarrow> (db, stock_adjustment) prog" where
  "svc_AdjustProductStock ctx i delta reason key = as_admin ctx (\<lambda>claims.
     InTx (uc_AdjustStock \<lparr>sai_ProductID = i, sai_ActorID = clm_UserID claims, sai_Delta = delta, sai_Reason = reason,
       sai_IdempotencyKey = key\<rparr>))"

definition svc_DeleteProduct :: "EcommerceClaims option \<Rightarrow> int \<Rightarrow> (db, unit) prog" where
  "svc_DeleteProduct ctx i = as_admin ctx (\<lambda>_. InTx (repo_SoftDeleteProduct i))"

definition svc_CreateCategory :: "EcommerceClaims option \<Rightarrow> int \<Rightarrow> string \<Rightarrow> int \<Rightarrow> (db, pb_Category) prog" where
  "svc_CreateCategory ctx parentId name sortOrder = as_admin ctx (\<lambda>_.
     prog_bind (InTx (repo_CreateCategory parentId name sortOrder)) (\<lambda>c. prog_return (toProtoCategory c)))"

definition svc_ListCategories :: "int \<Rightarrow> int \<Rightarrow> int \<Rightarrow> (db, pb_Category list) prog" where
  "svc_ListCategories parentId page pageSize =
     prog_bind (InTx (uc_ListCategories parentId page pageSize)) (\<lambda>cs. prog_return (map toProtoCategory cs))"

definition svc_UpdateCategory :: "EcommerceClaims option \<Rightarrow> int \<Rightarrow> string \<Rightarrow> int \<Rightarrow> (db, pb_Category) prog" where
  "svc_UpdateCategory ctx i name sortOrder = as_admin ctx (\<lambda>_.
     prog_bind (InTx (repo_UpdateCategory i name sortOrder)) (\<lambda>c. case c of
       None \<Rightarrow> prog_throw (NotFound ''CATEGORY_NOT_FOUND'')
     | Some c \<Rightarrow> prog_return (toProtoCategory c)))"

definition svc_DeleteCategory :: "EcommerceClaims option \<Rightarrow> int \<Rightarrow> (db, unit) prog" where
  "svc_DeleteCategory ctx i = as_admin ctx (\<lambda>_. InTx (repo_DeleteCategory i))"

definition svc_CreateEvent ::
    "EcommerceClaims option \<Rightarrow> string \<Rightarrow> string \<Rightarrow> pb_MediaInfo option list \<Rightarrow> string \<Rightarrow> int option \<Rightarrow> int option \<Rightarrow> (db, pb_Event) prog" where
  "svc_CreateEvent ctx name cover media desc startAt endAt = as_admin ctx (\<lambda>_.
     prog_bind (InTx (uc_CreateEvent name 0 cover (protoToMediaInfo media) desc (timestampToTime startAt) (timestampToTime endAt)))
       (\<lambda>e. prog_return (toProtoEvent e)))"

definition svc_GetEvent :: "int \<Rightarrow> (db, pb_Event) prog" where
  "svc_GetEvent i = prog_bind (InTx (uc_GetEvent i)) (\<lambda>e. case e of
     None \<Rightarrow> prog_throw (NotFound ''EVENT_NOT_FOUND'') | Some e \<Rightarrow> prog_return (toProtoEvent e))"

definition svc_ListEvents :: "int option \<Rightarrow> int \<Rightarrow> int \<Rightarrow> (db, pb_Event list) prog" where
  "svc_ListEvents status reqPageSize reqPage =
     (let pageSize = (if reqPageSize = 0 then 10 else reqPageSize); page = (if reqPage = 0 then 1 else reqPage) in
      prog_bind (InTx (uc_ListEvents status pageSize page)) (\<lambda>es. prog_return (map toProtoEvent es)))"

definition svc_UpdateEvent ::
    "EcommerceClaims option \<Rightarrow> int \<Rightarrow> string \<Rightarrow> string \<Rightarrow> pb_MediaInfo option list \<Rightarrow> string \<Rightarrow> int option \<Rightarrow> int option \<Rightarrow>
     (db, pb_Event) prog" where
  "svc_UpdateEvent ctx i name cover media desc startAt endAt = as_admin ctx (\<lambda>_.
     prog_bind (InTx (uc_UpdateEvent i name cover (protoToMediaInfo media) desc (timestampToTime startAt) (timestampToTime endAt)))
       (\<lambda>e. case e of None \<Rightarrow> prog_throw (NotFound ''EVENT_NOT_FOUND'') | Some e \<Rightarrow> prog_return (toProtoEvent e)))"

definition svc_UpdateEventStatus :: "EcommerceClaims option \<Rightarrow> int \<Rightarrow> int \<Rightarrow> (db, unit) prog" where
  "svc_UpdateEventStatus ctx i status = as_admin ctx (\<lambda>_. InTx (uc_UpdateEventStatus i status))"

definition svc_DeleteEvent :: "EcommerceClaims option \<Rightarrow> int \<Rightarrow> (db, unit) prog" where
  "svc_DeleteEvent ctx i = as_admin ctx (\<lambda>_. InTx (uc_DeleteEvent i))"

section \<open>Only administrators write\<close>

text \<open>A writing request of the mall service: the states around it and the error it answers, if any.\<close>

definition refusal :: "error + 'a \<Rightarrow> error option" where
  "refusal r = (case r of Inl e \<Rightarrow> Some e | Inr _ \<Rightarrow> None)"

inductive mall_write :: "EcommerceClaims option \<Rightarrow> db \<Rightarrow> error option \<Rightarrow> db \<Rightarrow> bool" for ctx where
  CreateProduct: "svc_CreateProduct L parse Str ctx c name price discount stock cover media desc s = (r, s') \<Longrightarrow> mall_write ctx s (refusal r) s'"
| UpdateProduct: "svc_UpdateProduct L parse Str ctx i c name price discount cover media desc s = (r, s') \<Longrightarrow> mall_write ctx s (refusal r) s'"
| UpdateProductStatus: "svc_UpdateProductStatus ctx i status s = (r, s') \<Longrightarrow> mall_write ctx s (refusal r) s'"
| AdjustProductStock: "svc_AdjustProductStock ctx i delta reason key s = (r, s') \<Longrightarrow> mall_write ctx s (refusal r) s'"
| DeleteProduct: "svc_DeleteProduct ctx i s = (r, s') \<Longrightarrow> mall_write ctx s (refusal r) s'"
| CreateCategory: "svc_CreateCategory ctx parent name sortOrder s = (r, s') \<Longrightarrow> mall_write ctx s (refusal r) s'"
| UpdateCategory: "svc_UpdateCategory ctx i name sortOrder s = (r, s') \<Longrightarrow> mall_write ctx s (refusal r) s'"
| DeleteCategory: "svc_DeleteCategory ctx i s = (r, s') \<Longrightarrow> mall_write ctx s (refusal r) s'"
| CreateEvent: "svc_CreateEvent ctx name cover media desc a b s = (r, s') \<Longrightarrow> mall_write ctx s (refusal r) s'"
| UpdateEvent: "svc_UpdateEvent ctx i name cover media desc a b s = (r, s') \<Longrightarrow> mall_write ctx s (refusal r) s'"
| UpdateEventStatus: "svc_UpdateEventStatus ctx i status s = (r, s') \<Longrightarrow> mall_write ctx s (refusal r) s'"
| DeleteEvent: "svc_DeleteEvent ctx i s = (r, s') \<Longrightarrow> mall_write ctx s (refusal r) s'"

lemmas mall_writes = svc_CreateProduct_def svc_UpdateProduct_def svc_UpdateProductStatus_def svc_AdjustProductStock_def svc_DeleteProduct_def
  svc_CreateCategory_def svc_UpdateCategory_def svc_DeleteCategory_def svc_CreateEvent_def svc_UpdateEvent_def svc_UpdateEventStatus_def
  svc_DeleteEvent_def

lemma as_admin_refused: "requireAdmin ctx = Inl e \<Longrightarrow> as_admin ctx body s = (Inl e, s)"
  by (simp add: as_admin_def prog_bind_def prog_try_def prog_lift_def prog_throw_def)

lemma as_admin_run: "requireAdmin ctx = Inr claims \<Longrightarrow> as_admin ctx body s = body claims s"
  by (simp add: as_admin_def prog_bind_def prog_try_def prog_lift_def)

lemma mall_write_refused:
  assumes "mall_write ctx s r s'" and "requireAdmin ctx = Inl e"
  shows "r = Some e \<and> s' = s"
  using assms(1)
  by (induction rule: mall_write.induct) (auto simp: mall_writes as_admin_refused [OF assms(2)] refusal_def)

text \<open>What a handler commits is what its use case committed.\<close>

lemma prog_bind_snd: "(\<And>x w. snd (f x w) = w) \<Longrightarrow> snd (prog_bind m f s) = snd (m s)"
  by (auto simp: prog_bind_def prog_try_def prog_throw_def split: prod.splits sum.splits)

lemma converted_lift: "snd (prog_bind m (\<lambda>x. prog_lift (g x)) s) = snd (m s)"
  by (rule prog_bind_snd) (simp add: prog_lift_def)

lemma converted_return: "snd (prog_bind m (\<lambda>x. prog_return (h x)) s) = snd (m s)"
  by (rule prog_bind_snd) (simp add: prog_return_def)

lemma converted_option: "snd (prog_bind m (\<lambda>x. case x of None \<Rightarrow> prog_throw e | Some y \<Rightarrow> prog_return (h y)) s) = snd (m s)"
  by (rule prog_bind_snd) (simp add: prog_return_def prog_throw_def split: option.splits)

lemmas converted = converted_lift converted_return converted_option

definition events_only :: "db \<Rightarrow> db \<Rightarrow> bool" where
  "events_only s s' \<longleftrightarrow> (\<exists>es. s' = s\<lparr>tb_events := es\<rparr>)"

interpretation evo: tx_relation events_only
proof
  fix s t u :: db
  have "s = s\<lparr>tb_events := tb_events s\<rparr>" by simp
  then show "events_only s s" unfolding events_only_def by blast
  show "events_only s t \<Longrightarrow> events_only t u \<Longrightarrow> events_only s u" by (auto simp: events_only_def)
qed

lemma events_only_statements:
  "tx_rel events_only (q_CreateEvent p)" "tx_rel events_only (q_UpdateEvent q)" "tx_rel events_only (q_UpdateEventStatus i st)"
  "tx_rel events_only (q_SoftDeleteEvent i)" "tx_rel events_only (q_GetEvent i)"
proof -
  show "tx_rel events_only (q_CreateEvent p)"
    by (rule tx_relI) (auto simp: q_CreateEvent_def evt.insert_Inr events_only_def split: sum.splits)
  show "tx_rel events_only (q_UpdateEvent q)"
    by (rule tx_relI) (auto simp: q_UpdateEvent_def q_GetEvent_def tx_simps evt.update_Inr events_only_def split: option.splits if_splits)
  show "tx_rel events_only (q_UpdateEventStatus i st)"
    by (rule tx_relI) (auto simp: q_UpdateEventStatus_def q_GetEvent_def tx_simps evt.update_Inr events_only_def split: option.splits if_splits)
  show "tx_rel events_only (q_SoftDeleteEvent i)"
    by (rule tx_relI) (auto simp: q_SoftDeleteEvent_def tx_simps evt.exec_Inr events_only_def evo.R_refl [unfolded events_only_def])
  show "tx_rel events_only (q_GetEvent i)"
    by (rule evo.rel_readonly) (auto simp: q_GetEvent_def split: option.splits if_splits)
qed

lemma event_writes:
  "events_only s (snd (InTx (uc_CreateEvent name st cover media desc a b) s))"
  "events_only s (snd (InTx (uc_UpdateEvent i name cover media desc a b) s))"
  "events_only s (snd (InTx (uc_UpdateEventStatus i st) s))"
  "events_only s (snd (InTx (uc_DeleteEvent i) s))"
  by (rule evo.rel_InTx; unfold uc_CreateEvent_def event_Create_def uc_UpdateEvent_def event_Update_def uc_UpdateEventStatus_def
      event_UpdateStatus_def uc_DeleteEvent_def event_Delete_def; intro evo.rel_intros events_only_statements)+

lemma events_only_step: "events_only s s' \<Longrightarrow> mall_step s s'"
proof -
  assume "events_only s s'"
  then obtain es where "s' = s\<lparr>tb_users := tb_users s, tb_addresses := tb_addresses s, tb_events := es, tb_history := tb_history s,
    tb_posts := tb_posts s, tb_media := tb_media s, tb_images := tb_images s, tb_likes := tb_likes s, tb_comments := tb_comments s,
    tb_jobs := tb_jobs s, tb_sequences := tb_sequences s, tb_current_timestamp := tb_current_timestamp s,
    tb_statement_timestamp := tb_statement_timestamp s, tb_clock_timestamp := tb_clock_timestamp s, tb_time_Now := tb_time_Now s\<rparr>"
    by (auto simp: events_only_def)
  then show "mall_step s s'" by (simp only: mall_step.Outside)
qed

text \<open>A stock adjustment names the administrator who made it.\<close>

definition adjusted_by :: "int \<Rightarrow> db \<Rightarrow> db \<Rightarrow> bool" where
  "adjusted_by u s s' \<longleftrightarrow> (\<forall>a \<in> set (tb_adjustments s'). a \<in> set (tb_adjustments s) \<or> adj_ActorID a = u)"

interpretation adb: tx_relation "adjusted_by u" for u
  by unfold_locales (auto simp: adjusted_by_def)

lemma adjusted_by_tables:
  "tx_rel (adjusted_by u) (sql_update tb_products put_products prd_ID i G f)" "tx_rel (adjusted_by u) (sql_insert tb_products put_products p)"
  "tx_rel (adjusted_by u) (sql_update tb_categories put_categories cat_ID i H g)"
  "adj_ActorID a = u \<Longrightarrow> tx_rel (adjusted_by u) (sql_insert tb_adjustments put_adjustments a)"
  by (rule tx_relI; auto simp: adjusted_by_def prd.update_Inr prd.insert_Inr cat.update_Inr adj.insert_Inr)+

lemma adjusted_by_statements:
  "tx_rel (adjusted_by u) (q_SoftDeleteProduct i)" "tx_rel (adjusted_by u) (q_GetProductForOrder i)"
  "tx_rel (adjusted_by u) (q_CreateCategory par name so)" "tx_rel (adjusted_by u) (q_DeleteCategoryIfUnused i)"
proof -
  show "tx_rel (adjusted_by u) (q_SoftDeleteProduct i)"
    by (rule tx_relI) (auto simp: q_SoftDeleteProduct_def adjusted_by_def tx_simps prd.exec_Inr)
  show "tx_rel (adjusted_by u) (q_GetProductForOrder i)"
    by (rule adb.rel_readonly) (auto simp: q_GetProductForOrder_def split: option.splits if_splits)
  show "tx_rel (adjusted_by u) (q_CreateCategory par name so)"
    by (rule tx_relI) (auto simp: q_CreateCategory_def adjusted_by_def tx_simps cat.insert_Inr split: if_splits)
  show "tx_rel (adjusted_by u) (q_DeleteCategoryIfUnused i)"
    by (rule tx_relI) (auto simp: q_DeleteCategoryIfUnused_def adjusted_by_def split: if_splits)
qed

lemma adjusted_by_products:
  "tx_rel (adjusted_by u) (q_CreateProduct p)" "tx_rel (adjusted_by u) (q_UpdateProduct i c name pr d cov med desc)"
  "tx_rel (adjusted_by u) (q_UpdateProductStatus i st)" "tx_rel (adjusted_by u) (q_GetProduct i)"
  "tx_rel (adjusted_by u) (q_UpdateCategory i name so)" "tx_rel (adjusted_by u) (q_GetCategory i)"
  "tx_rel (adjusted_by u) (q_GetStockAdjustment i k)" "tx_rel (adjusted_by u) (q_AdjustProductStock i delta)"
  "tx_rel (adjusted_by u) (q_CreateStockAdjustment i u delta reason k bal)"
  by (unfold q_CreateProduct_def q_UpdateProduct_def q_UpdateProductStatus_def q_GetProduct_def q_UpdateCategory_def q_GetCategory_def
      q_GetStockAdjustment_def q_AdjustProductStock_def q_CreateStockAdjustment_def check_product_def check_stock_def;
      intro adb.rel_intros adjusted_by_statements adjusted_by_tables; simp)+

lemma adjusted_by_reads:
  "tx_rel (adjusted_by u) (q_GetRestorableProductStock i)" "tx_rel (adjusted_by u) (q_CountCategoryProductReferences i)"
  "tx_rel (adjusted_by u) (q_CountSubCategories j)"
  unfolding q_GetRestorableProductStock_def q_CountCategoryProductReferences_def q_CountSubCategories_def by (rule adb.rel_read)+

lemma product_writes:
  "adjusted_by u s (snd (InTx (uc_CreateProduct L parse c name pr d st stat cov med desc) s))"
  "adjusted_by u s (snd (InTx (uc_UpdateProduct L parse i c name pr d cov med desc) s))"
  "adjusted_by u s (snd (InTx (uc_UpdateProductStatus i stat) s))"
  "adjusted_by u s (snd (InTx (repo_SoftDeleteProduct i) s))"
  "adjusted_by u s (snd (InTx (repo_CreateCategory par name so) s))"
  "adjusted_by u s (snd (InTx (repo_UpdateCategory i name so) s))"
  "adjusted_by u s (snd (InTx (repo_DeleteCategory i) s))"
  by (rule adb.rel_InTx; unfold uc_CreateProduct_def repo_CreateProduct_def uc_UpdateProduct_def repo_UpdateProduct_def uc_UpdateProductStatus_def
      repo_UpdateProductStatus_def repo_SoftDeleteProduct_def repo_CreateCategory_def repo_UpdateCategory_def repo_DeleteCategory_def
      categoryDeletionRefusal_def; intro adb.rel_intros adjusted_by_statements adjusted_by_products adjusted_by_reads)+

lemma adjust_write: "adjusted_by u s (snd (InTx (uc_AdjustStock \<lparr>sai_ProductID = i, sai_ActorID = u, sai_Delta = d, sai_Reason = r, sai_IdempotencyKey = k\<rparr>) s))"
  by (rule adb.rel_InTx; unfold uc_AdjustStock_def repo_AdjustStock_def; simp only: StockAdjustmentInput.simps;
      intro adb.rel_intros adjusted_by_statements adjusted_by_products adjusted_by_reads)

lemma events_only_adjusted: "events_only s s' \<Longrightarrow> adjusted_by u s s'"
  by (auto simp: events_only_def adjusted_by_def)

text \<open>An administrator's request is a step of the mall that adds adjustments in that name only.\<close>

lemma catalogue_steps:
  "mall_step s (snd (InTx (uc_CreateProduct L parse c name pr d st stat cov med desc) s))"
  "mall_step s (snd (InTx (uc_UpdateProduct L parse i c name pr d cov med desc) s))"
  "mall_step s (snd (InTx (uc_UpdateProductStatus i stat) s))"
  "mall_step s (snd (InTx (uc_AdjustStock sai) s))"
  "mall_step s (snd (InTx (repo_SoftDeleteProduct i) s))"
  "mall_step s (snd (InTx (repo_CreateCategory par name so) s))"
  "mall_step s (snd (InTx (repo_UpdateCategory i name so) s))"
  "mall_step s (snd (InTx (repo_DeleteCategory i) s))"
  by (blast intro: mall_step.intros surjective_pairing)+

lemma admin_write: "as_admin ctx m s = (r, s') \<Longrightarrow> requireAdmin ctx = Inr claims \<Longrightarrow> s' = snd (m claims s)"
  by (simp add: as_admin_run)

lemma mall_write_admin:
  assumes "mall_write ctx s r s'" and "requireAdmin ctx = Inr claims"
  shows "mall_step s s' \<and> adjusted_by (clm_UserID claims) s s'"
  using assms(1)
  by (induction rule: mall_write.induct)
    (auto simp: mall_writes converted catalogue_steps product_writes adjust_write event_writes events_only_step events_only_adjusted
      dest!: admin_write [OF _ assms(2)])

text \<open>
  C22. The catalogue is written by administrators only. A writing request of the mall service
  (products, stock, categories, events) of anyone else is answered with the refusal of the
  authorization check and changes nothing. An administrator's request is a step of the mall,
  so every invariant of orders, payments and stock holds across it, and the stock adjustments
  it adds are recorded under that administrator's id.
\<close>

theorem catalogue_is_written_by_admins:
  assumes "mall_write ctx s r s'"
  shows "case requireAdmin ctx of
      Inl e \<Rightarrow> r = Some e \<and> s' = s
    | Inr claims \<Rightarrow> clm_Role claims = ''admin'' \<and> mall_step s s' \<and>
        (\<forall>a \<in> set (tb_adjustments s') - set (tb_adjustments s). adj_ActorID a = clm_UserID claims)"
proof (cases "requireAdmin ctx")
  case (Inl e)
  then show ?thesis using mall_write_refused [OF assms] by simp
next
  case (Inr claims)
  then have "clm_Role claims = ''admin''" by (auto simp: requireAdmin_def split: sum.splits if_splits)
  then show ?thesis using mall_write_admin [OF assms Inr] Inr by (auto simp: adjusted_by_def)
qed

section \<open>The displayed price\<close>

lemma ProductPriceMinor_back:
  assumes "decimal_ok L" and "\<And>x. dec_Shift L x (- 2) = x / 100" and "ProductPriceMinor L (dec_Shift L (of_int n) (- 2)) = Inr m"
  shows "m = n"
proof -
  have "dec_Shift L (of_int n / 100) 2 = of_int n" using assms(1) by (simp add: decimal_ok_def)
  then have d: "dec_Shift L (dec_Shift L (of_int n) (- 2)) 2 = of_int n" by (simp only: assms(2))
  have "0 \<le> n" "n \<le> MaxInt64" "dec_IntPart L (of_int n) = m"
    using assms(3) by (auto simp: ProductPriceMinor_def Let_def d split: if_splits)
  then show ?thesis using assms(1) by (simp add: decimal_ok_def)
qed

lemma shown_price_is_quoted:
  assumes "decimal_ok L" and "\<And>x. dec_Shift L x (- 2) = x / 100" and "svc_GetProduct L Str i s = (Inr shown, s1)"
  shows "quoted L s i = Inr (ppr_EffectivePriceMinor shown)"
proof -
  obtain p where p: "find_row prd_ID i (tb_products s) = Some p" and t: "toProtoProduct L Str (toBizProduct L p) = Inr shown"
    using assms(3) by (auto simp: svc_GetProduct_def prog_bind_def prog_try_def prog_throw_def prog_lift_def InTx_def repo_GetProduct_def
        tx_eval q_GetProduct_def q_GetProductForOrder_def split: option.splits if_splits)
  from t obtain m where m: "ProductPriceMinor L (dec_Shift L (of_int (prd_PriceMinor p)) (- 2)) = Inr m"
    and e: "EffectivePriceMinor L m (prd_Discount p) = Inr (ppr_EffectivePriceMinor shown)"
    by (auto simp: toProtoProduct_def toBizProduct_def split: sum.splits)
  show ?thesis using ProductPriceMinor_back [OF assms(1,2) m] e p by (simp add: quoted_def)
qed


end
