(* ===== verification/MallExample.thy ===== *)
theory MallExample
  imports MallService Example
begin

text \<open>Concrete requests to the mall service, the inputs of the witnesses of its properties.\<close>

definition ex_caller :: "string \<Rightarrow> EcommerceClaims" where
  "ex_caller role = \<lparr>clm_UserID = 5, clm_Role = role, clm_AuthVersion = 1, clm_SessionID = ''sid'', clm_TokenKind = ''access'',
     clm_ID = ''jti'', clm_IssuedAt = 0, clm_ExpiresAt = 1\<rparr>"

definition ex_evt1 :: db where
  "ex_evt1 = snd (InTx (uc_CreateEvent ''sale'' 0 '''' [] '''' 5000 9000) ex_db0)"

definition ex_evt2 :: db where
  "ex_evt2 = snd (InTx (uc_DeleteEvent 1) ex_evt1)"

theorem deleted_event_stays_hidden_witness:
  "find_row evt_ID 1 (tb_events ex_evt1) \<noteq> None \<and> fst (InTx (uc_GetEvent 1) ex_evt2) = Inr None"
proof -
  have init: "tb_events ex_db0 = []" by (simp add: ex_db0_def)
  have "event_step ex_db0 ex_evt1" unfolding ex_evt1_def by (rule event_step.Create [OF surjective_pairing])
  then have r: "reachable (\<lambda>s. tb_events s = []) event_step ex_evt1" using init by (meson reachable.intros)
  have f: "find_row evt_ID 1 (tb_events ex_evt1) \<noteq> None" by code_simp
  have "fst (InTx (uc_DeleteEvent 1) ex_evt1) = Inr ()"
    by (simp add: InTx_def uc_DeleteEvent_def event_Delete_def q_SoftDeleteEvent_def tx_eval sql_exec_def split: option.splits)
  then have "InTx (uc_DeleteEvent 1) ex_evt1 = (Inr (), ex_evt2)" unfolding ex_evt2_def by (simp add: prod_eq_iff)
  from deleted_event_stays_hidden [OF r this rtranclp.rtrancl_refl f] f show ?thesis by simp
qed

theorem catalogue_is_written_by_admins_witness:
  "snd (svc_AdjustProductStock (Some (ex_caller ''user'')) 1 4 ''count'' ''key-0001'' ex_db2) = ex_db2 \<and>
   adj_ActorID ` set (tb_adjustments (snd (svc_AdjustProductStock (Some (ex_caller ''admin'')) 1 4 ''count'' ''key-0001'' ex_db2))) = {5}"
proof
  let ?run = "\<lambda>role. svc_AdjustProductStock (Some (ex_caller role)) 1 4 ''count'' ''key-0001'' ex_db2"
  have w: "mall_write (Some (ex_caller role)) ex_db2 (refusal (fst (?run role))) (snd (?run role))" for role
    by (rule mall_write.AdjustProductStock [OF surjective_pairing])
  have u: "requireAdmin (Some (ex_caller ''user'')) = Inl (Forbidden ''FORBIDDEN'')" by code_simp
  show "snd (?run ''user'') = ex_db2" using catalogue_is_written_by_admins [OF w, of "''user''"] by (simp add: u)
  have a: "requireAdmin (Some (ex_caller ''admin'')) = Inr (ex_caller ''admin'')" by code_simp
  have "tb_adjustments ex_db2 = []" by code_simp
  then have "adj_ActorID ` set (tb_adjustments (snd (?run ''admin''))) \<subseteq> {clm_UserID (ex_caller ''admin'')}"
    using catalogue_is_written_by_admins [OF w, of "''admin''"] by (auto simp: a)
  moreover have "tb_adjustments (snd (?run ''admin'')) \<noteq> []" by code_simp
  then have "adj_ActorID ` set (tb_adjustments (snd (?run ''admin''))) \<noteq> {}" by simp
  moreover have "clm_UserID (ex_caller ''admin'') = 5" by (simp add: ex_caller_def)
  ultimately show "adj_ActorID ` set (tb_adjustments (snd (?run ''admin''))) = {5}" by (metis subset_singletonD)
qed


end
