(* ===== verification/OrderService.thy ===== *)
theory OrderService
  imports Pages Mall PaymentUsecase "HOL-Library.AList"
begin

text \<open>
  The handlers of the order and payment services (app/mall/internal/service/order.go,
  order\_fulfillment.go, payment.go and payment\_reconciliation.go): who may call them, which part
  of the request is trusted, and what they answer. The identity always comes from the claims.
  The in-memory limiter of provider callbacks is part of payment.go.

  A request may be nil; an answer carries the fields of the model's rows.
\<close>

section \<open>Order messages\<close>

record pb_OrderItem =
  poi_ProductId :: int
  poi_ProductName :: string
  poi_CoverImage :: string
  poi_Quantity :: int
  poi_UnitPrice :: string

record pb_OrderShippingSnapshot =
  pss_ReceiverName :: string
  pss_ReceiverPhone :: string
  pss_Province :: string
  pss_City :: string
  pss_District :: string
  pss_DetailAddress :: string

record pb_OrderInfo =
  por_Id :: int
  por_UserId :: int
  por_AddressId :: int
  por_TotalAmount :: string
  por_Status :: string
  por_IsCompleted :: bool
  por_CreatedAt :: int
  por_UpdatedAt :: int
  por_Items :: "pb_OrderItem list"
  por_OrderNo :: string
  por_Currency :: string
  por_Shipping :: "pb_OrderShippingSnapshot option"

text \<open>Go's remainder, with the sign of the dividend.\<close>

definition go_rem :: "int \<Rightarrow> int \<Rightarrow> int" where
  "go_rem a b = a - b * go_div a b"

definition fmtTwoDigits :: "int \<Rightarrow> string" where
  "fmtTwoDigits v = (if v < 10 then ''0'' @ FormatInt v else FormatInt v)"

definition minorAmountString :: "int \<Rightarrow> string" where
  "minorAmountString amount0 =
     (let negative = amount0 < 0; amount = (if negative then wrap64 (- amount0) else amount0);
          v = FormatInt (go_div amount 100) @ ''.'' @ fmtTwoDigits (go_rem amount 100)
      in if negative then ''-'' @ v else v)"

definition toProtoOrder :: "Order \<Rightarrow> pb_OrderInfo" where
  "toProtoOrder order = \<lparr>por_Id = odo_ID order, por_UserId = odo_UserID order, por_AddressId = odo_AddressID order,
     por_TotalAmount = minorAmountString (odo_TotalAmount order), por_Status = order_status_string (odo_Status order),
     por_IsCompleted = odo_IsCompleted order, por_CreatedAt = odo_CreatedAt order, por_UpdatedAt = odo_UpdatedAt order,
     por_Items = map (\<lambda>item. \<lparr>poi_ProductId = oit_ProductID item, poi_ProductName = oit_ProductName item,
       poi_CoverImage = oit_CoverImage item, poi_Quantity = oit_Quantity item,
       poi_UnitPrice = minorAmountString (oit_UnitPrice item)\<rparr>) (odo_Items order),
     por_OrderNo = odo_OutTradeNo order, por_Currency = odo_Currency order,
     por_Shipping = map_option (\<lambda>a. \<lparr>pss_ReceiverName = shp_ReceiverName a, pss_ReceiverPhone = shp_ReceiverPhone a,
       pss_Province = shp_Province a, pss_City = shp_City a, pss_District = shp_District a,
       pss_DetailAddress = shp_DetailAddress a\<rparr>) (odo_Shipping order)\<rparr>"

section \<open>Order handlers\<close>

record pb_CreateOrderRequest =
  pco_AddressId :: int
  pco_Items :: "(int \<times> int) option list"
  pco_IdempotencyKey :: string

fun order_items :: "(int \<times> int) option list \<Rightarrow> error + OrderItemInput list" where
  "order_items [] = Inr []"
| "order_items (None # items) = Inl (BadRequest ''ORDER_ITEM_INVALID'')"
| "order_items (Some (productId, quantity) # items) = (case order_items items of
     Inl e \<Rightarrow> Inl e | Inr rest \<Rightarrow> Inr (\<lparr>oii_ProductID = productId, oii_Quantity = quantity\<rparr> # rest))"

abbreviation order_request_required :: error where
  "order_request_required \<equiv> BadRequest ''ORDER_REQUEST_REQUIRED''"

definition svc_CreateOrder ::
    "order_env \<Rightarrow> (nat \<Rightarrow> string) option \<Rightarrow> EcommerceClaims option \<Rightarrow> pb_CreateOrderRequest option \<Rightarrow> (db, pb_OrderInfo) prog" where
  "svc_CreateOrder env idGen ctx req0 = prog_bind (prog_lift (authenticatedClaims ctx)) (\<lambda>claims.
     case req0 of None \<Rightarrow> prog_throw order_request_required | Some req \<Rightarrow>
     prog_bind (prog_lift (order_items (pco_Items req))) (\<lambda>items.
     prog_bind (uc_CreateOrder env idGen (Some \<lparr>cor_UserID = clm_UserID claims, cor_AddressID = pco_AddressId req, cor_Items = items,
       cor_IdempotencyKey = TrimSpace (pco_IdempotencyKey req)\<rparr>)) (\<lambda>order. prog_return (toProtoOrder order))))"

text \<open>\<open>(id, user_id)\<close> of the request.\<close>

definition svc_GetOrder ::
    "(string \<Rightarrow> error + string) \<Rightarrow> EcommerceClaims option \<Rightarrow> (int \<times> int) option \<Rightarrow> (db, pb_OrderInfo) prog" where
  "svc_GetOrder D ctx req0 = prog_bind (prog_lift (authenticatedClaims ctx)) (\<lambda>claims.
     case req0 of None \<Rightarrow> prog_throw order_request_required | Some (i, userId) \<Rightarrow>
     let a = \<lparr>actor_ID = clm_UserID claims, actor_Admin = (clm_Role claims = ''admin'')\<rparr> in
     prog_bind (prog_lift (if actor_Admin a then Inr () else requireResourceOwner claims userId)) (\<lambda>_.
     prog_bind (InTx (uc_GetOrder D i a)) (\<lambda>order.
     if userId \<noteq> 0 \<and> odo_UserID order \<noteq> userId then prog_throw ErrOrderNotFound
     else prog_return (toProtoOrder order))))"

record pb_ListOrdersRequest =
  plo_UserId :: int
  plo_Ongoing :: bool
  plo_Page :: int
  plo_PageSize :: int

definition svc_ListOrders ::
    "(string \<Rightarrow> error + string) \<Rightarrow> EcommerceClaims option \<Rightarrow> pb_ListOrdersRequest option \<Rightarrow> (db, pb_OrderInfo list \<times> int) prog" where
  "svc_ListOrders D ctx req0 = prog_bind (prog_lift (authenticatedClaims ctx)) (\<lambda>claims.
     case req0 of None \<Rightarrow> prog_throw order_request_required | Some req \<Rightarrow>
     let a = \<lparr>actor_ID = clm_UserID claims, actor_Admin = (clm_Role claims = ''admin'')\<rparr> in
     prog_bind (prog_lift (if actor_Admin a \<and> plo_UserId req \<noteq> 0 then Inr (plo_UserId req)
        else case requireResourceOwner claims (plo_UserId req) of Inl e \<Rightarrow> Inl e | Inr _ \<Rightarrow> Inr (clm_UserID claims))) (\<lambda>userID.
     prog_bind (prog_lift (NewPage (plo_Page req) (plo_PageSize req))) (\<lambda>pagination.
     prog_bind (InTx (uc_ListOrders D a (Some \<lparr>lor_UserID = userID, lor_Ongoing = plo_Ongoing req, lor_Limit = pg_Limit pagination,
       lor_Offset = pg_Offset pagination\<rparr>))) (\<lambda>(orders, tot).
     prog_return (map toProtoOrder orders, wrap32 tot)))))"

definition svc_CancelOrder :: "EcommerceClaims option \<Rightarrow> (int \<times> int) option \<Rightarrow> (db, unit) prog" where
  "svc_CancelOrder ctx req0 = prog_bind (prog_lift (authenticatedClaims ctx)) (\<lambda>claims.
     case req0 of None \<Rightarrow> prog_throw order_request_required | Some (i, userId) \<Rightarrow>
     prog_bind (prog_lift (requireResourceOwner claims userId)) (\<lambda>_. InTx (uc_CancelOrder i (clm_UserID claims))))"

section \<open>Fulfilment handlers\<close>

record pb_FulfillmentRequest =
  pfq_Id :: int
  pfq_IdempotencyKey :: string
  pfq_Reason :: string
  pfq_Carrier :: string
  pfq_TrackingNumber :: string

definition svc_ShipOrder :: "EcommerceClaims option \<Rightarrow> pb_FulfillmentRequest option \<Rightarrow> (db, fulfillment_action) prog" where
  "svc_ShipOrder ctx req0 = prog_bind (prog_lift (requireAdmin ctx)) (\<lambda>claims.
     case req0 of None \<Rightarrow> prog_throw order_request_required | Some req \<Rightarrow>
     InTx (uc_ApplyFulfillment \<lparr>actor_ID = clm_UserID claims, actor_Admin = True\<rparr>
       \<lparr>ofi_OrderID = pfq_Id req, ofi_Action = ''ship'', ofi_IdempotencyKey = pfq_IdempotencyKey req, ofi_Reason = pfq_Reason req,
        ofi_Carrier = pfq_Carrier req, ofi_TrackingNumber = pfq_TrackingNumber req\<rparr>))"

definition svc_CompleteOrder :: "EcommerceClaims option \<Rightarrow> pb_FulfillmentRequest option \<Rightarrow> (db, fulfillment_action) prog" where
  "svc_CompleteOrder ctx req0 = prog_bind (prog_lift (actor ctx)) (\<lambda>a.
     case req0 of None \<Rightarrow> prog_throw order_request_required | Some req \<Rightarrow>
     InTx (uc_ApplyFulfillment a \<lparr>ofi_OrderID = pfq_Id req, ofi_Action = ''complete'', ofi_IdempotencyKey = pfq_IdempotencyKey req,
        ofi_Reason = pfq_Reason req, ofi_Carrier = '''', ofi_TrackingNumber = ''''\<rparr>))"

definition svc_ListOrderFulfillmentActions :: "EcommerceClaims option \<Rightarrow> int option \<Rightarrow> (db, fulfillment_action list) prog" where
  "svc_ListOrderFulfillmentActions ctx req0 = prog_bind (prog_lift (actor ctx)) (\<lambda>a.
     case req0 of None \<Rightarrow> prog_throw order_request_required | Some i \<Rightarrow> InTx (uc_ListFulfillment a i))"

section \<open>Reconciliation handlers\<close>

record pb_ReconciliationCommand =
  prc_Id :: int
  prc_ExpectedVersion :: int
  prc_IdempotencyKey :: string
  prc_Reason :: string
  prc_Evidence :: string

definition applyReconciliation ::
    "river option \<Rightarrow> EcommerceClaims option \<Rightarrow> pb_ReconciliationCommand option \<Rightarrow> string \<Rightarrow> (db, reconciliation_action_row) prog" where
  "applyReconciliation jobs ctx req0 action = prog_bind (prog_lift (requireAdmin ctx)) (\<lambda>claims.
     case req0 of None \<Rightarrow> prog_throw (BadRequest ''RECONCILIATION_INVALID'') | Some req \<Rightarrow>
     InTx (uc_ApplyReconciliation jobs \<lparr>actor_ID = clm_UserID claims, actor_Admin = True\<rparr>
       \<lparr>rin_PaymentID = prc_Id req, rin_ExpectedVersion = prc_ExpectedVersion req, rin_Action = action,
        rin_IdempotencyKey = prc_IdempotencyKey req, rin_Reason = prc_Reason req, rin_Evidence = prc_Evidence req\<rparr>))"

definition svc_RetryPaymentReconciliation ::
    "river option \<Rightarrow> EcommerceClaims option \<Rightarrow> pb_ReconciliationCommand option \<Rightarrow> (db, reconciliation_action_row) prog" where
  "svc_RetryPaymentReconciliation jobs ctx req = applyReconciliation jobs ctx req ''retry''"

definition svc_ResolvePaymentReconciliation ::
    "river option \<Rightarrow> EcommerceClaims option \<Rightarrow> pb_ReconciliationCommand option \<Rightarrow> (db, reconciliation_action_row) prog" where
  "svc_ResolvePaymentReconciliation jobs ctx req = applyReconciliation jobs ctx req ''resolve''"

definition svc_ListPaymentReconciliations ::
    "EcommerceClaims option \<Rightarrow> (int \<times> int) option \<Rightarrow> (db, ReconciliationCase list) prog" where
  "svc_ListPaymentReconciliations ctx req0 = prog_bind (prog_lift (requireAdmin ctx)) (\<lambda>claims.
     case req0 of None \<Rightarrow> prog_throw (BadRequest ''RECONCILIATION_INVALID'') | Some (afterId, pageSize) \<Rightarrow>
     InTx (uc_ListCases \<lparr>actor_ID = clm_UserID claims, actor_Admin = True\<rparr> afterId pageSize))"

definition svc_ListPaymentReconciliationActions ::
    "EcommerceClaims option \<Rightarrow> (int \<times> int \<times> int) option \<Rightarrow> (db, reconciliation_action_row list) prog" where
  "svc_ListPaymentReconciliationActions ctx req0 = prog_bind (prog_lift (requireAdmin ctx)) (\<lambda>claims.
     case req0 of None \<Rightarrow> prog_throw (BadRequest ''RECONCILIATION_INVALID'') | Some (i, afterId, pageSize) \<Rightarrow>
     InTx (uc_ListActions \<lparr>actor_ID = clm_UserID claims, actor_Admin = True\<rparr> i afterId pageSize))"

section \<open>Payment handlers\<close>

datatype pb_TradeState =
    TRADE_STATE_UNSPECIFIED
  | SUCCESS
  | REFUND
  | NOTPAY
  | CLOSED
  | REVOKED
  | USERPAYING
  | PAYERROR

fun toProtoTradeState :: "TradeState \<Rightarrow> pb_TradeState" where
  "toProtoTradeState TradeStateSuccess = SUCCESS"
| "toProtoTradeState TradeStateRefund = REFUND"
| "toProtoTradeState TradeStateNotPay = NOTPAY"
| "toProtoTradeState TradeStateClosed = CLOSED"
| "toProtoTradeState TradeStateRevoked = REVOKED"
| "toProtoTradeState TradeStateUserPaying = USERPAYING"
| "toProtoTradeState TradeStatePayError = PAYERROR"
| "toProtoTradeState TradeStateUnspecified = TRADE_STATE_UNSPECIFIED"

record pb_PaymentInfo =
  ppi_Id :: int
  ppi_OrderId :: int
  ppi_UserId :: int
  ppi_MerchantId :: int
  ppi_AmountMinor :: int
  ppi_Currency :: string
  ppi_Status :: payment_status
  ppi_Method :: string
  ppi_ThirdPartyTxId :: string
  ppi_OutTradeNo :: string
  ppi_CreatedAt :: int
  ppi_ReconciliationVersion :: int
  ppi_ReconciliationStatus :: reconciliation_status
  ppi_ReconciliationReason :: string
  ppi_PaidAt :: "int option"

definition toProtoPaymentInfo :: "PaymentDO \<Rightarrow> pb_PaymentInfo" where
  "toProtoPaymentInfo payment = \<lparr>ppi_Id = pdo_ID payment, ppi_OrderId = pdo_OrderID payment, ppi_UserId = pdo_UserID payment,
     ppi_MerchantId = pdo_MerchantID payment, ppi_AmountMinor = pdo_Amount payment, ppi_Currency = pdo_Currency payment,
     ppi_Status = pdo_Status payment, ppi_Method = pdo_Method payment, ppi_ThirdPartyTxId = pdo_ThirdPartyTxID payment,
     ppi_OutTradeNo = pdo_OutTradeNo payment, ppi_CreatedAt = pdo_CreatedAt payment,
     ppi_ReconciliationVersion = pdo_ReconciliationVersion payment, ppi_ReconciliationStatus = pdo_ReconciliationStatus payment,
     ppi_ReconciliationReason = pdo_ReconciliationReason payment, ppi_PaidAt = pdo_PaidAt payment\<rparr>"

record pb_CreatePaymentReq =
  pcp_OrderNo :: string
  pcp_Method :: string
  pcp_ExtraParams :: "string \<Rightarrow> string option"
  pcp_Description :: string

record pb_CreatePaymentReply =
  pcy_PaymentId :: int
  pcy_OutTradeNo :: string
  pcy_ActionType :: string
  pcy_Payload :: string

text \<open>\<open>clientIP\<close> is the address the transport middleware resolved. A result of the use case is
  never nil here.\<close>

definition svc_CreatePayment ::
    "('p world, 'h) paymentUsecase \<Rightarrow> string \<Rightarrow> string \<Rightarrow> string \<Rightarrow> EcommerceClaims option \<Rightarrow> pb_CreatePaymentReq option \<Rightarrow>
     ('p world, pb_CreatePaymentReply) prog" where
  "svc_CreatePayment uc outTradeNo leaseToken clientIP ctx req0 = prog_bind (prog_lift (authenticatedClaims ctx)) (\<lambda>claims.
     case req0 of None \<Rightarrow> prog_throw (BadRequest ''ORDER_NO_REQUIRED'') | Some req \<Rightarrow>
     if TrimSpace (pcp_OrderNo req) = '''' then prog_throw (BadRequest ''ORDER_NO_REQUIRED'')
     else prog_bind (prog_lift (ParsePaymentMethod (pcp_Method req))) (\<lambda>method.
     prog_bind (PrepayForOrder uc outTradeNo leaseToken \<lparr>pfa_OrderNo = pcp_OrderNo req, pfa_UserID = clm_UserID claims,
       pfa_Method = method, pfa_ClientIP = clientIP, pfa_Extension = pcp_ExtraParams req, pfa_Description = pcp_Description req\<rparr>) (\<lambda>result.
     prog_return \<lparr>pcy_PaymentId = pdo_ID (pfr_Payment result), pcy_OutTradeNo = pdo_OutTradeNo (pfr_Payment result),
       pcy_ActionType = act_Type (prs_Action (pfr_Prepay result)), pcy_Payload = act_Payload (prs_Action (pfr_Prepay result))\<rparr>)))"

record pb_QueryPaymentReply =
  pqp_OutTradeNo :: string
  pqp_TransactionId :: string
  pqp_TradeState :: pb_TradeState
  pqp_AmountMinor :: int
  pqp_Currency :: string

text \<open>A nil request and an empty number are answered alike, so the request is the number.\<close>

definition svc_QueryPayment ::
    "('p world, 'h) paymentUsecase \<Rightarrow> EcommerceClaims option \<Rightarrow> string \<Rightarrow> ('p world, pb_QueryPaymentReply) prog" where
  "svc_QueryPayment uc ctx outTradeNo = prog_bind (prog_lift (authenticatedClaims ctx)) (\<lambda>claims.
     if outTradeNo = '''' then prog_throw (BadRequest ''OUT_TRADE_NO_REQUIRED'')
     else prog_bind (QueryPayment uc outTradeNo (clm_UserID claims)) (\<lambda>result.
       prog_return \<lparr>pqp_OutTradeNo = qrs_OutTradeNo result, pqp_TransactionId = qrs_TransactionID result,
         pqp_TradeState = toProtoTradeState (qrs_TradeState result), pqp_AmountMinor = qrs_Amount result,
         pqp_Currency = qrs_Currency result\<rparr>))"

definition svc_ClosePayment :: "('p world, 'h) paymentUsecase \<Rightarrow> EcommerceClaims option \<Rightarrow> string \<Rightarrow> ('p world, bool) prog" where
  "svc_ClosePayment uc ctx outTradeNo = prog_bind (prog_lift (authenticatedClaims ctx)) (\<lambda>claims.
     if outTradeNo = '''' then prog_throw (BadRequest ''OUT_TRADE_NO_REQUIRED'')
     else prog_bind (ClosePayment uc outTradeNo (clm_UserID claims)) (\<lambda>result. prog_return (crs_Success result)))"

definition svc_GetPayment :: "EcommerceClaims option \<Rightarrow> int option \<Rightarrow> ('p world, pb_PaymentInfo) prog" where
  "svc_GetPayment ctx req0 = prog_bind (prog_lift (authenticatedClaims ctx)) (\<lambda>claims.
     case req0 of None \<Rightarrow> prog_throw (BadRequest ''PAYMENT_REQUEST_REQUIRED'') | Some i \<Rightarrow>
     prog_bind (uc_GetPayment i (clm_UserID claims)) (\<lambda>payment. prog_return (toProtoPaymentInfo payment)))"

definition svc_GetPaymentByOrder :: "EcommerceClaims option \<Rightarrow> int option \<Rightarrow> ('p world, pb_PaymentInfo) prog" where
  "svc_GetPaymentByOrder ctx req0 = prog_bind (prog_lift (authenticatedClaims ctx)) (\<lambda>claims.
     case req0 of None \<Rightarrow> prog_throw (BadRequest ''PAYMENT_REQUEST_REQUIRED'') | Some orderId \<Rightarrow>
     prog_bind (uc_GetPaymentByOrder orderId (clm_UserID claims)) (\<lambda>payment. prog_return (toProtoPaymentInfo payment)))"

definition svc_RefundPayment ::
    "('p world, 'h) paymentUsecase \<Rightarrow> string option \<Rightarrow> EcommerceClaims option \<Rightarrow> int option \<Rightarrow> ('p world, unit) prog" where
  "svc_RefundPayment uc refundNo ctx req0 = prog_bind (prog_lift (requireAdmin ctx)) (\<lambda>_.
     case req0 of None \<Rightarrow> prog_throw (BadRequest ''PAYMENT_REQUEST_REQUIRED'') | Some i \<Rightarrow>
     if i \<le> 0 then prog_throw (BadRequest ''PAYMENT_REQUEST_REQUIRED'')
     else prog_bind (RefundPayment uc refundNo i) (\<lambda>_. prog_return ()))"

record pb_CheckJobRequest =
  pcj_PaymentId :: int
  pcj_MaxPolls :: int
  pcj_PollIntervalSeconds :: int
  pcj_DelaySeconds :: int
  pcj_Trigger :: string

text \<open>Durations count nanoseconds in an \<open>int64\<close>.\<close>

definition svc_CreatePaymentCheckJob ::
    "('p world, 'h) paymentUsecase \<Rightarrow> EcommerceClaims option \<Rightarrow> pb_CheckJobRequest option \<Rightarrow> ('p world, int \<times> bool) prog" where
  "svc_CreatePaymentCheckJob uc ctx req0 = prog_bind (prog_lift (requireAdmin ctx)) (\<lambda>_.
     case req0 of None \<Rightarrow> prog_throw (BadRequest ''PAYMENT_CHECK_REQUEST_INVALID'') | Some req \<Rightarrow>
     if pcj_PaymentId req \<le> 0 \<or> pcj_DelaySeconds req < 0 then prog_throw (BadRequest ''PAYMENT_CHECK_REQUEST_INVALID'')
     else CreateCheckJob uc (pcj_PaymentId req) (pcj_MaxPolls req) (wrap64 (pcj_PollIntervalSeconds req * 1000000000))
       (wrap64 (pcj_DelaySeconds req * 1000000000)) (pcj_Trigger req))"

section \<open>Provider callbacks\<close>

record callbackWindow =
  cbw_minute :: int
  cbw_count :: int

record providerCallbackLimiter =
  cbl_limit :: int
  cbl_maxKeys :: int
  cbl_lastCleanupMinute :: int
  cbl_windows :: "(string \<times> callbackWindow) list"

definition newProviderCallbackLimiter :: "int \<Rightarrow> providerCallbackLimiter" where
  "newProviderCallbackLimiter lmt = \<lparr>cbl_limit = lmt, cbl_maxKeys = 4096, cbl_lastCleanupMinute = 0, cbl_windows = []\<rparr>"

text \<open>The map as an association list with distinct keys; \<open>now\<close> in seconds, as \<open>Unix()\<close> gives it.\<close>

definition cleanup_windows :: "int \<Rightarrow> providerCallbackLimiter \<Rightarrow> providerCallbackLimiter" where
  "cleanup_windows minute l = (if cbl_lastCleanupMinute l \<noteq> minute
     then l\<lparr>cbl_windows := filter (\<lambda>(k, w). \<not> cbw_minute w < minute) (cbl_windows l), cbl_lastCleanupMinute := minute\<rparr> else l)"

definition put_window :: "string \<Rightarrow> callbackWindow \<Rightarrow> providerCallbackLimiter \<Rightarrow> providerCallbackLimiter" where
  "put_window key w l = l\<lparr>cbl_windows := AList.update key w (cbl_windows l)\<rparr>"

definition callback_Allow :: "string \<Rightarrow> int \<Rightarrow> providerCallbackLimiter \<Rightarrow> bool \<times> providerCallbackLimiter" where
  "callback_Allow key now l0 =
     (let minute = go_div now 60; l = cleanup_windows minute l0; found = map_of (cbl_windows l) key in
      if found = None \<and> go_len (cbl_windows l) \<ge> cbl_maxKeys l then (False, l)
      else let window0 = (case found of None \<Rightarrow> \<lparr>cbw_minute = 0, cbw_count = 0\<rparr> | Some w \<Rightarrow> w);
               window = (if cbw_minute window0 \<noteq> minute then \<lparr>cbw_minute = minute, cbw_count = 0\<rparr> else window0) in
        if cbw_count window \<ge> cbl_limit l then (False, put_window key window l)
        else (True, put_window key (window\<lparr>cbw_count := cbw_count window + 1\<rparr>) l))"

text \<open>\<open>SplitHostPort\<close> is that of package net: the host, or nothing when the address has no port.\<close>

definition callbackLimiterKey :: "(string \<Rightarrow> string option) \<Rightarrow> string \<Rightarrow> string \<Rightarrow> string" where
  "callbackLimiterKey SplitHostPort provider remoteAddr =
     (let host = (case SplitHostPort remoteAddr of Some h \<Rightarrow> h | None \<Rightarrow> remoteAddr);
          addr = (if host = '''' then ''unknown'' else host) in provider @ ''|'' @ addr)"

text \<open>The acknowledgement the handler writes, the world and the limiter after it.\<close>

definition handleNotify ::
    "('p world, 'h) paymentUsecase \<Rightarrow> (string \<Rightarrow> string option) \<Rightarrow> string \<Rightarrow> string \<Rightarrow> 'h \<Rightarrow> int \<Rightarrow> 'p world \<times> providerCallbackLimiter \<Rightarrow>
     PaymentNotificationAck \<times> 'p world \<times> providerCallbackLimiter" where
  "handleNotify uc SplitHostPort rawProvider remoteAddr request now = (\<lambda>(w, l).
     let provider = ToLower (TrimSpace rawProvider) in
     if \<not> SupportsNotificationProvider uc provider then (uc_NotificationAck uc provider False, w, l)
     else case callback_Allow (callbackLimiterKey SplitHostPort provider remoteAddr) now l of (allowed, l') \<Rightarrow>
       if \<not> allowed then (uc_NotificationAck uc provider False, w, l')
       else case HandleNotification uc provider request w of
         (Inl e, w') \<Rightarrow> (uc_NotificationAck uc provider False, w', l')
       | (Inr _, w') \<Rightarrow> (uc_NotificationAck uc provider True, w', l'))"

section \<open>Callers see and touch their own orders only\<close>

lemma decryptShipping_user: "decryptShipping D order = Inr x \<Longrightarrow> odo_UserID x = odo_UserID order"
  by (auto simp: decryptShipping_def split: option.splits sum.splits)

lemma decrypt_all_users: "decrypt_all D orders = Inr xs \<Longrightarrow> map odo_UserID xs = map odo_UserID orders"
  by (induction orders arbitrary: xs) (auto split: sum.splits dest: decryptShipping_user)

lemma with_items_user: "with_items load s = Inr (x, s') \<Longrightarrow> \<exists>r s1. load s = Inr (r, s1) \<and> odo_UserID x = ord_UserID r \<and> odo_ID x = ord_ID r"
  by (fastforce simp: with_items_def tx_simps toBizOrder_def)

lemma InTx_run: "InTx m s = (Inr x, s') \<longleftrightarrow> m s = Inr (x, s')"
  by (auto simp: InTx_def split: sum.splits)

lemma toBizOrder_user: "odo_UserID ((toBizOrder r)\<lparr>odo_Items := its\<rparr>) = ord_UserID r"
  by (simp add: toBizOrder_def)

lemma toProtoOrder_user: "por_UserId (toProtoOrder order) = odo_UserID order"
  by (simp add: toProtoOrder_def)

lemma uc_CreateOrder_user:
  assumes "uc_CreateOrder env idGen (Some req) s = (Inr x, s')"
  shows "odo_UserID x = cor_UserID req"
proof -
  obtain nos where n: "idGen = Some nos"
    using assms by (cases idGen) (auto simp: uc_CreateOrder_def split: sum.splits prod.splits)
  from assms [unfolded n] obtain key r its where "List.find (same_key (cor_UserID req) key) (tb_orders s') = Some r"
    "decryptShipping (env_DecryptPhone env) ((toBizOrder r)\<lparr>odo_Items := its\<rparr>) = Inr x"
    by (rule uc_CreateOrder_Inr)
  then show ?thesis
    using decryptShipping_user by (fastforce simp: toBizOrder_user find_Some_iff)
qed

lemma order_by_user:
  assumes "q_GetOrderByUser i u s = Inr (r, s')"
  shows "r \<in> set (tb_orders s) \<and> ord_UserID r = u \<and> ord_ID r = i"
  using assms by (auto simp: q_GetOrderByUser_def ord.find_Inr find_Some_iff)

lemma uc_GetOrder_user:
  assumes "uc_GetOrder D i a s = Inr (x, s')" and "\<not> actor_Admin a"
  shows "odo_UserID x = actor_ID a"
proof -
  obtain y s1 where y: "repo_GetOrderByUser i (actor_ID a) s = Inr (y, s1)" "decryptShipping D y = Inr x"
    using assms by (auto simp: uc_GetOrder_def tx_simps)
  then have "odo_UserID y = actor_ID a"
    unfolding repo_GetOrderByUser_def by (auto dest!: with_items_user order_by_user)
  then show ?thesis using decryptShipping_user [OF y(2)] by simp
qed

lemma sql_page_set: "set (sql_page key lmt off t) \<subseteq> set t"
  unfolding sql_page_def by (auto dest!: in_set_takeD in_set_dropD)

lemma listOrders_users:
  assumes "listOrders load s = Inr (xs, s')" and "\<And>rows s1. load s = Inr (rows, s1) \<Longrightarrow> \<forall>r \<in> set rows. ord_UserID r = u"
  shows "\<forall>x \<in> set xs. odo_UserID x = u"
  using assms by (fastforce simp: listOrders_def tx_simps toBizOrder_user split: if_splits)

lemma uc_ListOrders_users:
  assumes "uc_ListOrders D a (Some req) s = Inr ((xs, tot), s')"
  shows "\<forall>x \<in> set xs. odo_UserID x = lor_UserID req"
proof -
  obtain p :: Pagination and ys s1 where ys: "(if lor_Ongoing req then repo_ListOngoingOrdersByUser (lor_UserID req) (pg_Limit p) (pg_Offset p)
      else repo_ListOrdersByUser (lor_UserID req) (pg_Limit p) (pg_Offset p)) s = Inr (ys, s1)" and d: "decrypt_all D ys = Inr xs"
    using assms by (auto simp: uc_ListOrders_def tx_simps split: if_splits)
  have "\<forall>y \<in> set ys. odo_UserID y = lor_UserID req"
    using ys
    by (auto dest!: subsetD [OF sql_page_set] split: if_splits simp: repo_ListOngoingOrdersByUser_def repo_ListOrdersByUser_def tx_simps
        intro!: listOrders_users [where u = "lor_UserID req", rule_format] simp: q_ListOngoingOrdersByUser_def q_ListOrdersByUser_def)
  then have "set (map odo_UserID xs) \<subseteq> {lor_UserID req}" unfolding decrypt_all_users [OF d] by auto
  then show ?thesis by auto
qed

text \<open>The owners of what a successful request shows or cancels.\<close>

inductive private_reply :: "EcommerceClaims option \<Rightarrow> db \<Rightarrow> int list \<Rightarrow> bool" for ctx where
  OrderCreated: "svc_CreateOrder env idGen ctx req s = (Inr shown, s') \<Longrightarrow> private_reply ctx s [por_UserId shown]"
| OrderShown: "svc_GetOrder D ctx req s = (Inr shown, s') \<Longrightarrow> private_reply ctx s [por_UserId shown]"
| OrdersListed: "svc_ListOrders D ctx lreq s = (Inr (shown, tot), s') \<Longrightarrow> private_reply ctx s (map por_UserId shown)"
| OrderCancelled: "svc_CancelOrder ctx (Some (i, u)) s = (Inr (), s') \<Longrightarrow> find_row ord_ID i (tb_orders s) = Some r \<Longrightarrow>
    private_reply ctx s [ord_UserID r]"
| PaymentShown: "svc_GetPayment ctx preq (w :: unit world) = (Inr p, w') \<Longrightarrow> private_reply ctx (w_db w) [ppi_UserId p]"
| PaymentOfOrder: "svc_GetPaymentByOrder ctx preq (w :: unit world) = (Inr p, w') \<Longrightarrow> private_reply ctx (w_db w) [ppi_UserId p]"

lemma authenticatedClaims_Inr: "authenticatedClaims ctx = Inr claims \<longleftrightarrow> ctx = Some claims \<and> 0 < clm_UserID claims"
  by (auto simp: authenticatedClaims_def split: option.splits)

lemma prog_bind_run: "prog_bind m f w = (Inr y, w') \<longleftrightarrow> (\<exists>x w1. m w = (Inr x, w1) \<and> f x w1 = (Inr y, w'))"
  by (auto simp: prog_bind_def prog_try_def prog_throw_def split: prod.splits sum.splits)

lemmas handler_run = prog_bind_run prog_lift_def prog_return_def prog_throw_def authenticatedClaims_Inr InTx_run

lemma svc_CreateOrder_owner:
  "svc_CreateOrder env idGen ctx req s = (Inr shown, s') \<Longrightarrow> \<exists>claims. ctx = Some claims \<and> 0 < clm_UserID claims \<and> por_UserId shown = clm_UserID claims"
  by (auto simp: svc_CreateOrder_def handler_run toProtoOrder_user split: option.splits dest!: uc_CreateOrder_user)

lemma svc_GetOrder_owner:
  assumes "svc_GetOrder D ctx req s = (Inr shown, s')"
  shows "\<exists>claims. ctx = Some claims \<and> 0 < clm_UserID claims \<and> (clm_Role claims = ''admin'' \<or> por_UserId shown = clm_UserID claims)"
proof (cases req)
  case None
  then show ?thesis using assms by (auto simp: svc_GetOrder_def handler_run)
next
  case (Some q)
  obtain i u where "req = Some (i, u)" using Some by (cases q) auto
  then show ?thesis using assms
    by (auto simp: svc_GetOrder_def handler_run toProtoOrder_user Let_def split: if_splits dest!: uc_GetOrder_user)
qed

lemma svc_ListOrders_owner:
  assumes "svc_ListOrders D ctx req s = (Inr (shown, tot), s')"
  shows "\<exists>claims. ctx = Some claims \<and> 0 < clm_UserID claims \<and> (clm_Role claims = ''admin'' \<or> set (map por_UserId shown) \<subseteq> {clm_UserID claims})"
proof (cases req)
  case None
  then show ?thesis using assms by (auto simp: svc_ListOrders_def handler_run)
next
  case (Some q)
  from assms obtain claims uid orders n s1 and p :: Pagination where c: "ctx = Some claims" "0 < clm_UserID claims"
    and u: "(if clm_Role claims = ''admin'' \<and> plo_UserId q \<noteq> 0 then Inr (plo_UserId q)
        else case requireResourceOwner claims (plo_UserId q) of Inl e \<Rightarrow> Inl e | Inr _ \<Rightarrow> Inr (clm_UserID claims)) = Inr uid"
    and run: "uc_ListOrders D \<lparr>actor_ID = clm_UserID claims, actor_Admin = (clm_Role claims = ''admin'')\<rparr>
        (Some \<lparr>lor_UserID = uid, lor_Ongoing = plo_Ongoing q, lor_Limit = pg_Limit p, lor_Offset = pg_Offset p\<rparr>) s = Inr ((orders, n), s1)"
    and shown: "shown = map toProtoOrder orders"
    unfolding svc_ListOrders_def Some by (auto simp: handler_run Let_def simp del: if_split)
  have "clm_Role claims = ''admin'' \<or> uid = clm_UserID claims" using u by (auto split: if_splits sum.splits)
  moreover have "set (map por_UserId shown) \<subseteq> {uid}" using uc_ListOrders_users [OF run] by (auto simp: shown toProtoOrder_user)
  ultimately show ?thesis using c by blast
qed

lemma CancelOrderByUser_owner:
  assumes "CancelOrderByUser i u s = Inr ((), s')" and "find_row ord_ID i (tb_orders s) = Some r"
  shows "ord_UserID r = u"
  using assms by (auto simp: CancelOrderByUser_def q_GetOrderByUserForUpdate_def tx_simps split: if_splits)

lemma svc_CancelOrder_owner:
  assumes "svc_CancelOrder ctx (Some (i, u)) s = (Inr (), s')" and "find_row ord_ID i (tb_orders s) = Some r"
  shows "\<exists>claims. ctx = Some claims \<and> 0 < clm_UserID claims \<and> ord_UserID r = clm_UserID claims"
  using assms(1) CancelOrderByUser_owner [OF _ assms(2)]
  by (auto simp: svc_CancelOrder_def handler_run uc_CancelOrder_def tx_simps split: if_splits)

lemma transact_run: "transact m w = (Inr x, w') \<longleftrightarrow> (\<exists>s'. m (w_db w) = Inr (x, s') \<and> w' = w\<lparr>w_db := s'\<rparr>)"
  by (auto simp: transact_def on_db_def InTx_def split: prod.splits sum.splits)

lemma svc_GetPayment_owner:
  assumes "svc_GetPayment ctx req w = (Inr p, w')"
  shows "\<exists>claims. ctx = Some claims \<and> 0 < clm_UserID claims \<and> ppi_UserId p = clm_UserID claims"
  using assms
  by (auto simp: svc_GetPayment_def handler_run uc_GetPayment_def transact_run repo_GetPaymentByUser_def tx_simps toProtoPaymentInfo_def
      split: option.splits if_splits)

text \<open>The payment of an order has the order's user: that is part of the ledger's invariant.\<close>

lemma payment_user_of_order:
  assumes "mall_reachable s" and "p \<in> set (tb_payments s)" and "r \<in> set (tb_orders s)" and "pay_OrderID p = ord_ID r"
  shows "pay_UserID p = ord_UserID r"
proof -
  have ok: "pk ord_ID (tb_orders s)" "pk pay_ID (tb_payments s)" using mall.sim_invariants [OF assms(1)] by (auto simp: db_ok_def)
  have "find_row pay_ID (pay_ID p) (tb_payments s) = Some p" "find_row ord_ID (ord_ID r) (tb_orders s) = Some r"
    using ok assms(2,3) by (auto simp: pk_def intro: find_row_mem)
  then show ?thesis using reach_pay [OF assms(1), of "pay_ID p" p] assms(4) by (auto simp: pay_ok_def)
qed

lemma svc_GetPaymentByOrder_owner:
  assumes "svc_GetPaymentByOrder ctx req w = (Inr p, w')" and "mall_reachable (w_db w)"
  shows "\<exists>claims. ctx = Some claims \<and> 0 < clm_UserID claims \<and> ppi_UserId p = clm_UserID claims"
proof -
  obtain claims i order w1 q where c: "ctx = Some claims" "0 < clm_UserID claims"
    and o: "transact (repo_GetOrderByUser i (clm_UserID claims)) w = (Inr order, w1)"
    and q: "transact (repo_GetLatestPaymentByOrder (odo_ID order)) w1 = (Inr q, w')" and p: "p = toProtoPaymentInfo q"
    using assms(1) by (auto simp: svc_GetPaymentByOrder_def handler_run uc_GetPaymentByOrder_def split: option.splits)
  obtain s1 where s1: "with_items (q_GetOrderByUser i (clm_UserID claims)) (w_db w) = Inr (order, s1)" "w1 = w\<lparr>w_db := s1\<rparr>"
    using o by (auto simp: transact_run repo_GetOrderByUser_def)
  then have same: "s1 = w_db w" by (auto simp: with_items_def tx_simps loadItems_def q_GetOrderByUser_def ord.find_Inr q_ListOrderItems_def)
  obtain r where r: "r \<in> set (tb_orders (w_db w))" "ord_UserID r = clm_UserID claims" "odo_ID order = ord_ID r"
    using with_items_user [OF s1(1)] order_by_user by metis
  obtain row where row: "row \<in> set (tb_payments (w_db w))" "pay_OrderID row = odo_ID order" "q = toBizPayment row"
  proof -
    obtain row rest where "payments_newest_first (filter (\<lambda>p. pay_OrderID p = odo_ID order) (tb_payments (w_db w))) = row # rest" "q = toBizPayment row"
      using q by (auto simp: s1(2) same transact_run repo_GetLatestPaymentByOrder_def load_payment_def q_GetLatestPaymentByOrder_def tx_simps split: list.splits)
    moreover from this(1) have "row \<in> set (filter (\<lambda>p. pay_OrderID p = odo_ID order) (tb_payments (w_db w)))"
      unfolding payments_newest_first_def by (metis list.set_intros(1) set_sort)
    ultimately show thesis using that [of row] by simp
  qed
  have "pay_UserID row = ord_UserID r" using payment_user_of_order [OF assms(2) row(1) r(1)] row(2) r(3) by simp
  then show ?thesis using c r(2) row(3) p by (simp add: toProtoPaymentInfo_def toBizPayment_def)
qed


section \<open>Amounts\<close>

text \<open>Reading an amount back: its digits without the point, in minor units.\<close>

definition amount_value :: "string \<Rightarrow> int" where
  "amount_value v = (if v \<noteq> [] \<and> hd v = CHR ''-'' then - int (digits_value (filter (\<lambda>c. c \<noteq> CHR ''.'') (tl v)))
     else int (digits_value (filter (\<lambda>c. c \<noteq> CHR ''.'') v)))"

lemma digits_value_append: "digits_value (v @ [c, d]) = digits_value v * 100 + digits_value [c, d]"
  by (simp add: digits_value_def)

lemma digit_not_point:
  fixes n :: nat
  assumes "n < 10"
  shows "(char_of (48 + n) :: char) \<noteq> CHR ''.''"
proof
  assume "(char_of (48 + n) :: char) = CHR ''.''"
  then have "(of_char (char_of (48 + n) :: char) :: nat) = of_char (CHR ''.'')" by (rule arg_cong)
  then show False using assms by simp
qed

lemma fmtTwoDigits_shape:
  assumes "0 \<le> v" and "v < 100"
  obtains c d where "fmtTwoDigits v = [c, d]" and "c \<noteq> CHR ''.''" and "d \<noteq> CHR ''.''" and "digits_value [c, d] = nat v"
proof (cases "v < 10")
  case True
  then have n: "nat v < 10" by simp
  have "nat_digits (nat v) = [char_of (48 + nat v)]" using n by (simp add: nat_digits.simps [of "nat v"])
  then have "fmtTwoDigits v = [CHR ''0'', char_of (48 + nat v)]"
    using True assms by (simp add: fmtTwoDigits_def FormatInt_def)
  then show thesis using that digit_not_point [OF n] n by (simp add: digits_value_def)
next
  case False
  define n where "n = nat v"
  have n: "\<not> n < 10" "n div 10 < 10" "n mod 10 < 10" using False assms by (auto simp: n_def)
  have "fmtTwoDigits v = [char_of (48 + n div 10), char_of (48 + n mod 10)]"
    using False assms n by (simp add: fmtTwoDigits_def FormatInt_def n_def [symmetric] nat_digits.simps [of n] nat_digits.simps [of "n div 10"])
  then show thesis using that n digit_not_point [of "n div 10"] digit_not_point [of "n mod 10"] by (simp add: digits_value_def n_def)
qed

lemma FormatInt_digits:
  assumes "0 \<le> q"
  shows "digits_value (FormatInt q) = nat q" and "filter (\<lambda>c. c \<noteq> CHR ''.'') (FormatInt q) = FormatInt q"
    and "FormatInt q = c # w \<Longrightarrow> c \<noteq> CHR ''-''"
proof -
  have f: "FormatInt q = nat_digits (nat q)" using assms by (simp add: FormatInt_def)
  show "digits_value (FormatInt q) = nat q" by (simp add: f nat_digits_value)
  have "c \<noteq> CHR ''.'' \<and> c \<noteq> CHR ''-''" if "c \<in> set (FormatInt q)" for c
    using nat_digits_chars [of c "nat q"] that by (auto simp: f)
  then show "filter (\<lambda>c. c \<noteq> CHR ''.'') (FormatInt q) = FormatInt q" "FormatInt q = c # w \<Longrightarrow> c \<noteq> CHR ''-''"
    by (auto simp: filter_id_conv)
qed

lemma FormatInt_nonempty: "FormatInt q \<noteq> []"
  by (simp add: FormatInt_def nat_digits.simps [of "nat q"])

lemma plain_amount:
  assumes "0 \<le> a"
  obtains c d where "FormatInt (go_div a 100) @ ''.'' @ fmtTwoDigits (go_rem a 100) = FormatInt (a div 100) @ [CHR ''.'', c, d]"
    and "int (digits_value (filter (\<lambda>c. c \<noteq> CHR ''.'') (FormatInt (a div 100) @ [CHR ''.'', c, d]))) = a"
proof -
  have r: "go_div a 100 = a div 100" "go_rem a 100 = a mod 100"
    using assms by (simp_all add: go_div_nonneg go_rem_def minus_mult_div_eq_mod)
  obtain c d where cd: "fmtTwoDigits (a mod 100) = [c, d]" "c \<noteq> CHR ''.''" "d \<noteq> CHR ''.''" "digits_value [c, d] = nat (a mod 100)"
    by (rule fmtTwoDigits_shape [of "a mod 100"]) simp_all
  have q: "0 \<le> a div 100" using assms by simp
  have "filter (\<lambda>c. c \<noteq> CHR ''.'') (FormatInt (a div 100) @ [CHR ''.'', c, d]) = FormatInt (a div 100) @ [c, d]"
    using FormatInt_digits(2) [OF q] cd by simp
  moreover have "int (digits_value (FormatInt (a div 100) @ [c, d])) = a"
    using FormatInt_digits(1) [OF q] cd(4) q by (simp add: digits_value_append)
  ultimately show thesis using that [of c d] cd(1) r by simp
qed

text \<open>
  C29. Amounts survive their text form. Every \<open>int64\<close> amount but the smallest is shown with
  exactly two digits after the point, and reading the text back as minor units gives the
  amount; so no two amounts look alike.
\<close>

theorem amount_text_round_trip:
  assumes "- (2 ^ 63) < a" and "a \<le> MaxInt64"
  shows "amount_value (minorAmountString a) = a \<and>
    length (minorAmountString a) > 3 \<and> minorAmountString a ! (length (minorAmountString a) - 3) = CHR ''.''"
proof -
  have w: "wrap64 (- a) = - a" if "a < 0" using that assms by (intro wrap64_id) (simp add: int64_range_def)
  define b where "b = \<bar>a\<bar>"
  obtain c d where s: "FormatInt (go_div b 100) @ ''.'' @ fmtTwoDigits (go_rem b 100) = FormatInt (b div 100) @ [CHR ''.'', c, d]"
    and v: "int (digits_value (filter (\<lambda>c. c \<noteq> CHR ''.'') (FormatInt (b div 100) @ [CHR ''.'', c, d]))) = b"
    by (rule plain_amount [of b]) (simp_all add: b_def)
  obtain x xs where x: "FormatInt (b div 100) = x # xs" using FormatInt_nonempty by (cases "FormatInt (b div 100)") auto
  have "x \<noteq> CHR ''-''" using FormatInt_digits(3) [OF _ x] by (simp add: b_def)
  then have plain: "amount_value (FormatInt (b div 100) @ [CHR ''.'', c, d]) = b"
    using v by (simp add: amount_value_def x)
  have m: "minorAmountString a = (if a < 0 then ''-'' else '''') @ FormatInt (b div 100) @ [CHR ''.'', c, d]"
    using s w by (auto simp: minorAmountString_def Let_def b_def)
  have "amount_value (minorAmountString a) = a"
  proof (cases "a < 0")
    case True
    then show ?thesis using v unfolding m by (simp add: amount_value_def b_def)
  next
    case False
    then show ?thesis using plain unfolding m by (simp add: b_def)
  qed
  moreover have "length (minorAmountString a) > 3" by (simp add: m x)
  moreover have "minorAmountString a ! (length (minorAmountString a) - 3) = CHR ''.''" by (simp add: m nth_append)
  ultimately show ?thesis by simp
qed

end
