(* ===== verification/RateLimit.thy ===== *)
theory RateLimit
  imports Cache Sessions "HOL-Library.Sublist"
begin

text \<open>
  Write limits (app/mall/internal/biz/rate\_limit.go, app/mall/internal/data/rate\_limit.go,
  app/mall/internal/conf/community.go) and the transport middleware in front of them
  (app/mall/internal/server/middleware/community.go, client\_ip.go and body\_limit.go).

  The limiter counts in fixed windows of a minute, kept by Redis with an expiry; the scripts are
  atomic. The hash of an address (the first half of its SHA-256, in hexadecimal) and the
  functions of package net are parameters; nothing below depends on what they compute.
\<close>

section \<open>Operations and quotas\<close>

definition RateLimitCategory :: "string \<Rightarrow> string" where
  "RateLimitCategory operation =
     (if operation \<in> {''/api.community.v1.Community/CreatePost'', ''/api.community.v1.Community/UpdatePost''} then ''posts''
      else if operation = ''/api.community.v1.Community/CreateComment'' then ''comments''
      else if operation \<in> {''/api.media.v1.Media/CreateImageUpload'', ''/api.media.v1.Media/CompleteImageUpload''} then ''uploads''
      else if operation \<in> {''/api.user.v1.User/RecordProductView'', ''/api.user.v1.User/DeleteBrowsingHistoryItem'',
        ''/api.user.v1.User/ClearBrowsingHistory'', ''/api.community.v1.Community/LikePost'', ''/api.community.v1.Community/UnlikePost'',
        ''/api.community.v1.Community/DeletePost'', ''/api.community.v1.Community/DeleteComment''} then ''interactions''
      else if operation \<in> {''/api.user.v1.User/Login'', ''/api.user.v1.User/Register'', ''/api.user.v1.User/RefreshToken'',
        ''/api.user.v1.User/ChangePassword''} then ''auth''
      else '''')"

record community_conf =
  cc_HistoryRetentionDays :: int
  cc_CleanupBatchSize :: int
  cc_MaintenanceWorkers :: int
  cc_MediaWorkers :: int
  cc_PostsPerMinute :: int
  cc_CommentsPerMinute :: int
  cc_UploadsPerMinute :: int
  cc_InteractionsPerMinute :: int
  cc_RateLimitFailOpen :: bool

definition community_fields :: "community_conf \<Rightarrow> (string \<times> int \<times> int) list" where
  "community_fields c = [(''history_retention_days'', cc_HistoryRetentionDays c, 3650), (''cleanup_batch_size'', cc_CleanupBatchSize c, 1000),
     (''maintenance_workers'', cc_MaintenanceWorkers c, 32), (''media_workers'', cc_MediaWorkers c, 32),
     (''posts_per_minute'', cc_PostsPerMinute c, 10000), (''comments_per_minute'', cc_CommentsPerMinute c, 10000),
     (''uploads_per_minute'', cc_UploadsPerMinute c, 10000), (''interactions_per_minute'', cc_InteractionsPerMinute c, 10000)]"

fun check_fields :: "(string \<times> int \<times> int) list \<Rightarrow> error + unit" where
  "check_fields [] = Inr ()"
| "check_fields ((name, v, m) # fs) = (if v < 0 \<or> v > m then Inl (Errorf (''community.'' @ name)) else check_fields fs)"

definition ValidateCommunity :: "community_conf \<Rightarrow> error + unit" where
  "ValidateCommunity c = check_fields (community_fields c)"

text \<open>The limits of the auth configuration; an interval counts nanoseconds.\<close>

record auth_limits =
  al_AuthRequestsPerMinute :: int
  al_LoginAccountBurst :: int
  al_LoginAccountInterval :: int

definition validateAuthLimits :: "auth_limits \<Rightarrow> error + unit" where
  "validateAuthLimits a =
     (if al_AuthRequestsPerMinute a < 0 \<or> al_AuthRequestsPerMinute a > 10000 then Inl (Errorf ''auth.auth_requests_per_minute'')
      else if al_LoginAccountBurst a < 0 \<or> al_LoginAccountBurst a > 100 then Inl (Errorf ''auth.login_account_burst'')
      else if al_LoginAccountInterval a \<noteq> 0 \<and> (al_LoginAccountInterval a < 1000000000 \<or> al_LoginAccountInterval a > 60000000000)
        then Inl (Errorf ''auth.login_account_interval'')
      else Inr ())"

record RedisWriteLimiter =
  rwl_limits :: "string \<Rightarrow> int"
  rwl_failOpen :: bool

definition default_limits :: "string \<Rightarrow> int" where
  "default_limits = (\<lambda>_. 0)(''posts'' := 10, ''comments'' := 30, ''uploads'' := 20, ''interactions'' := 120, ''auth'' := 10)"

definition NewWriteLimiter :: "community_conf \<Rightarrow> auth_limits \<Rightarrow> error + RedisWriteLimiter" where
  "NewWriteLimiter c a = (case ValidateCommunity c of Inl e \<Rightarrow> Inl e | Inr _ \<Rightarrow> (case validateAuthLimits a of Inl e \<Rightarrow> Inl e | Inr _ \<Rightarrow>
     let limits = foldl (\<lambda>m (k, v). if v > 0 then m(k := v) else m) default_limits
           [(''posts'', cc_PostsPerMinute c), (''comments'', cc_CommentsPerMinute c), (''uploads'', cc_UploadsPerMinute c),
            (''interactions'', cc_InteractionsPerMinute c), (''auth'', al_AuthRequestsPerMinute a)]
     in Inr \<lparr>rwl_limits = limits, rwl_failOpen = cc_RateLimitFailOpen c\<rparr>))"

section \<open>The scripts\<close>

text \<open>A counter and the time, in milliseconds, at which Redis drops it.\<close>

type_synonym limit_store = "string \<Rightarrow> (int \<times> int) option"

definition hit :: "string \<Rightarrow> int \<Rightarrow> limit_store \<Rightarrow> int \<times> limit_store" where
  "hit k now R = (case R k of
     Some (n, e) \<Rightarrow> if now < e then (n + 1, R(k := Some (n + 1, e))) else (1, R(k := Some (1, now + 60000)))
   | None \<Rightarrow> (1, R(k := Some (1, now + 60000))))"

definition writeLimitScript :: "string \<Rightarrow> string \<Rightarrow> int \<Rightarrow> int \<Rightarrow> int \<Rightarrow> limit_store \<Rightarrow> int \<times> limit_store" where
  "writeLimitScript k1 k2 l1 l2 now R = (case hit k1 now R of (a, R1) \<Rightarrow> case hit k2 now R1 of (b, R2) \<Rightarrow>
     (if a > l1 \<or> b > l2 then 0 else 1, R2))"

definition anonLimitScript :: "string \<Rightarrow> int \<Rightarrow> int \<Rightarrow> limit_store \<Rightarrow> int \<times> limit_store" where
  "anonLimitScript k lmt now R = (case hit k now R of (a, R1) \<Rightarrow> (if a > lmt then 0 else 1, R1))"

text \<open>What becomes of a call of Redis: it answers, or the answer is lost after the script ran, or
  the script does not run.\<close>

datatype call_fate = Answered | AnswerLost | Unreachable

definition unavailable :: "RedisWriteLimiter \<Rightarrow> string \<Rightarrow> error + unit" where
  "unavailable r category =
     (if category = ''auth'' then Inl (ServiceUnavailable ''RATE_LIMIT_UNAVAILABLE'')
      else if rwl_failOpen r then Inr () else Inl (ServiceUnavailable ''RATE_LIMIT_UNAVAILABLE''))"

definition limiter_ip_key :: "(string \<Rightarrow> string) \<Rightarrow> string \<Rightarrow> string \<Rightarrow> string" where
  "limiter_ip_key hash category ip = redisKey [''community'', ''limit'', category, ''ip'', hash (TrimSpace ip)]"

definition limiter_user_key :: "string \<Rightarrow> int \<Rightarrow> string" where
  "limiter_user_key category uid = redisKey [''community'', ''limit'', category, ''user'', FormatInt uid]"

definition limiter_Allow ::
    "RedisWriteLimiter \<Rightarrow> (string \<Rightarrow> string) \<Rightarrow> call_fate \<Rightarrow> int \<Rightarrow> int \<Rightarrow> string \<Rightarrow> string \<Rightarrow> (limit_store, unit) prog" where
  "limiter_Allow r hash fate now uid ip op = (\<lambda>R.
     let category = RateLimitCategory op in
     if category = '''' then (Inr (), R)
     else if uid \<le> 0 \<and> category \<noteq> ''auth'' then (Inl (Unauthorized ''UNAUTHORIZED''), R)
     else
     let ipKey = limiter_ip_key hash category ip; lmt = rwl_limits r category;
         (n, R') = (if uid \<le> 0 then anonLimitScript ipKey lmt now R
                    else writeLimitScript (limiter_user_key category uid) ipKey lmt (wrap32 (lmt * 5)) now R) in
     case fate of
       Unreachable \<Rightarrow> (unavailable r category, R)
     | AnswerLost \<Rightarrow> (unavailable r category, R')
     | Answered \<Rightarrow> (if n = 0 then Inl (StatusError 429 ''RATE_LIMITED'') else Inr (), R'))"

section \<open>The address of the caller\<close>

record 'ip net_lib =
  net_SplitHostPort :: "string \<Rightarrow> string option"
  net_ParseIP :: "string \<Rightarrow> 'ip option"
  net_IsIPv4 :: "'ip \<Rightarrow> bool"
  net_ParseCIDR :: "string \<Rightarrow> error + ('ip \<Rightarrow> bool)"

text \<open>A resolver is the list of its trusted networks, each as the addresses it contains.\<close>

type_synonym 'ip ClientIPResolver = "('ip \<Rightarrow> bool) list"

fun NewClientIPResolver :: "'ip net_lib \<Rightarrow> string list \<Rightarrow> error + 'ip ClientIPResolver" where
  "NewClientIPResolver N [] = Inr []"
| "NewClientIPResolver N (raw # proxies) =
     (let cidr = TrimSpace raw in
      if cidr = '''' then NewClientIPResolver N proxies
      else
      let cidr' = (if CHR ''/'' \<in> set cidr then Inr cidr
                   else case net_ParseIP N cidr of
                     None \<Rightarrow> Inl (Errorf ''invalid trusted proxy'')
                   | Some ip \<Rightarrow> Inr (if net_IsIPv4 N ip then cidr @ ''/32'' else cidr @ ''/128'')) in
      case cidr' of Inl e \<Rightarrow> Inl e | Inr c \<Rightarrow> (case net_ParseCIDR N c of
        Inl e \<Rightarrow> Inl (Errorf ''invalid trusted proxy'')
      | Inr network \<Rightarrow> (case NewClientIPResolver N proxies of Inl e \<Rightarrow> Inl e | Inr rest \<Rightarrow> Inr (network # rest))))"

definition Trusts :: "'ip ClientIPResolver \<Rightarrow> 'ip option \<Rightarrow> bool" where
  "Trusts r ip = (case ip of None \<Rightarrow> False | Some i \<Rightarrow> list_ex (\<lambda>network. network i) r)"

text \<open>The loop over the entries, from the rightmost one.\<close>

fun forwarded_for :: "'ip net_lib \<Rightarrow> 'ip ClientIPResolver \<Rightarrow> string \<Rightarrow> string list \<Rightarrow> string" where
  "forwarded_for N r host [] = host"
| "forwarded_for N r host (entry # entries) =
     (let candidate = TrimSpace entry in
      if candidate = '''' then forwarded_for N r host entries
      else case net_ParseIP N candidate of
        None \<Rightarrow> host
      | Some parsed \<Rightarrow> if \<not> Trusts r (Some parsed) then candidate else forwarded_for N r host entries)"

text \<open>\<open>header\<close> is the value of X-Forwarded-For, empty without one.\<close>

definition ClientIP :: "'ip net_lib \<Rightarrow> 'ip ClientIPResolver \<Rightarrow> string \<Rightarrow> string \<Rightarrow> string" where
  "ClientIP N r peer header =
     (let host = (case net_SplitHostPort N peer of Some h \<Rightarrow> h | None \<Rightarrow> peer); ip = net_ParseIP N host in
      if \<not> Trusts r ip then host
      else if header = '''' then host
      else forwarded_for N r host (rev (Split header (CHR '',''))))"

section \<open>Middleware\<close>

definition HasPrefix :: "string \<Rightarrow> string \<Rightarrow> bool" where
  "HasPrefix s p = (take (length p) s = p)"

definition Contains :: "string \<Rightarrow> string \<Rightarrow> bool" where
  "Contains s sub = list_ex (\<lambda>t. HasPrefix t sub) (suffixes s)"

definition HasSuffix :: "string \<Rightarrow> string \<Rightarrow> bool" where
  "HasSuffix s p = HasPrefix (rev s) (rev p)"

definition observedOperation :: "string \<Rightarrow> bool" where
  "observedOperation op = (HasPrefix op ''/api.community.'' \<or> HasPrefix op ''/api.media.'' \<or>
     Contains op ''BrowsingHistory'' \<or> HasSuffix op ''/RecordProductView'')"

text \<open>Where a request comes from: an HTTP request with its X-Forwarded-For header, the peer of a
  gRPC call, or neither.\<close>

datatype caller_source = HttpRequest string string | GrpcPeer string | UnknownSource

definition client_addr :: "'ip net_lib \<Rightarrow> 'ip ClientIPResolver \<Rightarrow> caller_source \<Rightarrow> string" where
  "client_addr N r src = (case src of HttpRequest remoteAddr header \<Rightarrow> ClientIP N r remoteAddr header
     | GrpcPeer addr \<Rightarrow> ClientIP N r addr '''' | UnknownSource \<Rightarrow> '''')"

text \<open>\<open>msgSize\<close> is the encoded size of a protocol message, \<open>next_handler\<close> the handler behind, which
  finds the address in its context.\<close>

definition CommunityWriteLimit ::
    "(int \<Rightarrow> string \<Rightarrow> string \<Rightarrow> ('w, unit) prog) option \<Rightarrow> 'ip net_lib \<Rightarrow> 'ip ClientIPResolver \<Rightarrow> caller_source \<Rightarrow>
     EcommerceClaims option \<Rightarrow> string \<Rightarrow> int option \<Rightarrow> (string \<Rightarrow> ('w, 'a) prog) \<Rightarrow> ('w, 'a) prog" where
  "CommunityWriteLimit l N r src claims op msgSize next_handler =
     (if observedOperation op \<and> (case msgSize of Some n \<Rightarrow> n > 65536 | None \<Rightarrow> False) then prog_throw (BadRequest ''REQUEST_TOO_LARGE'')
      else
      let actorID = (case claims of None \<Rightarrow> 0 | Some c \<Rightarrow> clm_UserID c); clientAddr = client_addr N r src in
      if RateLimitCategory op \<noteq> '''' then
        (case l of None \<Rightarrow> prog_throw (ServiceUnavailable ''RATE_LIMIT_UNAVAILABLE'')
         | Some allow \<Rightarrow>
             let address = (if clientAddr = '''' then ''unknown'' else clientAddr) in
             prog_bind (allow actorID address op) (\<lambda>_. next_handler clientAddr))
      else next_handler clientAddr)"

definition requestBodyLimit :: int where
  "requestBodyLimit = 64 * 1024"

definition paymentCallbackBodyLimit :: int where
  "paymentCallbackBodyLimit = 1024 * 1024"

definition body_limit_of :: "string \<Rightarrow> string \<Rightarrow> int" where
  "body_limit_of http_method path =
     (let trimmed = (if HasSuffix path ''/'' then butlast path else path); parts = Split trimmed (CHR ''/'') in
      if http_method = ''POST'' \<and> length parts = 5 \<and> parts ! 1 = ''v1'' \<and> parts ! 2 = ''payments'' \<and> parts ! 3 \<noteq> '''' \<and> parts ! 4 = ''notify''
      then paymentCallbackBodyLimit else requestBodyLimit)"

text \<open>What can be read of a body behind \<open>MaxBytesReader\<close>: the bytes up to the limit, and whether
  reading past them fails. A declared length above the limit is refused at once, before
  \<open>next\<close> runs.\<close>

definition MaxBytesReader :: "int \<Rightarrow> string \<Rightarrow> string \<times> bool" where
  "MaxBytesReader lmt body = (take (nat lmt) body, go_len body > lmt)"

definition RequestBodyLimit :: "string \<Rightarrow> string \<Rightarrow> int \<Rightarrow> string \<Rightarrow> (string \<times> bool \<Rightarrow> error + 'a) \<Rightarrow> error + 'a" where
  "RequestBodyLimit http_method path contentLength body next_handler =
     (let lmt = body_limit_of http_method path in
      if contentLength > lmt then Inl (StatusError 413 ''request body too large'')
      else next_handler (MaxBytesReader lmt body))"

section \<open>The quota\<close>

text \<open>A request that reaches the limiter, with the time at which its script runs.\<close>

record limit_call =
  lc_fate :: call_fate
  lc_now :: int
  lc_uid :: int
  lc_ip :: string
  lc_op :: string

fun limiter_run :: "RedisWriteLimiter \<Rightarrow> (string \<Rightarrow> string) \<Rightarrow> limit_store \<Rightarrow> limit_call list \<Rightarrow> (limit_call \<times> (error + unit)) list" where
  "limiter_run r hash R [] = []"
| "limiter_run r hash R (x # xs) =
     (case limiter_Allow r hash (lc_fate x) (lc_now x) (lc_uid x) (lc_ip x) (lc_op x) R of
        (res, R') \<Rightarrow> (x, res) # limiter_run r hash R' xs)"

text \<open>The calls of a user in a category that are let through in the minute from \<open>t\<close> on.\<close>

definition passed :: "int \<Rightarrow> string \<Rightarrow> int \<Rightarrow> (limit_call \<times> (error + unit)) \<Rightarrow> bool" where
  "passed uid category t = (\<lambda>(x, res). lc_uid x = uid \<and> RateLimitCategory (lc_op x) = category \<and>
     t \<le> lc_now x \<and> lc_now x < t + 60000 \<and> res = Inr ())"

text \<open>How many calls a counter still lets through between \<open>now\<close> and \<open>T\<close>.\<close>

definition window_room :: "int \<Rightarrow> int \<Rightarrow> int \<Rightarrow> (int \<times> int) option \<Rightarrow> nat" where
  "window_room lmt T now c = (case c of
     Some (n, e) \<Rightarrow> if now < e then nat (lmt - n) + (if e < T then nat lmt else 0) else nat lmt
   | None \<Rightarrow> nat lmt)"

definition counts_positive :: "limit_store \<Rightarrow> bool" where
  "counts_positive R \<longleftrightarrow> (\<forall>k n e. R k = Some (n, e) \<longrightarrow> 0 < n)"

lemma hit_other: "k \<noteq> k' \<Longrightarrow> snd (hit k' now R) k = R k"
  by (auto simp: hit_def split: option.split)

lemma hit_counts_positive: "counts_positive R \<Longrightarrow> counts_positive (snd (hit k now R))"
  unfolding counts_positive_def hit_def by (cases "R k") (fastforce split: if_splits)+

lemma hit_room:
  assumes "T \<le> now + 60000"
  shows "window_room lmt T now (snd (hit k now R) k) + (if fst (hit k now R) \<le> lmt then 1 else 0) \<le> window_room lmt T now (R k)"
proof (cases "R k")
  case None
  then show ?thesis using assms by (auto simp: hit_def window_room_def)
next
  case (Some c)
  then show ?thesis using assms by (cases c) (auto simp: hit_def window_room_def)
qed

lemma hit_room_any:
  assumes "T \<le> now + 60000"
  shows "window_room lmt T now (snd (hit k' now R) k) \<le> window_room lmt T now (R k)"
  using hit_other [of k k' now R] hit_room [OF assms, of lmt k R] by (cases "k = k'") auto

lemma room_later:
  assumes "now \<le> now'" and "0 \<le> lmt"
  shows "window_room lmt T now' c \<le> window_room lmt T now c \<or> \<not> now' < T"
  using assms by (auto simp: window_room_def split: option.split)

lemma room_bound: "counts_positive R \<Longrightarrow> window_room lmt T now (R k) \<le> 2 * nat lmt"
  unfolding counts_positive_def window_room_def by (fastforce split: option.split)

text \<open>What one call does: it hits no counter, that of the address, or that of the user and then
  that of the address; a user who passes a closed limiter hit a counter below the limit.\<close>

definition hit_both :: "(string \<Rightarrow> string) \<Rightarrow> string \<Rightarrow> int \<Rightarrow> int \<Rightarrow> string \<Rightarrow> limit_store \<Rightarrow> limit_store" where
  "hit_both hash category now uid ip R = snd (hit (limiter_ip_key hash category ip) now (snd (hit (limiter_user_key category uid) now R)))"

lemma Allow_store:
  assumes "limiter_Allow r hash fate now u ip op R = (res, R')"
  shows "R' \<in> {R, snd (hit (limiter_ip_key hash (RateLimitCategory op) ip) now R), hit_both hash (RateLimitCategory op) now u ip R}"
  using assms
  by (cases "hit (limiter_ip_key hash (RateLimitCategory op) ip) now R"; cases "hit (limiter_user_key (RateLimitCategory op) u) now R";
      cases "hit (limiter_ip_key hash (RateLimitCategory op) ip) now (snd (hit (limiter_user_key (RateLimitCategory op) u) now R))";
      cases fate)
     (simp_all add: limiter_Allow_def hit_both_def Let_def anonLimitScript_def writeLimitScript_def del: if_split split: if_split_asm)

lemma Allow_passes:
  assumes "limiter_Allow r hash fate now u ip op R = (Inr (), R')" and "RateLimitCategory op = category" and "category \<noteq> ''''"
    and "\<not> rwl_failOpen r \<or> category = ''auth''" and "0 < u"
  shows "fst (hit (limiter_user_key category u) now R) \<le> rwl_limits r category \<and> R' = hit_both hash category now u ip R"
  using assms
  by (cases "hit (limiter_user_key category u) now R";
      cases "hit (limiter_ip_key hash category ip) now (snd (hit (limiter_user_key category u) now R))"; cases fate)
     (simp_all add: limiter_Allow_def hit_both_def Let_def unavailable_def writeLimitScript_def del: if_split split: if_split_asm)

lemma Allow_counts_positive:
  assumes "counts_positive R" and "limiter_Allow r hash fate now u ip op R = (res, R')"
  shows "counts_positive R'"
  using Allow_store [OF assms(2)] hit_counts_positive assms(1) unfolding hit_both_def by blast

text \<open>So the counter of a user only loses room, and loses it when that user passes.\<close>

lemma Allow_room:
  assumes a: "limiter_Allow r hash fate now u ip op R = (res, R')"
    and T: "T \<le> now + 60000" and k: "k = limiter_user_key category uid"
    and closed: "\<not> rwl_failOpen r \<or> category = ''auth''" and c: "category \<noteq> ''''" and uid: "0 < uid"
  shows "window_room (rwl_limits r category) T now (R' k) +
      (if u = uid \<and> RateLimitCategory op = category \<and> res = Inr () then 1 else 0) \<le> window_room (rwl_limits r category) T now (R k)"
proof (cases "u = uid \<and> RateLimitCategory op = category \<and> res = Inr ()")
  case True
  let ?room = "window_room (rwl_limits r category) T now"
  have p: "fst (hit k now R) \<le> rwl_limits r category" "R' = hit_both hash category now uid ip R"
    using Allow_passes [of r hash fate now u ip op R R' category] a True c closed uid k by auto
  have "?room (R' k) \<le> ?room (snd (hit k now R) k)"
    unfolding p hit_both_def k by (rule hit_room_any [OF T])
  then show ?thesis using hit_room [OF T, of "rwl_limits r category" k R] p(1) True by simp
next
  case False
  have "window_room (rwl_limits r category) T now (R' k) \<le> window_room (rwl_limits r category) T now (R k)"
    using Allow_store [OF a] hit_room_any [OF T] hit_room_any [OF T, THEN order_trans] unfolding hit_both_def by blast
  then show ?thesis using False by auto
qed

lemma passed_in_minute:
  assumes "sorted (map lc_now xs)" and "\<forall>x\<in>set xs. now \<le> lc_now x" and "t \<le> now" and "0 \<le> rwl_limits r category"
    and closed: "\<not> rwl_failOpen r \<or> category = ''auth''" and c: "category \<noteq> ''''" and uid: "0 < uid"
  shows "length (filter (passed uid category t) (limiter_run r hash R xs))
     \<le> window_room (rwl_limits r category) (t + 60000) now (R (limiter_user_key category uid))"
  using assms(1-3)
proof (induction xs arbitrary: R now)
  case (Cons x xs)
  let ?room = "window_room (rwl_limits r category) (t + 60000)" and ?k = "limiter_user_key category uid"
  obtain res R' where a: "limiter_Allow r hash (lc_fate x) (lc_now x) (lc_uid x) (lc_ip x) (lc_op x) R = (res, R')" by fastforce
  have now: "now \<le> lc_now x" "t \<le> lc_now x" using Cons.prems by auto
  have IH: "length (filter (passed uid category t) (limiter_run r hash R' xs)) \<le> ?room (lc_now x) (R' ?k)"
    using Cons.prems now by (intro Cons.IH) auto
  show ?case
  proof (cases "lc_now x < t + 60000")
    case True
    have "?room (lc_now x) (R' ?k) + (if passed uid category t (x, res) then 1 else 0) \<le> ?room (lc_now x) (R ?k)"
      using Allow_room [OF a _ refl closed c uid, of "t + 60000"] now True by (auto simp: passed_def split: if_splits)
    moreover have "?room (lc_now x) (R ?k) \<le> ?room now (R ?k)"
      using room_later [OF now(1) assms(4)] True by blast
    ultimately show ?thesis using IH by (cases "passed uid category t (x, res)") (simp_all add: a)
  next
    case False
    then have "\<forall>y\<in>set (x # xs). \<not> lc_now y < t + 60000" using Cons.prems(1) by fastforce
    moreover have "fst z \<in> set ys" if "z \<in> set (limiter_run r hash Q ys)" for z Q ys
      using that by (induction ys arbitrary: Q) (auto split: prod.splits)
    ultimately have "filter (passed uid category t) (limiter_run r hash R (x # xs)) = []"
      by (fastforce simp: filter_empty_conv passed_def simp del: limiter_run.simps)
    then show ?thesis by simp
  qed
qed simp


section \<open>Forwarded addresses\<close>

lemma Split_append: "Split (a @ c # b) c = Split a c @ Split b c"
  by (induction a) (auto split: list.split)

text \<open>An entry at which the loop stops.\<close>

definition stops :: "'ip net_lib \<Rightarrow> 'ip ClientIPResolver \<Rightarrow> string \<Rightarrow> bool" where
  "stops N r entry = (TrimSpace entry \<noteq> '''' \<and> \<not> Trusts r (net_ParseIP N (TrimSpace entry)))"

lemma forwarded_for_stops:
  "\<exists>entry\<in>set es. stops N r entry \<Longrightarrow> forwarded_for N r host (es @ es') = forwarded_for N r host es"
  by (induction es) (auto simp: stops_def Let_def Trusts_def split: option.split)

lemma forwarded_for_value:
  "forwarded_for N r host es = host \<or> (\<exists>entry\<in>set es. forwarded_for N r host es = TrimSpace entry \<and>
     net_ParseIP N (TrimSpace entry) \<noteq> None \<and> \<not> Trusts r (net_ParseIP N (TrimSpace entry)))"
  by (induction es) (auto simp: Let_def split: option.split)

text \<open>
  C28. A caller does not choose the address it is counted under. Without a trusted peer the
  header is not looked at; with one, what stands to the left of an entry that is no trusted
  proxy, where a caller can put whatever it likes, does not matter; and the answer is the peer
  itself or a parsed address of the header that is no trusted proxy.
\<close>

theorem forwarded_header_cannot_be_forged:
  assumes "\<exists>entry\<in>set (Split honest (CHR '','')). stops N r entry"
  shows "ClientIP N r peer (forged @ '','' @ honest) = ClientIP N r peer honest \<and>
    (\<not> Trusts r (net_ParseIP N (ClientIP N r peer '''')) \<longrightarrow> ClientIP N r peer honest = ClientIP N r peer '''') \<and>
    (ClientIP N r peer honest = ClientIP N r peer '''' \<or>
     (net_ParseIP N (ClientIP N r peer honest) \<noteq> None \<and> \<not> Trusts r (net_ParseIP N (ClientIP N r peer honest))))"
proof -
  define host where "host = (case net_SplitHostPort N peer of Some h \<Rightarrow> h | None \<Rightarrow> peer)"
  have c: "ClientIP N r peer v = (if \<not> Trusts r (net_ParseIP N host) then host else if v = '''' then host
      else forwarded_for N r host (rev (Split v (CHR '',''))))" for v
    by (simp add: ClientIP_def host_def Let_def)
  have "honest \<noteq> ''''" using assms by (auto simp: stops_def TrimSpace_def)
  moreover have "forwarded_for N r host (rev (Split (forged @ CHR '','' # honest) (CHR '',''))) =
      forwarded_for N r host (rev (Split honest (CHR '','')))"
    using forwarded_for_stops [of "rev (Split honest (CHR '',''))"] assms by (simp add: Split_append)
  ultimately show ?thesis using forwarded_for_value [of N r host "rev (Split honest (CHR '',''))"] by (auto simp: c)
qed

end
