(* ===== verification/Server.thy ===== *)
theory Server
  imports RateLimit SessionSafety
begin

text \<open>
  The chain of middleware in front of every handler (app/mall/internal/server/http.go and grpc.go,
  with the middleware of app/mall/internal/server/middleware): authentication unless the request is
  public, then the size and write limits, then the handler. Recovery, tracing, logging and the
  validation of messages change neither the state nor who gets through; a message that fails the
  validation is refused before the chain. The JWT middleware is the one of the framework:
  \<open>jwt\<close> is what it makes of the token of the request, the verified claims or its refusal.
\<close>

section \<open>Public operations\<close>

definition publicOperations :: "string list" where
  "publicOperations = [''/api.user.v1.User/Register'', ''/api.user.v1.User/Login'', ''/api.user.v1.User/RefreshToken'']"

definition isPaymentCallbackPath :: "string \<Rightarrow> bool" where
  "isPaymentCallbackPath path = (let parts = Split path (CHR ''/'') in
     length parts = 5 \<and> parts ! 1 = ''v1'' \<and> parts ! 2 = ''payments'' \<and> parts ! 3 \<noteq> '''' \<and> parts ! 4 = ''notify'')"

text \<open>Whether the authentication chain applies; \<open>request\<close> is method and path of an HTTP request.\<close>

definition newWhiteListMatcher :: "(string \<times> string) option \<Rightarrow> string \<Rightarrow> bool" where
  "newWhiteListMatcher request operation = (case request of
     Some (http_method, urlPath) \<Rightarrow>
       if http_method = ''POST'' \<and> isPaymentCallbackPath (if HasSuffix urlPath ''/'' then butlast urlPath else urlPath) then False
       else operation \<notin> set publicOperations
   | None \<Rightarrow> operation \<notin> set publicOperations)"

definition grpcWhiteListMatcher :: "string \<Rightarrow> bool" where
  "grpcWhiteListMatcher operation = (operation \<notin> set publicOperations)"

section \<open>The chains\<close>

definition auth_chain ::
    "bool \<Rightarrow> error + EcommerceClaims \<Rightarrow> bool \<Rightarrow> (EcommerceClaims option \<Rightarrow> (auth_world, 'a) prog) \<Rightarrow> (auth_world, 'a) prog" where
  "auth_chain applies jwt isLogout handler =
     (if applies then (case jwt of Inl e \<Rightarrow> prog_throw e | Inr claims \<Rightarrow> CheckBlacklist (Some claims) isLogout (\<lambda>ec. handler (Some ec)))
      else handler None)"

type_synonym 'a service_handler = "EcommerceClaims option \<Rightarrow> string \<Rightarrow> (auth_world, 'a) prog"

definition NewHTTPServer ::
    "'ip net_lib \<Rightarrow> string list \<Rightarrow> (int \<Rightarrow> string \<Rightarrow> string \<Rightarrow> (auth_world, unit) prog) option \<Rightarrow> string \<times> string \<Rightarrow> string \<Rightarrow> string \<Rightarrow>
     error + EcommerceClaims \<Rightarrow> bool \<Rightarrow> string \<Rightarrow> int option \<Rightarrow> 'a service_handler \<Rightarrow> (auth_world, 'a) prog" where
  "NewHTTPServer N trustedProxies limiter request remoteAddr header jwt isLogout op msgSize handler =
     (let clientIP = (case NewClientIPResolver N trustedProxies of Inr r \<Rightarrow> r | Inl e \<Rightarrow> []) in
      auth_chain (newWhiteListMatcher (Some request) op) jwt isLogout (\<lambda>claims.
        CommunityWriteLimit limiter N clientIP (HttpRequest remoteAddr header) claims op msgSize (handler claims)))"

definition NewGRPCServer ::
    "'ip net_lib \<Rightarrow> (int \<Rightarrow> string \<Rightarrow> string \<Rightarrow> (auth_world, unit) prog) option \<Rightarrow> string \<Rightarrow>
     error + EcommerceClaims \<Rightarrow> bool \<Rightarrow> string \<Rightarrow> int option \<Rightarrow> 'a service_handler \<Rightarrow> (auth_world, 'a) prog" where
  "NewGRPCServer N limiter peer jwt isLogout op msgSize handler =
     auth_chain (grpcWhiteListMatcher op) jwt isLogout (\<lambda>claims.
       CommunityWriteLimit limiter N [] (GrpcPeer peer) claims op msgSize (handler claims))"

section \<open>Who reaches a handler\<close>

text \<open>A request is turned away when its outcome does not depend on the handler.\<close>

definition turned_away :: "('h \<Rightarrow> ('w, 'a) prog) \<Rightarrow> 'w \<Rightarrow> bool" where
  "turned_away chain w \<longleftrightarrow> (\<exists>e w'. \<forall>h. chain h w = (Inl e, w'))"

text \<open>The account is the one the token names, at the credential version of the token, and, unless
  the request is a logout, the session is active.\<close>

definition admitted :: "error + EcommerceClaims \<Rightarrow> bool \<Rightarrow> auth_world \<Rightarrow> bool" where
  "admitted jwt isLogout w = (case jwt of Inl e \<Rightarrow> False | Inr claims \<Rightarrow>
     \<not> isl (fst (ValidateAccount (Some claims) w)) \<and> (isLogout \<or> \<not> isl (fst (ValidateSession (Some claims) w))))"

lemma ValidateAccount_keeps:
  assumes "ValidateAccount (Some claims) w = (Inr ec, w')"
  shows "w' = w \<and> ec = claims\<lparr>clm_Role := clm_Role ec\<rparr>"
  using assms
  by (auto simp: ValidateAccount_def prog_Inr repo_GetAuthUser_def tx_simps tx_optional_def q_GetUserByID_def usr.find_Inr split: if_splits option.splits sum.splits)

lemma ValidateSession_role: "ValidateSession (Some (claims\<lparr>clm_Role := role\<rparr>)) = ValidateSession (Some claims)"
  by (simp add: ValidateSession_def)

lemma turned_awayI: "(\<And>h. chain h w = (Inl e, w')) \<Longrightarrow> turned_away chain w"
  by (auto simp: turned_away_def)

lemma unadmitted_turned_away:
  assumes "\<not> admitted jwt isLogout w"
  shows "turned_away (\<lambda>h. auth_chain True jwt isLogout (f h)) w"
proof (cases jwt)
  case (Inl e)
  then show ?thesis by (intro turned_awayI) (simp add: auth_chain_def prog_throw_def)
next
  case (Inr claims)
  obtain r w1 where v: "ValidateAccount (Some claims) w = (r, w1)" by fastforce
  show ?thesis
  proof (cases r)
    case (Inl e)
    then show ?thesis using v \<open>jwt = Inr claims\<close> by (intro turned_awayI) (simp add: auth_chain_def CheckBlacklist_def prog_try_def prog_throw_def)
  next
    case r: (Inr ec)
    have k: "w1 = w" "ec = claims\<lparr>clm_Role := clm_Role ec\<rparr>" using ValidateAccount_keeps v r by blast+
    have s: "\<not> isLogout" "isl (fst (ValidateSession (Some claims) w))"
      using assms \<open>jwt = Inr claims\<close> v r by (auto simp: admitted_def)
    obtain e w2 where "ValidateSession (Some claims) w = (Inl e, w2)" using s(2) by (metis isl_def prod.collapse)
    then have "ValidateSession (Some ec) w = (Inl e, w2)" by (subst k(2)) (simp only: ValidateSession_role)
    then show ?thesis using v r k(1) s(1) \<open>jwt = Inr claims\<close>
      by (intro turned_awayI) (simp add: auth_chain_def CheckBlacklist_def prog_try_def prog_bind_def prog_throw_def)
  qed
qed

text \<open>Whoever is not admitted is turned away from every operation but the public ones.\<close>

lemma http_turns_away:
  assumes "\<not> admitted jwt isLogout w" and "newWhiteListMatcher (Some request) op"
  shows "turned_away (NewHTTPServer N proxies limiter request addr header jwt isLogout op msgSize) w"
  using unadmitted_turned_away [OF assms(1), unfolded turned_away_def] assms(2)
  unfolding turned_away_def NewHTTPServer_def Let_def by (simp only:)

lemma grpc_turns_away:
  assumes "\<not> admitted jwt isLogout w" and "op \<notin> set publicOperations"
  shows "turned_away (NewGRPCServer N limiter peer jwt isLogout op msgSize) w"
  using unadmitted_turned_away [OF assms(1), unfolded turned_away_def] assms(2)
  unfolding turned_away_def NewGRPCServer_def grpcWhiteListMatcher_def by (simp only: not_False_eq_True)


end
