(* ===== verification/ServiceExample.thy ===== *)
theory ServiceExample
  imports OrderService Server AccountExample
begin

text \<open>Concrete requests to the order service, the limiter and the servers, the inputs of the witnesses of their
  properties.\<close>

definition ex_buyer :: EcommerceClaims where
  "ex_buyer = \<lparr>clm_UserID = 7, clm_Role = ''user'', clm_AuthVersion = 1, clm_SessionID = ''sid'', clm_TokenKind = ''access'',
     clm_ID = ''jti'', clm_IssuedAt = 0, clm_ExpiresAt = 1\<rparr>"


theorem amount_text_round_trip_witness:
  "minorAmountString (- 105) = ''-1.05'' \<and> amount_value (minorAmountString (- 105)) = - 105"
proof
  show "minorAmountString (- 105) = ''-1.05''" by code_simp
  show "amount_value (minorAmountString (- 105)) = - 105" using amount_text_round_trip [of "- 105"] by (simp add: MaxInt64_def)
qed

definition ex_limiter :: RedisWriteLimiter where
  "ex_limiter = \<lparr>rwl_limits = default_limits(''posts'' := 1), rwl_failOpen = False\<rparr>"

text \<open>Two windows of a minute meet inside the minute from 1 on, so two posts pass in it: the bound
  is reached.\<close>

definition ex_calls :: "limit_call list" where
  "ex_calls = map (\<lambda>now. \<lparr>lc_fate = Answered, lc_now = now, lc_uid = 7, lc_ip = ''10.0.0.9'',
     lc_op = ''/api.community.v1.Community/CreatePost''\<rparr>) [1, 59999, 60001, 60002]"


text \<open>Addresses as texts; the only trusted proxy is 10.0.0.1.\<close>

definition ex_net :: "string net_lib" where
  "ex_net = \<lparr>net_SplitHostPort = (\<lambda>s. if s = ''10.0.0.1:80'' then Some ''10.0.0.1'' else None),
     net_ParseIP = (\<lambda>s. if s \<in> {''10.0.0.1'', ''7.7.7.7''} then Some s else None), net_IsIPv4 = (\<lambda>_. True),
     net_ParseCIDR = (\<lambda>s. Inr (\<lambda>ip. ip @ ''/32'' = s))\<rparr>"

theorem forwarded_header_cannot_be_forged_witness:
  "\<exists>r. NewClientIPResolver ex_net [''10.0.0.1''] = Inr r \<and>
     ClientIP ex_net r ''10.0.0.1:80'' (''1.2.3.4'' @ '','' @ ''7.7.7.7, 10.0.0.1'') = ''7.7.7.7''"
proof -
  define r where "r = [\<lambda>ip. ip @ ''/32'' = ''10.0.0.1/32'']"
  have trim: "TrimSpace ''10.0.0.1'' = ''10.0.0.1''" by code_simp
  have n: "NewClientIPResolver ex_net [''10.0.0.1''] = Inr r"
    using trim by (simp add: ex_net_def r_def Let_def)
  have e: "\<exists>entry\<in>set (Split ''7.7.7.7, 10.0.0.1'' (CHR '','')). stops ex_net r entry" unfolding r_def by code_simp
  have "ClientIP ex_net r ''10.0.0.1:80'' ''7.7.7.7, 10.0.0.1'' = ''7.7.7.7''" unfolding r_def by code_simp
  then have "ClientIP ex_net r ''10.0.0.1:80'' (''1.2.3.4'' @ '','' @ ''7.7.7.7, 10.0.0.1'') = ''7.7.7.7''"
    using forwarded_header_cannot_be_forged [OF e, of "''10.0.0.1:80''" "''1.2.3.4''"] by simp
  then show ?thesis using n by blast
qed


end
