(* ===== verification/Adapters.thy ===== *)
theory Adapters
  imports OrderService Workers Snowflake
begin

text \<open>
  The adapters of the payment providers (app/mall/internal/data/payment\_alipay.go,
  payment\_wechat.go, payment\_adapters.go and payment\_adapter\_helpers.go).

  The SDK gopay is a parameter: a client is a record of the calls the adapters make, each a
  function on the world, and the functions that parse, sign and verify without a network call are
  fields of a record of libraries, together with the decimal library, the JSON encoder, SHA-256 and
  the constants of the SDK. The fields \<open>RawCode\<close> and \<open>FundChanged\<close> of a result are written and never
  read; they are left out. A map \<open>gopay.BodyMap\<close> holds texts and integers.
\<close>

section \<open>Requests and libraries\<close>

datatype body_value = BmText string | BmInt int

type_synonym BodyMap = "string \<Rightarrow> body_value option"

definition bm_set :: "string \<Rightarrow> string \<Rightarrow> BodyMap \<Rightarrow> BodyMap" where
  "bm_set k v m = m(k \<mapsto> BmText v)"

text \<open>\<open>if v != "" { body.Set(k, v) }\<close>.\<close>

definition bm_set_given :: "string \<Rightarrow> string \<Rightarrow> BodyMap \<Rightarrow> BodyMap" where
  "bm_set_given k v m = (if v \<noteq> '''' then bm_set k v m else m)"

text \<open>A request as the adapters see it: the bytes of the body, ended by its end or by an error of
  reading (\<open>None\<close>: there is no body), the rest of the request, and the clock when it is handled.\<close>

record 'r http_request =
  hr_Body :: "(string \<times> error option) option"
  hr_rest :: 'r
  hr_Now :: int

record alipay_query_rsp =
  aqr_StatusCode :: int
  aqr_ErrCode :: string
  aqr_OutTradeNo :: string
  aqr_TradeNo :: string
  aqr_TradeStatus :: string
  aqr_TotalAmount :: string

record alipay_close_rsp =
  acr_StatusCode :: int
  acr_ErrCode :: string
  acr_OutTradeNo :: string
  acr_TradeNo :: string

record alipay_refund_rsp =
  arr_StatusCode :: int
  arr_ErrCode :: string
  arr_OutTradeNo :: string
  arr_TradeNo :: string
  arr_RefundFee :: string

record wechat_rsp =
  wr_ReturnCode :: string
  wr_ResultCode :: string
  wr_ErrCode :: string
  wr_Appid :: string
  wr_MchId :: string

record wechat_order_rsp = wechat_rsp +
  wor_PrepayId :: string
  wor_CodeUrl :: string
  wor_NonceStr :: string

record wechat_query_rsp = wechat_rsp +
  wqr_OutTradeNo :: string
  wqr_TransactionId :: string
  wqr_TradeState :: string
  wqr_TradeStateDesc :: string
  wqr_TotalFee :: string

record wechat_notify = wechat_rsp +
  wn_SignType :: string
  wn_OutTradeNo :: string
  wn_TransactionId :: string
  wn_FeeType :: string
  wn_TotalFee :: string

text \<open>What a signature is checked over.\<close>

datatype wechat_signed = SignedOrder wechat_order_rsp | SignedQuery BodyMap | SignedClose wechat_rsp | SignedNotify wechat_notify

record ('w, 'r) pay_lib =
  pl_decimal :: decimal_lib
  pl_NewFromString :: "string \<Rightarrow> error + rat"
  pl_StringFixed :: "rat \<Rightarrow> int \<Rightarrow> string"
  pl_sha256hex :: "string \<Rightarrow> string"
  pl_Marshal_signed :: "SignedPaymentPayload \<Rightarrow> string"
  pl_Marshal_map :: "(string \<times> string) list \<Rightarrow> string"
  pl_RandomString :: "int \<Rightarrow> 'w \<Rightarrow> string \<times> 'w"
  ali_ParseNotifyToBodyMap :: "'r \<Rightarrow> string \<Rightarrow> error + (string \<Rightarrow> string)"
  ali_VerifySignWithCert :: "string \<Rightarrow> (string \<Rightarrow> string) \<Rightarrow> error + bool"
  wx_ParseNotify :: "'r \<Rightarrow> string \<Rightarrow> error + wechat_notify"
  wx_VerifySign :: "string \<Rightarrow> string \<Rightarrow> wechat_signed \<Rightarrow> error + bool"
  wx_GetAppPaySign :: "string list \<Rightarrow> string"
  wx_GetJsapiPaySign :: "string list \<Rightarrow> string"
  wx_SignType_MD5 :: string
  wx_SignType_HMAC_SHA256 :: string
  wx_TradeType_JsApi :: string
  wx_TradeType_Native :: string
  wx_TradeType_App :: string

section \<open>Helpers\<close>

definition maxNotificationBody :: int where
  "maxNotificationBody = 2 ^ 20"

definition TrimRight_slash :: "string \<Rightarrow> string" where
  "TrimRight_slash s = rev (dropWhile (\<lambda>c. c = CHR ''/'') (rev s))"

definition notifyURLFromEnv :: "(string \<Rightarrow> string) \<Rightarrow> string \<Rightarrow> string" where
  "notifyURLFromEnv Getenv provider =
     (let base = TrimRight_slash (Getenv ''PAYMENT_CALLBACK_BASE_URL'') in
      if base \<noteq> '''' then base @ ''/v1/payments/'' @ provider @ ''/notify''
      else if provider = ''wechat'' then Getenv ''WECHAT_NOTIFY_URL'' else Getenv ''ALIPAY_NOTIFY_URL'')"

definition validateCNYAmount :: "int \<Rightarrow> string \<Rightarrow> error + unit" where
  "validateCNYAmount amount currency =
     (if amount \<le> 0 then Inl (BadRequest ''PAYMENT_AMOUNT_INVALID'')
      else if ToUpper (TrimSpace currency) \<noteq> DefaultCurrency then Inl (BadRequest ''PAYMENT_CURRENCY_UNSUPPORTED'')
      else Inr ())"

text \<open>\<open>io.ReadAll\<close> of a \<open>LimitReader\<close> of one byte more than allowed: an error behind that byte is
  not seen.\<close>

definition boundedRequestBody :: "'r http_request \<Rightarrow> error + string" where
  "boundedRequestBody request = (case hr_Body request of
     None \<Rightarrow> Inl (Errorf ''request body is required'')
   | Some (bytes, failure) \<Rightarrow>
       if go_len bytes > maxNotificationBody then Inl (Errorf ''request body exceeds'')
       else (case failure of Some e \<Rightarrow> Inl e | None \<Rightarrow> Inr bytes))"

definition paymentProviderNotConfigured :: "string \<Rightarrow> error" where
  "paymentProviderNotConfigured provider = ServiceUnavailable ''PAYMENT_PROVIDER_NOT_AVAILABLE''"

definition orEmpty :: "string \<Rightarrow> string \<Rightarrow> string" where
  "orEmpty primary fallback = (if primary \<noteq> '''' then primary else fallback)"

section \<open>Dates\<close>

text \<open>The civil date of a day counted from 0001-01-01, in the proleptic Gregorian calendar; years
  start in March while counting.\<close>

definition civil_date :: "int \<Rightarrow> int \<times> int \<times> int" where
  "civil_date day =
     (let z = day + 306; era = z div 146097; doe = z mod 146097;
          yoe = (doe - doe div 1460 + doe div 36524 - doe div 146096) div 365;
          doy = doe - (365 * yoe + yoe div 4 - yoe div 100);
          mp = (5 * doy + 2) div 153;
          m = (if mp < 10 then mp + 3 else mp - 9)
      in (yoe + era * 400 + (if m \<le> 2 then 1 else 0), m, doy - (153 * mp + 2) div 5 + 1))"

definition pad_int :: "nat \<Rightarrow> int \<Rightarrow> string" where
  "pad_int width n = pad_zeros width (FormatInt n)"

text \<open>\<open>t.In(FixedZone(.., offset)).Format("2006-01-02 15:04:05")\<close> for the years 0 to 9999.\<close>

definition format_datetime :: "int \<Rightarrow> int \<Rightarrow> string" where
  "format_datetime offset t =
     (let secs = t div 10 ^ 9 + offset; sod = secs mod 86400 in
      case civil_date (secs div 86400) of (y, m, d) \<Rightarrow>
        pad_int 4 y @ ''-'' @ pad_int 2 m @ ''-'' @ pad_int 2 d @ '' '' @
        pad_int 2 (sod div 3600) @ '':'' @ pad_int 2 (sod div 60 mod 60) @ '':'' @ pad_int 2 (sod mod 60))"

definition truncate_second :: "int \<Rightarrow> int" where
  "truncate_second t = t div 10 ^ 9 * 10 ^ 9"

section \<open>Alipay\<close>

record 'w alipay_client =
  alc_AppId :: string
  alc_IsProd :: bool
  alc_AppAuthToken :: string
  alc_TradeAppPay :: "BodyMap \<Rightarrow> ('w, string) prog"
  alc_TradeQuery :: "BodyMap \<Rightarrow> ('w, alipay_query_rsp option) prog"

record 'w alipayTradeRequester =
  art_TradeClose :: "BodyMap \<Rightarrow> 'w \<Rightarrow> (alipay_close_rsp option \<times> error option) \<times> 'w"
  art_TradeRefund :: "BodyMap \<Rightarrow> 'w \<Rightarrow> (alipay_refund_rsp option \<times> error option) \<times> 'w"

record 'w AlipayPaymentAdapter =
  apa_client :: "'w alipay_client option"
  apa_wapSigner :: "(BodyMap \<Rightarrow> ('w, string) prog) option"
  apa_tradeRequester :: "'w alipayTradeRequester option"
  apa_notifyURL :: string
  apa_publicCertPath :: string
  apa_expectedAppID :: string

text \<open>The client makes the trade calls itself; \<open>requester\<close> is its part of that interface.\<close>

definition NewAlipayPaymentAdapter ::
    "(string \<Rightarrow> string) \<Rightarrow> 'w alipay_client \<Rightarrow> 'w alipayTradeRequester \<Rightarrow> 'w AlipayPaymentAdapter" where
  "NewAlipayPaymentAdapter Getenv client requester =
     \<lparr>apa_client = Some client, apa_wapSigner = None, apa_tradeRequester = Some requester,
      apa_notifyURL = notifyURLFromEnv Getenv ''alipay'', apa_publicCertPath = '''', apa_expectedAppID = alc_AppId client\<rparr>"

definition alipayDefinitiveRefundRejection :: "string \<Rightarrow> bool" where
  "alipayDefinitiveRefundRejection code =
     (code \<in> {''ACQ.TRADE_NOT_EXIST'', ''ACQ.REFUND_AMT_NOT_EQUAL_TOTAL'', ''ACQ.REASON_TRADE_REFUND_FEE_ERR'', ''ACQ.TRADE_HAS_FINISHED''})"

definition providerAccount :: "('w, 'r) pay_lib \<Rightarrow> 'w alipay_client \<Rightarrow> string" where
  "providerAccount L client =
     alc_AppId client @ '':'' @ (if alc_IsProd client then ''true'' else ''false'') @ '':'' @ pl_sha256hex L (alc_AppAuthToken client)"

definition alipay_NotificationAck :: "bool \<Rightarrow> PaymentNotificationAck" where
  "alipay_NotificationAck success = \<lparr>ack_StatusCode = 200, ack_ContentType = ''text/plain; charset=utf-8'',
     ack_Body = (if success then ''success'' else ''fail'')\<rparr>"

definition alipay_Supports :: "PaymentMethod \<Rightarrow> bool" where
  "alipay_Supports method0 = (let method = Normalize method0 in
     pm_Provider method = ''alipay'' \<and> (pm_Product method = ''wap'' \<or> pm_Product method = ''app''))"

definition alipay_Capabilities :: PaymentCapabilities where
  "alipay_Capabilities = \<lparr>cap_SupportsNotify = True, cap_RequiresPoll = False, cap_SupportsClose = True, cap_SupportsRefund = True\<rparr>"

definition fenToYuan :: "('w, 'r) pay_lib \<Rightarrow> int \<Rightarrow> string" where
  "fenToYuan L amount = pl_StringFixed L (dec_Shift (pl_decimal L) (of_int amount) (- 2)) 2"

definition yuanToFen :: "('w, 'r) pay_lib \<Rightarrow> string \<Rightarrow> error + int" where
  "yuanToFen L value = (case pl_NewFromString L value of Inl e \<Rightarrow> Inl e | Inr amount \<Rightarrow>
     let minor = dec_Shift (pl_decimal L) amount 2 in
     if minor \<noteq> dec_Truncate (pl_decimal L) minor 0 then Inl (Errorf ''amount has sub-minor precision'')
     else Inr (dec_IntPart (pl_decimal L) minor))"

definition mapAlipayTradeState :: "string \<Rightarrow> TradeState \<times> string" where
  "mapAlipayTradeState state = (let s = ToUpper state in
     if s = ''TRADE_SUCCESS'' \<or> s = ''TRADE_FINISHED'' then (TradeStateSuccess, state)
     else if s = ''WAIT_BUYER_PAY'' then (TradeStateNotPay, state)
     else if s = ''TRADE_CLOSED'' then (TradeStateClosed, state)
     else (TradeStateUnspecified, state))"

definition alipay_Prepay ::
    "('w, 'r) pay_lib \<Rightarrow> 'w AlipayPaymentAdapter \<Rightarrow> PaymentPrepayRequest \<Rightarrow> ('w, PaymentPrepayResult option) prog" where
  "alipay_Prepay L a req = (case apa_client a of
     None \<Rightarrow> prog_throw (paymentProviderNotConfigured ''alipay'')
   | Some client \<Rightarrow>
     prog_bind (prog_lift (validateCNYAmount (prq_Amount req) (prq_Currency req))) (\<lambda>_.
     let deadline = truncate_second (prq_ExpiresAt req) in
     if deadline = 0 then prog_throw ErrOrderExpired
     else
     let body = bm_set_given ''notify_url'' (apa_notifyURL a)
           (bm_set ''total_amount'' (fenToYuan L (prq_Amount req)) (bm_set ''out_trade_no'' (prq_OutTradeNo req)
           (bm_set ''subject'' (prq_Description req) (bm_set ''time_expire'' (format_datetime (8 * 3600) deadline) Map.empty))));
         done = (\<lambda>actionType payload. prog_return (Some \<lparr>prs_ProviderReference = '''',
           prs_Action = \<lparr>act_Type = actionType, act_Payload = pl_Marshal_signed L
             \<lparr>spp_Payload = payload, spp_ExpiresAt = deadline, spp_ProviderAccount = providerAccount L client\<rparr>\<rparr>\<rparr>)) in
     if pm_Product (prq_Method req) = ''wap'' then
       (case apa_wapSigner a of None \<Rightarrow> prog_throw (paymentProviderNotConfigured ''alipay wap signer'')
        | Some TradeWapPay \<Rightarrow> prog_bind (TradeWapPay body) (done ''redirect''))
     else if pm_Product (prq_Method req) = ''app'' then
       prog_bind (alc_TradeAppPay client (bm_set ''product_code'' ''QUICK_MSECURITY_PAY'' body)) (done ''invoke'')
     else prog_throw ErrPaymentProviderUnavailable))"

definition trade_body :: "string \<Rightarrow> string \<Rightarrow> BodyMap" where
  "trade_body outTradeNo transactionID = bm_set_given ''trade_no'' transactionID (bm_set_given ''out_trade_no'' outTradeNo Map.empty)"

definition alipay_Query ::
    "('w, 'r) pay_lib \<Rightarrow> 'w AlipayPaymentAdapter \<Rightarrow> PaymentQueryRequest \<Rightarrow> ('w, PaymentQueryResult option) prog" where
  "alipay_Query L a req = (case apa_client a of
     None \<Rightarrow> prog_throw (paymentProviderNotConfigured ''alipay'')
   | Some client \<Rightarrow>
     if qrq_ExpectedProviderAccount req \<noteq> '''' \<and> qrq_ExpectedProviderAccount req \<noteq> providerAccount L client
     then prog_throw (Errorf ''alipay query account or environment differs from signed payment parameters'')
     else
     prog_bind (alc_TradeQuery client (trade_body (qrq_OutTradeNo req) (qrq_TransactionID req))) (\<lambda>rsp.
     case rsp of None \<Rightarrow> prog_throw nil_panic | Some response \<Rightarrow>
     if aqr_StatusCode response \<noteq> 200 then
       prog_throw (if aqr_ErrCode response = ''ACQ.TRADE_NOT_EXIST'' then ErrProviderOrderNotExist else Errorf ''alipay trade query failed'')
     else
     prog_bind (prog_lift (yuanToFen L (aqr_TotalAmount response))) (\<lambda>amount.
     case mapAlipayTradeState (aqr_TradeStatus response) of (state, description) \<Rightarrow>
     prog_return (Some \<lparr>qrs_Method = qrq_Method req, qrs_OutTradeNo = aqr_OutTradeNo response, qrs_TransactionID = aqr_TradeNo response,
       qrs_TradeState = state, qrs_TradeStateDesc = description, qrs_RawTradeState = aqr_TradeStatus response,
       qrs_Amount = amount, qrs_Currency = DefaultCurrency\<rparr>))))"

text \<open>\<open>Close\<close> may return a result beside an error; no caller reads it then, and the interface of the
  model has the error only.\<close>

definition alipay_Close :: "'w AlipayPaymentAdapter \<Rightarrow> PaymentCloseRequest \<Rightarrow> ('w, PaymentCloseResult option) prog" where
  "alipay_Close a req = (case apa_tradeRequester a of
     None \<Rightarrow> prog_throw (paymentProviderNotConfigured ''alipay'')
   | Some requester \<Rightarrow> (\<lambda>w.
     case art_TradeClose requester (trade_body (crq_OutTradeNo req) (crq_TransactionID req)) w of ((rsp, err), w') \<Rightarrow>
     case err of Some e \<Rightarrow> (Inl e, w') | None \<Rightarrow>
     case rsp of None \<Rightarrow> (Inl (Errorf ''alipay close returned empty response''), w') | Some response \<Rightarrow>
     let result = \<lparr>crs_Method = crq_Method req, crs_OutTradeNo = orEmpty (acr_OutTradeNo response) (crq_OutTradeNo req),
           crs_TransactionID = orEmpty (acr_TradeNo response) (crq_TransactionID req), crs_Success = False\<rparr> in
     if acr_StatusCode response = 200 then (Inr (Some (result\<lparr>crs_Success := True\<rparr>)), w')
     else if acr_ErrCode response = ''ACQ.TRADE_STATUS_ERROR'' then (Inl ErrProviderTradeStateConflict, w')
     else if acr_ErrCode response \<in> {''ACQ.TRADE_ALREADY_CLOSED'', ''ACQ.REASON_TRADE_CLOSED''}
       then (Inr (Some (result\<lparr>crs_Success := True\<rparr>)), w')
     else (Inl (Errorf ''alipay close rejected''), w')))"

definition refund_body :: "('w, 'r) pay_lib \<Rightarrow> PaymentRefundRequest \<Rightarrow> BodyMap" where
  "refund_body L req = bm_set_given ''refund_reason'' (rrq_Reason req) (bm_set ''out_request_no'' (rrq_OutRefundNo req)
     (bm_set ''refund_amount'' (fenToYuan L (rrq_Amount req)) (trade_body (rrq_OutTradeNo req) (rrq_TransactionID req))))"

text \<open>The answer to a refund: the result and the error beside it.\<close>

definition alipay_refund_answer ::
    "('w, 'r) pay_lib \<Rightarrow> PaymentRefundRequest \<Rightarrow> alipay_refund_rsp option \<Rightarrow> error option \<Rightarrow> PaymentRefundResult option \<times> error option" where
  "alipay_refund_answer L req rsp err = (case rsp of
     None \<Rightarrow> (None, Some (case err of Some e \<Rightarrow> e | None \<Rightarrow> Errorf ''alipay refund returned empty response''))
   | Some response \<Rightarrow>
     let result = \<lparr>rrs_Method = rrq_Method req, rrs_OutTradeNo = orEmpty (arr_OutTradeNo response) (rrq_OutTradeNo req),
           rrs_TransactionID = orEmpty (arr_TradeNo response) (rrq_TransactionID req), rrs_OutRefundNo = rrq_OutRefundNo req,
           rrs_Amount = 0, rrs_Currency = rrq_Currency req, rrs_Success = False,
           rrs_Rejection = (err = None \<and> arr_StatusCode response = 400 \<and> alipayDefinitiveRefundRejection (arr_ErrCode response))\<rparr> in
     case err of Some e \<Rightarrow> (Some result, Some e) | None \<Rightarrow>
     if arr_StatusCode response \<noteq> 200 then (Some result, Some (Errorf ''alipay refund rejected''))
     else if arr_OutTradeNo response \<noteq> '''' \<and> rrq_OutTradeNo req \<noteq> '''' \<and> arr_OutTradeNo response \<noteq> rrq_OutTradeNo req
       then (Some result, Some (Errorf ''alipay refund out_trade_no mismatch''))
     else if arr_TradeNo response \<noteq> '''' \<and> rrq_TransactionID req \<noteq> '''' \<and> arr_TradeNo response \<noteq> rrq_TransactionID req
       then (Some result, Some (Errorf ''alipay refund trade_no mismatch''))
     else (case yuanToFen L (arr_RefundFee response) of
         Inl e \<Rightarrow> (Some result, Some (Errorf ''parse alipay refund fee''))
       | Inr amount \<Rightarrow>
         if amount \<noteq> rrq_Amount req then (Some (result\<lparr>rrs_Amount := amount\<rparr>), Some (Errorf ''alipay refund amount mismatch''))
         else (Some (result\<lparr>rrs_Amount := amount, rrs_Success := True\<rparr>), None)))"

definition alipay_Refund ::
    "('w, 'r) pay_lib \<Rightarrow> 'w AlipayPaymentAdapter \<Rightarrow> PaymentRefundRequest \<Rightarrow> 'w \<Rightarrow> (PaymentRefundResult option \<times> error option) \<times> 'w" where
  "alipay_Refund L a req w = (case apa_tradeRequester a of
     None \<Rightarrow> ((None, Some (paymentProviderNotConfigured ''alipay'')), w)
   | Some requester \<Rightarrow> (case art_TradeRefund requester (refund_body L req) w of
       ((rsp, err), w') \<Rightarrow> (alipay_refund_answer L req rsp err, w')))"

definition validateAlipayNotification :: "'w AlipayPaymentAdapter \<Rightarrow> (string \<Rightarrow> string) \<Rightarrow> error + unit" where
  "validateAlipayNotification a notify =
     (if notify ''app_id'' \<noteq> apa_expectedAppID a then Inl (BadRequest ''PAYMENT_NOTIFICATION_MERCHANT_MISMATCH'')
      else if notify ''trade_status'' \<noteq> ''TRADE_SUCCESS'' \<and> notify ''trade_status'' \<noteq> ''TRADE_FINISHED''
        then Inl (BadRequest ''PAYMENT_NOTIFICATION_NOT_SUCCESSFUL'')
      else if notify ''notify_id'' = '''' \<or> notify ''out_trade_no'' = '''' \<or> notify ''trade_no'' = ''''
        then Inl (BadRequest ''PAYMENT_NOTIFICATION_IDENTITY_INVALID'')
      else Inr ())"

definition alipay_ParseAndVerifyNotification ::
    "('w, 'r) pay_lib \<Rightarrow> 'w AlipayPaymentAdapter \<Rightarrow> 'r http_request \<Rightarrow> error + PaymentNotification" where
  "alipay_ParseAndVerifyNotification L a request =
     (if apa_publicCertPath a = '''' \<or> apa_expectedAppID a = '''' then Inl (ServiceUnavailable ''PAYMENT_SIGNATURE_CONFIGURATION_MISSING'')
      else case boundedRequestBody request of
        Inl e \<Rightarrow> Inl (BadRequest ''PAYMENT_NOTIFICATION_BODY_INVALID'')
      | Inr body \<Rightarrow> (case ali_ParseNotifyToBodyMap L (hr_rest request) body of
        Inl e \<Rightarrow> Inl (BadRequest ''PAYMENT_NOTIFICATION_PARSE_FAILED'')
      | Inr notify \<Rightarrow>
        if ali_VerifySignWithCert L (apa_publicCertPath a) notify \<noteq> Inr True
        then Inl (BadRequest ''PAYMENT_NOTIFICATION_SIGNATURE_INVALID'')
        else (case validateAlipayNotification a notify of Inl e \<Rightarrow> Inl e | Inr _ \<Rightarrow>
        (case yuanToFen L (notify ''total_amount'') of
          Inl e \<Rightarrow> Inl (BadRequest ''PAYMENT_NOTIFICATION_AMOUNT_INVALID'')
        | Inr amount \<Rightarrow>
          if amount \<le> 0 then Inl (BadRequest ''PAYMENT_NOTIFICATION_AMOUNT_INVALID'')
          else Inr \<lparr>pn_Provider = ''alipay'', pn_ProviderEventID = notify ''notify_id'', pn_OutTradeNo = notify ''out_trade_no'',
            pn_TransactionID = notify ''trade_no'', pn_Amount = amount, pn_Currency = DefaultCurrency,
            pn_PayloadHash = pl_sha256hex L body, pn_VerifiedAt = hr_Now request\<rparr>))))"

definition alipay_adapter :: "('w, 'r) pay_lib \<Rightarrow> 'w AlipayPaymentAdapter \<Rightarrow> ('w, 'r http_request) PaymentAdapter" where
  "alipay_adapter L a = \<lparr>ad_Provider = ''alipay'', ad_Supports = alipay_Supports, ad_Capabilities = (\<lambda>_. alipay_Capabilities),
     ad_Prepay = alipay_Prepay L a, ad_Query = alipay_Query L a, ad_Close = alipay_Close a, ad_Refund = alipay_Refund L a,
     ad_ParseAndVerifyNotification = alipay_ParseAndVerifyNotification L a, ad_NotificationAck = alipay_NotificationAck\<rparr>"

section \<open>WeChat Pay\<close>

record 'w wechat_client =
  wc_AppId :: string
  wc_MchId :: string
  wc_ApiKey :: string
  wc_UnifiedOrder :: "BodyMap \<Rightarrow> ('w, wechat_order_rsp option) prog"
  wc_QueryOrder :: "BodyMap \<Rightarrow> ('w, wechat_query_rsp option \<times> BodyMap) prog"
  wc_CloseOrder :: "BodyMap \<Rightarrow> ('w, wechat_rsp option) prog"

record 'w WechatPaymentAdapter =
  wpa_client :: "'w wechat_client option"
  wpa_apiKey :: string
  wpa_notifyURL :: string

record wechat_conf =
  wcf_AppId :: string
  wcf_MchId :: string
  wcf_ApiKey :: string
  wcf_IsProduction :: bool
  wcf_Enabled :: bool

definition NewWechatPaymentAdapter ::
    "(string \<Rightarrow> string) \<Rightarrow> (string \<Rightarrow> string \<Rightarrow> string \<Rightarrow> bool \<Rightarrow> 'w wechat_client) \<Rightarrow> wechat_conf option \<Rightarrow> 'w WechatPaymentAdapter" where
  "NewWechatPaymentAdapter Getenv NewClient c =
     (let adapter = \<lparr>wpa_client = None, wpa_apiKey = '''', wpa_notifyURL = notifyURLFromEnv Getenv ''wechat''\<rparr> in
      case c of None \<Rightarrow> adapter | Some w \<Rightarrow>
        if wcf_AppId w \<noteq> '''' \<and> wcf_MchId w \<noteq> '''' \<and> wcf_ApiKey w \<noteq> ''''
        then adapter\<lparr>wpa_apiKey := wcf_ApiKey w, wpa_client := Some (NewClient (wcf_AppId w) (wcf_MchId w) (wcf_ApiKey w) (wcf_IsProduction w))\<rparr>
        else adapter)"

definition wechat_NotificationAck :: "bool \<Rightarrow> PaymentNotificationAck" where
  "wechat_NotificationAck success = \<lparr>ack_StatusCode = 200, ack_ContentType = ''application/xml; charset=utf-8'',
     ack_Body = (if success
       then ''<xml><return_code><![CDATA[SUCCESS]]></return_code><return_msg><![CDATA[OK]]></return_msg></xml>''
       else ''<xml><return_code><![CDATA[FAIL]]></return_code><return_msg><![CDATA[RETRY]]></return_msg></xml>'')\<rparr>"

definition wechat_Supports :: "PaymentMethod \<Rightarrow> bool" where
  "wechat_Supports method0 = (let method = Normalize method0 in
     pm_Provider method = ''wechat'' \<and> pm_Product method \<in> {''jsapi'', ''native'', ''app''})"

definition wechat_Capabilities :: PaymentCapabilities where
  "wechat_Capabilities = \<lparr>cap_SupportsNotify = True, cap_RequiresPoll = True, cap_SupportsClose = True, cap_SupportsRefund = False\<rparr>"

definition validateWechatResponse ::
    "('w, 'r) pay_lib \<Rightarrow> string \<Rightarrow> 'w wechat_client \<Rightarrow> wechat_signed \<Rightarrow> 'a wechat_rsp_scheme \<Rightarrow> error + unit" where
  "validateWechatResponse L apiKey client content r =
     (if wr_ReturnCode r \<noteq> ''SUCCESS'' then Inl (Errorf ''wechat transport rejected request'')
      else if wx_VerifySign L apiKey (wx_SignType_MD5 L) content \<noteq> Inr True then Inl (Errorf ''wechat response signature is invalid'')
      else if wr_Appid r \<noteq> wc_AppId client \<or> wr_MchId r \<noteq> wc_MchId client then Inl (Errorf ''wechat response merchant identity mismatch'')
      else if wr_ResultCode r \<noteq> ''SUCCESS'' then
        Inl (if wr_ErrCode r = ''ORDERNOTEXIST'' then ErrProviderOrderNotExist else Errorf ''wechat business request failed'')
      else Inr ())"

text \<open>\<open>util.RandomString(32)\<close> draws from the world.\<close>

definition with_nonce :: "('w, 'r) pay_lib \<Rightarrow> (string \<Rightarrow> ('w, 'a) prog) \<Rightarrow> ('w, 'a) prog" where
  "with_nonce L f = (\<lambda>w. case pl_RandomString L 32 w of (nonce, w') \<Rightarrow> f nonce w')"

text \<open>Seconds since 1970.\<close>

definition Unix :: "int \<Rightarrow> int" where
  "Unix t = t div 10 ^ 9 - 62135596800"

text \<open>The action a client carries out, by product.\<close>

definition wechat_action ::
    "('w, 'r) pay_lib \<Rightarrow> 'w wechat_client \<Rightarrow> string \<Rightarrow> string \<Rightarrow> wechat_order_rsp \<Rightarrow> PaymentAction" where
  "wechat_action L client product timestamp response =
     (if product = ''native'' then \<lparr>act_Type = ''redirect'', act_Payload = pl_Marshal_map L [(''url'', wor_CodeUrl response)]\<rparr>
      else if product = ''app'' then \<lparr>act_Type = ''invoke'', act_Payload = pl_Marshal_map L
        [(''appId'', wc_AppId client), (''partnerId'', wc_MchId client), (''prepayId'', wor_PrepayId response),
         (''nonceStr'', wor_NonceStr response), (''timeStamp'', timestamp),
         (''sign'', wx_GetAppPaySign L [wc_AppId client, wc_MchId client, wor_NonceStr response, wor_PrepayId response,
            wx_SignType_MD5 L, timestamp, wc_ApiKey client])]\<rparr>
      else let pkg = ''prepay_id='' @ wor_PrepayId response in
        \<lparr>act_Type = ''invoke'', act_Payload = pl_Marshal_map L
          [(''appId'', wc_AppId client), (''timeStamp'', timestamp), (''nonceStr'', wor_NonceStr response),
           (''package'', pkg), (''signType'', wx_SignType_MD5 L),
           (''paySign'', wx_GetJsapiPaySign L [wc_AppId client, wor_NonceStr response, pkg, wx_SignType_MD5 L, timestamp, wc_ApiKey client])]\<rparr>)"

definition wechat_order_body ::
    "('w, 'r) pay_lib \<Rightarrow> 'w WechatPaymentAdapter \<Rightarrow> PaymentPrepayRequest \<Rightarrow> string \<Rightarrow> string \<Rightarrow> BodyMap" where
  "wechat_order_body L a req tradeType nonce =
     (let body = bm_set ''sign_type'' (wx_SignType_MD5 L) (bm_set ''trade_type'' tradeType (bm_set ''spbill_create_ip'' (prq_ClientIP req)
            ((bm_set ''out_trade_no'' (prq_OutTradeNo req) (bm_set ''body'' (prq_Description req) (bm_set ''nonce_str'' nonce Map.empty)))
               (''total_fee'' \<mapsto> BmInt (prq_Amount req)))));
          body1 = (if pm_Product (prq_Method req) = ''jsapi''
            then bm_set ''openid'' (case prq_Extension req ''openid'' of Some v \<Rightarrow> v | None \<Rightarrow> '''') body else body)
      in bm_set_given ''notify_url'' (wpa_notifyURL a) body1)"

definition wechat_trade_type :: "('w, 'r) pay_lib \<Rightarrow> string \<Rightarrow> string option" where
  "wechat_trade_type L product =
     (if product = ''jsapi'' then Some (wx_TradeType_JsApi L) else if product = ''native'' then Some (wx_TradeType_Native L)
      else if product = ''app'' then Some (wx_TradeType_App L) else None)"

definition wechat_Prepay ::
    "('p world, 'r) pay_lib \<Rightarrow> 'p world WechatPaymentAdapter \<Rightarrow> PaymentPrepayRequest \<Rightarrow> ('p world, PaymentPrepayResult option) prog" where
  "wechat_Prepay L a req = (case wpa_client a of
     None \<Rightarrow> prog_throw (paymentProviderNotConfigured ''wechat'')
   | Some client \<Rightarrow>
     prog_bind (prog_lift (validateCNYAmount (prq_Amount req) (prq_Currency req))) (\<lambda>_.
     case wechat_trade_type L (pm_Product (prq_Method req)) of None \<Rightarrow> prog_throw ErrPaymentProviderUnavailable | Some tradeType \<Rightarrow>
     with_nonce L (\<lambda>nonce.
     prog_bind (wc_UnifiedOrder client (wechat_order_body L a req tradeType nonce)) (\<lambda>rsp.
     case rsp of None \<Rightarrow> prog_throw (Errorf ''wechat unified order returned empty response'') | Some response \<Rightarrow>
     prog_bind (prog_lift (validateWechatResponse L (wpa_apiKey a) client (SignedOrder response) response)) (\<lambda>_.
     if wor_PrepayId response = '''' then prog_throw (Errorf ''wechat unified order returned empty prepay_id'')
     else if pm_Product (prq_Method req) = ''native'' \<and> wor_CodeUrl response = ''''
       then prog_throw (Errorf ''wechat native unified order returned empty code_url'')
     else prog_bind time_Now (\<lambda>now.
       prog_return (Some \<lparr>prs_ProviderReference = wor_PrepayId response,
         prs_Action = wechat_action L client (pm_Product (prq_Method req)) (FormatInt (Unix now)) response\<rparr>)))))))"

text \<open>The amount of a queried trade: its text, or zero while no money moved.\<close>

definition wechat_query_amount :: "TradeState \<Rightarrow> string \<Rightarrow> error + int" where
  "wechat_query_amount state totalFee =
     (if totalFee \<noteq> '''' then (case ParseInt totalFee of None \<Rightarrow> Inl (Errorf ''parse wechat total fee'') | Some amount \<Rightarrow> Inr amount)
      else if state = TradeStateSuccess \<or> state = TradeStateRefund then Inl (Errorf ''wechat query missing total_fee'')
      else Inr 0)"

definition wechat_Query ::
    "('w, 'r) pay_lib \<Rightarrow> 'w WechatPaymentAdapter \<Rightarrow> PaymentQueryRequest \<Rightarrow> ('w, PaymentQueryResult option) prog" where
  "wechat_Query L a req = (case wpa_client a of
     None \<Rightarrow> prog_throw (paymentProviderNotConfigured ''wechat'')
   | Some client \<Rightarrow> with_nonce L (\<lambda>nonce.
     prog_bind (wc_QueryOrder client (bm_set_given ''transaction_id'' (qrq_TransactionID req) (bm_set_given ''out_trade_no'' (qrq_OutTradeNo req)
       (bm_set ''sign_type'' (wx_SignType_MD5 L) (bm_set ''nonce_str'' nonce Map.empty))))) (\<lambda>(rsp, responseBody).
     case rsp of None \<Rightarrow> prog_throw (Errorf ''wechat query returned empty response'') | Some response \<Rightarrow>
     prog_bind (prog_lift (validateWechatResponse L (wpa_apiKey a) client (SignedQuery responseBody) response)) (\<lambda>_.
     let state = ParseTradeState (wqr_TradeState response) in
     prog_bind (prog_lift (wechat_query_amount state (wqr_TotalFee response))) (\<lambda>amount.
     prog_return (Some \<lparr>qrs_Method = qrq_Method req, qrs_OutTradeNo = wqr_OutTradeNo response,
       qrs_TransactionID = wqr_TransactionId response, qrs_TradeState = state, qrs_TradeStateDesc = wqr_TradeStateDesc response,
       qrs_RawTradeState = wqr_TradeState response, qrs_Amount = amount, qrs_Currency = DefaultCurrency\<rparr>))))))"

definition wechat_Close ::
    "('w, 'r) pay_lib \<Rightarrow> 'w WechatPaymentAdapter \<Rightarrow> PaymentCloseRequest \<Rightarrow> ('w, PaymentCloseResult option) prog" where
  "wechat_Close L a req = (case wpa_client a of
     None \<Rightarrow> prog_throw (paymentProviderNotConfigured ''wechat'')
   | Some client \<Rightarrow> with_nonce L (\<lambda>nonce.
     prog_bind (wc_CloseOrder client (bm_set ''out_trade_no'' (crq_OutTradeNo req) (bm_set ''nonce_str'' nonce Map.empty))) (\<lambda>rsp.
     case rsp of None \<Rightarrow> prog_throw (Errorf ''wechat close returned empty response'') | Some response \<Rightarrow>
     prog_bind (prog_lift (validateWechatResponse L (wpa_apiKey a) client (SignedClose response) response)) (\<lambda>_.
     prog_return (Some \<lparr>crs_Method = crq_Method req, crs_OutTradeNo = crq_OutTradeNo req, crs_TransactionID = '''', crs_Success = True\<rparr>)))))"

definition wechat_Refund :: "PaymentRefundRequest \<Rightarrow> 'w \<Rightarrow> (PaymentRefundResult option \<times> error option) \<times> 'w" where
  "wechat_Refund req w = ((None, Some ErrPaymentProviderUnavailable), w)"

definition notify_sign_type :: "('w, 'r) pay_lib \<Rightarrow> wechat_notify \<Rightarrow> string" where
  "notify_sign_type L notify = (if wn_SignType notify = '''' then wx_SignType_MD5 L else wn_SignType notify)"

definition wechat_ParseAndVerifyNotification ::
    "('w, 'r) pay_lib \<Rightarrow> 'w WechatPaymentAdapter \<Rightarrow> 'r http_request \<Rightarrow> error + PaymentNotification" where
  "wechat_ParseAndVerifyNotification L a request = (case wpa_client a of
     None \<Rightarrow> Inl (ServiceUnavailable ''PAYMENT_SIGNATURE_CONFIGURATION_MISSING'')
   | Some client \<Rightarrow>
     if wpa_apiKey a = '''' then Inl (ServiceUnavailable ''PAYMENT_SIGNATURE_CONFIGURATION_MISSING'')
     else case boundedRequestBody request of
       Inl e \<Rightarrow> Inl (BadRequest ''PAYMENT_NOTIFICATION_BODY_INVALID'')
     | Inr body \<Rightarrow> (case wx_ParseNotify L (hr_rest request) body of
       Inl e \<Rightarrow> Inl (BadRequest ''PAYMENT_NOTIFICATION_PARSE_FAILED'')
     | Inr notify \<Rightarrow>
       let signType = notify_sign_type L notify;
           feeType = ToUpper (TrimSpace (wn_FeeType notify));
           currency = (if feeType = '''' then DefaultCurrency else feeType) in
       if signType \<noteq> wx_SignType_MD5 L \<and> signType \<noteq> wx_SignType_HMAC_SHA256 L
         then Inl (BadRequest ''PAYMENT_NOTIFICATION_SIGNATURE_INVALID'')
       else if wx_VerifySign L (wpa_apiKey a) signType (SignedNotify notify) \<noteq> Inr True
         then Inl (BadRequest ''PAYMENT_NOTIFICATION_SIGNATURE_INVALID'')
       else if wr_ReturnCode notify \<noteq> ''SUCCESS'' \<or> wr_ResultCode notify \<noteq> ''SUCCESS''
         then Inl (BadRequest ''PAYMENT_NOTIFICATION_NOT_SUCCESSFUL'')
       else if wr_Appid notify \<noteq> wc_AppId client \<or> wr_MchId notify \<noteq> wc_MchId client
         then Inl (BadRequest ''PAYMENT_NOTIFICATION_MERCHANT_MISMATCH'')
       else if wn_OutTradeNo notify = '''' \<or> wn_TransactionId notify = ''''
         then Inl (BadRequest ''PAYMENT_NOTIFICATION_IDENTITY_INVALID'')
       else if currency \<noteq> DefaultCurrency then Inl (BadRequest ''PAYMENT_NOTIFICATION_CURRENCY_INVALID'')
       else (case ParseInt (wn_TotalFee notify) of
           None \<Rightarrow> Inl (BadRequest ''PAYMENT_NOTIFICATION_AMOUNT_INVALID'')
         | Some amount \<Rightarrow>
           if amount \<le> 0 then Inl (BadRequest ''PAYMENT_NOTIFICATION_AMOUNT_INVALID'')
           else Inr \<lparr>pn_Provider = ''wechat'', pn_ProviderEventID = wn_TransactionId notify, pn_OutTradeNo = wn_OutTradeNo notify,
             pn_TransactionID = wn_TransactionId notify, pn_Amount = amount, pn_Currency = currency,
             pn_PayloadHash = pl_sha256hex L body, pn_VerifiedAt = hr_Now request\<rparr>)))"

definition wechat_adapter ::
    "('p world, 'r) pay_lib \<Rightarrow> 'p world WechatPaymentAdapter \<Rightarrow> ('p world, 'r http_request) PaymentAdapter" where
  "wechat_adapter L a = \<lparr>ad_Provider = ''wechat'', ad_Supports = wechat_Supports, ad_Capabilities = (\<lambda>_. wechat_Capabilities),
     ad_Prepay = wechat_Prepay L a, ad_Query = wechat_Query L a, ad_Close = wechat_Close L a, ad_Refund = wechat_Refund,
     ad_ParseAndVerifyNotification = wechat_ParseAndVerifyNotification L a, ad_NotificationAck = wechat_NotificationAck\<rparr>"

section \<open>Registration\<close>

record alipay_conf =
  acf_AppId :: string
  acf_PrivateKey :: string
  acf_AppCertPath :: string
  acf_AlipayPublicCertPath :: string
  acf_AlipayRootCertPath :: string
  acf_Enabled :: bool

text \<open>\<open>NewAlipayClient\<close> gives the client with its trade calls, \<open>NewSigner\<close> the local signer of the
  WAP product, or an error.\<close>

definition NewPaymentAdapters ::
    "('p world, 'r) pay_lib \<Rightarrow> (string \<Rightarrow> string) \<Rightarrow> (string \<Rightarrow> string \<Rightarrow> string \<Rightarrow> bool \<Rightarrow> 'p world wechat_client) \<Rightarrow>
     (alipay_conf \<Rightarrow> error + 'p world alipay_client \<times> 'p world alipayTradeRequester) \<Rightarrow>
     ('p world alipay_client \<Rightarrow> string \<Rightarrow> error + (BodyMap \<Rightarrow> ('p world, string) prog)) \<Rightarrow>
     (wechat_conf option \<times> alipay_conf option) option \<Rightarrow> error + ('p world, 'r http_request) PaymentAdapter option list" where
  "NewPaymentAdapters L Getenv NewClient NewAlipayClient NewSigner c0 = (case c0 of None \<Rightarrow> Inr [] | Some (wechat, alipay) \<Rightarrow>
     let first = (case wechat of None \<Rightarrow> Inr [] | Some w \<Rightarrow>
           if \<not> wcf_Enabled w then Inr []
           else if wcf_AppId w = '''' \<or> wcf_MchId w = '''' \<or> wcf_ApiKey w = ''''
             then Inl (Errorf ''wechat payment is enabled but app_id, mch_id, or api_key is missing'')
           else Inr [Some (wechat_adapter L (NewWechatPaymentAdapter Getenv NewClient wechat))]) in
     case first of Inl e \<Rightarrow> Inl e | Inr adapters \<Rightarrow>
     (case alipay of None \<Rightarrow> Inr adapters | Some al \<Rightarrow>
        if \<not> acf_Enabled al then Inr adapters
        else if acf_AppId al = '''' \<or> acf_PrivateKey al = '''' \<or> acf_AppCertPath al = '''' \<or> acf_AlipayPublicCertPath al = '''' \<or>
            acf_AlipayRootCertPath al = ''''
          then Inl (Errorf ''alipay payment is enabled but required key or certificate configuration is missing'')
        else (case NewAlipayClient al of Inl e \<Rightarrow> Inl e | Inr (client, requester) \<Rightarrow>
          (case NewSigner client (acf_PrivateKey al) of Inl e \<Rightarrow> Inl e | Inr signer \<Rightarrow>
           Inr (adapters @ [Some (alipay_adapter L ((NewAlipayPaymentAdapter Getenv client requester)
             \<lparr>apa_wapSigner := Some signer, apa_publicCertPath := acf_AlipayPublicCertPath al\<rparr>))])))))"

section \<open>Callbacks\<close>

text \<open>
  What an accepted notification rests on: a bounded body, the signature of the provider over it,
  the merchant of the configuration, a successful trade with its numbers and a positive amount.
\<close>

definition body_within_limit :: "'r http_request \<Rightarrow> string \<Rightarrow> bool" where
  "body_within_limit request body = (hr_Body request = Some (body, None) \<and> go_len body \<le> 2 ^ 20)"

definition alipay_genuine :: "('w, 'r) pay_lib \<Rightarrow> 'w AlipayPaymentAdapter \<Rightarrow> 'r http_request \<Rightarrow> PaymentNotification \<Rightarrow> bool" where
  "alipay_genuine L a request n \<longleftrightarrow> (\<exists>body notify. body_within_limit request body \<and>
     ali_ParseNotifyToBodyMap L (hr_rest request) body = Inr notify \<and> ali_VerifySignWithCert L (apa_publicCertPath a) notify = Inr True \<and>
     notify ''app_id'' = apa_expectedAppID a \<and> notify ''trade_status'' \<in> {''TRADE_SUCCESS'', ''TRADE_FINISHED''} \<and>
     pn_Provider n = ''alipay'' \<and> pn_ProviderEventID n = notify ''notify_id'' \<and> pn_OutTradeNo n = notify ''out_trade_no'' \<and>
     pn_TransactionID n = notify ''trade_no'' \<and> yuanToFen L (notify ''total_amount'') = Inr (pn_Amount n) \<and> 0 < pn_Amount n)"

definition wechat_genuine :: "('w, 'r) pay_lib \<Rightarrow> 'w WechatPaymentAdapter \<Rightarrow> 'r http_request \<Rightarrow> PaymentNotification \<Rightarrow> bool" where
  "wechat_genuine L a request n \<longleftrightarrow> (\<exists>client body notify. wpa_client a = Some client \<and> body_within_limit request body \<and>
     wx_ParseNotify L (hr_rest request) body = Inr notify \<and> notify_sign_type L notify \<in> {wx_SignType_MD5 L, wx_SignType_HMAC_SHA256 L} \<and>
     wx_VerifySign L (wpa_apiKey a) (notify_sign_type L notify) (SignedNotify notify) = Inr True \<and>
     wr_ResultCode notify = ''SUCCESS'' \<and> wr_Appid notify = wc_AppId client \<and> wr_MchId notify = wc_MchId client \<and>
     pn_Provider n = ''wechat'' \<and> pn_ProviderEventID n = wn_TransactionId notify \<and> pn_OutTradeNo n = wn_OutTradeNo notify \<and>
     pn_TransactionID n = wn_TransactionId notify \<and> ParseInt (wn_TotalFee notify) = Some (pn_Amount n) \<and> 0 < pn_Amount n)"

lemma boundedRequestBody_Inr: "boundedRequestBody request = Inr body \<Longrightarrow> body_within_limit request body"
  by (auto simp: boundedRequestBody_def body_within_limit_def maxNotificationBody_def split: option.splits if_splits)

lemma alipay_notification_genuine: "alipay_ParseAndVerifyNotification L a request = Inr n \<Longrightarrow> alipay_genuine L a request n"
  unfolding alipay_ParseAndVerifyNotification_def alipay_genuine_def validateAlipayNotification_def
  by (auto split: if_splits sum.splits dest!: boundedRequestBody_Inr)

lemma wechat_notification_genuine:
  assumes "wechat_ParseAndVerifyNotification L a request = Inr n"
  shows "wechat_genuine L a request n"
proof -
  from assms obtain client body notify amount where p: "wpa_client a = Some client" "boundedRequestBody request = Inr body"
    "wx_ParseNotify L (hr_rest request) body = Inr notify" "ParseInt (wn_TotalFee notify) = Some amount"
    unfolding wechat_ParseAndVerifyNotification_def Let_def
    by (auto split: option.splits sum.splits if_split_asm)
  show ?thesis
    unfolding wechat_genuine_def
    by (rule exI [of _ client], rule exI [of _ body], rule exI [of _ notify])
       (use assms p boundedRequestBody_Inr in \<open>auto simp: wechat_ParseAndVerifyNotification_def Let_def split: if_split_asm\<close>)
qed

definition handled_texts :: "string set" where
  "handled_texts = {''success'', ack_Body (wechat_NotificationAck True)}"

text \<open>
  The contract the handling of callbacks relies on: an adapter accepts genuine notifications only
  and refuses the others with none of the texts \<open>yes\<close> that acknowledge one. Then nothing but a genuine one changes the world.
\<close>

locale verified_adapter =
  fixes ad :: "('p world, 'h) PaymentAdapter" and genuine :: "'h \<Rightarrow> PaymentNotification \<Rightarrow> bool" and yes :: "string set"
  assumes accepts_genuine: "ad_ParseAndVerifyNotification ad request = Inr n \<Longrightarrow> genuine request n"
    and refusal_differs: "ack_Body (ad_NotificationAck ad False) \<notin> yes"
begin

lemma handled_is_genuine:
  assumes "puc_gateway uc (ToLower (TrimSpace provider)) = Some ad" and "HandleNotification uc provider request w = (r, w')"
    and "r = Inr x \<or> w' \<noteq> w"
  shows "\<exists>n. genuine request n"
proof (rule ccontr)
  assume "\<nexists>n. genuine request n"
  then obtain e where "ad_ParseAndVerifyNotification ad request = Inl e" using accepts_genuine by (metis sum.exhaust)
  then show False
    using assms by (auto simp: HandleNotification_def gw_ParseAndVerifyNotification_def prog_throw_def split: option.splits)
qed

end

interpretation alipay: verified_adapter "alipay_adapter L a" "alipay_genuine L a" handled_texts for L :: "('p world, 'r) pay_lib" and a
  by unfold_locales (auto simp: handled_texts_def wechat_NotificationAck_def alipay_adapter_def alipay_NotificationAck_def dest: alipay_notification_genuine)

interpretation wechat: verified_adapter "wechat_adapter L a" "wechat_genuine L a" handled_texts
  for L :: "('p world, 'r) pay_lib" and a
  by unfold_locales (auto simp: handled_texts_def wechat_adapter_def wechat_NotificationAck_def dest: wechat_notification_genuine)

lemma register_adapters_mem: "register_adapters g ads p = Some ad \<Longrightarrow> g p = Some ad \<or> Some ad \<in> set ads"
  by (induction g ads rule: register_adapters.induct) (auto simp: Let_def split: if_splits)

lemma NewPaymentAdapters_mem:
  assumes "NewPaymentAdapters L Getenv NewClient NewAlipayClient NewSigner c = Inr ads" and "Some ad \<in> set ads"
  obtains (wechat) w al where "c = Some (Some w, al)" and "wcf_Enabled w" and "wcf_ApiKey w \<noteq> ''''"
      and "ad = wechat_adapter L (NewWechatPaymentAdapter Getenv NewClient (Some w))"
    | (alipay) w al client requester signer where "c = Some (w, Some al)" and "acf_Enabled al" and "NewAlipayClient al = Inr (client, requester)"
      and "NewSigner client (acf_PrivateKey al) = Inr signer"
      and "ad = alipay_adapter L ((NewAlipayPaymentAdapter Getenv client requester)
        \<lparr>apa_wapSigner := Some signer, apa_publicCertPath := acf_AlipayPublicCertPath al\<rparr>)"
  using assms unfolding NewPaymentAdapters_def by (fastforce simp: Let_def split: option.splits if_splits sum.splits prod.splits)

text \<open>The handler of the route: limiter, use case and acknowledgement.\<close>

lemma handleNotify_cases:
  assumes "handleNotify uc SplitHostPort rawProvider addr request now (w, l) = (ack, w', l')"
  shows "(w' = w \<and> ack = uc_NotificationAck uc (ToLower (TrimSpace rawProvider)) False) \<or>
    (\<exists>r. HandleNotification uc (ToLower (TrimSpace rawProvider)) request w = (r, w') \<and>
       ack = uc_NotificationAck uc (ToLower (TrimSpace rawProvider)) (r = Inr ()))"
  using assms unfolding handleNotify_def by (auto simp: Let_def split: if_splits prod.splits sum.splits)

lemma handled_without_adapter:
  assumes "puc_gateway uc (ToLower (TrimSpace provider)) = None" and "HandleNotification uc provider request w = (r, w')"
  shows "r \<noteq> Inr x \<and> w' = w"
  using assms by (auto simp: HandleNotification_def gw_ParseAndVerifyNotification_def prog_throw_def split: option.splits)

context verified_adapter
begin

lemma callback_is_genuine:
  assumes h: "handleNotify uc SplitHostPort rawProvider addr request now (w, l) = (ack, w', l')"
    and g: "puc_gateway uc (ToLower (TrimSpace (ToLower (TrimSpace rawProvider)))) = Some ad"
    and e: "w' \<noteq> w \<or> ack_Body ack \<in> yes"
  shows "\<exists>n. genuine request n"
proof -
  have no: "ack_Body (uc_NotificationAck uc (ToLower (TrimSpace rawProvider)) False) \<notin> yes"
    using g refusal_differs by (simp add: uc_NotificationAck_def gw_NotificationAck_def)
  with handleNotify_cases [OF h] e obtain r where
    r: "HandleNotification uc (ToLower (TrimSpace rawProvider)) request w = (r, w')" "r = Inr () \<or> w' \<noteq> w"
    by (metis (full_types))
  show ?thesis using handled_is_genuine [OF g r] .
qed

end

text \<open>
  C16. Only a signed callback has an effect. With the adapters built from the configuration, a
  request to the callback route of any provider changes the database, or is acknowledged as
  handled, only when its body is bounded and carries a notification that verifies under the API
  key or the certificate of the configuration, names the configured merchant and reports a
  successful trade with a positive amount.
\<close>

theorem forged_callback_changes_nothing:
  assumes ads: "NewPaymentAdapters L Getenv NewClient NewAlipayClient NewSigner c = Inr ads"
    and uc: "puc_gateway uc = NewPaymentGateway ads"
    and h: "handleNotify uc SplitHostPort rawProvider addr request now (w, l) = (ack, w', l')"
    and e: "w' \<noteq> w \<or> ack_Body ack \<in> handled_texts"
  shows "\<exists>n. (\<exists>wx al. c = Some (Some wx, al) \<and> wcf_Enabled wx \<and> wechat_genuine L (NewWechatPaymentAdapter Getenv NewClient (Some wx)) request n) \<or>
    (\<exists>wx al client requester. c = Some (wx, Some al) \<and> acf_Enabled al \<and> NewAlipayClient al = Inr (client, requester) \<and>
       alipay_genuine L ((NewAlipayPaymentAdapter Getenv client requester)\<lparr>apa_publicCertPath := acf_AlipayPublicCertPath al\<rparr>) request n)"
proof (cases "puc_gateway uc (ToLower (TrimSpace (ToLower (TrimSpace rawProvider))))")
  case None
  have "ack_Body (uc_NotificationAck uc (ToLower (TrimSpace rawProvider)) b) = ''unsupported provider''" for b
    using None by (simp add: uc_NotificationAck_def gw_NotificationAck_def DefaultPaymentNotificationAck_def)
  then have "w' = w \<and> ack_Body ack = ''unsupported provider''"
    using handleNotify_cases [OF h] handled_without_adapter [OF None] by metis
  then show ?thesis using e by (auto simp: handled_texts_def wechat_NotificationAck_def)
next
  case (Some ad)
  then have "Some ad \<in> set ads" using register_adapters_mem [of Map.empty ads] by (auto simp: uc NewPaymentGateway_def)
  with ads show ?thesis
  proof (cases rule: NewPaymentAdapters_mem)
    case (wechat wx al)
    have "\<exists>n. wechat_genuine L (NewWechatPaymentAdapter Getenv NewClient (Some wx)) request n"
      by (rule wechat.callback_is_genuine [OF h Some [unfolded wechat(4)] e])
    then show ?thesis using wechat by blast
  next
    case (alipay wx al client requester signer)
    obtain n where "alipay_genuine L ((NewAlipayPaymentAdapter Getenv client requester)
        \<lparr>apa_wapSigner := Some signer, apa_publicCertPath := acf_AlipayPublicCertPath al\<rparr>) request n"
      using alipay.callback_is_genuine [OF h Some [unfolded alipay(5)] e] by blast
    then have "alipay_genuine L ((NewAlipayPaymentAdapter Getenv client requester)\<lparr>apa_publicCertPath := acf_AlipayPublicCertPath al\<rparr>) request n"
      by (simp add: alipay_genuine_def)
    then show ?thesis using alipay by blast
  qed
qed

section \<open>Answers of the providers\<close>

lemma alipay_refund_answer_cases:
  assumes "alipay_refund_answer L req (Some response) None = (res, err)"
  obtains (success) r where "res = Some r" and "err = None" and "rrs_Success r" and "\<not> rrs_Rejection r" and "rrs_Amount r = rrq_Amount req"
      and "arr_StatusCode response = 200" and "yuanToFen L (arr_RefundFee response) = Inr (rrq_Amount req)"
      and "arr_OutTradeNo response \<in> {'''', rrs_OutTradeNo r}"
    | (failure) r e where "res = Some r" and "err = Some e" and "\<not> rrs_Success r"
      and "rrs_Rejection r \<longleftrightarrow> arr_StatusCode response = 400 \<and> alipayDefinitiveRefundRejection (arr_ErrCode response)"
proof (cases err)
  case None
  then have "res \<noteq> None \<and> rrs_Success (the res) \<and> \<not> rrs_Rejection (the res) \<and> rrs_Amount (the res) = rrq_Amount req \<and>
      arr_StatusCode response = 200 \<and> yuanToFen L (arr_RefundFee response) = Inr (rrq_Amount req) \<and>
      arr_OutTradeNo response \<in> {'''', rrs_OutTradeNo (the res)}"
    using assms unfolding alipay_refund_answer_def Let_def by (auto simp: orEmpty_def split: if_split_asm sum.splits)
  then show thesis using success [of "the res"] None by auto
next
  case (Some e)
  then have "res \<noteq> None \<and> \<not> rrs_Success (the res) \<and>
      (rrs_Rejection (the res) \<longleftrightarrow> arr_StatusCode response = 400 \<and> alipayDefinitiveRefundRejection (arr_ErrCode response))"
    using assms unfolding alipay_refund_answer_def Let_def by (auto split: if_split_asm sum.splits)
  then show thesis using failure [of "the res" e] Some by auto
qed

text \<open>
  C17. A refund is never overstated. A result with \<open>Success\<close> comes without an error, from an
  answer 200 whose fee is the amount asked for and whose number does not contradict the request;
  \<open>Rejection\<close>, which ends a refund for good, comes with an error and only from an answer 400 with
  one of the four definitive codes, never when the call itself failed; and without an error the
  result is a success.
\<close>

theorem alipay_refund_is_never_overstated:
  assumes a: "apa_tradeRequester a = Some requester"
    and call: "art_TradeRefund requester (refund_body L req) w = ((rsp, e), w')" and r: "alipay_Refund L a req w = ((res, err), w'')"
  shows "w'' = w' \<and> (e \<noteq> None \<longrightarrow> err = e) \<and> (err = None \<longrightarrow> res \<noteq> None) \<and>
    (case res of None \<Rightarrow> True | Some r \<Rightarrow>
      (rrs_Success r \<longleftrightarrow> err = None) \<and>
      (rrs_Success r \<longrightarrow> rrs_Amount r = rrq_Amount req \<and> (\<exists>response. rsp = Some response \<and> arr_StatusCode response = 200 \<and>
         yuanToFen L (arr_RefundFee response) = Inr (rrq_Amount req) \<and> arr_OutTradeNo response \<in> {'''', rrs_OutTradeNo r})) \<and>
      (rrs_Rejection r \<longrightarrow> \<not> rrs_Success r \<and> e = None \<and> (\<exists>response. rsp = Some response \<and> arr_StatusCode response = 400 \<and>
         alipayDefinitiveRefundRejection (arr_ErrCode response))))"
proof -
  have ans: "alipay_refund_answer L req rsp e = (res, err)" and w: "w'' = w'"
    using a call r by (simp_all add: alipay_Refund_def)
  show ?thesis
  proof (cases "\<exists>response. rsp = Some response \<and> e = None")
    case True
    then obtain response where rsp: "rsp = Some response" "e = None" by blast
    from ans [unfolded rsp] show ?thesis by (cases rule: alipay_refund_answer_cases) (auto simp: rsp w)
  next
    case False
    then show ?thesis using ans w by (cases rsp; cases e) (auto simp: alipay_refund_answer_def Let_def)
  qed
qed

lemma validateWechatResponse_Inr:
  "validateWechatResponse L apiKey client content r = Inr () \<longleftrightarrow> wr_ReturnCode r = ''SUCCESS'' \<and>
     wx_VerifySign L apiKey (wx_SignType_MD5 L) content = Inr True \<and> wr_Appid r = wc_AppId client \<and> wr_MchId r = wc_MchId client \<and>
     wr_ResultCode r = ''SUCCESS''"
  by (auto simp: validateWechatResponse_def)

lemma with_nonce_Inr: "with_nonce L f w = (Inr x, w') \<longleftrightarrow> (\<exists>nonce w1. pl_RandomString L 32 w = (nonce, w1) \<and> f nonce w1 = (Inr x, w'))"
  by (auto simp: with_nonce_def split: prod.splits)

lemmas wechat_run = with_nonce_Inr prog_bind_Inr prog_lift_Inr prog_return_Inr prog_throw_Inr validateWechatResponse_Inr

lemma wechat_query_amount_moved:
  "wechat_query_amount state totalFee = Inr amount \<Longrightarrow> state = TradeStateSuccess \<or> state = TradeStateRefund \<Longrightarrow> ParseInt totalFee = Some amount"
  by (auto simp: wechat_query_amount_def split: if_splits option.splits)

text \<open>
  What WeChat Pay answers is used only when it is signed. A prepay reference, the result of a
  query or a confirmed closing comes from an answer that verifies under the API key and names the
  configured merchant; and when a query reports that money moved, the amount is the number the
  signed answer gives, never a default.
\<close>

theorem wechat_answers_are_verified:
  assumes a: "wpa_client a = Some client"
  shows "(wechat_Prepay L a preq wp = (Inr (Some r), wp') \<longrightarrow> (\<exists>response.
      wx_VerifySign L (wpa_apiKey a) (wx_SignType_MD5 L) (SignedOrder response) = Inr True \<and> wr_Appid response = wc_AppId client \<and>
      wr_MchId response = wc_MchId client \<and> prs_ProviderReference r = wor_PrepayId response \<and> wor_PrepayId response \<noteq> '''' \<and>
      0 < prq_Amount preq)) \<and>
    (wechat_Query L a qreq wq = (Inr (Some q), wq') \<longrightarrow> (\<exists>response content body w1.
      wc_QueryOrder client body w1 = (Inr (Some response, content), wq') \<and>
      wx_VerifySign L (wpa_apiKey a) (wx_SignType_MD5 L) (SignedQuery content) = Inr True \<and> wr_Appid response = wc_AppId client \<and>
      wr_MchId response = wc_MchId client \<and> qrs_TradeState q = ParseTradeState (wqr_TradeState response) \<and>
      (qrs_TradeState q \<in> {TradeStateSuccess, TradeStateRefund} \<longrightarrow> ParseInt (wqr_TotalFee response) = Some (qrs_Amount q)))) \<and>
    (wechat_Close L a creq wc = (Inr (Some cr), wc') \<longrightarrow> (\<exists>response.
      wx_VerifySign L (wpa_apiKey a) (wx_SignType_MD5 L) (SignedClose response) = Inr True \<and> wr_Appid response = wc_AppId client \<and>
      wr_MchId response = wc_MchId client \<and> wr_ResultCode response = ''SUCCESS''))"
proof (intro conjI impI)
  assume "wechat_Prepay L a preq wp = (Inr (Some r), wp')"
  then show "\<exists>response. wx_VerifySign L (wpa_apiKey a) (wx_SignType_MD5 L) (SignedOrder response) = Inr True \<and> wr_Appid response = wc_AppId client \<and>
      wr_MchId response = wc_MchId client \<and> prs_ProviderReference r = wor_PrepayId response \<and> wor_PrepayId response \<noteq> '''' \<and> 0 < prq_Amount preq"
    unfolding wechat_Prepay_def a by (auto simp: wechat_run validateCNYAmount_def split: option.splits if_split_asm)
next
  assume "wechat_Query L a qreq wq = (Inr (Some q), wq')"
  then show "\<exists>response content body w1. wc_QueryOrder client body w1 = (Inr (Some response, content), wq') \<and> wx_VerifySign L (wpa_apiKey a) (wx_SignType_MD5 L) (SignedQuery content) = Inr True \<and> wr_Appid response = wc_AppId client \<and>
      wr_MchId response = wc_MchId client \<and> qrs_TradeState q = ParseTradeState (wqr_TradeState response) \<and>
      (qrs_TradeState q \<in> {TradeStateSuccess, TradeStateRefund} \<longrightarrow> ParseInt (wqr_TotalFee response) = Some (qrs_Amount q))"
    unfolding wechat_Query_def a Let_def
    by (simp add: wechat_run split: prod.splits option.splits) (use wechat_query_amount_moved in fastforce)
next
  assume "wechat_Close L a creq wc = (Inr (Some cr), wc')"
  then show "\<exists>response. wx_VerifySign L (wpa_apiKey a) (wx_SignType_MD5 L) (SignedClose response) = Inr True \<and> wr_Appid response = wc_AppId client \<and>
      wr_MchId response = wc_MchId client \<and> wr_ResultCode response = ''SUCCESS''"
    unfolding wechat_Close_def a by (auto simp: wechat_run split: option.splits)
qed

text \<open>Amounts sent to Alipay and read back, for a decimal library that prints two digits exactly.\<close>

lemma yuanToFen_fenToYuan:
  assumes "decimal_ok (pl_decimal L)" and "dec_Shift (pl_decimal L) (of_int a) (- 2) = of_int a / 100"
    and "pl_NewFromString L (pl_StringFixed L (of_int a / 100) 2) = Inr (of_int a / 100)" and "0 \<le> a" and "a \<le> MaxInt64"
  shows "yuanToFen L (fenToYuan L a) = Inr a"
  unfolding yuanToFen_def fenToYuan_def assms(2,3) using assms(1,4,5) by (simp add: decimal_ok_def)

end
