(* ===== verification/AdapterFlow.thy ===== *)
theory AdapterFlow
  imports Adapters PaymentFlow
begin

text \<open>
  The adapters of the configuration keep the contract of the gateway: while one of their calls is
  in flight the database changes by steps of the mall only, because they touch it nowhere
  themselves. What is assumed is this of the calls of the SDK alone. So the payment programs with
  the configured adapters are runs of the mall.
\<close>

definition wechat_client_interleaves :: "'p world wechat_client \<Rightarrow> bool" where
  "wechat_client_interleaves client \<longleftrightarrow> (\<forall>body. prog_rel runs (wc_UnifiedOrder client body) \<and> prog_rel runs (wc_QueryOrder client body) \<and>
     prog_rel runs (wc_CloseOrder client body))"

definition alipay_client_interleaves :: "'p world alipay_client \<Rightarrow> 'p world alipayTradeRequester \<Rightarrow> bool" where
  "alipay_client_interleaves client requester \<longleftrightarrow> (\<forall>body. prog_rel runs (alc_TradeAppPay client body) \<and> prog_rel runs (alc_TradeQuery client body) \<and>
     prog_rel runs (art_TradeClose requester body) \<and> prog_rel runs (art_TradeRefund requester body))"

definition sdk_interleaves ::
    "('p world, 'r) pay_lib \<Rightarrow> (string \<Rightarrow> string \<Rightarrow> string \<Rightarrow> bool \<Rightarrow> 'p world wechat_client) \<Rightarrow>
     (alipay_conf \<Rightarrow> error + 'p world alipay_client \<times> 'p world alipayTradeRequester) \<Rightarrow>
     ('p world alipay_client \<Rightarrow> string \<Rightarrow> error + (BodyMap \<Rightarrow> ('p world, string) prog)) \<Rightarrow> bool" where
  "sdk_interleaves L NewClient NewAlipayClient NewSigner \<longleftrightarrow>
     prog_rel runs (pl_RandomString L 32) \<and>
     (\<forall>appId mchId apiKey prod. wechat_client_interleaves (NewClient appId mchId apiKey prod)) \<and>
     (\<forall>c client requester. NewAlipayClient c = Inr (client, requester) \<longrightarrow> alipay_client_interleaves client requester) \<and>
     (\<forall>client key signer body. NewSigner client key = Inr signer \<longrightarrow> prog_rel runs (signer body))"

lemma flow_with_nonce: "prog_rel runs (pl_RandomString L 32) \<Longrightarrow> (\<And>nonce. prog_rel runs (f nonce)) \<Longrightarrow> prog_rel runs (with_nonce L f)"
  unfolding with_nonce_def by (rule flow.prel_chain)

lemmas adapter_flow = flow.prel_return flow.prel_throw flow.prel_lift flow.prel_bind flow_with_nonce flow_time_Now

lemma wechat_adapter_interleaves:
  assumes "prog_rel runs (pl_RandomString L 32)" and "\<And>client. wpa_client a = Some client \<Longrightarrow> wechat_client_interleaves client"
  shows "adapter_interleaves (wechat_adapter L a)"
proof -
  have "prog_rel runs (wechat_Prepay L a req)" for req
    using assms unfolding wechat_Prepay_def wechat_client_interleaves_def by (auto intro!: adapter_flow split: option.split)
  moreover have "prog_rel runs (wechat_Query L a req)" for req
    using assms unfolding wechat_Query_def wechat_client_interleaves_def Let_def by (auto intro!: adapter_flow split: option.split)
  moreover have "prog_rel runs (wechat_Close L a req)" for req
    using assms unfolding wechat_Close_def wechat_client_interleaves_def by (auto intro!: adapter_flow split: option.split)
  moreover have "prog_rel runs (ad_Refund (wechat_adapter L a) req)" for req
    by (simp add: prog_rel_def wechat_adapter_def wechat_Refund_def)
  ultimately show ?thesis by (simp add: adapter_interleaves_def wechat_adapter_def)
qed

lemma alipay_adapter_interleaves:
  assumes "apa_client a = Some client" and "apa_tradeRequester a = Some requester" and "alipay_client_interleaves client requester"
    and "\<And>signer body. apa_wapSigner a = Some signer \<Longrightarrow> prog_rel runs (signer body)"
  shows "adapter_interleaves (alipay_adapter L a)"
proof -
  have "prog_rel runs (alipay_Prepay L a req)" for req
    using assms unfolding alipay_Prepay_def alipay_client_interleaves_def Let_def by (auto intro!: adapter_flow split: option.split)
  moreover have "prog_rel runs (alipay_Query L a req)" for req
    using assms unfolding alipay_Query_def alipay_client_interleaves_def by (auto intro!: adapter_flow split: option.split prod.split)
  moreover have "prog_rel runs (alipay_Close a req)" for req
  proof -
    have "prog_rel runs (art_TradeClose requester (trade_body (crq_OutTradeNo req) (crq_TransactionID req)))"
      using assms(3) by (simp add: alipay_client_interleaves_def)
    then show ?thesis unfolding alipay_Close_def assms(2) Let_def option.case
      by (intro flow.prel_chain) (auto simp: prog_rel_def split: option.split prod.split)
  qed
  moreover have "prog_rel runs (alipay_Refund L a req)" for req
  proof -
    have "prog_rel runs (art_TradeRefund requester (refund_body L req))"
      using assms(3) by (simp add: alipay_client_interleaves_def)
    then have "prog_rel runs (\<lambda>w. case art_TradeRefund requester (refund_body L req) w of (x, w') \<Rightarrow>
        (\<lambda>(rsp, err) w'. (alipay_refund_answer L req rsp err, w')) x w')"
      by (rule flow.prel_chain) (simp add: prog_rel_def split: prod.split)
    then show ?thesis by (simp add: prog_rel_def alipay_Refund_def assms(2) split: prod.splits)
  qed
  ultimately show ?thesis by (simp add: adapter_interleaves_def alipay_adapter_def)
qed

lemma configured_gateway_interleaves:
  assumes sdk: "sdk_interleaves L NewClient NewAlipayClient NewSigner"
    and ads: "NewPaymentAdapters L Getenv NewClient NewAlipayClient NewSigner c = Inr ads"
  shows "interleaves (NewPaymentGateway ads)"
  unfolding interleaves_def
proof (intro allI impI)
  fix p ad
  assume "NewPaymentGateway ads p = Some ad"
  then have "Some ad \<in> set ads" using register_adapters_mem [of Map.empty ads] by (auto simp: NewPaymentGateway_def)
  with ads show "adapter_interleaves ad"
  proof (cases rule: NewPaymentAdapters_mem)
    case (wechat wx al)
    show ?thesis unfolding wechat(4)
      by (rule wechat_adapter_interleaves)
         (use sdk in \<open>auto simp: sdk_interleaves_def NewWechatPaymentAdapter_def Let_def split: if_splits\<close>)
  next
    case (alipay wx al client requester signer)
    show ?thesis unfolding alipay(5)
      by (rule alipay_adapter_interleaves [where client = client and requester = requester])
         (use sdk alipay in \<open>auto simp: sdk_interleaves_def NewAlipayPaymentAdapter_def\<close>)
  qed
qed


end
