(* ===== verification/AdapterExample.thy ===== *)
theory AdapterExample
  imports AdapterFlow PaymentExample
begin

text \<open>A configuration with both providers, an SDK that answers with fixed values, and requests to the
  adapters: the inputs of the witnesses of their properties.\<close>

definition ex_notify :: wechat_notify where
  "ex_notify = \<lparr>wr_ReturnCode = ''SUCCESS'', wr_ResultCode = ''SUCCESS'', wr_ErrCode = '''', wr_Appid = ''app'', wr_MchId = ''mch'',
     wn_SignType = '''', wn_OutTradeNo = ''P1'', wn_TransactionId = ''W9'', wn_FeeType = '''', wn_TotalFee = ''3000''\<rparr>"

definition ex_lib :: "(unit world, unit) pay_lib" where
  "ex_lib = \<lparr>pl_decimal = exact_decimals, pl_NewFromString = (\<lambda>v. if v = ''30.00'' then Inr 30 else Inl ErrNoRows), pl_StringFixed = (\<lambda>x n. ''30.00''),
     pl_sha256hex = (\<lambda>v. v), pl_Marshal_signed = spp_Payload, pl_Marshal_map = (\<lambda>kvs. concat (map snd kvs)), pl_RandomString = (\<lambda>n w. (''nonce'', w)),
     ali_ParseNotifyToBodyMap = (\<lambda>r body. Inl ErrNoRows), ali_VerifySignWithCert = (\<lambda>cert notify. Inr False),
     wx_ParseNotify = (\<lambda>r body. if body = ''signed'' then Inr ex_notify else Inl ErrNoRows),
     wx_VerifySign = (\<lambda>key signType content. Inr (key = ''key'')), wx_GetAppPaySign = concat, wx_GetJsapiPaySign = concat,
     wx_SignType_MD5 = ''MD5'', wx_SignType_HMAC_SHA256 = ''HMAC-SHA256'', wx_TradeType_JsApi = ''JSAPI'', wx_TradeType_Native = ''NATIVE'',
     wx_TradeType_App = ''APP''\<rparr>"

definition ex_query_rsp :: wechat_query_rsp where
  "ex_query_rsp = \<lparr>wr_ReturnCode = ''SUCCESS'', wr_ResultCode = ''SUCCESS'', wr_ErrCode = '''', wr_Appid = ''app'', wr_MchId = ''mch'',
     wqr_OutTradeNo = ''P1'', wqr_TransactionId = ''W9'', wqr_TradeState = ''SUCCESS'', wqr_TradeStateDesc = '''', wqr_TotalFee = ''3000''\<rparr>"

definition ex_wechat_client :: "string \<Rightarrow> string \<Rightarrow> string \<Rightarrow> bool \<Rightarrow> unit world wechat_client" where
  "ex_wechat_client appId mchId apiKey production = \<lparr>wc_AppId = appId, wc_MchId = mchId, wc_ApiKey = apiKey,
     wc_UnifiedOrder = (\<lambda>body. prog_return None), wc_QueryOrder = (\<lambda>body. prog_return (Some ex_query_rsp, Map.empty)),
     wc_CloseOrder = (\<lambda>body. prog_return None)\<rparr>"

definition ex_refund_rsp :: alipay_refund_rsp where
  "ex_refund_rsp = \<lparr>arr_StatusCode = 200, arr_ErrCode = '''', arr_OutTradeNo = ''P1'', arr_TradeNo = '''', arr_RefundFee = ''30.00''\<rparr>"

definition ex_requester :: "unit world alipayTradeRequester" where
  "ex_requester = \<lparr>art_TradeClose = (\<lambda>body w. ((None, Some ErrNoRows), w)), art_TradeRefund = (\<lambda>body w. ((Some ex_refund_rsp, None), w))\<rparr>"

definition ex_alipay_client :: "unit world alipay_client" where
  "ex_alipay_client = \<lparr>alc_AppId = ''ali'', alc_IsProd = True, alc_AppAuthToken = '''', alc_TradeAppPay = (\<lambda>body. prog_return ''signed''),
     alc_TradeQuery = (\<lambda>body. prog_return None)\<rparr>"

definition ex_wechat_conf :: wechat_conf where
  "ex_wechat_conf = \<lparr>wcf_AppId = ''app'', wcf_MchId = ''mch'', wcf_ApiKey = ''key'', wcf_IsProduction = True, wcf_Enabled = True\<rparr>"

definition ex_alipay_conf :: alipay_conf where
  "ex_alipay_conf = \<lparr>acf_AppId = ''ali'', acf_PrivateKey = ''k'', acf_AppCertPath = ''a'', acf_AlipayPublicCertPath = ''p'',
     acf_AlipayRootCertPath = ''r'', acf_Enabled = True\<rparr>"

definition ex_adapters :: "error + (unit world, unit http_request) PaymentAdapter option list" where
  "ex_adapters = NewPaymentAdapters ex_lib (\<lambda>_. '''') ex_wechat_client (\<lambda>c. Inr (ex_alipay_client, ex_requester))
     (\<lambda>client key. Inr (\<lambda>body. prog_return ''signed'')) (Some (Some ex_wechat_conf, Some ex_alipay_conf))"

definition ex_ads :: "(unit world, unit http_request) PaymentAdapter option list" where
  "ex_ads = projr ex_adapters"

lemma ex_adapters: "ex_adapters = Inr ex_ads"
  by (simp add: ex_ads_def ex_adapters_def NewPaymentAdapters_def ex_wechat_conf_def ex_alipay_conf_def)

definition ex_paying :: "(unit world, unit http_request) paymentUsecase" where
  "ex_paying = \<lparr>puc_gateway = NewPaymentGateway ex_ads, puc_repoJobs = Some ex_river, puc_notificationRepo = Some ex_river,
     puc_paymentJobs = Some ex_river, puc_policy = puc_policy ex_uc, puc_Error = (\<lambda>_. ''error'')\<rparr>"

definition ex_callback :: "string \<Rightarrow> PaymentNotificationAck \<times> unit world \<times> providerCallbackLimiter" where
  "ex_callback body = handleNotify ex_paying (\<lambda>_. None) ''wechat'' ''1.2.3.4'' \<lparr>hr_Body = Some (body, None), hr_rest = (), hr_Now = 5\<rparr> 60
     (ex_world ex_db4, newProviderCallbackLimiter 10)"

theorem forged_callback_changes_nothing_witness:
  "ack_Body (fst (ex_callback ''signed'')) \<in> handled_texts \<and>
   (\<exists>n. wechat_genuine ex_lib (NewWechatPaymentAdapter (\<lambda>_. '''') ex_wechat_client (Some ex_wechat_conf)) \<lparr>hr_Body = Some (''signed'', None), hr_rest = (), hr_Now = 5\<rparr> n)"
proof
  have "ack_Body (fst (ex_callback ''signed'')) = ack_Body (wechat_NotificationAck True)" by code_simp
  then show ok: "ack_Body (fst (ex_callback ''signed'')) \<in> handled_texts" by (simp add: handled_texts_def)
  have no: "\<not> alipay_genuine ex_lib a r n" for a r n by (simp add: alipay_genuine_def ex_lib_def)
  obtain ack w' l' where h: "ex_callback ''signed'' = (ack, w', l')" using prod_cases3 by blast
  show "\<exists>n. wechat_genuine ex_lib (NewWechatPaymentAdapter (\<lambda>_. '''') ex_wechat_client (Some ex_wechat_conf)) \<lparr>hr_Body = Some (''signed'', None), hr_rest = (), hr_Now = 5\<rparr> n"
    using forged_callback_changes_nothing [OF ex_adapters [unfolded ex_adapters_def] _ h [unfolded ex_callback_def]] ok no
    by (auto simp: ex_paying_def h)
qed

definition ex_refund :: PaymentRefundRequest where
  "ex_refund = \<lparr>rrq_Method = \<lparr>pm_Provider = ''alipay'', pm_Product = ''app''\<rparr>, rrq_OutTradeNo = ''P1'', rrq_TransactionID = '''',
     rrq_OutRefundNo = ''R1'', rrq_Amount = 3000, rrq_Currency = ''CNY'', rrq_Reason = ''''\<rparr>"

theorem alipay_refund_is_never_overstated_witness:
  "\<exists>r. fst (alipay_Refund ex_lib (NewAlipayPaymentAdapter (\<lambda>_. '''') ex_alipay_client ex_requester) ex_refund (ex_world ex_db5)) = (Some r, None) \<and>
     rrs_Success r \<and> rrs_Amount r = 3000"
proof -
  let ?a = "NewAlipayPaymentAdapter (\<lambda>_. '''') ex_alipay_client ex_requester"
  obtain res err w' where r: "alipay_Refund ex_lib ?a ex_refund (ex_world ex_db5) = ((res, err), w')" by (metis surj_pair)
  have "snd (fst (alipay_Refund ex_lib ?a ex_refund (ex_world ex_db5))) = None" by code_simp
  then have e: "err = None" by (simp add: r)
  have a: "apa_tradeRequester ?a = Some ex_requester" by (simp add: NewAlipayPaymentAdapter_def)
  have c: "art_TradeRefund ex_requester (refund_body ex_lib ex_refund) (ex_world ex_db5) = ((Some ex_refund_rsp, None), ex_world ex_db5)"
    by (simp add: ex_requester_def)
  have amount: "rrq_Amount ex_refund = 3000" by (simp add: ex_refund_def)
  show ?thesis using alipay_refund_is_never_overstated [OF a c r] by (auto simp: r e amount split: option.splits)
qed

definition ex_wechat :: "unit world WechatPaymentAdapter" where
  "ex_wechat = NewWechatPaymentAdapter (\<lambda>_. '''') ex_wechat_client (Some ex_wechat_conf)"

definition ex_query_req :: PaymentQueryRequest where
  "ex_query_req = \<lparr>qrq_ExpectedProviderAccount = '''', qrq_Method = \<lparr>pm_Provider = ''wechat'', pm_Product = ''native''\<rparr>,
     qrq_OutTradeNo = ''P1'', qrq_TransactionID = ''''\<rparr>"

theorem wechat_answers_are_verified_witness:
  "\<exists>q. fst (wechat_Query ex_lib ex_wechat ex_query_req (ex_world ex_db4)) = Inr (Some q) \<and> qrs_TradeState q = TradeStateSuccess \<and>
     ParseInt ''3000'' = Some (qrs_Amount q)"
proof -
  let ?run = "wechat_Query ex_lib ex_wechat ex_query_req (ex_world ex_db4)"
  let ?client = "ex_wechat_client ''app'' ''mch'' ''key'' True"
  have a: "wpa_client ex_wechat = Some ?client"
    by (simp add: ex_wechat_def NewWechatPaymentAdapter_def ex_wechat_conf_def)
  have "\<not> isl (fst ?run)" "projr (fst ?run) \<noteq> None" by code_simp+
  then obtain q w' where run: "?run = (Inr (Some q), w')" by (metis option.exhaust prod.collapse sum.collapse(2))
  obtain response content body w1 where "wc_QueryOrder ?client body w1 = (Inr (Some response, content), w')"
    and s: "qrs_TradeState q = ParseTradeState (wqr_TradeState response)"
    and "qrs_TradeState q \<in> {TradeStateSuccess, TradeStateRefund} \<longrightarrow> ParseInt (wqr_TotalFee response) = Some (qrs_Amount q)"
    using wechat_answers_are_verified [OF a, THEN conjunct2, THEN conjunct1, rule_format, OF run] by blast
  moreover from this(1) have "response = ex_query_rsp" by (simp add: ex_wechat_client_def prog_return_def)
  moreover have "ParseTradeState ''SUCCESS'' = TradeStateSuccess" by code_simp
  ultimately show ?thesis by (simp add: run ex_query_rsp_def)
qed

lemma ex_sdk: "sdk_interleaves ex_lib ex_wechat_client (\<lambda>c. Inr (ex_alipay_client, ex_requester)) (\<lambda>client key. Inr (\<lambda>body. prog_return ''signed''))"
  by (simp add: sdk_interleaves_def wechat_client_interleaves_def alipay_client_interleaves_def ex_lib_def ex_wechat_client_def
      ex_alipay_client_def ex_requester_def prog_rel_def prog_return_def)

definition ex_paying_worker :: "(unit world, unit http_request) pay_worker" where
  "ex_paying_worker = \<lparr>pw_gateway = NewPaymentGateway ex_ads, pw_repoJobs = Some ex_river,
     pw_Unmarshal = (\<lambda>_. (False, \<lparr>spp_Payload = '''', spp_ExpiresAt = 0, spp_ProviderAccount = ''''\<rparr>)),
     pw_recordOutput = (\<lambda>_. Inr ()), pw_Error = (\<lambda>_. ''error'')\<rparr>"


end
