(* ===== verification/Spec2Isabelle.thy ===== *)
theory Spec2Isabelle
  imports StockInvariant PaymentExample AccountExample Snowflake CacheExample MallExample ServiceExample AdapterExample
begin

text \<open>
  \<^bold>\<open>A verification of the backend of simple-ecommerce\<close>

  The program is a shop with a community: a Go service (app/mall) that answers HTTP and gRPC
  requests, keeps its state in PostgreSQL, copies some of it into Redis, runs background jobs with
  River and talks to payment providers and an object storage. This development models its layers
  as executable functions and proves what makes them correct together.

  \<^bold>\<open>How the code is translated.\<close> A repository method is a transaction: a function from the database to
  \<open>error + (result \<times> database)\<close>, where an error rolls back (\<open>InTx\<close>, data/transaction.go). The database
  is the record \<open>db\<close> with one list of rows per table (Schema, after db/models.go and the migrations);
  every generated query \<open>X\<close> of data/db is a definition \<open>q_X\<close>, with its guards, constraints and
  unique indexes. A use case or a worker that runs several transactions with provider calls between
  them is a program on a world (Gateway): the call may return a world whose database other requests
  have changed. Handlers (\<open>svc_X\<close> for service method X) are programs as well. Every raise and early
  return is a value \<open>Inl e\<close>. Integers keep their width where the code relies on it (\<open>wrap32\<close>, \<open>wrap64\<close>,
  range checks, 64-bit words of the identifier generator).

  \<^bold>\<open>Theories and sources\<close> (paths under app/mall/internal unless they start with pkg).
  \<^item> Prelude, EventSystem, GoStrings: integers, errors, transactions, keyed tables; state machines,
    invariants and simulations; the string functions. The collections \<open>tx_simps\<close>, \<open>sql_defs\<close>,
    \<open>sim_rules\<close> and \<open>stk_rules\<close> carry the proofs.
  \<^item> Schema, PaymentTypes, Money, Queries: the data, biz/payment\_types.go, payment\_transition.go,
    payment\_unissued.go, pagination.go, prices (biz/mall.go), data/db/*.sql.go.
  \<^item> Notification, Settlement, Orders, OrderLifecycle, PaymentRepo, Reconciliation, Stock, Catalog,
    PaymentJobs: the repositories and use cases of orders, payments, refunds, notifications,
    reconciliation, stock, products and categories (biz/order.go, data/order.go, order\_expiry.go,
    order\_fulfillment.go, payment\_repository.go, payment\_settlement.go, refund\_repository.go,
    notification\_repository.go, payment\_reconciliation.go, stock\_repository.go, product.go,
    category.go, river\_error\_handler.go).
  \<^item> Gateway, PaymentUsecase, Workers: biz/payment\_gateway.go, payment.go, payment\_prepay.go,
    payment\_refund.go, payment\_notification.go, payment\_jobs.go; job/river.go, close\_payment.go,
    order\_expiry.go, reaper.go.
  \<^item> Adapters, AdapterFlow: data/payment\_alipay.go, payment\_wechat.go, payment\_adapters.go,
    payment\_adapter\_helpers.go.
  \<^item> Ledger, MoneyRefinement, Mall, StockInvariant, Checkout, PaymentFlow: the abstract ledger and the
    proofs about the components above.
  \<^item> Crypto, Accounts, Sessions, SessionSafety: pkg/phonecrypto, pkg/pwdhash, biz/user.go, data/user.go,
    biz/auth.go, data/auth.go, login\_limit.go, service/user.go, authorization.go.
  \<^item> Pages, Media, Community, History, CommunitySafety, CommunityEvolution, Feed: biz/community.go,
    media.go, post.go, comment.go, browsing\_history.go, their repositories, jobs and handlers.
  \<^item> Events, MallService, OrderService: data/event.go, service/mall.go, order.go, order\_fulfillment.go,
    payment.go, payment\_reconciliation.go.
  \<^item> Cache: data/cache*.go, product\_cache.go, redis\_key.go, job/cache\_invalidation.go.
  \<^item> RateLimit, Server: biz/rate\_limit.go, data/rate\_limit.go, conf/community.go, server/http.go, grpc.go
    and the middleware. Snowflake: biz/id\_generator.go, data/id\_generator.go.
  \<^item> Example, PaymentExample, AdapterExample, AccountExample, CommunityExample, CacheExample,
    MallExample, ServiceExample: concrete runs, at which the properties are instantiated.

  \<^bold>\<open>What is shown.\<close>
  \<^item> Money: the step relation \<open>mall_step\<close> (one operation with any arguments) refines the ledger
    (interpretation \<open>mall\<close> of the locale \<open>simulation\<close>), so the ledger's invariants hold in every reachable
    database: a funded order has its payment, captured money is accounted for or under review, a
    refund is single and whole. Orders and payments move along their state machines.
  \<^item> Stock: never negative and conserved (interpretations of \<open>mall_relation\<close> and \<open>invariant_system\<close>).
  \<^item> Checkout: exact totals, and the same request again returns the same order.
  \<^item> Payments: the payment programs and workers, with the adapters of the configuration, are runs of
    the mall whatever happens during their provider calls (locales \<open>prog_relation\<close> and
    \<open>verified_adapter\<close>); only signed callbacks have an effect; refunds are never overstated.
  \<^item> Accounts and sessions: a refresh token is used once, a logout ends a session at every door, a
    password change revokes claims, login attempts are bounded (locales \<open>session_relation\<close>,
    \<open>session_run\<close>).
  \<^item> Community: images, threads, account deletion, and listings that show every row once (locales
    \<open>media_relation\<close>, \<open>community_relation\<close>, \<open>paged_listing\<close>, \<open>keyset_listing\<close>).
  \<^item> Cache: reads through the cache equal reads of the database unless an invalidation is outstanding,
    and the recovery worker clears what is outstanding.
  \<^item> Services: writing needs an administrator, callers see their own orders, prices shown are prices
    charged, amounts survive their text form, quotas and forwarded addresses hold.

  \<^bold>\<open>Bounds and fuel.\<close> Lists of rows are finite, so loops over them are structural. Following cursors
  (\<open>fetch_all\<close>) takes a number of pages as fuel; the properties about listings show that as many pages
  as there are rows are enough. The retries of a checkout and the pages of the reaper are bounded in
  the code itself. Every other definition is total.

  \<^bold>\<open>Parameters.\<close> Code outside the repository is an argument of the definitions: the decimal package
  (\<open>decimal_ok\<close> is what is used of it), River's insertion of jobs, the payment SDK, JWT, bcrypt, AES-GCM,
  HKDF and SHA-256 (\<open>aead_ok\<close> for the phone round trip), JSON encoders, image decoders, the object
  storage and package net. Each hypothesis is instantiated in an example theory.

  \<^bold>\<open>Not modelled.\<close> Redis copies of users, addresses, categories, events, orders and payments, expiry
  times of copies and time-outs of calls; logging, metrics and tracing; CORS, listeners and the wiring
  of the process; the S3 client; the wellness card (a table of texts over a calendar library); the
  lookup of a job by id (GetMQJob); the generator of the API documentation. Transactions are serial:
  row and advisory locks are what the code uses to achieve this for one order, and interleaving is
  modelled where a program leaves the database, during provider and storage calls and in the steps of
  the cache. Sequences are counters; some audit columns, the lengths of VARCHAR columns and an overflow of
  row versions are left out; messages of wrapped errors are dropped. Case and white space are the ASCII
  ones except where community texts are trimmed. Rows that tie in an ORDER BY keep the order of the
  table.
\<close>

section \<open>Money\<close>

text \<open>
  C1. Refinement: from every reachable state of the mall, every operation (a checkout, a
  cancellation, an expiry, a provider result, a refund, a reconciliation action, ...) with any
  arguments is a sequence of events of the abstract ledger: nothing the code commits moves
  money or an order's status in a way the ledger does not allow.
\<close>
theorem mall_refines_ledger:
  assumes "mall_reachable s" and "mall_step s s'"
  shows "rtranclp ledger_step (abs_db s) (abs_db s')"
  using mall.sim_step mall.sim_invariants assms by blast

theorem mall_refines_ledger_witness: "rtranclp ledger_step (abs_db ex_db4) (abs_db ex_db5)"
  by (rule mall_refines_ledger [OF ex_reachable(5) ex_steps(5)])

text \<open>
  C2. A paid, shipped or completed order is funded by exactly the payment it names: that
  payment exists, belongs to the order and its user, has the order's amount and currency, and
  its money was captured and not refunded.
\<close>
theorem funded_order_has_its_payment:
  assumes "mall_reachable s" and "find_row ord_ID i (tb_orders s) = Some r"
    and "ord_Status r \<in> {OrderStatusPaid, OrderStatusShipped, OrderStatusCompleted}"
  shows "\<exists>p. ord_PaidPaymentID r = Some (pay_ID p) \<and> find_row pay_ID (pay_ID p) (tb_payments s) = Some p \<and>
    pay_OrderID p = i \<and> pay_UserID p = ord_UserID r \<and> pay_AmountMinor p = ord_TotalAmountMinor r \<and>
    pay_Currency p = ord_Currency r \<and> pay_Status p = PaymentStatusSuccess"
proof -
  have ok: "order_ok (abs_db s) i (abs_order r)" using assms by (intro reach_order)
  then obtain j where j: "ord_PaidPaymentID r = Some j" using assms(3) by (auto simp: order_ok_def)
  with ok assms(3) obtain p where p: "find_row pay_ID j (tb_payments s) = Some p" "pay_OrderID p = i"
    "pay_Status p = PaymentStatusSuccess"
    by (auto simp: order_ok_def)
  have "pay_ok (abs_db s) j (abs_pay p)" using assms p by (intro reach_pay)
  then show ?thesis using assms(2) j p find_row_key [OF p(1)] by (auto simp: pay_ok_def)
qed

theorem funded_order_has_its_payment_witness:
  "\<exists>r. find_row ord_ID 1 (tb_orders ex_db5) = Some r \<and> ord_Status r = OrderStatusPaid \<and>
     (\<exists>p. ord_PaidPaymentID r = Some (pay_ID p) \<and> find_row pay_ID (pay_ID p) (tb_payments ex_db5) = Some p \<and>
        pay_OrderID p = 1 \<and> pay_UserID p = ord_UserID r \<and> pay_AmountMinor p = ord_TotalAmountMinor r \<and>
        pay_Currency p = ord_Currency r \<and> pay_Status p = PaymentStatusSuccess)"
proof -
  obtain r where r: "find_row ord_ID 1 (tb_orders ex_db5) = Some r" "ord_Status r = OrderStatusPaid"
    using ex_order(2) by auto
  moreover have "ord_Status r \<in> {OrderStatusPaid, OrderStatusShipped, OrderStatusCompleted}" using r(2) by simp
  ultimately show ?thesis using funded_order_has_its_payment [OF ex_reachable(6) r(1)] by blast
qed

text \<open>
  C3. An order that waits for payment has no captured money: none of its payments succeeded or
  was refunded. An order names no paid payment exactly while it is pending or cancelled.
\<close>
theorem pending_order_took_no_money:
  assumes "mall_reachable s" and "find_row ord_ID i (tb_orders s) = Some r"
  shows "(ord_PaidPaymentID r = None \<longleftrightarrow> ord_Status r = OrderStatusPendingPayment \<or> ord_Status r = OrderStatusCancelled) \<and>
    (ord_Status r = OrderStatusPendingPayment \<longrightarrow>
      (\<forall>p \<in> set (tb_payments s). pay_OrderID p = i \<longrightarrow>
         pay_Status p \<noteq> PaymentStatusSuccess \<and> pay_Status p \<noteq> PaymentStatusRefunded))"
proof -
  have ok: "order_ok (abs_db s) i (abs_order r)" using assms by (intro reach_order)
  have "distinct (map pay_ID (tb_payments s))" using reach_inv(1) [OF assms(1)] by (simp add: db_ok_def pk_def)
  then have "find_row pay_ID (pay_ID p) (tb_payments s) = Some p" if "p \<in> set (tb_payments s)" for p
    using that by (rule find_row_mem)
  then show ?thesis using ok by (fastforce simp: order_ok_def money_taken_def)
qed

theorem pending_order_took_no_money_witness:
  "\<exists>r. find_row ord_ID 1 (tb_orders ex_db4) = Some r \<and>
     (ord_PaidPaymentID r = None \<longleftrightarrow> ord_Status r = OrderStatusPendingPayment \<or> ord_Status r = OrderStatusCancelled)"
proof -
  have "find_row ord_ID 1 (tb_orders ex_db4) \<noteq> None" by code_simp
  then obtain r where r: "find_row ord_ID 1 (tb_orders ex_db4) = Some r" by auto
  then show ?thesis using pending_order_took_no_money [OF ex_reachable(5) r] by auto
qed

text \<open>
  C4. No captured money is lost: a successful payment either funds its order, which is then
  paid, shipped or completed, or it is under review.
\<close>
theorem captured_money_is_accounted_for:
  assumes "mall_reachable s" and "find_row pay_ID j (tb_payments s) = Some p"
    and "pay_Status p = PaymentStatusSuccess" and "\<not> ReconciliationNeedsReview (pay_ReconciliationStatus p)"
  shows "\<exists>r. find_row ord_ID (pay_OrderID p) (tb_orders s) = Some r \<and> ord_PaidPaymentID r = Some j \<and>
    ord_Status r \<in> {OrderStatusPaid, OrderStatusShipped, OrderStatusCompleted}"
proof -
  have "pay_ok (abs_db s) j (abs_pay p)" using assms by (intro reach_pay)
  then obtain r where r: "find_row ord_ID (pay_OrderID p) (tb_orders s) = Some r" "ord_PaidPaymentID r = Some j"
    using assms(3,4) by (auto simp: pay_ok_def)
  have ok: "order_ok (abs_db s) (pay_OrderID p) (abs_order r)" using assms(1) r by (intro reach_order)
  show ?thesis
  proof (cases "ord_Status r")
    case OrderStatusRefunded
    then show ?thesis using ok r assms(2,3) by (auto simp: order_ok_def)
  qed (use ok r in \<open>auto simp: order_ok_def\<close>)
qed

theorem captured_money_is_accounted_for_witness:
  "\<exists>r. find_row ord_ID 1 (tb_orders ex_db5) = Some r \<and> ord_PaidPaymentID r = Some 1"
proof -
  have "map_option (\<lambda>p. (pay_OrderID p, pay_Status p, pay_ReconciliationStatus p)) (find_row pay_ID 1 (tb_payments ex_db5))
      = Some (1, PaymentStatusSuccess, ReconciliationStatusNone)" by code_simp
  then obtain p where p: "find_row pay_ID 1 (tb_payments ex_db5) = Some p" "pay_OrderID p = 1"
    "pay_Status p = PaymentStatusSuccess" "pay_ReconciliationStatus p = ReconciliationStatusNone" by auto
  then show ?thesis using captured_money_is_accounted_for [OF ex_reachable(6) p(1,3)] by auto
qed

text \<open>
  C5. A double charge is always noticed: of two successful payments of one order, at least one
  is under review.
\<close>
theorem double_charge_is_reviewed:
  assumes "mall_reachable s" and "p \<in> set (tb_payments s)" and "q \<in> set (tb_payments s)" and "pay_ID p \<noteq> pay_ID q"
    and "pay_OrderID p = pay_OrderID q" and "pay_Status p = PaymentStatusSuccess" and "pay_Status q = PaymentStatusSuccess"
  shows "ReconciliationNeedsReview (pay_ReconciliationStatus p) \<or> ReconciliationNeedsReview (pay_ReconciliationStatus q)"
proof -
  have "distinct (map pay_ID (tb_payments s))" using reach_inv(1) [OF assms(1)] by (simp add: db_ok_def pk_def)
  then have f: "find_row pay_ID (pay_ID p) (tb_payments s) = Some p" "find_row pay_ID (pay_ID q) (tb_payments s) = Some q"
    using assms(2,3) find_row_mem by metis+
  have "pay_ok (abs_db s) (pay_ID p) (abs_pay p)" "pay_ok (abs_db s) (pay_ID q) (abs_pay q)"
    using assms(1) f by (auto intro: reach_pay)
  then show ?thesis using assms(4-7) by (auto simp: pay_ok_def)
qed

theorem double_charge_is_reviewed_witness:
  "ReconciliationNeedsReview (pay_ReconciliationStatus (tb_payments ex_db13 ! 0)) \<or>
   ReconciliationNeedsReview (pay_ReconciliationStatus (tb_payments ex_db13 ! 1))"
proof -
  obtain p q where pq: "tb_payments ex_db13 = [p, q]" using ex_double by (auto simp: map_eq_Cons_conv)
  have f: "pay_ID p = 1" "pay_ID q = 2" "pay_OrderID p = 1" "pay_OrderID q = 1"
    "pay_Status p = PaymentStatusSuccess" "pay_Status q = PaymentStatusSuccess"
    using ex_double unfolding pq by simp_all
  show ?thesis
    using double_charge_is_reviewed [OF ex_reachable(11), of p q] f unfolding pq by simp
qed

text \<open>
  C6. At most one payment of an order is open (creating, pending or close-pending) at any time,
  and every payment carries the user, the amount and the currency of its order.
\<close>
theorem one_open_payment_per_order:
  assumes "mall_reachable s" and "p \<in> set (tb_payments s)" and "active_payment (pay_Status p)"
  shows "(\<forall>q \<in> set (tb_payments s). pay_OrderID q = pay_OrderID p \<longrightarrow> active_payment (pay_Status q) \<longrightarrow> q = p) \<and>
    (\<exists>r. find_row ord_ID (pay_OrderID p) (tb_orders s) = Some r \<and> pay_UserID p = ord_UserID r \<and>
       pay_AmountMinor p = ord_TotalAmountMinor r \<and> pay_Currency p = ord_Currency r)"
proof -
  have d: "distinct (map pay_ID (tb_payments s))" using reach_inv(1) [OF assms(1)] by (simp add: db_ok_def pk_def)
  have f: "find_row pay_ID (pay_ID q) (tb_payments s) = Some q" if "q \<in> set (tb_payments s)" for q
    using find_row_mem [OF d that] .
  have ok: "pay_ok (abs_db s) (pay_ID p) (abs_pay p)" using assms f by (intro reach_pay) auto
  have same: "q = p" if q: "q \<in> set (tb_payments s)" "pay_OrderID q = pay_OrderID p" "active_payment (pay_Status q)" for q
  proof -
    have "\<forall>j x. lg_pay (abs_db s) j = Some x \<longrightarrow> ap_order x = ap_order (abs_pay p) \<longrightarrow>
        payment_open (ap_status (abs_pay p)) \<longrightarrow> payment_open (ap_status x) \<longrightarrow> j = pay_ID p"
      using ok unfolding pay_ok_def by (elim conjE)
    from this [rule_format, of "pay_ID q" "abs_pay q"] have "pay_ID q = pay_ID p"
      using assms(3) q f [OF q(1)] by (simp add: active_open)
    then show ?thesis using f [OF q(1)] f [OF assms(2)] by (metis option.inject)
  qed
  have "\<exists>r. find_row ord_ID (pay_OrderID p) (tb_orders s) = Some r \<and> pay_UserID p = ord_UserID r \<and>
       pay_AmountMinor p = ord_TotalAmountMinor r \<and> pay_Currency p = ord_Currency r"
    using ok by (auto simp: pay_ok_def)
  then show ?thesis using same by blast
qed

theorem one_open_payment_per_order_witness:
  "\<exists>r. find_row ord_ID 1 (tb_orders ex_db4) = Some r \<and>
     pay_AmountMinor (hd (tb_payments ex_db4)) = ord_TotalAmountMinor r"
proof -
  have h: "tb_payments ex_db4 \<noteq> [] \<and> pay_OrderID (hd (tb_payments ex_db4)) = 1 \<and>
    active_payment (pay_Status (hd (tb_payments ex_db4)))" by code_simp
  then have m: "hd (tb_payments ex_db4) \<in> set (tb_payments ex_db4)" by simp
  show ?thesis using one_open_payment_per_order [OF ex_reachable(5) m] h by auto
qed

text \<open>
  C7. Refunds give the whole amount back, once: a payment is refunded exactly when it has a
  successful refund record, a payment has at most one refund record, and every refund record
  is for the payment's whole amount, in its currency, to its user. A refunded order is one
  whose funding payment was refunded.
\<close>
theorem refunds_are_full_and_single:
  assumes "mall_reachable s" and "find_row pay_ID i (tb_payments s) = Some p"
  shows "(pay_Status p = PaymentStatusRefunded \<longleftrightarrow>
      (\<exists>f \<in> set (tb_refunds s). rfd_PaymentID f = Some i \<and> rfd_Status f = PaymentRefundStatusSuccess)) \<and>
    (\<forall>f \<in> set (tb_refunds s). \<forall>g \<in> set (tb_refunds s). rfd_PaymentID f = Some i \<longrightarrow> rfd_PaymentID g = Some i \<longrightarrow> f = g) \<and>
    (\<forall>f \<in> set (tb_refunds s). rfd_PaymentID f = Some i \<longrightarrow>
       rfd_RefundAmountMinor f = pay_AmountMinor p \<and> rfd_TotalAmountMinor f = pay_AmountMinor p \<and>
       rfd_Currency f = pay_Currency p \<and> rfd_UserID f = pay_UserID p \<and> rfd_OrderID f = pay_OrderID p)"
proof -
  have d: "distinct (map rfd_PaymentID (tb_refunds s))" using reach_inv(1) [OF assms(1)] by (simp add: db_ok_def)
  note of = refund_of_Some [OF d, of i]
  have ok: "pay_ok (abs_db s) i (abs_pay p)" using assms by (intro reach_pay)
  have "pay_Status p = PaymentStatusRefunded \<longleftrightarrow>
      (\<exists>f. refund_of i (tb_refunds s) = Some f \<and> rfd_Status f = PaymentRefundStatusSuccess)"
    using ok by (auto simp: pay_ok_def)
  moreover have "rfd_RefundAmountMinor f = pay_AmountMinor p \<and> rfd_TotalAmountMinor f = pay_AmountMinor p \<and>
       rfd_Currency f = pay_Currency p \<and> rfd_UserID f = pay_UserID p \<and> rfd_OrderID f = pay_OrderID p"
    if "f \<in> set (tb_refunds s)" "rfd_PaymentID f = Some i" for f
    using reach_refund [OF assms(1), of i f] that of assms(2) by (auto simp: refund_ok_def)
  moreover have "f = g" if "f \<in> set (tb_refunds s)" "g \<in> set (tb_refunds s)" "rfd_PaymentID f = Some i" "rfd_PaymentID g = Some i" for f g
    using of that by (metis option.inject)
  ultimately show ?thesis unfolding of by blast
qed

theorem refunds_are_full_and_single_witness:
  "\<exists>f \<in> set (tb_refunds ex_db7). rfd_PaymentID f = Some 1 \<and> rfd_Status f = PaymentRefundStatusSuccess"
proof -
  obtain p where p: "find_row pay_ID 1 (tb_payments ex_db7) = Some p" "pay_Status p = PaymentStatusRefunded"
    using ex_payment(3) by auto
  show ?thesis using refunds_are_full_and_single [OF ex_reachable(8) p(1)] p(2) by blast
qed

text \<open>
  C8. The life of an order: along every run its owner, its total and its currency stay, its
  status only moves pending to paid or cancelled, paid to shipped or refunded, shipped to
  completed, and a completed, cancelled or refunded order never changes its status again.
\<close>
theorem order_lifecycle:
  assumes "mall_reachable s" and "rtranclp mall_step s s'" and "find_row ord_ID i (tb_orders s) = Some r"
  shows "\<exists>r'. find_row ord_ID i (tb_orders s') = Some r' \<and> ord_UserID r' = ord_UserID r \<and>
    ord_TotalAmountMinor r' = ord_TotalAmountMinor r \<and> ord_Currency r' = ord_Currency r \<and>
    rtranclp order_edge (ord_Status r) (ord_Status r') \<and>
    (ord_PaidPaymentID r \<noteq> None \<longrightarrow> ord_PaidPaymentID r' = ord_PaidPaymentID r) \<and>
    (order_final (ord_Status r) \<longrightarrow> ord_Status r' = ord_Status r)"
proof -
  have "rtranclp ledger_step (abs_db s) (abs_db s')" using mall.sim_star [OF assms(2,1)] by blast
  then have "order_moves (abs_db s) (abs_db s')" by (rule order_moves_star) (rule reach_inv(2) [OF assms(1)])
  moreover have "lg_order (abs_db s) i = Some (abs_order r)" using assms(3) by simp
  ultimately obtain a where a: "lg_order (abs_db s') i = Some a" "ao_user a = ord_UserID r"
    "ao_total a = ord_TotalAmountMinor r" "ao_currency a = ord_Currency r" "order_path (ord_Status r) (ao_status a)"
    "ord_PaidPaymentID r \<noteq> None \<longrightarrow> ao_paid a = ord_PaidPaymentID r"
    unfolding order_moves_def by fastforce
  then obtain r' where r': "find_row ord_ID i (tb_orders s') = Some r'" "a = abs_order r'" by auto
  have "order_final (ord_Status r) \<longrightarrow> ord_Status r' = ord_Status r"
    using order_final_stays [OF a(5)] r'(2) by simp
  then show ?thesis using a r' by (simp add: order_path_def)
qed

theorem order_lifecycle_witness:
  "\<exists>r'. find_row ord_ID 1 (tb_orders ex_db7) = Some r' \<and>
     rtranclp order_edge OrderStatusPendingPayment (ord_Status r')"
proof -
  obtain r where r: "find_row ord_ID 1 (tb_orders ex_db3) = Some r" "ord_Status r = OrderStatusPendingPayment"
    using ex_order(1) by auto
  have "rtranclp mall_step ex_db3 ex_db7" using ex_steps(4-7) by (meson rtranclp.rtrancl_into_rtrancl rtranclp.rtrancl_refl)
  from order_lifecycle [OF ex_reachable(4) this r(1)] show ?thesis unfolding r(2) by blast
qed

text \<open>
  C9. The life of a payment: along every run its order, user, amount and currency stay, and
  its status moves along the edges of the payment machine; a refund is final, and captured
  money is only ever refunded.
\<close>
theorem payment_lifecycle:
  assumes "mall_reachable s" and "rtranclp mall_step s s'" and "find_row pay_ID i (tb_payments s) = Some p"
  shows "\<exists>p'. find_row pay_ID i (tb_payments s') = Some p' \<and> pay_OrderID p' = pay_OrderID p \<and>
    pay_UserID p' = pay_UserID p \<and> pay_AmountMinor p' = pay_AmountMinor p \<and> pay_Currency p' = pay_Currency p \<and>
    rtranclp payment_edge (pay_Status p) (pay_Status p') \<and>
    (pay_Status p = PaymentStatusRefunded \<longrightarrow> pay_Status p' = PaymentStatusRefunded) \<and>
    (pay_Status p = PaymentStatusSuccess \<longrightarrow> pay_Status p' \<in> {PaymentStatusSuccess, PaymentStatusRefunded})"
proof -
  have "rtranclp ledger_step (abs_db s) (abs_db s')" using mall.sim_star [OF assms(2,1)] by blast
  then have "payment_moves (abs_db s) (abs_db s')" by (rule payment_moves_star)
  moreover have "lg_pay (abs_db s) i = Some (abs_pay p)" using assms(3) by simp
  ultimately obtain a where a: "lg_pay (abs_db s') i = Some a" "ap_order a = pay_OrderID p" "ap_user a = pay_UserID p"
    "ap_amount a = pay_AmountMinor p" "ap_currency a = pay_Currency p" "payment_path (pay_Status p) (ap_status a)"
    unfolding payment_moves_def by fastforce
  then obtain p' where p': "find_row pay_ID i (tb_payments s') = Some p'" "a = abs_pay p'" by auto
  have path: "rtranclp payment_edge (pay_Status p) (pay_Status p')" using a(6) p'(2) by (simp add: payment_path_def)
  have "pay_Status p = PaymentStatusRefunded \<longrightarrow> pay_Status p' = PaymentStatusRefunded"
    "pay_Status p = PaymentStatusSuccess \<longrightarrow> pay_Status p' \<in> {PaymentStatusSuccess, PaymentStatusRefunded}"
    using path by (induction rule: rtranclp_induct) (auto simp: payment_edge_def money_taken_def payment_open_def)
  then show ?thesis using a p' path by simp
qed

theorem payment_lifecycle_witness:
  "\<exists>p'. find_row pay_ID 1 (tb_payments ex_db7) = Some p' \<and> pay_Status p' \<in> {PaymentStatusSuccess, PaymentStatusRefunded}"
proof -
  obtain p where p: "find_row pay_ID 1 (tb_payments ex_db5) = Some p" "pay_Status p = PaymentStatusSuccess"
    using ex_payment(2) by auto
  have "rtranclp mall_step ex_db5 ex_db7" using ex_steps(6,7) by (meson rtranclp.rtrancl_into_rtrancl rtranclp.rtrancl_refl)
  from payment_lifecycle [OF ex_reachable(6) this p(1)] show ?thesis using p(2) by blast
qed

text \<open>
  At a commit no order is half cancelled, its total is positive, and the flag
  \<open>is_completed\<close>, by which the ongoing orders are listed, says exactly that the order is
  completed, cancelled or refunded.
\<close>
theorem committed_order_status:
  assumes "mall_reachable s" and "find_row ord_ID i (tb_orders s) = Some r"
  shows "ord_Status r \<noteq> OrderStatusCancelling \<and> 0 < ord_TotalAmountMinor r \<and>
    (ord_IsCompleted r \<longleftrightarrow> ord_Status r \<in> {OrderStatusCompleted, OrderStatusCancelled, OrderStatusRefunded})"
  using reach_order [OF assms] by (simp add: order_ok_def order_final_def)

theorem committed_order_status_witness:
  "\<exists>r. find_row ord_ID 1 (tb_orders ex_db9) = Some r \<and> ord_IsCompleted r"
proof -
  obtain r where r: "find_row ord_ID 1 (tb_orders ex_db9) = Some r" "ord_Status r = OrderStatusCancelled"
    using ex_order(5) by auto
  show ?thesis using committed_order_status [OF ex_reachable(10) r(1)] r by simp
qed

section \<open>Stock\<close>

text \<open>
  C10. In every reachable state each product has a non-negative stock, and the stock together
  with everything its open orders may still give back fits the INTEGER column.
\<close>
theorem stock_within_bounds:
  assumes "mall_reachable s" and "p \<in> set (tb_products s)"
  shows "0 \<le> prd_Stock p \<and>
    prd_Stock p + (\<Sum>i \<leftarrow> tb_items s. if itm_ProductID i = prd_ID p \<and>
        (case find_row ord_ID (itm_OrderID i) (tb_orders s) of None \<Rightarrow> False | Some r \<Rightarrow> restorable (ord_Status r))
      then itm_Quantity i else 0) \<le> MaxInt32"
  using stock.inv_reachable [OF assms(1)] assms(2)
  by (auto simp: stock_ok_def room_ok_def reserved_def status_in_def)

theorem stock_within_bounds_witness: "0 \<le> prd_Stock (hd (tb_products ex_db3))"
proof -
  have "hd (tb_products ex_db3) \<in> set (tb_products ex_db3)" using ex_stock(2) by (intro hd_in_set) auto
  from stock_within_bounds [OF ex_reachable(4) this] show ?thesis by blast
qed

text \<open>
  C11. No stock is lost or made up: along every run, the stock of a product plus what its
  unreleased orders hold, less the recorded adjustments, stays the same.
\<close>
theorem stock_is_conserved:
  assumes "mall_reachable s" and "rtranclp mall_step s s'" and "find_row prd_ID i (tb_products s) = Some p"
  shows "\<exists>p'. find_row prd_ID i (tb_products s') = Some p' \<and>
    prd_Stock p' + reserved holds_stock (tb_orders s') (tb_items s') i - adjusted (tb_adjustments s') i =
    prd_Stock p + reserved holds_stock (tb_orders s) (tb_items s) i - adjusted (tb_adjustments s) i"
proof -
  obtain p' where p': "find_row prd_ID i (tb_products s') = Some p'" "units s' p' = units s p"
    using units_kept_star [OF assms(2,1)] assms(3) unfolding units_kept_def by blast
  have "prd_ID p' = i" "prd_ID p = i" using p'(1) assms(3) find_row_key by metis+
  then show ?thesis using p' by (auto simp: units_def)
qed

theorem stock_is_conserved_witness:
  "\<exists>p'. find_row prd_ID 1 (tb_products ex_db7) = Some p' \<and>
     prd_Stock p' + reserved holds_stock (tb_orders ex_db7) (tb_items ex_db7) 1 - adjusted (tb_adjustments ex_db7) 1 = 10"
proof -
  have "map_option prd_Stock (find_row prd_ID 1 (tb_products ex_db2)) = Some 10" by code_simp
  then obtain p where p: "find_row prd_ID 1 (tb_products ex_db2) = Some p" "prd_Stock p = 10" by auto
  have start: "reserved holds_stock (tb_orders ex_db2) (tb_items ex_db2) 1 = 0" "adjusted (tb_adjustments ex_db2) 1 = 0"
    by code_simp+
  have "rtranclp mall_step ex_db2 ex_db7"
    using ex_steps(3-7) by (meson rtranclp.rtrancl_into_rtrancl rtranclp.rtrancl_refl)
  from stock_is_conserved [OF ex_reachable(3) this p(1)] show ?thesis unfolding p(2) start by auto
qed

text \<open>
  C12. Releasing an order cannot fail on the stock: in every reachable state the statements
  that cancel a pending order and give its stock back succeed.
\<close>
theorem cancelling_never_fails:
  assumes "mall_reachable s" and "find_row ord_ID i (tb_orders s) = Some r" and "ord_Status r = OrderStatusPendingPayment"
  shows "\<exists>s'. cancel_and_restore i s = Inr ((), s') \<and>
    map_option ord_Status (find_row ord_ID i (tb_orders s')) = Some OrderStatusCancelled"
proof -
  let ?f = "\<lambda>r. r\<lparr>ord_Status := OrderStatusCancelling, ord_UpdatedAt := tb_current_timestamp s\<rparr>"
  define s1 where "s1 = s\<lparr>tb_orders := upd_row ord_ID i ?f (tb_orders s)\<rparr>"
  have m: "q_MarkOrderCancelling i s = Inr (?f r, s1)"
    using assms(2,3) by (simp add: sql_defs sql_update_def s1_def)
  have ok: "stock_ok s1"
    using tx_relD [OF stk_order_status(4) m] stock.inv_reachable [OF assms(1)] by (simp add: stk_def)
  have r1: "find_row ord_ID i (tb_orders s1) = Some (?f r)" using assms(2) by (simp add: s1_def find_row_upd)
  have "q_RestoreOrderItemStock i s1 = Inr ((), s1\<lparr>tb_products := map (restore_product (tb_items s1) i) (tb_products s1)\<rparr>)"
    by (rule restore_succeeds [OF ok r1]) (simp add: restorable_def)
  then show ?thesis
    using m r1 by (simp add: cancel_and_restore_def tx_eval sql_defs sql_update_def find_row_upd)
qed

theorem cancelling_never_fails_witness: "\<exists>s'. cancel_and_restore 1 ex_db3 = Inr ((), s')"
proof -
  obtain r where r: "find_row ord_ID 1 (tb_orders ex_db3) = Some r" "ord_Status r = OrderStatusPendingPayment"
    using ex_order(1) by auto
  show ?thesis using cancelling_never_fails [OF ex_reachable(4) r] by blast
qed

section \<open>Checkout on the example\<close>

theorem checkout_total_is_exact_witness:
  "\<exists>r (rows :: order_item list). tb_orders (snd (repo_CreateOrder exact_decimals (Some ex_river) (order_args ex_env ex_req ''key-0001'' (cor_Items ex_req)) ex_db2))
      = tb_orders ex_db2 @ [r] \<and> map itm_Quantity rows = [3] \<and>
    ord_TotalAmountMinor r = (\<Sum>i \<leftarrow> rows. itm_UnitPriceMinor i * itm_Quantity i)"
proof -
  let ?a = "order_args ex_env ex_req ''key-0001'' (cor_Items ex_req)"
  let ?run = "repo_CreateOrder exact_decimals (Some ex_river) ?a ex_db2"
  have "\<not> isl (fst ?run)" by code_simp
  then obtain x where x: "?run = (Inr x, snd ?run)" by (metis prod.collapse sum.collapse(2))
  have new: "List.find (same_key (coa_UserID ?a) (coa_IdempotencyKey ?a)) (tb_orders ex_db2) = None" by code_simp
  have q: "map oii_Quantity (sort_key oii_ProductID (coa_Items ?a)) = [3]" by code_simp
  from checkout_total_is_exact [OF x new] obtain r and rows :: "order_item list"
    where "tb_orders (snd ?run) = tb_orders ex_db2 @ [r]" "map itm_Quantity rows = [3]"
      "ord_TotalAmountMinor r = (\<Sum>i \<leftarrow> rows. itm_UnitPriceMinor i * itm_Quantity i)"
    unfolding q by (elim exE conjE)
  then show ?thesis by (intro exI conjI)
qed


end
